(* ===== verification/Prelude.thy ===== *)
theory Prelude
  imports Main "HOL-Library.Char_ord" "HOL-Library.List_Lexorder"
begin

text \<open>
  Vocabulary shared by every component: the exceptions the Python code raises, the result
  type of a computation that may raise, the operations on table rows the components use,
  and association-list dictionaries with Python's insertion order.  The collections
  \<open>row_simps\<close> and \<open>dict_simps\<close> gather the facts the component proofs rest on.
\<close>

named_theorems row_simps
named_theorems dict_simps
named_theorems res_simps

section \<open>Exceptions and results\<close>

text \<open>
  A raised exception is a value.  \<open>ValidationError field message code\<close> stands for both
  Django's and DRF's validation errors: \<open>field\<close> is the key of the error dictionary (empty
  for a plain message), \<open>code\<close> the error code.  The exceptions without a handler in the
  code that raises them (\<open>TypeErr\<close>, \<open>DecimalInvalidOperation\<close>, ...) are kept apart.
\<close>

datatype exn =
    ValidationError string string string
  | PermissionDenied string string
  | AuthenticationFailed string
  | NotFound
  | ConflictErr string
  | Throttling int
  | DoesNotExist
  | MultipleObjectsReturned
  | IntegrityErr
  | TypeErr
  | ValueErr
  | KeyErr
  | AttributeErr
  | DecimalInvalidOperation
  | RuntimeErr
  | NotImplementedErr
  | OtherErr string

type_synonym 'a res = "exn + 'a"

abbreviation invalid :: "string \<Rightarrow> exn" where
  "invalid msg \<equiv> ValidationError [] msg ''invalid''"

definition bind_res :: "'a res \<Rightarrow> ('a \<Rightarrow> 'b res) \<Rightarrow> 'b res" where
  "bind_res m k = (case m of Inl e \<Rightarrow> Inl e | Inr x \<Rightarrow> k x)"

definition guard :: "bool \<Rightarrow> exn \<Rightarrow> unit res" where
  "guard b e = (if b then Inr () else Inl e)"

lemma bind_res_simps [simp]:
  "bind_res (Inl e) k = Inl e"
  "bind_res (Inr x) k = k x"
  by (simp_all add: bind_res_def)

lemma bind_res_Inr_iff [res_simps]:
  "bind_res m k = Inr y \<longleftrightarrow> (\<exists>x. m = Inr x \<and> k x = Inr y)"
  by (cases m) simp_all

lemma bind_res_Inl_iff [res_simps]:
  "bind_res m k = Inl e \<longleftrightarrow> m = Inl e \<or> (\<exists>x. m = Inr x \<and> k x = Inl e)"
  by (cases m) simp_all

lemma guard_Inr_iff [res_simps]: "guard b e = Inr u \<longleftrightarrow> b"
  by (simp add: guard_def)

lemma guard_Inl_iff [res_simps]: "guard b e = Inl e' \<longleftrightarrow> \<not> b \<and> e' = e"
  by (auto simp: guard_def)

lemma guard_simps [simp]: "guard True e = Inr ()" "guard False e = Inl e"
  by (simp_all add: guard_def)

text \<open>Python truth of an optional or plain string: \<open>None\<close> and the empty string are false.\<close>

definition truthy :: "string option \<Rightarrow> bool" where
  "truthy s = (case s of None \<Rightarrow> False | Some t \<Rightarrow> t \<noteq> [])"

definition or_empty :: "string option \<Rightarrow> string" where
  "or_empty s = (case s of None \<Rightarrow> [] | Some t \<Rightarrow> t)"

lemma truthy_simps [simp]: "truthy None = False" "truthy (Some t) = (t \<noteq> [])"
  by (simp_all add: truthy_def)

lemma or_empty_simps [simp]: "or_empty None = []" "or_empty (Some t) = t"
  by (simp_all add: or_empty_def)

lemma or_empty_Nil_iff: "or_empty s = [] \<longleftrightarrow> \<not> truthy s"
  by (cases s) simp_all

section \<open>Rows of a table\<close>

text \<open>
  A table is the list of its rows in insertion order.  A queryset filter is a list filter;
  \<open>.first()\<close> is the head of the ordered list, \<open>.get()\<close> raises when there is no row and when
  there are several, and a saved row replaces the row with its key.
\<close>

definition qs_first :: "'r list \<Rightarrow> 'r option" where
  "qs_first rs = (case rs of [] \<Rightarrow> None | r # _ \<Rightarrow> Some r)"

definition qs_get :: "('r \<Rightarrow> bool) \<Rightarrow> 'r list \<Rightarrow> 'r res" where
  "qs_get P rs =
     (case filter P rs of
        [] \<Rightarrow> Inl DoesNotExist
      | [r] \<Rightarrow> Inr r
      | _ \<Rightarrow> Inl MultipleObjectsReturned)"

definition qs_exists :: "('r \<Rightarrow> bool) \<Rightarrow> 'r list \<Rightarrow> bool" where
  "qs_exists P rs = list_ex P rs"

definition save_row :: "('r \<Rightarrow> bool) \<Rightarrow> ('r \<Rightarrow> 'r) \<Rightarrow> 'r list \<Rightarrow> 'r list" where
  "save_row P f rs = map (\<lambda>r. if P r then f r else r) rs"

lemma qs_first_simps [simp]: "qs_first [] = None" "qs_first (r # rs) = Some r"
  by (simp_all add: qs_first_def)

lemma qs_first_Some_mem: "qs_first rs = Some r \<Longrightarrow> r \<in> set rs"
  by (cases rs) simp_all

lemma qs_first_None_iff [row_simps]: "qs_first rs = None \<longleftrightarrow> rs = []"
  by (cases rs) simp_all

lemma qs_exists_iff [row_simps]: "qs_exists P rs \<longleftrightarrow> (\<exists>r \<in> set rs. P r)"
  by (simp add: qs_exists_def list_ex_iff)

lemma qs_get_Inr_iff: "qs_get P rs = Inr r \<longleftrightarrow> filter P rs = [r]"
  by (auto simp: qs_get_def split: list.splits)

lemma qs_get_Inr_D:
  assumes "qs_get P rs = Inr r"
  shows "r \<in> set rs" and "P r"
proof -
  from assms have "filter P rs = [r]" by (simp add: qs_get_Inr_iff)
  then have "r \<in> set (filter P rs)" by simp
  then show "r \<in> set rs" and "P r" by auto
qed

lemma qs_get_unique:
  assumes "qs_get P rs = Inr r" and "x \<in> set rs" and "P x"
  shows "x = r"
proof -
  from assms have "x \<in> set (filter P rs)" by simp
  with assms(1) show ?thesis by (simp add: qs_get_Inr_iff)
qed

lemma qs_get_DoesNotExist_iff:
  "qs_get P rs = Inl DoesNotExist \<longleftrightarrow> (\<forall>r \<in> set rs. \<not> P r)"
proof -
  have "qs_get P rs = Inl DoesNotExist \<longleftrightarrow> filter P rs = []"
    by (auto simp: qs_get_def split: list.splits)
  then show ?thesis by (simp add: filter_empty_conv)
qed

lemma save_row_simps [simp]:
  "save_row P f [] = []"
  "save_row P f (r # rs) = (if P r then f r else r) # save_row P f rs"
  "length (save_row P f rs) = length rs"
  "save_row P f (rs @ ss) = save_row P f rs @ save_row P f ss"
  by (simp_all add: save_row_def)

lemma set_save_row: "set (save_row P f rs) = (\<lambda>r. if P r then f r else r) ` set rs"
  by (simp add: save_row_def)

lemma nth_save_row [simp]:
  "i < length rs \<Longrightarrow> save_row P f rs ! i = (if P (rs ! i) then f (rs ! i) else rs ! i)"
  by (simp add: save_row_def)

lemma save_row_none: "(\<And>r. r \<in> set rs \<Longrightarrow> \<not> P r) \<Longrightarrow> save_row P f rs = rs"
  by (simp add: save_row_def map_idI)

lemma map_save_row:
  "(\<And>r. P r \<Longrightarrow> g (f r) = g r) \<Longrightarrow> map g (save_row P f rs) = map g rs"
  by (simp add: save_row_def)

lemma filter_save_row:
  assumes "\<And>r. P r \<Longrightarrow> Q (f r) = Q r"
  shows "filter Q (save_row P f rs) = save_row P f (filter Q rs)"
  using assms by (induction rs) auto

lemma qs_get_save_row_same:
  assumes "qs_get Q rs = Inr r" and "P r" and "\<And>x. P x \<Longrightarrow> Q (f x) = Q x"
  shows "qs_get Q (save_row P f rs) = Inr (f r)"
  using assms by (simp add: qs_get_Inr_iff filter_save_row)

lemma first_of_sorted:
  assumes "qs_first (sort_key f xs) = Some x"
  shows "x \<in> set xs" and "\<And>y. y \<in> set xs \<Longrightarrow> f x \<le> f y"
proof -
  from assms obtain ys where s: "sort_key f xs = x # ys" by (cases "sort_key f xs") auto
  then show "x \<in> set xs" by (metis list.set_intros(1) set_sort)
  from s have "sorted (map f (x # ys))" by (metis sorted_sort_key)
  moreover from s have "set xs = set (x # ys)" by (metis set_sort)
  ultimately show "f x \<le> f y" if "y \<in> set xs" for y using that by auto
qed

section \<open>Dictionaries in insertion order\<close>

text \<open>
  A Python \<open>dict\<close> whose order is observable is an association list with distinct keys:
  assigning an existing key keeps its position, a new key goes to the end.
\<close>

fun dict_set :: "'k \<Rightarrow> 'v \<Rightarrow> ('k \<times> 'v) list \<Rightarrow> ('k \<times> 'v) list" where
  "dict_set k v [] = [(k, v)]"
| "dict_set k v ((k', v') # d) = (if k = k' then (k, v) # d else (k', v') # dict_set k v d)"

definition dict_pop :: "'k \<Rightarrow> ('k \<times> 'v) list \<Rightarrow> ('k \<times> 'v) list" where
  "dict_pop k d = filter (\<lambda>kv. fst kv \<noteq> k) d"

abbreviation keys :: "('k \<times> 'v) list \<Rightarrow> 'k list" where
  "keys d \<equiv> map fst d"

lemma map_of_dict_set [simp, dict_simps]: "map_of (dict_set k v d) = (map_of d)(k \<mapsto> v)"
  by (induction k v d rule: dict_set.induct) (auto simp: fun_eq_iff)

lemma map_of_dict_pop [simp, dict_simps]: "map_of (dict_pop k d) = (map_of d)(k := None)"
  by (induction d) (auto simp: dict_pop_def fun_eq_iff)

lemma set_keys_dict_set [simp, dict_simps]: "set (keys (dict_set k v d)) = insert k (set (keys d))"
  by (induction k v d rule: dict_set.induct) auto

lemma distinct_dict_set [dict_simps]: "distinct (keys d) \<Longrightarrow> distinct (keys (dict_set k v d))"
proof (induction k v d rule: dict_set.induct)
  case (2 k v k' v' d)
  show ?case
  proof (cases "k = k'")
    case True
    with "2.prems" show ?thesis by simp
  next
    case False
    with "2" have "distinct (keys (dict_set k v d))" by simp
    moreover from False "2.prems" have "k' \<notin> set (keys (dict_set k v d))"
      by (simp only: set_keys_dict_set) simp
    ultimately show ?thesis using False by simp
  qed
qed simp

lemma distinct_dict_pop [dict_simps]: "distinct (keys d) \<Longrightarrow> distinct (keys (dict_pop k d))"
  by (induction d) (auto simp: dict_pop_def)

lemma map_of_eq_Some_iff_mem:
  "distinct (keys d) \<Longrightarrow> map_of d k = Some v \<longleftrightarrow> (k, v) \<in> set d"
  by (rule map_of_eq_Some_iff)

lemma dict_set_fresh: "k \<notin> set (keys d) \<Longrightarrow> dict_set k v d = d @ [(k, v)]"
  by (induction k v d rule: dict_set.induct) auto

section \<open>State machines\<close>

text \<open>
  The contract of a step relation with an invariant: every step keeps it, so it holds in
  every state the steps reach, and a fact every step keeps, once true, stays true.
\<close>

locale state_machine =
  fixes step :: "'s \<Rightarrow> 's \<Rightarrow> bool"
    and good :: "'s \<Rightarrow> bool"
  assumes step_good: "good s \<Longrightarrow> step s s' \<Longrightarrow> good s'"
begin

lemma steps_good: "step\<^sup>*\<^sup>* s s' \<Longrightarrow> good s \<Longrightarrow> good s'"
  by (induction rule: rtranclp_induct) (auto intro: step_good)

lemma steps_stable:
  assumes "step\<^sup>*\<^sup>* s s'" and "good s" and "P s"
    and "\<And>x y. good x \<Longrightarrow> step x y \<Longrightarrow> P x \<Longrightarrow> P y"
  shows "P s'"
  using assms(1,2,3)
proof (induction rule: rtranclp_induct)
  case (step y z)
  then have "good y" by (blast intro: steps_good)
  with step assms(4) show ?case by blast
qed

end

end
