(* ===== verification/PyString.thy ===== *)
theory PyString
  imports Prelude
begin

text \<open>
  The operations of Python's \<open>str\<close> and \<open>int\<close> the code uses, on strings whose code points
  are below 256: \<open>split\<close>, \<open>strip\<close>, \<open>lower\<close>, \<open>join\<close>, \<open>in\<close>, \<open>int(s)\<close> and \<open>str(n)\<close>.
\<close>

section \<open>Character classes\<close>

definition char_code :: "char \<Rightarrow> nat" where
  "char_code c = of_char c"

definition is_space :: "char \<Rightarrow> bool" where
  "is_space c = (let n = char_code c in
     (9 \<le> n \<and> n \<le> 13) \<or> (28 \<le> n \<and> n \<le> 32) \<or> n = 133 \<or> n = 160)"

definition is_digit :: "char \<Rightarrow> bool" where
  "is_digit c = (48 \<le> char_code c \<and> char_code c \<le> 57)"

definition is_upper_ascii :: "char \<Rightarrow> bool" where
  "is_upper_ascii c = (65 \<le> char_code c \<and> char_code c \<le> 90)"

definition is_lower_ascii :: "char \<Rightarrow> bool" where
  "is_lower_ascii c = (97 \<le> char_code c \<and> char_code c \<le> 122)"

definition lower_char :: "char \<Rightarrow> char" where
  "lower_char c = (let n = char_code c in
     if (65 \<le> n \<and> n \<le> 90) \<or> (192 \<le> n \<and> n \<le> 222 \<and> n \<noteq> 215) then char_of (n + 32) else c)"

definition lower :: "string \<Rightarrow> string" where
  "lower s = map lower_char s"

lemma char_code_char_of: "n < 256 \<Longrightarrow> char_code (char_of n) = n"
  by (simp add: char_code_def)

lemma lower_char_idem [simp]: "lower_char (lower_char c) = lower_char c"
proof (cases "(65 \<le> char_code c \<and> char_code c \<le> 90)
    \<or> (192 \<le> char_code c \<and> char_code c \<le> 222 \<and> char_code c \<noteq> 215)")
  case True
  then have "lower_char c = char_of (char_code c + 32)"
    by (simp only: lower_char_def Let_def if_True)
  moreover from True have "char_code (char_of (char_code c + 32)) = char_code c + 32"
    by (intro char_code_char_of) auto
  ultimately show ?thesis using True by (simp only: lower_char_def Let_def) auto
next
  case False
  then have "lower_char c = c" by (simp only: lower_char_def Let_def if_False)
  then show ?thesis by simp
qed

lemma lower_idem [simp]: "lower (lower s) = lower s"
  by (simp add: lower_def)

lemma length_lower [simp]: "length (lower s) = length s"
  by (simp add: lower_def)

section \<open>Splitting, stripping and joining\<close>

fun split_by :: "(char \<Rightarrow> bool) \<Rightarrow> string \<Rightarrow> string list" where
  "split_by P [] = [[]]"
| "split_by P (c # cs) =
     (if P c then [] # split_by P cs
      else (case split_by P cs of [] \<Rightarrow> [[c]] | w # ws \<Rightarrow> (c # w) # ws))"

definition split_on :: "char \<Rightarrow> string \<Rightarrow> string list" where
  "split_on c s = split_by (\<lambda>x. x = c) s"

definition words :: "string \<Rightarrow> string list" where
  "words s = filter (\<lambda>w. w \<noteq> []) (split_by is_space s)"

definition strip :: "string \<Rightarrow> string" where
  "strip s = rev (dropWhile is_space (rev (dropWhile is_space s)))"

fun join :: "string \<Rightarrow> string list \<Rightarrow> string" where
  "join sep [] = []"
| "join sep [w] = w"
| "join sep (w # ws) = w @ sep @ join sep ws"

definition starts_with :: "string \<Rightarrow> string \<Rightarrow> bool" where
  "starts_with p s = (take (length p) s = p)"

fun contains :: "string \<Rightarrow> string \<Rightarrow> bool" where
  "contains p [] = (p = [])"
| "contains p (c # cs) = (starts_with p (c # cs) \<or> contains p cs)"

lemma split_by_nonempty [simp]: "split_by P s \<noteq> []"
  by (induction s) (auto split: list.splits)

lemma split_by_no_sep: "w \<in> set (split_by P s) \<Longrightarrow> c \<in> set w \<Longrightarrow> \<not> P c"
proof (induction s arbitrary: w)
  case (Cons d ds)
  then show ?case
    by (auto split: if_splits list.splits) fastforce+
qed simp

lemma split_by_append_sep:
  "(\<And>c. c \<in> set u \<Longrightarrow> \<not> P c) \<Longrightarrow> P d \<Longrightarrow> split_by P (u @ d # v) = u # split_by P v"
  by (induction u) auto

lemma split_by_id: "(\<And>c. c \<in> set u \<Longrightarrow> \<not> P c) \<Longrightarrow> split_by P u = [u]"
  by (induction u) auto

lemma split_on_join:
  assumes "ws \<noteq> []" and "\<And>w. w \<in> set ws \<Longrightarrow> c \<notin> set w"
  shows "split_on c (join [c] ws) = ws"
  using assms
proof (induction "[c]" ws rule: join.induct)
  case (2 w)
  then show ?case by (auto simp: split_on_def intro!: split_by_id)
next
  case (3 w v vs)
  then have "split_by (\<lambda>x. x = c) (w @ c # join [c] (v # vs))
      = w # split_by (\<lambda>x. x = c) (join [c] (v # vs))"
    by (intro split_by_append_sep) auto
  with 3 show ?case by (simp add: split_on_def)
qed simp

lemma join_split_on: "join [c] (split_on c s) = s"
proof (induction s)
  case Nil
  then show ?case by (simp add: split_on_def)
next
  case (Cons d ds)
  obtain w ws where sp: "split_on c ds = w # ws"
    by (metis split_by_nonempty split_on_def neq_Nil_conv)
  then have eq: "join [c] (w # ws) = ds" using Cons.IH by simp
  show ?case
  proof (cases "d = c")
    case True
    then have "split_on c (d # ds) = [] # w # ws" using sp by (simp add: split_on_def)
    with True eq show ?thesis by simp
  next
    case False
    then have "split_on c (d # ds) = (d # w) # ws" using sp by (simp add: split_on_def)
    moreover have "join [c] ((d # w) # ws) = d # join [c] (w # ws)" by (cases ws) auto
    ultimately show ?thesis using eq by simp
  qed
qed

lemma split_on_no_sep: "w \<in> set (split_on c s) \<Longrightarrow> c \<notin> set w"
  using split_by_no_sep [of w "\<lambda>x. x = c" s] by (auto simp: split_on_def)

lemma length_split_on: "length (split_on c s) = Suc (count_list s c)"
proof (induction s)
  case (Cons d ds)
  then show ?case
    by (cases "split_by (\<lambda>x. x = c) ds") (auto simp: split_on_def)
qed (simp add: split_on_def)

lemma words_nonempty: "w \<in> set (words s) \<Longrightarrow> w \<noteq> [] \<and> (\<forall>c \<in> set w. \<not> is_space c)"
  using split_by_no_sep by (fastforce simp: words_def)

lemma words_Nil [simp]: "words [] = []"
  by (simp add: words_def)

lemma starts_with_iff: "starts_with p s \<longleftrightarrow> (\<exists>t. s = p @ t)"
  by (auto simp: starts_with_def) (metis append_take_drop_id)

lemma contains_iff: "contains p s \<longleftrightarrow> (\<exists>u v. s = u @ p @ v)"
proof (induction s)
  case (Cons c cs)
  show ?case
  proof
    assume "contains p (c # cs)"
    then consider "starts_with p (c # cs)" | "contains p cs" by auto
    then show "\<exists>u v. c # cs = u @ p @ v"
    proof cases
      case 1
      then show ?thesis by (metis starts_with_iff append_Nil)
    next
      case 2
      then show ?thesis by (metis Cons.IH append_Cons)
    qed
  next
    assume "\<exists>u v. c # cs = u @ p @ v"
    then obtain u v where "c # cs = u @ p @ v" by blast
    then show "contains p (c # cs)"
    proof (cases u)
      case Nil
      with \<open>c # cs = u @ p @ v\<close> have "starts_with p (c # cs)" by (auto simp: starts_with_iff)
      then show ?thesis by simp
    next
      case (Cons d ds)
      with \<open>c # cs = u @ p @ v\<close> have "cs = ds @ p @ v" by simp
      then have "contains p cs" using Cons.IH by blast
      then show ?thesis by simp
    qed
  qed
qed auto

section \<open>Integers as text\<close>

definition digit_val :: "char \<Rightarrow> nat" where
  "digit_val c = char_code c - 48"

text \<open>
  \<open>int(s)\<close>: surrounding white space, one optional sign, then digits with single
  underscores between them; \<open>None\<close> is \<open>ValueError\<close>.
\<close>

fun int_body :: "bool \<Rightarrow> nat \<Rightarrow> string \<Rightarrow> nat option" where
  "int_body prev acc [] = (if prev then Some acc else None)"
| "int_body prev acc (c # cs) =
     (if is_digit c then int_body True (acc * 10 + digit_val c) cs
      else if c = CHR ''_'' \<and> prev then int_body False acc cs
      else None)"

definition py_int :: "string \<Rightarrow> int option" where
  "py_int s =
     (case strip s of
        [] \<Rightarrow> None
      | c # cs \<Rightarrow>
          if c = CHR ''-'' then map_option (\<lambda>n. - int n) (int_body False 0 cs)
          else if c = CHR ''+'' then map_option int (int_body False 0 cs)
          else map_option int (int_body False 0 (c # cs)))"

fun show_nat :: "nat \<Rightarrow> string" where
  "show_nat n = (if n < 10 then [char_of (48 + n)]
                 else show_nat (n div 10) @ [char_of (48 + n mod 10)])"

declare show_nat.simps [simp del]

definition show_int :: "int \<Rightarrow> string" where
  "show_int i = (if i < 0 then CHR ''-'' # show_nat (nat (- i)) else show_nat (nat i))"

lemma digit_char:
  assumes "n < 10"
  shows "is_digit (char_of (48 + n))" and "digit_val (char_of (48 + n)) = n"
  using assms by (simp_all add: is_digit_def digit_val_def char_code_char_of)

lemma show_nat_digits: "c \<in> set (show_nat n) \<Longrightarrow> is_digit c"
proof (induction n rule: show_nat.induct)
  case (1 n)
  show ?case
  proof (cases "n < 10")
    case True
    with "1.prems" have "c = char_of (48 + n)" by (subst (asm) show_nat.simps) simp
    with True show ?thesis by (simp only: digit_char)
  next
    case False
    have "show_nat n = show_nat (n div 10) @ [char_of (48 + n mod 10)]"
      using False by (subst show_nat.simps) simp
    with "1.prems" have "c \<in> set (show_nat (n div 10)) \<or> c = char_of (48 + n mod 10)"
      by (simp only: set_append) auto
    moreover have "n mod 10 < 10" by simp
    ultimately show ?thesis using "1.IH" False digit_char(1) by blast
  qed
qed

lemma int_body_digits_snoc:
  assumes "\<And>d. d \<in> set s \<Longrightarrow> is_digit d" and "is_digit c" and "int_body b acc s = Some n"
  shows "int_body b acc (s @ [c]) = Some (n * 10 + digit_val c)"
  using assms by (induction s arbitrary: b acc) (auto split: if_splits)

lemma show_nat_nonempty [simp]: "show_nat n \<noteq> []"
  by (subst show_nat.simps) simp

lemma int_body_show_nat: "int_body False 0 (show_nat n) = Some n"
proof (induction n rule: show_nat.induct)
  case (1 n)
  show ?case
  proof (cases "n < 10")
    case True
    then show ?thesis
      by (subst show_nat.simps) (simp add: digit_char)
  next
    case False
    have "int_body False 0 (show_nat (n div 10) @ [char_of (48 + n mod 10)])
        = Some ((n div 10) * 10 + digit_val (char_of (48 + n mod 10)))"
      using "1.IH" False show_nat_digits digit_char(1) [of "n mod 10"]
      by (intro int_body_digits_snoc) auto
    moreover have "digit_val (char_of (48 + n mod 10)) = n mod 10"
      by (intro digit_char(2)) simp
    ultimately show ?thesis using False by (subst show_nat.simps) simp
  qed
qed

lemma is_digit_not_space: "is_digit c \<Longrightarrow> \<not> is_space c"
  by (auto simp: is_digit_def is_space_def Let_def)

lemma strip_id:
  assumes "s \<noteq> []" and "\<not> is_space (hd s)" and "\<not> is_space (last s)"
  shows "strip s = s"
proof -
  from assms(1,2) have "dropWhile is_space s = s" by (cases s) auto
  moreover from assms(1,3) have "dropWhile is_space (rev s) = rev s"
    by (cases s rule: rev_cases) auto
  ultimately show ?thesis by (simp add: strip_def)
qed

lemma py_int_show_int: "py_int (show_int i) = Some i"
proof -
  have nat_case: "py_int (show_nat n) = Some (int n)" for n
  proof -
    obtain c cs where s: "show_nat n = c # cs" by (cases "show_nat n") auto
    have d: "is_digit c" using show_nat_digits [of c n] s by simp
    have "is_digit (last (show_nat n))" using show_nat_digits [of "last (show_nat n)" n] by simp
    then have "strip (show_nat n) = show_nat n"
      using d s by (intro strip_id) (auto simp: is_digit_not_space)
    moreover have "c \<noteq> CHR ''-'' \<and> c \<noteq> CHR ''+''"
      using d by (auto simp: is_digit_def char_code_def)
    ultimately show ?thesis
      using int_body_show_nat [of n] s by (simp add: py_int_def)
  qed
  show ?thesis
  proof (cases "i < 0")
    case False
    then show ?thesis using nat_case [of "nat i"] by (simp add: show_int_def)
  next
    case True
    let ?n = "nat (- i)"
    have "is_digit (last (show_nat ?n))"
      using show_nat_digits [of "last (show_nat ?n)" ?n] by simp
    then have "strip (CHR ''-'' # show_nat ?n) = CHR ''-'' # show_nat ?n"
      using is_digit_not_space [of "last (show_nat ?n)"]
      by (intro strip_id) (simp_all, simp add: is_space_def char_code_def)
    with True show ?thesis
      by (simp add: py_int_def show_int_def int_body_show_nat)
  qed
qed

end
