(* ===== verification/Stores.thy ===== *)
theory Stores
  imports PyString
begin

text \<open>
  Interfaces of the stores the platform relies on.  \<open>kv_store\<close> is the contract of a keyed
  store (per-user attributes, the in-memory file backend).  \<open>cache_api\<close> is the documented
  behaviour of the cache service (Django's cache API over Redis, and the Redis commands
  \<open>GET\<close>, \<open>SET key value EX ttl\<close>): the service is not part of the repository, so the
  components take its operations as an argument \<open>('s, 'x) cache_ops\<close> and their theorems
  assume \<open>cache_api\<close>.  \<open>ttl_cache\<close> is a concrete service with expiring entries that meets
  the contract.
\<close>

section \<open>Keyed stores\<close>

locale kv_store =
  fixes get :: "'s \<Rightarrow> 'k \<Rightarrow> 'v option"
    and put :: "'k \<Rightarrow> 'v \<Rightarrow> 's \<Rightarrow> 's"
    and del :: "'k \<Rightarrow> 's \<Rightarrow> 's"
    and inv :: "'s \<Rightarrow> bool"
  assumes get_put: "inv s \<Longrightarrow> get (put k v s) k' = (if k' = k then Some v else get s k')"
    and get_del: "inv s \<Longrightarrow> get (del k s) k' = (if k' = k then None else get s k')"
    and inv_put: "inv s \<Longrightarrow> inv (put k v s)"
    and inv_del: "inv s \<Longrightarrow> inv (del k s)"
begin

lemma inv_puts: "inv s \<Longrightarrow> inv (fold (\<lambda>(k, v). put k v) kvs s)"
  by (induction kvs arbitrary: s) (auto simp: inv_put)

lemma get_puts:
  "inv s \<Longrightarrow> get (fold (\<lambda>(k, v). put k v) kvs s) k =
     (case map_of (rev kvs) k of None \<Rightarrow> get s k | Some v \<Rightarrow> Some v)"
proof (induction kvs arbitrary: s)
  case (Cons kv kvs)
  then show ?case
    by (cases kv) (auto simp: inv_put get_put map_add_def split: option.splits)
qed simp

lemma put_overwrites: "inv s \<Longrightarrow> get (put k w (put k v s)) k' = get (put k w s) k'"
  by (simp add: get_put inv_put)

lemma del_put: "inv s \<Longrightarrow> get s k = None \<Longrightarrow> get (del k (put k v s)) k' = get s k'"
  by (simp add: get_put get_del inv_put)

end

section \<open>The cache service\<close>

datatype 'x cval = CInt int | CObj 'x

record ('s, 'x) cache_ops =
  c_get :: "string \<Rightarrow> 's \<Rightarrow> 'x cval option"
  c_set :: "string \<Rightarrow> 'x cval \<Rightarrow> int option \<Rightarrow> 's \<Rightarrow> 's"
  c_add :: "string \<Rightarrow> 'x cval \<Rightarrow> int option \<Rightarrow> 's \<Rightarrow> bool \<times> 's"
  c_incr :: "string \<Rightarrow> 's \<Rightarrow> (int \<times> 's) option"
  c_delete :: "string \<Rightarrow> 's \<Rightarrow> 's"

text \<open>
  \<open>view s\<close> is the set of live entries of a cache state with their remaining seconds
  (\<open>None\<close>: no expiry).  A positive timeout or none stores the entry.  \<open>wait d s\<close> is the
  state \<open>d\<close> seconds later with no operation in between.
\<close>

definition live_timeout :: "int option \<Rightarrow> bool" where
  "live_timeout t = (case t of None \<Rightarrow> True | Some n \<Rightarrow> 0 < n)"

definition age :: "int \<Rightarrow> ('v \<times> int option) option \<Rightarrow> ('v \<times> int option) option" where
  "age d e = (case e of
      None \<Rightarrow> None
    | Some (v, None) \<Rightarrow> Some (v, None)
    | Some (v, Some t) \<Rightarrow> if t \<le> d then None else Some (v, Some (t - d)))"

lemma live_timeout_simps [simp]: "live_timeout None" "live_timeout (Some n) = (0 < n)"
  by (simp_all add: live_timeout_def)

lemma age_simps [simp]:
  "age d None = None"
  "age d (Some (v, None)) = Some (v, None)"
  "age d (Some (v, Some t)) = (if t \<le> d then None else Some (v, Some (t - d)))"
  by (simp_all add: age_def)

locale cache_api =
  fixes C :: "('s, 'x) cache_ops"
    and view :: "'s \<Rightarrow> string \<Rightarrow> ('x cval \<times> int option) option"
    and wait :: "int \<Rightarrow> 's \<Rightarrow> 's"
  assumes get_view: "c_get C k s = map_option fst (view s k)"
    and set_view: "live_timeout t \<Longrightarrow> view (c_set C k v t s) = (view s)(k \<mapsto> (v, t))"
    and add_absent: "live_timeout t \<Longrightarrow> view s k = None \<Longrightarrow>
          fst (c_add C k v t s) \<and> view (snd (c_add C k v t s)) = (view s)(k \<mapsto> (v, t))"
    and add_present: "view s k = Some e \<Longrightarrow> c_add C k v t s = (False, s)"
    and incr_absent: "view s k = None \<Longrightarrow> c_incr C k s = None"
    and incr_present: "view s k = Some (CInt n, t) \<Longrightarrow>
          \<exists>s'. c_incr C k s = Some (n + 1, s') \<and> view s' = (view s)(k \<mapsto> (CInt (n + 1), t))"
    and delete_view: "view (c_delete C k s) = (view s)(k := None)"
    and wait_view: "0 \<le> d \<Longrightarrow> view (wait d s) k = age d (view s k)"
begin

lemma get_set: "live_timeout t \<Longrightarrow> c_get C k' (c_set C k v t s) = (if k' = k then Some v else c_get C k' s)"
  by (simp add: get_view set_view)

lemma get_delete: "c_get C k' (c_delete C k s) = (if k' = k then None else c_get C k' s)"
  by (simp add: get_view delete_view)

text \<open>
  A counter bump, as both the lockout and the rate limiter perform it: \<open>add\<close> a fresh
  counter, otherwise \<open>incr\<close> it.
\<close>

lemma bump_absent:
  assumes "view s k = None" and "live_timeout t"
  obtains s' where "c_add C k (CInt 1) t s = (True, s')" and "view s' = (view s)(k \<mapsto> (CInt 1, t))"
  using add_absent [OF assms(2,1), of "CInt 1"] by (metis prod.collapse)

lemma bump_present:
  assumes "view s k = Some (CInt n, r)"
  obtains s' where "c_add C k (CInt 1) t s = (False, s)" and "c_incr C k s = Some (n + 1, s')"
    and "view s' = (view s)(k \<mapsto> (CInt (n + 1), r))"
  using add_present [OF assms, of "CInt 1" t] incr_present [OF assms] by blast

end

section \<open>A service with expiring entries\<close>

type_synonym 'x ttl = "string \<Rightarrow> ('x cval \<times> int option) option"

definition ttl_set :: "string \<Rightarrow> 'x cval \<Rightarrow> int option \<Rightarrow> 'x ttl \<Rightarrow> 'x ttl" where
  "ttl_set k v t s = (if live_timeout t then s(k \<mapsto> (v, t)) else s(k := None))"

definition ttl_cache :: "('x ttl, 'x) cache_ops" where
  "ttl_cache = \<lparr>
     c_get = (\<lambda>k s. map_option fst (s k)),
     c_set = ttl_set,
     c_add = (\<lambda>k v t s. case s k of None \<Rightarrow> (True, ttl_set k v t s) | Some _ \<Rightarrow> (False, s)),
     c_incr = (\<lambda>k s. case s k of
         Some (CInt n, t) \<Rightarrow> Some (n + 1, s(k \<mapsto> (CInt (n + 1), t)))
       | _ \<Rightarrow> None),
     c_delete = (\<lambda>k s. s(k := None)) \<rparr>"

definition ttl_view :: "'x ttl \<Rightarrow> string \<Rightarrow> ('x cval \<times> int option) option" where
  "ttl_view s = s"

definition ttl_wait :: "int \<Rightarrow> 'x ttl \<Rightarrow> 'x ttl" where
  "ttl_wait d s = (\<lambda>k. age d (s k))"

interpretation ttl: cache_api ttl_cache ttl_view ttl_wait
  by unfold_locales (auto simp: ttl_cache_def ttl_view_def ttl_set_def ttl_wait_def)

end
