(* ===== verification/Identity.thy ===== *)
theory Identity
  imports Stores
begin

text \<open>
  Users, tenants, memberships and roles (the models of \<open>apps/iam_users\<close>, \<open>apps/iam_roles\<close> and
  \<open>apps/tenants\<close>), the request as the views see it, the tenant of a request, behavioural
  events (\<open>apps/sys_user_event\<close>), and the per-user, per-tenant attribute store
  (\<open>apps/iam_users/services.py\<close>) with its interpretation as a keyed store.
\<close>

section \<open>Rows\<close>

record user =
  usr_id :: string
  usr_email :: string
  usr_first_name :: string
  usr_last_name :: string
  usr_is_active :: bool
  usr_is_superuser :: bool
  usr_password :: string
  usr_created_at :: int

record tenant =
  tn_id :: string
  tn_name :: string
  tn_code :: string
  tn_is_active :: bool

record tenant_role =
  role_id :: string
  role_tenant :: string
  role_name :: string
  role_kind :: string
  role_description :: string
  role_permissions :: "(string \<times> int) list"

record membership =
  mb_id :: string
  mb_user :: string
  mb_tenant :: string
  mb_role :: string
  mb_is_admin :: bool
  mb_is_active :: bool
  mb_joined_at :: int

section \<open>Requests and the tenant of a request\<close>

text \<open>
  \<open>rq_user = None\<close> is an anonymous request.  \<open>rq_auth\<close> are the claims of the validated JWT;
  \<open>None\<close> when the request carries none.
\<close>

record request =
  rq_user :: "user option"
  rq_auth :: "(string \<rightharpoonup> string) option"
  rq_method :: string
  rq_path :: string
  rq_ip :: string
  rq_query :: "string \<rightharpoonup> string"

definition get_tenant_id :: "request \<Rightarrow> string option" where
  "get_tenant_id rq = (case rq_auth rq of None \<Rightarrow> None | Some claims \<Rightarrow> claims ''tenant_id'')"

text \<open>The tenant the code acts on: \<open>if not tenant_id\<close> also rejects the empty claim.\<close>

definition tenant_of :: "request \<Rightarrow> string option" where
  "tenant_of rq = (case get_tenant_id rq of
     None \<Rightarrow> None | Some t \<Rightarrow> if t = [] then None else Some t)"

lemma tenant_of_Some_iff: "tenant_of rq = Some t \<longleftrightarrow> get_tenant_id rq = Some t \<and> t \<noteq> []"
  by (auto simp: tenant_of_def split: option.splits)

lemma tenant_of_None_iff: "tenant_of rq = None \<longleftrightarrow> \<not> truthy (get_tenant_id rq)"
  by (auto simp: tenant_of_def split: option.splits)

text \<open>Concrete values for examples.\<close>

definition sample_user :: "string \<Rightarrow> bool \<Rightarrow> user" where
  "sample_user i super = \<lparr>usr_id = i, usr_email = i @ ''@x.io'', usr_first_name = ''A'',
     usr_last_name = ''B'', usr_is_active = True, usr_is_superuser = super,
     usr_password = ''hash'', usr_created_at = 0\<rparr>"

definition sample_request :: "user option \<Rightarrow> string option \<Rightarrow> request" where
  "sample_request u t = \<lparr>rq_user = u,
     rq_auth = Some (case t of None \<Rightarrow> Map.empty | Some x \<Rightarrow> [''tenant_id'' \<mapsto> x]),
     rq_method = ''GET'', rq_path = ''/'', rq_ip = ''10.0.0.1'', rq_query = Map.empty\<rparr>"

lemma tenant_of_sample [simp]:
  "tenant_of (sample_request u (Some t)) = (if t = [] then None else Some t)"
  "tenant_of (sample_request u None) = None"
  "rq_user (sample_request u t') = u"
  by (auto simp: sample_request_def tenant_of_def get_tenant_id_def)

section \<open>User events\<close>

record user_event =
  ev_actor :: "user option"
  ev_user_email :: string
  ev_category :: string
  ev_event :: string
  ev_tenant :: "string option"
  ev_metadata :: "(string \<times> string) list"

text \<open>
  \<open>record_event\<close>: the e-mail falls back to the actor's; the metadata defaults to the empty
  dictionary.
\<close>

definition record_event ::
  "user option \<Rightarrow> string \<Rightarrow> string \<Rightarrow> string \<Rightarrow> string option \<Rightarrow> (string \<times> string) list
    \<Rightarrow> user_event list \<Rightarrow> user_event list" where
  "record_event actor user_email category event tenant metadata log =
     log @ [\<lparr> ev_actor = actor,
       ev_user_email = (if user_email \<noteq> [] then user_email
                        else (case actor of None \<Rightarrow> [] | Some u \<Rightarrow> usr_email u)),
       ev_category = category, ev_event = event, ev_tenant = tenant,
       ev_metadata = metadata \<rparr>]"

lemma length_record_event [simp]:
  "length (record_event a m c e t d log) = Suc (length log)"
  by (simp add: record_event_def)

section \<open>Per-user, per-tenant attributes\<close>

record user_attribute =
  ua_user :: string
  ua_tenant :: string
  ua_attribute :: string
  ua_value :: string

definition attr_key :: "user_attribute \<Rightarrow> string \<times> string \<times> string" where
  "attr_key a = (ua_user a, ua_tenant a, ua_attribute a)"

definition attr_inv :: "user_attribute list \<Rightarrow> bool" where
  "attr_inv tab = distinct (map attr_key tab)"

definition get_attribute ::
  "user_attribute list \<Rightarrow> string \<Rightarrow> string \<Rightarrow> string \<Rightarrow> string option \<Rightarrow> string option" where
  "get_attribute tab u t a dflt =
     (case qs_first (filter (\<lambda>r. attr_key r = (u, t, a)) tab) of
        None \<Rightarrow> dflt | Some r \<Rightarrow> Some (ua_value r))"

definition set_attribute ::
  "string \<Rightarrow> string \<Rightarrow> string \<Rightarrow> string \<Rightarrow> user_attribute list \<Rightarrow> user_attribute list" where
  "set_attribute u t a v tab =
     (let P = (\<lambda>r. attr_key r = (u, t, a)) in
      if qs_exists P tab then save_row P (\<lambda>r. r\<lparr>ua_value := v\<rparr>) tab
      else tab @ [\<lparr>ua_user = u, ua_tenant = t, ua_attribute = a, ua_value = v\<rparr>])"

definition delete_attribute ::
  "string \<Rightarrow> string \<Rightarrow> string \<Rightarrow> user_attribute list \<Rightarrow> user_attribute list" where
  "delete_attribute u t a tab =
     filter (\<lambda>r. attr_key r \<noteq> (u, t, a)) tab"

lemma get_attribute_Nil [simp]: "get_attribute [] u t a d = d"
  by (simp add: get_attribute_def)

lemma get_attribute_Cons [simp]:
  "get_attribute (r # tab) u t a d =
     (if attr_key r = (u, t, a) then Some (ua_value r) else get_attribute tab u t a d)"
  by (simp add: get_attribute_def)

lemma get_attribute_append:
  "get_attribute (tab @ tab') u t a d = get_attribute tab u t a (get_attribute tab' u t a d)"
  by (induction tab) simp_all

lemma get_attribute_save:
  "get_attribute (save_row (\<lambda>r. attr_key r = k) (\<lambda>r. r\<lparr>ua_value := v\<rparr>) tab) u t a d =
     (if k = (u, t, a) \<and> k \<in> attr_key ` set tab then Some v else get_attribute tab u t a d)"
proof (induction tab)
  case (Cons r tab)
  have "attr_key (r\<lparr>ua_value := v\<rparr>) = attr_key r" by (simp add: attr_key_def)
  with Cons show ?case by auto
qed simp

lemma get_set_attribute:
  "get_attribute (set_attribute u t a v tab) u' t' a' d =
     (if (u, t, a) = (u', t', a') then Some v else get_attribute tab u' t' a' d)"
proof (cases "\<exists>r \<in> set tab. attr_key r = (u, t, a)")
  case True
  then have "(u, t, a) \<in> attr_key ` set tab" by force
  with True show ?thesis
    by (simp add: set_attribute_def Let_def qs_exists_iff get_attribute_save)
next
  case False
  then have none: "get_attribute tab u t a e = e" for e
    by (induction tab) auto
  from False have "set_attribute u t a v tab
      = tab @ [\<lparr>ua_user = u, ua_tenant = t, ua_attribute = a, ua_value = v\<rparr>]"
    by (simp add: set_attribute_def Let_def qs_exists_iff)
  then have "get_attribute (set_attribute u t a v tab) u' t' a' d
      = get_attribute tab u' t' a' (if (u, t, a) = (u', t', a') then Some v else d)"
    by (simp add: get_attribute_append attr_key_def)
  with none show ?thesis by (cases "(u, t, a) = (u', t', a')") auto
qed

lemma get_delete_attribute:
  "get_attribute (delete_attribute u t a tab) u' t' a' d =
     (if (u', t', a') = (u, t, a) then d else get_attribute tab u' t' a' d)"
  by (induction tab) (auto simp: delete_attribute_def)

lemma attr_inv_set: "attr_inv tab \<Longrightarrow> attr_inv (set_attribute u t a v tab)"
proof -
  assume inv: "attr_inv tab"
  have "map attr_key (save_row P (\<lambda>r. r\<lparr>ua_value := v\<rparr>) tab) = map attr_key tab" for P
    by (rule map_save_row) (simp add: attr_key_def)
  with inv show ?thesis
    by (auto simp: set_attribute_def Let_def attr_inv_def qs_exists_iff attr_key_def)
qed

lemma attr_inv_delete: "attr_inv tab \<Longrightarrow> attr_inv (delete_attribute u t a tab)"
  by (simp add: attr_inv_def delete_attribute_def distinct_map_filter)

interpretation user_attributes: kv_store
  "\<lambda>tab (u, t, a). get_attribute tab u t a None"
  "\<lambda>(u, t, a) v. set_attribute u t a v"
  "\<lambda>(u, t, a). delete_attribute u t a"
  attr_inv
  by unfold_locales
     (simp_all add: get_set_attribute get_delete_attribute attr_inv_set attr_inv_delete
       split: prod.splits del: prod.inject)

end
