(* ===== verification/Tenancy.thy ===== *)
theory Tenancy
  imports Identity
begin

text \<open>
  Tenant isolation: the boundary scope (\<open>core/base/context.py\<close>), its binding during
  authentication and its release by the middleware (\<open>apps/tenants\<close>), and the three places
  that restrict rows to a tenant: the manager, the viewset plugin and the filter backend.
  The contract they share is the locale \<open>tenant_scoping\<close>.
\<close>

section \<open>Boundary scope\<close>

type_synonym scope = "(string \<times> string) list"

text \<open>The context variable: \<open>None\<close> when nothing is bound.  A token is the value it restores.\<close>

type_synonym ctx = "scope option"

definition bind_scope :: "scope \<Rightarrow> ctx \<Rightarrow> ctx \<times> ctx" where
  "bind_scope s c = (c, Some s)"

definition get_bound_scope :: "ctx \<Rightarrow> scope" where
  "get_bound_scope c = (case c of None \<Rightarrow> [] | Some s \<Rightarrow> s)"

definition unbind_scope :: "ctx \<Rightarrow> ctx \<Rightarrow> ctx" where
  "unbind_scope token c = token"

text \<open>The tenant of the bound scope; the code tests it for truth.\<close>

definition scope_tenant :: "ctx \<Rightarrow> string option" where
  "scope_tenant c = (case map_of (get_bound_scope c) ''tenant_id'' of
     None \<Rightarrow> None | Some t \<Rightarrow> if t = [] then None else Some t)"

lemma scope_tenant_None [simp]: "scope_tenant None = None"
  by (simp add: scope_tenant_def get_bound_scope_def)

lemma scope_tenant_bound [simp]:
  "scope_tenant (Some [(''tenant_id'', t)]) = (if t = [] then None else Some t)"
  by (simp add: scope_tenant_def get_bound_scope_def)

section \<open>Authentication and middleware\<close>

text \<open>
  \<open>jwt_authenticate\<close> is simplejwt's \<open>authenticate\<close>: \<open>Inr None\<close> when there is no bearer
  token, otherwise the user and the claims.  \<open>get_user\<close> returns the anonymous user for a
  client-credentials token without a database lookup.
\<close>

definition get_user ::
  "((string \<rightharpoonup> string) \<Rightarrow> user res) \<Rightarrow> (string \<rightharpoonup> string) \<Rightarrow> user option res" where
  "get_user jwt_get_user claims =
     (if claims ''token_type_hint'' = Some ''client_credentials'' then Inr None
      else (case jwt_get_user claims of Inl e \<Rightarrow> Inl e | Inr u \<Rightarrow> Inr (Some u)))"

definition authenticate ::
  "(user option \<times> (string \<rightharpoonup> string)) option res \<Rightarrow> ctx
    \<Rightarrow> (user option \<times> (string \<rightharpoonup> string)) option res \<times> ctx \<times> ctx option" where
  "authenticate jwt_result c =
     (case jwt_result of
        Inl e \<Rightarrow> (Inl e, c, None)
      | Inr None \<Rightarrow> (Inr None, c, None)
      | Inr (Some (u, claims)) \<Rightarrow>
          (case claims ''tenant_id'' of
             None \<Rightarrow> (Inr (Some (u, claims)), c, None)
           | Some t \<Rightarrow>
               if t = [] then (Inr (Some (u, claims)), c, None)
               else let (token, c') = bind_scope [(''tenant_id'', t)] c
                    in (Inr (Some (u, claims)), c', Some token)))"

text \<open>
  A view run: authentication, then a handler that sees the bound context and returns or
  raises.  The result is what \<open>get_response\<close> leaves behind: the outcome, the context
  and the token stored on the request.
\<close>

definition run_view ::
  "(user option \<times> (string \<rightharpoonup> string)) option res
    \<Rightarrow> ((user option \<times> (string \<rightharpoonup> string)) option \<Rightarrow> ctx \<Rightarrow> 'a res)
    \<Rightarrow> ctx \<Rightarrow> 'a res \<times> ctx \<times> ctx option" where
  "run_view jwt_result handler c =
     (let (r, c', tok) = authenticate jwt_result c in
        (case r of Inl e \<Rightarrow> (Inl e, c', tok) | Inr p \<Rightarrow> (handler p c', c', tok)))"

definition tenant_context_middleware ::
  "(ctx \<Rightarrow> 'a res \<times> ctx \<times> ctx option) \<Rightarrow> ctx \<Rightarrow> 'a res \<times> ctx" where
  "tenant_context_middleware get_response c =
     (let (r, c', tok) = get_response c in
        (r, (case tok of None \<Rightarrow> c' | Some t \<Rightarrow> unbind_scope t c')))"

text \<open>
  \<open>TenantTelemetryMiddleware\<close> reads the scope before calling the rest of the stack; the
  second component is the span attribute \<open>tenant.id\<close> it sets.
\<close>

definition tenant_telemetry_middleware ::
  "(ctx \<Rightarrow> 'b) \<Rightarrow> ctx \<Rightarrow> 'b \<times> string option" where
  "tenant_telemetry_middleware get_response c =
     (let attr = map_of (get_bound_scope c) ''tenant_id'' in (get_response c, attr))"

lemma run_view_ctx:
  "run_view jwt h c = (r, c', tok) \<Longrightarrow>
     (tok = None \<and> c' = c) \<or> (tok = Some c)"
  by (auto simp: run_view_def authenticate_def bind_scope_def Let_def
      split: sum.splits option.splits prod.splits if_splits)

section \<open>Restricting rows to a tenant\<close>

locale tenant_scoping =
  fixes scoped :: "'c \<Rightarrow> 'r list \<Rightarrow> 'r list"
    and row_tenant :: "'r \<Rightarrow> string"
    and enforced :: "'c \<Rightarrow> string option"
  assumes scoped_filter:
    "enforced c = Some t \<Longrightarrow> scoped c rs = filter (\<lambda>r. row_tenant r = t) rs"
    and scoped_subset: "set (scoped c rs) \<subseteq> set rs"
begin

lemma scoped_own: "enforced c = Some t \<Longrightarrow> r \<in> set (scoped c rs) \<Longrightarrow> row_tenant r = t"
  by (simp add: scoped_filter)

lemma scoped_exact:
  "enforced c = Some t \<Longrightarrow> set (scoped c rs) = {r \<in> set rs. row_tenant r = t}"
  by (auto simp: scoped_filter)

lemma scoped_idem: "enforced c = Some t \<Longrightarrow> scoped c (scoped c rs) = scoped c rs"
  by (simp add: scoped_filter)

lemma scoped_disjoint:
  "enforced c = Some t \<Longrightarrow> enforced c' = Some t' \<Longrightarrow> t \<noteq> t' \<Longrightarrow> scoped c' (scoped c rs) = []"
  by (auto simp: scoped_filter filter_empty_conv)

end

text \<open>\<open>TenantManager.get_queryset\<close> and \<open>unscoped\<close>.\<close>

definition manager_queryset :: "('r \<Rightarrow> string) \<Rightarrow> ctx \<Rightarrow> 'r list \<Rightarrow> 'r list" where
  "manager_queryset row_tenant c rows =
     (case scope_tenant c of None \<Rightarrow> rows | Some t \<Rightarrow> filter (\<lambda>r. row_tenant r = t) rows)"

definition manager_unscoped :: "'r list \<Rightarrow> 'r list" where
  "manager_unscoped rows = rows"

text \<open>
  \<open>TenantFilterBackend.filter_queryset\<close>: \<open>row_tenant = None\<close> is a model without a
  \<open>tenant_id\<close> field; \<open>scoping_on\<close> is the view's opt-out flag.
\<close>

definition backend_filter_queryset ::
  "bool \<Rightarrow> ('r \<Rightarrow> string) option \<Rightarrow> request \<Rightarrow> 'r list \<Rightarrow> 'r list" where
  "backend_filter_queryset scoping_on row_tenant rq rows =
     (if \<not> scoping_on then rows
      else case row_tenant of
        None \<Rightarrow> rows
      | Some f \<Rightarrow>
          (case tenant_of rq of None \<Rightarrow> [] | Some t \<Rightarrow> filter (\<lambda>r. f r = t) rows))"

text \<open>
  \<open>TenantContextViewSetPlugin.filter_queryset\<close>: filtering a model that has no
  \<open>tenant_id\<close> field by it raises (Django's \<open>FieldError\<close>).
\<close>

definition rq_superuser :: "request \<Rightarrow> bool" where
  "rq_superuser rq = (case rq_user rq of None \<Rightarrow> False | Some u \<Rightarrow> usr_is_superuser u)"

definition plugin_filter_queryset ::
  "('r \<Rightarrow> string) option \<Rightarrow> request \<Rightarrow> 'r list \<Rightarrow> 'r list res" where
  "plugin_filter_queryset row_tenant rq rows =
     (if rq_superuser rq then Inr rows
      else case tenant_of rq of
        None \<Rightarrow> Inr []
      | Some t \<Rightarrow>
          (case row_tenant of
             None \<Rightarrow> Inl (OtherErr ''FieldError'')
           | Some f \<Rightarrow> Inr (filter (\<lambda>r. f r = t) rows)))"

definition plugin_on_build_context :: "request option \<Rightarrow> (string \<rightharpoonup> string) \<Rightarrow> (string \<rightharpoonup> string)" where
  "plugin_on_build_context rq context =
     (case rq of
        None \<Rightarrow> context
      | Some q \<Rightarrow> (case tenant_of q of None \<Rightarrow> context | Some t \<Rightarrow> context(''tenant_id'' \<mapsto> t)))"

interpretation manager: tenant_scoping
  "\<lambda>c. manager_queryset row_tenant c" row_tenant scope_tenant
  for row_tenant :: "'r \<Rightarrow> string"
  by unfold_locales (auto simp: manager_queryset_def split: option.splits)

interpretation backend: tenant_scoping
  "\<lambda>rq. backend_filter_queryset True (Some row_tenant) rq" row_tenant tenant_of
  for row_tenant :: "'r \<Rightarrow> string"
  by unfold_locales (auto simp: backend_filter_queryset_def split: option.splits)

interpretation plugin: tenant_scoping
  "\<lambda>rq rows. case plugin_filter_queryset (Some row_tenant) rq rows of Inl _ \<Rightarrow> [] | Inr rs \<Rightarrow> rs"
  row_tenant "\<lambda>rq. if rq_superuser rq then None else tenant_of rq"
  for row_tenant :: "'r \<Rightarrow> string"
  by unfold_locales
     (auto simp: plugin_filter_queryset_def split: option.splits if_splits)

section \<open>The list endpoint of a viewset\<close>

text \<open>
  \<open>BaseGenericViewSet.get_queryset\<close>: the class attribute \<open>queryset = Model.objects.all()\<close>
  is built when the class is created, under the scope of that moment (\<open>import_ctx\<close>), then
  filtered by the viewset plugin and by the URL's parent fields.
\<close>

definition parent_filter ::
  "(string \<times> ('r \<Rightarrow> string)) list \<Rightarrow> (string \<rightharpoonup> string) \<Rightarrow> 'r list \<Rightarrow> 'r list" where
  "parent_filter lookups url_kwargs rows =
     fold (\<lambda>(k, f) rs. case url_kwargs k of None \<Rightarrow> rs | Some v \<Rightarrow> filter (\<lambda>r. f r = v) rs)
       lookups rows"

definition viewset_get_queryset ::
  "ctx \<Rightarrow> ('r \<Rightarrow> string) option \<Rightarrow> (string \<times> ('r \<Rightarrow> string)) list \<Rightarrow> (string \<rightharpoonup> string)
     \<Rightarrow> request \<Rightarrow> 'r list \<Rightarrow> 'r list res" where
  "viewset_get_queryset import_ctx row_tenant lookups url_kwargs rq rows =
     (let base = (case row_tenant of
                    None \<Rightarrow> rows | Some f \<Rightarrow> manager_queryset f import_ctx rows) in
      case plugin_filter_queryset row_tenant rq base of
        Inl e \<Rightarrow> Inl e
      | Inr qs \<Rightarrow> Inr (parent_filter lookups url_kwargs qs))"

text \<open>
  \<open>SoftDeleteFilterBackend.filter_queryset\<close>.  \<open>admin_here\<close> is the result of
  \<open>request.user.memberships.filter(is_active=True, is_admin=True).exists()\<close>.
\<close>

definition soft_delete_filter ::
  "bool \<Rightarrow> ('r \<Rightarrow> bool) option \<Rightarrow> request \<Rightarrow> 'r list \<Rightarrow> 'r list" where
  "soft_delete_filter admin_here deleted rq rows =
     (let allowed = (case rq_user rq of None \<Rightarrow> False
                     | Some u \<Rightarrow> usr_is_superuser u \<or> admin_here) in
      if allowed \<and> lower (or_empty (rq_query rq ''include_deleted'')) \<in> {''true'', ''1''}
      then rows
      else case deleted of None \<Rightarrow> rows | Some d \<Rightarrow> filter (\<lambda>r. \<not> d r) rows)"

definition list_rows ::
  "ctx \<Rightarrow> bool \<Rightarrow> ('r \<Rightarrow> string) option \<Rightarrow> (string \<times> ('r \<Rightarrow> string)) list \<Rightarrow> (string \<rightharpoonup> string)
     \<Rightarrow> bool \<Rightarrow> ('r \<Rightarrow> bool) option \<Rightarrow> request \<Rightarrow> 'r list \<Rightarrow> 'r list res" where
  "list_rows import_ctx scoping_on row_tenant lookups url_kwargs admin_here deleted rq rows =
     (case viewset_get_queryset import_ctx row_tenant lookups url_kwargs rq rows of
        Inl e \<Rightarrow> Inl e
      | Inr qs \<Rightarrow> Inr (backend_filter_queryset scoping_on row_tenant rq
                     (soft_delete_filter admin_here deleted rq qs)))"

lemma parent_filter_subset: "set (parent_filter lookups kw rows) \<subseteq> set rows"
  unfolding parent_filter_def
proof (induction lookups arbitrary: rows)
  case (Cons l ls)
  obtain k f where l: "l = (k, f)" by (cases l)
  have "set (case kw k of None \<Rightarrow> rows | Some v \<Rightarrow> filter (\<lambda>r. f r = v) rows) \<subseteq> set rows"
    by (auto split: option.splits)
  with Cons.IH l show ?case by (fastforce split: option.splits)
qed simp

lemma soft_delete_subset: "set (soft_delete_filter a d rq rows) \<subseteq> set rows"
  by (auto simp: soft_delete_filter_def Let_def split: option.splits if_splits)

lemma viewset_get_queryset_subset:
  "viewset_get_queryset ic (Some f) ls kw rq rows = Inr qs \<Longrightarrow> set qs \<subseteq> set rows"
  using parent_filter_subset
  by (fastforce simp: viewset_get_queryset_def plugin_filter_queryset_def manager_queryset_def
      Let_def split: option.splits if_splits)

section \<open>The request stack\<close>

text \<open>
  The order of the settings: \<open>TenantContextMiddleware\<close> outside \<open>TenantTelemetryMiddleware\<close>
  outside the view.  The result is the outcome, the context left behind and the span
  attribute.
\<close>

definition request_stack ::
  "(user option \<times> (string \<rightharpoonup> string)) option res
    \<Rightarrow> ((user option \<times> (string \<rightharpoonup> string)) option \<Rightarrow> ctx \<Rightarrow> 'a res)
    \<Rightarrow> ctx \<Rightarrow> ('a res \<times> ctx) \<times> string option" where
  "request_stack jwt_result handler c =
     (let ((r, c', tok), attr) = tenant_telemetry_middleware (run_view jwt_result handler) c
      in (tenant_context_middleware (\<lambda>_. (r, c', tok)) c, attr))"

text \<open>Whatever the view does (returns or raises), the request stack leaves the tenant
  scope as it found it; a view of a request whose token names tenant \<open>t\<close> runs with \<open>t\<close>
  bound; and, the scope being bound only inside the view, the telemetry middleware of a
  request that starts unbound never sees a tenant.\<close>

theorem request_stack_scope:
  assumes "t \<noteq> []" and "claims ''tenant_id'' = Some t"
  shows "snd (fst (request_stack jwt h c)) = c
    \<and> fst (fst (request_stack (Inr (Some (u, claims))) h c))
        = h (Some (u, claims)) (Some [(''tenant_id'', t)])
    \<and> snd (request_stack jwt h None) = None"
proof (intro conjI)
  obtain r c' tok where rv: "run_view jwt h c = (r, c', tok)" by (metis prod_cases3)
  from run_view_ctx [OF rv] show "snd (fst (request_stack jwt h c)) = c"
    by (auto simp: request_stack_def tenant_telemetry_middleware_def rv Let_def
        tenant_context_middleware_def unbind_scope_def)
  from assms show "fst (fst (request_stack (Inr (Some (u, claims))) h c))
      = h (Some (u, claims)) (Some [(''tenant_id'', t)])"
    by (simp add: request_stack_def tenant_telemetry_middleware_def tenant_context_middleware_def
        run_view_def authenticate_def bind_scope_def Let_def)
  show "snd (request_stack jwt h None) = None"
    by (simp add: request_stack_def tenant_telemetry_middleware_def get_bound_scope_def
        Let_def split: prod.splits)
qed

lemma request_stack_scope_witness:
  "request_stack (Inr (Some (None, [''tenant_id'' \<mapsto> ''t1'']))) (\<lambda>p c. Inr (scope_tenant c)) None
     = ((Inr (Some ''t1''), None), None)"
  using request_stack_scope [of "''t1''" "[''tenant_id'' \<mapsto> ''t1'']"
      "Inr (Some (None, [''tenant_id'' \<mapsto> ''t1'']))" "\<lambda>p c. Inr (scope_tenant c)" None None]
  by (simp add: prod_eq_iff)

text \<open>C5: Tenant isolation of the list endpoint.  For a model with a tenant column and a view
  that has not opted out, every returned row exists and belongs to the tenant of the token,
  superusers included; without a tenant in the token nothing is returned; and when the class
  queryset was built unscoped and no parent or soft-delete filter applies, exactly the
  tenant's rows are returned.\<close>

theorem list_rows_isolated:
  assumes "list_rows ic True (Some f) ls kw adm del rq rows = Inr out"
  shows "set out \<subseteq> set rows
    \<and> (tenant_of rq = None \<longrightarrow> out = [])
    \<and> (\<forall>t. tenant_of rq = Some t \<longrightarrow>
         (\<forall>r \<in> set out. f r = t)
         \<and> (ic = None \<and> ls = [] \<and> del = None \<longrightarrow> out = filter (\<lambda>r. f r = t) rows))"
proof -
  from assms obtain qs where
    qs: "viewset_get_queryset ic (Some f) ls kw rq rows = Inr qs" and
    out: "out = backend_filter_queryset True (Some f) rq (soft_delete_filter adm del rq qs)"
    by (auto simp: list_rows_def split: sum.splits)
  have "set out \<subseteq> set rows"
    using backend.scoped_subset [of f rq "soft_delete_filter adm del rq qs"]
      soft_delete_subset [of adm del rq qs] viewset_get_queryset_subset [OF qs]
    unfolding out by blast
  moreover have "tenant_of rq = None \<Longrightarrow> out = []"
    by (simp add: out backend_filter_queryset_def)
  moreover have "f r = t" if "tenant_of rq = Some t" "r \<in> set out" for r t
    using that unfolding out by (rule backend.scoped_own)
  moreover have "out = filter (\<lambda>r. f r = t) rows"
    if "ic = None" "ls = []" "del = None" "tenant_of rq = Some t" for t
    using qs that by (auto simp: out viewset_get_queryset_def plugin_filter_queryset_def
        manager_queryset_def parent_filter_def soft_delete_filter_def backend_filter_queryset_def
        Let_def split: if_splits option.splits)
  ultimately show ?thesis by blast
qed

lemma list_rows_isolated_witness:
  "list_rows None True (Some fst) [] Map.empty False None
       (sample_request (Some (sample_user ''u'' True)) (Some ''t1'')) [(''t1'', 1::nat), (''t2'', 2)]
     = Inr [(''t1'', 1)]
   \<and> set [(''t1'', 1::nat)] \<subseteq> set [(''t1'', 1::nat), (''t2'', 2)]"
proof -
  have run: "list_rows None True (Some fst) [] Map.empty False None
       (sample_request (Some (sample_user ''u'' True)) (Some ''t1'')) [(''t1'', 1::nat), (''t2'', 2)]
     = Inr [(''t1'', 1)]"
    by (simp add: list_rows_def viewset_get_queryset_def plugin_filter_queryset_def
        rq_superuser_def manager_queryset_def parent_filter_def soft_delete_filter_def
        backend_filter_queryset_def sample_user_def)
  with list_rows_isolated [OF run] show ?thesis by blast
qed

end
