(* ===== verification/AccessControl.thy ===== *)
theory AccessControl
  imports Tenancy
begin

text \<open>
  Permission classes (\<open>core/permissions/base.py\<close>, \<open>apps/tenants/permissions.py\<close>,
  \<open>apps/sys_permissions/permissions.py\<close>), the permission dispatch of the viewsets
  (\<open>core/base/views.py\<close>), and the membership transitions (\<open>apps/tenants/views.py\<close>).
  \<open>tenant_gate\<close> is the contract of a permission that is granted through a membership.
\<close>

section \<open>Memberships of the requesting user\<close>

text \<open>\<open>request.user.memberships\<close> goes through \<open>TenantManager\<close>, so the bound scope applies.\<close>

definition user_memberships :: "ctx \<Rightarrow> user \<Rightarrow> membership list \<Rightarrow> membership list" where
  "user_memberships c u mbs = manager_queryset mb_tenant c (filter (\<lambda>m. mb_user m = usr_id u) mbs)"

lemma user_memberships_mem:
  "m \<in> set (user_memberships c u mbs) \<Longrightarrow> m \<in> set mbs \<and> mb_user m = usr_id u"
  using manager.scoped_subset [of mb_tenant c "filter (\<lambda>m. mb_user m = usr_id u) mbs"]
  by (auto simp: user_memberships_def)

locale tenant_gate =
  fixes allows :: "ctx \<Rightarrow> membership list \<Rightarrow> request \<Rightarrow> bool"
  assumes granted_by_membership:
    "allows c mbs rq \<Longrightarrow> \<exists>u t m. rq_user rq = Some u \<and> tenant_of rq = Some t \<and> m \<in> set mbs
        \<and> mb_user m = usr_id u \<and> mb_tenant m = t \<and> mb_is_active m"
begin

lemma anonymous_denied: "rq_user rq = None \<Longrightarrow> \<not> allows c mbs rq"
  using granted_by_membership by fastforce

lemma no_tenant_denied: "tenant_of rq = None \<Longrightarrow> \<not> allows c mbs rq"
  using granted_by_membership by fastforce

lemma foreign_tenant_denied:
  assumes "rq_user rq = Some u" and "tenant_of rq = Some t"
    and "\<And>m. m \<in> set mbs \<Longrightarrow> mb_user m = usr_id u \<Longrightarrow> mb_is_active m \<Longrightarrow> mb_tenant m \<noteq> t"
  shows "\<not> allows c mbs rq"
proof
  assume "allows c mbs rq"
  from granted_by_membership [OF this] assms show False by auto
qed

end

section \<open>The permission classes\<close>

definition is_authenticated_permission :: "request \<Rightarrow> bool" where
  "is_authenticated_permission rq = (rq_user rq \<noteq> None)"

definition is_super_user :: "request \<Rightarrow> bool" where
  "is_super_user rq = (case rq_user rq of None \<Rightarrow> False | Some u \<Rightarrow> usr_is_superuser u)"

definition is_tenant_admin :: "ctx \<Rightarrow> membership list \<Rightarrow> request \<Rightarrow> bool" where
  "is_tenant_admin c mbs rq =
     (case rq_user rq of
        None \<Rightarrow> False
      | Some u \<Rightarrow>
          (case tenant_of rq of
             None \<Rightarrow> False
           | Some t \<Rightarrow> qs_exists (\<lambda>m. mb_tenant m = t \<and> mb_is_active m \<and> mb_is_admin m)
                         (user_memberships c u mbs)))"

definition safe_methods :: "string list" where
  "safe_methods = [''GET'', ''HEAD'', ''OPTIONS'']"

text \<open>
  \<open>check_ownership\<close>: an object without the owner field (\<open>owner = None\<close>) is nobody's; an
  anonymous user owns only objects whose owner is anonymous, so never a row.
\<close>

definition check_ownership :: "string option option \<Rightarrow> request \<Rightarrow> bool" where
  "check_ownership owner rq =
     (case owner of
        None \<Rightarrow> False
      | Some v \<Rightarrow> (case rq_user rq of None \<Rightarrow> False | Some u \<Rightarrow> v = Some (usr_id u)))"

definition is_owner_or_read_only :: "string option option \<Rightarrow> request \<Rightarrow> bool" where
  "is_owner_or_read_only owner rq =
     (rq_method rq \<in> set safe_methods \<or> check_ownership owner rq)"

text \<open>
  \<open>HasTenantPermission(codename)\<close>: the user's active membership in the tenant of the token;
  administrators pass; otherwise the role must grant both \<open><app>.access\<close> and the codename.
  The foreign key from a membership to its role is followed in \<open>roles\<close>.
\<close>

definition app_of_codename :: "string \<Rightarrow> string" where
  "app_of_codename codename = hd (split_on (CHR ''.'') codename)"

definition access_codename :: "string \<Rightarrow> string" where
  "access_codename codename = app_of_codename codename @ ''.access''"

definition role_grants :: "tenant_role list \<Rightarrow> string \<Rightarrow> string \<Rightarrow> bool" where
  "role_grants roles rid codename =
     (case qs_first (filter (\<lambda>r. role_id r = rid) roles) of
        None \<Rightarrow> False
      | Some r \<Rightarrow> map_of (role_permissions r) (access_codename codename) = Some 1
                  \<and> map_of (role_permissions r) codename = Some 1)"

definition has_tenant_permission ::
  "string \<Rightarrow> tenant_role list \<Rightarrow> ctx \<Rightarrow> membership list \<Rightarrow> request \<Rightarrow> bool" where
  "has_tenant_permission codename roles c mbs rq =
     (case rq_user rq of
        None \<Rightarrow> False
      | Some u \<Rightarrow>
          (case tenant_of rq of
             None \<Rightarrow> False
           | Some t \<Rightarrow>
               (case qs_first (sort_key (\<lambda>m. - mb_joined_at m)
                       (filter (\<lambda>m. mb_tenant m = t \<and> mb_is_active m)
                         (user_memberships c u mbs))) of
                  None \<Rightarrow> False
                | Some m \<Rightarrow> mb_is_admin m \<or> role_grants roles (mb_role m) codename)))"

interpretation admin_gate: tenant_gate is_tenant_admin
proof
  fix c mbs rq
  assume "is_tenant_admin c mbs rq"
  then show "\<exists>u t m. rq_user rq = Some u \<and> tenant_of rq = Some t \<and> m \<in> set mbs
      \<and> mb_user m = usr_id u \<and> mb_tenant m = t \<and> mb_is_active m"
    by (auto simp: is_tenant_admin_def qs_exists_iff dest: user_memberships_mem
        split: option.splits)
qed

interpretation codename_gate: tenant_gate "has_tenant_permission codename roles"
  for codename roles
proof
  fix c mbs rq
  assume "has_tenant_permission codename roles c mbs rq"
  then obtain u t m where ut: "rq_user rq = Some u" "tenant_of rq = Some t"
    and "qs_first (sort_key (\<lambda>m. - mb_joined_at m)
           (filter (\<lambda>m. mb_tenant m = t \<and> mb_is_active m) (user_memberships c u mbs))) = Some m"
    by (auto simp: has_tenant_permission_def split: option.splits)
  then have "m \<in> set (user_memberships c u mbs)" "mb_tenant m = t" "mb_is_active m"
    by (auto dest!: qs_first_Some_mem)
  with ut show "\<exists>u t m. rq_user rq = Some u \<and> tenant_of rq = Some t \<and> m \<in> set mbs
      \<and> mb_user m = usr_id u \<and> mb_tenant m = t \<and> mb_is_active m"
    using user_memberships_mem by blast
qed

section \<open>Permission dispatch of the viewsets\<close>

datatype permission = PIsAuthenticated | PIsSuperUser | PIsTenantAdmin

definition get_write_actions :: "string list" where
  "get_write_actions = [''create'', ''update'', ''partial_update'', ''destroy'']"

definition get_permissions ::
  "permission list option \<Rightarrow> permission list \<Rightarrow> string \<Rightarrow> permission list" where
  "get_permissions write_permission_classes permission_classes action =
     (case write_permission_classes of
        Some (w # ws) \<Rightarrow>
          if action \<in> set get_write_actions then PIsAuthenticated # w # ws
          else permission_classes
      | _ \<Rightarrow> permission_classes)"

definition permits :: "ctx \<Rightarrow> membership list \<Rightarrow> request \<Rightarrow> permission \<Rightarrow> bool" where
  "permits c mbs rq p =
     (case p of
        PIsAuthenticated \<Rightarrow> is_authenticated_permission rq
      | PIsSuperUser \<Rightarrow> is_super_user rq
      | PIsTenantAdmin \<Rightarrow> is_tenant_admin c mbs rq)"

definition check_permissions ::
  "permission list \<Rightarrow> ctx \<Rightarrow> membership list \<Rightarrow> request \<Rightarrow> unit res" where
  "check_permissions ps c mbs rq =
     guard (list_all (permits c mbs rq) ps) (PermissionDenied [] ''permission_denied'')"

section \<open>Membership transitions\<close>

text \<open>
  \<open>MembershipViewSet\<close>: \<open>write_permission_classes = [IsTenantAdmin]\<close>.  \<open>get_object\<close>
  selects the row by primary key among the rows of the token's tenant.
\<close>

definition membership_permissions :: "string \<Rightarrow> permission list" where
  "membership_permissions action = get_permissions (Some [PIsTenantAdmin]) [PIsAuthenticated] action"

definition membership_get_object ::
  "request \<Rightarrow> string \<Rightarrow> membership list \<Rightarrow> membership res" where
  "membership_get_object rq pk mbs =
     (case list_rows None True (Some mb_tenant) [] Map.empty False None rq mbs of
        Inl e \<Rightarrow> Inl e
      | Inr rows \<Rightarrow>
          (case qs_get (\<lambda>m. mb_id m = pk) rows of Inl _ \<Rightarrow> Inl NotFound | Inr m \<Rightarrow> Inr m))"

definition set_active :: "bool \<Rightarrow> string \<Rightarrow> membership list \<Rightarrow> membership list" where
  "set_active b pk mbs = save_row (\<lambda>m. mb_id m = pk) (\<lambda>m. m\<lparr>mb_is_active := b\<rparr>) mbs"

definition deactivate ::
  "ctx \<Rightarrow> request \<Rightarrow> string \<Rightarrow> membership list \<Rightarrow> membership list res" where
  "deactivate c rq pk mbs =
     (case check_permissions (membership_permissions ''deactivate'') c mbs rq of
        Inl e \<Rightarrow> Inl e
      | Inr _ \<Rightarrow>
         (case membership_get_object rq pk mbs of
            Inl e \<Rightarrow> Inl e
          | Inr m \<Rightarrow>
              if \<not> mb_is_active m then Inl (ConflictErr ''Membership is already deactivated.'')
              else Inr (set_active False (mb_id m) mbs)))"

definition activate ::
  "ctx \<Rightarrow> request \<Rightarrow> string \<Rightarrow> membership list \<Rightarrow> membership list res" where
  "activate c rq pk mbs =
     (case check_permissions (membership_permissions ''activate'') c mbs rq of
        Inl e \<Rightarrow> Inl e
      | Inr _ \<Rightarrow>
         (case membership_get_object rq pk mbs of
            Inl e \<Rightarrow> Inl e
          | Inr m \<Rightarrow>
              if mb_is_active m then Inl (ConflictErr ''Membership is already active.'')
              else Inr (set_active True (mb_id m) mbs)))"

section \<open>Who sees which users and tenants\<close>

text \<open>\<open>UserViewSet.get_queryset\<close>.\<close>

definition user_viewset_queryset :: "request \<Rightarrow> membership list \<Rightarrow> user list \<Rightarrow> user list" where
  "user_viewset_queryset rq mbs users =
     (if rq_superuser rq then users
      else case tenant_of rq of
        None \<Rightarrow> []
      | Some t \<Rightarrow> filter (\<lambda>u. qs_exists
            (\<lambda>m. mb_user m = usr_id u \<and> mb_tenant m = t \<and> mb_is_active m) mbs) users)"

text \<open>\<open>TenantViewSet.get_queryset\<close>: the model \<open>Tenant\<close> itself has no tenant column.\<close>

definition tenant_viewset_queryset ::
  "request \<Rightarrow> membership list \<Rightarrow> tenant list \<Rightarrow> tenant list res" where
  "tenant_viewset_queryset rq mbs tenants =
     (case viewset_get_queryset None None [] Map.empty rq tenants of
        Inl e \<Rightarrow> Inl e
      | Inr qs \<Rightarrow>
          if rq_superuser rq then Inr qs
          else (case rq_user rq of
             None \<Rightarrow> Inl AttributeErr
           | Some u \<Rightarrow> Inr (filter (\<lambda>t. qs_exists
               (\<lambda>m. mb_user m = usr_id u \<and> mb_tenant m = tn_id t \<and> mb_is_active m) mbs) qs)))"

section \<open>Properties\<close>

text \<open>C36: A permission granted by codename is backed by an active membership of the requesting
  user in the tenant of the token, and that membership is an administrator's or its role
  grants both the application's access codename and the codename itself.\<close>

theorem has_tenant_permission_sound:
  assumes "has_tenant_permission codename roles c mbs rq"
  shows "\<exists>u t m. rq_user rq = Some u \<and> tenant_of rq = Some t \<and> m \<in> set mbs
    \<and> mb_user m = usr_id u \<and> mb_tenant m = t \<and> mb_is_active m
    \<and> (mb_is_admin m
       \<or> (\<exists>r \<in> set roles. role_id r = mb_role m
            \<and> map_of (role_permissions r) (access_codename codename) = Some 1
            \<and> map_of (role_permissions r) codename = Some 1))"
proof -
  from assms obtain u t m where ut: "rq_user rq = Some u" "tenant_of rq = Some t"
    and first: "qs_first (sort_key (\<lambda>m. - mb_joined_at m)
           (filter (\<lambda>m. mb_tenant m = t \<and> mb_is_active m) (user_memberships c u mbs))) = Some m"
    and ok: "mb_is_admin m \<or> role_grants roles (mb_role m) codename"
    by (auto simp: has_tenant_permission_def split: option.splits)
  from first have m: "m \<in> set (user_memberships c u mbs)" "mb_tenant m = t" "mb_is_active m"
    by (auto dest!: qs_first_Some_mem)
  from ok have "mb_is_admin m \<or> (\<exists>r \<in> set roles. role_id r = mb_role m
      \<and> map_of (role_permissions r) (access_codename codename) = Some 1
      \<and> map_of (role_permissions r) codename = Some 1)"
    by (auto simp: role_grants_def dest!: qs_first_Some_mem split: option.splits)
  with ut m user_memberships_mem [OF m(1)] show ?thesis by blast
qed

definition sample_membership :: "string \<Rightarrow> string \<Rightarrow> string \<Rightarrow> bool \<Rightarrow> bool \<Rightarrow> membership" where
  "sample_membership i u t admin active = \<lparr>mb_id = i, mb_user = u, mb_tenant = t,
     mb_role = ''r'', mb_is_admin = admin, mb_is_active = active, mb_joined_at = 0\<rparr>"

lemma has_tenant_permission_sound_witness:
  "\<exists>m. m = sample_membership ''m1'' ''u'' ''t1'' False True \<and> mb_is_active m
     \<and> has_tenant_permission ''dms.docs.view''
        [\<lparr>role_id = ''r'', role_tenant = ''t1'', role_name = ''R'', role_kind = ''member'',
          role_description = [],
          role_permissions = [(''dms.access'', 1), (''dms.docs.view'', 1)]\<rparr>]
        None [m] (sample_request (Some (sample_user ''u'' False)) (Some ''t1''))"
proof -
  let ?m = "sample_membership ''m1'' ''u'' ''t1'' False True"
  let ?r = "\<lparr>role_id = ''r'', role_tenant = ''t1'', role_name = ''R'', role_kind = ''member'',
          role_description = [],
          role_permissions = [(''dms.access'', 1), (''dms.docs.view'', 1)]\<rparr>"
  have h: "has_tenant_permission ''dms.docs.view'' [?r] None [?m]
      (sample_request (Some (sample_user ''u'' False)) (Some ''t1''))"
    by (simp add: has_tenant_permission_def user_memberships_def manager_queryset_def
        sample_membership_def sample_user_def role_grants_def access_codename_def
        app_of_codename_def split_on_def)
  from has_tenant_permission_sound [OF h] h show ?thesis
    by (auto simp: sample_membership_def)
qed

text \<open>The transitions of a membership.  Deactivation succeeds exactly on an active row
  visible to the request's tenant and changes only that row's flag; deactivating it again, or
  activating an active row, is a conflict; activation undoes deactivation.\<close>

theorem membership_transitions:
  assumes uniq: "distinct (map mb_id mbs)"
    and ok: "deactivate c rq pk mbs = Inr mbs'"
  shows "(\<exists>m \<in> set mbs. mb_id m = pk \<and> mb_is_active m \<and> tenant_of rq = Some (mb_tenant m))
    \<and> map mb_id mbs' = map mb_id mbs
    \<and> (\<forall>i < length mbs. mbs' ! i =
         (if mb_id (mbs ! i) = pk then (mbs ! i)\<lparr>mb_is_active := False\<rparr> else mbs ! i))
    \<and> deactivate c rq pk mbs' = Inl (ConflictErr ''Membership is already deactivated.'')
    \<and> activate c rq pk mbs' = Inr mbs"
proof -
  let ?P = "\<lambda>m. mb_id m = pk"
  have perm: "check_permissions (membership_permissions a) d ms rq
      = guard (rq_user rq \<noteq> None) (PermissionDenied [] ''permission_denied'')"
    if "a = ''deactivate'' \<or> a = ''activate''" for a d ms
    using that by (auto simp: check_permissions_def membership_permissions_def get_permissions_def
        get_write_actions_def permits_def is_authenticated_permission_def)
  from ok have auth: "rq_user rq \<noteq> None"
    by (auto simp: deactivate_def perm guard_def split: if_splits)
  from ok auth obtain m where
    get: "membership_get_object rq pk mbs = Inr m" and act: "mb_is_active m"
    and mbs': "mbs' = set_active False (mb_id m) mbs"
    by (auto simp: deactivate_def perm split: sum.splits if_splits)
  from get obtain rows where
    rows: "list_rows None True (Some mb_tenant) [] Map.empty False None rq mbs = Inr rows"
    and sel: "qs_get ?P rows = Inr m"
    by (auto simp: membership_get_object_def split: sum.splits)
  obtain t where t: "tenant_of rq = Some t" and rows_eq: "rows = filter (\<lambda>m. mb_tenant m = t) mbs"
  proof (cases "tenant_of rq")
    case None
    with rows have "rows = []"
      by (auto simp: list_rows_def backend_filter_queryset_def split: sum.splits)
    with sel show ?thesis by (simp add: qs_get_def)
  next
    case (Some t)
    with rows have "rows = filter (\<lambda>m. mb_tenant m = t) mbs"
      by (auto simp: list_rows_def viewset_get_queryset_def plugin_filter_queryset_def
          manager_queryset_def parent_filter_def soft_delete_filter_def
          backend_filter_queryset_def Let_def split: if_splits option.splits)
    with Some show ?thesis by (rule that)
  qed
  from qs_get_Inr_D [OF sel] rows_eq have m: "m \<in> set mbs" "mb_id m = pk" "mb_tenant m = t"
    by auto
  have upd: "mbs' = save_row ?P (\<lambda>m. m\<lparr>mb_is_active := False\<rparr>) mbs"
    by (simp add: mbs' m(2) set_active_def)
  have rows': "list_rows None True (Some mb_tenant) [] Map.empty False None rq mbs'
      = Inr (save_row ?P (\<lambda>m. m\<lparr>mb_is_active := False\<rparr>) rows)"
    by (simp add: list_rows_def viewset_get_queryset_def plugin_filter_queryset_def t
        manager_queryset_def parent_filter_def soft_delete_filter_def rows_eq upd
        backend_filter_queryset_def Let_def filter_save_row split: option.splits)
  have sel': "qs_get ?P (save_row ?P (\<lambda>m. m\<lparr>mb_is_active := False\<rparr>) rows)
      = Inr (m\<lparr>mb_is_active := False\<rparr>)"
    using qs_get_save_row_same [of ?P rows m ?P "\<lambda>m. m\<lparr>mb_is_active := False\<rparr>"] sel m(2) by simp
  have get': "membership_get_object rq pk mbs' = Inr (m\<lparr>mb_is_active := False\<rparr>)"
    by (simp add: membership_get_object_def rows' sel')
  have "set_active True pk mbs' = mbs"
  proof -
    have "x = m" if "x \<in> set mbs" "mb_id x = pk" for x
      using that m uniq by (metis distinct_map inj_on_def)
    with act show ?thesis
      unfolding set_active_def upd save_row_def map_map by (intro map_idI) (fastforce)
  qed
  then show ?thesis using m t act auth get'
    by (auto simp: upd map_save_row deactivate_def activate_def perm)
qed

lemma membership_transitions_witness:
  "deactivate None (sample_request (Some (sample_user ''u'' False)) (Some ''t1'')) ''m2''
      [sample_membership ''m1'' ''u'' ''t1'' False True, sample_membership ''m2'' ''v'' ''t1'' True True]
    = Inr [sample_membership ''m1'' ''u'' ''t1'' False True, sample_membership ''m2'' ''v'' ''t1'' True False]
   \<and> activate None (sample_request (Some (sample_user ''u'' False)) (Some ''t1'')) ''m2''
      [sample_membership ''m1'' ''u'' ''t1'' False True, sample_membership ''m2'' ''v'' ''t1'' True False]
    = Inr [sample_membership ''m1'' ''u'' ''t1'' False True, sample_membership ''m2'' ''v'' ''t1'' True True]"
proof -
  let ?rq = "sample_request (Some (sample_user ''u'' False)) (Some ''t1'')"
  let ?mbs = "[sample_membership ''m1'' ''u'' ''t1'' False True, sample_membership ''m2'' ''v'' ''t1'' True True]"
  let ?mbs' = "[sample_membership ''m1'' ''u'' ''t1'' False True, sample_membership ''m2'' ''v'' ''t1'' True False]"
  have d: "distinct (map mb_id ?mbs)" by (simp add: sample_membership_def)
  have r: "deactivate None ?rq ''m2'' ?mbs = Inr ?mbs'"
    by (simp add: deactivate_def check_permissions_def membership_permissions_def
        get_permissions_def get_write_actions_def permits_def is_authenticated_permission_def
        membership_get_object_def list_rows_def viewset_get_queryset_def plugin_filter_queryset_def
        rq_superuser_def manager_queryset_def parent_filter_def soft_delete_filter_def
        backend_filter_queryset_def qs_get_def set_active_def sample_membership_def sample_user_def)
  from membership_transitions [OF d r] r show ?thesis by blast
qed

text \<open>The write permission of \<open>MembershipViewSet\<close> does not reach its two transition
  actions: any authenticated user, with no membership at all, passes the check of
  \<open>deactivate\<close> and \<open>activate\<close>, while \<open>create\<close>, \<open>update\<close> and \<open>destroy\<close> require a tenant
  administrator.\<close>

theorem membership_actions_permissions:
  assumes "rq_user rq = Some u"
  shows "check_permissions (membership_permissions ''deactivate'') c mbs rq = Inr ()
    \<and> check_permissions (membership_permissions ''activate'') c mbs rq = Inr ()
    \<and> (\<forall>a \<in> set get_write_actions.
         check_permissions (membership_permissions a) c mbs rq = Inr ()
           \<longleftrightarrow> is_tenant_admin c mbs rq)"
  using assms
  by (auto simp: check_permissions_def membership_permissions_def get_permissions_def
      get_write_actions_def permits_def is_authenticated_permission_def guard_def)

lemma membership_actions_permissions_witness:
  "check_permissions (membership_permissions ''deactivate'') None []
     (sample_request (Some (sample_user ''u'' False)) (Some ''t1'')) = Inr ()"
  using membership_actions_permissions
    [of "sample_request (Some (sample_user ''u'' False)) (Some ''t1'')" "sample_user ''u'' False" None "[]"]
  by simp

end
