(* ===== verification/OAuth.thy ===== *)
theory OAuth
  imports AccessControl
begin

text \<open>
  OAuth2 (\<open>apps/iam_oauth\<close>): clients, authorization codes and refresh tokens, the services that
  issue, consume, rotate and revoke them (\<open>services.py\<close>), and the step relation of the store
  with its invariant.  Primary keys, random uuids in the code, are numbered here in insertion
  order; \<open>now\<close> is the clock in seconds, read once per request; a state change before an error
  is kept, as the code runs without a surrounding transaction.
\<close>

section \<open>Settings\<close>

datatype osetting = SInt int | SBool bool | SStr string | SStrs "string list"

definition oauth_defaults :: "string \<rightharpoonup> osetting" where
  "oauth_defaults = [
     ''AUTHORIZATION_CODE_LIFETIME'' \<mapsto> SInt 600,
     ''ACCESS_TOKEN_LIFETIME_MINUTES'' \<mapsto> SInt 30,
     ''REFRESH_TOKEN_LIFETIME_DAYS'' \<mapsto> SInt 7,
     ''PKCE_REQUIRED_FOR_PUBLIC_CLIENTS'' \<mapsto> SBool True,
     ''SUPPORTED_GRANT_TYPES'' \<mapsto>
        SStrs [''authorization_code'', ''client_credentials'', ''refresh_token''],
     ''SUPPORTED_RESPONSE_TYPES'' \<mapsto> SStrs [''code''],
     ''TOKEN_FORMAT'' \<mapsto> SStr ''JWT'']"

definition get_oauth2_setting :: "(string \<rightharpoonup> osetting) \<Rightarrow> string \<Rightarrow> osetting res" where
  "get_oauth2_setting user_settings key =
     (case oauth_defaults key of
        None \<Rightarrow> Inl KeyErr
      | Some d \<Rightarrow> Inr (case user_settings key of None \<Rightarrow> d | Some v \<Rightarrow> v))"

definition int_setting :: "(string \<rightharpoonup> osetting) \<Rightarrow> string \<Rightarrow> int res" where
  "int_setting user_settings key =
     (case get_oauth2_setting user_settings key of
        Inl e \<Rightarrow> Inl e | Inr (SInt n) \<Rightarrow> Inr n | Inr _ \<Rightarrow> Inl TypeErr)"

section \<open>Tables\<close>

record oauth_client =
  oc_id :: nat
  oc_tenant :: string
  oc_client_id :: string
  oc_client_secret :: "string option"
  oc_client_name :: string
  oc_redirect_uris :: string
  oc_grant_types :: string
  oc_response_types :: string
  oc_scope :: string
  oc_is_confidential :: bool
  oc_is_active :: bool

record authorization_code =
  ac_client :: nat
  ac_tenant :: string
  ac_code :: string
  ac_redirect_uri :: string
  ac_scope :: string
  ac_code_challenge :: "string option"
  ac_code_challenge_method :: "string option"
  ac_user_id :: "string option"
  ac_expires_at :: int
  ac_is_consumed :: bool
  ac_consumed_at :: "int option"

record refresh_token =
  rt_id :: nat
  rt_client :: nat
  rt_tenant :: string
  rt_user_id :: string
  rt_token :: string
  rt_scope :: string
  rt_expires_at :: int
  rt_is_revoked :: bool
  rt_revoked_at :: "int option"
  rt_replaced_by :: "nat option"

text \<open>The comma- and space-separated columns.\<close>

definition comma_list :: "string \<Rightarrow> string list" where
  "comma_list s = filter (\<lambda>w. w \<noteq> []) (map strip (split_on (CHR '','') s))"

definition redirect_uri_list :: "oauth_client \<Rightarrow> string list" where
  "redirect_uri_list c = comma_list (oc_redirect_uris c)"

definition grant_type_list :: "oauth_client \<Rightarrow> string list" where
  "grant_type_list c = comma_list (oc_grant_types c)"

definition response_type_list :: "oauth_client \<Rightarrow> string list" where
  "response_type_list c = comma_list (oc_response_types c)"

definition scope_list :: "oauth_client \<Rightarrow> string list" where
  "scope_list c = filter (\<lambda>w. w \<noteq> []) (map strip (words (oc_scope c)))"

text \<open>
  The store, with the events recorded and the signals sent.  The environment holds the
  project settings, the bound tenant scope, the clock and the library functions: the SHA-256
  challenge of a verifier, the \<open>jti\<close> of a refresh JWT (\<open>None\<close> when it does not decode) and
  DRF's URL validator.
\<close>

record oauth_db =
  od_clients :: "oauth_client list"
  od_codes :: "authorization_code list"
  od_tokens :: "refresh_token list"
  od_events :: "user_event list"
  od_signals :: "(string \<times> (string \<times> string) list) list"

record oauth_env =
  oe_settings :: "string \<rightharpoonup> osetting"
  oe_ctx :: ctx
  oe_now :: int
  oe_s256 :: "string \<Rightarrow> string"
  oe_jti :: "string \<Rightarrow> string option"
  oe_url_ok :: "string \<Rightarrow> bool"

definition emit ::
  "string \<Rightarrow> string \<Rightarrow> string \<Rightarrow> (string \<times> string) list \<Rightarrow> oauth_db \<Rightarrow> oauth_db" where
  "emit email event tenant metadata db =
     db\<lparr>od_events := record_event None email ''oauth'' event (Some tenant) metadata (od_events db)\<rparr>"

definition send :: "string \<Rightarrow> (string \<times> string) list \<Rightarrow> oauth_db \<Rightarrow> oauth_db" where
  "send signal kwargs db = db\<lparr>od_signals := od_signals db @ [(signal, kwargs)]\<rparr>"

lemma emit_frame [simp]:
  "od_clients (emit m e t d db) = od_clients db" "od_codes (emit m e t d db) = od_codes db"
  "od_tokens (emit m e t d db) = od_tokens db" "od_signals (emit m e t d db) = od_signals db"
  by (simp_all add: emit_def)

lemma send_frame [simp]:
  "od_clients (send s k db) = od_clients db" "od_codes (send s k db) = od_codes db"
  "od_tokens (send s k db) = od_tokens db" "od_events (send s k db) = od_events db"
  by (simp_all add: send_def)

text \<open>A \<open>UUIDField\<close> rejects the empty string; other identifiers are opaque.\<close>

definition uuid_field :: "string \<Rightarrow> string res" where
  "uuid_field s = (if s = [] then Inl (invalid ''not a valid UUID'') else Inr s)"

section \<open>Services\<close>

definition generate_authorization_code ::
  "oauth_env \<Rightarrow> string \<Rightarrow> oauth_client \<Rightarrow> string \<Rightarrow> string \<Rightarrow> string \<Rightarrow> string \<Rightarrow> string \<Rightarrow> string
    \<Rightarrow> oauth_db \<Rightarrow> authorization_code res \<times> oauth_db" where
  "generate_authorization_code env fresh client tenant_id redirect_uri scope user_id
       code_challenge code_challenge_method db =
     (if \<not> oc_is_confidential client \<and> code_challenge = []
      then (Inl (invalid ''PKCE is required for public clients.''), db)
      else case int_setting (oe_settings env) ''AUTHORIZATION_CODE_LIFETIME'' of
        Inl e \<Rightarrow> (Inl e, db)
      | Inr lifetime \<Rightarrow>
          (case (uuid_field tenant_id, uuid_field user_id) of
             (Inr t, Inr u) \<Rightarrow>
               let code_value = take 32 fresh;
                   row = \<lparr> ac_client = oc_id client, ac_tenant = t, ac_code = code_value,
                     ac_redirect_uri = redirect_uri, ac_scope = scope,
                     ac_code_challenge = Some code_challenge,
                     ac_code_challenge_method = Some code_challenge_method,
                     ac_user_id = Some u, ac_expires_at = oe_now env + lifetime,
                     ac_is_consumed = False, ac_consumed_at = None \<rparr> in
               if qs_exists (\<lambda>a. ac_client a = oc_id client \<and> ac_code a = code_value) (od_codes db)
               then (Inl IntegrityErr, db)
               else (Inr row,
                 send ''authorization_code_issued''
                   [(''client_id'', oc_client_id client), (''user_id'', user_id),
                    (''tenant_id'', tenant_id), (''scope'', scope)]
                 (emit [] ''authorization_code_issued'' tenant_id
                   [(''client_id'', oc_client_id client), (''redirect_uri'', redirect_uri),
                    (''scope'', scope), (''user_id'', user_id)]
                 (db\<lparr>od_codes := od_codes db @ [row]\<rparr>)))
           | (Inl e, _) \<Rightarrow> (Inl e, db)
           | (_, Inl e) \<Rightarrow> (Inl e, db)))"

text \<open>
  The loop of \<open>revoke_refresh_token_chain\<close>: \<open>cur\<close> is the key of the current row; a key
  without a row is \<open>DoesNotExist\<close>.  The value \<open>None\<close> would be a loop that does not return.
\<close>

partial_function (option) revoke_loop ::
  "int \<Rightarrow> refresh_token list \<Rightarrow> nat option \<Rightarrow> refresh_token list option" where
  "revoke_loop now toks cur =
     (case cur of
        None \<Rightarrow> Some toks
      | Some i \<Rightarrow>
          (case find (\<lambda>r. rt_id r = i) toks of
             None \<Rightarrow> Some toks
           | Some r \<Rightarrow>
               revoke_loop now
                 (if rt_is_revoked r then toks
                  else save_row (\<lambda>x. rt_id x = i)
                         (\<lambda>x. x\<lparr>rt_is_revoked := True, rt_revoked_at := Some now\<rparr>) toks)
                 (rt_replaced_by r)))"

definition client_by_pk :: "oauth_db \<Rightarrow> nat \<Rightarrow> oauth_client option" where
  "client_by_pk db i = find (\<lambda>c. oc_id c = i) (od_clients db)"

definition revoke_refresh_token_chain ::
  "oauth_env \<Rightarrow> refresh_token \<Rightarrow> oauth_db \<Rightarrow> (unit res \<times> oauth_db) option" where
  "revoke_refresh_token_chain env record db =
     (case revoke_loop (oe_now env) (od_tokens db) (Some (rt_id record)) of
        None \<Rightarrow> None
      | Some toks \<Rightarrow>
          let db' = db\<lparr>od_tokens := toks\<rparr> in
          Some (case client_by_pk db (rt_client record) of
             None \<Rightarrow> (Inl DoesNotExist, db')
           | Some c \<Rightarrow> (Inr (),
               send ''token_revoked''
                 [(''client_id'', oc_client_id c), (''user_id'', rt_user_id record),
                  (''tenant_id'', rt_tenant record)] db')))"

definition issue_refresh_token ::
  "oauth_env \<Rightarrow> string \<Rightarrow> oauth_client \<Rightarrow> string \<Rightarrow> string \<Rightarrow> string
    \<Rightarrow> oauth_db \<Rightarrow> refresh_token res \<times> oauth_db" where
  "issue_refresh_token env fresh client tenant_id user_id scope db =
     (case int_setting (oe_settings env) ''REFRESH_TOKEN_LIFETIME_DAYS'' of
        Inl e \<Rightarrow> (Inl e, db)
      | Inr lifetime_days \<Rightarrow>
          (case (uuid_field tenant_id, uuid_field user_id) of
             (Inr t, Inr u) \<Rightarrow>
               if qs_exists (\<lambda>r. rt_token r = fresh) (od_tokens db) then (Inl IntegrityErr, db)
               else let row = \<lparr> rt_id = length (od_tokens db), rt_client = oc_id client,
                      rt_tenant = t, rt_user_id = u, rt_token = fresh, rt_scope = scope,
                      rt_expires_at = oe_now env + lifetime_days * 86400,
                      rt_is_revoked = False, rt_revoked_at = None, rt_replaced_by = None \<rparr>
                    in (Inr row, db\<lparr>od_tokens := od_tokens db @ [row]\<rparr>)
           | (Inl e, _) \<Rightarrow> (Inl e, db)
           | (_, Inl e) \<Rightarrow> (Inl e, db)))"

definition verify_pkce :: "oauth_env \<Rightarrow> string \<Rightarrow> authorization_code \<Rightarrow> unit res" where
  "verify_pkce env code_verifier auth_code =
     (let challenge_method = (case ac_code_challenge_method auth_code of
            None \<Rightarrow> ''plain'' | Some s \<Rightarrow> if s = [] then ''plain'' else s);
          computed_challenge = (if challenge_method = ''S256'' then oe_s256 env code_verifier
                                else code_verifier)
      in guard (Some computed_challenge = ac_code_challenge auth_code)
           (invalid ''PKCE code verifier mismatch.''))"

text \<open>What the grants return to the token endpoint.\<close>

record jwt_claims =
  jc_sub :: string
  jc_tenant :: string
  jc_scope :: string
  jc_hint :: string
  jc_exp :: int

record token_data =
  td_user_id :: "string option"
  td_tenant_id :: string
  td_scope :: string
  td_client_id :: string
  td_grant_type :: string
  td_refresh :: "refresh_token option"
  td_access :: "jwt_claims option"

definition user_or_empty :: "string option \<Rightarrow> string" where
  "user_or_empty u = or_empty u"

definition mark_consumed :: "int \<Rightarrow> authorization_code \<Rightarrow> authorization_code list \<Rightarrow> authorization_code list" where
  "mark_consumed now a codes =
     save_row (\<lambda>x. ac_client x = ac_client a \<and> ac_code x = ac_code a)
       (\<lambda>x. x\<lparr>ac_is_consumed := True, ac_consumed_at := Some now\<rparr>) codes"

definition consume_authorization_code ::
  "oauth_env \<Rightarrow> string \<Rightarrow> string \<Rightarrow> oauth_client \<Rightarrow> string \<Rightarrow> string
    \<Rightarrow> oauth_db \<Rightarrow> token_data res \<times> oauth_db" where
  "consume_authorization_code env fresh code client redirect_uri code_verifier db =
     (case qs_get (\<lambda>a. ac_code a = code) (manager_queryset ac_tenant (oe_ctx env) (od_codes db)) of
        Inl e \<Rightarrow> (Inl e, db)
      | Inr a \<Rightarrow>
          if ac_is_consumed a then (Inl (invalid ''Authorization code already consumed.''), db)
          else if oe_now env > ac_expires_at a
          then (Inl (invalid ''Authorization code has expired.''), db)
          else if ac_client a \<noteq> oc_id client then (Inl (invalid ''Client mismatch.''), db)
          else if redirect_uri \<noteq> [] \<and> ac_redirect_uri a \<noteq> redirect_uri
          then (Inl (invalid ''redirect_uri mismatch.''), db)
          else (case (if truthy (ac_code_challenge a) \<and> code_verifier \<noteq> []
                     then verify_pkce env code_verifier a else Inr ()) of
            Inl e \<Rightarrow> (Inl e, db)
          | Inr _ \<Rightarrow>
              let db1 = db\<lparr>od_codes := mark_consumed (oe_now env) a (od_codes db)\<rparr>;
                  uid = user_or_empty (ac_user_id a);
                  db2 = send ''authorization_code_consumed''
                    [(''client_id'', oc_client_id client), (''user_id'', uid),
                     (''tenant_id'', ac_tenant a)]
                    (emit [] ''authorization_code_consumed'' (ac_tenant a)
                      [(''client_id'', oc_client_id client), (''user_id'', uid)] db1)
              in (case issue_refresh_token env fresh client (ac_tenant a) uid (ac_scope a) db2 of
                    (Inl e, db3) \<Rightarrow> (Inl e, db3)
                  | (Inr r, db3) \<Rightarrow>
                      (Inr \<lparr> td_user_id = ac_user_id a, td_tenant_id = ac_tenant a,
                         td_scope = ac_scope a, td_client_id = oc_client_id client,
                         td_grant_type = ''authorization_code'', td_refresh = Some r,
                         td_access = None \<rparr>, db3))))"

definition consume_refresh_token ::
  "oauth_env \<Rightarrow> string \<Rightarrow> string \<Rightarrow> oauth_client \<Rightarrow> string
    \<Rightarrow> oauth_db \<Rightarrow> token_data res \<times> oauth_db" where
  "consume_refresh_token env fresh token_ref client scope db =
     (case qs_get (\<lambda>r. rt_token r = token_ref)
             (manager_queryset rt_tenant (oe_ctx env) (od_tokens db)) of
        Inl DoesNotExist \<Rightarrow> (Inl (invalid ''Invalid refresh token.''), db)
      | Inl e \<Rightarrow> (Inl e, db)
      | Inr r \<Rightarrow>
          if rt_is_revoked r then (Inl (invalid ''Refresh token has been revoked.''), db)
          else if oe_now env > rt_expires_at r
          then (Inl (invalid ''Refresh token has expired.''), db)
          else if rt_client r \<noteq> oc_id client then (Inl (invalid ''Client mismatch.''), db)
          else let granted_scope = (if scope \<noteq> [] then scope else rt_scope r) in
            if \<not> set (words granted_scope) \<subseteq> set (words (rt_scope r))
            then (Inl (invalid ''Requested scope exceeds the original granted scope.''), db)
            else (case issue_refresh_token env fresh client (rt_tenant r) (rt_user_id r)
                        granted_scope db of
              (Inl e, db1) \<Rightarrow> (Inl e, db1)
            | (Inr n, db1) \<Rightarrow>
                let db2 = db1\<lparr>od_tokens := save_row (\<lambda>x. rt_id x = rt_id r)
                      (\<lambda>x. x\<lparr>rt_is_revoked := True, rt_revoked_at := Some (oe_now env),
                             rt_replaced_by := Some (rt_id n)\<rparr>) (od_tokens db1)\<rparr>
                in (Inr \<lparr> td_user_id = Some (rt_user_id r), td_tenant_id = rt_tenant r,
                      td_scope = granted_scope, td_client_id = oc_client_id client,
                      td_grant_type = ''refresh_token'', td_refresh = Some n,
                      td_access = None \<rparr>,
                    send ''token_issued''
                      [(''client_id'', oc_client_id client), (''user_id'', rt_user_id r),
                       (''tenant_id'', rt_tenant r), (''grant_type'', ''refresh_token'')] db2)))"

definition issue_client_credentials_token ::
  "oauth_env \<Rightarrow> oauth_client \<Rightarrow> string \<Rightarrow> oauth_db \<Rightarrow> token_data res \<times> oauth_db" where
  "issue_client_credentials_token env client scope db =
     (case int_setting (oe_settings env) ''ACCESS_TOKEN_LIFETIME_MINUTES'' of
        Inl e \<Rightarrow> (Inl e, db)
      | Inr lifetime_minutes \<Rightarrow>
          (Inr \<lparr> td_user_id = None, td_tenant_id = oc_tenant client, td_scope = scope,
             td_client_id = oc_client_id client, td_grant_type = ''client_credentials'',
             td_refresh = None,
             td_access = Some \<lparr> jc_sub = oc_client_id client, jc_tenant = oc_tenant client,
               jc_scope = scope, jc_hint = ''client_credentials'',
               jc_exp = oe_now env + lifetime_minutes * 60 \<rparr> \<rparr>,
           send ''token_issued''
             [(''client_id'', oc_client_id client), (''user_id'', []),
              (''tenant_id'', oc_tenant client), (''grant_type'', ''client_credentials'')]
           (emit [] ''token_issued'' (oc_tenant client)
             [(''client_id'', oc_client_id client), (''grant_type'', ''client_credentials''),
              (''scope'', scope)] db)))"

section \<open>What each service does to the store\<close>

lemma issue_refresh_token_cases:
  assumes "issue_refresh_token env fresh client t u sc db = (r, db')"
  obtains (fail) e where "r = Inl e" "db' = db"
    | (ok) row where "r = Inr row" "db' = db\<lparr>od_tokens := od_tokens db @ [row]\<rparr>"
        "rt_id row = length (od_tokens db)" "rt_client row = oc_id client" "rt_tenant row = t"
        "rt_user_id row = u" "rt_token row = fresh" "rt_scope row = sc"
        "\<not> rt_is_revoked row" "rt_replaced_by row = None"
        "fresh \<notin> rt_token ` set (od_tokens db)"
  using assms
  by (auto simp: issue_refresh_token_def uuid_field_def qs_exists_iff Let_def image_iff
      eq_commute [of fresh] split: sum.splits if_splits)

lemma consume_authorization_code_cases:
  assumes "consume_authorization_code env fresh code client uri ver db = (r, db')"
  obtains (rejected) e where "r = Inl e" "db' = db"
    | (accepted) a where
        "qs_get (\<lambda>a. ac_code a = code) (manager_queryset ac_tenant (oe_ctx env) (od_codes db)) = Inr a"
        "\<not> ac_is_consumed a" "oe_now env \<le> ac_expires_at a" "ac_client a = oc_id client"
        "uri = [] \<or> ac_redirect_uri a = uri"
        "truthy (ac_code_challenge a) \<and> ver \<noteq> [] \<longrightarrow> verify_pkce env ver a = Inr ()"
        "od_codes db' = mark_consumed (oe_now env) a (od_codes db)"
        "od_clients db' = od_clients db"
        "(\<exists>e. r = Inl e \<and> od_tokens db' = od_tokens db) \<or>
         (\<exists>row td. r = Inr td \<and> od_tokens db' = od_tokens db @ [row] \<and> td_refresh td = Some row
            \<and> td_user_id td = ac_user_id a \<and> td_tenant_id td = ac_tenant a
            \<and> td_scope td = ac_scope a \<and> td_client_id td = oc_client_id client
            \<and> rt_id row = length (od_tokens db) \<and> rt_client row = oc_id client
            \<and> rt_tenant row = ac_tenant a \<and> rt_user_id row = user_or_empty (ac_user_id a)
            \<and> rt_scope row = ac_scope a \<and> \<not> rt_is_revoked row \<and> rt_replaced_by row = None
            \<and> rt_token row = fresh \<and> fresh \<notin> rt_token ` set (od_tokens db))"
proof (cases "qs_get (\<lambda>a. ac_code a = code) (manager_queryset ac_tenant (oe_ctx env) (od_codes db))")
  case (Inl e)
  with assms show ?thesis by (intro rejected [of e]) (simp_all add: consume_authorization_code_def)
next
  case (Inr a)
  let ?pkce = "if truthy (ac_code_challenge a) \<and> ver \<noteq> [] then verify_pkce env ver a else Inr ()"
  show ?thesis
  proof (cases "ac_is_consumed a \<or> oe_now env > ac_expires_at a \<or> ac_client a \<noteq> oc_id client
      \<or> (uri \<noteq> [] \<and> ac_redirect_uri a \<noteq> uri) \<or> ?pkce \<noteq> Inr ()")
    case True
    then have "(\<exists>e. r = Inl e) \<and> db' = db"
      using assms Inr
      by (auto simp: consume_authorization_code_def split: if_splits sum.splits)
    then show ?thesis by (auto intro: rejected)
  next
    case False
    let ?uid = "user_or_empty (ac_user_id a)"
    let ?db2 = "send ''authorization_code_consumed''
        [(''client_id'', oc_client_id client), (''user_id'', ?uid), (''tenant_id'', ac_tenant a)]
        (emit [] ''authorization_code_consumed'' (ac_tenant a)
          [(''client_id'', oc_client_id client), (''user_id'', ?uid)]
          (db\<lparr>od_codes := mark_consumed (oe_now env) a (od_codes db)\<rparr>))"
    obtain r2 db3 where iss: "issue_refresh_token env fresh client (ac_tenant a) ?uid (ac_scope a) ?db2 = (r2, db3)"
      by (cases "issue_refresh_token env fresh client (ac_tenant a) ?uid (ac_scope a) ?db2")
    have eq: "(r, db') = (case r2 of Inl e \<Rightarrow> (Inl e, db3)
        | Inr t \<Rightarrow> (Inr \<lparr> td_user_id = ac_user_id a, td_tenant_id = ac_tenant a,
                         td_scope = ac_scope a, td_client_id = oc_client_id client,
                         td_grant_type = ''authorization_code'', td_refresh = Some t,
                         td_access = None \<rparr>, db3))"
    proof -
      from False have f: "\<not> ac_is_consumed a" "\<not> oe_now env > ac_expires_at a"
        "ac_client a = oc_id client" "\<not> (uri \<noteq> [] \<and> ac_redirect_uri a \<noteq> uri)"
        "?pkce = Inr ()" by blast+
      have "consume_authorization_code env fresh code client uri ver db = (case r2 of
          Inl e \<Rightarrow> (Inl e, db3)
        | Inr t \<Rightarrow> (Inr \<lparr> td_user_id = ac_user_id a, td_tenant_id = ac_tenant a,
                         td_scope = ac_scope a, td_client_id = oc_client_id client,
                         td_grant_type = ''authorization_code'', td_refresh = Some t,
                         td_access = None \<rparr>, db3))"
        unfolding consume_authorization_code_def Inr sum.case f(5) if_not_P [OF f(1)]
          if_not_P [OF f(2)] if_not_P [OF f(4)] Let_def iss prod.case
        by (simp add: f(3))
      with assms show ?thesis by simp
    qed
    show ?thesis
    proof (rule accepted [OF Inr])
      show "truthy (ac_code_challenge a) \<and> ver \<noteq> [] \<longrightarrow> verify_pkce env ver a = Inr ()"
        using False by (auto split: if_splits)
      from iss eq show "od_codes db' = mark_consumed (oe_now env) a (od_codes db)"
        "od_clients db' = od_clients db"
        by (cases rule: issue_refresh_token_cases [OF iss]; simp)+
      from eq show "(\<exists>e. r = Inl e \<and> od_tokens db' = od_tokens db) \<or>
         (\<exists>row td. r = Inr td \<and> od_tokens db' = od_tokens db @ [row] \<and> td_refresh td = Some row
            \<and> td_user_id td = ac_user_id a \<and> td_tenant_id td = ac_tenant a
            \<and> td_scope td = ac_scope a \<and> td_client_id td = oc_client_id client
            \<and> rt_id row = length (od_tokens db) \<and> rt_client row = oc_id client
            \<and> rt_tenant row = ac_tenant a \<and> rt_user_id row = ?uid
            \<and> rt_scope row = ac_scope a \<and> \<not> rt_is_revoked row \<and> rt_replaced_by row = None
            \<and> rt_token row = fresh \<and> fresh \<notin> rt_token ` set (od_tokens db))"
        by (cases rule: issue_refresh_token_cases [OF iss]) simp_all
    qed (use False in auto)
  qed
qed

end
