(* ===== verification/OAuthStore.thy ===== *)
theory OAuthStore
  imports OAuth
begin

text \<open>
  The invariant of the OAuth2 store, the step relation of its services, the lineage of
  rotated refresh tokens and the termination and effect of the revocation walk.
\<close>

section \<open>The invariant of the token table\<close>

text \<open>
  A row points to its replacement: a later row of the same client, tenant and user, with
  no more scopes, and a replaced row is revoked.  No two rows have the same replacement.
\<close>

definition successor_ok :: "refresh_token list \<Rightarrow> refresh_token \<Rightarrow> bool" where
  "successor_ok toks r =
     (case rt_replaced_by r of
        None \<Rightarrow> True
      | Some j \<Rightarrow> rt_id r < j \<and> j < length toks \<and> rt_is_revoked r
          \<and> rt_client (toks ! j) = rt_client r \<and> rt_tenant (toks ! j) = rt_tenant r
          \<and> rt_user_id (toks ! j) = rt_user_id r
          \<and> set (words (rt_scope (toks ! j))) \<subseteq> set (words (rt_scope r)))"

definition tokens_inv :: "refresh_token list \<Rightarrow> bool" where
  "tokens_inv toks =
     (map rt_id toks = [0..<length toks] \<and> distinct (map rt_token toks)
      \<and> list_all (successor_ok toks) toks \<and> distinct (filter (\<lambda>x. x \<noteq> None) (map rt_replaced_by toks)))"

definition codes_inv :: "authorization_code list \<Rightarrow> bool" where
  "codes_inv codes = distinct (map ac_code codes)"

definition db_inv :: "oauth_db \<Rightarrow> bool" where
  "db_inv db = (codes_inv (od_codes db) \<and> tokens_inv (od_tokens db))"

lemma rt_id_nth: "map rt_id toks = [0..<length toks] \<Longrightarrow> i < length toks \<Longrightarrow> rt_id (toks ! i) = i"
  by (metis add_0 nth_map nth_upt)

lemma save_row_by_id:
  assumes "map rt_id toks = [0..<length toks]"
  shows "save_row (\<lambda>x. rt_id x = i) f toks = (if i < length toks then toks[i := f (toks ! i)] else toks)"
  by (rule nth_equalityI) (auto simp: rt_id_nth [OF assms] nth_list_update)

lemma find_by_id:
  assumes "map rt_id toks = [0..<length toks]"
  shows "find (\<lambda>x. rt_id x = i) toks = (if i < length toks then Some (toks ! i) else None)"
proof (cases "i < length toks")
  case True
  then show ?thesis
    by (simp add: find_Some_iff) (metis rt_id_nth [OF assms] less_trans less_irrefl)
next
  case False
  then show ?thesis
    by (auto simp: find_None_iff in_set_conv_nth rt_id_nth [OF assms])
qed

lemma tokens_inv_row:
  "tokens_inv toks \<Longrightarrow> r \<in> set toks \<Longrightarrow> rt_id r < length toks \<and> toks ! rt_id r = r"
  by (auto simp: tokens_inv_def in_set_conv_nth rt_id_nth)

lemma tokens_inv_successor: "tokens_inv toks \<Longrightarrow> r \<in> set toks \<Longrightarrow> successor_ok toks r"
  by (simp add: tokens_inv_def list_all_iff)

lemma tokens_inv_token: "tokens_inv toks \<Longrightarrow> r \<in> set toks \<Longrightarrow> r' \<in> set toks
    \<Longrightarrow> rt_token r = rt_token r' \<Longrightarrow> r = r'"
  by (auto simp: tokens_inv_def distinct_map inj_on_def)

lemma successor_ok_append: "successor_ok toks r \<Longrightarrow> successor_ok (toks @ [n]) r"
  by (auto simp: successor_ok_def nth_append split: option.splits)

lemma tokens_inv_append:
  assumes "tokens_inv toks" and "rt_id n = length toks" and "rt_replaced_by n = None"
    and "rt_token n \<notin> rt_token ` set toks"
  shows "tokens_inv (toks @ [n])"
  using assms
proof -
  have "successor_ok (toks @ [n]) n" using assms by (simp add: successor_ok_def)
  with assms show ?thesis
    by (simp add: tokens_inv_def list_all_iff successor_ok_append)
qed

lemma tokens_inv_revoke:
  assumes inv: "tokens_inv toks"
  shows "tokens_inv (save_row (\<lambda>x. rt_id x = i)
    (\<lambda>x. x\<lparr>rt_is_revoked := True, rt_revoked_at := Some now\<rparr>) toks)"
proof (cases "i < length toks")
  case False
  with inv show ?thesis by (simp add: tokens_inv_def save_row_by_id)
next
  case True
  let ?u = "(toks ! i)\<lparr>rt_is_revoked := True, rt_revoked_at := Some now\<rparr>"
  from inv have ids: "map rt_id toks = [0..<length toks]" by (simp add: tokens_inv_def)
  have nth: "rt_client (toks[i := ?u] ! j) = rt_client (toks ! j)"
    "rt_tenant (toks[i := ?u] ! j) = rt_tenant (toks ! j)"
    "rt_user_id (toks[i := ?u] ! j) = rt_user_id (toks ! j)"
    "rt_scope (toks[i := ?u] ! j) = rt_scope (toks ! j)" if "j < length toks" for j
    using that True by (auto simp: nth_list_update)
  have ok: "successor_ok toks (toks ! i)" using inv True by (simp add: tokens_inv_successor)
  have "successor_ok (toks[i := ?u]) r" if "successor_ok toks r" for r
    using that by (auto simp: successor_ok_def nth split: option.splits)
  moreover from ok have "successor_ok (toks[i := ?u]) ?u"
    by (auto simp: successor_ok_def nth split: option.splits)
  ultimately have "list_all (successor_ok (toks[i := ?u])) (toks[i := ?u])"
    using inv set_update_subset_insert [of toks i ?u] by (auto simp: tokens_inv_def list_all_iff)
  moreover have "map f (toks[i := ?u]) = map f toks" if "f ?u = f (toks ! i)" for f :: "refresh_token \<Rightarrow> 'b"
    using True that by (simp add: map_update list_update_same_conv)
  note this [of rt_id] this [of rt_token] this [of rt_replaced_by]
  ultimately show ?thesis
    using inv True by (simp add: save_row_by_id ids tokens_inv_def del: map_update)
qed


lemma distinct_link:
  assumes "distinct (filter (\<lambda>x. x \<noteq> None) xs)" and "Some k \<notin> set xs"
  shows "distinct (filter (\<lambda>x. x \<noteq> None) (xs[i := Some k]))"
  using assms
proof (induction xs arbitrary: i)
  case (Cons x xs)
  have sub: "set (xs[j := Some k]) \<subseteq> insert (Some k) (set xs)" for j
    by (rule set_update_subset_insert)
  from Cons show ?case
    using sub by (cases i) (auto split: if_splits)
qed simp

text \<open>Rotation: an unrevoked row is linked to the row just appended.\<close>

lemma tokens_inv_rotate:
  assumes inv: "tokens_inv toks" and i: "i < length toks" and live: "\<not> rt_is_revoked (toks ! i)"
    and n: "rt_id n = length toks" "rt_replaced_by n = None" "rt_token n \<notin> rt_token ` set toks"
      "rt_client n = rt_client (toks ! i)" "rt_tenant n = rt_tenant (toks ! i)"
      "rt_user_id n = rt_user_id (toks ! i)"
      "set (words (rt_scope n)) \<subseteq> set (words (rt_scope (toks ! i)))"
  shows "tokens_inv ((toks @ [n])[i := (toks ! i)\<lparr>rt_is_revoked := True, rt_revoked_at := Some now,
     rt_replaced_by := Some (rt_id n)\<rparr>])"
proof -
  let ?u = "(toks ! i)\<lparr>rt_is_revoked := True, rt_revoked_at := Some now, rt_replaced_by := Some (rt_id n)\<rparr>"
  let ?ts = "toks @ [n]"
  have inv': "tokens_inv ?ts" using inv n by (intro tokens_inv_append)
  have i': "i < length ?ts" "?ts ! i = toks ! i" using i by (simp_all add: nth_append)
  have none: "rt_replaced_by (toks ! i) = None"
    using tokens_inv_successor [OF inv, of "toks ! i"] i live
    by (auto simp: successor_ok_def split: option.splits)
  have nth: "rt_client (?ts[i := ?u] ! j) = rt_client (?ts ! j)"
    "rt_tenant (?ts[i := ?u] ! j) = rt_tenant (?ts ! j)"
    "rt_user_id (?ts[i := ?u] ! j) = rt_user_id (?ts ! j)"
    "rt_scope (?ts[i := ?u] ! j) = rt_scope (?ts ! j)" if "j < length ?ts" for j
    using that i by (auto simp: nth_list_update nth_append)
  have id: "rt_id (toks ! i) = i" using inv i by (simp add: tokens_inv_def rt_id_nth)
  have "successor_ok (?ts[i := ?u]) r" if "successor_ok ?ts r" for r
    using that by (auto simp: successor_ok_def nth simp del: list_update_append split: option.splits)
  moreover have "successor_ok (?ts[i := ?u]) ?u"
    using n i id by (simp add: successor_ok_def nth)
  ultimately have succ: "list_all (successor_ok (?ts[i := ?u])) (?ts[i := ?u])"
    using inv' set_update_subset_insert [of ?ts i ?u]
    by (auto simp: tokens_inv_def list_all_iff simp del: list_update_append)
  have same: "map f (?ts[i := ?u]) = map f ?ts" if "f ?u = f (toks ! i)" for f :: "refresh_token \<Rightarrow> 'b"
    using i' that by (metis list_update_id map_update)
  have old: "map rt_replaced_by ?ts = (map rt_replaced_by ?ts)[i := None]"
    using i' none by (metis list_update_id map_update)
  have new: "map rt_replaced_by (?ts[i := ?u]) = (map rt_replaced_by ?ts)[i := Some (rt_id n)]"
    by (simp only: map_update) simp
  have fresh: "Some (rt_id n) \<notin> set (map rt_replaced_by ?ts)"
  proof
    assume "Some (rt_id n) \<in> set (map rt_replaced_by ?ts)"
    then obtain r where r: "r \<in> set toks" "rt_replaced_by r = Some (length toks)"
      using n by auto
    with tokens_inv_successor [OF inv r(1)] show False by (simp add: successor_ok_def)
  qed
  have "distinct (filter (\<lambda>x. x \<noteq> None) (map rt_replaced_by ?ts))"
    using inv' by (simp only: tokens_inv_def)
  from distinct_link [OF this fresh, of i]
  have "distinct (filter (\<lambda>x. x \<noteq> None) (map rt_replaced_by (?ts[i := ?u])))"
    by (simp only: new)
  with succ inv' same [of rt_id] same [of rt_token] show ?thesis
    by (simp only: tokens_inv_def length_list_update) (simp del: list_update_append)
qed

section \<open>The lineage of a token and the revocation walk\<close>

definition replaced :: "refresh_token list \<Rightarrow> nat \<Rightarrow> nat \<Rightarrow> bool" where
  "replaced toks i j = (i < length toks \<and> rt_replaced_by (toks ! i) = Some j)"

abbreviation lineage :: "refresh_token list \<Rightarrow> nat \<Rightarrow> nat \<Rightarrow> bool" where
  "lineage toks \<equiv> (replaced toks)\<^sup>*\<^sup>*"

definition revoke_row :: "int \<Rightarrow> refresh_token \<Rightarrow> refresh_token" where
  "revoke_row now r = (if rt_is_revoked r then r
     else r\<lparr>rt_is_revoked := True, rt_revoked_at := Some now\<rparr>)"

lemma replaced_later:
  assumes "tokens_inv toks" and "replaced toks i j"
  shows "i < j \<and> j < length toks"
  using assms tokens_inv_successor [of toks "toks ! i"]
  by (auto simp: replaced_def successor_ok_def tokens_inv_def rt_id_nth)

lemma lineage_later: "lineage toks i j \<Longrightarrow> tokens_inv toks \<Longrightarrow> i < length toks \<Longrightarrow> i \<le> j \<and> j < length toks"
  by (induction rule: rtranclp_induct) (auto dest: replaced_later)

lemma lineage_step:
  assumes "tokens_inv toks" and "i < length toks"
  shows "lineage toks i k \<longleftrightarrow> k = i \<or> (\<exists>j. rt_replaced_by (toks ! i) = Some j \<and> lineage toks j k)"
proof
  assume "lineage toks i k"
  then show "k = i \<or> (\<exists>j. rt_replaced_by (toks ! i) = Some j \<and> lineage toks j k)"
    by (cases rule: converse_rtranclpE) (auto simp: replaced_def)
next
  assume "k = i \<or> (\<exists>j. rt_replaced_by (toks ! i) = Some j \<and> lineage toks j k)"
  then show "lineage toks i k"
    using assms by (auto simp: replaced_def intro: converse_rtranclp_into_rtranclp)
qed

lemma replaced_cong:
  assumes "map rt_replaced_by toks = map rt_replaced_by toks'"
  shows "replaced toks = replaced toks'"
proof -
  from assms have "length toks = length toks'" by (metis length_map)
  moreover from assms have "i < length toks \<Longrightarrow> rt_replaced_by (toks ! i) = rt_replaced_by (toks' ! i)" for i
    by (metis calculation nth_map)
  ultimately show ?thesis by (auto simp: replaced_def fun_eq_iff)
qed

lemma revoke_loop_lineage:
  assumes "tokens_inv toks" and "i < length toks"
  shows "\<exists>toks'. revoke_loop now toks (Some i) = Some toks' \<and> tokens_inv toks'
    \<and> length toks' = length toks \<and> map rt_replaced_by toks' = map rt_replaced_by toks
    \<and> (\<forall>k < length toks. toks' ! k = (if lineage toks i k then revoke_row now (toks ! k) else toks ! k))"
  using assms
proof (induction "length toks - i" arbitrary: toks i rule: less_induct)
  case less
  from less.prems have ids: "map rt_id toks = [0..<length toks]" by (simp add: tokens_inv_def)
  define upd where "upd = toks[i := revoke_row now (toks ! i)]"
  have saved: "(if rt_is_revoked (toks ! i) then toks
      else save_row (\<lambda>x. rt_id x = i) (\<lambda>x. x\<lparr>rt_is_revoked := True, rt_revoked_at := Some now\<rparr>) toks) = upd"
    using less.prems by (simp add: upd_def revoke_row_def save_row_by_id [OF ids])
  have inv: "tokens_inv upd"
    using less.prems tokens_inv_revoke [OF less.prems(1), of i now] saved by (simp split: if_splits)
  have len: "length upd = length toks" by (simp add: upd_def)
  have repl: "map rt_replaced_by upd = map rt_replaced_by toks"
    using less.prems by (simp add: upd_def map_update list_update_same_conv revoke_row_def)
  have unfold_eq: "revoke_loop now toks (Some i) = revoke_loop now upd (rt_replaced_by (toks ! i))"
    using less.prems by (subst revoke_loop.simps) (simp add: find_by_id [OF ids] saved)
  show ?case
  proof (cases "rt_replaced_by (toks ! i)")
    case None
    then have "lineage toks i k \<longleftrightarrow> k = i" for k
      using lineage_step [OF less.prems] by simp
    with None show ?thesis
      using unfold_eq inv len repl revoke_loop.simps [of now upd None] less.prems
      by (auto simp: upd_def nth_list_update)
  next
    case (Some j)
    then have edge: "replaced toks i j" using less.prems by (simp add: replaced_def)
    with replaced_later [OF less.prems(1)] have j: "i < j" "j < length toks" by auto
    have eq: "replaced upd = replaced toks" by (rule replaced_cong [OF repl])
    obtain toks' where t: "revoke_loop now upd (Some j) = Some toks'" "tokens_inv toks'"
      "length toks' = length upd" "map rt_replaced_by toks' = map rt_replaced_by upd"
      "\<forall>k < length upd. toks' ! k = (if lineage upd j k then revoke_row now (upd ! k) else upd ! k)"
      using less.hyps [of upd j] inv len j by force
    have "toks' ! k = (if lineage toks i k then revoke_row now (toks ! k) else toks ! k)"
      if k: "k < length toks" for k
    proof (cases "k = i")
      case True
      with lineage_later [of toks j k] j less.prems have "\<not> lineage toks j k" by auto
      with t(5) k len True eq show ?thesis by (simp add: upd_def)
    next
      case False
      with t(5) k len eq lineage_step [OF less.prems, of k] Some show ?thesis
        by (simp add: upd_def)
    qed
    with t unfold_eq Some len repl show ?thesis by auto
  qed
qed

section \<open>Steps of the store\<close>

lemma consume_refresh_token_cases:
  assumes "consume_refresh_token env fresh ref client sc db = (r, db')" and inv: "db_inv db"
  obtains (rejected) e where "r = Inl e" "db' = db"
    | (rotated) i old n td where
        "r = Inr td" "i < length (od_tokens db)" "old = od_tokens db ! i" "rt_token old = ref"
        "\<not> rt_is_revoked old" "oe_now env \<le> rt_expires_at old" "rt_client old = oc_id client"
        "td_refresh td = Some n" "td_scope td = rt_scope n" "td_user_id td = Some (rt_user_id old)"
        "td_tenant_id td = rt_tenant old" "rt_id n = length (od_tokens db)"
        "rt_client n = rt_client old" "rt_tenant n = rt_tenant old" "rt_user_id n = rt_user_id old"
        "rt_token n = fresh" "fresh \<notin> rt_token ` set (od_tokens db)"
        "\<not> rt_is_revoked n" "rt_replaced_by n = None"
        "set (words (rt_scope n)) \<subseteq> set (words (rt_scope old))"
        "od_codes db' = od_codes db"
        "od_tokens db' = (od_tokens db @ [n])[i := old\<lparr>rt_is_revoked := True,
            rt_revoked_at := Some (oe_now env), rt_replaced_by := Some (rt_id n)\<rparr>]"
proof (cases "qs_get (\<lambda>r. rt_token r = ref) (manager_queryset rt_tenant (oe_ctx env) (od_tokens db))")
  case (Inl e)
  with assms(1) show ?thesis
    by (cases e) (auto simp: consume_refresh_token_def intro: rejected)
next
  case (Inr old)
  from qs_get_Inr_D [OF Inr] manager.scoped_subset [of rt_tenant "oe_ctx env" "od_tokens db"]
  have old: "old \<in> set (od_tokens db)" "rt_token old = ref" by auto
  from inv have tinv: "tokens_inv (od_tokens db)" by (simp add: db_inv_def)
  from tokens_inv_row [OF tinv old(1)]
  have i: "rt_id old < length (od_tokens db)" "od_tokens db ! rt_id old = old" by simp_all
  let ?sc = "if sc \<noteq> [] then sc else rt_scope old"
  show ?thesis
  proof (cases "rt_is_revoked old \<or> oe_now env > rt_expires_at old \<or> rt_client old \<noteq> oc_id client
      \<or> \<not> set (words ?sc) \<subseteq> set (words (rt_scope old))")
    case True
    then have "(\<exists>e. r = Inl e) \<and> db' = db"
      using assms Inr by (auto simp: consume_refresh_token_def Let_def split: if_splits)
    then show ?thesis by (auto intro: rejected)
  next
    case False
    then have ok: "\<not> rt_is_revoked old" "\<not> oe_now env > rt_expires_at old"
      "rt_client old = oc_id client" "set (words ?sc) \<subseteq> set (words (rt_scope old))" by blast+
    obtain r2 db1 where iss: "issue_refresh_token env fresh client (rt_tenant old) (rt_user_id old) ?sc db = (r2, db1)"
      by (cases "issue_refresh_token env fresh client (rt_tenant old) (rt_user_id old) ?sc db")
    show ?thesis
    proof (cases rule: issue_refresh_token_cases [OF iss])
      case (1 e)
      with assms Inr ok iss show ?thesis
        by (intro rejected [of e]) (auto simp: consume_refresh_token_def Let_def)
    next
      case (2 n)
      let ?f = "\<lambda>x. x\<lparr>rt_is_revoked := True, rt_revoked_at := Some (oe_now env), rt_replaced_by := Some (rt_id n)\<rparr>"
      have "tokens_inv (od_tokens db @ [n])" using tinv 2 by (intro tokens_inv_append) simp_all
      then have "map rt_id (od_tokens db @ [n]) = [0..<length (od_tokens db @ [n])]"
        unfolding tokens_inv_def by blast
      from save_row_by_id [OF this, of "rt_id old" ?f] i
      have saved: "save_row (\<lambda>x. rt_id x = rt_id old) ?f (od_tokens db @ [n])
          = (od_tokens db @ [n])[rt_id old := ?f old]"
        by (simp add: nth_append)
      obtain td where td: "r = Inr td" "td_refresh td = Some n" "td_scope td = ?sc"
        "td_user_id td = Some (rt_user_id old)" "td_tenant_id td = rt_tenant old"
        "od_codes db' = od_codes db"
        "od_tokens db' = save_row (\<lambda>x. rt_id x = rt_id old) ?f (od_tokens db @ [n])"
        using assms Inr False iss 2(1,2)
        by (auto simp: consume_refresh_token_def Let_def split: if_splits)
      show ?thesis
        by (rule rotated [of td "rt_id old" old n]) (use td 2 i old False saved in auto)
    qed
  qed
qed

text \<open>
  The steps of the store, for any environment, client and request.  The uuid drawn for a
  code is new (\<open>uuid4\<close> does not repeat); the one drawn for a refresh token is protected by
  the unique constraint of its column.
\<close>

inductive oauth_step :: "oauth_db \<Rightarrow> oauth_db \<Rightarrow> bool" where
  authorize: "take 32 fresh \<notin> ac_code ` set (od_codes db) \<Longrightarrow>
    generate_authorization_code env fresh client t uri sc u ch m db = (r, db') \<Longrightarrow> oauth_step db db'"
| redeem: "consume_authorization_code env fresh code client uri ver db = (r2, db') \<Longrightarrow> oauth_step db db'"
| rotate: "consume_refresh_token env fresh ref client sc db = (r2, db') \<Longrightarrow> oauth_step db db'"
| credentials: "issue_client_credentials_token env client sc db = (r2, db') \<Longrightarrow> oauth_step db db'"
| revoke: "record \<in> set (od_tokens db) \<Longrightarrow>
    revoke_refresh_token_chain env record db = Some (r3, db') \<Longrightarrow> oauth_step db db'"

inductive_cases oauth_stepE: "oauth_step db db'"

lemma generate_authorization_code_cases:
  assumes "generate_authorization_code env fresh client t uri sc u ch m db = (r, db')"
  obtains (rejected) e where "r = Inl e" "db' = db"
    | (issued) a where "r = Inr a" "od_codes db' = od_codes db @ [a]" "od_tokens db' = od_tokens db"
        "ac_code a = take 32 fresh" "\<not> ac_is_consumed a" "ac_client a = oc_id client"
        "ac_tenant a = t" "ac_user_id a = Some u" "ac_redirect_uri a = uri" "ac_scope a = sc"
        "ac_code_challenge a = Some ch" "ac_code_challenge_method a = Some m"
        "oc_is_confidential client \<or> ch \<noteq> []"
proof (cases r)
  case (Inl e)
  with assms show ?thesis
    by (intro rejected [of e])
       (auto simp: generate_authorization_code_def Let_def split: sum.splits if_splits)
next
  case (Inr a)
  with assms show ?thesis
    by (intro issued [of a])
       (auto simp: generate_authorization_code_def uuid_field_def Let_def split: sum.splits if_splits)
qed

lemma mark_consumed_keys: "map ac_code (mark_consumed now a codes) = map ac_code codes"
  unfolding mark_consumed_def by (rule map_save_row) simp

lemma issue_client_credentials_frame:
  "issue_client_credentials_token env client sc db = (r, db') \<Longrightarrow>
     od_codes db' = od_codes db \<and> od_tokens db' = od_tokens db \<and> od_clients db' = od_clients db"
  by (auto simp: issue_client_credentials_token_def split: sum.splits)

lemma revoke_chain_effect:
  assumes "db_inv db" and "record \<in> set (od_tokens db)"
  shows "\<exists>r db'. revoke_refresh_token_chain env record db = Some (r, db')
    \<and> od_codes db' = od_codes db \<and> od_clients db' = od_clients db \<and> tokens_inv (od_tokens db')
    \<and> length (od_tokens db') = length (od_tokens db)
    \<and> map rt_replaced_by (od_tokens db') = map rt_replaced_by (od_tokens db)
    \<and> (\<forall>k < length (od_tokens db). od_tokens db' ! k =
         (if lineage (od_tokens db) (rt_id record) k
          then revoke_row (oe_now env) (od_tokens db ! k) else od_tokens db ! k))"
proof -
  from assms have inv: "tokens_inv (od_tokens db)" by (simp add: db_inv_def)
  with tokens_inv_row [OF inv assms(2)] revoke_loop_lineage [of "od_tokens db" "rt_id record" "oe_now env"]
  obtain toks' where t: "revoke_loop (oe_now env) (od_tokens db) (Some (rt_id record)) = Some toks'"
    "tokens_inv toks'" "length toks' = length (od_tokens db)"
    "map rt_replaced_by toks' = map rt_replaced_by (od_tokens db)"
    "\<forall>k < length (od_tokens db). toks' ! k = (if lineage (od_tokens db) (rt_id record) k
          then revoke_row (oe_now env) (od_tokens db ! k) else od_tokens db ! k)"
    by blast
  obtain r db' where e: "revoke_refresh_token_chain env record db = Some (r, db')"
    by (cases "client_by_pk (db\<lparr>od_tokens := toks'\<rparr>) (rt_client record)")
       (simp_all add: revoke_refresh_token_chain_def t(1) Let_def client_by_pk_def)
  with t(1) have "od_codes db' = od_codes db \<and> od_clients db' = od_clients db \<and> od_tokens db' = toks'"
    by (auto simp: revoke_refresh_token_chain_def Let_def split: option.splits)
  with e t show ?thesis by auto
qed

text \<open>Every service keeps the invariant.\<close>

lemma oauth_step_inv: "db_inv db \<Longrightarrow> oauth_step db db' \<Longrightarrow> db_inv db'"
proof (elim oauth_stepE)
  fix fresh env client t uri sc u ch m r
  assume inv: "db_inv db" and new: "take 32 fresh \<notin> ac_code ` set (od_codes db)"
    and g: "generate_authorization_code env fresh client t uri sc u ch m db = (r, db')"
  show "db_inv db'"
    by (cases rule: generate_authorization_code_cases [OF g])
       (use inv new in \<open>auto simp: db_inv_def codes_inv_def\<close>)
next
  fix env fresh code client uri ver r
  assume inv: "db_inv db" and c: "consume_authorization_code env fresh code client uri ver db = (r, db')"
  show "db_inv db'"
  proof (cases rule: consume_authorization_code_cases [OF c])
    case (2 a)
    then show ?thesis
      using inv by (auto simp: db_inv_def codes_inv_def mark_consumed_keys intro!: tokens_inv_append)
  qed (use inv in simp)
next
  fix env fresh ref client sc r
  assume inv: "db_inv db" and c: "consume_refresh_token env fresh ref client sc db = (r, db')"
  show "db_inv db'"
  proof (cases rule: consume_refresh_token_cases [OF c inv])
    case (2 i old n td)
    then have "tokens_inv (od_tokens db')"
      using inv tokens_inv_rotate [of "od_tokens db" i n "oe_now env"] by (simp add: db_inv_def)
    with 2 inv show ?thesis by (simp add: db_inv_def)
  qed (use inv in simp)
next
  fix env client sc r
  assume "db_inv db" and "issue_client_credentials_token env client sc db = (r, db')"
  then show "db_inv db'" using issue_client_credentials_frame [of env client sc db r db']
    by (simp add: db_inv_def)
next
  fix tok env r
  assume "db_inv db" and "tok \<in> set (od_tokens db)"
    and "revoke_refresh_token_chain env tok db = Some (r, db')"
  with revoke_chain_effect [of db tok env] show "db_inv db'" by (auto simp: db_inv_def)
qed

interpretation oauth: state_machine oauth_step db_inv
  by unfold_locales (rule oauth_step_inv)

text \<open>A consumed code and a revoked token stay so.\<close>

definition code_spent :: "string \<Rightarrow> oauth_db \<Rightarrow> bool" where
  "code_spent code db = (\<exists>a \<in> set (od_codes db). ac_code a = code \<and> ac_is_consumed a)"

definition token_dead :: "string \<Rightarrow> oauth_db \<Rightarrow> bool" where
  "token_dead ref db = (\<exists>r \<in> set (od_tokens db). rt_token r = ref \<and> rt_is_revoked r)"

lemma mark_consumed_mono:
  "x \<in> set codes \<Longrightarrow> ac_is_consumed x \<Longrightarrow>
     \<exists>y \<in> set (mark_consumed now a codes). ac_code y = ac_code x \<and> ac_is_consumed y"
  unfolding mark_consumed_def set_save_row bex_simps(7) by (rule bexI [of _ x]) simp_all

lemma mark_consumed_self:
  "a \<in> set codes \<Longrightarrow> \<exists>y \<in> set (mark_consumed now a codes). ac_code y = ac_code a \<and> ac_is_consumed y"
  unfolding mark_consumed_def set_save_row bex_simps(7) by (rule bexI [of _ a]) simp_all

lemma code_spent_step: "db_inv db \<Longrightarrow> oauth_step db db' \<Longrightarrow> code_spent code db \<Longrightarrow> code_spent code db'"
proof (elim oauth_stepE)
  fix fresh env client t uri sc u ch m r
  assume g: "generate_authorization_code env fresh client t uri sc u ch m db = (r, db')"
    and s: "code_spent code db"
  show "code_spent code db'"
    by (cases rule: generate_authorization_code_cases [OF g]) (use s in \<open>auto simp: code_spent_def\<close>)
next
  fix env fresh code' client uri ver r
  assume c: "consume_authorization_code env fresh code' client uri ver db = (r, db')"
    and s: "code_spent code db"
  show "code_spent code db'"
  proof (cases rule: consume_authorization_code_cases [OF c])
    case (2 a)
    with s mark_consumed_mono show ?thesis by (fastforce simp: code_spent_def)
  qed (use s in simp)
next
  fix env fresh ref client sc r
  assume inv: "db_inv db" and s: "code_spent code db"
    and c: "consume_refresh_token env fresh ref client sc db = (r, db')"
  show "code_spent code db'"
    by (cases rule: consume_refresh_token_cases [OF c inv]) (use s in \<open>simp_all add: code_spent_def\<close>)
next
  fix env client sc r
  assume "code_spent code db" and "issue_client_credentials_token env client sc db = (r, db')"
  then show "code_spent code db'" using issue_client_credentials_frame [of env client sc db r db']
    by (simp add: code_spent_def)
next
  fix tok env r
  assume "db_inv db" and "code_spent code db" and "tok \<in> set (od_tokens db)"
    and "revoke_refresh_token_chain env tok db = Some (r, db')"
  with revoke_chain_effect [of db tok env] show "code_spent code db'" by (auto simp: code_spent_def)
qed

lemma token_dead_update:
  assumes "token_dead ref db" and "length (od_tokens db) \<le> length (od_tokens db')"
    and "\<And>k. k < length (od_tokens db) \<Longrightarrow> rt_is_revoked (od_tokens db ! k) \<Longrightarrow>
          rt_token (od_tokens db' ! k) = rt_token (od_tokens db ! k) \<and> rt_is_revoked (od_tokens db' ! k)"
  shows "token_dead ref db'"
proof -
  from assms(1) obtain k where "k < length (od_tokens db)" "rt_token (od_tokens db ! k) = ref"
    "rt_is_revoked (od_tokens db ! k)" by (auto simp: token_dead_def in_set_conv_nth)
  with assms(2,3) show ?thesis
    unfolding token_dead_def by (metis nth_mem order_less_le_trans)
qed

lemma token_dead_step: "db_inv db \<Longrightarrow> oauth_step db db' \<Longrightarrow> token_dead ref db \<Longrightarrow> token_dead ref db'"
proof (elim oauth_stepE)
  fix fresh env client t uri sc u ch m r
  assume g: "generate_authorization_code env fresh client t uri sc u ch m db = (r, db')"
    and s: "token_dead ref db"
  show "token_dead ref db'"
    by (cases rule: generate_authorization_code_cases [OF g]) (use s in \<open>auto simp: token_dead_def\<close>)
next
  fix env fresh code' client uri ver r
  assume c: "consume_authorization_code env fresh code' client uri ver db = (r, db')"
    and s: "token_dead ref db"
  show "token_dead ref db'"
  proof (cases rule: consume_authorization_code_cases [OF c])
    case (2 a)
    with s show ?thesis by (auto simp: token_dead_def)
  qed (use s in simp)
next
  fix env fresh ref' client sc r
  assume inv: "db_inv db" and s: "token_dead ref db"
    and c: "consume_refresh_token env fresh ref' client sc db = (r, db')"
  show "token_dead ref db'"
  proof (cases rule: consume_refresh_token_cases [OF c inv])
    case (2 i old n td)
    then show ?thesis
      by (intro token_dead_update [OF s]) (auto simp: nth_list_update nth_append)
  qed (use s in simp)
next
  fix env client sc r
  assume "token_dead ref db" and "issue_client_credentials_token env client sc db = (r, db')"
  then show "token_dead ref db'" using issue_client_credentials_frame [of env client sc db r db']
    by (simp add: token_dead_def)
next
  fix tok env r
  assume "db_inv db" and s: "token_dead ref db" and "tok \<in> set (od_tokens db)"
    and "revoke_refresh_token_chain env tok db = Some (r, db')"
  with revoke_chain_effect [of db tok env] show "token_dead ref db'"
    by (intro token_dead_update [OF s]) (auto simp: revoke_row_def)
qed

lemma spent_code_rejected:
  assumes "db_inv db" and "code_spent code db"
  shows "\<exists>e. consume_authorization_code env fresh code client uri ver db = (Inl e, db)"
proof (cases "qs_get (\<lambda>a. ac_code a = code) (manager_queryset ac_tenant (oe_ctx env) (od_codes db))")
  case (Inl e)
  then show ?thesis by (simp add: consume_authorization_code_def)
next
  case (Inr a)
  from qs_get_Inr_D [OF Inr] manager.scoped_subset [of ac_tenant "oe_ctx env" "od_codes db"]
  have a: "a \<in> set (od_codes db)" "ac_code a = code" by auto
  from assms(2) obtain b where "b \<in> set (od_codes db)" "ac_code b = code" "ac_is_consumed b"
    by (auto simp: code_spent_def)
  with a assms(1) have "ac_is_consumed a"
    by (auto simp: db_inv_def codes_inv_def distinct_map dest: inj_onD)
  with Inr show ?thesis by (simp add: consume_authorization_code_def)
qed

lemma dead_token_rejected:
  assumes "db_inv db" and "token_dead ref db"
  shows "\<exists>e. consume_refresh_token env fresh ref client sc db = (Inl e, db)"
proof -
  obtain r db' where c: "consume_refresh_token env fresh ref client sc db = (r, db')"
    by (cases "consume_refresh_token env fresh ref client sc db")
  show ?thesis
  proof (cases rule: consume_refresh_token_cases [OF c assms(1)])
    case (2 i old n td)
    from assms(2) obtain d where d: "d \<in> set (od_tokens db)" "rt_token d = ref" "rt_is_revoked d"
      by (auto simp: token_dead_def)
    from 2 have "old \<in> set (od_tokens db)" by simp
    with tokens_inv_token [of "od_tokens db" d old] d 2 assms(1) have "d = old"
      by (simp add: db_inv_def)
    with d 2 show ?thesis by simp
  qed (use c in simp)
qed

section \<open>Properties\<close>

text \<open>Concrete rows for the witnesses.\<close>

definition sample_env :: oauth_env where
  "sample_env = \<lparr>oe_settings = Map.empty, oe_ctx = None, oe_now = 100,
     oe_s256 = rev, oe_jti = Some, oe_url_ok = (\<lambda>_. True)\<rparr>"

definition sample_client :: "bool \<Rightarrow> oauth_client" where
  "sample_client confidential = \<lparr>oc_id = 0, oc_tenant = ''t1'', oc_client_id = ''app'',
     oc_client_secret = Some ''s3'', oc_client_name = ''App'', oc_redirect_uris = ''https://a/cb'',
     oc_grant_types = ''authorization_code,refresh_token,client_credentials'',
     oc_response_types = ''code'', oc_scope = ''read write'',
     oc_is_confidential = confidential, oc_is_active = True\<rparr>"

definition sample_code :: "string \<Rightarrow> authorization_code" where
  "sample_code challenge = \<lparr>ac_client = 0, ac_tenant = ''t1'', ac_code = ''c1'',
     ac_redirect_uri = ''https://a/cb'', ac_scope = ''read write'',
     ac_code_challenge = Some challenge, ac_code_challenge_method = Some ''plain'',
     ac_user_id = Some ''u'', ac_expires_at = 700, ac_is_consumed = False, ac_consumed_at = None\<rparr>"

definition sample_db :: "bool \<Rightarrow> string \<Rightarrow> oauth_db" where
  "sample_db confidential challenge = \<lparr>od_clients = [sample_client confidential],
     od_codes = [sample_code challenge], od_tokens = [], od_events = [], od_signals = []\<rparr>"

lemmas oauth_eval = sample_env_def sample_client_def sample_db_def sample_code_def
  consume_authorization_code_def consume_refresh_token_def issue_refresh_token_def
  verify_pkce_def int_setting_def get_oauth2_setting_def oauth_defaults_def uuid_field_def
  user_or_empty_def manager_queryset_def qs_get_def qs_exists_def Let_def

lemma sample_words:
  "words ''read'' = [''read'']" "words ''read write'' = [''read'', ''write'']"
  by code_simp+

lemma sample_db_inv: "db_inv (sample_db b ch)"
  by (simp add: db_inv_def codes_inv_def tokens_inv_def sample_db_def)

text \<open>C3: An authorization code is single-use.  Once a redemption has succeeded, no later
  attempt on that code succeeds or changes the store, whatever steps (of any client, tenant
  or administrator) happen in between and whichever parameters the attempt carries.\<close>

theorem authorization_code_single_use:
  assumes "db_inv db"
    and "consume_authorization_code env fresh code client uri ver db = (Inr td, db1)"
    and "oauth_step\<^sup>*\<^sup>* db1 db2"
  shows "\<exists>e. consume_authorization_code env' fresh' code client' uri' ver' db2 = (Inl e, db2)"
proof -
  have inv1: "db_inv db1" using assms(1,2) by (blast intro: oauth_step_inv redeem)
  have "code_spent code db1"
  proof (cases rule: consume_authorization_code_cases [OF assms(2)])
    case (2 a)
    from qs_get_Inr_D [OF 2(1)] manager.scoped_subset [of ac_tenant "oe_ctx env" "od_codes db"]
    have "a \<in> set (od_codes db)" "ac_code a = code" by auto
    then show ?thesis
      using mark_consumed_self by (fastforce simp: code_spent_def 2(7))
  qed simp
  with oauth.steps_stable [OF assms(3) inv1, of "code_spent code"] code_spent_step
  have "code_spent code db2" by blast
  with oauth.steps_good [OF assms(3) inv1] show ?thesis by (rule spent_code_rejected)
qed

lemma authorization_code_single_use_witness:
  "\<exists>td db1. consume_authorization_code sample_env ''x'' ''c1'' (sample_client True) [] []
       (sample_db True []) = (Inr td, db1) \<and> rt_token (the (td_refresh td)) = ''x''
     \<and> (\<exists>e. consume_authorization_code sample_env ''y'' ''c1'' (sample_client True) [] [] db1 = (Inl e, db1))"
proof -
  obtain td db1 where c: "consume_authorization_code sample_env ''x'' ''c1'' (sample_client True) [] []
       (sample_db True []) = (Inr td, db1)" and t: "rt_token (the (td_refresh td)) = ''x''"
    by (simp add: oauth_eval)
  from authorization_code_single_use [OF sample_db_inv c] have
    "\<exists>e. consume_authorization_code sample_env ''y'' ''c1'' (sample_client True) [] [] db1 = (Inl e, db1)"
    by blast
  with c t show ?thesis by blast
qed

text \<open>C34: A redemption that succeeds was allowed to: the code exists, is unconsumed, has not
  expired, belongs to the presenting client and was issued for the redirect URI presented
  (if one is); a PKCE challenge is verified when a verifier is presented.  The refresh token
  issued carries the code's client, tenant, user and scope.\<close>

theorem authorization_code_redemption:
  assumes "consume_authorization_code env fresh code client uri ver db = (Inr td, db')"
  shows "\<exists>a \<in> set (od_codes db). ac_code a = code \<and> \<not> ac_is_consumed a
    \<and> oe_now env \<le> ac_expires_at a \<and> ac_client a = oc_id client
    \<and> (uri = [] \<or> ac_redirect_uri a = uri)
    \<and> (truthy (ac_code_challenge a) \<and> ver \<noteq> [] \<longrightarrow> verify_pkce env ver a = Inr ())
    \<and> td_user_id td = ac_user_id a \<and> td_tenant_id td = ac_tenant a \<and> td_scope td = ac_scope a
    \<and> (\<exists>row. td_refresh td = Some row \<and> od_tokens db' = od_tokens db @ [row]
         \<and> rt_client row = oc_id client \<and> rt_tenant row = ac_tenant a
         \<and> rt_user_id row = user_or_empty (ac_user_id a) \<and> rt_scope row = ac_scope a
         \<and> \<not> rt_is_revoked row)"
proof (cases rule: consume_authorization_code_cases [OF assms])
  case (2 a)
  from qs_get_Inr_D [OF 2(1)] manager.scoped_subset [of ac_tenant "oe_ctx env" "od_codes db"]
  have "a \<in> set (od_codes db)" "ac_code a = code" by auto
  with 2 show ?thesis by (intro bexI [of _ a]) auto
qed simp

lemma authorization_code_redemption_witness:
  "\<exists>td db'. consume_authorization_code sample_env ''x'' ''c1'' (sample_client False) [] ''abc''
      (sample_db False ''abc'') = (Inr td, db') \<and> td_scope td = ''read write''"
proof -
  obtain td db1 where c: "consume_authorization_code sample_env ''x'' ''c1'' (sample_client False) [] ''abc''
      (sample_db False ''abc'') = (Inr td, db1)"
    by (simp add: oauth_eval)
  from authorization_code_redemption [OF c] c show ?thesis
    by (auto simp: sample_db_def sample_code_def)
qed

text \<open>PKCE binds a redemption only to a verifier that is presented.  A wrong verifier is
  rejected; but a code issued under a challenge is redeemed by its client with no verifier
  at all, so whoever holds the code and the client identifier needs no proof of possession.\<close>

theorem pkce_only_checked_when_presented:
  assumes code: "qs_get (\<lambda>a. ac_code a = code) (manager_queryset ac_tenant (oe_ctx env) (od_codes db)) = Inr a"
    and live: "\<not> ac_is_consumed a" "oe_now env \<le> ac_expires_at a" "ac_client a = oc_id client"
    and user: "ac_user_id a = Some u" "u \<noteq> []" "ac_tenant a \<noteq> []"
    and env: "oe_settings env = Map.empty" "fresh \<notin> rt_token ` set (od_tokens db)"
    and challenge: "truthy (ac_code_challenge a)"
  shows "(\<exists>td db'. consume_authorization_code env fresh code client [] [] db = (Inr td, db'))
    \<and> (\<forall>ver. ver \<noteq> [] \<longrightarrow> verify_pkce env ver a \<noteq> Inr () \<longrightarrow>
         consume_authorization_code env fresh code client [] ver db
           = (Inl (invalid ''PKCE code verifier mismatch.''), db))"
proof
  have "\<not> qs_exists (\<lambda>r. rt_token r = fresh) (od_tokens db)" using env by (auto simp: qs_exists_iff)
  then show "\<exists>td db'. consume_authorization_code env fresh code client [] [] db = (Inr td, db')"
    using live user env
    by (simp add: consume_authorization_code_def code issue_refresh_token_def int_setting_def
        get_oauth2_setting_def oauth_defaults_def uuid_field_def user_or_empty_def Let_def)
  show "\<forall>ver. ver \<noteq> [] \<longrightarrow> verify_pkce env ver a \<noteq> Inr () \<longrightarrow>
      consume_authorization_code env fresh code client [] ver db
        = (Inl (invalid ''PKCE code verifier mismatch.''), db)"
    using live challenge
    by (auto simp: consume_authorization_code_def code verify_pkce_def guard_def Let_def
        split: if_splits)
qed

lemma pkce_only_checked_when_presented_witness:
  "\<exists>td db'. consume_authorization_code sample_env ''x'' ''c1'' (sample_client False) [] []
      (sample_db False ''abc'') = (Inr td, db')"
  using pkce_only_checked_when_presented
    [of "''c1''" sample_env "sample_db False ''abc''" "sample_code ''abc''" "sample_client False" "''u''" "''x''"]
  by (simp add: sample_env_def sample_client_def sample_db_def sample_code_def qs_get_def
      manager_queryset_def)

text \<open>C22: Rotation of a refresh token.  A successful exchange was made by the token's own
  client on an unrevoked, unexpired token; it appends exactly one new live token of the same
  client, tenant and user, with no scope the old one lacks, revokes the old one and links it
  to the new; and the old token is never accepted again, after any further steps.\<close>

theorem refresh_token_rotation:
  assumes "db_inv db"
    and "consume_refresh_token env fresh ref client sc db = (Inr td, db1)"
  shows "\<exists>i n. i < length (od_tokens db)
    \<and> rt_token (od_tokens db ! i) = ref \<and> \<not> rt_is_revoked (od_tokens db ! i)
    \<and> oe_now env \<le> rt_expires_at (od_tokens db ! i) \<and> rt_client (od_tokens db ! i) = oc_id client
    \<and> td_refresh td = Some n \<and> length (od_tokens db1) = Suc (length (od_tokens db))
    \<and> od_tokens db1 ! length (od_tokens db) = n \<and> \<not> rt_is_revoked n
    \<and> rt_client n = oc_id client \<and> rt_tenant n = rt_tenant (od_tokens db ! i)
    \<and> rt_user_id n = rt_user_id (od_tokens db ! i)
    \<and> set (words (rt_scope n)) \<subseteq> set (words (rt_scope (od_tokens db ! i)))
    \<and> rt_is_revoked (od_tokens db1 ! i) \<and> rt_replaced_by (od_tokens db1 ! i) = Some (rt_id n)
    \<and> (\<forall>db2 env' fresh' client' sc'. oauth_step\<^sup>*\<^sup>* db1 db2 \<longrightarrow>
         (\<exists>e. consume_refresh_token env' fresh' ref client' sc' db2 = (Inl e, db2)))"
proof (cases rule: consume_refresh_token_cases [OF assms(2,1)])
  case (2 i old n td')
  have inv1: "db_inv db1" using assms by (blast intro: oauth_step_inv rotate)
  have "od_tokens db1 ! i \<in> set (od_tokens db1)" by (rule nth_mem) (use 2 in simp)
  moreover have "od_tokens db1 ! i = old\<lparr>rt_is_revoked := True,
      rt_revoked_at := Some (oe_now env), rt_replaced_by := Some (rt_id n)\<rparr>"
    using 2 by (simp add: nth_list_update)
  ultimately have dead: "token_dead ref db1" using 2(4) unfolding token_dead_def
    by (intro bexI [of _ "od_tokens db1 ! i"]) simp_all
  have later: "\<exists>e. consume_refresh_token env' fresh' ref client' sc' db2 = (Inl e, db2)"
    if "oauth_step\<^sup>*\<^sup>* db1 db2" for db2 env' fresh' client' sc'
    using that inv1 dead oauth.steps_stable [OF that inv1, of "token_dead ref"] token_dead_step
      oauth.steps_good [OF that inv1] dead_token_rejected by blast
  show ?thesis
    by (rule exI [of _ i], rule exI [of _ n])
       (use 2 later in \<open>simp add: nth_list_update nth_append\<close>)
qed simp

lemma refresh_token_rotation_witness:
  "\<exists>td db1 db2. consume_authorization_code sample_env ''x'' ''c1'' (sample_client True) [] []
       (sample_db True []) = (Inr td, db1)
     \<and> rt_scope (the (td_refresh td)) = ''read write''
     \<and> (\<exists>td'. consume_refresh_token sample_env ''y'' ''x'' (sample_client True) ''read'' db1 = (Inr td', db2)
        \<and> (\<exists>e. consume_refresh_token sample_env ''z'' ''x'' (sample_client True) [] db2 = (Inl e, db2)))"
proof -
  obtain td db1 where c: "consume_authorization_code sample_env ''x'' ''c1'' (sample_client True) [] []
       (sample_db True []) = (Inr td, db1)" and s: "rt_scope (the (td_refresh td)) = ''read write''"
    and t: "od_tokens db1 = [\<lparr>rt_id = 0, rt_client = 0, rt_tenant = ''t1'', rt_user_id = ''u'',
      rt_token = ''x'', rt_scope = ''read write'', rt_expires_at = 604900, rt_is_revoked = False,
      rt_revoked_at = None, rt_replaced_by = None\<rparr>]"
    by (simp add: oauth_eval)
  have inv: "db_inv db1" using sample_db_inv c by (blast intro: oauth_step_inv redeem)
  obtain td' db2 where r: "consume_refresh_token sample_env ''y'' ''x'' (sample_client True) ''read'' db1
      = (Inr td', db2)"
    by (simp add: consume_refresh_token_def t sample_env_def sample_client_def manager_queryset_def
        qs_get_def issue_refresh_token_def int_setting_def get_oauth2_setting_def
        oauth_defaults_def uuid_field_def qs_exists_def Let_def sample_words)
  from refresh_token_rotation [OF inv r]
  have "\<exists>e. consume_refresh_token sample_env ''z'' ''x'' (sample_client True) [] db2 = (Inl e, db2)"
    by blast
  with c s r show ?thesis by blast
qed

lemma lineage_authority_inv:
  assumes "tokens_inv toks" and "lineage toks i j" and "i < length toks"
  shows "rt_client (toks ! j) = rt_client (toks ! i) \<and> rt_tenant (toks ! j) = rt_tenant (toks ! i)
    \<and> rt_user_id (toks ! j) = rt_user_id (toks ! i)
    \<and> set (words (rt_scope (toks ! j))) \<subseteq> set (words (rt_scope (toks ! i)))"
  using assms(2)
proof (induction rule: rtranclp_induct)
  case (step j k)
  then have "successor_ok toks (toks ! j)" "rt_replaced_by (toks ! j) = Some k"
    using assms(1) by (auto simp: replaced_def tokens_inv_successor)
  with step.IH show ?case by (auto simp: successor_ok_def)
qed simp

text \<open>C24: Authority never grows along a lineage.  In every store the services reach from a
  well-formed one, each token that descends from another by rotations belongs to the same
  client, tenant and user, and its scopes are among those of its ancestor; replaced tokens
  are revoked.\<close>

theorem lineage_authority:
  assumes "db_inv db0" and "oauth_step\<^sup>*\<^sup>* db0 db"
    and "lineage (od_tokens db) i j" and "i < length (od_tokens db)"
  shows "rt_client (od_tokens db ! j) = rt_client (od_tokens db ! i)
    \<and> rt_tenant (od_tokens db ! j) = rt_tenant (od_tokens db ! i)
    \<and> rt_user_id (od_tokens db ! j) = rt_user_id (od_tokens db ! i)
    \<and> set (words (rt_scope (od_tokens db ! j))) \<subseteq> set (words (rt_scope (od_tokens db ! i)))
    \<and> (i \<noteq> j \<longrightarrow> i < j \<and> rt_is_revoked (od_tokens db ! i))"
proof -
  from oauth.steps_good [OF assms(2,1)] have inv: "tokens_inv (od_tokens db)"
    by (simp add: db_inv_def)
  have "i < j \<and> rt_is_revoked (od_tokens db ! i)" if "i \<noteq> j"
  proof -
    from assms(3) that obtain k where "replaced (od_tokens db) i k"
      by (auto elim: converse_rtranclpE)
    then have "rt_is_revoked (od_tokens db ! i)"
      using tokens_inv_successor [OF inv, of "od_tokens db ! i"]
      by (auto simp: replaced_def successor_ok_def)
    with lineage_later [OF assms(3) inv assms(4)] that show ?thesis by auto
  qed
  with lineage_authority_inv [OF inv assms(3,4)] show ?thesis by blast
qed

definition sample_old :: refresh_token where
  "sample_old = \<lparr>rt_id = 0, rt_client = 0, rt_tenant = ''t1'', rt_user_id = ''u'', rt_token = ''x'',
     rt_scope = ''read write'', rt_expires_at = 9, rt_is_revoked = True,
     rt_revoked_at = Some 1, rt_replaced_by = Some 1\<rparr>"

definition sample_new :: refresh_token where
  "sample_new = \<lparr>rt_id = 1, rt_client = 0, rt_tenant = ''t1'', rt_user_id = ''u'', rt_token = ''y'',
     rt_scope = ''read'', rt_expires_at = 9, rt_is_revoked = False,
     rt_revoked_at = None, rt_replaced_by = None\<rparr>"

lemma sample_rotated_inv: "db_inv ((sample_db True [])\<lparr>od_tokens := [sample_old, sample_new]\<rparr>)"
  by (simp add: db_inv_def codes_inv_def tokens_inv_def sample_db_def successor_ok_def sample_words
      sample_old_def sample_new_def)

lemma lineage_authority_witness:
  "lineage [sample_old, sample_new] 0 1
   \<and> set (words (rt_scope sample_new)) \<subseteq> set (words (rt_scope sample_old))"
proof -
  let ?db = "(sample_db True [])\<lparr>od_tokens := [sample_old, sample_new]\<rparr>"
  have l: "lineage (od_tokens ?db) 0 1"
    by (rule r_into_rtranclp) (simp add: replaced_def sample_old_def)
  from lineage_authority [OF sample_rotated_inv rtranclp.rtrancl_refl l] l show ?thesis by simp
qed

text \<open>C26: The revocation walk of a stored token always ends; it revokes exactly the live tokens
  of the lineage that starts at it and leaves every other row of the store as it was.\<close>

theorem revoke_chain_complete:
  assumes "db_inv db" and "r \<in> set (od_tokens db)"
  shows "\<exists>res db'. revoke_refresh_token_chain env r db = Some (res, db')
    \<and> od_codes db' = od_codes db \<and> od_clients db' = od_clients db
    \<and> length (od_tokens db') = length (od_tokens db)
    \<and> (\<forall>k < length (od_tokens db).
         (lineage (od_tokens db) (rt_id r) k \<longrightarrow> rt_is_revoked (od_tokens db' ! k))
         \<and> (\<not> lineage (od_tokens db) (rt_id r) k \<longrightarrow> od_tokens db' ! k = od_tokens db ! k))"
  using revoke_chain_effect [OF assms, of env] by (fastforce simp: revoke_row_def)

lemma revoke_chain_complete_witness:
  "\<exists>res db'. revoke_refresh_token_chain sample_env
       \<lparr>rt_id = 0, rt_client = 0, rt_tenant = ''t1'', rt_user_id = ''u'',
         rt_token = ''x'', rt_scope = ''read'', rt_expires_at = 9, rt_is_revoked = False,
         rt_revoked_at = None, rt_replaced_by = None\<rparr>
       ((sample_db True [])\<lparr>od_tokens := [\<lparr>rt_id = 0, rt_client = 0, rt_tenant = ''t1'', rt_user_id = ''u'',
         rt_token = ''x'', rt_scope = ''read'', rt_expires_at = 9, rt_is_revoked = False,
         rt_revoked_at = None, rt_replaced_by = None\<rparr>]\<rparr>) = Some (res, db')
     \<and> rt_is_revoked (od_tokens db' ! 0)"
proof -
  let ?r = "\<lparr>rt_id = 0, rt_client = 0, rt_tenant = ''t1'', rt_user_id = ''u'',
         rt_token = ''x'', rt_scope = ''read'', rt_expires_at = 9, rt_is_revoked = False,
         rt_revoked_at = None, rt_replaced_by = None\<rparr>"
  let ?db = "(sample_db True [])\<lparr>od_tokens := [?r]\<rparr>"
  have "db_inv ?db"
    by (simp add: db_inv_def codes_inv_def tokens_inv_def sample_db_def successor_ok_def)
  from revoke_chain_complete [OF this, of ?r sample_env] show ?thesis by auto
qed

end
