(* ===== verification/OAuthViews.thy ===== *)
theory OAuthViews
  imports OAuthStore
begin

text \<open>
  The OAuth2 endpoints (\<open>apps/iam_oauth/serializers.py\<close>, \<open>views.py\<close>, \<open>authentication.py\<close>,
  \<open>permissions.py\<close>): the authorization request, the three grants of the token endpoint and
  the revocation endpoint.  A response carries the claims of a token instead of its encoding.
\<close>

section \<open>Form fields\<close>

text \<open>
  DRF's \<open>CharField\<close> strips its value and rejects a blank one unless it is allowed; an absent
  optional field stays absent.  \<open>URLField\<close> also validates a value that is not blank.
\<close>

type_synonym form = "string \<rightharpoonup> string"

definition char_field :: "bool \<Rightarrow> bool \<Rightarrow> string \<Rightarrow> form \<Rightarrow> string option res" where
  "char_field required allow_blank name data =
     (case data name of
        None \<Rightarrow> if required then Inl (ValidationError name ''This field is required.'' ''required'')
                else Inr None
      | Some s \<Rightarrow>
          if strip s = [] \<and> \<not> allow_blank
          then Inl (ValidationError name ''This field may not be blank.'' ''blank'')
          else Inr (Some (strip s)))"

definition url_field :: "(string \<Rightarrow> bool) \<Rightarrow> string \<Rightarrow> form \<Rightarrow> string option res" where
  "url_field url_ok name data =
     (case char_field False True name data of
        Inl e \<Rightarrow> Inl e
      | Inr v \<Rightarrow> if truthy v \<and> \<not> url_ok (or_empty v)
                 then Inl (ValidationError name ''Enter a valid URL.'' ''invalid'') else Inr v)"

definition get_active_client :: "oauth_env \<Rightarrow> string \<Rightarrow> oauth_db \<Rightarrow> oauth_client res" where
  "get_active_client env cid db =
     (case qs_get (\<lambda>c. oc_client_id c = cid \<and> oc_is_active c)
             (manager_queryset oc_tenant (oe_ctx env) (od_clients db)) of
        Inl DoesNotExist \<Rightarrow> Inl (invalid ''Invalid client_id.'')
      | r \<Rightarrow> r)"

section \<open>Authorization request\<close>

record authorization_request =
  ar_client :: oauth_client
  ar_redirect_uri :: string
  ar_scope :: string
  ar_state :: string
  ar_code_challenge :: string
  ar_code_challenge_method :: string

record authorization_form =
  af_client_id :: string
  af_redirect_uri :: string
  af_scope :: string
  af_state :: string
  af_challenge :: string
  af_method :: string

definition authorization_form_fields :: "oauth_env \<Rightarrow> form \<Rightarrow> oauth_db \<Rightarrow> authorization_form res" where
  "authorization_form_fields env data db =
     bind_res (char_field True False ''response_type'' data) (\<lambda>_.
     bind_res (char_field True False ''client_id'' data) (\<lambda>cid.
     bind_res (get_active_client env (or_empty cid) db) (\<lambda>_.
     bind_res (url_field (oe_url_ok env) ''redirect_uri'' data) (\<lambda>uri.
     bind_res (char_field False True ''scope'' data) (\<lambda>scope.
     bind_res (char_field False True ''state'' data) (\<lambda>state.
     bind_res (char_field False True ''code_challenge'' data) (\<lambda>challenge.
     bind_res (char_field False True ''code_challenge_method'' data) (\<lambda>method.
     Inr \<lparr> af_client_id = or_empty cid, af_redirect_uri = or_empty uri,
       af_scope = or_empty scope, af_state = or_empty state,
       af_challenge = or_empty challenge, af_method = or_empty method \<rparr>))))))))"

definition authorization_request_validate ::
  "oauth_env \<Rightarrow> form \<Rightarrow> oauth_db \<Rightarrow> authorization_request res" where
  "authorization_request_validate env data db =
     bind_res (authorization_form_fields env data db) (\<lambda>f.
     bind_res (get_active_client env (af_client_id f) db) (\<lambda>client.
     bind_res (guard (response_type_list client = [] \<or> ''code'' \<in> set (response_type_list client))
       (invalid ''This client does not support the authorization code flow.'')) (\<lambda>_.
     bind_res (guard (af_redirect_uri f = [] \<or> af_redirect_uri f \<in> set (redirect_uri_list client))
       (invalid ''Invalid redirect_uri.'')) (\<lambda>_.
     bind_res (guard (oc_is_confidential client \<or> af_challenge f \<noteq> [])
       (invalid ''PKCE code_challenge is required for public clients.'')) (\<lambda>_.
     bind_res (guard (oc_is_confidential client \<or> af_method f = ''S256'' \<or> af_method f = ''plain'')
       (invalid ''code_challenge_method must be S256 or plain.'')) (\<lambda>_.
     Inr \<lparr> ar_client = client,
       ar_redirect_uri = (if af_redirect_uri f = [] \<and> redirect_uri_list client \<noteq> []
                          then hd (redirect_uri_list client) else af_redirect_uri f),
       ar_scope = af_scope f, ar_state = af_state f,
       ar_code_challenge = af_challenge f, ar_code_challenge_method = af_method f \<rparr>))))))"

definition authorization_request_save ::
  "oauth_env \<Rightarrow> string \<Rightarrow> request \<Rightarrow> authorization_request \<Rightarrow> oauth_db
    \<Rightarrow> authorization_code res \<times> oauth_db" where
  "authorization_request_save env fresh rq v db =
     generate_authorization_code env fresh (ar_client v) (or_empty (get_tenant_id rq))
       (ar_redirect_uri v) (ar_scope v)
       (case rq_user rq of None \<Rightarrow> [] | Some u \<Rightarrow> usr_id u)
       (ar_code_challenge v) (ar_code_challenge_method v) db"

record token_response =
  tr_user :: string
  tr_tenant :: string
  tr_scope :: string
  tr_jti :: "string option"
  tr_expires_in :: int

datatype response =
    Redirect string
  | BadRequest string string
  | TokenPair token_response
  | ClientToken jwt_claims int
  | Ok200

text \<open>\<open>AuthorizeView\<close>: \<open>IsAuthenticated\<close>, then the form (query string or body).\<close>

definition issue_code ::
  "oauth_env \<Rightarrow> string \<Rightarrow> request \<Rightarrow> authorization_request \<Rightarrow> oauth_db \<Rightarrow> response res \<times> oauth_db" where
  "issue_code env fresh rq v db =
     (if tenant_of rq = None then (Inr (BadRequest ''invalid_request'' ''Tenant not resolved.''), db)
      else (case authorization_request_save env fresh rq v db of
              (Inl e, db') \<Rightarrow> (Inl e, db')
            | (Inr a, db') \<Rightarrow>
                (Inr (Redirect (ar_redirect_uri v @ ''?code='' @ ac_code a
                   @ (if ar_state v \<noteq> [] then ''&state='' @ ar_state v else []))), db')))"

definition authorize_view ::
  "oauth_env \<Rightarrow> string \<Rightarrow> request \<Rightarrow> form \<Rightarrow> oauth_db \<Rightarrow> response res \<times> oauth_db" where
  "authorize_view env fresh rq data db =
     (if \<not> is_authenticated_permission rq then (Inl (PermissionDenied [] ''not_authenticated''), db)
      else (case authorization_request_validate env data db of
              Inl e \<Rightarrow> (Inl e, db)
            | Inr v \<Rightarrow> issue_code env fresh rq v db))"

section \<open>The grants\<close>

record code_grant =
  cg_client :: oauth_client
  cg_code :: string
  cg_redirect_uri :: string
  cg_code_verifier :: string

definition code_grant_validate :: "oauth_env \<Rightarrow> form \<Rightarrow> oauth_db \<Rightarrow> code_grant res" where
  "code_grant_validate env data db =
     bind_res (char_field True False ''code'' data) (\<lambda>code.
     bind_res (char_field True False ''client_id'' data) (\<lambda>cid.
     bind_res (url_field (oe_url_ok env) ''redirect_uri'' data) (\<lambda>uri.
     bind_res (char_field False True ''code_verifier'' data) (\<lambda>ver.
     bind_res (case qs_get (\<lambda>a. ac_code a = or_empty code)
                      (manager_queryset ac_tenant (oe_ctx env) (od_codes db)) of
                 Inl DoesNotExist \<Rightarrow> Inl (invalid ''Invalid authorization code.'')
               | r \<Rightarrow> r) (\<lambda>a.
     bind_res (guard (\<not> ac_is_consumed a) (invalid ''Authorization code already consumed.'')) (\<lambda>_.
     bind_res (case client_by_pk db (ac_client a) of None \<Rightarrow> Inl DoesNotExist | Some c \<Rightarrow> Inr c) (\<lambda>client.
     bind_res (guard (oc_client_id client = or_empty cid)
       (invalid ''client_id does not match the authorization code.'')) (\<lambda>_.
     bind_res (guard (or_empty uri = [] \<or> or_empty uri = ac_redirect_uri a)
       (invalid ''redirect_uri does not match the authorization code.'')) (\<lambda>_.
     Inr \<lparr> cg_client = client, cg_code = ac_code a,
       cg_redirect_uri = (if or_empty uri \<noteq> [] then or_empty uri else ac_redirect_uri a),
       cg_code_verifier = or_empty ver \<rparr>)))))))))"

definition code_grant_save ::
  "oauth_env \<Rightarrow> string \<Rightarrow> code_grant \<Rightarrow> oauth_db \<Rightarrow> token_data res \<times> oauth_db" where
  "code_grant_save env fresh v db =
     consume_authorization_code env fresh (cg_code v) (cg_client v) (cg_redirect_uri v)
       (cg_code_verifier v) db"

definition credentials_grant_validate ::
  "oauth_env \<Rightarrow> form \<Rightarrow> oauth_db \<Rightarrow> (oauth_client \<times> string) res" where
  "credentials_grant_validate env data db =
     bind_res (char_field True False ''client_id'' data) (\<lambda>cid.
     bind_res (char_field True False ''client_secret'' data) (\<lambda>secret.
     bind_res (char_field False True ''scope'' data) (\<lambda>sc.
     bind_res (get_active_client env (or_empty cid) db) (\<lambda>client.
     bind_res (guard (oc_is_confidential client)
       (invalid ''client_credentials grant requires a confidential client.'')) (\<lambda>_.
     bind_res (guard (oc_client_secret client = Some (or_empty secret))
       (invalid ''Invalid client_secret.'')) (\<lambda>_.
     bind_res (guard (''client_credentials'' \<in> set (grant_type_list client))
       (invalid ''This client does not support the client_credentials grant.'')) (\<lambda>_.
     let scope = (if or_empty sc \<noteq> [] then or_empty sc else oc_scope client) in
     bind_res (guard (set (words scope) \<subseteq> set (scope_list client))
       (invalid ''Requested scope exceeds client allowed scope.'')) (\<lambda>_.
     Inr (client, scope)))))))))"

definition credentials_grant_save ::
  "oauth_env \<Rightarrow> oauth_client \<times> string \<Rightarrow> oauth_db \<Rightarrow> token_data res \<times> oauth_db" where
  "credentials_grant_save env v db = issue_client_credentials_token env (fst v) (snd v) db"

record refresh_grant =
  rg_client :: oauth_client
  rg_refresh_token :: string
  rg_scope :: string

definition refresh_grant_validate :: "oauth_env \<Rightarrow> form \<Rightarrow> oauth_db \<Rightarrow> refresh_grant res" where
  "refresh_grant_validate env data db =
     bind_res (char_field True False ''refresh_token'' data) (\<lambda>tok.
     bind_res (char_field True False ''client_id'' data) (\<lambda>cid.
     bind_res (char_field False True ''client_secret'' data) (\<lambda>secret.
     bind_res (char_field False True ''scope'' data) (\<lambda>sc.
     bind_res (get_active_client env (or_empty cid) db) (\<lambda>client.
     bind_res (guard (\<not> oc_is_confidential client \<or> oc_client_secret client = Some (or_empty secret))
       (invalid ''Invalid client_secret.'')) (\<lambda>_.
     bind_res (guard (''refresh_token'' \<in> set (grant_type_list client))
       (invalid ''This client does not support the refresh_token grant.'')) (\<lambda>_.
     Inr \<lparr> rg_client = client, rg_refresh_token = or_empty tok, rg_scope = or_empty sc \<rparr>)))))))"

definition refresh_grant_save ::
  "oauth_env \<Rightarrow> string \<Rightarrow> refresh_grant \<Rightarrow> oauth_db \<Rightarrow> token_data res \<times> oauth_db" where
  "refresh_grant_save env fresh v db =
     (case oe_jti env (rg_refresh_token v) of
        None \<Rightarrow> (Inl (invalid ''Invalid refresh token.''), db)
      | Some ref \<Rightarrow> consume_refresh_token env fresh ref (rg_client v) (rg_scope v) db)"

text \<open>\<open>TokenRequestSerializer\<close>: dispatch on the grant type, validation then \<open>save\<close>.\<close>

definition token_request ::
  "oauth_env \<Rightarrow> string \<Rightarrow> form \<Rightarrow> oauth_db \<Rightarrow> token_data res \<times> oauth_db" where
  "token_request env fresh data db =
     (case char_field True False ''grant_type'' data of
        Inl e \<Rightarrow> (Inl e, db)
      | Inr g \<Rightarrow>
         (if or_empty g = ''authorization_code'' then
            (case code_grant_validate env data db of
               Inl e \<Rightarrow> (Inl e, db) | Inr v \<Rightarrow> code_grant_save env fresh v db)
          else if or_empty g = ''client_credentials'' then
            (case credentials_grant_validate env data db of
               Inl e \<Rightarrow> (Inl e, db) | Inr v \<Rightarrow> credentials_grant_save env v db)
          else if or_empty g = ''refresh_token'' then
            (case refresh_grant_validate env data db of
               Inl e \<Rightarrow> (Inl e, db) | Inr v \<Rightarrow> refresh_grant_save env fresh v db)
          else (Inl (invalid (''Unsupported grant_type. Supported: ''
                  @ ''authorization_code, client_credentials, refresh_token'')), db)))"

text \<open>
  \<open>TokenView.post\<close>.  \<open>for_user\<close> and the claims set on the pair are kept in the response.
\<close>

definition token_view ::
  "oauth_env \<Rightarrow> string \<Rightarrow> user list \<Rightarrow> form \<Rightarrow> oauth_db \<Rightarrow> response res \<times> oauth_db" where
  "token_view env fresh users data db =
     (case token_request env fresh data db of
        (Inl e, db1) \<Rightarrow> (Inl e, db1)
      | (Inr td, db1) \<Rightarrow>
         (case int_setting (oe_settings env) ''ACCESS_TOKEN_LIFETIME_MINUTES'' of
            Inl e \<Rightarrow> (Inl e, db1)
          | Inr minutes \<Rightarrow>
             (if td_grant_type td = ''client_credentials'' then
                (case td_access td of
                   None \<Rightarrow> (Inl KeyErr, db1)
                 | Some a \<Rightarrow> (Inr (ClientToken a (minutes * 60)), db1))
              else if \<not> truthy (td_user_id td) then
                (Inr (BadRequest ''invalid_grant'' ''Authorization code has no associated user.''), db1)
              else (case qs_get (\<lambda>u. usr_id u = or_empty (td_user_id td)) users of
                 Inl DoesNotExist \<Rightarrow> (Inr (BadRequest ''invalid_grant'' ''User not found.''), db1)
               | Inl e \<Rightarrow> (Inl e, db1)
               | Inr u \<Rightarrow>
                   (Inr (TokenPair \<lparr> tr_user = usr_id u, tr_tenant = td_tenant_id td,
                      tr_scope = td_scope td, tr_jti = map_option rt_token (td_refresh td),
                      tr_expires_in = minutes * 60 \<rparr>),
                    send ''token_issued''
                      [(''client_id'', td_client_id td), (''user_id'', or_empty (td_user_id td)),
                       (''tenant_id'', td_tenant_id td), (''grant_type'', td_grant_type td)]
                    (emit (usr_email u) ''token_issued'' (td_tenant_id td)
                      [(''client_id'', td_client_id td), (''user_id'', or_empty (td_user_id td)),
                       (''grant_type'', td_grant_type td)] db1))))))"

section \<open>Revocation endpoint\<close>

definition revoke_view ::
  "oauth_env \<Rightarrow> form \<Rightarrow> oauth_db \<Rightarrow> (response res \<times> oauth_db) option" where
  "revoke_view env data db =
     (let token_str = or_empty (data ''token''); client_id = or_empty (data ''client_id'');
          client_secret = or_empty (data ''client_secret'') in
      if token_str = [] \<or> client_id = [] then Some (Inr Ok200, db)
      else case qs_get (\<lambda>c. oc_client_id c = client_id \<and> oc_is_active c)
                  (manager_queryset oc_tenant (oe_ctx env) (od_clients db)) of
        Inl DoesNotExist \<Rightarrow> Some (Inr Ok200, db)
      | Inl e \<Rightarrow> Some (Inl e, db)
      | Inr client \<Rightarrow>
         (if oc_is_confidential client \<and> oc_client_secret client \<noteq> Some client_secret
          then Some (Inr Ok200, db)
          else case oe_jti env token_str of
            None \<Rightarrow> Some (Inr Ok200, db)
          | Some ref \<Rightarrow>
             (case qs_get (\<lambda>r. rt_token r = ref)
                     (manager_queryset rt_tenant (oe_ctx env) (od_tokens db)) of
                Inl e \<Rightarrow> Some (Inr Ok200, db)
              | Inr r \<Rightarrow>
                  if rt_client r \<noteq> oc_id client then Some (Inr Ok200, db)
                  else if rt_is_revoked r then Some (Inr Ok200, db)
                  else (case revoke_refresh_token_chain env r db of
                     None \<Rightarrow> None
                   | Some (Inl e, db1) \<Rightarrow> Some (Inl e, db1)
                   | Some (Inr _, db1) \<Rightarrow>
                       Some (Inr Ok200, emit [] ''token_revoked'' (rt_tenant r)
                         [(''client_id'', client_id), (''user_id'', rt_user_id r)] db1)))))"

section \<open>Client authentication and permissions\<close>

fun split_once :: "char \<Rightarrow> string \<Rightarrow> (string \<times> string) option" where
  "split_once c [] = None"
| "split_once c (d # ds) =
     (if d = c then Some ([], ds)
      else map_option (\<lambda>(u, v). (d # u, v)) (split_once c ds))"

text \<open>\<open>b64\<close> decodes base64 and UTF-8; \<open>body\<close> and \<open>post\<close> are the parsed body and form.\<close>

definition get_credentials ::
  "(string \<Rightarrow> string option) \<Rightarrow> string \<Rightarrow> form \<Rightarrow> form \<Rightarrow> string option \<times> string option" where
  "get_credentials b64 auth_header body post =
     (if starts_with ''Basic '' auth_header then
        (case b64 (drop 6 auth_header) of
           None \<Rightarrow> (None, None)
         | Some decoded \<Rightarrow>
             (case split_once (CHR '':'') decoded of
                None \<Rightarrow> (None, None)
              | Some (cid, secret) \<Rightarrow> (Some cid, Some secret)))
      else (let either = (\<lambda>k. if truthy (body k) then body k else post k)
            in (either ''client_id'', either ''client_secret'')))"

definition client_authenticate ::
  "oauth_env \<Rightarrow> string option \<times> string option \<Rightarrow> oauth_db \<Rightarrow> oauth_client option res" where
  "client_authenticate env cred db =
     (if \<not> truthy (fst cred) then Inr None
      else (case qs_get (\<lambda>c. oc_client_id c = or_empty (fst cred))
                 (manager_queryset oc_tenant (oe_ctx env) (od_clients db)) of
         Inl DoesNotExist \<Rightarrow> Inl (AuthenticationFailed ''Invalid client_id.'')
       | Inl e \<Rightarrow> Inl e
       | Inr c \<Rightarrow>
           if \<not> oc_is_active c then Inl (AuthenticationFailed ''Client is inactive.'')
           else if oc_is_confidential c \<and> truthy (oc_client_secret c) \<and> snd cred \<noteq> oc_client_secret c
           then Inl (AuthenticationFailed ''Invalid client_secret.'')
           else Inr (Some c)))"

definition is_oauth2_client :: "oauth_env \<Rightarrow> form \<Rightarrow> form \<Rightarrow> oauth_db \<Rightarrow> oauth_client option res" where
  "is_oauth2_client env body query db =
     (let cid = (if truthy (body ''client_id'') then body ''client_id'' else query ''client_id'') in
      if \<not> truthy cid then Inr None
      else (case qs_get (\<lambda>c. oc_client_id c = or_empty cid \<and> oc_is_active c)
                 (manager_queryset oc_tenant (oe_ctx env) (od_clients db)) of
         Inl DoesNotExist \<Rightarrow> Inr None | Inl e \<Rightarrow> Inl e | Inr c \<Rightarrow> Inr (Some c)))"

definition is_owner_or_confidential_client :: "oauth_client option \<Rightarrow> bool" where
  "is_owner_or_confidential_client client =
     (case client of None \<Rightarrow> False | Some c \<Rightarrow> if oc_is_confidential c then True else True)"

section \<open>Properties\<close>

lemma get_active_client_D:
  assumes "get_active_client env cid db = Inr c"
  shows "c \<in> set (od_clients db) \<and> oc_client_id c = cid \<and> oc_is_active c
    \<and> (\<forall>t. scope_tenant (oe_ctx env) = Some t \<longrightarrow> oc_tenant c = t)"
proof -
  from assms have g: "qs_get (\<lambda>c. oc_client_id c = cid \<and> oc_is_active c)
      (manager_queryset oc_tenant (oe_ctx env) (od_clients db)) = Inr c"
    by (auto simp: get_active_client_def split: sum.splits exn.splits)
  from qs_get_Inr_D [OF g] manager.scoped_subset [of oc_tenant "oe_ctx env" "od_clients db"]
    manager.scoped_own [of "oe_ctx env" _ c oc_tenant "od_clients db"]
  show ?thesis by auto
qed

lemma char_field_D:
  "char_field req blank k data = Inr v \<Longrightarrow> v = map_option strip (data k) \<and> (req \<longrightarrow> v \<noteq> None)"
  by (auto simp: char_field_def split: option.splits if_splits)

lemma authorization_form_fields_D:
  assumes "authorization_form_fields env data db = Inr f"
  shows "map_option strip (data ''client_id'') = Some (af_client_id f)
    \<and> af_scope f = or_empty (map_option strip (data ''scope''))"
proof -
  from assms obtain cid scope where c: "char_field True False ''client_id'' data = Inr cid"
    and s: "char_field False True ''scope'' data = Inr scope"
    and f: "af_client_id f = or_empty cid" "af_scope f = or_empty scope"
    by (auto simp: authorization_form_fields_def res_simps)
  from char_field_D [OF c] char_field_D [OF s] f show ?thesis by auto
qed

lemma authorization_request_validate_D:
  assumes "authorization_request_validate env data db = Inr v"
  shows "\<exists>f. authorization_form_fields env data db = Inr f
    \<and> get_active_client env (af_client_id f) db = Inr (ar_client v)
    \<and> (af_redirect_uri f = [] \<or> af_redirect_uri f \<in> set (redirect_uri_list (ar_client v)))
    \<and> ar_redirect_uri v = (if af_redirect_uri f = [] \<and> redirect_uri_list (ar_client v) \<noteq> []
        then hd (redirect_uri_list (ar_client v)) else af_redirect_uri f)
    \<and> (oc_is_confidential (ar_client v) \<or> ar_code_challenge v \<noteq> [])
    \<and> (oc_is_confidential (ar_client v) \<or> ar_code_challenge_method v = ''S256''
        \<or> ar_code_challenge_method v = ''plain'')
    \<and> ar_scope v = af_scope f"
  using assms by (auto simp: authorization_request_validate_def res_simps)

text \<open>What a successful authorization request guarantees.  The user is authenticated and
  the token names a tenant; the client is active, is the one named and, when the tenant scope
  is bound, is the tenant's own; the redirect URI is registered (or the client registers
  none); a public client has a challenge with a known method; one unconsumed code is stored,
  bound to client, tenant and user.  Its scope is the requested scope as it is: the request is
  not compared with the scopes the client is allowed.\<close>

theorem authorize_view_issues:
  assumes "authorize_view env fresh rq data db = (Inr (Redirect url), db')"
  shows "\<exists>u t c a. rq_user rq = Some u \<and> tenant_of rq = Some t
    \<and> c \<in> set (od_clients db) \<and> oc_is_active c
    \<and> map_option strip (data ''client_id'') = Some (oc_client_id c)
    \<and> (\<forall>s. scope_tenant (oe_ctx env) = Some s \<longrightarrow> oc_tenant c = s)
    \<and> od_codes db' = od_codes db @ [a] \<and> od_tokens db' = od_tokens db
    \<and> ac_client a = oc_id c \<and> ac_tenant a = t \<and> ac_user_id a = Some (usr_id u)
    \<and> \<not> ac_is_consumed a
    \<and> (ac_redirect_uri a \<in> set (redirect_uri_list c)
       \<or> redirect_uri_list c = [] \<and> ac_redirect_uri a = [])
    \<and> (oc_is_confidential c
       \<or> truthy (ac_code_challenge a) \<and> ac_code_challenge_method a \<in> {Some ''S256'', Some ''plain''})
    \<and> ac_scope a = or_empty (map_option strip (data ''scope''))"
proof -
  from assms obtain v where auth: "is_authenticated_permission rq"
    and v: "authorization_request_validate env data db = Inr v"
    and iss: "issue_code env fresh rq v db = (Inr (Redirect url), db')"
    by (auto simp: authorize_view_def split: if_splits sum.splits)
  from auth obtain u where u: "rq_user rq = Some u" by (auto simp: is_authenticated_permission_def)
  from iss obtain t a where t: "tenant_of rq = Some t"
    and sv: "authorization_request_save env fresh rq v db = (Inr a, db')"
    by (auto simp: issue_code_def split: if_splits prod.splits sum.splits)
  from t have tid: "get_tenant_id rq = Some t" by (simp add: tenant_of_Some_iff)
  note gen = sv [unfolded authorization_request_save_def]
  let ?c = "ar_client v"
  from authorization_request_validate_D [OF v] obtain f where
      f: "authorization_form_fields env data db = Inr f"
    and client: "get_active_client env (af_client_id f) db = Inr ?c"
    and uri: "af_redirect_uri f = [] \<or> af_redirect_uri f \<in> set (redirect_uri_list ?c)"
      "ar_redirect_uri v = (if af_redirect_uri f = [] \<and> redirect_uri_list ?c \<noteq> []
        then hd (redirect_uri_list ?c) else af_redirect_uri f)"
    and pkce: "oc_is_confidential ?c \<or> ar_code_challenge v \<noteq> []"
      "oc_is_confidential ?c \<or> ar_code_challenge_method v = ''S256''
        \<or> ar_code_challenge_method v = ''plain''"
    and sc: "ar_scope v = af_scope f"
    by blast
  have uri': "ar_redirect_uri v \<in> set (redirect_uri_list ?c)
      \<or> redirect_uri_list ?c = [] \<and> ar_redirect_uri v = []"
    using uri by (auto split: if_splits)
  from get_active_client_D [OF client] authorization_form_fields_D [OF f]
  have c: "?c \<in> set (od_clients db)" "oc_is_active ?c"
    "map_option strip (data ''client_id'') = Some (oc_client_id ?c)"
    "\<forall>s. scope_tenant (oe_ctx env) = Some s \<longrightarrow> oc_tenant ?c = s"
    "ar_scope v = or_empty (map_option strip (data ''scope''))" by (simp_all add: sc)
  show ?thesis
  proof (cases rule: generate_authorization_code_cases [OF gen])
    case (2 b)
    then show ?thesis using u t tid c uri' pkce
      by (intro exI [of _ u] exI [of _ t] exI [of _ ?c] exI [of _ a]) auto
  qed simp
qed

lemma authorize_view_issues_witness:
  "\<exists>url db' a. authorize_view sample_env ''abcd'' (sample_request (Some (sample_user ''u'' False)) (Some ''t1''))
      [''response_type'' \<mapsto> ''code'', ''client_id'' \<mapsto> ''app'', ''scope'' \<mapsto> ''admin'']
      ((sample_db True [])\<lparr>od_codes := []\<rparr>) = (Inr (Redirect url), db')
    \<and> od_codes db' = [a] \<and> ac_scope a = ''admin'' \<and> oc_scope (sample_client True) = ''read write''"
proof -
  let ?rq = "sample_request (Some (sample_user ''u'' False)) (Some ''t1'')"
  let ?data = "[''response_type'' \<mapsto> ''code'', ''client_id'' \<mapsto> ''app'', ''scope'' \<mapsto> ''admin'']"
  let ?db = "(sample_db True [])\<lparr>od_codes := []\<rparr>"
  have strips: "strip ''code'' = ''code''" "strip ''app'' = ''app''" "strip ''admin'' = ''admin''"
    by code_simp+
  have lists: "response_type_list (sample_client True) = [''code'']"
    "redirect_uri_list (sample_client True) = [''https://a/cb'']" by code_simp+
  have cl: "get_active_client sample_env ''app'' ?db = Inr (sample_client True)"
    by (simp add: get_active_client_def sample_db_def sample_env_def manager_queryset_def qs_get_def
        sample_client_def)
  have val: "\<exists>v. authorization_request_validate sample_env ?data ?db = Inr v \<and> ar_client v = sample_client True"
    by (simp add: authorization_request_validate_def authorization_form_fields_def char_field_def
        url_field_def strips cl lists)
       (simp add: sample_client_def)
  have "\<exists>url db'. authorize_view sample_env ''abcd'' ?rq ?data ?db = (Inr (Redirect url), db')"
    using val
    by (auto simp: authorize_view_def is_authenticated_permission_def issue_code_def
        authorization_request_save_def generate_authorization_code_def Let_def)
       (simp_all add: sample_env_def sample_client_def sample_db_def sample_request_def get_tenant_id_def sample_user_def
        int_setting_def get_oauth2_setting_def oauth_defaults_def uuid_field_def qs_exists_def Let_def)
  then obtain url db' where a: "authorize_view sample_env ''abcd'' ?rq ?data ?db = (Inr (Redirect url), db')"
    by blast
  from authorize_view_issues [OF a] obtain a' where "od_codes db' = [a']" "ac_scope a' = ''admin''"
    by (auto simp: sample_db_def strips)
  with a show ?thesis by (auto simp: sample_client_def)
qed

lemma token_view_client_token:
  assumes "token_view env fresh users data db = (Inr (ClientToken k n), db')"
  shows "\<exists>td. token_request env fresh data db = (Inr td, db') \<and> td_access td = Some k"
  using assms
  by (auto simp: token_view_def split: prod.splits sum.splits if_splits option.splits exn.splits)

text \<open>A client-credentials token is issued only to an active confidential client that
  presents its own secret, is registered for the grant, and asks for no scope beyond its
  own; the token names the client as subject and the client's tenant, and the exchange
  stores neither a code nor a refresh token.\<close>

theorem client_credentials_grant:
  assumes "token_view env fresh users data db = (Inr (ClientToken k n), db')"
  shows "\<exists>c \<in> set (od_clients db). oc_is_active c \<and> oc_is_confidential c
    \<and> map_option strip (data ''client_id'') = Some (oc_client_id c)
    \<and> map_option strip (data ''client_secret'') = oc_client_secret c
    \<and> oc_client_secret c \<noteq> None
    \<and> ''client_credentials'' \<in> set (grant_type_list c)
    \<and> jc_sub k = oc_client_id c \<and> jc_tenant k = oc_tenant c
    \<and> set (words (jc_scope k)) \<subseteq> set (scope_list c)
    \<and> jc_hint k = ''client_credentials''
    \<and> od_codes db' = od_codes db \<and> od_tokens db' = od_tokens db"
proof -
  from token_view_client_token [OF assms] obtain td
    where req: "token_request env fresh data db = (Inr td, db')" and acc: "td_access td = Some k"
    by blast
  have no_code: "consume_authorization_code env fresh cd c uri ver db \<noteq> (Inr td, db')" for cd c uri ver
    using acc by (auto simp: consume_authorization_code_def Let_def
        split: sum.splits if_splits prod.splits)
  have no_refresh: "consume_refresh_token env fresh ref c sc db \<noteq> (Inr td, db')" for ref c sc
    using acc by (auto simp: consume_refresh_token_def Let_def
        split: sum.splits if_splits prod.splits exn.splits)
  from req no_code no_refresh obtain v where
    val: "credentials_grant_validate env data db = Inr v"
    and sv: "credentials_grant_save env v db = (Inr td, db')"
    by (auto simp: token_request_def code_grant_save_def refresh_grant_save_def
        split: sum.splits if_splits option.splits)
  from val obtain cid sec where
    f: "char_field True False ''client_id'' data = Inr cid"
      "char_field True False ''client_secret'' data = Inr sec"
    and cl: "get_active_client env (or_empty cid) db = Inr (fst v)"
    and ok: "oc_is_confidential (fst v)" "oc_client_secret (fst v) = Some (or_empty sec)"
      "''client_credentials'' \<in> set (grant_type_list (fst v))"
      "set (words (snd v)) \<subseteq> set (scope_list (fst v))"
    by (auto simp: credentials_grant_validate_def res_simps Let_def)
  from sv acc have k: "jc_sub k = oc_client_id (fst v)" "jc_tenant k = oc_tenant (fst v)"
    "jc_scope k = snd v" "jc_hint k = ''client_credentials''"
    by (auto simp: credentials_grant_save_def issue_client_credentials_token_def split: sum.splits)
  from sv have "od_codes db' = od_codes db \<and> od_tokens db' = od_tokens db"
    using issue_client_credentials_frame [of env "fst v" "snd v" db "Inr td" db']
    by (simp add: credentials_grant_save_def)
  with get_active_client_D [OF cl] char_field_D [OF f(1)] char_field_D [OF f(2)] ok k show ?thesis
    by (intro bexI [of _ "fst v"]) auto
qed

lemma sample_scopes: "strip ''client_credentials'' = ''client_credentials''" "strip ''s3'' = ''s3''"
  "strip ''app'' = ''app''" "strip ''read'' = ''read''"
  "grant_type_list (sample_client True) = [''authorization_code'', ''refresh_token'', ''client_credentials'']"
  "scope_list (sample_client True) = [''read'', ''write'']"
  by code_simp+

lemma client_credentials_grant_witness:
  "\<exists>k n db'. token_view sample_env ''x'' [] [''grant_type'' \<mapsto> ''client_credentials'',
       ''client_id'' \<mapsto> ''app'', ''client_secret'' \<mapsto> ''s3'', ''scope'' \<mapsto> ''read''] (sample_db True [])
     = (Inr (ClientToken k n), db') \<and> jc_tenant k = ''t1'' \<and> od_tokens db' = []"
proof -
  let ?data = "[''grant_type'' \<mapsto> ''client_credentials'',
       ''client_id'' \<mapsto> ''app'', ''client_secret'' \<mapsto> ''s3'', ''scope'' \<mapsto> ''read'']"
  have cl: "get_active_client sample_env ''app'' (sample_db True []) = Inr (sample_client True)"
    by (simp add: get_active_client_def sample_db_def sample_env_def manager_queryset_def qs_get_def
        sample_client_def)
  have "credentials_grant_validate sample_env ?data (sample_db True []) = Inr (sample_client True, ''read'')"
    by (simp add: credentials_grant_validate_def char_field_def sample_scopes cl sample_words)
       (simp add: sample_client_def)
  then have "\<exists>k n db'. token_view sample_env ''x'' [] ?data (sample_db True []) = (Inr (ClientToken k n), db')"
    by (simp add: token_view_def token_request_def char_field_def sample_scopes
        credentials_grant_save_def issue_client_credentials_token_def int_setting_def
        get_oauth2_setting_def oauth_defaults_def sample_env_def)
  then obtain k n db' where t: "token_view sample_env ''x'' [] ?data (sample_db True [])
      = (Inr (ClientToken k n), db')" by blast
  from client_credentials_grant [OF t] t show ?thesis
    by (auto simp: sample_db_def sample_client_def)
qed

text \<open>Which grants authenticate the client.  The refresh grant of a confidential client is
  accepted only with the client's secret; the authorization-code grant never reads the
  secret: its outcome and its effect on the store are the same whatever secret the request
  carries, or none.\<close>

theorem grant_client_secret:
  assumes "map_option strip (data ''grant_type'') = Some g"
  shows "(g = ''authorization_code'' \<longrightarrow>
      token_view env fresh users (data(''client_secret'' := s)) db = token_view env fresh users data db)
    \<and> (g = ''refresh_token'' \<longrightarrow> token_view env fresh users data db = (Inr (TokenPair p), db') \<longrightarrow>
        (\<exists>c \<in> set (od_clients db). oc_is_active c
           \<and> map_option strip (data ''client_id'') = Some (oc_client_id c)
           \<and> (oc_is_confidential c \<longrightarrow>
                oc_client_secret c = Some (or_empty (map_option strip (data ''client_secret''))))))"
proof (intro conjI impI)
  assume g: "g = ''authorization_code''"
  have same: "char_field r b k (data(''client_secret'' := s)) = char_field r b k data"
    if "k \<noteq> ''client_secret''" for r b k
    using that by (simp add: char_field_def)
  have "code_grant_validate env (data(''client_secret'' := s)) db = code_grant_validate env data db"
    by (simp add: code_grant_validate_def same url_field_def)
  moreover have "char_field True False ''grant_type'' data = Inr (Some g)"
    using assms g by (auto simp: char_field_def)
  ultimately have "token_request env fresh (data(''client_secret'' := s)) db = token_request env fresh data db"
    using g by (simp add: token_request_def same)
  then show "token_view env fresh users (data(''client_secret'' := s)) db = token_view env fresh users data db"
    by (simp add: token_view_def)
next
  assume g: "g = ''refresh_token''"
    and tv: "token_view env fresh users data db = (Inr (TokenPair p), db')"
  have gt: "char_field True False ''grant_type'' data = Inr (Some g)"
    using assms g by (auto simp: char_field_def)
  from tv obtain td db1 where "token_request env fresh data db = (Inr td, db1)"
    by (auto simp: token_view_def split: prod.splits sum.splits)
  then obtain v where v: "refresh_grant_validate env data db = Inr v"
    using gt g by (auto simp: token_request_def split: sum.splits)
  from v obtain cid sec where
    f: "char_field True False ''client_id'' data = Inr cid"
      "char_field False True ''client_secret'' data = Inr sec"
    and cl: "get_active_client env (or_empty cid) db = Inr (rg_client v)"
    and sec: "oc_is_confidential (rg_client v) \<longrightarrow> oc_client_secret (rg_client v) = Some (or_empty sec)"
    by (auto simp: refresh_grant_validate_def res_simps)
  from get_active_client_D [OF cl] char_field_D [OF f(1)] char_field_D [OF f(2)] sec
  show "\<exists>c \<in> set (od_clients db). oc_is_active c
           \<and> map_option strip (data ''client_id'') = Some (oc_client_id c)
           \<and> (oc_is_confidential c \<longrightarrow>
                oc_client_secret c = Some (or_empty (map_option strip (data ''client_secret''))))"
    by (intro bexI [of _ "rg_client v"]) auto
qed

lemma grant_client_secret_witness:
  "token_view sample_env ''x'' [] ([''grant_type'' \<mapsto> ''authorization_code''](''client_secret'' := Some ''wrong''))
      (sample_db True [])
    = token_view sample_env ''x'' [] [''grant_type'' \<mapsto> ''authorization_code''] (sample_db True [])"
proof -
  have "map_option strip ([''grant_type'' \<mapsto> ''authorization_code''] ''grant_type'') = Some ''authorization_code''"
    by code_simp
  from grant_client_secret [where data = "[''grant_type'' \<mapsto> ''authorization_code'']", OF this]
  show ?thesis by blast
qed

text \<open>C33: The revocation endpoint revokes at most the token presented to it.  A rotated token
  is always already revoked, and the endpoint returns before the walk for revoked tokens; so
  presenting a rotated token changes nothing, and the live descendants of a stolen token are
  never invalidated, although the walk itself (\<open>revoke_refresh_token_chain\<close>) is able to.\<close>

theorem revoke_view_scope:
  assumes inv: "db_inv db0" and reach: "oauth_step\<^sup>*\<^sup>* db0 db"
  shows "\<exists>r db'. revoke_view env data db = Some (r, db') \<and> od_codes db' = od_codes db
    \<and> length (od_tokens db') = length (od_tokens db)
    \<and> (\<forall>k < length (od_tokens db). od_tokens db' ! k \<noteq> od_tokens db ! k \<longrightarrow>
         oe_jti env (or_empty (data ''token'')) = Some (rt_token (od_tokens db ! k))
         \<and> \<not> rt_is_revoked (od_tokens db ! k) \<and> rt_replaced_by (od_tokens db ! k) = None)
    \<and> (\<forall>k < length (od_tokens db). rt_replaced_by (od_tokens db ! k) \<noteq> None \<longrightarrow>
         oe_jti env (or_empty (data ''token'')) = Some (rt_token (od_tokens db ! k)) \<longrightarrow> db' = db)"
proof -
  from oauth.steps_good [OF reach inv] have dbi: "db_inv db" .
  then have ti: "tokens_inv (od_tokens db)" by (simp add: db_inv_def)
  show ?thesis
  proof (cases "\<exists>r. revoke_view env data db = Some (r, db)")
    case True
    then show ?thesis by auto
  next
    case False
    then obtain client ref r where
      ref: "oe_jti env (or_empty (data ''token'')) = Some ref"
      and get: "qs_get (\<lambda>r. rt_token r = ref) (manager_queryset rt_tenant (oe_ctx env) (od_tokens db)) = Inr r"
      and live: "\<not> rt_is_revoked r"
      and view: "revoke_view env data db = (case revoke_refresh_token_chain env r db of
                     None \<Rightarrow> None
                   | Some (Inl e, db1) \<Rightarrow> Some (Inl e, db1)
                   | Some (Inr _, db1) \<Rightarrow>
                       Some (Inr Ok200, emit [] ''token_revoked'' (rt_tenant r)
                         [(''client_id'', or_empty (data ''client_id'')), (''user_id'', rt_user_id r)] db1))"
      by (auto simp: revoke_view_def Let_def split: if_splits sum.splits exn.splits option.splits)
    from qs_get_Inr_D [OF get] manager.scoped_subset [of rt_tenant "oe_ctx env" "od_tokens db"]
    have r: "r \<in> set (od_tokens db)" "rt_token r = ref" by auto
    from tokens_inv_row [OF ti r(1)] have id: "rt_id r < length (od_tokens db)"
      "od_tokens db ! rt_id r = r" by simp_all
    have none: "rt_replaced_by r = None"
      using tokens_inv_successor [OF ti r(1)] live by (auto simp: successor_ok_def split: option.splits)
    have alone: "lineage (od_tokens db) (rt_id r) k \<longleftrightarrow> k = rt_id r" for k
      using lineage_step [OF ti id(1)] id(2) none by simp
    from revoke_chain_effect [OF dbi r(1), of env] obtain res db1 where
      eff: "revoke_refresh_token_chain env r db = Some (res, db1)" "od_codes db1 = od_codes db"
        "length (od_tokens db1) = length (od_tokens db)"
        "\<forall>k < length (od_tokens db). od_tokens db1 ! k = (if k = rt_id r
           then revoke_row (oe_now env) (od_tokens db ! k) else od_tokens db ! k)"
      unfolding alone by blast
    obtain q db' where q: "revoke_view env data db = Some (q, db')"
      and db': "od_codes db' = od_codes db1" "od_tokens db' = od_tokens db1"
      using view eff(1) by (cases res) auto
    have uniq: "k = rt_id r" if "k < length (od_tokens db)" "rt_token (od_tokens db ! k) = ref" for k
      using that tokens_inv_token [OF ti, of "od_tokens db ! k" r] r tokens_inv_row [OF ti, of "od_tokens db ! k"] ti
      by (metis nth_mem rt_id_nth tokens_inv_def)
    have "\<forall>k < length (od_tokens db). od_tokens db' ! k \<noteq> od_tokens db ! k \<longrightarrow> k = rt_id r"
      using eff(4) db' by auto
    then have only: "\<forall>k < length (od_tokens db). od_tokens db' ! k \<noteq> od_tokens db ! k \<longrightarrow>
         oe_jti env (or_empty (data ''token'')) = Some (rt_token (od_tokens db ! k))
         \<and> \<not> rt_is_revoked (od_tokens db ! k) \<and> rt_replaced_by (od_tokens db ! k) = None"
      using ref r(2) id(2) live none by metis
    have rotated: "\<forall>k < length (od_tokens db). rt_replaced_by (od_tokens db ! k) \<noteq> None \<longrightarrow>
         oe_jti env (or_empty (data ''token'')) = Some (rt_token (od_tokens db ! k)) \<longrightarrow> db' = db"
      using ref uniq id(2) none by (metis option.inject)
    have "od_codes db' = od_codes db" "length (od_tokens db') = length (od_tokens db)"
      using db' eff(2,3) by simp_all
    with q only rotated show ?thesis by blast
  qed
qed

lemma revoke_view_scope_witness:
  "\<exists>r. revoke_view sample_env [''token'' \<mapsto> ''x'', ''client_id'' \<mapsto> ''app'', ''client_secret'' \<mapsto> ''s3'']
      ((sample_db True [])\<lparr>od_tokens := [sample_old, sample_new]\<rparr>)
    = Some (r, (sample_db True [])\<lparr>od_tokens := [sample_old, sample_new]\<rparr>)"
proof -
  let ?data = "[''token'' \<mapsto> ''x'', ''client_id'' \<mapsto> ''app'', ''client_secret'' \<mapsto> ''s3'']"
  let ?db = "(sample_db True [])\<lparr>od_tokens := [sample_old, sample_new]\<rparr>"
  have "rt_replaced_by (od_tokens ?db ! 0) \<noteq> None" "0 < length (od_tokens ?db)"
    "oe_jti sample_env (or_empty (?data ''token'')) = Some (rt_token (od_tokens ?db ! 0))"
    by (simp_all add: sample_old_def sample_env_def)
  with revoke_view_scope [OF sample_rotated_inv rtranclp.rtrancl_refl, of sample_env ?data]
  show ?thesis by blast
qed

end
