(* ===== verification/Lockout.thy ===== *)
theory Lockout
  imports Identity "HOL-Library.Product_Lexorder"
begin

text \<open>
  Brute-force protection over the cache service: the account lockout of
  \<open>apps/iam_auth/lockout.py\<close> and the fixed-window rate limiter of
  \<open>core/middleware/rate_limit.py\<close>.  Both count with \<open>add\<close> and \<open>incr\<close>; their properties
  rest on the contract \<open>cache_api\<close>.
\<close>

section \<open>Account lockout\<close>

type_synonym int_config = "string \<rightharpoonup> int"

definition max_attempts :: "int_config \<Rightarrow> int" where
  "max_attempts cfg = (case cfg ''MAX_ATTEMPTS'' of None \<Rightarrow> 5 | Some n \<Rightarrow> n)"

definition lockout_duration :: "int_config \<Rightarrow> int" where
  "lockout_duration cfg = (case cfg ''LOCKOUT_DURATION'' of None \<Rightarrow> 900 | Some n \<Rightarrow> n)"

definition attempts_key :: "string \<Rightarrow> string" where
  "attempts_key email = ''auth:lockout:attempts:'' @ email"

definition locked_key :: "string \<Rightarrow> string" where
  "locked_key email = ''auth:lockout:locked:'' @ email"

definition cval_true :: "'x cval option \<Rightarrow> bool" where
  "cval_true v = (case v of None \<Rightarrow> False | Some (CInt n) \<Rightarrow> n \<noteq> 0 | Some (CObj _) \<Rightarrow> True)"

definition is_locked :: "('s, 'x) cache_ops \<Rightarrow> string \<Rightarrow> 's \<Rightarrow> bool" where
  "is_locked C email s = cval_true (c_get C (locked_key email) s)"

definition record_failed_attempt ::
  "('s, 'x) cache_ops \<Rightarrow> int_config \<Rightarrow> string \<Rightarrow> 's \<Rightarrow> 's" where
  "record_failed_attempt C cfg email s =
     (let duration = lockout_duration cfg;
          k = attempts_key email;
          timeout = (if duration > 0 then Some duration else None) in
      if max_attempts cfg = 0 then s
      else
        let (new_count, s2) =
          (case c_add C k (CInt 1) timeout s of
             (True, s1) \<Rightarrow> (1, s1)
           | (False, s1) \<Rightarrow>
               (case c_incr C k s1 of
                  Some (n, s2) \<Rightarrow> (n, s2)
                | None \<Rightarrow> (1, c_set C k (CInt 1) timeout s1)))
        in if new_count \<ge> max_attempts cfg then c_set C (locked_key email) (CInt 1) timeout s2
           else s2)"

definition clear_lockout :: "('s, 'x) cache_ops \<Rightarrow> string \<Rightarrow> 's \<Rightarrow> 's" where
  "clear_lockout C email s = c_delete C (locked_key email) (c_delete C (attempts_key email) s)"

text \<open>A sequence of failed logins, each after a delay.\<close>

definition failures ::
  "('s, 'x) cache_ops \<Rightarrow> (int \<Rightarrow> 's \<Rightarrow> 's) \<Rightarrow> int_config \<Rightarrow> string \<Rightarrow> int list \<Rightarrow> 's \<Rightarrow> 's" where
  "failures C wait cfg email ds s =
     fold (\<lambda>d s. record_failed_attempt C cfg email (wait d s)) ds s"

lemma lockout_keys_differ [simp]:
  "attempts_key e \<noteq> locked_key e'" "locked_key e' \<noteq> attempts_key e"
  by (simp_all add: attempts_key_def locked_key_def)

lemma lockout_key_eq [simp]:
  "attempts_key e = attempts_key e' \<longleftrightarrow> e = e'" "locked_key e = locked_key e' \<longleftrightarrow> e = e'"
  by (simp_all add: attempts_key_def locked_key_def)

text \<open>An entry with at least \<open>r\<close> seconds left, or without expiry when the duration is not positive.\<close>

definition fresh_for :: "int \<Rightarrow> int \<Rightarrow> int option \<Rightarrow> bool" where
  "fresh_for duration r t = (if duration > 0 then (\<exists>x. t = Some x \<and> r \<le> x) else t = None)"

context cache_api
begin

lemma is_locked_view: "is_locked C e s = cval_true (map_option fst (view s (locked_key e)))"
  by (simp add: is_locked_def get_view)

lemma lockout_first:
  assumes "view s (attempts_key e) = None" and "max_attempts cfg > 0"
  shows "\<exists>t. view (record_failed_attempt C cfg e s) =
    (if max_attempts cfg = 1 then (view s)(attempts_key e \<mapsto> (CInt 1, t), locked_key e \<mapsto> (CInt 1, t))
     else (view s)(attempts_key e \<mapsto> (CInt 1, t)))
    \<and> t = (if lockout_duration cfg > 0 then Some (lockout_duration cfg) else None)"
proof -
  let ?t = "if lockout_duration cfg > 0 then Some (lockout_duration cfg) else None"
  have live: "live_timeout ?t" by simp
  obtain s' where s': "c_add C (attempts_key e) (CInt 1) ?t s = (True, s')"
    "view s' = (view s)(attempts_key e \<mapsto> (CInt 1, ?t))"
    using bump_absent [OF assms(1) live] by blast
  then show ?thesis
    using assms(2) set_view [OF live, of "locked_key e" "CInt 1" s']
    by (auto simp: record_failed_attempt_def Let_def)
qed

lemma lockout_next:
  assumes "view s (attempts_key e) = Some (CInt n, r)" and "max_attempts cfg > 0"
  shows "view (record_failed_attempt C cfg e s) =
    (if n + 1 \<ge> max_attempts cfg
     then (view s)(attempts_key e \<mapsto> (CInt (n + 1), r), locked_key e \<mapsto>
        (CInt 1, if lockout_duration cfg > 0 then Some (lockout_duration cfg) else None))
     else (view s)(attempts_key e \<mapsto> (CInt (n + 1), r)))"
proof -
  let ?t = "if lockout_duration cfg > 0 then Some (lockout_duration cfg) else None"
  have live: "live_timeout ?t" by simp
  obtain s' where s': "c_add C (attempts_key e) (CInt 1) ?t s = (False, s)"
    "c_incr C (attempts_key e) s = Some (n + 1, s')"
    "view s' = (view s)(attempts_key e \<mapsto> (CInt (n + 1), r))"
    using bump_present [OF assms(1), of ?t] by blast
  then show ?thesis
    using assms(2) set_view [OF live, of "locked_key e" "CInt 1" s']
    by (auto simp: record_failed_attempt_def Let_def)
qed

lemma fresh_for_wait:
  assumes "view s k = Some (v, t)" and "fresh_for duration r t" and "0 \<le> d" and "duration > 0 \<longrightarrow> d < r"
  shows "\<exists>t'. view (wait d s) k = Some (v, t') \<and> fresh_for duration (r - d) t'"
  using assms by (cases t) (auto simp: wait_view fresh_for_def split: if_splits)

lemma failures_invariant:
  assumes m: "max_attempts cfg > 0" and D: "D = lockout_duration cfg"
    and pos: "\<forall>d \<in> set ds. 0 \<le> d" and sum: "D > 0 \<longrightarrow> sum_list ds < r" and "r \<le> D \<or> D \<le> 0"
    and a: "view s (attempts_key e) = Some (CInt n, ta)" "fresh_for D r ta"
    and l: "n \<ge> max_attempts cfg \<longrightarrow> (\<exists>tl. view s (locked_key e) = Some (CInt 1, tl) \<and> fresh_for D r tl)"
      "n < max_attempts cfg \<longrightarrow> view s (locked_key e) = None"
  shows "\<exists>ta'. view (failures C wait cfg e ds s) (attempts_key e) = Some (CInt (n + int (length ds)), ta')
    \<and> (n + int (length ds) \<ge> max_attempts cfg \<longrightarrow>
        (\<exists>tl. view (failures C wait cfg e ds s) (locked_key e) = Some (CInt 1, tl)))
    \<and> (n + int (length ds) < max_attempts cfg \<longrightarrow> view (failures C wait cfg e ds s) (locked_key e) = None)"
  using pos sum a l assms(5)
proof (induction ds arbitrary: s n r ta)
  case Nil
  then show ?case by (auto simp: failures_def)
next
  case (Cons d ds)
  let ?w = "wait d s" and ?s = "record_failed_attempt C cfg e (wait d s)"
  have d: "0 \<le> d" "D > 0 \<longrightarrow> d < r" "D > 0 \<longrightarrow> sum_list ds < r - d" "\<forall>d \<in> set ds. 0 \<le> d"
    using Cons.prems(1,2) sum_list_nonneg [of ds] by auto
  from fresh_for_wait [OF Cons.prems(3,4) d(1,2)] obtain ta' where
    aw: "view ?w (attempts_key e) = Some (CInt n, ta')" "fresh_for D (r - d) ta'" by blast
  have lw: "n \<ge> max_attempts cfg \<longrightarrow> (\<exists>tl. view ?w (locked_key e) = Some (CInt 1, tl) \<and> fresh_for D (r - d) tl)"
    using Cons.prems(5) fresh_for_wait [of s "locked_key e" "CInt 1" _ D r d] d by blast
  have ln: "n < max_attempts cfg \<longrightarrow> view ?w (locked_key e) = None"
    using Cons.prems(6) d(1) by (simp add: wait_view)
  have timeout: "fresh_for D (r - d) (if lockout_duration cfg > 0 then Some (lockout_duration cfg) else None)"
    using D Cons.prems(7) d by (auto simp: fresh_for_def)
  note v = lockout_next [OF aw(1) m]
  have "\<exists>ta'. view (failures C wait cfg e ds ?s) (attempts_key e) = Some (CInt (n + 1 + int (length ds)), ta')
    \<and> (n + 1 + int (length ds) \<ge> max_attempts cfg \<longrightarrow>
        (\<exists>tl. view (failures C wait cfg e ds ?s) (locked_key e) = Some (CInt 1, tl)))
    \<and> (n + 1 + int (length ds) < max_attempts cfg \<longrightarrow> view (failures C wait cfg e ds ?s) (locked_key e) = None)"
  proof (rule Cons.IH [OF d(4,3), where ta = ta'])
    show "view ?s (attempts_key e) = Some (CInt (n + 1), ta')" using v by simp
    show "fresh_for D (r - d) ta'" by (rule aw(2))
    show "n + 1 \<ge> max_attempts cfg \<longrightarrow> (\<exists>tl. view ?s (locked_key e) = Some (CInt 1, tl) \<and> fresh_for D (r - d) tl)"
      using v timeout by simp
    show "n + 1 < max_attempts cfg \<longrightarrow> view ?s (locked_key e) = None" using v ln by simp
    show "r - d \<le> D \<or> D \<le> 0" using Cons.prems(7) d by auto
  qed
  then show ?case by (simp add: failures_def algebra_simps)
qed

lemma failures_from_fresh:
  assumes m: "max_attempts cfg > 0" and pos: "\<forall>d \<in> set ds. 0 \<le> d"
    and sum: "lockout_duration cfg > 0 \<longrightarrow> sum_list ds < lockout_duration cfg"
    and fresh: "view s (attempts_key e) = None" "view s (locked_key e) = None"
  shows "is_locked C e (failures C wait cfg e ds s) \<longleftrightarrow> max_attempts cfg \<le> int (length ds)"
proof (cases ds)
  case Nil
  with fresh m show ?thesis by (simp add: failures_def is_locked_view cval_true_def)
next
  case (Cons d ds')
  let ?D = "lockout_duration cfg"
  let ?t = "if ?D > 0 then Some ?D else None"
  let ?s = "record_failed_attempt C cfg e (wait d s)"
  have d: "0 \<le> d" "\<forall>d \<in> set ds'. 0 \<le> d" "?D > 0 \<longrightarrow> sum_list ds' < ?D"
    using pos sum Cons sum_list_nonneg [of ds'] by auto
  have w: "view (wait d s) (attempts_key e) = None" "view (wait d s) (locked_key e) = None"
    using fresh d by (simp_all add: wait_view)
  note v = lockout_first [OF w(1) m]
  have "\<exists>ta'. view (failures C wait cfg e ds' ?s) (attempts_key e) = Some (CInt (1 + int (length ds')), ta')
    \<and> (1 + int (length ds') \<ge> max_attempts cfg \<longrightarrow>
        (\<exists>tl. view (failures C wait cfg e ds' ?s) (locked_key e) = Some (CInt 1, tl)))
    \<and> (1 + int (length ds') < max_attempts cfg \<longrightarrow> view (failures C wait cfg e ds' ?s) (locked_key e) = None)"
    by (rule failures_invariant [OF m refl d(2,3), where ta = ?t])
       (use v w m in \<open>auto simp: fresh_for_def\<close>)
  then show ?thesis
    using Cons by (auto simp: failures_def is_locked_view cval_true_def)
qed

lemma lock_expires:
  assumes "view s (locked_key e) = Some (CInt 1, t)" and "0 \<le> d"
  shows "is_locked C e (wait d s) \<longleftrightarrow> (case t of None \<Rightarrow> True | Some r \<Rightarrow> d < r)"
  using assms by (cases t) (auto simp: is_locked_view wait_view cval_true_def)

lemma clear_view: "view (clear_lockout C e s) = (view s)(attempts_key e := None, locked_key e := None)"
  by (simp add: clear_lockout_def delete_view)

lemma locking_attempt:
  assumes "max_attempts cfg > 0" and "\<not> is_locked C e s"
    and "view s (attempts_key e) = None \<or> (\<exists>n r. view s (attempts_key e) = Some (CInt n, r))"
    and "is_locked C e (record_failed_attempt C cfg e s)"
  shows "view (record_failed_attempt C cfg e s) (locked_key e) =
    Some (CInt 1, if lockout_duration cfg > 0 then Some (lockout_duration cfg) else None)"
  using assms(3)
proof (elim disjE exE)
  assume "view s (attempts_key e) = None"
  from lockout_first [OF this assms(1)] show ?thesis
    using assms(2,4) by (auto simp: is_locked_view split: if_splits)
next
  fix n r
  assume "view s (attempts_key e) = Some (CInt n, r)"
  from lockout_next [OF this assms(1)] show ?thesis
    using assms(2,4) by (auto simp: is_locked_view split: if_splits)
qed

end

text \<open>The lockout threshold.  From a clean state, after any number of failed logins spread
  over less than the lockout duration (or over any time, when the duration is zero: no expiry),
  the account is locked exactly when there were at least \<open>MAX_ATTEMPTS\<close> of them.\<close>

theorem lockout_threshold:
  assumes "cache_api C view wait"
    and "max_attempts cfg > 0" and "\<forall>d \<in> set ds. 0 \<le> d"
    and "lockout_duration cfg > 0 \<longrightarrow> sum_list ds < lockout_duration cfg"
    and "view s (attempts_key e) = None" and "view s (locked_key e) = None"
  shows "is_locked C e (failures C wait cfg e ds s) \<longleftrightarrow> max_attempts cfg \<le> int (length ds)"
  using assms by (rule cache_api.failures_from_fresh)

lemma lockout_threshold_witness:
  "is_locked ttl_cache ''a'' (failures ttl_cache ttl_wait Map.empty ''a'' [1, 2, 3, 4, 5] Map.empty)
   \<and> \<not> is_locked ttl_cache ''a'' (failures ttl_cache ttl_wait Map.empty ''a'' [1, 2, 3, 4] Map.empty)"
  using lockout_threshold [OF ttl.cache_api_axioms, of Map.empty "[1, 2, 3, 4, 5]" Map.empty "''a''"]
    lockout_threshold [OF ttl.cache_api_axioms, of Map.empty "[1, 2, 3, 4]" Map.empty "''a''"]
  by (simp add: max_attempts_def lockout_duration_def ttl_view_def)

text \<open>How a lock ends.  A lock set by a failed login lasts exactly the lockout duration, and
  for ever when the duration is zero; \<open>clear_lockout\<close> removes the lock and the counter at once
  and leaves the other accounts alone; with \<open>MAX_ATTEMPTS\<close> zero a failed login changes
  nothing.\<close>

theorem lockout_release:
  assumes "cache_api C view wait"
    and "view s (attempts_key e) = None \<or> (\<exists>n r. view s (attempts_key e) = Some (CInt n, r))"
    and "\<not> is_locked C e s" and "0 \<le> d" and "e' \<noteq> e"
  shows "(max_attempts cfg > 0 \<and> is_locked C e (record_failed_attempt C cfg e s) \<longrightarrow>
      (is_locked C e (wait d (record_failed_attempt C cfg e s))
         \<longleftrightarrow> lockout_duration cfg \<le> 0 \<or> d < lockout_duration cfg))
    \<and> \<not> is_locked C e (clear_lockout C e s')
    \<and> view (clear_lockout C e s') (attempts_key e) = None
    \<and> is_locked C e' (clear_lockout C e s') = is_locked C e' s'
    \<and> (max_attempts cfg = 0 \<longrightarrow> record_failed_attempt C cfg e s' = s')"
proof -
  note api = assms(1)
  note locked = cache_api.is_locked_view [OF api]
  have "is_locked C e (wait d (record_failed_attempt C cfg e s))
      \<longleftrightarrow> lockout_duration cfg \<le> 0 \<or> d < lockout_duration cfg"
    if "max_attempts cfg > 0" "is_locked C e (record_failed_attempt C cfg e s)"
    using cache_api.lock_expires [OF api
        cache_api.locking_attempt [OF api that(1) assms(3,2) that(2)] assms(4)] by auto
  moreover have "\<not> is_locked C e (clear_lockout C e s')"
    "view (clear_lockout C e s') (attempts_key e) = None"
    "is_locked C e' (clear_lockout C e s') = is_locked C e' s'"
    using assms(5) by (simp_all add: locked cache_api.clear_view [OF api] cval_true_def)
  ultimately show ?thesis by (simp add: record_failed_attempt_def Let_def)
qed

definition no_entries :: "unit ttl" where
  "no_entries = Map.empty"

lemma lockout_release_witness:
  "is_locked ttl_cache ''a'' (ttl_wait 899 (record_failed_attempt ttl_cache [''MAX_ATTEMPTS'' \<mapsto> 1] ''a'' no_entries))
   \<and> \<not> is_locked ttl_cache ''a'' (ttl_wait 900 (record_failed_attempt ttl_cache [''MAX_ATTEMPTS'' \<mapsto> 1] ''a'' no_entries))"
proof -
  let ?cfg = "[''MAX_ATTEMPTS'' \<mapsto> 1] :: int_config"
  have view: "ttl_view no_entries k = None" for k by (simp add: ttl_view_def no_entries_def)
  have n: "\<not> is_locked ttl_cache ''a'' no_entries"
    by (simp add: ttl.is_locked_view view cval_true_def)
  have l: "is_locked ttl_cache ''a'' (record_failed_attempt ttl_cache ?cfg ''a'' no_entries)"
  proof -
    have "ttl_wait 0 no_entries = no_entries" by (simp add: ttl_wait_def no_entries_def)
    with ttl.failures_from_fresh [of ?cfg "[0]" no_entries "''a''"] show ?thesis
      by (simp add: view max_attempts_def lockout_duration_def failures_def)
  qed
  from view have f: "ttl_view no_entries (attempts_key ''a'') = None
      \<or> (\<exists>n r. ttl_view no_entries (attempts_key ''a'') = Some (CInt n, r))" by simp
  from lockout_release [where cfg = ?cfg and d = 899 and e' = "''b''" and s' = no_entries,
      OF ttl.cache_api_axioms f n] l
    lockout_release [where cfg = ?cfg and d = 900 and e' = "''b''" and s' = no_entries,
      OF ttl.cache_api_axioms f n]
  show ?thesis by (simp add: max_attempts_def lockout_duration_def)
qed

section \<open>Fixed-window rate limiting\<close>

definition rate_periods :: "string \<rightharpoonup> int" where
  "rate_periods = [''second'' \<mapsto> 1, ''minute'' \<mapsto> 60, ''hour'' \<mapsto> 3600, ''day'' \<mapsto> 86400]"

definition parse_rate :: "string \<Rightarrow> (int \<times> int) res" where
  "parse_rate rate =
     (case split_on (CHR ''/'') rate of
        [c, p] \<Rightarrow>
          (case py_int c of
             None \<Rightarrow> Inl ValueErr
           | Some count \<Rightarrow>
               (case rate_periods (lower p) of
                  None \<Rightarrow> Inl ValueErr | Some w \<Rightarrow> Inr (count, w)))
      | _ \<Rightarrow> Inl ValueErr)"

record rate_config =
  rl_enabled :: bool
  rl_boundary_scope :: bool
  rl_skip_paths :: "string list"
  rl_default_rate :: string

definition get_ident :: "request \<Rightarrow> string" where
  "get_ident rq = (case rq_user rq of
     Some u \<Rightarrow> ''user:'' @ usr_id u | None \<Rightarrow> ''ip:'' @ rq_ip rq)"

definition get_scope_string :: "rate_config \<Rightarrow> (string \<times> string) list \<Rightarrow> string option" where
  "get_scope_string cfg scope =
     (if \<not> rl_boundary_scope cfg \<or> scope = [] then None
      else Some (join ''|'' (map (\<lambda>(k, v). k @ ''='' @ v) (sort scope))))"

definition build_key :: "string option \<Rightarrow> string \<Rightarrow> string \<Rightarrow> string" where
  "build_key scope ident path =
     (if truthy scope then ''rate_limit:'' @ or_empty scope @ '':'' @ ident @ '':'' @ path
      else ''rate_limit:'' @ ident @ '':'' @ path)"

text \<open>
  \<open>resolver_match\<close> of the request: \<open>None\<close> before the URL is resolved; the inner option is the
  \<open>rate_limit_enabled\<close> attribute of the view class, when there is one.
\<close>

definition is_view_opted_out :: "bool option option \<Rightarrow> bool" where
  "is_view_opted_out resolver_match =
     (case resolver_match of
        None \<Rightarrow> False
      | Some None \<Rightarrow> False
      | Some (Some enabled) \<Rightarrow> \<not> enabled)"

definition is_skipped_path :: "request \<Rightarrow> rate_config \<Rightarrow> bool" where
  "is_skipped_path rq cfg = list_ex (\<lambda>p. starts_with p (rq_path rq)) (rl_skip_paths cfg)"

definition is_rate_limited ::
  "('s, 'x) cache_ops \<Rightarrow> string \<Rightarrow> int \<Rightarrow> int \<Rightarrow> 's \<Rightarrow> bool \<times> 's" where
  "is_rate_limited C k count window s =
     (case c_add C k (CInt 1) (Some window) s of
        (True, s1) \<Rightarrow> (False, s1)
      | (False, s1) \<Rightarrow>
          (case c_incr C k s1 of
             None \<Rightarrow> (False, c_set C k (CInt 1) (Some window) s1)
           | Some (new_count, s2) \<Rightarrow> (new_count > count, s2)))"

text \<open>
  \<open>BaseRateLimitMiddleware.__call__\<close>: \<open>ttl\<close> is the backend's \<open>cache.ttl\<close>, which raises when
  the backend has no such method.
\<close>

definition rate_limit_call ::
  "('s, 'x) cache_ops \<Rightarrow> (string \<Rightarrow> 's \<Rightarrow> int option res) \<Rightarrow> rate_config \<Rightarrow> (string \<times> string) list
    \<Rightarrow> bool option option \<Rightarrow> request \<Rightarrow> ('s \<Rightarrow> 'a res \<times> 's) \<Rightarrow> 's \<Rightarrow> 'a res \<times> 's" where
  "rate_limit_call C ttl cfg scope resolver_match rq get_response s =
     (if \<not> rl_enabled cfg \<or> is_view_opted_out resolver_match \<or> is_skipped_path rq cfg
      then get_response s
      else (case parse_rate (rl_default_rate cfg) of
         Inl e \<Rightarrow> (Inl e, s)
       | Inr (count, window) \<Rightarrow>
           let k = build_key (get_scope_string cfg scope) (get_ident rq) (rq_path rq);
               (limited, s1) = is_rate_limited C k count window s in
           if limited then
             (case ttl k s1 of
                Inl e \<Rightarrow> (Inl e, s1)
              | Inr t \<Rightarrow> (Inl (Throttling (case t of None \<Rightarrow> window
                            | Some r \<Rightarrow> if r > 0 then r else window)), s1))
           else get_response s1))"

text \<open>The decisions over a sequence of requests on one key, each after a delay.\<close>

fun decisions ::
  "('s, 'x) cache_ops \<Rightarrow> (int \<Rightarrow> 's \<Rightarrow> 's) \<Rightarrow> string \<Rightarrow> int \<Rightarrow> int \<Rightarrow> int list \<Rightarrow> 's \<Rightarrow> bool list" where
  "decisions C wait k count window [] s = []"
| "decisions C wait k count window (d # ds) s =
     (let (b, s') = is_rate_limited C k count window (wait d s)
      in b # decisions C wait k count window ds s')"

context cache_api
begin

lemma limited_absent:
  assumes "view s k = None" and "window > 0"
  shows "\<exists>s'. is_rate_limited C k count window s = (False, s') \<and> view s' = (view s)(k \<mapsto> (CInt 1, Some window))"
proof -
  have "live_timeout (Some window)" using assms(2) by simp
  from bump_absent [OF assms(1) this] show ?thesis
    by (metis (no_types, lifting) is_rate_limited_def prod.simps(2) case_prod_conv bool.case(1))
qed

lemma limited_present:
  assumes "view s k = Some (CInt n, t)"
  shows "\<exists>s'. is_rate_limited C k count window s = (count < n + 1, s') \<and> view s' = (view s)(k \<mapsto> (CInt (n + 1), t))"
proof -
  from bump_present [OF assms, of "Some window"] obtain s' where
    "c_add C k (CInt 1) (Some window) s = (False, s)" "c_incr C k s = Some (n + 1, s')"
    "view s' = (view s)(k \<mapsto> (CInt (n + 1), t))" by blast
  then show ?thesis by (simp add: is_rate_limited_def)
qed

lemma decisions_present:
  assumes "\<forall>d \<in> set ds. 0 \<le> d" and "sum_list ds < r" and "view s k = Some (CInt n, Some r)"
  shows "decisions C wait k count window ds s = map (\<lambda>i. count < n + int i + 1) [0..<length ds]"
  using assms
proof (induction ds arbitrary: s n r)
  case (Cons d ds)
  then have d: "0 \<le> d" "d < r" "sum_list ds < r - d" "\<forall>d \<in> set ds. 0 \<le> d"
    using sum_list_nonneg [of ds] by auto
  have w: "view (wait d s) k = Some (CInt n, Some (r - d))" using d Cons.prems by (simp add: wait_view)
  obtain s' where s': "is_rate_limited C k count window (wait d s) = (count < n + 1, s')"
    "view s' k = Some (CInt (n + 1), Some (r - d))"
    using limited_present [OF w, of count window] by auto
  show ?case
    using Cons.IH [OF d(4,3) s'(2)] s'(1)
    by (simp add: map_upt_Suc algebra_simps del: upt_Suc)
qed simp

lemma decisions_fresh:
  assumes "window > 0" and "\<forall>d \<in> set ds. 0 \<le> d" and "sum_list (tl ds) < window" and "view s k = None"
  shows "decisions C wait k count window ds s
    = map (\<lambda>i. 0 < i \<and> count < int i + 1) [0..<length ds]"
proof (cases ds)
  case (Cons d ds')
  have w: "view (wait d s) k = None" using assms Cons by (simp add: wait_view)
  obtain s' where s': "is_rate_limited C k count window (wait d s) = (False, s')"
    "view s' k = Some (CInt 1, Some window)"
    using limited_absent [OF w assms(1), of count] by auto
  have "decisions C wait k count window ds' s' = map (\<lambda>i. count < 1 + int i + 1) [0..<length ds']"
    using decisions_present [of ds' window s' k 1] assms Cons s' by simp
  with s' Cons show ?thesis by (simp add: map_upt_Suc algebra_simps del: upt_Suc)
qed simp

lemma window_ends:
  assumes "view s k = Some (CInt n, Some r)" and "r \<le> d" and "0 \<le> d"
  shows "view (wait d s) k = None"
  using assms by (simp add: wait_view)

end

text \<open>The fixed window.  Of the requests of one client on one path that fall into a window,
  the first is always admitted and the \<open>i\<close>-th later one is denied exactly when its ordinal
  exceeds the configured count; so \<open>max 1 count\<close> requests are admitted.  In particular a
  count of zero does not close the endpoint.\<close>

theorem fixed_window_admits:
  assumes "cache_api C view wait" and "window > 0" and "\<forall>d \<in> set ds. 0 \<le> d"
    and "sum_list (tl ds) < window" and "view s k = None"
  shows "decisions C wait k count window ds s = map (\<lambda>i. 0 < i \<and> count < int i + 1) [0..<length ds]
    \<and> int (length (filter Not (decisions C wait k count window ds s)))
        = min (int (length ds)) (max 1 count)"
proof -
  have len: "int (length (filter Not (map (\<lambda>i. 0 < i \<and> count < int i + 1) [0..<n])))
      = min (int n) (max 1 count)" for n
    by (induction n) (auto simp: min_def max_def)
  from cache_api.decisions_fresh [OF assms] show ?thesis by (simp only: len)
qed

lemma fixed_window_admits_witness:
  "decisions ttl_cache ttl_wait ''k'' 2 60 [0, 5, 5, 5] (Map.empty :: unit ttl) = [False, False, True, True]
   \<and> decisions ttl_cache ttl_wait ''k'' 0 60 [0, 5] (Map.empty :: unit ttl) = [False, True]"
  using fixed_window_admits [OF ttl.cache_api_axioms, of 60 "[0, 5, 5, 5]" "Map.empty :: unit ttl" "''k''" 2]
    fixed_window_admits [OF ttl.cache_api_axioms, of 60 "[0, 5]" "Map.empty :: unit ttl" "''k''" 0]
  by (simp add: ttl_view_def upt_rec del: decisions.simps)

text \<open>Rate strings.  \<open>{count}/{period}\<close> written with a decimal count and any capitalisation
  of the four periods parses to the count and the period's seconds; a string that does not
  have exactly one slash is a value error.\<close>

theorem parse_rate_format:
  assumes "CHR ''/'' \<notin> set p" and "rate_periods (lower p) = Some w"
  shows "parse_rate (show_int n @ ''/'' @ p) = Inr (n, w)
    \<and> (count_list rate (CHR ''/'') \<noteq> 1 \<longrightarrow> parse_rate rate = Inl ValueErr)"
proof
  have "CHR ''/'' \<notin> set (show_int n)"
    using show_nat_digits [of "CHR ''/''"] by (auto simp: show_int_def is_digit_def char_code_def)
  then have "split_on (CHR ''/'') (join ''/'' [show_int n, p]) = [show_int n, p]"
    using assms by (intro split_on_join) auto
  then show "parse_rate (show_int n @ ''/'' @ p) = Inr (n, w)"
    using assms by (simp add: parse_rate_def py_int_show_int)
  show "count_list rate (CHR ''/'') \<noteq> 1 \<longrightarrow> parse_rate rate = Inl ValueErr"
    using length_split_on [of "CHR ''/''" rate]
    by (auto simp: parse_rate_def split: list.splits)
qed

lemma parse_rate_format_witness: "parse_rate ''10/Minute'' = Inr (10, 60)"
proof -
  have "rate_periods (lower ''Minute'') = Some 60" by code_simp
  moreover have "show_int 10 = ''10''" by code_simp
  ultimately show ?thesis using parse_rate_format [of "''Minute''" 60 10] by simp
qed

end
