(* ===== verification/Idempotency.thy ===== *)
theory Idempotency
  imports Lockout
begin

text \<open>
  The idempotency middleware (\<open>core/middleware/idempotency.py\<close>): replay of completed requests,
  rejection of requests in flight, and the interleavings of two concurrent duplicates.  The
  Redis client's \<open>get\<close> and \<open>set\<close> with expiry are those of the contract \<open>cache_api\<close>; the JSON
  encoding of an entry is left out, an entry is the stored object.
\<close>

section \<open>Entries and configuration\<close>

record http_response =
  hr_status :: int
  hr_body :: string
  hr_content_type :: "string option"

datatype entry = InFlight | Complete int string string

record idem_config =
  ic_guarded_methods :: "string list"
  ic_require_header :: bool
  ic_ttl :: int

definition idem_defaults :: idem_config where
  "idem_defaults = \<lparr>ic_guarded_methods = [''POST'', ''PUT'', ''PATCH'', ''DELETE''],
     ic_require_header = False, ic_ttl = 86400\<rparr>"

definition redis_key :: "string \<Rightarrow> string \<Rightarrow> string" where
  "redis_key user_id idempotency_key = ''idempotency:'' @ user_id @ '':'' @ idempotency_key"

definition json_response :: "int \<Rightarrow> string \<Rightarrow> http_response" where
  "json_response status detail =
     \<lparr>hr_status = status, hr_body = ''{\"detail\": \"'' @ detail @ ''\"}'',
      hr_content_type = Some ''application/json''\<rparr>"

section \<open>The middleware in its four accesses\<close>

text \<open>
  What the middleware decides before it calls the view: pass the request through, answer it
  itself, or run it under a key.
\<close>

datatype decision = Pass | Answer http_response | Register string

definition idem_lookup ::
  "('s, entry) cache_ops \<Rightarrow> idem_config \<Rightarrow> request \<Rightarrow> string option \<Rightarrow> 's \<Rightarrow> decision" where
  "idem_lookup C cfg rq header s =
     (if rq_method rq \<notin> set (ic_guarded_methods cfg) then Pass
      else case rq_user rq of
        None \<Rightarrow> Pass
      | Some u \<Rightarrow>
          (if \<not> truthy header then
             (if ic_require_header cfg
              then Answer (json_response 400 ''X-Idempotency-Key header is required.'')
              else Pass)
           else let k = redis_key (usr_id u) (or_empty header) in
             (case c_get C k s of
                None \<Rightarrow> Register k
              | Some (CInt n) \<Rightarrow> Register k
              | Some (CObj InFlight) \<Rightarrow>
                  Answer (json_response 409
                    ''A request with this idempotency key is already being processed.'')
              | Some (CObj (Complete status body ct)) \<Rightarrow>
                  Answer \<lparr>hr_status = status, hr_body = body, hr_content_type = Some ct\<rparr>)))"

definition idem_register :: "('s, entry) cache_ops \<Rightarrow> idem_config \<Rightarrow> string \<Rightarrow> 's \<Rightarrow> 's" where
  "idem_register C cfg k s = c_set C k (CObj InFlight) (Some (ic_ttl cfg)) s"

definition response_entry :: "http_response \<Rightarrow> entry" where
  "response_entry r = Complete (hr_status r) (hr_body r)
     (case hr_content_type r of None \<Rightarrow> ''application/json'' | Some t \<Rightarrow> t)"

definition idem_store ::
  "('s, entry) cache_ops \<Rightarrow> idem_config \<Rightarrow> string \<Rightarrow> http_response \<Rightarrow> 's \<Rightarrow> 's" where
  "idem_store C cfg k r s = c_set C k (CObj (response_entry r)) (Some (ic_ttl cfg)) s"

text \<open>
  \<open>IdempotencyMiddleware.__call__\<close>; \<open>h\<close> is the rest of the stack acting on the world.
\<close>

definition idem_call ::
  "('s, entry) cache_ops \<Rightarrow> idem_config \<Rightarrow> request \<Rightarrow> string option
    \<Rightarrow> ('w \<Rightarrow> http_response \<times> 'w) \<Rightarrow> 's \<Rightarrow> 'w \<Rightarrow> http_response \<times> 's \<times> 'w" where
  "idem_call C cfg rq header h s w =
     (case idem_lookup C cfg rq header s of
        Pass \<Rightarrow> (let (r, w') = h w in (r, s, w'))
      | Answer r \<Rightarrow> (r, s, w)
      | Register k \<Rightarrow>
          (let s1 = idem_register C cfg k s; (r, w') = h w in (r, idem_store C cfg k r s1, w')))"

section \<open>Concurrent duplicates\<close>

text \<open>
  Two workers process the same request.  A phase is where a worker stands between its
  accesses; a schedule says which worker moves next, one access at a time.
\<close>

datatype phase =
    Arrived
  | LookedUp string
  | Registered string
  | Ran string http_response
  | Finished http_response

record 's duplicates =
  du_cache :: 's
  du_runs :: nat
  du_phases :: "phase list"

definition advance ::
  "('s, entry) cache_ops \<Rightarrow> idem_config \<Rightarrow> request \<Rightarrow> string option \<Rightarrow> http_response
    \<Rightarrow> nat \<Rightarrow> 's duplicates \<Rightarrow> 's duplicates" where
  "advance C cfg rq header r i st =
     (case du_phases st ! i of
        Arrived \<Rightarrow>
          (case idem_lookup C cfg rq header (du_cache st) of
             Pass \<Rightarrow> st\<lparr>du_runs := Suc (du_runs st), du_phases := (du_phases st)[i := Finished r]\<rparr>
           | Answer a \<Rightarrow> st\<lparr>du_phases := (du_phases st)[i := Finished a]\<rparr>
           | Register k \<Rightarrow> st\<lparr>du_phases := (du_phases st)[i := LookedUp k]\<rparr>)
      | LookedUp k \<Rightarrow> st\<lparr>du_cache := idem_register C cfg k (du_cache st),
                        du_phases := (du_phases st)[i := Registered k]\<rparr>
      | Registered k \<Rightarrow> st\<lparr>du_runs := Suc (du_runs st), du_phases := (du_phases st)[i := Ran k r]\<rparr>
      | Ran k a \<Rightarrow> st\<lparr>du_cache := idem_store C cfg k a (du_cache st),
                     du_phases := (du_phases st)[i := Finished a]\<rparr>
      | Finished a \<Rightarrow> st)"

definition run_schedule ::
  "('s, entry) cache_ops \<Rightarrow> idem_config \<Rightarrow> request \<Rightarrow> string option \<Rightarrow> http_response
    \<Rightarrow> nat list \<Rightarrow> 's duplicates \<Rightarrow> 's duplicates" where
  "run_schedule C cfg rq header r is st = fold (advance C cfg rq header r) is st"

definition arrivals :: "'s \<Rightarrow> 's duplicates" where
  "arrivals s = \<lparr>du_cache = s, du_runs = 0, du_phases = [Arrived, Arrived]\<rparr>"

lemma lookup_view:
  assumes "cache_api C view wait"
    and "rq_method rq \<in> set (ic_guarded_methods cfg)" and "rq_user rq = Some u" and "truthy header"
  shows "idem_lookup C cfg rq header s =
    (case map_option fst (view s (redis_key (usr_id u) (or_empty header))) of
       None \<Rightarrow> Register (redis_key (usr_id u) (or_empty header))
     | Some (CInt n) \<Rightarrow> Register (redis_key (usr_id u) (or_empty header))
     | Some (CObj InFlight) \<Rightarrow>
         Answer (json_response 409 ''A request with this idempotency key is already being processed.'')
     | Some (CObj (Complete status body ct)) \<Rightarrow>
         Answer \<lparr>hr_status = status, hr_body = body, hr_content_type = Some ct\<rparr>)"
  using assms(2-4) by (simp add: idem_lookup_def Let_def cache_api.get_view [OF assms(1)])

lemma register_view:
  "cache_api C view wait \<Longrightarrow> 0 < ic_ttl cfg \<Longrightarrow>
     view (idem_register C cfg k s) = (view s)(k \<mapsto> (CObj InFlight, Some (ic_ttl cfg)))"
  unfolding idem_register_def by (rule cache_api.set_view) simp_all

lemma store_view:
  "cache_api C view wait \<Longrightarrow> 0 < ic_ttl cfg \<Longrightarrow>
     view (idem_store C cfg k r s) = (view s)(k \<mapsto> (CObj (response_entry r), Some (ic_ttl cfg)))"
  unfolding idem_store_def by (rule cache_api.set_view) simp_all

text \<open>Once worker 0 has registered the key before worker 1 looked it up.\<close>

definition one_runs ::
  "('s \<Rightarrow> string \<Rightarrow> (entry cval \<times> int option) option) \<Rightarrow> string \<Rightarrow> 's duplicates \<Rightarrow> bool" where
  "one_runs view k st =
     ((\<exists>e t. view (du_cache st) k = Some (CObj e, t))
      \<and> (\<exists>p q. du_phases st = [p, q] \<and> (q = Arrived \<or> (\<exists>a. q = Finished a))
           \<and> (p = Registered k \<and> du_runs st = 0
              \<or> ((\<exists>a. p = Ran k a) \<or> (\<exists>a. p = Finished a)) \<and> du_runs st = 1)))"

lemma one_runs_advance:
  assumes "cache_api C view wait"
    and "rq_method rq \<in> set (ic_guarded_methods cfg)" and "rq_user rq = Some u" and "truthy header"
    and "0 < ic_ttl cfg" and "i < 2"
    and "one_runs view (redis_key (usr_id u) (or_empty header)) st"
  shows "one_runs view (redis_key (usr_id u) (or_empty header)) (advance C cfg rq header r i st)"
proof -
  let ?k = "redis_key (usr_id u) (or_empty header)"
  from assms(7) obtain e t p q where v: "view (du_cache st) ?k = Some (CObj e, t)"
    and ph: "du_phases st = [p, q]" "q = Arrived \<or> (\<exists>a. q = Finished a)"
    and p: "p = Registered ?k \<and> du_runs st = 0
        \<or> ((\<exists>a. p = Ran ?k a) \<or> (\<exists>a. p = Finished a)) \<and> du_runs st = 1"
    by (auto simp: one_runs_def)
  have look: "\<exists>a. idem_lookup C cfg rq header (du_cache st) = Answer a"
    by (cases e) (simp_all add: lookup_view [OF assms(1-4)] v)
  from assms(6) consider "i = 0" | "i = 1" by linarith
  then show ?thesis
  proof cases
    case 1
    with p v ph show ?thesis
      by (auto simp: advance_def one_runs_def store_view [OF assms(1,5)])
  next
    case 2
    with look p v ph show ?thesis by (auto simp: advance_def one_runs_def)
  qed
qed

lemma one_runs_schedule:
  assumes "cache_api C view wait"
    and "rq_method rq \<in> set (ic_guarded_methods cfg)" and "rq_user rq = Some u" and "truthy header"
    and "0 < ic_ttl cfg" and "set is \<subseteq> {0, 1}"
    and "one_runs view (redis_key (usr_id u) (or_empty header)) st"
  shows "one_runs view (redis_key (usr_id u) (or_empty header)) (run_schedule C cfg rq header r is st)"
  using assms(6,7)
proof (induction "is" arbitrary: st)
  case (Cons i js)
  then have "i < 2" by auto
  from one_runs_advance [OF assms(1-5) this Cons.prems(2)] Cons show ?case
    by (simp add: run_schedule_def)
qed (simp add: run_schedule_def)

text \<open>C37: A retry is replayed.  When the first request ran to its end, a request with the same
  user and key that arrives before the entry expires gets the stored response and does not
  run the view again; one that arrives while the first is still running is answered 409; and
  after the entry has expired the key is free again.\<close>

theorem idempotent_retry:
  fixes w :: 'w and h :: "'w \<Rightarrow> http_response \<times> 'w"
  assumes "cache_api C view wait"
    and "rq_method rq \<in> set (ic_guarded_methods cfg)" and "rq_user rq = Some u" and "truthy header"
    and "0 < ic_ttl cfg" and "view s (redis_key (usr_id u) (or_empty header)) = None"
    and "idem_call C cfg rq header h s w = (r, s', w')" and "0 \<le> d"
  shows "r = fst (h w) \<and> w' = snd (h w)
    \<and> (d < ic_ttl cfg \<longrightarrow>
        (let again = idem_call C cfg rq header h (wait d s') w' in
         snd (snd again) = w' \<and> hr_status (fst again) = hr_status r \<and> hr_body (fst again) = hr_body r))
    \<and> (ic_ttl cfg \<le> d \<longrightarrow> snd (snd (idem_call C cfg rq header h (wait d s') w')) = snd (h w'))
    \<and> (let k = redis_key (usr_id u) (or_empty header);
           busy = idem_call C cfg rq header h (idem_register C cfg k s) w in
         hr_status (fst busy) = 409 \<and> snd (snd busy) = w)"
proof -
  note api = assms(1)
  let ?k = "redis_key (usr_id u) (or_empty header)"
  note look = lookup_view [OF api assms(2,3,4)]
  have reg: "idem_lookup C cfg rq header s = Register ?k" by (simp add: look assms(6))
  obtain r0 w0 where h: "h w = (r0, w0)" by (cases "h w")
  have first: "r = r0" "w' = w0" "s' = idem_store C cfg ?k r0 (idem_register C cfg ?k s)"
    using assms(7) reg h by (auto simp: idem_call_def Let_def)
  have v: "view s' ?k = Some (CObj (response_entry r), Some (ic_ttl cfg))"
    by (simp add: first store_view [OF api assms(5)])
  note aged = cache_api.wait_view [OF api assms(8), of s' ?k]
  have "idem_lookup C cfg rq header (idem_register C cfg ?k s)
      = Answer (json_response 409 ''A request with this idempotency key is already being processed.'')"
    by (simp add: look register_view [OF api assms(5)])
  then have busy: "hr_status (fst (idem_call C cfg rq header h (idem_register C cfg ?k s) w)) = 409"
    "snd (snd (idem_call C cfg rq header h (idem_register C cfg ?k s) w)) = w"
    by (simp_all add: idem_call_def json_response_def)
  obtain r1 w1 where h1: "h w' = (r1, w1)" by (cases "h w'")
  show ?thesis
    using h h1 first(1,2) v aged busy
    by (auto simp: idem_call_def look Let_def response_entry_def split: if_splits)
qed

definition sample_post :: request where
  "sample_post = (sample_request (Some (sample_user ''u'' False)) (Some ''t1''))\<lparr>rq_method := ''POST''\<rparr>"

definition no_requests :: "entry ttl" where
  "no_requests = Map.empty"

definition counting :: "nat \<Rightarrow> http_response \<times> nat" where
  "counting n = (\<lparr>hr_status = 201, hr_body = ''ok'', hr_content_type = None\<rparr>, Suc n)"

lemma sample_post_simps:
  "rq_method sample_post \<in> set (ic_guarded_methods idem_defaults)"
  "rq_user sample_post = Some (sample_user ''u'' False)" "0 < ic_ttl idem_defaults"
  "ttl_view no_requests k = None"
  by (simp_all add: sample_post_def sample_request_def idem_defaults_def no_requests_def ttl_view_def)

lemma idempotent_retry_witness:
  "\<exists>r s' w'. idem_call ttl_cache idem_defaults sample_post (Some ''k'') counting no_requests 0 = (r, s', w')
     \<and> w' = 1 \<and> snd (snd (idem_call ttl_cache idem_defaults sample_post (Some ''k'') counting (ttl_wait 9 s') w')) = 1"
proof -
  obtain r s' w' where c: "idem_call ttl_cache idem_defaults sample_post (Some ''k'') counting no_requests 0
      = (r, s', w')" by (metis prod_cases3)
  have "truthy (Some ''k'')" by simp
  from idempotent_retry [OF ttl.cache_api_axioms sample_post_simps(1,2) this sample_post_simps(3)
      sample_post_simps(4) c, of 9] c
  show ?thesis by (auto simp: counting_def idem_defaults_def Let_def)
qed

text \<open>The registration of a key is not atomic.  If both duplicates look the key up before
  either has registered it, both run the view.  If one registers the key before the other
  looks it up, the view runs at most once, whatever the rest of the schedule.\<close>

theorem duplicate_race:
  assumes "cache_api C view wait"
    and "rq_method rq \<in> set (ic_guarded_methods cfg)" and "rq_user rq = Some u" and "truthy header"
    and "0 < ic_ttl cfg" and "view s (redis_key (usr_id u) (or_empty header)) = None"
  shows "du_runs (run_schedule C cfg rq header r [0, 1, 0, 1, 0, 1, 0, 1] (arrivals s)) = 2
    \<and> (\<forall>is. set is \<subseteq> {0, 1} \<longrightarrow>
         du_runs (run_schedule C cfg rq header r ([0, 0] @ is) (arrivals s)) \<le> 1)"
proof
  note look = lookup_view [OF assms(1-4)] and reg = register_view [OF assms(1,5)]
  show "du_runs (run_schedule C cfg rq header r [0, 1, 0, 1, 0, 1, 0, 1] (arrivals s)) = 2"
    using look reg assms(6) by (simp add: run_schedule_def advance_def arrivals_def)
  let ?st = "run_schedule C cfg rq header r [0, 0] (arrivals s)"
  have start: "one_runs view (redis_key (usr_id u) (or_empty header)) ?st"
    using look reg assms(6) by (simp add: run_schedule_def advance_def arrivals_def one_runs_def)
  have "du_runs (run_schedule C cfg rq header r ([0, 0] @ is) (arrivals s)) \<le> 1"
    if "set is \<subseteq> {0, 1}" for "is"
    using one_runs_schedule [OF assms(1-5) that start, of r]
    by (auto simp: run_schedule_def one_runs_def)
  then show "\<forall>is. set is \<subseteq> {0, 1} \<longrightarrow>
      du_runs (run_schedule C cfg rq header r ([0, 0] @ is) (arrivals s)) \<le> 1" by blast
qed

lemma duplicate_race_witness:
  "du_runs (run_schedule ttl_cache idem_defaults sample_post (Some ''k'') (fst (counting 0))
      [0, 1, 0, 1, 0, 1, 0, 1] (arrivals no_requests)) = 2"
proof -
  have "truthy (Some ''k'')" by simp
  from duplicate_race [where r = "fst (counting 0)", OF ttl.cache_api_axioms sample_post_simps(1,2) this sample_post_simps(3),
      of no_requests, OF sample_post_simps(4)] show ?thesis by blast
qed

end
