(* ===== verification/PermissionCatalog.thy ===== *)
theory PermissionCatalog
  imports AccessControl
begin

text \<open>
  The permission catalog (\<open>apps/sys_permissions/catalog.py\<close>), the seeding of default roles
  (\<open>apps/tenants/signals.py\<close>) and the validation of roles (\<open>apps/iam_roles/serializers.py\<close>).
  An explicit catalog is one that conforms to \<open>permissions_schema.json\<close>: a JSON \<open>false\<close> is
  \<open>Off\<close>, an object is \<open>On\<close>.  Dictionaries are association lists in insertion order.
\<close>

section \<open>Catalogs\<close>

record perm_action =
  pa_label :: string
  pa_readonly :: bool
  pa_default_roles :: "(string \<times> int) list"

datatype 'a toggle = Off | On 'a

record explicit_resource =
  er_label :: "string option"
  er_actions :: "(string \<times> perm_action toggle) list"

record explicit_catalog =
  ex_access :: "perm_action toggle option"
  ex_resources :: "(string \<times> explicit_resource toggle) list toggle option"

record perm_resource =
  pr_label :: string
  pr_actions :: "(string \<times> perm_action) list"

record catalog =
  ct_access :: "perm_action option"
  ct_resources :: "(string \<times> perm_resource) list"

definition default_roles :: "string list" where
  "default_roles = [''owner'', ''admin'', ''member'', ''viewer'']"

definition everyone :: "(string \<times> int) list" where
  "everyone = [(''owner'', 1), (''admin'', 1), (''member'', 1), (''viewer'', 1)]"

definition managers :: "(string \<times> int) list" where
  "managers = [(''owner'', 1), (''admin'', 1), (''member'', 0), (''viewer'', 0)]"

definition access_action :: perm_action where
  "access_action = \<lparr>pa_label = ''Access'', pa_readonly = True, pa_default_roles = everyone\<rparr>"

definition default_crud_actions :: "(string \<times> perm_action) list" where
  "default_crud_actions =
     [(''view'', \<lparr>pa_label = ''View'', pa_readonly = True, pa_default_roles = everyone\<rparr>),
      (''create'', \<lparr>pa_label = ''Create'', pa_readonly = False, pa_default_roles = managers\<rparr>),
      (''update'', \<lparr>pa_label = ''Update'', pa_readonly = False, pa_default_roles = managers\<rparr>),
      (''delete'', \<lparr>pa_label = ''Delete'', pa_readonly = False, pa_default_roles = managers\<rparr>)]"

text \<open>\<open>str.capitalize\<close> and \<open>str.replace('_', ' ')\<close> on the labels, which are ASCII.\<close>

definition upper_char :: "char \<Rightarrow> char" where
  "upper_char c = (if is_lower_ascii c then char_of (char_code c - 32) else c)"

fun capitalize :: "string \<Rightarrow> string" where
  "capitalize [] = []"
| "capitalize (c # cs) = upper_char c # lower cs"

definition app_title :: "string \<Rightarrow> string" where
  "app_title app_label =
     capitalize (map (\<lambda>c. if c = CHR ''_'' then CHR '' '' else c) app_label)"

definition crud_for :: "string \<Rightarrow> (string \<times> perm_action) list" where
  "crud_for label =
     map (\<lambda>(n, a). (n, a\<lparr>pa_label := pa_label a @ '' '' @ lower label\<rparr>)) default_crud_actions"

definition is_domain_app :: "string \<Rightarrow> string \<Rightarrow> bool" where
  "is_domain_app name label = (starts_with ''apps.'' name \<and> \<not> starts_with ''sys_'' label)"

definition generate_default_catalog :: "string \<Rightarrow> catalog" where
  "generate_default_catalog app_label =
     (let label = app_title app_label in
      \<lparr>ct_access = Some (access_action\<lparr>pa_label := ''Access '' @ lower label\<rparr>),
       ct_resources = [(app_label, \<lparr>pr_label = label, pr_actions = crud_for label\<rparr>)]\<rparr>)"

section \<open>Merging\<close>

fun merge_actions ::
  "(string \<times> perm_action) list \<Rightarrow> (string \<times> perm_action toggle) list \<Rightarrow> (string \<times> perm_action) list" where
  "merge_actions base [] = base"
| "merge_actions base ((n, Off) # ex) = merge_actions (dict_pop n base) ex"
| "merge_actions base ((n, On a) # ex) = merge_actions (dict_set n a base) ex"

definition merge_access :: "perm_action option \<Rightarrow> perm_action toggle option \<Rightarrow> perm_action option" where
  "merge_access dflt ex = (case ex of None \<Rightarrow> dflt | Some Off \<Rightarrow> None | Some (On a) \<Rightarrow> Some a)"

text \<open>A default resource: dropped, merged with its explicit entry, or kept.\<close>

definition merge_default_resource ::
  "(string \<times> explicit_resource toggle) list \<Rightarrow> string \<times> perm_resource \<Rightarrow> (string \<times> perm_resource) list" where
  "merge_default_resource ex nr =
     (case map_of ex (fst nr) of
        None \<Rightarrow> [nr]
      | Some Off \<Rightarrow> []
      | Some (On e) \<Rightarrow>
          [(fst nr, \<lparr>pr_label = (case er_label e of None \<Rightarrow> pr_label (snd nr) | Some l \<Rightarrow> l),
             pr_actions = merge_actions (pr_actions (snd nr)) (er_actions e)\<rparr>)])"

text \<open>An explicit resource that is not a default one.\<close>

definition merge_new_resource ::
  "(string \<times> perm_resource) list \<Rightarrow> string \<times> explicit_resource toggle \<Rightarrow> (string \<times> perm_resource) list" where
  "merge_new_resource dflts nr =
     (if fst nr \<in> set (keys dflts) then []
      else case snd nr of
        Off \<Rightarrow> []
      | On e \<Rightarrow>
          (let label = (case er_label e of None \<Rightarrow> capitalize (fst nr) | Some l \<Rightarrow> l);
               acts = merge_actions (crud_for label) (er_actions e) in
           if acts = [] then [] else [(fst nr, \<lparr>pr_label = label, pr_actions = acts\<rparr>)]))"

definition merge_catalog :: "catalog \<Rightarrow> explicit_catalog \<Rightarrow> catalog" where
  "merge_catalog defaults ex =
     (let access = merge_access (ct_access defaults) (ex_access ex) in
      case ex_resources ex of
        Some Off \<Rightarrow> \<lparr>ct_access = access, ct_resources = []\<rparr>
      | r \<Rightarrow>
         (let exr = (case r of Some (On d) \<Rightarrow> d | _ \<Rightarrow> []) in
          \<lparr>ct_access = access,
           ct_resources = concat (map (merge_default_resource exr) (ct_resources defaults))
             @ concat (map (merge_new_resource (ct_resources defaults)) exr)\<rparr>))"

text \<open>An installed app: its module name, its label and its \<open>permissions.json\<close>, if it has one.\<close>

record app_config =
  app_name :: string
  app_label :: string
  app_explicit :: "explicit_catalog option"

definition discover_domain_apps :: "app_config list \<Rightarrow> app_config list" where
  "discover_domain_apps apps = filter (\<lambda>c. is_domain_app (app_name c) (app_label c)) apps"

definition build_effective_catalogs :: "app_config list \<Rightarrow> (string \<times> catalog) list" where
  "build_effective_catalogs apps =
     map (\<lambda>c. let defaults = generate_default_catalog (app_label c) in
              (app_label c, case app_explicit c of
                 None \<Rightarrow> defaults | Some ex \<Rightarrow> merge_catalog defaults ex))
       (discover_domain_apps apps)"

section \<open>The registry and the validators\<close>

definition codename :: "string \<Rightarrow> string \<Rightarrow> string \<Rightarrow> string" where
  "codename app res act = app @ ''.'' @ res @ ''.'' @ act"

text \<open>The resource permissions and all permissions of a catalog, in the order of the loops.\<close>

definition resource_perms :: "string \<times> catalog \<Rightarrow> (string \<times> perm_action) list" where
  "resource_perms lc =
     concat (map (\<lambda>(r, res). map (\<lambda>(a, act). (codename (fst lc) r a, act)) (pr_actions res))
       (ct_resources (snd lc)))"

definition catalog_perms :: "string \<times> catalog \<Rightarrow> (string \<times> perm_action) list" where
  "catalog_perms lc =
     (case ct_access (snd lc) of None \<Rightarrow> [] | Some a \<Rightarrow> [(fst lc @ ''.access'', a)])
     @ resource_perms lc"

definition validate_business_rules :: "string \<times> catalog \<Rightarrow> string list" where
  "validate_business_rules lc =
     map (\<lambda>(c, a). ''['' @ fst lc @ ''] Viewer role cannot have write permission: '' @ c)
       (filter (\<lambda>(c, a). \<not> pa_readonly a \<and> map_of (pa_default_roles a) ''viewer'' = Some 1)
         (resource_perms lc))"

text \<open>The loop of \<open>validate_uniqueness\<close>: \<open>seen\<close> maps a codename to the app that defined it.\<close>

fun uniqueness_loop ::
  "(string \<times> string) list \<Rightarrow> (string \<times> string) list \<Rightarrow> string list" where
  "uniqueness_loop seen [] = []"
| "uniqueness_loop seen ((app, c) # rest) =
     (case map_of seen c of
        Some app' \<Rightarrow> (''Duplicate codename '' @ c @ '' in ['' @ app @ ''] (already defined in [''
            @ app' @ ''])'') # uniqueness_loop seen rest
      | None \<Rightarrow> uniqueness_loop ((c, app) # seen) rest)"

definition validate_uniqueness :: "(string \<times> catalog) list \<Rightarrow> string list" where
  "validate_uniqueness cats =
     uniqueness_loop [] (concat (map (\<lambda>lc. map (\<lambda>(c, a). (fst lc, c)) (catalog_perms lc)) cats))"

text \<open>
  \<open>schema_errors\<close> stands for the JSON parsing and the jsonschema validation of the explicit
  files.
\<close>

definition validate_all :: "string list \<Rightarrow> app_config list \<Rightarrow> string list" where
  "validate_all schema_errors apps =
     (if schema_errors \<noteq> [] then schema_errors
      else (let effective = build_effective_catalogs apps in
            concat (map validate_business_rules effective) @ validate_uniqueness effective))"

definition merge_registry :: "(string \<times> perm_action) list \<Rightarrow> (string \<times> perm_action) list" where
  "merge_registry perms = fold (\<lambda>(c, a) d. dict_set c a d) perms []"

definition get_merged_catalog :: "app_config list \<Rightarrow> (string \<times> perm_action) list" where
  "get_merged_catalog apps = merge_registry (concat (map catalog_perms (build_effective_catalogs apps)))"

definition get_default_role_permissions ::
  "app_config list \<Rightarrow> (string \<times> (string \<times> int) list) list" where
  "get_default_role_permissions apps =
     map (\<lambda>role. (role, map (\<lambda>(c, a). (c, 1))
         (filter (\<lambda>(c, a). map_of (pa_default_roles a) role = Some 1) (get_merged_catalog apps))))
       default_roles"

section \<open>Roles\<close>

text \<open>\<open>seed_default_roles\<close>: \<open>fresh\<close> gives the new rows' keys.\<close>

definition seed_default_roles ::
  "app_config list \<Rightarrow> (string \<Rightarrow> string) \<Rightarrow> tenant \<Rightarrow> bool \<Rightarrow> tenant_role list \<Rightarrow> tenant_role list" where
  "seed_default_roles apps fresh t created roles =
     (if \<not> created then roles
      else roles @ map (\<lambda>(role, perms). \<lparr>role_id = fresh role, role_tenant = tn_id t,
             role_name = capitalize role, role_kind = role,
             role_description = ''Default '' @ role @ '' role'', role_permissions = perms\<rparr>)
           (get_default_role_permissions apps))"

record role_attrs =
  ra_kind :: "string option"
  ra_permissions :: "(string \<times> int) list option"

definition role_do_validate ::
  "app_config list \<Rightarrow> tenant_role option \<Rightarrow> role_attrs \<Rightarrow> role_attrs res" where
  "role_do_validate apps inst attrs =
     (if inst \<noteq> None \<and> ra_kind attrs \<noteq> None
      then Inl (ValidationError ''kind'' ''This field cannot be changed after creation.'' ''invalid'')
      else
       (let kind = (if truthy (ra_kind attrs) then ra_kind attrs else map_option role_kind inst);
            permissions = (case ra_permissions attrs of None \<Rightarrow> [] | Some p \<Rightarrow> p);
            write_codenames = map fst (filter (\<lambda>(c, a). \<not> pa_readonly a) (get_merged_catalog apps)) in
        if kind = Some ''viewer'' \<and> permissions \<noteq> []
           \<and> filter (\<lambda>(c, v). v \<ge> 1 \<and> c \<in> set write_codenames) permissions \<noteq> []
        then Inl (ValidationError ''permissions''
               ''Viewer roles cannot be assigned write permissions.'' ''invalid'')
        else Inr attrs))"

definition save_role :: "tenant_role \<Rightarrow> role_attrs \<Rightarrow> tenant_role" where
  "save_role r attrs = r\<lparr>
     role_kind := (case ra_kind attrs of None \<Rightarrow> role_kind r | Some k \<Rightarrow> k),
     role_permissions := (case ra_permissions attrs of None \<Rightarrow> role_permissions r | Some p \<Rightarrow> p)\<rparr>"

section \<open>Lemmas\<close>

lemma map_of_Some_keys: "map_of d k = Some v \<Longrightarrow> k \<in> set (keys d)"
  by (force dest: map_of_SomeD)

lemma map_of_merge_actions:
  "distinct (keys ex) \<Longrightarrow> map_of (merge_actions base ex) a =
     (case map_of ex a of None \<Rightarrow> map_of base a | Some Off \<Rightarrow> None | Some (On d) \<Rightarrow> Some d)"
proof (induction base ex rule: merge_actions.induct)
  case (2 base n ex)
  moreover from "2.prems" have "map_of ex n = None" by (simp add: map_of_eq_None_iff)
  ultimately show ?case by (auto split: option.splits toggle.splits)
next
  case (3 base n d ex)
  moreover from "3.prems" have "map_of ex n = None" by (simp add: map_of_eq_None_iff)
  ultimately show ?case by (auto split: option.splits toggle.splits)
qed simp

lemma map_of_concat_singletons:
  assumes "\<And>x. set (keys (f x)) \<subseteq> {fst x}" and "distinct (keys xs)"
  shows "map_of (concat (map f xs)) k =
    (case map_of xs k of None \<Rightarrow> None | Some v \<Rightarrow> map_of (f (k, v)) k)"
  using assms(2)
proof (induction xs)
  case (Cons x xs)
  obtain n v where x: "x = (n, v)" by (cases x)
  have sub: "set (keys (f (n, v))) \<subseteq> {n}" using assms(1) [of "(n, v)"] by simp
  show ?case
  proof (cases "k = n")
    case True
    have "map_of xs k = None" using Cons.prems True x by (simp add: map_of_eq_None_iff)
    then have "map_of (concat (map f xs)) k = None" using Cons by simp
    then show ?thesis using True x by (simp add: map_add_def split: option.splits)
  next
    case False
    then have "map_of (f (n, v)) k = None" using sub by (auto simp: map_of_eq_None_iff)
    then show ?thesis using Cons False x by (simp add: map_add_def split: option.splits)
  qed
qed simp

lemma merge_default_resource_key: "set (keys (merge_default_resource ex x)) \<subseteq> {fst x}"
proof (cases "map_of ex (fst x)")
  case (Some t)
  then show ?thesis by (cases t) (simp_all add: merge_default_resource_def)
qed (simp add: merge_default_resource_def)

lemma merge_new_resource_key: "set (keys (merge_new_resource ds x)) \<subseteq> {fst x}"
  by (cases "snd x") (simp_all add: merge_new_resource_def Let_def)

lemma set_dict_set_subset: "set (dict_set k v d) \<subseteq> insert (k, v) (set d)"
  by (induction k v d rule: dict_set.induct) auto

lemma merge_registry_snoc: "merge_registry (ps @ [(c, a)]) = dict_set c a (merge_registry ps)"
  by (simp add: merge_registry_def)

lemma merge_registry_subset: "set (merge_registry ps) \<subseteq> set ps"
proof (induction ps rule: rev_induct)
  case (snoc p ps)
  then show ?case
    using set_dict_set_subset [of "fst p" "snd p" "merge_registry ps"]
    by (cases p) (auto simp: merge_registry_snoc)
qed (simp add: merge_registry_def)

lemma distinct_merge_registry: "distinct (keys (merge_registry ps))"
proof (induction ps rule: rev_induct)
  case (snoc p ps)
  then show ?case by (cases p) (simp add: merge_registry_snoc distinct_dict_set)
qed (simp add: merge_registry_def)

lemma merge_registry_distinct: "distinct (keys ps) \<Longrightarrow> merge_registry ps = ps"
proof (induction ps rule: rev_induct)
  case (snoc p ps)
  then show ?case by (cases p) (auto simp: merge_registry_snoc dict_set_fresh)
qed (simp add: merge_registry_def)

lemma uniqueness_loop_empty:
  "uniqueness_loop seen ps = [] \<longleftrightarrow> distinct (map snd ps) \<and> set (keys seen) \<inter> set (map snd ps) = {}"
proof (induction seen ps rule: uniqueness_loop.induct)
  case (2 seen app c rest)
  show ?case
  proof (cases "map_of seen c")
    case None
    then have "c \<notin> set (keys seen)" by (simp only: map_of_eq_None_iff) simp
    with 2 None show ?thesis by auto
  next
    case (Some app')
    then have "c \<in> set (keys seen)" by (rule map_of_Some_keys)
    with 2 Some show ?thesis by auto
  qed
qed simp

lemma merged_catalog_origin:
  assumes "map_of (get_merged_catalog apps) c = Some a"
  obtains lc where "lc \<in> set (build_effective_catalogs apps)" and "(c, a) \<in> set (catalog_perms lc)"
proof -
  from assms have "(c, a) \<in> set (get_merged_catalog apps)" by (rule map_of_SomeD)
  then have "(c, a) \<in> set (concat (map catalog_perms (build_effective_catalogs apps)))"
    using merge_registry_subset by (fastforce simp: get_merged_catalog_def)
  then show ?thesis using that by auto
qed

lemma distinct_merged_catalog: "distinct (keys (get_merged_catalog apps))"
  by (simp add: get_merged_catalog_def distinct_merge_registry)

definition default_permissions :: "app_config list \<Rightarrow> string \<Rightarrow> (string \<times> int) list" where
  "default_permissions apps role = map (\<lambda>(c, a). (c, 1))
     (filter (\<lambda>(c, a). map_of (pa_default_roles a) role = Some 1) (get_merged_catalog apps))"

lemma get_default_role_permissions_alt:
  "get_default_role_permissions apps = map (\<lambda>role. (role, default_permissions apps role)) default_roles"
  by (simp add: get_default_role_permissions_def default_permissions_def)

lemma default_permissions_iff:
  "map_of (default_permissions apps role) c = Some 1 \<longleftrightarrow>
     (\<exists>a. map_of (get_merged_catalog apps) c = Some a \<and> map_of (pa_default_roles a) role = Some 1)"
proof -
  have "map_of (map (\<lambda>(c, a). (c, 1)) (filter (\<lambda>(c, a). P a) d)) c = Some (1 :: int) \<longleftrightarrow>
      (\<exists>a. map_of d c = Some a \<and> P a)" if "distinct (keys d)" for P and d :: "(string \<times> perm_action) list"
    using that by (induction d) (auto simp: map_of_eq_None_iff [symmetric])
  from this [OF distinct_merged_catalog] show ?thesis by (simp add: default_permissions_def)
qed

section \<open>Properties\<close>

definition action_of :: "catalog \<Rightarrow> string \<Rightarrow> string \<Rightarrow> perm_action option" where
  "action_of ct r a = (case map_of (ct_resources ct) r of None \<Rightarrow> None | Some res \<Rightarrow> map_of (pr_actions res) a)"

text \<open>What an action of a merged catalog should be, read off the two sources.\<close>

definition merged_action ::
  "catalog \<Rightarrow> (string \<times> explicit_resource toggle) list \<Rightarrow> string \<Rightarrow> string \<Rightarrow> perm_action option" where
  "merged_action dflt exr r a =
     (case map_of exr r of
        None \<Rightarrow> action_of dflt r a
      | Some Off \<Rightarrow> None
      | Some (On e) \<Rightarrow>
          (case map_of (er_actions e) a of
             Some Off \<Rightarrow> None
           | Some (On d) \<Rightarrow> Some d
           | None \<Rightarrow> if r \<in> set (keys (ct_resources dflt)) then action_of dflt r a
                     else map_of (crud_for (case er_label e of None \<Rightarrow> capitalize r | Some l \<Rightarrow> l)) a))"

text \<open>The precedence of merging.  In a merged catalog each action of each resource is the
  explicit one when there is one, absent when the action or its resource is switched off,
  and otherwise the app's default (or the generated CRUD default of a resource only the
  explicit catalog names); switching all resources off leaves none; the access permission
  follows the same rule.\<close>

theorem merge_precedence:
  assumes "distinct (keys (ct_resources dflt))"
    and "\<forall>exr. ex_resources ex = Some (On exr) \<longrightarrow> distinct (keys exr)
           \<and> (\<forall>r e. map_of exr r = Some (On e) \<longrightarrow> distinct (keys (er_actions e)))"
  shows "action_of (merge_catalog dflt ex) r a =
      (case ex_resources ex of
         None \<Rightarrow> action_of dflt r a
       | Some Off \<Rightarrow> None
       | Some (On exr) \<Rightarrow> merged_action dflt exr r a)
    \<and> ct_access (merge_catalog dflt ex) =
      (case ex_access ex of None \<Rightarrow> ct_access dflt | Some Off \<Rightarrow> None | Some (On acc) \<Rightarrow> Some acc)"
proof -
  define exr where "exr = (case ex_resources ex of Some (On d) \<Rightarrow> d | _ \<Rightarrow> [])"
  let ?ds = "ct_resources dflt"
  have d: "distinct (keys exr)" "map_of exr r = Some (On e) \<Longrightarrow> distinct (keys (er_actions e))" for e
    using assms(2) by (cases "ex_resources ex"; cases "the (ex_resources ex)"; simp add: exr_def)+
  note defs = map_of_concat_singletons [where f = "merge_default_resource exr" and k = r, OF merge_default_resource_key assms(1)]
  note news = map_of_concat_singletons [where f = "merge_new_resource ?ds" and k = r, OF merge_new_resource_key d(1)]
  let ?m = "concat (map (merge_default_resource exr) ?ds) @ concat (map (merge_new_resource ?ds) exr)"
  have "(case map_of ?m r of None \<Rightarrow> None | Some res \<Rightarrow> map_of (pr_actions res) a) = merged_action dflt exr r a"
  proof (cases "map_of exr r")
    case None
    then show ?thesis using defs news
      by (auto simp: merged_action_def action_of_def merge_default_resource_def map_add_def
          split: option.splits)
  next
    case (Some t)
    show ?thesis
    proof (cases t)
      case Off
      with Some show ?thesis using defs news
        by (auto simp: merged_action_def merge_default_resource_def merge_new_resource_def map_add_def
            split: option.splits)
    next
      case (On e)
      note acts = map_of_merge_actions [OF d(2) [OF Some [unfolded On]]]
      have nil: "map_of (merge_actions b (er_actions e)) a = None" if "merge_actions b (er_actions e) = []" for b
        using that by simp
      show ?thesis
      proof (cases "map_of ?ds r")
        case (Some res)
        then have "r \<in> set (keys ?ds)" by (rule map_of_Some_keys)
        then have "map_of ?m r = Some \<lparr>pr_label = (case er_label e of None \<Rightarrow> pr_label res | Some l \<Rightarrow> l),
            pr_actions = merge_actions (pr_actions res) (er_actions e)\<rparr>"
          using defs news \<open>map_of exr r = Some t\<close> On Some
          by (cases "er_label e")
             (auto simp: merge_default_resource_def merge_new_resource_def map_add_def)
        then show ?thesis
          using Some \<open>map_of exr r = Some t\<close> On \<open>r \<in> set (keys ?ds)\<close>
          by (simp add: merged_action_def action_of_def acts split: option.splits toggle.splits)
      next
        case None
        then have r: "r \<notin> set (keys ?ds)" by (simp add: map_of_eq_None_iff)
        let ?b = "crud_for (case er_label e of None \<Rightarrow> capitalize r | Some l \<Rightarrow> l)"
        have "(case map_of ?m r of None \<Rightarrow> None | Some res \<Rightarrow> map_of (pr_actions res) a)
            = map_of (merge_actions ?b (er_actions e)) a"
          using defs news \<open>map_of exr r = Some t\<close> On None r nil [of ?b]
          by (cases "er_label e") (auto simp: merge_new_resource_def map_add_def Let_def)
        then show ?thesis
          using None \<open>map_of exr r = Some t\<close> On r
          by (simp add: merged_action_def acts split: option.splits toggle.splits)
      qed
    qed
  qed
  note merged = this
  have acc: "ct_access (merge_catalog dflt ex) = merge_access (ct_access dflt) (ex_access ex)"
    by (cases "ex_resources ex"; cases "the (ex_resources ex)"; simp add: merge_catalog_def Let_def)
  have res: "ct_resources (merge_catalog dflt ex) = (if ex_resources ex = Some Off then [] else ?m)"
    by (cases "ex_resources ex"; cases "the (ex_resources ex)"; simp add: merge_catalog_def Let_def exr_def)
  have none: "merged_action dflt [] r a = action_of dflt r a" by (simp add: merged_action_def)
  have "action_of (merge_catalog dflt ex) r a =
      (case ex_resources ex of
         None \<Rightarrow> action_of dflt r a
       | Some Off \<Rightarrow> None
       | Some (On exr) \<Rightarrow> merged_action dflt exr r a)"
  proof (cases "ex_resources ex")
    case None
    with merged none show ?thesis by (simp add: action_of_def res exr_def)
  next
    case (Some t)
    with merged show ?thesis by (cases t) (simp_all add: action_of_def res exr_def)
  qed
  with acc show ?thesis by (simp add: merge_access_def)
qed

lemma merge_precedence_witness:
  "action_of (merge_catalog (generate_default_catalog ''x'')
       \<lparr>ex_access = Some Off, ex_resources = Some (On [(''x'', On \<lparr>er_label = None,
          er_actions = [(''delete'', Off)]\<rparr>), (''y'', Off)])\<rparr>) ''x'' ''delete'' = None
   \<and> ct_access (merge_catalog (generate_default_catalog ''x'')
       \<lparr>ex_access = Some Off, ex_resources = Some (On [(''x'', On \<lparr>er_label = None,
          er_actions = [(''delete'', Off)]\<rparr>), (''y'', Off)])\<rparr>) = None"
proof -
  let ?ex = "\<lparr>ex_access = Some Off, ex_resources = Some (On [(''x'', On \<lparr>er_label = None,
          er_actions = [(''delete'', Off)]\<rparr>), (''y'', Off)])\<rparr>"
  have d: "distinct (keys (ct_resources (generate_default_catalog ''x'')))"
    by (simp add: generate_default_catalog_def Let_def)
  have e: "\<forall>exr. ex_resources ?ex = Some (On exr) \<longrightarrow> distinct (keys exr)
           \<and> (\<forall>r e. map_of exr r = Some (On e) \<longrightarrow> distinct (keys (er_actions e)))"
    by (auto split: if_splits)
  from merge_precedence [OF d e, of "''x''" "''delete''"] show ?thesis
    by (simp add: merged_action_def)
qed

definition sample_apps :: "app_config list" where
  "sample_apps = [\<lparr>app_name = ''apps.docs'', app_label = ''docs'', app_explicit = None\<rparr>,
     \<lparr>app_name = ''apps.sys_log'', app_label = ''sys_log'', app_explicit = None\<rparr>]"

lemma sample_registry:
  "map (\<lambda>(c, a). (c, pa_readonly a, map_of (pa_default_roles a) ''viewer'')) (get_merged_catalog sample_apps)
    = [(''docs.access'', True, Some 1), (''docs.docs.view'', True, Some 1),
       (''docs.docs.create'', False, Some 0), (''docs.docs.update'', False, Some 0),
       (''docs.docs.delete'', False, Some 0)]"
  "concat (map validate_business_rules (build_effective_catalogs sample_apps)) = []"
  "validate_uniqueness (build_effective_catalogs sample_apps) = []"
  "map_of (default_permissions sample_apps ''viewer'') ''docs.docs.view'' = Some 1"
  "map_option pa_readonly (map_of (get_merged_catalog sample_apps) ''docs.docs.create'') = Some False"
  by code_simp+

text \<open>The default viewer is read-only, as far as the validation reaches.  If every effective
  catalog passes the business rules, each codename a default viewer role gets is read-only
  or an app's access permission; the access permission escapes the rule, for the validation of
  a catalog does not depend on it.\<close>

theorem default_viewer_readonly:
  assumes "\<forall>lc \<in> set (build_effective_catalogs apps). validate_business_rules lc = []"
    and "map_of (default_permissions apps ''viewer'') c = Some 1"
  shows "(\<exists>a. map_of (get_merged_catalog apps) c = Some a
      \<and> (pa_readonly a \<or> (\<exists>lc \<in> set (build_effective_catalogs apps).
            c = fst lc @ ''.access'' \<and> ct_access (snd lc) = Some a)))
    \<and> (\<forall>l ct acc. validate_business_rules (l, ct\<lparr>ct_access := acc\<rparr>) = validate_business_rules (l, ct))"
proof
  from assms(2) obtain a where a: "map_of (get_merged_catalog apps) c = Some a"
    "map_of (pa_default_roles a) ''viewer'' = Some 1"
    by (auto simp: default_permissions_iff)
  obtain lc where lc: "lc \<in> set (build_effective_catalogs apps)" "(c, a) \<in> set (catalog_perms lc)"
    by (rule merged_catalog_origin [OF a(1)])
  from assms(1) lc(1) have "validate_business_rules lc = []" by blast
  then have "pa_readonly a" if "(c, a) \<in> set (resource_perms lc)"
    using that a(2) by (auto simp: validate_business_rules_def filter_empty_conv)
  with a(1) lc show "\<exists>a. map_of (get_merged_catalog apps) c = Some a
      \<and> (pa_readonly a \<or> (\<exists>lc \<in> set (build_effective_catalogs apps).
            c = fst lc @ ''.access'' \<and> ct_access (snd lc) = Some a))"
    by (auto simp: catalog_perms_def split: option.splits)
  show "\<forall>l ct acc. validate_business_rules (l, ct\<lparr>ct_access := acc\<rparr>) = validate_business_rules (l, ct)"
    by (simp add: validate_business_rules_def resource_perms_def)
qed

lemma default_viewer_readonly_witness:
  "\<exists>a. map_of (get_merged_catalog sample_apps) ''docs.docs.view'' = Some a"
proof -
  have "\<forall>lc \<in> set (build_effective_catalogs sample_apps). validate_business_rules lc = []"
    using sample_registry(2) by simp
  from default_viewer_readonly [OF this sample_registry(4)] show ?thesis by blast
qed

text \<open>Codenames are unique exactly when the validation says so, and then the registry has
  every permission of every app, in order, with nothing overwritten.\<close>

theorem uniqueness_sound:
  "(validate_uniqueness (build_effective_catalogs apps) = []
      \<longleftrightarrow> distinct (keys (concat (map catalog_perms (build_effective_catalogs apps)))))
   \<and> (validate_uniqueness (build_effective_catalogs apps) = [] \<longrightarrow>
        get_merged_catalog apps = concat (map catalog_perms (build_effective_catalogs apps)))"
proof -
  have "map snd (concat (map (\<lambda>lc. map (\<lambda>(c, a). (fst lc, c)) (catalog_perms lc)) cats))
      = keys (concat (map catalog_perms cats))" for cats
    by (induction cats) (auto simp: case_prod_beta)
  then have "validate_uniqueness cats = [] \<longleftrightarrow> distinct (keys (concat (map catalog_perms cats)))" for cats
    by (simp add: validate_uniqueness_def uniqueness_loop_empty)
  then show ?thesis by (simp add: get_merged_catalog_def merge_registry_distinct)
qed

lemma uniqueness_sound_witness:
  "get_merged_catalog sample_apps = concat (map catalog_perms (build_effective_catalogs sample_apps))"
  using uniqueness_sound [of sample_apps] sample_registry(3) by blast

text \<open>A new tenant gets exactly one role of each default kind, and a membership with such a
  role is granted a codename exactly when both the codename and its app's access permission
  are defaults of that role in the registry.\<close>

theorem seeded_roles_grant:
  assumes "inj_on fresh (set default_roles)" and "fresh ` set default_roles \<inter> role_id ` set roles = {}"
    and "role \<in> set default_roles"
  shows "map role_kind (drop (length roles) (seed_default_roles apps fresh t True roles)) = default_roles
    \<and> (\<forall>r \<in> set (drop (length roles) (seed_default_roles apps fresh t True roles)). role_tenant r = tn_id t)
    \<and> (role_grants (seed_default_roles apps fresh t True roles) (fresh role) c \<longleftrightarrow>
        (\<forall>k \<in> {access_codename c, c}. \<exists>a. map_of (get_merged_catalog apps) k = Some a
           \<and> map_of (pa_default_roles a) role = Some 1))"
proof -
  define mk where "mk role = \<lparr>role_id = fresh role, role_tenant = tn_id t,
      role_name = capitalize role, role_kind = role, role_description = ''Default '' @ role @ '' role'',
      role_permissions = default_permissions apps role\<rparr>" for role
  have seed: "seed_default_roles apps fresh t True roles = roles @ map mk default_roles"
    by (simp add: seed_default_roles_def get_default_role_permissions_alt mk_def)
  have none: "filter (\<lambda>r. role_id r = fresh role) roles = []"
    using assms(2,3) by (auto simp: filter_empty_conv)
  have ids: "fresh x = fresh role \<longleftrightarrow> x = role" if "x \<in> set default_roles" for x
    using assms(1,3) that by (auto dest: inj_onD)
  have "filter (\<lambda>r. role_id r = fresh role) (map mk default_roles)
      = map mk (filter (\<lambda>x. fresh x = fresh role) default_roles)"
    by (simp add: filter_map mk_def comp_def)
  also have "filter (\<lambda>x. fresh x = fresh role) default_roles = filter (\<lambda>x. x = role) default_roles"
    using ids by (auto intro: filter_cong)
  also have "filter (\<lambda>x. x = role) default_roles = [role]"
    using assms(3) by (auto simp: default_roles_def)
  finally have "qs_first (filter (\<lambda>r. role_id r = fresh role) (roles @ map mk default_roles)) = Some (mk role)"
    by (simp add: none)
  then have "role_grants (seed_default_roles apps fresh t True roles) (fresh role) c \<longleftrightarrow>
      map_of (default_permissions apps role) (access_codename c) = Some 1
      \<and> map_of (default_permissions apps role) c = Some 1"
    by (simp add: role_grants_def seed mk_def)
  moreover have "map role_kind (drop (length roles) (seed_default_roles apps fresh t True roles)) = default_roles"
    by (simp add: seed mk_def comp_def)
  moreover have "\<forall>r \<in> set (drop (length roles) (seed_default_roles apps fresh t True roles)). role_tenant r = tn_id t"
    by (auto simp: seed mk_def)
  ultimately show ?thesis by (simp only: default_permissions_iff) auto
qed

lemma seeded_roles_grant_witness:
  "map role_kind (seed_default_roles sample_apps id \<lparr>tn_id = ''t'', tn_name = ''T'', tn_code = ''t'',
       tn_is_active = True\<rparr> True []) = default_roles"
proof -
  have "inj_on id (set default_roles)" "id ` set default_roles \<inter> role_id ` set [] = {}"
    "''viewer'' \<in> set default_roles" by (simp_all add: default_roles_def)
  from seeded_roles_grant [OF this, of sample_apps "\<lparr>tn_id = ''t'', tn_name = ''T'', tn_code = ''t'',
       tn_is_active = True\<rparr>"] show ?thesis by simp
qed

text \<open>Role validation.  An accepted update never changes the kind of a role; and when the
  validated role is a viewer whose permissions were submitted, a membership with that role is
  granted no write codename of the registry.\<close>

theorem role_validation_sound:
  assumes "role_do_validate apps (Some r) attrs = Inr attrs'"
  shows "attrs' = attrs \<and> role_kind (save_role r attrs) = role_kind r
    \<and> (role_kind r = ''viewer'' \<and> ra_permissions attrs \<noteq> None \<and> distinct (keys (the (ra_permissions attrs))) \<longrightarrow>
        (\<forall>c a. map_of (get_merged_catalog apps) c = Some a \<and> \<not> pa_readonly a \<longrightarrow>
           \<not> role_grants [save_role r attrs] (role_id r) c))"
proof -
  from assms have k: "ra_kind attrs = None" and eq: "attrs' = attrs"
    by (auto simp: role_do_validate_def Let_def split: if_splits)
  have "\<not> role_grants [save_role r attrs] (role_id r) c"
    if v: "role_kind r = ''viewer''" and p: "ra_permissions attrs = Some ps"
      and c: "map_of (get_merged_catalog apps) c = Some a" "\<not> pa_readonly a" for c a ps
  proof
    assume "role_grants [save_role r attrs] (role_id r) c"
    then have "map_of ps c = Some 1"
      using p by (auto simp: role_grants_def save_role_def)
    then have "(c, 1) \<in> set ps" by (rule map_of_SomeD)
    moreover from c have "(c, a) \<in> set (get_merged_catalog apps)" by (intro map_of_SomeD)
    ultimately have "(c, 1) \<in> set (filter (\<lambda>(c, v). v \<ge> 1 \<and> c \<in> set (map fst
        (filter (\<lambda>(c, a). \<not> pa_readonly a) (get_merged_catalog apps)))) ps)"
      using c(2) by force
    then have "filter (\<lambda>(c, v). v \<ge> 1 \<and> c \<in> set (map fst
        (filter (\<lambda>(c, a). \<not> pa_readonly a) (get_merged_catalog apps)))) ps \<noteq> []"
      by (metis empty_iff list.set(1))
    with assms k v p show False
      by (auto simp: role_do_validate_def Let_def split: if_splits)
  qed
  with eq k show ?thesis by (auto simp: save_role_def)
qed

lemma role_validation_sound_witness:
  "\<exists>r. role_kind r = ''viewer'' \<and>
     \<not> role_grants [save_role r \<lparr>ra_kind = None, ra_permissions = Some [(''docs.docs.view'', 1)]\<rparr>]
         (role_id r) ''docs.docs.create''"
proof -
  let ?r = "\<lparr>role_id = ''r'', role_tenant = ''t'', role_name = ''V'', role_kind = ''viewer'',
      role_description = [], role_permissions = []\<rparr>"
  let ?a = "\<lparr>ra_kind = None, ra_permissions = Some [(''docs.docs.view'', 1)]\<rparr>"
  have "role_do_validate sample_apps (Some ?r) ?a = Inr ?a" by code_simp
  moreover obtain a where "map_of (get_merged_catalog sample_apps) ''docs.docs.create'' = Some a"
    "\<not> pa_readonly a" using sample_registry(5) by auto
  ultimately have "\<not> role_grants [save_role ?r ?a] (role_id ?r) ''docs.docs.create''"
    using role_validation_sound [of sample_apps ?r ?a ?a] by auto
  then show ?thesis by (intro exI [of _ ?r]) simp
qed

end
