(* ===== verification/EventBus.thy ===== *)
theory EventBus
  imports AccessControl
begin

text \<open>
  The event bus (\<open>apps/sys_eventbus\<close>): envelopes and their Redis fields, the handler registry,
  the consumer that polls the stream, and the task that runs a handler with retries and a
  dead-letter table.  The Redis stream is a service with the contract \<open>stream_api\<close>; handlers
  act on a world of their own.
\<close>

section \<open>Envelopes\<close>

record 'p envelope =
  en_type :: string
  en_payload :: 'p
  en_tenant_id :: "string option"
  en_actor_id :: "string option"
  en_id :: string
  en_published_at :: string

type_synonym fields = "(string \<times> string) list"

text \<open>\<open>dumps\<close> and \<open>loads\<close> are Python's \<open>json.dumps\<close> and \<open>json.loads\<close>.\<close>

definition to_redis_fields :: "('p \<Rightarrow> string) \<Rightarrow> 'p envelope \<Rightarrow> fields" where
  "to_redis_fields dumps e =
     [(''id'', en_id e), (''type'', en_type e), (''tenant_id'', or_empty (en_tenant_id e)),
      (''actor_id'', or_empty (en_actor_id e)), (''payload'', dumps (en_payload e)),
      (''published_at'', en_published_at e)]"

definition field_get :: "fields \<Rightarrow> string \<Rightarrow> string res" where
  "field_get fs k = (case map_of fs k of None \<Rightarrow> Inl KeyErr | Some v \<Rightarrow> Inr v)"

definition or_none :: "string \<Rightarrow> string option" where
  "or_none s = (if s = [] then None else Some s)"

definition from_redis_fields :: "(string \<Rightarrow> 'p res) \<Rightarrow> fields \<Rightarrow> 'p envelope res" where
  "from_redis_fields loads fs =
     bind_res (field_get fs ''id'') (\<lambda>i.
     bind_res (field_get fs ''type'') (\<lambda>t.
     bind_res (field_get fs ''tenant_id'') (\<lambda>tn.
     bind_res (field_get fs ''actor_id'') (\<lambda>a.
     bind_res (field_get fs ''payload'') (\<lambda>p.
     bind_res (loads p) (\<lambda>payload.
     bind_res (field_get fs ''published_at'') (\<lambda>pub.
     Inr \<lparr>en_type = t, en_payload = payload, en_tenant_id = or_none tn, en_actor_id = or_none a,
       en_id = i, en_published_at = pub\<rparr>)))))))"

section \<open>The stream service\<close>

record 's stream_ops =
  so_add :: "fields \<Rightarrow> 's \<Rightarrow> string \<times> 's"
  so_read :: "nat \<Rightarrow> 's \<Rightarrow> (string \<times> fields) list \<times> 's"
  so_ack :: "string \<Rightarrow> 's \<Rightarrow> 's"

text \<open>
  \<open>XADD\<close>, \<open>XREADGROUP\<close> with the id \<open>>\<close> and \<open>XACK\<close> of one consumer group: \<open>news\<close> are the entries
  not yet delivered, \<open>pending\<close> the delivered ones not yet acknowledged.  A read delivers the
  next entries once and moves them to the pending list.
\<close>

locale stream_api =
  fixes S :: "'s stream_ops"
    and news :: "'s \<Rightarrow> (string \<times> fields) list"
    and pending :: "'s \<Rightarrow> string list"
  assumes add_news: "so_add S f s = (i, s') \<Longrightarrow> news s' = news s @ [(i, f)] \<and> pending s' = pending s
        \<and> i \<notin> fst ` set (news s) \<and> i \<notin> set (pending s)"
    and read_news: "so_read S n s = (ms, s') \<Longrightarrow> ms = take n (news s) \<and> news s' = drop n (news s)
        \<and> pending s' = pending s @ map fst ms"
    and ack_pending: "pending (so_ack S i s) = filter (\<lambda>j. j \<noteq> i) (pending s)
        \<and> news (so_ack S i s) = news s"
begin

lemma ack_all:
  "pending (fold (so_ack S) is s) = filter (\<lambda>j. j \<notin> set is) (pending s)
    \<and> news (fold (so_ack S) is s) = news s"
  by (induction "is" arbitrary: s) (auto simp: ack_pending intro: filter_cong)

lemma read_then_ack:
  assumes "so_read S n s = (ms, s')" and "set (pending s) \<inter> fst ` set ms = {}"
  shows "pending (fold (so_ack S) (map fst ms) s') = pending s"
  using read_news [OF assms(1)] assms(2) ack_all [of "map fst ms" s']
  by (auto simp: filter_id_conv filter_empty_conv)

end

text \<open>A stream as a log: the next identifier, the undelivered entries and the pending ones.\<close>

record log_stream =
  ls_next :: nat
  ls_news :: "(string \<times> fields) list"
  ls_pending :: "string list"

definition log_id :: "log_stream \<Rightarrow> string" where
  "log_id s = replicate (Suc (ls_next s + (\<Sum>p \<leftarrow> ls_news s. length (fst p))
     + (\<Sum>p \<leftarrow> ls_pending s. length p))) (CHR ''i'')"

definition log_ops :: "log_stream stream_ops" where
  "log_ops = \<lparr>
     so_add = (\<lambda>f s. (log_id s, s\<lparr>ls_next := Suc (ls_next s), ls_news := ls_news s @ [(log_id s, f)]\<rparr>)),
     so_read = (\<lambda>n s. (take n (ls_news s), s\<lparr>ls_news := drop n (ls_news s),
                  ls_pending := ls_pending s @ map fst (take n (ls_news s))\<rparr>)),
     so_ack = (\<lambda>i s. s\<lparr>ls_pending := filter (\<lambda>j. j \<noteq> i) (ls_pending s)\<rparr>)\<rparr>"

lemma log_id_new: "log_id s \<notin> fst ` set (ls_news s) \<and> log_id s \<notin> set (ls_pending s)"
proof
  have "length (fst p) \<le> (\<Sum>p \<leftarrow> ls_news s. length (fst p))" if "p \<in> set (ls_news s)" for p
    using that by (auto intro: member_le_sum_list)
  then have "length (fst p) < length (log_id s)" if "p \<in> set (ls_news s)" for p
    using that by (fastforce simp: log_id_def)
  then show "log_id s \<notin> fst ` set (ls_news s)" by fastforce
  have "length p \<le> (\<Sum>p \<leftarrow> ls_pending s. length p)" if "p \<in> set (ls_pending s)" for p
    using that by (auto intro: member_le_sum_list)
  then have "length p < length (log_id s)" if "p \<in> set (ls_pending s)" for p
    using that by (fastforce simp: log_id_def)
  then show "log_id s \<notin> set (ls_pending s)" by fastforce
qed

interpretation log: stream_api log_ops ls_news ls_pending
  using log_id_new by unfold_locales (auto simp: log_ops_def)

section \<open>Publishing\<close>

definition publish ::
  "'s stream_ops \<Rightarrow> ('p \<Rightarrow> string) \<Rightarrow> string \<Rightarrow> string \<Rightarrow> string \<Rightarrow> 'p \<Rightarrow> string option \<Rightarrow> string option
    \<Rightarrow> 's \<Rightarrow> string \<times> 's" where
  "publish S dumps fresh now event_type payload tenant_id actor_id s =
     so_add S (to_redis_fields dumps \<lparr>en_type = event_type, en_payload = payload,
       en_tenant_id = tenant_id, en_actor_id = actor_id, en_id = fresh, en_published_at = now\<rparr>) s"

definition publish_event_from_request ::
  "'s stream_ops \<Rightarrow> ('p \<Rightarrow> string) \<Rightarrow> string \<Rightarrow> string \<Rightarrow> string \<Rightarrow> 'p \<Rightarrow> request \<Rightarrow> 's \<Rightarrow> string \<times> 's" where
  "publish_event_from_request S dumps fresh now event_type payload rq s =
     publish S dumps fresh now event_type payload (get_tenant_id rq)
       (Some (case rq_user rq of None \<Rightarrow> ''None'' | Some u \<Rightarrow> usr_id u)) s"

section \<open>The registry\<close>

record ('p, 'w) handler =
  hd_qualname :: string
  hd_run :: "'p envelope \<Rightarrow> 'w \<Rightarrow> unit res \<times> 'w"

type_synonym ('p, 'w) registry = "(string \<times> ('p, 'w) handler list) list"

definition get_handlers :: "('p, 'w) registry \<Rightarrow> string \<Rightarrow> ('p, 'w) handler list" where
  "get_handlers reg t = (case map_of reg t of None \<Rightarrow> [] | Some hs \<Rightarrow> hs)"

definition event_handler :: "string \<Rightarrow> ('p, 'w) handler \<Rightarrow> ('p, 'w) registry \<Rightarrow> ('p, 'w) registry" where
  "event_handler t h reg = dict_set t (get_handlers reg t @ [h]) reg"

definition resolve_handler :: "('p, 'w) registry \<Rightarrow> string \<Rightarrow> ('p, 'w) handler option" where
  "resolve_handler reg q = find (\<lambda>h. hd_qualname h = q) (concat (map snd reg))"

section \<open>The consumer and the dispatch task\<close>

record task =
  tk_qualname :: string
  tk_message_id :: string
  tk_fields :: fields
  tk_retries :: nat

record dead_letter =
  dl_message_id :: string
  dl_event_type :: string
  dl_payload :: fields
  dl_tenant_id :: "string option"
  dl_error :: exn
  dl_retries :: nat

record ('s, 'w) bus =
  bu_stream :: 's
  bu_queue :: "task list"
  bu_processed :: "(string \<times> string) list"
  bu_dlq :: "dead_letter list"
  bu_world :: 'w

definition processed :: "('s, 'w) bus \<Rightarrow> string \<Rightarrow> bool" where
  "processed st mid = (mid \<in> fst ` set (bu_processed st))"

definition ack :: "'s stream_ops \<Rightarrow> string \<Rightarrow> ('s, 'w) bus \<Rightarrow> ('s, 'w) bus" where
  "ack S mid st = st\<lparr>bu_stream := so_ack S mid (bu_stream st)\<rparr>"

text \<open>One message of the loop of \<open>poll_stream\<close>.\<close>

definition poll_message ::
  "'s stream_ops \<Rightarrow> (string \<Rightarrow> 'p res) \<Rightarrow> ('p, 'w) registry \<Rightarrow> string \<times> fields
    \<Rightarrow> ('s, 'w) bus \<Rightarrow> unit res \<times> ('s, 'w) bus" where
  "poll_message S loads reg m st =
     (if processed st (fst m) then (Inr (), ack S (fst m) st)
      else (case from_redis_fields loads (snd m) of
         Inl e \<Rightarrow> (Inl e, st)
       | Inr env \<Rightarrow>
           (let hs = get_handlers reg (en_type env) in
            if hs = [] then (Inr (), ack S (fst m) st)
            else (Inr (), ack S (fst m)
              (st\<lparr>bu_queue := bu_queue st @ map (\<lambda>h. \<lparr>tk_qualname = hd_qualname h,
                    tk_message_id = fst m, tk_fields = snd m, tk_retries = 0\<rparr>) hs\<rparr>)))))"

fun poll_messages ::
  "'s stream_ops \<Rightarrow> (string \<Rightarrow> 'p res) \<Rightarrow> ('p, 'w) registry \<Rightarrow> (string \<times> fields) list
    \<Rightarrow> ('s, 'w) bus \<Rightarrow> unit res \<times> ('s, 'w) bus" where
  "poll_messages S loads reg [] st = (Inr (), st)"
| "poll_messages S loads reg (m # ms) st =
     (case poll_message S loads reg m st of
        (Inl e, st') \<Rightarrow> (Inl e, st')
      | (Inr _, st') \<Rightarrow> poll_messages S loads reg ms st')"

definition poll_stream ::
  "'s stream_ops \<Rightarrow> (string \<Rightarrow> 'p res) \<Rightarrow> ('p, 'w) registry \<Rightarrow> nat
    \<Rightarrow> ('s, 'w) bus \<Rightarrow> unit res \<times> ('s, 'w) bus" where
  "poll_stream S loads reg batch_size st =
     (let (ms, s') = so_read S batch_size (bu_stream st)
      in poll_messages S loads reg ms (st\<lparr>bu_stream := s'\<rparr>))"

text \<open>
  How a run of \<open>dispatch_handler\<close> ends.  \<open>Retrying\<close> carries the countdown in seconds; \<open>Lost\<close> is
  an exception that leaves the task: Celery re-raises the error instead of retrying when the
  task's own \<open>max_retries\<close> (\<open>celery_limit\<close>) is exceeded, and envelope errors are not caught.
\<close>

datatype outcome = Skipped | Unresolved | Succeeded | Retrying nat | Dead | Lost exn

definition dispatch_handler ::
  "(string \<Rightarrow> 'p res) \<Rightarrow> ('p, 'w) registry \<Rightarrow> nat \<Rightarrow> nat \<Rightarrow> task
    \<Rightarrow> ('s, 'w) bus \<Rightarrow> outcome \<times> ('s, 'w) bus" where
  "dispatch_handler loads reg max_retries celery_limit tk st =
     (let mid = tk_message_id tk in
      if processed st mid then (Skipped, st)
      else (case resolve_handler reg (tk_qualname tk) of
         None \<Rightarrow> (Unresolved, st)
       | Some h \<Rightarrow>
          (case from_redis_fields loads (tk_fields tk) of
             Inl e \<Rightarrow> (Lost e, st)
           | Inr env \<Rightarrow>
              (case hd_run h env (bu_world st) of
                 (Inr _, w) \<Rightarrow>
                   (Succeeded, st\<lparr>bu_world := w, bu_processed := bu_processed st @ [(mid, en_type env)]\<rparr>)
               | (Inl e, w) \<Rightarrow>
                   (let attempt = tk_retries tk + 1; st1 = st\<lparr>bu_world := w\<rparr> in
                    if attempt < max_retries
                    then (if attempt > celery_limit then (Lost e, st1)
                          else (Retrying (2 ^ attempt), st1))
                    else (Dead, st1\<lparr>bu_dlq := bu_dlq st1 @ [\<lparr>dl_message_id = mid,
                            dl_event_type = en_type env, dl_payload = tk_fields tk,
                            dl_tenant_id = en_tenant_id env, dl_error = e,
                            dl_retries = attempt\<rparr>]\<rparr>))))))"

text \<open>A task run to its end: every retry runs the task again with the counter increased.\<close>

function run_task ::
  "(string \<Rightarrow> 'p res) \<Rightarrow> ('p, 'w) registry \<Rightarrow> nat \<Rightarrow> nat \<Rightarrow> task
    \<Rightarrow> ('s, 'w) bus \<Rightarrow> outcome list \<times> ('s, 'w) bus" where
  "run_task loads reg max_retries celery_limit tk st =
     (case dispatch_handler loads reg max_retries celery_limit tk st of
        (Retrying n, st') \<Rightarrow>
          (if tk_retries tk < max_retries then
             (let (os, st'') = run_task loads reg max_retries celery_limit
                    (tk\<lparr>tk_retries := Suc (tk_retries tk)\<rparr>) st'
              in (Retrying n # os, st''))
           else ([Retrying n], st'))
      | (out, st') \<Rightarrow> ([out], st'))"
  by pat_completeness auto
termination
  by (relation "measure (\<lambda>(_, _, m, _, tk, _). m - tk_retries tk)") auto

declare run_task.simps [simp del]

definition run_queue ::
  "(string \<Rightarrow> 'p res) \<Rightarrow> ('p, 'w) registry \<Rightarrow> nat \<Rightarrow> nat \<Rightarrow> ('s, 'w) bus \<Rightarrow> ('s, 'w) bus" where
  "run_queue loads reg max_retries celery_limit st =
     fold (\<lambda>tk st. snd (run_task loads reg max_retries celery_limit tk st))
       (bu_queue st) (st\<lparr>bu_queue := []\<rparr>)"

section \<open>Facts about polling and dispatching\<close>

text \<open>A message the loop gets past, the tasks it queues, and the handled prefix of a batch.\<close>

definition passable :: "(string \<Rightarrow> 'p res) \<Rightarrow> ('s, 'w) bus \<Rightarrow> string \<times> fields \<Rightarrow> bool" where
  "passable loads st m \<longleftrightarrow> processed st (fst m) \<or> \<not> isl (from_redis_fields loads (snd m))"

definition tasks_of ::
  "(string \<Rightarrow> 'p res) \<Rightarrow> ('p, 'w) registry \<Rightarrow> ('s, 'w) bus \<Rightarrow> string \<times> fields \<Rightarrow> task list" where
  "tasks_of loads reg st m =
     (if processed st (fst m) then []
      else (case from_redis_fields loads (snd m) of
         Inl _ \<Rightarrow> []
       | Inr env \<Rightarrow> map (\<lambda>h. \<lparr>tk_qualname = hd_qualname h, tk_message_id = fst m,
            tk_fields = snd m, tk_retries = 0\<rparr>) (get_handlers reg (en_type env))))"

lemma processed_ack [simp]:
  "processed (ack S mid st) = processed st"
  "processed (st\<lparr>bu_queue := q\<rparr>) = processed st"
  "processed (st\<lparr>bu_stream := s\<rparr>) = processed st"
  by (auto simp: processed_def ack_def fun_eq_iff)

lemma ack_queue: "ack S mid (st\<lparr>bu_queue := q\<rparr>) = (ack S mid st)\<lparr>bu_queue := q\<rparr>"
  by (simp add: ack_def)

lemma ack_sel [simp]:
  "bu_queue (ack S mid st) = bu_queue st" "bu_dlq (ack S mid st) = bu_dlq st"
  "bu_world (ack S mid st) = bu_world st" "bu_processed (ack S mid st) = bu_processed st"
  "bu_stream (ack S mid st) = so_ack S mid (bu_stream st)"
  by (simp_all add: ack_def)

lemma poll_message_passable:
  "passable loads st m \<Longrightarrow> poll_message S loads reg m st =
     (Inr (), ack S (fst m) (st\<lparr>bu_queue := bu_queue st @ tasks_of loads reg st m\<rparr>))"
  by (cases "from_redis_fields loads (snd m)")
    (auto simp: passable_def poll_message_def tasks_of_def Let_def ack_def)

lemma poll_message_blocked:
  "\<not> passable loads st m \<Longrightarrow> \<exists>e. poll_message S loads reg m st = (Inl e, st)"
  by (auto simp: passable_def poll_message_def split: sum.splits)

lemma passable_cong: "processed st' = processed st \<Longrightarrow> passable loads st' = passable loads st"
  by (simp add: passable_def fun_eq_iff)

lemma tasks_of_cong: "processed st' = processed st \<Longrightarrow> tasks_of loads reg st' = tasks_of loads reg st"
  by (simp add: tasks_of_def fun_eq_iff)

lemma poll_messages_prefix:
  "poll_messages S loads reg ms st = (r, st') \<Longrightarrow>
    (r = Inr () \<longleftrightarrow> takeWhile (passable loads st) ms = ms)
    \<and> st' = st\<lparr>bu_stream := fold (so_ack S) (map fst (takeWhile (passable loads st) ms)) (bu_stream st),
        bu_queue := bu_queue st @ concat (map (tasks_of loads reg st) (takeWhile (passable loads st) ms))\<rparr>"
proof (induction ms arbitrary: st)
  case (Cons m ms)
  show ?case
  proof (cases "passable loads st m")
    case True
    let ?st = "ack S (fst m) (st\<lparr>bu_queue := bu_queue st @ tasks_of loads reg st m\<rparr>)"
    have eq: "passable loads ?st = passable loads st" "tasks_of loads reg ?st = tasks_of loads reg st"
      by (rule passable_cong, simp) (rule tasks_of_cong, simp)
    from Cons.prems True have "poll_messages S loads reg ms ?st = (r, st')"
      by (simp add: poll_message_passable)
    from Cons.IH [OF this] show ?thesis using True unfolding eq by (simp add: ack_def)
  next
    case False
    with poll_message_blocked [OF this, of S reg] Cons.prems show ?thesis by auto
  qed
qed simp

lemma dispatch_processed:
  "processed st (tk_message_id tk) \<Longrightarrow>
     dispatch_handler loads reg mx lim tk st = (Skipped, st)"
  by (simp add: dispatch_handler_def Let_def)

lemma run_task_processed:
  "processed st (tk_message_id tk) \<Longrightarrow> run_task loads reg mx lim tk st = ([Skipped], st)"
  by (simp add: run_task.simps dispatch_processed)

lemma dispatch_success:
  assumes "\<not> processed st (tk_message_id tk)"
    and "resolve_handler reg (tk_qualname tk) = Some h"
    and "from_redis_fields loads (tk_fields tk) = Inr env"
    and "hd_run h env (bu_world st) = (Inr (), w)"
  shows "dispatch_handler loads reg mx lim tk st =
    (Succeeded, st\<lparr>bu_world := w, bu_processed := bu_processed st @ [(tk_message_id tk, en_type env)]\<rparr>)"
  using assms by (simp add: dispatch_handler_def Let_def)

lemma run_queue_skips:
  "(\<And>tk. tk \<in> set tks \<Longrightarrow> processed st (tk_message_id tk)) \<Longrightarrow>
     fold (\<lambda>tk st. snd (run_task loads reg mx lim tk st)) tks st = st"
  by (induction tks) (simp_all add: run_task_processed)

text \<open>A handler that always fails, from its attempt number \<open>tk_retries tk + 1\<close> on.\<close>

lemma dispatch_failure:
  assumes "\<not> processed st (tk_message_id tk)"
    and "resolve_handler reg (tk_qualname tk) = Some h"
    and "from_redis_fields loads (tk_fields tk) = Inr env"
    and "hd_run h env (bu_world st) = (Inl e, w)"
  shows "dispatch_handler loads reg mx lim tk st =
    (if Suc (tk_retries tk) < mx
     then (if Suc (tk_retries tk) > lim then Lost e else Retrying (2 ^ Suc (tk_retries tk)),
           st\<lparr>bu_world := w\<rparr>)
     else (Dead, st\<lparr>bu_world := w, bu_dlq := bu_dlq st @ [\<lparr>dl_message_id = tk_message_id tk,
        dl_event_type = en_type env, dl_payload = tk_fields tk, dl_tenant_id = en_tenant_id env,
        dl_error = e, dl_retries = Suc (tk_retries tk)\<rparr>]\<rparr>))"
  using assms by (simp add: dispatch_handler_def Let_def)

lemma processed_world [simp]: "processed (st\<lparr>bu_world := w\<rparr>) = processed st"
  by (rule ext) (simp add: processed_def)

lemma run_task_retries:
  assumes "\<not> processed st (tk_message_id tk)"
    and "resolve_handler reg (tk_qualname tk) = Some h"
    and "from_redis_fields loads (tk_fields tk) = Inr env"
    and "\<And>w. hd_run h env w = (Inl e, f w)"
    and "tk_retries tk + k < mx" and "tk_retries tk + k \<le> lim"
  shows "run_task loads reg mx lim tk st =
    (let (os, st') = run_task loads reg mx lim (tk\<lparr>tk_retries := tk_retries tk + k\<rparr>)
           (st\<lparr>bu_world := (f ^^ k) (bu_world st)\<rparr>)
     in (map (\<lambda>i. Retrying (2 ^ i)) [Suc (tk_retries tk)..<Suc (tk_retries tk + k)] @ os, st'))"
  using assms
proof (induction k arbitrary: tk st)
  case 0
  then show ?case by simp
next
  case (Suc k)
  let ?tk = "tk\<lparr>tk_retries := Suc (tk_retries tk)\<rparr>"
  let ?st = "st\<lparr>bu_world := f (bu_world st)\<rparr>"
  have ih: "run_task loads reg mx lim ?tk ?st =
    (let (os, st') = run_task loads reg mx lim (?tk\<lparr>tk_retries := tk_retries ?tk + k\<rparr>)
           (?st\<lparr>bu_world := (f ^^ k) (bu_world ?st)\<rparr>)
     in (map (\<lambda>i. Retrying (2 ^ i)) [Suc (tk_retries ?tk)..<Suc (tk_retries ?tk + k)] @ os, st'))"
    by (rule Suc.IH) (use Suc.prems in auto)
  from Suc.prems have "Suc (tk_retries tk) < mx" "\<not> Suc (tk_retries tk) > lim" by auto
  with Suc.prems(1-4) have step: "run_task loads reg mx lim tk st =
      (let (os, st') = run_task loads reg mx lim ?tk ?st in (Retrying (2 ^ Suc (tk_retries tk)) # os, st'))"
    by (subst run_task.simps) (simp add: dispatch_failure)
  have upt: "[Suc (tk_retries tk)..<Suc (tk_retries tk + Suc k)] =
      Suc (tk_retries tk) # [Suc (Suc (tk_retries tk))..<Suc (Suc (tk_retries tk) + k)]"
    by (subst upt_conv_Cons) simp_all
  show ?case unfolding step ih upt by (simp add: funpow_swap1 Let_def split: prod.split del: upt_Suc)
qed

section \<open>Properties of the event bus\<close>

text \<open>A published event reaches the consumer: over any stream that keeps its contract, a
  read long enough delivers, after the entries already waiting, the identifier \<open>publish\<close>
  returned, and its fields decode to the envelope published, with an empty tenant or actor
  read back as none.\<close>

theorem published_event_delivered:
  assumes "stream_api S news pending" and "loads (dumps payload) = Inr payload"
    and "publish S dumps fresh now typ payload tn act s = (i, s1)"
    and "so_read S n s1 = (ms, s2)" and "length (news s) < n"
  shows "\<exists>fs. ms = news s @ [(i, fs)]
    \<and> from_redis_fields loads fs = Inr \<lparr>en_type = typ, en_payload = payload,
        en_tenant_id = or_none (or_empty tn), en_actor_id = or_none (or_empty act),
        en_id = fresh, en_published_at = now\<rparr>
    \<and> pending s2 = pending s @ map fst ms"
proof -
  note api = stream_api.add_news [OF assms(1)] stream_api.read_news [OF assms(1)]
  let ?e = "\<lparr>en_type = typ, en_payload = payload, en_tenant_id = tn, en_actor_id = act,
      en_id = fresh, en_published_at = now\<rparr>"
  from assms(3) have "so_add S (to_redis_fields dumps ?e) s = (i, s1)" by (simp add: publish_def)
  from api(1) [OF this] api(2) [OF assms(4)] assms(5)
  have "ms = news s @ [(i, to_redis_fields dumps ?e)]" "pending s2 = pending s @ map fst ms"
    by simp_all
  moreover have "from_redis_fields loads (to_redis_fields dumps ?e) = Inr (?e\<lparr>en_tenant_id :=
      or_none (or_empty tn), en_actor_id := or_none (or_empty act)\<rparr>)"
    using assms(2) by (simp add: from_redis_fields_def to_redis_fields_def field_get_def)
  ultimately show ?thesis by auto
qed

definition sample_envelope_fields :: "string \<Rightarrow> fields" where
  "sample_envelope_fields t = to_redis_fields id \<lparr>en_type = t, en_payload = ''{}'',
     en_tenant_id = Some ''t1'', en_actor_id = None, en_id = ''e1'', en_published_at = ''now''\<rparr>"

lemma published_event_delivered_witness:
  "\<exists>fs. [(''i'', sample_envelope_fields ''doc'')] = [] @ [(''i'', fs)]
    \<and> from_redis_fields Inr fs = Inr \<lparr>en_type = ''doc'', en_payload = ''{}'',
        en_tenant_id = Some ''t1'', en_actor_id = None, en_id = ''e1'', en_published_at = ''now''\<rparr>"
proof -
  let ?s = "\<lparr>ls_next = 0, ls_news = [], ls_pending = []\<rparr>"
  let ?fs = "sample_envelope_fields ''doc''"
  have "publish log_ops id ''e1'' ''now'' ''doc'' ''{}'' (Some ''t1'') None ?s =
      (''i'', \<lparr>ls_next = 1, ls_news = [(''i'', ?fs)], ls_pending = []\<rparr>)"
    by (simp add: publish_def log_ops_def log_id_def sample_envelope_fields_def)
  moreover have "so_read log_ops 5 \<lparr>ls_next = 1, ls_news = [(''i'', ?fs)], ls_pending = []\<rparr> =
      ([(''i'', ?fs)], \<lparr>ls_next = 1, ls_news = [], ls_pending = [''i'']\<rparr>)"
    by (simp add: log_ops_def)
  moreover have "length (ls_news ?s) < 5" by simp
  ultimately show ?thesis
    using published_event_delivered [OF log.stream_api_axioms, where loads = Inr and dumps = id
        and payload = "''{}''"] by (fastforce simp: or_none_def)
qed

lemma filter_seen:
  "distinct (map f (xs @ ys)) \<Longrightarrow> filter (\<lambda>j. j \<notin> set (map f xs)) (map f (xs @ ys)) = map f ys"
  by (auto simp: filter_empty_conv intro!: filter_True)

text \<open>C40: One poll of the stream: the messages are taken in order up to the first that is neither
  processed nor decodable.  Those before it are acknowledged and each queues one task per
  handler registered for its event (none when already processed); the undecodable message
  makes the poll raise and, with every message after it, stays delivered and
  unacknowledged, so no later poll of new entries reads it again.\<close>

theorem poll_stream_delivery:
  assumes "stream_api S news pending"
    and "poll_stream S loads reg n st = (r, st')"
    and "ms = take n (news (bu_stream st))" and "good = takeWhile (passable loads st) ms"
    and "distinct (map fst ms)" and "set (pending (bu_stream st)) \<inter> fst ` set ms = {}"
  shows "(r = Inr () \<longleftrightarrow> good = ms)
    \<and> bu_queue st' = bu_queue st @ concat (map (tasks_of loads reg st) good)
    \<and> pending (bu_stream st') = pending (bu_stream st) @ map fst (drop (length good) ms)
    \<and> news (bu_stream st') = drop n (news (bu_stream st))
    \<and> bu_processed st' = bu_processed st \<and> bu_dlq st' = bu_dlq st \<and> bu_world st' = bu_world st"
proof -
  obtain ms' s1 where rd: "so_read S n (bu_stream st) = (ms', s1)" by (cases "so_read S n (bu_stream st)")
  note read = stream_api.read_news [OF assms(1) rd]
  with assms(3) have ms: "ms' = ms" by simp
  from assms(2) rd ms have "poll_messages S loads reg ms (st\<lparr>bu_stream := s1\<rparr>) = (r, st')"
    by (simp add: poll_stream_def)
  note run = poll_messages_prefix [OF this]
  have cong: "passable loads (st\<lparr>bu_stream := s1\<rparr>) = passable loads st"
    "tasks_of loads reg (st\<lparr>bu_stream := s1\<rparr>) = tasks_of loads reg st"
    by (rule passable_cong, simp) (rule tasks_of_cong, simp)
  note run = run [unfolded cong, folded assms(4)]
  note acks = stream_api.ack_all [OF assms(1), of "map fst good" s1]
  obtain rest where split: "ms = good @ rest"
    using takeWhile_dropWhile_id [of "passable loads st" ms] assms(4) by metis
  from assms(5) have "filter (\<lambda>j. j \<notin> set (map fst good)) (map fst ms) = map fst rest"
    unfolding split by (rule filter_seen)
  moreover have "filter (\<lambda>j. j \<notin> set (map fst good)) (pending (bu_stream st)) = pending (bu_stream st)"
    using assms(6) unfolding split by (intro filter_True) force
  moreover have "drop (length good) ms = rest" by (simp add: split)
  ultimately have "pending (bu_stream st') = pending (bu_stream st) @ map fst (drop (length good) ms)"
    using run acks read ms by simp
  with run acks read show ?thesis by simp
qed

definition sample_handler :: "string \<Rightarrow> (string, nat) handler" where
  "sample_handler q = \<lparr>hd_qualname = q, hd_run = (\<lambda>e w.
     if en_payload e = ''{}'' then (Inr (), Suc w) else (Inl ValueErr, Suc w))\<rparr>"

definition sample_bus :: "(string \<times> fields) list \<Rightarrow> task list \<Rightarrow> (log_stream, nat) bus" where
  "sample_bus ms q = \<lparr>bu_stream = \<lparr>ls_next = 0, ls_news = ms, ls_pending = []\<rparr>, bu_queue = q,
     bu_processed = [], bu_dlq = [], bu_world = 0\<rparr>"

lemma sample_fields_decode:
  "from_redis_fields Inr (sample_envelope_fields t) = Inr \<lparr>en_type = t, en_payload = ''{}'',
     en_tenant_id = Some ''t1'', en_actor_id = None, en_id = ''e1'', en_published_at = ''now''\<rparr>"
  by (simp add: sample_envelope_fields_def from_redis_fields_def to_redis_fields_def field_get_def
      or_none_def)

lemma poll_stream_delivery_witness:
  "\<exists>r st'. poll_stream log_ops Inr [(''doc'', [sample_handler ''h''])] 3
        (sample_bus [(''m1'', sample_envelope_fields ''doc''), (''m2'', []),
           (''m3'', sample_envelope_fields ''doc'')] []) = (r, st')
     \<and> r \<noteq> Inr () \<and> bu_queue st' = [\<lparr>tk_qualname = ''h'', tk_message_id = ''m1'',
         tk_fields = sample_envelope_fields ''doc'', tk_retries = 0\<rparr>]
     \<and> ls_pending (bu_stream st') = [''m2'', ''m3'']"
proof -
  let ?st = "sample_bus [(''m1'', sample_envelope_fields ''doc''), (''m2'', []),
           (''m3'', sample_envelope_fields ''doc'')] []"
  let ?ms = "take 3 (ls_news (bu_stream ?st))"
  have good: "takeWhile (passable Inr ?st) ?ms = [(''m1'', sample_envelope_fields ''doc'')]"
    by (simp add: sample_bus_def passable_def processed_def sample_fields_decode
        from_redis_fields_def [of _ "[]"] field_get_def)
  have fresh: "distinct (map fst ?ms)" "set (ls_pending (bu_stream ?st)) \<inter> fst ` set ?ms = {}"
    by (simp_all add: sample_bus_def)
  obtain r st' where run: "poll_stream log_ops Inr [(''doc'', [sample_handler ''h''])] 3 ?st = (r, st')"
    by (cases "poll_stream log_ops Inr [(''doc'', [sample_handler ''h''])] 3 ?st")
  from poll_stream_delivery [OF log.stream_api_axioms run refl good [symmetric] fresh] run
  show ?thesis
    by (simp add: tasks_of_def processed_def sample_bus_def sample_fields_decode get_handlers_def
        sample_handler_def)
qed

text \<open>A task whose handler always fails.  With \<open>MAX_RETRIES\<close> at most one above Celery's own
  limit the handler runs exactly \<open>max 1 MAX_RETRIES\<close> times, with countdowns 2, 4, 8, ... between
  the runs, and one dead letter with that count is written.  With a larger \<open>MAX_RETRIES\<close> Celery
  gives up first: the error leaves the task after one run more than its limit and no dead
  letter is written.  The side effects of every failed run stay.\<close>

theorem failing_handler_retries:
  assumes "\<not> processed st (tk_message_id tk)" and "tk_retries tk = 0"
    and "resolve_handler reg (tk_qualname tk) = Some h"
    and "from_redis_fields loads (tk_fields tk) = Inr env"
    and "\<forall>w. hd_run h env w = (Inl e, f w)"
  shows "(mx \<le> Suc lim \<longrightarrow> run_task loads reg mx lim tk st =
      (map (\<lambda>i. Retrying (2 ^ i)) [1..<max 1 mx] @ [Dead],
       st\<lparr>bu_world := (f ^^ max 1 mx) (bu_world st),
          bu_dlq := bu_dlq st @ [\<lparr>dl_message_id = tk_message_id tk, dl_event_type = en_type env,
            dl_payload = tk_fields tk, dl_tenant_id = en_tenant_id env, dl_error = e,
            dl_retries = max 1 mx\<rparr>]\<rparr>))
    \<and> (mx > Suc lim \<longrightarrow> run_task loads reg mx lim tk st =
      (map (\<lambda>i. Retrying (2 ^ i)) [1..<Suc lim] @ [Lost e],
       st\<lparr>bu_world := (f ^^ Suc lim) (bu_world st)\<rparr>))"
proof (intro conjI impI)
  assume le: "mx \<le> Suc lim"
  show "run_task loads reg mx lim tk st =
      (map (\<lambda>i. Retrying (2 ^ i)) [1..<max 1 mx] @ [Dead],
       st\<lparr>bu_world := (f ^^ max 1 mx) (bu_world st),
          bu_dlq := bu_dlq st @ [\<lparr>dl_message_id = tk_message_id tk, dl_event_type = en_type env,
            dl_payload = tk_fields tk, dl_tenant_id = en_tenant_id env, dl_error = e,
            dl_retries = max 1 mx\<rparr>]\<rparr>)"
  proof (cases mx)
    case 0
    with assms show ?thesis by (subst run_task.simps) (simp add: dispatch_failure)
  next
    case (Suc k)
    with assms le have "run_task loads reg mx lim tk st =
        (let (os, st') = run_task loads reg mx lim (tk\<lparr>tk_retries := k\<rparr>)
             (st\<lparr>bu_world := (f ^^ k) (bu_world st)\<rparr>)
         in (map (\<lambda>i. Retrying (2 ^ i)) [1..<Suc k] @ os, st'))"
      by (subst run_task_retries [where k = k and f = f and e = e and h = h and env = env]) simp_all
    moreover have "run_task loads reg mx lim (tk\<lparr>tk_retries := k\<rparr>) (st\<lparr>bu_world := (f ^^ k) (bu_world st)\<rparr>)
      = ([Dead], st\<lparr>bu_world := (f ^^ Suc k) (bu_world st),
          bu_dlq := bu_dlq st @ [\<lparr>dl_message_id = tk_message_id tk, dl_event_type = en_type env,
            dl_payload = tk_fields tk, dl_tenant_id = en_tenant_id env, dl_error = e,
            dl_retries = Suc k\<rparr>]\<rparr>)"
      using Suc assms by (subst run_task.simps) (simp add: dispatch_failure)
    ultimately show ?thesis using Suc by (simp del: upt_Suc)
  qed
next
  assume gt: "mx > Suc lim"
  with assms have "run_task loads reg mx lim tk st =
      (let (os, st') = run_task loads reg mx lim (tk\<lparr>tk_retries := lim\<rparr>)
           (st\<lparr>bu_world := (f ^^ lim) (bu_world st)\<rparr>)
       in (map (\<lambda>i. Retrying (2 ^ i)) [1..<Suc lim] @ os, st'))"
    by (subst run_task_retries [where k = lim and f = f and e = e and h = h and env = env]) simp_all
  moreover have "run_task loads reg mx lim (tk\<lparr>tk_retries := lim\<rparr>) (st\<lparr>bu_world := (f ^^ lim) (bu_world st)\<rparr>)
    = ([Lost e], st\<lparr>bu_world := (f ^^ Suc lim) (bu_world st)\<rparr>)"
    using gt assms by (subst run_task.simps) (simp add: dispatch_failure)
  ultimately show "run_task loads reg mx lim tk st =
      (map (\<lambda>i. Retrying (2 ^ i)) [1..<Suc lim] @ [Lost e],
       st\<lparr>bu_world := (f ^^ Suc lim) (bu_world st)\<rparr>)" by simp
qed

lemma failing_handler_retries_witness:
  "run_task (\<lambda>_. Inr ''bad'') [(''doc'', [sample_handler ''h''])] 3 3
      \<lparr>tk_qualname = ''h'', tk_message_id = ''m1'', tk_fields = sample_envelope_fields ''doc'',
        tk_retries = 0\<rparr> (sample_bus [] [])
     = ([Retrying 2, Retrying 4, Dead], (sample_bus [] [])\<lparr>bu_world := 3,
         bu_dlq := [\<lparr>dl_message_id = ''m1'', dl_event_type = ''doc'',
            dl_payload = sample_envelope_fields ''doc'', dl_tenant_id = Some ''t1'',
            dl_error = ValueErr, dl_retries = 3\<rparr>]\<rparr>)"
  using failing_handler_retries [of "sample_bus [] []" "\<lparr>tk_qualname = ''h'',
        tk_message_id = ''m1'', tk_fields = sample_envelope_fields ''doc'', tk_retries = 0\<rparr>"
      "[(''doc'', [sample_handler ''h''])]" "sample_handler ''h''" "\<lambda>_. Inr ''bad''"
      "\<lparr>en_type = ''doc'', en_payload = ''bad'', en_tenant_id = Some ''t1'', en_actor_id = None,
        en_id = ''e1'', en_published_at = ''now''\<rparr>" ValueErr Suc 3 3]
  by (simp add: sample_bus_def processed_def resolve_handler_def sample_handler_def
      sample_envelope_fields_def from_redis_fields_def to_redis_fields_def field_get_def or_none_def
      upt_rec numeral_nat)

text \<open>Processed messages are recorded per message, not per handler.  When the tasks of one
  message are run in order and the first handler succeeds, every other handler of the event
  is skipped without a retry or a dead letter, and a redelivery of the message queues
  nothing.\<close>

theorem first_handler_wins:
  assumes "bu_queue st = tasks_of loads reg st (mid, fs)" and "\<not> processed st mid"
    and "from_redis_fields loads fs = Inr env" and "get_handlers reg (en_type env) = h # hs"
    and "resolve_handler reg (hd_qualname h) = Some h"
    and "hd_run h env (bu_world st) = (Inr (), w)"
  shows "run_queue loads reg mx lim st =
      st\<lparr>bu_queue := [], bu_world := w, bu_processed := bu_processed st @ [(mid, en_type env)]\<rparr>
    \<and> poll_message S loads reg (mid, fs) (run_queue loads reg mx lim st) =
        (Inr (), ack S mid (run_queue loads reg mx lim st))"
proof -
  let ?st = "st\<lparr>bu_queue := [], bu_world := w, bu_processed := bu_processed st @ [(mid, en_type env)]\<rparr>"
  let ?tk = "\<lambda>h. \<lparr>tk_qualname = hd_qualname h, tk_message_id = mid, tk_fields = fs, tk_retries = 0\<rparr>"
  have queue: "bu_queue st = ?tk h # map ?tk hs"
    using assms(1-4) by (simp add: tasks_of_def)
  have "dispatch_handler loads reg mx lim (?tk h) (st\<lparr>bu_queue := []\<rparr>) = (Succeeded, ?st)"
    by (subst dispatch_success [where h = h and env = env and w = w]) (use assms in simp_all)
  then have first: "snd (run_task loads reg mx lim (?tk h) (st\<lparr>bu_queue := []\<rparr>)) = ?st"
    by (subst run_task.simps) simp
  have "processed ?st mid" by (simp add: processed_def)
  then have "fold (\<lambda>tk st. snd (run_task loads reg mx lim tk st)) (map ?tk hs) ?st = ?st"
    by (intro run_queue_skips) auto
  with queue first have run: "run_queue loads reg mx lim st = ?st" by (simp add: run_queue_def)
  with \<open>processed ?st mid\<close> show ?thesis by (simp add: poll_message_def)
qed

lemma first_handler_wins_witness:
  "let reg = event_handler ''doc'' (sample_handler ''b'') (event_handler ''doc'' (sample_handler ''a'') []);
       m = (''m1'', sample_envelope_fields ''doc'');
       st = sample_bus [] (tasks_of Inr reg (sample_bus [] []) m)
   in length (bu_queue st) = 2 \<and> bu_world (run_queue Inr reg 3 3 st) = 1"
proof -
  let ?reg = "[(''doc'', [sample_handler ''a'', sample_handler ''b''])]"
  let ?m = "(''m1'', sample_envelope_fields ''doc'')"
  have reg: "event_handler ''doc'' (sample_handler ''b'') (event_handler ''doc'' (sample_handler ''a'') [])
      = ?reg" by (simp add: event_handler_def get_handlers_def)
  let ?q = "tasks_of Inr ?reg (sample_bus [] []) ?m"
  let ?st = "sample_bus [] ?q"
  have q: "length ?q = 2"
    by (simp add: tasks_of_def sample_fields_decode get_handlers_def processed_def sample_bus_def)
  have "bu_queue ?st = tasks_of Inr ?reg ?st ?m" and "\<not> processed ?st ''m1''"
    by (simp_all add: tasks_of_def processed_def sample_bus_def)
  from first_handler_wins [OF this sample_fields_decode, of "sample_handler ''a''"
      "[sample_handler ''b'']" 1 3 3 log_ops] q
  show ?thesis unfolding reg
    by (simp add: get_handlers_def resolve_handler_def sample_handler_def sample_bus_def)
qed

end
