(* ===== verification/Metadata.thy ===== *)
theory Metadata
  imports PyString
begin

text \<open>
  Document metadata (\<open>apps/dms_metadata\<close>, \<open>apps/dms_documents/serializers.py\<close>): the validation
  of values against types and rules, of the rules themselves, of default values, and of a
  document's metadata against the definitions of its type.  Values are JSON; a float is its
  text.  The parsers of dates, UUIDs, e-mail addresses and URLs and the regular-expression
  engine are parameters.
\<close>

section \<open>JSON values\<close>

datatype json =
    JNull
  | JBool bool
  | JInt int
  | JFloat string
  | JStr string
  | JList "json list"
  | JObj "(string \<times> json) list"

type_synonym rules = "(string \<times> json) list"

definition type_name :: "json \<Rightarrow> string" where
  "type_name v = (case v of JNull \<Rightarrow> ''NoneType'' | JBool _ \<Rightarrow> ''bool'' | JInt _ \<Rightarrow> ''int''
     | JFloat _ \<Rightarrow> ''float'' | JStr _ \<Rightarrow> ''str'' | JList _ \<Rightarrow> ''list'' | JObj _ \<Rightarrow> ''dict'')"

text \<open>\<open>str(v)\<close> of a scalar; the code applies it to scalars only.\<close>

definition json_str :: "json \<Rightarrow> string" where
  "json_str v = (case v of JNull \<Rightarrow> ''None'' | JBool b \<Rightarrow> (if b then ''True'' else ''False'')
     | JInt n \<Rightarrow> show_int n | JFloat t \<Rightarrow> t | JStr s \<Rightarrow> s | JList _ \<Rightarrow> ''[]'' | JObj _ \<Rightarrow> ''{}'')"

definition is_str :: "json \<Rightarrow> bool" where
  "is_str v = (case v of JStr _ \<Rightarrow> True | _ \<Rightarrow> False)"

text \<open>\<open>isinstance(v, int)\<close>: Python's \<open>bool\<close> is a subclass of \<open>int\<close>.\<close>

definition is_int :: "json \<Rightarrow> bool" where
  "is_int v = (case v of JInt _ \<Rightarrow> True | JBool _ \<Rightarrow> True | _ \<Rightarrow> False)"

definition int_of :: "json \<Rightarrow> int option" where
  "int_of v = (case v of JInt n \<Rightarrow> Some n | JBool b \<Rightarrow> Some (if b then 1 else 0) | _ \<Rightarrow> None)"

section \<open>Decimals\<close>

datatype dec = DFin bool nat int | DInf bool | DNaN

definition digits_nat :: "string \<Rightarrow> nat" where
  "digits_nat s = fold (\<lambda>c n. n * 10 + digit_val c) s 0"

definition all_digits :: "string \<Rightarrow> bool" where
  "all_digits s = list_all is_digit s"

definition take_sign :: "string \<Rightarrow> bool \<times> string" where
  "take_sign s = (case s of
     [] \<Rightarrow> (False, [])
   | c # cs \<Rightarrow> if c = CHR ''-'' then (True, cs) else if c = CHR ''+'' then (False, cs) else (False, s))"

definition parse_exponent :: "string \<Rightarrow> int option" where
  "parse_exponent s =
     (let (neg, d) = take_sign s in
      if d \<noteq> [] \<and> all_digits d
      then Some (if neg then - int (digits_nat d) else int (digits_nat d)) else None)"

definition parse_mantissa :: "string \<Rightarrow> (nat \<times> int) option" where
  "parse_mantissa s =
     (case split_on (CHR ''.'') s of
        [i] \<Rightarrow> if i \<noteq> [] \<and> all_digits i then Some (digits_nat i, 0) else None
      | [i, f] \<Rightarrow> if i @ f \<noteq> [] \<and> all_digits (i @ f)
                  then Some (digits_nat (i @ f), - int (length f)) else None
      | _ \<Rightarrow> None)"

text \<open>
  \<open>Decimal(s)\<close>: white space around and underscores are ignored; \<open>None\<close> is
  \<open>InvalidOperation\<close>.  Quiet and signalling NaN behave alike in comparisons.
\<close>

definition parse_decimal :: "string \<Rightarrow> dec option" where
  "parse_decimal s =
     (let (neg, b) = take_sign (filter (\<lambda>c. c \<noteq> CHR ''_'') (lower (strip s))) in
      if b = ''inf'' \<or> b = ''infinity'' then Some (DInf neg)
      else if starts_with ''nan'' b \<and> all_digits (drop 3 b) then Some DNaN
      else if starts_with ''snan'' b \<and> all_digits (drop 4 b) then Some DNaN
      else (case split_on (CHR ''e'') b of
         [m] \<Rightarrow> map_option (\<lambda>(c, e). DFin neg c e) (parse_mantissa m)
       | [m, x] \<Rightarrow> (case (parse_mantissa m, parse_exponent x) of
                     (Some (c, e), Some e') \<Rightarrow> Some (DFin neg c (e + e'))
                   | _ \<Rightarrow> None)
       | _ \<Rightarrow> None))"

definition scaled :: "int \<Rightarrow> bool \<Rightarrow> nat \<Rightarrow> int \<Rightarrow> int" where
  "scaled m neg c e = (if neg then - 1 else 1) * (int c * 10 ^ nat (e - m))"

text \<open>\<open>a < b\<close> of decimals: comparing a NaN raises \<open>InvalidOperation\<close>.\<close>

definition dec_less :: "dec \<Rightarrow> dec \<Rightarrow> bool res" where
  "dec_less a b =
     (case (a, b) of
        (DNaN, _) \<Rightarrow> Inl DecimalInvalidOperation
      | (_, DNaN) \<Rightarrow> Inl DecimalInvalidOperation
      | (DInf n, DInf n') \<Rightarrow> Inr (n \<and> \<not> n')
      | (DInf n, DFin _ _ _) \<Rightarrow> Inr n
      | (DFin _ _ _, DInf n) \<Rightarrow> Inr (\<not> n)
      | (DFin s c e, DFin s' c' e') \<Rightarrow>
          Inr (scaled (min e e') s c e < scaled (min e e') s' c' e'))"

definition decimal_of :: "json \<Rightarrow> dec res" where
  "decimal_of v = (case parse_decimal (json_str v) of
     None \<Rightarrow> Inl DecimalInvalidOperation | Some d \<Rightarrow> Inr d)"

text \<open>\<open>as_tuple().exponent\<close> is a letter for a decimal that is not finite; comparing it raises.\<close>

definition dec_exponent :: "dec \<Rightarrow> int res" where
  "dec_exponent d = (case d of DFin _ _ e \<Rightarrow> Inr e | _ \<Rightarrow> Inl TypeErr)"

lemma digits_nat_snoc: "digits_nat (s @ [c]) = digits_nat s * 10 + digit_val c"
  by (simp add: digits_nat_def)

lemma digits_nat_show_nat: "digits_nat (show_nat n) = n"
proof (induction n rule: show_nat.induct)
  case (1 n)
  show ?case
  proof (cases "n < 10")
    case True
    then show ?thesis by (subst show_nat.simps) (simp add: digits_nat_def digit_char)
  next
    case False
    then have "show_nat n = show_nat (n div 10) @ [char_of (48 + n mod 10)]"
      by (subst show_nat.simps) simp
    moreover have "digit_val (char_of (48 + n mod 10)) = n mod 10" by (intro digit_char(2)) simp
    ultimately show ?thesis using 1 False by (simp add: digits_nat_snoc)
  qed
qed

lemma all_digits_show_nat: "all_digits (show_nat n)"
  using show_nat_digits by (auto simp: all_digits_def list_all_iff)

lemma lower_digit: "is_digit c \<Longrightarrow> lower_char c = c"
  by (auto simp: is_digit_def lower_char_def Let_def)

lemma lower_show_nat: "lower (show_nat n) = show_nat n"
  using show_nat_digits lower_digit by (auto simp: lower_def intro: map_idI)

lemma digits_no: "all_digits s \<Longrightarrow> \<not> is_digit c \<Longrightarrow> c \<notin> set s"
  by (auto simp: all_digits_def list_all_iff)

lemma parse_mantissa_show_nat: "parse_mantissa (show_nat n) = Some (n, 0)"
proof -
  have "CHR ''.'' \<notin> set (show_nat n)"
    by (rule digits_no [OF all_digits_show_nat]) (simp add: is_digit_def char_code_def)
  then have "split_on (CHR ''.'') (show_nat n) = [show_nat n]"
    unfolding split_on_def by (intro split_by_id) auto
  then show ?thesis by (simp add: parse_mantissa_def all_digits_show_nat digits_nat_show_nat)
qed

lemma parse_decimal_show_int: "parse_decimal (show_int i) = Some (DFin (i < 0) (nat \<bar>i\<bar>) 0)"
proof -
  define t where "t = show_nat (nat \<bar>i\<bar>)"
  have no: "c \<notin> set t" if "\<not> is_digit c" for c
    unfolding t_def using that by (rule digits_no [OF all_digits_show_nat])
  obtain c cs where t: "t = c # cs" by (cases t) (simp_all add: t_def)
  have dig: "is_digit c" using show_nat_digits [of c "nat \<bar>i\<bar>"] t by (simp add: t_def)
  have last: "is_digit (last t)" using show_nat_digits [of "last t" "nat \<bar>i\<bar>"] t by (simp add: t_def)
  have lowt: "lower t = t" by (simp add: t_def lower_show_nat)
  have neg: "i < 0 \<Longrightarrow> show_int i = CHR ''-'' # t" and pos: "\<not> i < 0 \<Longrightarrow> show_int i = t"
    by (simp_all add: show_int_def t_def)
  have s: "strip (show_int i) = show_int i"
    using dig last t is_digit_not_space
    by (cases "i < 0"; intro strip_id) (auto simp: neg pos, simp add: is_space_def char_code_def)
  have keep: "filter (\<lambda>c. c \<noteq> CHR ''_'') t = t"
    using no [of "CHR ''_''"] by (auto simp: is_digit_def char_code_def intro: filter_True)
  have low: "lower (CHR ''-'' # u) = CHR ''-'' # lower u" for u
    by (simp add: lower_def) code_simp
  have sign: "take_sign (filter (\<lambda>c. c \<noteq> CHR ''_'') (lower (strip (show_int i)))) = (i < 0, t)"
  proof (cases "i < 0")
    case True
    then show ?thesis unfolding s by (simp add: neg low lowt keep take_sign_def)
  next
    case False
    then have "take_sign (filter (\<lambda>c. c \<noteq> CHR ''_'') (lower (strip (show_int i)))) = take_sign t"
      unfolding s by (simp add: pos lowt keep)
    also have "take_sign t = (False, t)"
      using dig unfolding t by (auto simp: take_sign_def is_digit_def char_code_def)
    finally show ?thesis using False by simp
  qed
  have body: "t \<noteq> ''inf''" "t \<noteq> ''infinity''" "\<not> starts_with ''nan'' t" "\<not> starts_with ''snan'' t"
    using dig t by (auto simp: starts_with_def is_digit_def char_code_def)
  have "split_on (CHR ''e'') t = [t]"
    unfolding split_on_def using no [of "CHR ''e''"]
    by (intro split_by_id) (auto simp: is_digit_def char_code_def)
  then show ?thesis
    by (simp add: parse_decimal_def sign body parse_mantissa_show_nat [of "nat \<bar>i\<bar>", folded t_def])
qed

lemma decimal_of_int: "decimal_of (JInt i) = Inr (DFin (i < 0) (nat \<bar>i\<bar>) 0)"
  by (simp add: decimal_of_def json_str_def parse_decimal_show_int)

lemma dec_less_ints: "dec_less (DFin (i < 0) (nat \<bar>i\<bar>) 0) (DFin (j < 0) (nat \<bar>j\<bar>) 0) = Inr (i < j)"
  by (auto simp: dec_less_def scaled_def)

section \<open>Validators\<close>

datatype metadata_type =
    T_STRING | T_TEXT | T_INTEGER | T_DECIMAL | T_BOOLEAN | T_DATE | T_DATETIME | T_TIME
  | T_UUID | T_EMAIL | T_URL | T_JSON | T_ENUM

record val_env =
  ve_date :: "string \<Rightarrow> bool"
  ve_datetime :: "string \<Rightarrow> bool"
  ve_time :: "string \<Rightarrow> bool"
  ve_uuid :: "string \<Rightarrow> bool"
  ve_email :: "string \<Rightarrow> bool"
  ve_url :: "string \<Rightarrow> bool"
  ve_compiles :: "string \<Rightarrow> bool"
  ve_match :: "string \<Rightarrow> string \<Rightarrow> bool"

text \<open>A string of a given format.\<close>

definition str_format :: "(string \<Rightarrow> bool) \<Rightarrow> string \<Rightarrow> string \<Rightarrow> json \<Rightarrow> unit res" where
  "str_format ok type_msg format_msg v =
     (case v of JStr s \<Rightarrow> guard (ok s) (invalid format_msg) | _ \<Rightarrow> Inl (invalid type_msg))"

definition validate_type :: "val_env \<Rightarrow> metadata_type \<Rightarrow> json \<Rightarrow> string \<Rightarrow> unit res" where
  "validate_type env t v label =
     (if v = JNull then Inr ()
      else (case t of
        T_STRING \<Rightarrow> guard (is_str v) (invalid (label @ '' must be a string, got '' @ type_name v @ ''.''))
      | T_TEXT \<Rightarrow> guard (is_str v) (invalid (label @ '' must be a string, got '' @ type_name v @ ''.''))
      | T_ENUM \<Rightarrow> guard (is_str v) (invalid (label @ '' must be a string, got '' @ type_name v @ ''.''))
      | T_INTEGER \<Rightarrow>
          guard (case v of JInt _ \<Rightarrow> True | _ \<Rightarrow> False)
            (invalid (label @ '' must be an integer, got '' @ type_name v @ ''.''))
      | T_DECIMAL \<Rightarrow>
          (if (case v of JInt _ \<Rightarrow> False | JFloat _ \<Rightarrow> False | JStr _ \<Rightarrow> False | _ \<Rightarrow> True)
           then Inl (invalid (label @ '' must be a decimal number, got '' @ type_name v @ ''.''))
           else guard (parse_decimal (json_str v) \<noteq> None)
                  (invalid (label @ '' is not a valid decimal number.'')))
      | T_BOOLEAN \<Rightarrow>
          guard (case v of JBool _ \<Rightarrow> True | _ \<Rightarrow> False)
            (invalid (label @ '' must be a boolean, got '' @ type_name v @ ''.''))
      | T_DATE \<Rightarrow> str_format (ve_date env) (label @ '' must be a date string (YYYY-MM-DD).'')
          (label @ '' has an invalid date format. Expected YYYY-MM-DD.'') v
      | T_DATETIME \<Rightarrow> str_format (ve_datetime env) (label @ '' must be a datetime string (ISO 8601).'')
          (label @ '' has an invalid datetime format. Expected ISO 8601.'') v
      | T_TIME \<Rightarrow> str_format (ve_time env) (label @ '' must be a time string (HH:MM:SS).'')
          (label @ '' has an invalid time format. Expected HH:MM:SS.'') v
      | T_UUID \<Rightarrow> str_format (ve_uuid env) (label @ '' must be a UUID string.'')
          (label @ '' is not a valid UUID.'') v
      | T_EMAIL \<Rightarrow> str_format (ve_email env) (label @ '' must be an email string.'')
          (label @ '' is not a valid email address.'') v
      | T_URL \<Rightarrow> str_format (ve_url env) (label @ '' must be a URL string.'')
          (label @ '' is not a valid URL.'') v
      | T_JSON \<Rightarrow>
          guard (case v of JObj _ \<Rightarrow> True | _ \<Rightarrow> False)
            (invalid (label @ '' must be a JSON object, got '' @ type_name v @ ''.''))))"

text \<open>Python's \<open>len\<close> and the comparisons of a rule, with the exceptions they raise.\<close>

definition py_len :: "json \<Rightarrow> int res" where
  "py_len v = (case v of JStr s \<Rightarrow> Inr (int (length s)) | JList l \<Rightarrow> Inr (int (length l))
     | JObj o' \<Rightarrow> Inr (int (length o')) | _ \<Rightarrow> Inl TypeErr)"

definition int_rule :: "json \<Rightarrow> int res" where
  "int_rule r = (case int_of r of None \<Rightarrow> Inl TypeErr | Some n \<Rightarrow> Inr n)"

definition str_less :: "json \<Rightarrow> json \<Rightarrow> bool res" where
  "str_less a b = (case (a, b) of (JStr s, JStr t) \<Rightarrow> Inr (s < t) | _ \<Rightarrow> Inl TypeErr)"

text \<open>A rule that is absent is satisfied; a present one runs its check.\<close>

definition rule_check :: "rules \<Rightarrow> string \<Rightarrow> (json \<Rightarrow> unit res) \<Rightarrow> unit res" where
  "rule_check rules k check = (case map_of rules k of None \<Rightarrow> Inr () | Some r \<Rightarrow> check r)"

definition deny_if :: "bool res \<Rightarrow> string \<Rightarrow> unit res" where
  "deny_if b msg = bind_res b (\<lambda>bad. guard (\<not> bad) (invalid msg))"

fun before_sub :: "string \<Rightarrow> string \<Rightarrow> string" where
  "before_sub sep [] = []"
| "before_sub sep (c # cs) = (if starts_with sep (c # cs) then [] else c # before_sub sep cs)"

definition check_lengths :: "val_env \<Rightarrow> rules \<Rightarrow> json \<Rightarrow> string \<Rightarrow> unit res" where
  "check_lengths env rules v label =
     bind_res (rule_check rules ''min_length'' (\<lambda>r.
       deny_if (bind_res (py_len v) (\<lambda>n. bind_res (int_rule r) (\<lambda>m. Inr (n < m))))
         (label @ '' must be at least '' @ json_str r @ '' characters long.''))) (\<lambda>_.
     bind_res (rule_check rules ''max_length'' (\<lambda>r.
       deny_if (bind_res (py_len v) (\<lambda>n. bind_res (int_rule r) (\<lambda>m. Inr (n > m))))
         (label @ '' must be at most '' @ json_str r @ '' characters long.''))) (\<lambda>_.
     rule_check rules ''pattern'' (\<lambda>r.
       case (r, v) of
         (JStr p, JStr s) \<Rightarrow>
           if \<not> ve_compiles env p then Inl (OtherErr ''re.error'')
           else guard (ve_match env p s) (invalid (label @ '' does not match the required pattern.''))
       | _ \<Rightarrow> Inl TypeErr)))"

definition check_numeric :: "metadata_type \<Rightarrow> rules \<Rightarrow> json \<Rightarrow> string \<Rightarrow> unit res" where
  "check_numeric t rules v label =
     bind_res (decimal_of v) (\<lambda>d.
     bind_res (rule_check rules ''min'' (\<lambda>r.
       deny_if (bind_res (decimal_of r) (\<lambda>m. dec_less d m))
         (label @ '' must be at least '' @ json_str r @ ''.''))) (\<lambda>_.
     bind_res (rule_check rules ''max'' (\<lambda>r.
       deny_if (bind_res (decimal_of r) (\<lambda>m. dec_less m d))
         (label @ '' must be at most '' @ json_str r @ ''.''))) (\<lambda>_.
     if t = T_DECIMAL then
       rule_check rules ''precision'' (\<lambda>r.
         deny_if (bind_res (int_rule r) (\<lambda>p. bind_res (dec_exponent d) (\<lambda>e. Inr (e < - p))))
           (label @ '' must have at most '' @ json_str r @ '' decimal places.''))
     else Inr ())))"

definition check_dates :: "rules \<Rightarrow> json \<Rightarrow> string \<Rightarrow> unit res" where
  "check_dates rules v label =
     bind_res (rule_check rules ''min'' (\<lambda>r.
       deny_if (str_less v r) (label @ '' must be on or after '' @ json_str r @ ''.''))) (\<lambda>_.
     rule_check rules ''max'' (\<lambda>r.
       deny_if (str_less r v) (label @ '' must be on or before '' @ json_str r @ ''.'')))"

definition check_choices :: "rules \<Rightarrow> json \<Rightarrow> string \<Rightarrow> unit res" where
  "check_choices rules v label =
     (case (case map_of rules ''choices'' of None \<Rightarrow> JList [] | Some c \<Rightarrow> c) of
        JList cs \<Rightarrow>
          if v \<in> set cs then Inr ()
          else if list_all is_str cs
          then Inl (invalid (label @ '' must be one of: '' @ join '', '' (map json_str cs) @ ''.''))
          else Inl TypeErr
      | _ \<Rightarrow> Inl TypeErr)"

definition check_schemes :: "rules \<Rightarrow> json \<Rightarrow> string \<Rightarrow> unit res" where
  "check_schemes rules v label =
     (case map_of rules ''allowed_schemes'' of
        Some (JList (c # cs)) \<Rightarrow>
          (case v of
             JStr s \<Rightarrow>
               if JStr (if contains ''://'' s then before_sub ''://'' s else []) \<in> set (c # cs) then Inr ()
               else if list_all is_str (c # cs)
               then Inl (invalid (label @ '' must use one of the allowed schemes: ''
                       @ join '', '' (map json_str (c # cs)) @ ''.''))
               else Inl TypeErr
           | _ \<Rightarrow> Inl TypeErr)
      | None \<Rightarrow> Inr ()
      | Some (JList []) \<Rightarrow> Inr ()
      | Some _ \<Rightarrow> Inl TypeErr)"

definition validate_rules :: "val_env \<Rightarrow> metadata_type \<Rightarrow> rules \<Rightarrow> json \<Rightarrow> string \<Rightarrow> unit res" where
  "validate_rules env t rules v label =
     (if v = JNull then Inr ()
      else if t \<in> {T_STRING, T_TEXT} then check_lengths env rules v label
      else if t \<in> {T_INTEGER, T_DECIMAL} then check_numeric t rules v label
      else if t \<in> {T_DATE, T_DATETIME} then check_dates rules v label
      else if t = T_ENUM then check_choices rules v label
      else if t = T_URL then check_schemes rules v label
      else Inr ())"

definition validate_default_value ::
  "val_env \<Rightarrow> metadata_type \<Rightarrow> json \<Rightarrow> rules option \<Rightarrow> unit res" where
  "validate_default_value env t v rules =
     (if v = JNull then Inr ()
      else bind_res (validate_type env t v ''Default value'') (\<lambda>_.
        case rules of
          Some (r # rs) \<Rightarrow> validate_rules env t (r # rs) v ''Default value''
        | _ \<Rightarrow> Inr ()))"

text \<open>A present rule whose value must be of a shape.\<close>

definition rule_shape :: "rules \<Rightarrow> string \<Rightarrow> (json \<Rightarrow> bool) \<Rightarrow> string \<Rightarrow> unit res" where
  "rule_shape rules k ok msg = rule_check rules k (\<lambda>r. guard (ok r) (invalid msg))"

definition is_number :: "json \<Rightarrow> bool" where
  "is_number r = (is_int r \<or> (case r of JFloat _ \<Rightarrow> True | _ \<Rightarrow> False))"

definition validate_validation_rules :: "val_env \<Rightarrow> metadata_type \<Rightarrow> json \<Rightarrow> unit res" where
  "validate_validation_rules env t j =
     (case j of
        JObj rules \<Rightarrow>
         (if t \<in> {T_STRING, T_TEXT} then
            bind_res (rule_shape rules ''min_length'' is_int ''min_length must be an integer.'') (\<lambda>_.
            bind_res (rule_shape rules ''max_length'' is_int ''max_length must be an integer.'') (\<lambda>_.
            bind_res (rule_shape rules ''pattern'' is_str ''pattern must be a string.'') (\<lambda>_.
            rule_shape rules ''pattern'' (\<lambda>p. case p of JStr s \<Rightarrow> ve_compiles env s | _ \<Rightarrow> False)
              ''pattern is not a valid regular expression.'')))
          else if t \<in> {T_INTEGER, T_DECIMAL} then
            bind_res (rule_shape rules ''min'' is_number ''min must be a number.'') (\<lambda>_.
            bind_res (rule_shape rules ''max'' is_number ''max must be a number.'') (\<lambda>_.
            if t = T_DECIMAL then
              rule_shape rules ''precision'' (\<lambda>p. case int_of p of None \<Rightarrow> False | Some n \<Rightarrow> n \<ge> 0)
                ''precision must be a non-negative integer.''
            else Inr ()))
          else if t \<in> {T_DATE, T_DATETIME} then
            bind_res (rule_shape rules ''min'' is_str ''min must be a date string.'') (\<lambda>_.
            rule_shape rules ''max'' is_str ''max must be a date string.'')
          else if t = T_ENUM then
            (case map_of rules ''choices'' of
               None \<Rightarrow> Inl (invalid ''ENUM type requires a choices list in validation_rules.'')
             | Some (JList []) \<Rightarrow> Inl (invalid ''choices must be a non-empty list.'')
             | Some (JList (c # cs)) \<Rightarrow>
                 guard (list_all is_str (c # cs)) (invalid ''All choices must be strings.'')
             | Some _ \<Rightarrow> Inl (invalid ''choices must be a non-empty list.''))
          else if t = T_URL then
            (case map_of rules ''allowed_schemes'' of
               None \<Rightarrow> Inr ()
             | Some (JList cs) \<Rightarrow>
                 guard (list_all is_str cs) (invalid ''All allowed_schemes must be strings.'')
             | Some _ \<Rightarrow> Inl (invalid ''allowed_schemes must be a list.''))
          else Inr ())
      | _ \<Rightarrow> Inl (invalid ''Validation rules must be a dictionary.''))"

section \<open>Definitions and documents\<close>

record metadata_definition =
  md_code :: string
  md_name :: string
  md_document_type :: string
  md_data_type :: metadata_type
  md_required :: bool
  md_default_value :: json
  md_validation_rules :: "rules option"

text \<open>\<open>MetadataDefinition.clean\<close> and the serializer's \<open>do_validate\<close>.\<close>

definition definition_clean :: "val_env \<Rightarrow> metadata_definition \<Rightarrow> unit res" where
  "definition_clean env d =
     bind_res (case md_validation_rules d of
                 None \<Rightarrow> Inr () | Some r \<Rightarrow> validate_validation_rules env (md_data_type d) (JObj r)) (\<lambda>_.
     if md_default_value d = JNull then Inr ()
     else validate_default_value env (md_data_type d) (md_default_value d) (md_validation_rules d))"

record definition_attrs =
  da_data_type :: "metadata_type option"
  da_validation_rules :: "rules option"
  da_default_value :: "json option"

text \<open>A Django error inside is rewrapped under the field; other exceptions pass through.\<close>

definition rewrap :: "string \<Rightarrow> 'a res \<Rightarrow> 'a res" where
  "rewrap field r = (case r of Inl (ValidationError _ m c) \<Rightarrow> Inl (ValidationError field m c) | x \<Rightarrow> x)"

definition definition_do_validate :: "val_env \<Rightarrow> definition_attrs \<Rightarrow> definition_attrs res" where
  "definition_do_validate env attrs =
     (case da_data_type attrs of
        None \<Rightarrow> Inr attrs
      | Some t \<Rightarrow>
          bind_res (case da_validation_rules attrs of
              None \<Rightarrow> Inr ()
            | Some r \<Rightarrow> rewrap ''validation_rules'' (validate_validation_rules env t (JObj r))) (\<lambda>_.
          bind_res (case da_default_value attrs of
              None \<Rightarrow> Inr ()
            | Some v \<Rightarrow> rewrap ''default_value''
                (validate_default_value env t v (da_validation_rules attrs))) (\<lambda>_.
          Inr attrs)))"

definition validate_definition ::
  "val_env \<Rightarrow> metadata_definition \<Rightarrow> rules \<Rightarrow> unit res" where
  "validate_definition env d metadata =
     (case map_of metadata (md_code d) of
        None \<Rightarrow>
          if md_required d
          then Inl (invalid (''Required metadata field '' @ md_code d @ '' ('' @ md_name d @ '') is missing.''))
          else Inr ()
      | Some v \<Rightarrow>
          bind_res (validate_type env (md_data_type d) v (''Field '' @ md_code d)) (\<lambda>_.
          case md_validation_rules d of
            Some (r # rs) \<Rightarrow>
              validate_rules env (md_data_type d) (r # rs) v (''Field '' @ md_code d)
          | _ \<Rightarrow> Inr ()))"

definition validate_no_extra_fields :: "rules \<Rightarrow> metadata_definition list \<Rightarrow> unit res" where
  "validate_no_extra_fields metadata defs =
     (let extra = filter (\<lambda>k. k \<notin> set (map md_code defs)) (keys metadata) in
      guard (extra = []) (invalid (''Metadata contains undefined fields: ''
        @ join '', '' (sort (remdups extra)) @ ''.'')))"

fun validate_definitions ::
  "val_env \<Rightarrow> metadata_definition list \<Rightarrow> rules \<Rightarrow> unit res" where
  "validate_definitions env [] metadata = Inr ()"
| "validate_definitions env (d # ds) metadata =
     bind_res (validate_definition env d metadata) (\<lambda>_. validate_definitions env ds metadata)"

definition metadata_validate ::
  "val_env \<Rightarrow> metadata_definition list \<Rightarrow> string \<Rightarrow> rules \<Rightarrow> unit res" where
  "metadata_validate env all document_type metadata =
     (let defs = filter (\<lambda>d. md_document_type d = document_type) all in
      bind_res (validate_definitions env defs metadata) (\<lambda>_.
      validate_no_extra_fields metadata defs))"

record document_attrs =
  dc_document_type :: "string option"
  dc_metadata :: "rules option"

definition document_do_validate ::
  "val_env \<Rightarrow> metadata_definition list \<Rightarrow> document_attrs \<Rightarrow> document_attrs res" where
  "document_do_validate env all attrs =
     (case dc_document_type attrs of
        None \<Rightarrow> Inr attrs
      | Some t \<Rightarrow>
          (case dc_metadata attrs of
             None \<Rightarrow> Inl (ValidationError ''metadata''
                       ''metadata is required when document_type is provided.'' ''invalid'')
           | Some m \<Rightarrow> bind_res (rewrap ''metadata'' (metadata_validate env all t m)) (\<lambda>_. Inr attrs)))"

section \<open>Properties\<close>

definition rejects_or_accepts :: "unit res \<Rightarrow> bool" where
  "rejects_or_accepts r = (case r of Inr _ \<Rightarrow> True | Inl (ValidationError f m c) \<Rightarrow> True | _ \<Rightarrow> False)"

lemma rejects_or_accepts_simps [simp]:
  "rejects_or_accepts (Inr u)" "rejects_or_accepts (Inl (ValidationError f m c))"
  "rejects_or_accepts (guard b (ValidationError f m c))"
  by (simp_all add: rejects_or_accepts_def guard_def)

lemma rejects_or_accepts_bind:
  "rejects_or_accepts r \<Longrightarrow> (r = Inr () \<Longrightarrow> rejects_or_accepts (k ())) \<Longrightarrow> rejects_or_accepts (bind_res r k)"
  by (cases r) (auto simp: rejects_or_accepts_def)

lemma rejects_or_accepts_rule:
  "(\<And>r. map_of rules k = Some r \<Longrightarrow> rejects_or_accepts (check r)) \<Longrightarrow> rejects_or_accepts (rule_check rules k check)"
  by (auto simp: rule_check_def split: option.splits)

lemma rejects_or_accepts_deny: "b = Inr x \<Longrightarrow> rejects_or_accepts (deny_if b msg)"
  by (simp add: deny_if_def)

lemma rule_shape_Inr: "rule_shape rules k ok msg = Inr () \<Longrightarrow> map_of rules k = Some r \<Longrightarrow> ok r"
  by (auto simp: rule_shape_def rule_check_def res_simps)

text \<open>A decimal that is not NaN.\<close>

definition comparable :: "json \<Rightarrow> bool" where
  "comparable r = (case decimal_of r of Inr DNaN \<Rightarrow> False | Inr _ \<Rightarrow> True | Inl _ \<Rightarrow> False)"

lemma comparable_less: "comparable a \<Longrightarrow> comparable b \<Longrightarrow> \<exists>d e x. decimal_of a = Inr d \<and> decimal_of b = Inr e \<and> dec_less d e = Inr x"
  by (auto simp: comparable_def dec_less_def split: sum.splits dec.splits)

lemma check_lengths_total:
  assumes "validate_validation_rules env t (JObj rules) = Inr ()" and "t \<in> {T_STRING, T_TEXT}"
  shows "rejects_or_accepts (check_lengths env rules (JStr s) label)"
proof -
  from assms have ok: "rule_shape rules ''min_length'' is_int ''min_length must be an integer.'' = Inr ()"
    "rule_shape rules ''max_length'' is_int ''max_length must be an integer.'' = Inr ()"
    "rule_shape rules ''pattern'' is_str ''pattern must be a string.'' = Inr ()"
    "rule_shape rules ''pattern'' (\<lambda>p. case p of JStr s \<Rightarrow> ve_compiles env s | _ \<Rightarrow> False)
       ''pattern is not a valid regular expression.'' = Inr ()"
    by (auto simp: validate_validation_rules_def res_simps split: if_splits)
  have int: "\<exists>n. int_rule r = Inr n" if "is_int r" for r
    using that by (auto simp: is_int_def int_rule_def int_of_def split: json.splits)
  show ?thesis
    unfolding check_lengths_def
  proof (intro rejects_or_accepts_bind rejects_or_accepts_rule)
    fix r assume "map_of rules ''min_length'' = Some r"
    from int [OF rule_shape_Inr [OF ok(1) this]] show
      "rejects_or_accepts (deny_if (bind_res (py_len (JStr s)) (\<lambda>n. bind_res (int_rule r) (\<lambda>m. Inr (n < m))))
         (label @ '' must be at least '' @ json_str r @ '' characters long.''))"
      by (auto simp: py_len_def intro: rejects_or_accepts_deny)
  next
    fix r assume "map_of rules ''max_length'' = Some r"
    from int [OF rule_shape_Inr [OF ok(2) this]] show
      "rejects_or_accepts (deny_if (bind_res (py_len (JStr s)) (\<lambda>n. bind_res (int_rule r) (\<lambda>m. Inr (n > m))))
         (label @ '' must be at most '' @ json_str r @ '' characters long.''))"
      by (auto simp: py_len_def intro: rejects_or_accepts_deny)
  next
    fix r assume r: "map_of rules ''pattern'' = Some r"
    from rule_shape_Inr [OF ok(3) r] rule_shape_Inr [OF ok(4) r] show
      "rejects_or_accepts (case (r, JStr s) of
         (JStr p, JStr s) \<Rightarrow>
           if \<not> ve_compiles env p then Inl (OtherErr ''re.error'')
           else guard (ve_match env p s) (invalid (label @ '' does not match the required pattern.''))
       | _ \<Rightarrow> Inl TypeErr)"
      by (cases r) (simp_all add: is_str_def)
  qed
qed

lemma check_numeric_total:
  assumes "validate_validation_rules env t (JObj rules) = Inr ()" and "t \<in> {T_INTEGER, T_DECIMAL}"
    and "\<exists>s c e. decimal_of v = Inr (DFin s c e)"
    and "\<And>k r. k \<in> {''min'', ''max''} \<Longrightarrow> map_of rules k = Some r \<Longrightarrow> comparable r"
  shows "rejects_or_accepts (check_numeric t rules v label)"
proof -
  obtain d where d: "decimal_of v = Inr d" "\<exists>s c e. d = DFin s c e" using assms(3) by blast
  then have v: "comparable v" by (auto simp: comparable_def)
  have prec: "\<exists>p. int_rule r = Inr p" if "t = T_DECIMAL" "map_of rules ''precision'' = Some r" for r
  proof -
    have "rule_shape rules ''precision'' (\<lambda>p. case int_of p of None \<Rightarrow> False | Some n \<Rightarrow> n \<ge> 0)
                ''precision must be a non-negative integer.'' = Inr ()"
      using assms(1) that(1) by (auto simp: validate_validation_rules_def res_simps split: if_splits)
    from rule_shape_Inr [OF this that(2)] show ?thesis
      by (auto simp: int_rule_def split: option.splits)
  qed
  have "rejects_or_accepts (rule_check rules ''precision'' (\<lambda>r.
         deny_if (bind_res (int_rule r) (\<lambda>p. bind_res (dec_exponent d) (\<lambda>e. Inr (e < - p))))
           (label @ '' must have at most '' @ json_str r @ '' decimal places.'')))" if "t = T_DECIMAL"
  proof (rule rejects_or_accepts_rule)
    fix r assume "map_of rules ''precision'' = Some r"
    from prec [OF that this] obtain p where "int_rule r = Inr p" by blast
    then show "rejects_or_accepts (deny_if (bind_res (int_rule r)
        (\<lambda>p. bind_res (dec_exponent d) (\<lambda>e. Inr (e < - p))))
           (label @ '' must have at most '' @ json_str r @ '' decimal places.''))"
      using d(2) by (auto simp: dec_exponent_def deny_if_def)
  qed
  then show ?thesis
    unfolding check_numeric_def d(1) bind_res_simps
  proof (intro rejects_or_accepts_bind rejects_or_accepts_rule)
    fix r assume "map_of rules ''min'' = Some r"
    from comparable_less [OF v assms(4) [OF _ this]] d(1) show
      "rejects_or_accepts (deny_if (bind_res (decimal_of r) (\<lambda>m. dec_less d m))
         (label @ '' must be at least '' @ json_str r @ ''.''))"
      by (auto simp: deny_if_def)
  next
    fix r assume "map_of rules ''max'' = Some r"
    from comparable_less [OF assms(4) [OF _ this] v] d(1) show
      "rejects_or_accepts (deny_if (bind_res (decimal_of r) (\<lambda>m. dec_less m d))
         (label @ '' must be at most '' @ json_str r @ ''.''))"
      by (auto simp: deny_if_def)
  qed auto
qed

text \<open>Validated metadata is checked without surprises.  If the rules passed the validation of
  rules, the value passed the validation of its type, and no number involved is NaN, infinite
  or a Boolean in disguise, then checking the value against the rules ends in acceptance or
  a validation error, never in another exception.\<close>

theorem validated_rules_total:
  assumes "validate_validation_rules env t (JObj rules) = Inr ()"
    and "validate_type env t v label = Inr ()"
    and "t = T_DECIMAL \<and> v \<noteq> JNull \<longrightarrow> (\<exists>s c e. decimal_of v = Inr (DFin s c e))"
    and "\<forall>k \<in> {''min'', ''max''}. \<forall>r. t \<in> {T_INTEGER, T_DECIMAL} \<and> map_of rules k = Some r \<longrightarrow> comparable r"
  shows "validate_rules env t rules v label = Inr ()
    \<or> (\<exists>field msg code. validate_rules env t rules v label = Inl (ValidationError field msg code))"
proof -
  have "rejects_or_accepts (validate_rules env t rules v label)"
  proof (cases "v = JNull")
    case False
    have str: "\<exists>s. v = JStr s" if "t \<in> {T_STRING, T_TEXT, T_DATE, T_DATETIME, T_ENUM, T_URL}"
      using that assms(2) False
      by (cases v) (auto simp: validate_type_def str_format_def is_str_def guard_def split: if_splits)
    consider "t \<in> {T_STRING, T_TEXT}" | "t \<in> {T_INTEGER, T_DECIMAL}" | "t \<in> {T_DATE, T_DATETIME}"
      | "t = T_ENUM" | "t = T_URL" | "t \<in> {T_BOOLEAN, T_TIME, T_UUID, T_EMAIL, T_JSON}"
      by (cases t) auto
    then show ?thesis
    proof cases
      case 1
      with str obtain s where "v = JStr s" by auto
      with 1 check_lengths_total [OF assms(1) 1] show ?thesis by (auto simp: validate_rules_def)
    next
      case 2
      have "\<exists>s c e. decimal_of v = Inr (DFin s c e)"
      proof (cases "t = T_INTEGER")
        case True
        with assms(2) False obtain n where "v = JInt n"
          by (cases v) (auto simp: validate_type_def guard_def split: if_splits)
        then show ?thesis by (auto simp: decimal_of_int)
      qed (use 2 assms(3) False in auto)
      from check_numeric_total [OF assms(1) 2 this, of label] assms(4) 2 False show ?thesis
        by (auto simp: validate_rules_def)
    next
      case 3
      with str obtain s where v: "v = JStr s" by auto
      from assms(1) 3 have ok: "rule_shape rules ''min'' is_str ''min must be a date string.'' = Inr ()"
        "rule_shape rules ''max'' is_str ''max must be a date string.'' = Inr ()"
        by (auto simp: validate_validation_rules_def res_simps split: if_splits)
      have less: "\<exists>x. str_less (JStr s) r = Inr x" "\<exists>x. str_less r (JStr s) = Inr x" if "is_str r" for r
        using that by (auto simp: is_str_def str_less_def split: json.splits)
      show ?thesis
        using 3 False less [OF rule_shape_Inr [OF ok(1)]] less [OF rule_shape_Inr [OF ok(2)]]
        unfolding validate_rules_def check_dates_def v
        by (auto intro!: rejects_or_accepts_bind rejects_or_accepts_rule intro: rejects_or_accepts_deny)
    next
      case 4
      with assms(1) obtain c cs where "map_of rules ''choices'' = Some (JList (c # cs))" "list_all is_str (c # cs)"
        by (auto simp: validate_validation_rules_def res_simps split: option.splits json.splits list.splits)
      with 4 False show ?thesis by (simp add: validate_rules_def check_choices_def)
    next
      case 5
      with str obtain s where v: "v = JStr s" by auto
      show ?thesis
      proof (cases "map_of rules ''allowed_schemes''")
        case (Some r)
        with assms(1) 5 obtain cs where r: "r = JList cs" "list_all is_str cs"
          by (auto simp: validate_validation_rules_def res_simps split: json.splits)
        with 5 v Some show ?thesis
          by (cases cs) (simp_all add: validate_rules_def check_schemes_def)
      qed (use 5 v in \<open>simp add: validate_rules_def check_schemes_def\<close>)
    qed (auto simp: validate_rules_def)
  qed (simp add: validate_rules_def)
  then show ?thesis
    by (auto simp: rejects_or_accepts_def split: sum.splits exn.splits)
qed

definition sample_val_env :: val_env where
  "sample_val_env = \<lparr>ve_date = (\<lambda>s. length s = 10), ve_datetime = (\<lambda>s. length s = 19),
     ve_time = (\<lambda>s. length s = 8), ve_uuid = (\<lambda>s. length s = 36), ve_email = contains ''@'',
     ve_url = contains ''://'', ve_compiles = (\<lambda>_. True), ve_match = starts_with\<rparr>"

lemma validated_rules_total_witness:
  "\<exists>r. validate_rules sample_val_env T_INTEGER [(''min'', JInt 3)] (JInt 1) ''x'' = Inl r"
proof -
  have "validate_validation_rules sample_val_env T_INTEGER (JObj [(''min'', JInt 3)]) = Inr ()"
    "validate_type sample_val_env T_INTEGER (JInt 1) ''x'' = Inr ()"
    by (simp_all add: validate_validation_rules_def rule_shape_def rule_check_def is_number_def
        is_int_def validate_type_def)
  from validated_rules_total [OF this] have
    "validate_rules sample_val_env T_INTEGER [(''min'', JInt 3)] (JInt 1) ''x'' = Inr ()
    \<or> (\<exists>f m c. validate_rules sample_val_env T_INTEGER [(''min'', JInt 3)] (JInt 1) ''x''
         = Inl (ValidationError f m c))"
    by (simp add: comparable_def decimal_of_int)
  moreover have "validate_rules sample_val_env T_INTEGER [(''min'', JInt 3)] (JInt 1) ''x'' \<noteq> Inr ()"
    using dec_less_ints [of 1 3]
    by (simp add: validate_rules_def check_numeric_def rule_check_def decimal_of_int deny_if_def)
  ultimately show ?thesis by blast
qed

text \<open>The three cases the validation lets through and the check cannot handle: a decimal
  given as NaN against a bound raises \<open>InvalidOperation\<close>, an infinite decimal against a
  precision raises \<open>TypeError\<close>, and a Boolean bound, which \<open>isinstance(True, int)\<close> accepts as a
  number, raises \<open>InvalidOperation\<close> for every integer.\<close>

theorem special_decimals_escape:
  "(validate_type env T_DECIMAL (JStr ''NaN'') l = Inr ()
    \<and> validate_validation_rules env T_DECIMAL (JObj [(''min'', JInt m)]) = Inr ()
    \<and> validate_rules env T_DECIMAL [(''min'', JInt m)] (JStr ''NaN'') l = Inl DecimalInvalidOperation)
   \<and> (validate_type env T_DECIMAL (JStr ''Infinity'') l = Inr ()
    \<and> validate_validation_rules env T_DECIMAL (JObj [(''precision'', JInt 2)]) = Inr ()
    \<and> validate_rules env T_DECIMAL [(''precision'', JInt 2)] (JStr ''Infinity'') l = Inl TypeErr)
   \<and> (validate_type env T_INTEGER (JInt n) l = Inr ()
    \<and> validate_validation_rules env T_INTEGER (JObj [(''min'', JBool True)]) = Inr ()
    \<and> validate_rules env T_INTEGER [(''min'', JBool True)] (JInt n) l = Inl DecimalInvalidOperation)"
proof -
  have d: "parse_decimal ''NaN'' = Some DNaN" "parse_decimal ''Infinity'' = Some (DInf False)"
    "parse_decimal ''True'' = None" by code_simp+
  have s: "decimal_of (JStr ''NaN'') = Inr DNaN" "decimal_of (JStr ''Infinity'') = Inr (DInf False)"
    "decimal_of (JBool True) = Inl DecimalInvalidOperation"
    by (simp_all add: decimal_of_def json_str_def d)
  have t: "validate_type env T_DECIMAL (JStr ''NaN'') l = Inr ()"
    "validate_type env T_DECIMAL (JStr ''Infinity'') l = Inr ()"
    "validate_type env T_INTEGER (JInt n) l = Inr ()"
    by (simp_all add: validate_type_def json_str_def d)
  have v: "validate_validation_rules env T_DECIMAL (JObj [(''min'', JInt m)]) = Inr ()"
    "validate_validation_rules env T_DECIMAL (JObj [(''precision'', JInt 2)]) = Inr ()"
    "validate_validation_rules env T_INTEGER (JObj [(''min'', JBool True)]) = Inr ()"
    by (simp_all add: validate_validation_rules_def rule_shape_def rule_check_def is_number_def
        is_int_def int_of_def)
  have r: "validate_rules env T_DECIMAL [(''min'', JInt m)] (JStr ''NaN'') l = Inl DecimalInvalidOperation"
    "validate_rules env T_DECIMAL [(''precision'', JInt 2)] (JStr ''Infinity'') l = Inl TypeErr"
    "validate_rules env T_INTEGER [(''min'', JBool True)] (JInt n) l = Inl DecimalInvalidOperation"
    by (simp_all add: validate_rules_def check_numeric_def rule_check_def s decimal_of_int
        dec_less_def deny_if_def int_rule_def int_of_def dec_exponent_def)
  from t v r show ?thesis by blast
qed

lemma guard_accept: "(guard b e = Inr ()) = b"
  by (simp add: guard_def)

lemma bind_accept:
  "(bind_res r k = Inr ()) = (r = Inr () \<and> k () = Inr ())" for r :: "unit res"
  by (cases r) simp_all

lemma deny_if_accept: "(deny_if b m = Inr ()) = (b = Inr False)"
  by (cases b) (simp_all add: deny_if_def guard_def)

text \<open>Integer bounds mean what they say: an integer satisfies rules with integer bounds
  exactly when it lies between them, although the code compares decimals parsed back from
  text.\<close>

theorem integer_bounds:
  assumes "\<forall>k \<in> {''min'', ''max''}. \<forall>r. map_of rules k = Some r \<longrightarrow> (\<exists>b. r = JInt b)"
  shows "validate_rules env T_INTEGER rules (JInt n) label = Inr () \<longleftrightarrow>
    (\<forall>b. map_of rules ''min'' = Some (JInt b) \<longrightarrow> b \<le> n)
    \<and> (\<forall>b. map_of rules ''max'' = Some (JInt b) \<longrightarrow> n \<le> b)"
proof -
  have lo: "rule_check rules ''min'' (\<lambda>r. deny_if (bind_res (decimal_of r)
        (\<lambda>m. dec_less (DFin (n < 0) (nat \<bar>n\<bar>) 0) m)) (f r)) = Inr ()
      \<longleftrightarrow> (\<forall>b. map_of rules ''min'' = Some (JInt b) \<longrightarrow> b \<le> n)" for f
    using assms by (cases "map_of rules ''min''")
      (auto simp: rule_check_def decimal_of_int dec_less_ints deny_if_accept)
  have hi: "rule_check rules ''max'' (\<lambda>r. deny_if (bind_res (decimal_of r)
        (\<lambda>m. dec_less m (DFin (n < 0) (nat \<bar>n\<bar>) 0))) (f r)) = Inr ()
      \<longleftrightarrow> (\<forall>b. map_of rules ''max'' = Some (JInt b) \<longrightarrow> n \<le> b)" for f
    using assms by (cases "map_of rules ''max''")
      (auto simp: rule_check_def decimal_of_int dec_less_ints deny_if_accept)
  have eq: "validate_rules env T_INTEGER rules (JInt n) label = check_numeric T_INTEGER rules (JInt n) label"
    by (simp add: validate_rules_def)
  show ?thesis
    unfolding eq check_numeric_def decimal_of_int bind_res_simps bind_accept
    by (simp add: lo hi)
qed

lemma integer_bounds_witness:
  "validate_rules sample_val_env T_INTEGER [(''min'', JInt 1), (''max'', JInt 10)] (JInt 10) ''x'' = Inr ()
   \<and> validate_rules sample_val_env T_INTEGER [(''min'', JInt 1), (''max'', JInt 10)] (JInt 11) ''x'' \<noteq> Inr ()"
  using integer_bounds [of "[(''min'', JInt 1), (''max'', JInt 10)]" sample_val_env 10 "''x''"]
    integer_bounds [of "[(''min'', JInt 1), (''max'', JInt 10)]" sample_val_env 11 "''x''"] by simp

text \<open>Acceptance does not depend on the label.\<close>

lemma str_format_accept: "(str_format ok m m' v = Inr ()) = (\<exists>s. v = JStr s \<and> ok s)"
  by (cases v) (simp_all add: str_format_def guard_def)

lemma validate_type_label:
  "(validate_type env t v l = Inr ()) = (validate_type env t v l' = Inr ())"
  by (cases t) (simp_all add: validate_type_def guard_accept str_format_accept)

lemma rule_check_accept:
  "(\<And>r. (c r = Inr ()) = (c' r = Inr ())) \<Longrightarrow> (rule_check rules k c = Inr ()) = (rule_check rules k c' = Inr ())"
  by (simp add: rule_check_def split: option.splits)

lemma check_lengths_label:
  "(check_lengths env rules v l = Inr ()) = (check_lengths env rules v l' = Inr ())"
proof -
  have "(rule_check rules ''min_length'' (\<lambda>r. deny_if (b r) (l @ m r)) = Inr ())
      = (rule_check rules ''min_length'' (\<lambda>r. deny_if (b r) (l' @ m r)) = Inr ())"
    "(rule_check rules ''max_length'' (\<lambda>r. deny_if (b r) (l @ m r)) = Inr ())
      = (rule_check rules ''max_length'' (\<lambda>r. deny_if (b r) (l' @ m r)) = Inr ())" for b m
    by (simp_all add: rule_check_def deny_if_accept split: option.splits)
  moreover have "(rule_check rules ''pattern'' (\<lambda>r. case (r, v) of
         (JStr p, JStr s) \<Rightarrow>
           if \<not> ve_compiles env p then Inl (OtherErr ''re.error'')
           else guard (ve_match env p s) (invalid (l @ '' does not match the required pattern.''))
       | _ \<Rightarrow> Inl TypeErr) = Inr ())
     = (rule_check rules ''pattern'' (\<lambda>r. case (r, v) of
         (JStr p, JStr s) \<Rightarrow>
           if \<not> ve_compiles env p then Inl (OtherErr ''re.error'')
           else guard (ve_match env p s) (invalid (l' @ '' does not match the required pattern.''))
       | _ \<Rightarrow> Inl TypeErr) = Inr ())"
    by (rule rule_check_accept) (simp add: guard_accept split: json.splits)
  ultimately show ?thesis by (simp only: check_lengths_def bind_accept)
qed

lemma check_numeric_label:
  "(check_numeric t rules v l = Inr ()) = (check_numeric t rules v l' = Inr ())"
  by (cases "decimal_of v")
     (simp_all add: check_numeric_def bind_accept rule_check_def deny_if_accept split: option.splits)

lemma check_dates_label: "(check_dates rules v l = Inr ()) = (check_dates rules v l' = Inr ())"
  by (simp add: check_dates_def bind_accept rule_check_def deny_if_accept split: option.splits)

lemma check_choices_label: "(check_choices rules v l = Inr ()) = (check_choices rules v l' = Inr ())"
  by (simp add: check_choices_def split: json.splits option.splits)

lemma check_schemes_label: "(check_schemes rules v l = Inr ()) = (check_schemes rules v l' = Inr ())"
  by (simp add: check_schemes_def split: json.splits option.splits list.splits)

lemma validate_rules_label:
  "(validate_rules env t rules v l = Inr ()) = (validate_rules env t rules v l' = Inr ())"
  by (simp add: validate_rules_def check_lengths_label [of env rules v l l'] check_numeric_label [of t rules v l l']
      check_dates_label [of rules v l l'] check_choices_label [of rules v l l'] check_schemes_label [of rules v l l'])

text \<open>The default value of a definition that passes \<open>clean\<close> is itself valid metadata for
  that definition; and a document's metadata is accepted exactly when every definition of
  its type accepts it and every key is defined.\<close>

theorem metadata_acceptance:
  "(definition_clean env d = Inr () \<longrightarrow>
      validate_definition env d [(md_code d, md_default_value d)] = Inr ())
   \<and> (metadata_validate env all t metadata = Inr () \<longleftrightarrow>
      (\<forall>d \<in> set all. md_document_type d = t \<longrightarrow> validate_definition env d metadata = Inr ())
      \<and> (\<forall>k \<in> set (keys metadata). \<exists>d \<in> set all. md_document_type d = t \<and> md_code d = k))"
proof
  show "definition_clean env d = Inr () \<longrightarrow>
      validate_definition env d [(md_code d, md_default_value d)] = Inr ()"
  proof
    assume clean: "definition_clean env d = Inr ()"
    let ?v = "md_default_value d" and ?l = "''Field '' @ md_code d" and ?m = "''Default value''"
    show "validate_definition env d [(md_code d, ?v)] = Inr ()"
    proof (cases "?v = JNull")
      case True
      then show ?thesis
        by (auto simp: validate_definition_def validate_type_def validate_rules_def
            split: option.splits list.splits)
    next
      case False
      with clean have v: "validate_default_value env (md_data_type d) ?v (md_validation_rules d) = Inr ()"
        by (auto simp: definition_clean_def res_simps)
      with False have "validate_type env (md_data_type d) ?v ?l = Inr ()"
        using validate_type_label [of env "md_data_type d" ?v ?l ?m]
        by (auto simp: validate_default_value_def res_simps)
      moreover have "validate_rules env (md_data_type d) (r # rs) ?v ?l = Inr ()"
        if "md_validation_rules d = Some (r # rs)" for r rs
        using v False that validate_rules_label [of env "md_data_type d" "r # rs" ?v ?l ?m]
        by (auto simp: validate_default_value_def res_simps)
      ultimately show ?thesis
        by (auto simp: validate_definition_def split: option.splits list.splits)
    qed
  qed
  have all: "validate_definitions env ds metadata = Inr () \<longleftrightarrow>
      (\<forall>d \<in> set ds. validate_definition env d metadata = Inr ())" for ds
    by (induction ds) (auto simp: bind_accept)
  show "metadata_validate env all t metadata = Inr () \<longleftrightarrow>
      (\<forall>d \<in> set all. md_document_type d = t \<longrightarrow> validate_definition env d metadata = Inr ())
      \<and> (\<forall>k \<in> set (keys metadata). \<exists>d \<in> set all. md_document_type d = t \<and> md_code d = k)"
    unfolding metadata_validate_def Let_def bind_accept all validate_no_extra_fields_def
      guard_accept filter_empty_conv by (auto simp: image_iff) (metis fst_conv)+
qed

lemma metadata_acceptance_witness:
  "metadata_validate sample_val_env [] ''t'' [(''k'', JNull)] \<noteq> Inr ()
   \<and> definition_clean sample_val_env \<lparr>md_code = ''n'', md_name = ''N'', md_document_type = ''t'',
       md_data_type = T_BOOLEAN, md_required = True, md_default_value = JBool True,
       md_validation_rules = None\<rparr> = Inr ()"
proof -
  have "metadata_validate sample_val_env [] ''t'' [(''k'', JNull)] \<noteq> Inr ()"
    using metadata_acceptance [of sample_val_env _ "[]" "''t''" "[(''k'', JNull)]"] by simp
  then show ?thesis by (simp add: definition_clean_def validate_default_value_def validate_type_def)
qed

text \<open>A document update that does not resubmit the document type is not checked: whatever the
  metadata, it is accepted as it is; and a definition update without the data type accepts any
  rules and default value.\<close>

theorem partial_updates_unchecked:
  assumes "dc_document_type attrs = None" and "da_data_type dattrs = None"
  shows "document_do_validate env all attrs = Inr attrs \<and> definition_do_validate env dattrs = Inr dattrs"
  using assms by (simp add: document_do_validate_def definition_do_validate_def)

lemma partial_updates_unchecked_witness:
  "document_do_validate sample_val_env [\<lparr>md_code = ''n'', md_name = ''N'', md_document_type = ''t'',
       md_data_type = T_BOOLEAN, md_required = True, md_default_value = JNull,
       md_validation_rules = None\<rparr>]
      \<lparr>dc_document_type = None, dc_metadata = Some [(''n'', JStr ''no'')]\<rparr>
    = Inr \<lparr>dc_document_type = None, dc_metadata = Some [(''n'', JStr ''no'')]\<rparr>"
  using partial_updates_unchecked
    [of "\<lparr>dc_document_type = None, dc_metadata = Some [(''n'', JStr ''no'')]\<rparr>"
      "\<lparr>da_data_type = None, da_validation_rules = None, da_default_value = None\<rparr>" sample_val_env]
  by simp

end
