(* ===== verification/Ingestion.thy ===== *)
theory Ingestion
  imports EventBus Metadata
begin

text \<open>
  Document ingestion (\<open>apps/dms_ingestion\<close>): storage backends behind the contract
  \<open>storage_provider\<close>, the validators and processors, the upload session's pipeline with its
  state transitions, the upload view and the Celery task around the pipeline.
\<close>

section \<open>Files\<close>

text \<open>
  A binary file object: its \<open>name\<close> attribute if it has one, its bytes and its position.
\<close>

record fileobj =
  fl_name :: "string option"
  fl_data :: string
  fl_pos :: nat

definition file_seek :: "nat \<Rightarrow> fileobj \<Rightarrow> fileobj" where
  "file_seek n f = f\<lparr>fl_pos := n\<rparr>"

definition file_read :: "nat \<Rightarrow> fileobj \<Rightarrow> string \<times> fileobj" where
  "file_read n f = (let d = take n (drop (fl_pos f) (fl_data f)) in (d, f\<lparr>fl_pos := fl_pos f + length d\<rparr>))"

definition file_read_all :: "fileobj \<Rightarrow> string \<times> fileobj" where
  "file_read_all f = (let d = drop (fl_pos f) (fl_data f) in (d, f\<lparr>fl_pos := fl_pos f + length d\<rparr>))"

text \<open>
  \<open>os.path.splitext\<close>: the extension starts at the last dot of the last path component, if a
  character other than a dot stands before it there.
\<close>

definition basename :: "string \<Rightarrow> string" where
  "basename p = rev (takeWhile (\<lambda>c. c \<noteq> CHR ''/'') (rev p))"

definition splitext_ext :: "string \<Rightarrow> string" where
  "splitext_ext p =
     (let r = rev (basename p); e = takeWhile (\<lambda>c. c \<noteq> CHR ''.'') r;
          stem = dropWhile (\<lambda>c. c \<noteq> CHR ''.'') r in
      if stem = [] \<or> list_all (\<lambda>c. c = CHR ''.'') (tl stem) then []
      else CHR ''.'' # rev e)"

section \<open>Storage\<close>

record 'st storage_ops =
  sg_save :: "string \<Rightarrow> fileobj \<Rightarrow> 'st \<Rightarrow> string res \<times> 'st"
  sg_open :: "string \<Rightarrow> 'st \<Rightarrow> fileobj res"
  sg_delete :: "string \<Rightarrow> 'st \<Rightarrow> 'st"

text \<open>
  What \<open>StorageProvider\<close> promises: the key \<open>save\<close> returns opens to the bytes the file had left
  to read, saving and deleting leave the other keys alone, and a deleted key no longer opens.
\<close>

definition contents :: "'st storage_ops \<Rightarrow> 'st \<Rightarrow> string \<Rightarrow> string option" where
  "contents P st k = (case sg_open P k st of Inl _ \<Rightarrow> None | Inr f \<Rightarrow> Some (fst (file_read_all f)))"

locale storage_provider =
  fixes P :: "'st storage_ops"
  assumes open_saved: "sg_save P sid f st = (Inr k, st') \<Longrightarrow>
        contents P st' k = Some (fst (file_read_all f))"
    and save_other: "sg_save P sid f st = (Inr k, st') \<Longrightarrow> k' \<noteq> k \<Longrightarrow>
        contents P st' k' = contents P st k'"
    and save_failed: "sg_save P sid f st = (Inl e, st') \<Longrightarrow> contents P st' = contents P st"
    and delete_contents: "contents P (sg_delete P k st) = (contents P st)(k := None)"
    and open_rewound: "sg_open P k st = Inr f \<Longrightarrow> fl_pos f = 0"
begin

lemma open_after_save:
  assumes "sg_save P sid f st = (Inr k, st')"
  obtains g where "sg_open P k st' = Inr g" and "fl_data g = fst (file_read_all f)" and "fl_pos g = 0"
proof -
  from open_saved [OF assms] obtain g where g: "sg_open P k st' = Inr g"
      and "fst (file_read_all g) = fst (file_read_all f)"
    by (auto simp: contents_def split: sum.splits)
  with open_rewound [OF g] that [OF g] show ?thesis by (simp add: file_read_all_def Let_def)
qed

lemma save_delete:
  "sg_save P sid f st = (Inr k, st') \<Longrightarrow> contents P (sg_delete P k st') = (contents P st)(k := None)"
  using save_other by (auto simp: delete_contents fun_eq_iff)

end

text \<open>\<open>generate_storage_name\<close>; \<open>stamp\<close> is the formatted current time.\<close>

definition generate_storage_name :: "string \<Rightarrow> string \<Rightarrow> fileobj \<Rightarrow> string" where
  "generate_storage_name stamp session_id f =
     session_id @ ''/'' @ stamp @ ''_'' @ (case fl_name f of None \<Rightarrow> session_id | Some n \<Rightarrow> n)"

text \<open>\<open>BaseStorageBackend.save\<close> over the hook \<open>_save\<close> and the resolved name generator.\<close>

definition base_save ::
  "(string \<Rightarrow> fileobj \<Rightarrow> string) \<Rightarrow> (string \<Rightarrow> fileobj \<Rightarrow> 'st \<Rightarrow> string res \<times> 'st)
    \<Rightarrow> string \<Rightarrow> fileobj \<Rightarrow> 'st \<Rightarrow> string res \<times> 'st" where
  "base_save generator hook session_id f st = hook (generator session_id f) f st"

text \<open>\<open>InMemoryStorageBackend\<close>: a dictionary from names to bytes.\<close>

type_synonym memory = "(string \<times> string) list"

definition memory_save_hook :: "string \<Rightarrow> fileobj \<Rightarrow> memory \<Rightarrow> string res \<times> memory" where
  "memory_save_hook name f st = (Inr name, dict_set name (fst (file_read_all f)) st)"

definition memory_open :: "string \<Rightarrow> memory \<Rightarrow> fileobj res" where
  "memory_open k st = (case map_of st k of None \<Rightarrow> Inl KeyErr
     | Some d \<Rightarrow> Inr \<lparr>fl_name = None, fl_data = d, fl_pos = 0\<rparr>)"

definition memory_delete :: "string \<Rightarrow> memory \<Rightarrow> memory" where
  "memory_delete k st = dict_pop k st"

definition memory_storage :: "(string \<Rightarrow> fileobj \<Rightarrow> string) \<Rightarrow> memory storage_ops" where
  "memory_storage generator = \<lparr>sg_save = base_save generator memory_save_hook,
     sg_open = memory_open, sg_delete = memory_delete\<rparr>"

lemma memory_contents: "contents (memory_storage g) st k = map_of st k"
  by (simp add: contents_def memory_storage_def memory_open_def file_read_all_def
      split: option.splits)

interpretation memory: storage_provider "memory_storage g" for g
proof unfold_locales
  fix sid f st k st' assume "sg_save (memory_storage g) sid f st = (Inr k, st')"
  then have st': "k = g sid f" "st' = dict_set k (fst (file_read_all f)) st"
    by (auto simp: memory_storage_def base_save_def memory_save_hook_def)
  then show "contents (memory_storage g) st' k = Some (fst (file_read_all f))"
    by (simp add: memory_contents)
  fix k' assume "k' \<noteq> k"
  with st' show "contents (memory_storage g) st' k' = contents (memory_storage g) st k'"
    by (simp add: memory_contents)
qed (auto simp: memory_storage_def base_save_def memory_save_hook_def memory_open_def fun_eq_iff
      memory_contents [unfolded memory_storage_def] memory_delete_def split: option.splits)

text \<open>
  \<open>LocalStorageBackend\<close> over Django's \<open>FileSystemStorage\<close>, whose operations are a parameter: it
  keeps the contract when they do.
\<close>

definition local_storage :: "(string \<Rightarrow> fileobj \<Rightarrow> string) \<Rightarrow> 'st storage_ops \<Rightarrow> 'st storage_ops" where
  "local_storage generator fs = \<lparr>sg_save = base_save generator (sg_save fs), sg_open = sg_open fs,
     sg_delete = sg_delete fs\<rparr>"

lemma local_storage_provider:
  assumes "storage_provider fs"
  shows "storage_provider (local_storage g fs)"
proof -
  have "contents (local_storage g fs) = contents fs"
    by (intro ext) (simp add: contents_def local_storage_def)
  with assms show ?thesis
    unfolding storage_provider_def by (simp add: local_storage_def base_save_def)
qed

section \<open>Upload sessions\<close>

datatype session_state =
    NEW | UPLOAD_REQUESTED | UPLOADING | UPLOADED | VALIDATING | PROCESSING | READY
  | DOCUMENT_CREATED | COMPLETED | FAILED | EXPIRED | CANCELLED | QUARANTINED

record upload_session =
  us_id :: string
  us_tenant :: string
  us_title :: string
  us_document_type :: "string option"
  us_filename :: string
  us_mime_type :: string
  us_size :: int
  us_checksum :: "string option"
  us_extension :: "string option"
  us_state :: session_state
  us_storage_key :: "string option"
  us_error_detail :: "string option"
  us_created_by :: "string option"
  us_updated_at :: int

section \<open>Validators\<close>

record ingest_config =
  ic_max_file_size :: int
  ic_allowed_mime_types :: "string list"
  ic_allowed_extensions :: "string list"

text \<open>\<open>format_human_size\<close>: an integer printed with one decimal always ends in \<open>.0\<close>.\<close>

fun human_size_from :: "string list \<Rightarrow> int \<Rightarrow> string" where
  "human_size_from [] n = show_int n @ ''.0 PB''"
| "human_size_from (u # us) n =
     (if n < 1024 then show_int n @ ''.0 '' @ u else human_size_from us (n div 1024))"

definition format_human_size :: "int \<Rightarrow> string" where
  "format_human_size n = human_size_from [''B'', ''KB'', ''MB'', ''GB'', ''TB''] n"

definition validate_file_size :: "ingest_config \<Rightarrow> int \<Rightarrow> unit res" where
  "validate_file_size cfg sz =
     (if sz > ic_max_file_size cfg
      then Inl (invalid (''File size '' @ format_human_size sz @ '' exceeds the maximum allowed ''
             @ format_human_size (ic_max_file_size cfg) @ ''.''))
      else Inr ())"

definition quoted :: "string \<Rightarrow> string" where
  "quoted s = CHR 0x27 # s @ [CHR 0x27]"

definition validate_mime_type :: "ingest_config \<Rightarrow> string \<Rightarrow> unit res" where
  "validate_mime_type cfg mime =
     (if ic_allowed_mime_types cfg \<noteq> [] \<and> mime \<notin> set (ic_allowed_mime_types cfg)
      then Inl (invalid (''MIME type '' @ quoted mime @ '' is not allowed.''))
      else Inr ())"

definition validate_extension :: "ingest_config \<Rightarrow> string \<Rightarrow> unit res" where
  "validate_extension cfg filename =
     (if ic_allowed_extensions cfg = [] then Inr ()
      else let ext = lower (splitext_ext filename) in
        if ext \<notin> set (ic_allowed_extensions cfg)
        then Inl (invalid (''File extension '' @ quoted ext @ '' is not allowed.''))
        else Inr ())"

section \<open>Processors\<close>

type_synonym processor = "upload_session \<Rightarrow> fileobj \<Rightarrow> unit res \<times> upload_session \<times> fileobj"

text \<open>
  The chunk loop of \<open>ChecksumProcessor\<close>: a \<open>hashlib\<close> digest is the bytes fed to it so far, and
  \<open>sha256\<close> the hexadecimal digest of bytes.  The loop ends because every chunk moves the
  position towards the end of the data.
\<close>

definition chunk_size :: nat where "chunk_size = 8192"

function read_chunks :: "nat \<Rightarrow> string \<Rightarrow> fileobj \<Rightarrow> string \<times> fileobj" where
  "read_chunks n digest f =
     (let (chunk, f') = file_read n f in
      if chunk = [] then (digest, f') else read_chunks n (digest @ chunk) f')"
  by pat_completeness auto
termination
  by (relation "measure (\<lambda>(_, _, f). length (fl_data f) - fl_pos f)")
    (auto simp: file_read_def Let_def)

declare read_chunks.simps [simp del]

definition checksum_processor :: "(string \<Rightarrow> string) \<Rightarrow> processor" where
  "checksum_processor sha256 s f =
     (let (digest, f') = read_chunks chunk_size [] (file_seek 0 f)
      in (Inr (), s\<lparr>us_checksum := Some (sha256 digest)\<rparr>, file_seek 0 f'))"

definition metadata_processor :: processor where
  "metadata_processor s f =
     (Inr (), s\<lparr>us_extension := or_none (lower (splitext_ext (us_filename s)))\<rparr>, f)"

text \<open>\<open>build_pipeline\<close>: every configured path is resolved before the first processor runs.\<close>

fun build_pipeline :: "(string \<Rightarrow> processor res) \<Rightarrow> string list \<Rightarrow> processor list res" where
  "build_pipeline resolve [] = Inr []"
| "build_pipeline resolve (p # ps) =
     bind_res (resolve p) (\<lambda>q. bind_res (build_pipeline resolve ps) (\<lambda>qs. Inr (q # qs)))"

fun run_processors :: "processor list \<Rightarrow> upload_session \<Rightarrow> fileobj \<Rightarrow> unit res \<times> upload_session" where
  "run_processors [] s f = (Inr (), s)"
| "run_processors (p # ps) s f =
     (case p s f of (Inl e, s', _) \<Rightarrow> (Inl e, s') | (Inr _, s', f') \<Rightarrow> run_processors ps s' f')"

section \<open>The pipeline\<close>

type_synonym payload = "(string \<times> json) list"

record ('st, 's) ingest =
  in_sessions :: "upload_session list"
  in_store :: 'st
  in_stream :: 's
  in_tasks :: "string list"

text \<open>
  What a run depends on: the settings, the resolver of processors, the services, the error
  \<open>XADD\<close> raises if it does, the event identifier it draws and the clock.
\<close>

record ('st, 's) ingest_env =
  ie_config :: ingest_config
  ie_processors :: "string list"
  ie_resolve :: "string \<Rightarrow> processor res"
  ie_storage :: "'st storage_ops"
  ie_stream :: "'s stream_ops"
  ie_dumps :: "payload \<Rightarrow> string"
  ie_xadd_error :: "exn option"
  ie_str_exn :: "exn \<Rightarrow> string"
  ie_event_id :: string
  ie_iso_now :: string
  ie_now :: int

definition json_opt :: "string option \<Rightarrow> json" where
  "json_opt v = (case v of None \<Rightarrow> JNull | Some s \<Rightarrow> JStr s)"

text \<open>
  \<open>_transition\<close> and \<open>_fail\<close>: the object in memory changes and only the columns named in
  \<open>update_fields\<close> are written to its row.
\<close>

definition transition ::
  "int \<Rightarrow> session_state \<Rightarrow> upload_session \<Rightarrow> ('st, 's) ingest \<Rightarrow> upload_session \<times> ('st, 's) ingest" where
  "transition now st s w =
     (s\<lparr>us_state := st, us_updated_at := now\<rparr>,
      w\<lparr>in_sessions := save_row (\<lambda>r. us_id r = us_id s)
          (\<lambda>r. r\<lparr>us_state := st, us_updated_at := now\<rparr>) (in_sessions w)\<rparr>)"

definition fail_session ::
  "int \<Rightarrow> string \<Rightarrow> upload_session \<Rightarrow> ('st, 's) ingest \<Rightarrow> ('st, 's) ingest" where
  "fail_session now detail s w =
     w\<lparr>in_sessions := save_row (\<lambda>r. us_id r = us_id s)
         (\<lambda>r. r\<lparr>us_state := FAILED, us_error_detail := Some detail, us_updated_at := now\<rparr>)
         (in_sessions w)\<rparr>"

definition event_payload :: "upload_session \<Rightarrow> payload" where
  "event_payload s =
     [(''session_id'', JStr (us_id s)), (''title'', JStr (us_title s)),
      (''document_type'', json_opt (us_document_type s)), (''filename'', JStr (us_filename s)),
      (''mime_type'', JStr (us_mime_type s)), (''size'', JInt (us_size s)),
      (''checksum'', json_opt (us_checksum s)), (''extension'', json_opt (us_extension s)),
      (''storage_key'', json_opt (us_storage_key s))]"

text \<open>
  The three stages of \<open>run_pipeline\<close> after the guards.  Strings have code points below 256, so
  the dash of one message is written as a hyphen.
\<close>

definition validate_session :: "ingest_config \<Rightarrow> upload_session \<Rightarrow> unit res" where
  "validate_session cfg s =
     bind_res (validate_file_size cfg (us_size s)) (\<lambda>_.
     bind_res (validate_mime_type cfg (us_mime_type s)) (\<lambda>_.
     validate_extension cfg (us_filename s)))"

definition process_session ::
  "('st, 's) ingest_env \<Rightarrow> string \<Rightarrow> 'st \<Rightarrow> upload_session \<Rightarrow> unit res \<times> upload_session" where
  "process_session env key store s =
     (case sg_open (ie_storage env) key store of
        Inl e \<Rightarrow> (Inl e, s)
      | Inr f \<Rightarrow>
         (case build_pipeline (ie_resolve env) (ie_processors env) of
            Inl e \<Rightarrow> (Inl e, s)
          | Inr ps \<Rightarrow> run_processors ps s f))"

text \<open>A failing \<open>XADD\<close> leaves the \<open>atomic\<close> block before anything in it was written.\<close>

definition publish_session ::
  "('st, 's) ingest_env \<Rightarrow> upload_session \<Rightarrow> ('st, 's) ingest \<Rightarrow> unit res \<times> ('st, 's) ingest" where
  "publish_session env s w =
     (case ie_xadd_error env of
        Some e \<Rightarrow> (Inl e, w)
      | None \<Rightarrow>
         (let (_, stream) = publish (ie_stream env) (ie_dumps env) (ie_event_id env) (ie_iso_now env)
                ''document.created'' (event_payload s) (Some (us_tenant s))
                (if truthy (us_created_by s) then us_created_by s else None) (in_stream w);
              (_, w') = transition (ie_now env) DOCUMENT_CREATED s (w\<lparr>in_stream := stream\<rparr>)
          in (Inr (), w')))"

definition run_pipeline ::
  "('st, 's) ingest_env \<Rightarrow> string \<Rightarrow> ('st, 's) ingest \<Rightarrow> unit res \<times> ('st, 's) ingest" where
  "run_pipeline env session_id w =
     (case qs_get (\<lambda>r. us_id r = session_id) (in_sessions w) of
        Inl e \<Rightarrow> (Inl e, w)
      | Inr s \<Rightarrow>
         if us_state s = DOCUMENT_CREATED then (Inr (), w)
         else if \<not> truthy (us_storage_key s)
         then (Inr (), fail_session (ie_now env)
                 ''No storage key found - file was never written to storage.'' s w)
         else
           (let (s1, w1) = transition (ie_now env) VALIDATING s w in
            case validate_session (ie_config env) s1 of
              Inl e \<Rightarrow> (Inl e, fail_session (ie_now env) (ie_str_exn env e) s1 w1)
            | Inr _ \<Rightarrow>
               (let (s2, w2) = transition (ie_now env) PROCESSING s1 w1 in
                case process_session env (or_empty (us_storage_key s2)) (in_store w2) s2 of
                  (Inl e, s3) \<Rightarrow> (Inl e, fail_session (ie_now env) (ie_str_exn env e) s3 w2)
                | (Inr _, s3) \<Rightarrow>
                   (let (s4, w4) = transition (ie_now env) READY s3 w2
                    in publish_session env s4 w4))))"

text \<open>
  \<open>run_pipeline_task\<close>: Celery's \<open>autoretry_for\<close> runs the body again after an exception, three
  times at most; the environment may differ from run to run.
\<close>

fun pipeline_attempts ::
  "nat \<Rightarrow> (nat \<Rightarrow> ('st, 's) ingest_env) \<Rightarrow> nat \<Rightarrow> string \<Rightarrow> ('st, 's) ingest
    \<Rightarrow> unit res \<times> nat \<times> ('st, 's) ingest" where
  "pipeline_attempts 0 envs k sid w = (let (r, w') = run_pipeline (envs k) sid w in (r, Suc k, w'))"
| "pipeline_attempts (Suc n) envs k sid w =
     (case run_pipeline (envs k) sid w of
        (Inl _, w') \<Rightarrow> pipeline_attempts n envs (Suc k) sid w'
      | (Inr u, w') \<Rightarrow> (Inr u, Suc k, w'))"

definition run_pipeline_task ::
  "(nat \<Rightarrow> ('st, 's) ingest_env) \<Rightarrow> string \<Rightarrow> ('st, 's) ingest \<Rightarrow> unit res \<times> nat \<times> ('st, 's) ingest" where
  "run_pipeline_task envs sid w = pipeline_attempts 3 envs 0 sid w"

text \<open>\<open>UploadView.put\<close>: the answer's status code; a file object without a name is false.\<close>

definition upload_put ::
  "'st storage_ops \<Rightarrow> int \<Rightarrow> request \<Rightarrow> string \<Rightarrow> fileobj option \<Rightarrow> ('st, 's) ingest
    \<Rightarrow> nat res \<times> ('st, 's) ingest" where
  "upload_put P now rq pk f w =
     (case qs_get (\<lambda>r. us_id r = pk \<and> get_tenant_id rq = Some (us_tenant r)) (in_sessions w) of
        Inl DoesNotExist \<Rightarrow> (Inr 404, w)
      | Inl e \<Rightarrow> (Inl e, w)
      | Inr s \<Rightarrow>
         (case f of
            None \<Rightarrow> (Inr 400, w)
          | Some fo \<Rightarrow>
             if \<not> truthy (fl_name fo) then (Inr 400, w)
             else (case sg_save P (us_id s) fo (in_store w) of
                (Inl e, st) \<Rightarrow> (Inl e, w\<lparr>in_store := st\<rparr>)
              | (Inr key, st) \<Rightarrow>
                  (Inr 204, w\<lparr>in_store := st,
                     in_sessions := save_row (\<lambda>r. us_id r = us_id s)
                       (\<lambda>r. r\<lparr>us_storage_key := Some key, us_state := UPLOADED, us_updated_at := now\<rparr>)
                       (in_sessions w),
                     in_tasks := in_tasks w @ [us_id s]\<rparr>))))"

section \<open>Facts about the pipeline\<close>

lemma save_row_twice:
  "(\<And>r. P r \<Longrightarrow> P (g r)) \<Longrightarrow> save_row P f (save_row P g rs) = save_row P (\<lambda>r. f (g r)) rs"
  by (induction rs) auto

lemma read_chunks_all:
  assumes "0 < n"
  shows "read_chunks n d f = (d @ drop (fl_pos f) (fl_data f),
     f\<lparr>fl_pos := fl_pos f + length (drop (fl_pos f) (fl_data f))\<rparr>)"
  using assms
proof (induction n d f rule: read_chunks.induct)
  case (1 n d f)
  let ?c = "take n (drop (fl_pos f) (fl_data f))"
  let ?f = "f\<lparr>fl_pos := fl_pos f + length ?c\<rparr>"
  have rd: "file_read n f = (?c, ?f)" by (simp add: file_read_def Let_def)
  show ?case
  proof (cases "?c = []")
    case True
    with "1.prems" have none: "length (fl_data f) \<le> fl_pos f" by simp
    then show ?thesis by (subst read_chunks.simps) (simp add: file_read_def Let_def)
  next
    case False
    with "1.IH" [OF rd [symmetric] refl False "1.prems"]
    have "read_chunks n d f = (d @ ?c @ drop (fl_pos ?f) (fl_data ?f),
        ?f\<lparr>fl_pos := fl_pos ?f + length (drop (fl_pos ?f) (fl_data ?f))\<rparr>)"
      by (subst read_chunks.simps) (simp add: rd)
    moreover have "?c @ drop (fl_pos ?f) (fl_data ?f) = drop (fl_pos f) (fl_data f)"
      by (simp add: min_def) (metis append_take_drop_id drop_drop add.commute)
    ultimately show ?thesis by (simp add: min_def)
  qed
qed

lemma checksum_processor_whole:
  "checksum_processor sha256 s f =
     (Inr (), s\<lparr>us_checksum := Some (sha256 (fl_data f))\<rparr>, f\<lparr>fl_pos := 0\<rparr>)"
  by (simp add: checksum_processor_def read_chunks_all chunk_size_def file_seek_def)

text \<open>The session row written when a run ends.\<close>

definition set_row :: "string \<Rightarrow> (upload_session \<Rightarrow> upload_session) \<Rightarrow> ('st, 's) ingest \<Rightarrow> ('st, 's) ingest" where
  "set_row sid f w = w\<lparr>in_sessions := save_row (\<lambda>r. us_id r = sid) f (in_sessions w)\<rparr>"

lemma transition_set_row:
  "transition now st s w = (s\<lparr>us_state := st, us_updated_at := now\<rparr>,
     set_row (us_id s) (\<lambda>r. r\<lparr>us_state := st, us_updated_at := now\<rparr>) w)"
  by (simp add: transition_def set_row_def)

lemma fail_set_row:
  "fail_session now d s w = set_row (us_id s)
     (\<lambda>r. r\<lparr>us_state := FAILED, us_error_detail := Some d, us_updated_at := now\<rparr>) w"
  by (simp add: fail_session_def set_row_def)

lemma set_row_twice:
  "(\<And>r. us_id (g r) = us_id r) \<Longrightarrow> set_row sid f (set_row sid g w) = set_row sid (\<lambda>r. f (g r)) w"
  by (simp add: set_row_def save_row_twice)

lemma set_row_sel [simp]:
  "in_store (set_row sid f w) = in_store w" "in_stream (set_row sid f w) = in_stream w"
  "in_tasks (set_row sid f w) = in_tasks w"
  "(set_row sid f w)\<lparr>in_stream := st\<rparr> = set_row sid f (w\<lparr>in_stream := st\<rparr>)"
  by (simp_all add: set_row_def)

lemma set_row_others:
  "(\<And>r. us_id (f r) = us_id r) \<Longrightarrow>
     filter (\<lambda>r. us_id r \<noteq> sid) (in_sessions (set_row sid f w)) = filter (\<lambda>r. us_id r \<noteq> sid) (in_sessions w)"
proof -
  assume f: "\<And>r. us_id (f r) = us_id r"
  have "filter (\<lambda>r. us_id r \<noteq> sid) (save_row (\<lambda>r. us_id r = sid) f rs) = filter (\<lambda>r. us_id r \<noteq> sid) rs" for rs
    by (induction rs) (auto simp: f)
  then show ?thesis by (simp add: set_row_def)
qed

lemma set_row_rows:
  "r \<in> set (in_sessions (set_row sid f w)) \<Longrightarrow> us_id r = sid \<Longrightarrow> (\<And>x. us_id (f x) = us_id x) \<Longrightarrow>
     \<exists>x \<in> set (in_sessions w). us_id x = sid \<and> r = f x"
  by (auto simp: set_row_def set_save_row split: if_splits)

lemma run_processors_id:
  "\<forall>p \<in> set ps. \<forall>s f. us_id (fst (snd (p s f))) = us_id s \<Longrightarrow>
     run_processors ps s f = (r, s') \<Longrightarrow> us_id s' = us_id s"
proof (induction ps arbitrary: s f)
  case (Cons p ps)
  obtain r1 s1 f1 where p: "p s f = (r1, s1, f1)" by (cases "p s f") auto
  from Cons.prems(1) have "us_id (fst (snd (p s f))) = us_id s" by simp
  then have "us_id s1 = us_id s" by (simp add: p)
  with Cons p show ?case by (auto split: sum.splits)
qed simp

text \<open>Processors leave the identity of the session alone.\<close>

definition keeps_id :: "('st, 's) ingest_env \<Rightarrow> bool" where
  "keeps_id env \<longleftrightarrow> (\<forall>p q s f. ie_resolve env p = Inr q \<longrightarrow> us_id (fst (snd (q s f))) = us_id s)"

lemma build_pipeline_resolved:
  "build_pipeline rs ps = Inr qs \<Longrightarrow> q \<in> set qs \<Longrightarrow> \<exists>p. rs p = Inr q"
  by (induction ps arbitrary: qs) (auto simp: res_simps)

lemma process_session_id:
  assumes "keeps_id env" and "process_session env key st s = (r, s')"
  shows "us_id s' = us_id s"
proof -
  have "us_id s' = us_id s"
    if "build_pipeline (ie_resolve env) (ie_processors env) = Inr ps" "run_processors ps s f = (r, s')" for ps f
    using build_pipeline_resolved [OF that(1)] assms(1) that(2)
    by (intro run_processors_id [of ps]) (auto simp: keeps_id_def, metis)
  with assms(2) show ?thesis by (auto simp: process_session_def split: sum.splits)
qed

text \<open>How a run ends.\<close>

datatype ending = Unknown exn | Already | NoKey | Rejected exn | Unpublished exn | Published upload_session

definition ending_of :: "('st, 's) ingest_env \<Rightarrow> string \<Rightarrow> ('st, 's) ingest \<Rightarrow> ending" where
  "ending_of env sid w =
     (case qs_get (\<lambda>r. us_id r = sid) (in_sessions w) of
        Inl e \<Rightarrow> Unknown e
      | Inr s \<Rightarrow>
         if us_state s = DOCUMENT_CREATED then Already
         else if \<not> truthy (us_storage_key s) then NoKey
         else (case validate_session (ie_config env) s of
            Inl e \<Rightarrow> Rejected e
          | Inr _ \<Rightarrow> (case process_session env (or_empty (us_storage_key s)) (in_store w)
                 (s\<lparr>us_state := PROCESSING, us_updated_at := ie_now env\<rparr>) of
               (Inl e, _) \<Rightarrow> Rejected e
             | (Inr _, s') \<Rightarrow> (case ie_xadd_error env of Some e \<Rightarrow> Unpublished e | None \<Rightarrow> Published s'))))"

definition after :: "('st, 's) ingest_env \<Rightarrow> string \<Rightarrow> ('st, 's) ingest \<Rightarrow> ending \<Rightarrow> unit res \<times> ('st, 's) ingest" where
  "after env sid w e = (case e of
     Unknown x \<Rightarrow> (Inl x, w)
   | Already \<Rightarrow> (Inr (), w)
   | NoKey \<Rightarrow> (Inr (), set_row sid (\<lambda>r. r\<lparr>us_state := FAILED, us_error_detail :=
         Some ''No storage key found - file was never written to storage.'', us_updated_at := ie_now env\<rparr>) w)
   | Rejected x \<Rightarrow> (Inl x, set_row sid (\<lambda>r. r\<lparr>us_state := FAILED,
         us_error_detail := Some (ie_str_exn env x), us_updated_at := ie_now env\<rparr>) w)
   | Unpublished x \<Rightarrow> (Inl x, set_row sid (\<lambda>r. r\<lparr>us_state := READY, us_updated_at := ie_now env\<rparr>) w)
   | Published s \<Rightarrow> (Inr (), set_row sid (\<lambda>r. r\<lparr>us_state := DOCUMENT_CREATED, us_updated_at := ie_now env\<rparr>)
         (w\<lparr>in_stream := snd (publish (ie_stream env) (ie_dumps env) (ie_event_id env) (ie_iso_now env)
            ''document.created'' (event_payload s) (Some (us_tenant s))
            (if truthy (us_created_by s) then us_created_by s else None) (in_stream w))\<rparr>)))"

lemma run_pipeline_after:
  assumes "keeps_id env"
  shows "run_pipeline env sid w = after env sid w (ending_of env sid w)"
proof (cases "qs_get (\<lambda>r. us_id r = sid) (in_sessions w)")
  case (Inl e)
  then show ?thesis by (simp add: run_pipeline_def ending_of_def after_def)
next
  case (Inr s)
  then have sid: "us_id s = sid" using qs_get_Inr_D(2) by fastforce
  have val: "validate_session c (s\<lparr>us_state := x, us_updated_at := n\<rparr>) = validate_session c s" for c x n
    by (simp add: validate_session_def)
  have keep: "process_session env k st (s\<lparr>us_state := x, us_updated_at := n\<rparr>) = (r, s') \<Longrightarrow> us_id s' = sid"
    for k st x n r s' using process_session_id [OF assms] sid by fastforce
  show ?thesis
    unfolding run_pipeline_def ending_of_def Inr sum.case Let_def transition_set_row fail_set_row
      publish_session_def prod.case
    by (auto simp: after_def val sid set_row_twice event_payload_def split: sum.splits option.splits prod.splits
        dest!: keep)
qed

text \<open>The configured processors and their resolution.\<close>

definition default_pipeline :: "string list" where
  "default_pipeline = [''apps.dms_ingestion.processors.ChecksumProcessor'',
     ''apps.dms_ingestion.processors.MetadataProcessor'']"

definition resolve_instance :: "(string \<Rightarrow> string) \<Rightarrow> string \<Rightarrow> processor res" where
  "resolve_instance sha256 p =
     (if p = ''apps.dms_ingestion.processors.ChecksumProcessor'' then Inr (checksum_processor sha256)
      else if p = ''apps.dms_ingestion.processors.MetadataProcessor'' then Inr metadata_processor
      else Inl (OtherErr ''ImportError''))"

lemma resolved_keeps_id: "ie_resolve env = resolve_instance sha256 \<Longrightarrow> keeps_id env"
  by (auto simp: keeps_id_def resolve_instance_def checksum_processor_whole metadata_processor_def
      split: if_splits)

lemma process_session_default:
  assumes "ie_processors env = default_pipeline" and "ie_resolve env = resolve_instance sha256"
    and "sg_open (ie_storage env) key st = Inr f"
  shows "process_session env key st s = (Inr (), s\<lparr>us_checksum := Some (sha256 (fl_data f)),
     us_extension := or_none (lower (splitext_ext (us_filename s)))\<rparr>)"
  using assms by (simp add: process_session_def default_pipeline_def resolve_instance_def
      checksum_processor_whole metadata_processor_def)

lemma run_pipeline_published:
  assumes "ie_processors env = default_pipeline" and "ie_resolve env = resolve_instance sha256"
    and "ie_xadd_error env = None" and "qs_get (\<lambda>r. us_id r = sid) (in_sessions w) = Inr s"
    and "us_state s \<noteq> DOCUMENT_CREATED" and "us_storage_key s = Some key" and "key \<noteq> []"
    and "validate_session (ie_config env) s = Inr ()"
    and "sg_open (ie_storage env) key (in_store w) = Inr f"
  shows "run_pipeline env sid w = (Inr (),
     set_row sid (\<lambda>r. r\<lparr>us_state := DOCUMENT_CREATED, us_updated_at := ie_now env\<rparr>)
       (w\<lparr>in_stream := snd (publish (ie_stream env) (ie_dumps env) (ie_event_id env) (ie_iso_now env)
          ''document.created'' (event_payload (s\<lparr>us_checksum := Some (sha256 (fl_data f)),
             us_extension := or_none (lower (splitext_ext (us_filename s)))\<rparr>))
          (Some (us_tenant s)) (if truthy (us_created_by s) then us_created_by s else None)
          (in_stream w))\<rparr>))"
proof -
  have "ending_of env sid w = Published (s\<lparr>us_state := PROCESSING, us_updated_at := ie_now env,
      us_checksum := Some (sha256 (fl_data f)),
      us_extension := or_none (lower (splitext_ext (us_filename s)))\<rparr>)"
    using assms by (simp add: ending_of_def process_session_default [OF assms(1,2,9)])
  then show ?thesis
    by (simp add: run_pipeline_after [OF resolved_keeps_id [OF assms(2)]] after_def event_payload_def)
qed

section \<open>Properties of ingestion\<close>

text \<open>C38: A successful run with the configured processors: exactly one \<open>document.created\<close> event
  is added to the stream, carrying the SHA-256 digest of the whole stored file (read in
  chunks) and the lower-case extension of its name, and of the session's row only the state
  and the update time change: the digest and the extension computed for it are not saved,
  nor is an earlier error cleared.\<close>

theorem pipeline_publishes:
  assumes "ie_processors env = default_pipeline" and "ie_resolve env = resolve_instance sha256"
    and "ie_xadd_error env = None" and "qs_get (\<lambda>r. us_id r = sid) (in_sessions w) = Inr s"
    and "us_state s \<noteq> DOCUMENT_CREATED" and "us_storage_key s = Some key" and "key \<noteq> []"
    and "validate_session (ie_config env) s = Inr ()"
    and "sg_open (ie_storage env) key (in_store w) = Inr f"
  shows "run_pipeline env sid w = (Inr (), w\<lparr>
     in_sessions := save_row (\<lambda>r. us_id r = sid)
       (\<lambda>r. r\<lparr>us_state := DOCUMENT_CREATED, us_updated_at := ie_now env\<rparr>) (in_sessions w),
     in_stream := snd (publish (ie_stream env) (ie_dumps env) (ie_event_id env) (ie_iso_now env)
       ''document.created''
       [(''session_id'', JStr sid), (''title'', JStr (us_title s)),
        (''document_type'', json_opt (us_document_type s)), (''filename'', JStr (us_filename s)),
        (''mime_type'', JStr (us_mime_type s)), (''size'', JInt (us_size s)),
        (''checksum'', JStr (sha256 (fl_data f))),
        (''extension'', json_opt (or_none (lower (splitext_ext (us_filename s))))),
        (''storage_key'', JStr key)]
       (Some (us_tenant s)) (if truthy (us_created_by s) then us_created_by s else None)
       (in_stream w))\<rparr>)"
proof -
  have "us_id s = sid" using qs_get_Inr_D(2) [OF assms(4)] by simp
  with assms(6) show ?thesis
    by (simp add: run_pipeline_published [OF assms] set_row_def event_payload_def json_opt_def)
qed

definition sample_session :: "string \<Rightarrow> session_state \<Rightarrow> upload_session" where
  "sample_session i st = \<lparr>us_id = i, us_tenant = ''t1'', us_title = ''T'', us_document_type = None,
     us_filename = ''a.PDF'', us_mime_type = ''x/y'', us_size = 3, us_checksum = None,
     us_extension = None, us_state = st, us_storage_key = Some ''k'', us_error_detail = None,
     us_created_by = None, us_updated_at = 0\<rparr>"

definition sample_ingest_env :: "int \<Rightarrow> (memory, log_stream) ingest_env" where
  "sample_ingest_env mx = \<lparr>ie_config = \<lparr>ic_max_file_size = mx, ic_allowed_mime_types = [],
       ic_allowed_extensions = [''.pdf'']\<rparr>, ie_processors = default_pipeline,
     ie_resolve = resolve_instance id, ie_storage = memory_storage (generate_storage_name ''now''),
     ie_stream = log_ops, ie_dumps = (\<lambda>_. ''json''), ie_xadd_error = None,
     ie_str_exn = (\<lambda>_. ''error''), ie_event_id = ''e1'', ie_iso_now = ''now'', ie_now = 9\<rparr>"

definition sample_ingest :: "session_state \<Rightarrow> (memory, log_stream) ingest" where
  "sample_ingest st = \<lparr>in_sessions = [sample_session ''s1'' st], in_store = [(''k'', ''xyz'')],
     in_stream = \<lparr>ls_next = 0, ls_news = [], ls_pending = []\<rparr>, in_tasks = []\<rparr>"

lemma sample_extension: "lower (splitext_ext ''a.PDF'') = ''.pdf''"
  by code_simp

lemma sample_valid: "3 \<le> mx \<Longrightarrow> validate_session (ie_config (sample_ingest_env mx)) (sample_session i st) = Inr ()"
  by (simp add: validate_session_def validate_file_size_def validate_mime_type_def
      validate_extension_def sample_ingest_env_def sample_session_def sample_extension)

lemma pipeline_publishes_witness:
  "map us_state (in_sessions (snd (run_pipeline (sample_ingest_env 5) ''s1'' (sample_ingest UPLOADED)))) = [DOCUMENT_CREATED]
   \<and> map us_checksum (in_sessions (snd (run_pipeline (sample_ingest_env 5) ''s1'' (sample_ingest UPLOADED)))) = [None]
   \<and> fst (run_pipeline (sample_ingest_env 5) ''s1'' (sample_ingest UPLOADED)) = Inr ()"
proof -
  have "sg_open (ie_storage (sample_ingest_env 5)) ''k'' (in_store (sample_ingest UPLOADED))
      = Inr \<lparr>fl_name = None, fl_data = ''xyz'', fl_pos = 0\<rparr>"
    by (simp add: sample_ingest_env_def sample_ingest_def memory_storage_def memory_open_def)
  from pipeline_publishes [OF _ _ _ _ _ _ _ sample_valid this, of id "''s1''" "''s1''" UPLOADED]
  show ?thesis
    by (simp add: sample_ingest_env_def sample_ingest_def sample_session_def qs_get_def)
qed

text \<open>What a run may change.\<close>

definition other_rows :: "string \<Rightarrow> ('st, 's) ingest \<Rightarrow> upload_session list" where
  "other_rows sid w = filter (\<lambda>r. us_id r \<noteq> sid) (in_sessions w)"

definition one_event :: "'s stream_ops \<Rightarrow> 's \<Rightarrow> 's \<Rightarrow> bool" where
  "one_event S s s' \<longleftrightarrow> (\<exists>(dumps :: payload \<Rightarrow> string) i n p tn act.
     s' = snd (publish S dumps i n ''document.created'' p tn act s))"

definition completed :: "string \<Rightarrow> ('st, 's) ingest \<Rightarrow> bool" where
  "completed sid w \<longleftrightarrow>
     (\<exists>s. qs_get (\<lambda>r. us_id r = sid) (in_sessions w) = Inr s \<and> us_state s = DOCUMENT_CREATED)"

lemma completed_noop: "completed sid w \<Longrightarrow> run_pipeline env sid w = (Inr (), w)"
  by (auto simp: completed_def run_pipeline_def)

lemma one_eventI:
  "one_event S s (snd (publish S (dumps :: payload \<Rightarrow> string) i n ''document.created'' p tn act s))"
  unfolding one_event_def by blast

lemma run_pipeline_effects:
  assumes "keeps_id env" and "ie_stream env = S" and "run_pipeline env sid w = (r, w')"
  shows "in_store w' = in_store w \<and> in_tasks w' = in_tasks w \<and> other_rows sid w' = other_rows sid w
    \<and> (isl r \<longrightarrow> in_stream w' = in_stream w)
    \<and> (in_stream w' = in_stream w \<or> one_event S (in_stream w) (in_stream w') \<and> completed sid w')"
proof -
  from assms have w': "(r, w') = after env sid w (ending_of env sid w)" by (simp add: run_pipeline_after)
  show ?thesis
  proof (cases "ending_of env sid w")
    case (Published s')
    then obtain s where s: "qs_get (\<lambda>r. us_id r = sid) (in_sessions w) = Inr s"
      by (auto simp: ending_of_def split: sum.splits)
    from w' Published have eq: "r = Inr ()" "w' = set_row sid
        (\<lambda>r. r\<lparr>us_state := DOCUMENT_CREATED, us_updated_at := ie_now env\<rparr>) (w\<lparr>in_stream := in_stream w'\<rparr>)"
      and ev: "one_event S (in_stream w) (in_stream w')"
      using assms(2) by (simp_all add: after_def one_eventI)
    have "qs_get (\<lambda>r. us_id r = sid) (in_sessions w')
        = Inr (s\<lparr>us_state := DOCUMENT_CREATED, us_updated_at := ie_now env\<rparr>)"
      using qs_get_Inr_D(2) [OF s] by (subst eq(2)) (simp add: set_row_def qs_get_save_row_same [OF s])
    then have "completed sid w'" by (simp add: completed_def)
    moreover have "other_rows sid w' = other_rows sid w"
      by (subst eq(2)) (simp add: other_rows_def set_row_others)
    moreover have "in_store w' = in_store w" "in_tasks w' = in_tasks w"
      by (subst eq(2), simp)+
    ultimately show ?thesis using ev eq(1) by simp
  qed (use w' in \<open>auto simp: after_def other_rows_def set_row_others\<close>)
qed

text \<open>The Celery task around the pipeline, whatever fails and however the environment changes
  between its runs: it runs the body one to four times and raises only after four; it never
  touches the storage, the task queue or another session; it adds at most one event, and
  never one when it raises; and once it has added one, every later run for that session
  does nothing.\<close>

theorem pipeline_task_once:
  assumes "\<forall>k. keeps_id (envs k) \<and> ie_stream (envs k) = S" and "run_pipeline_task envs sid w = (r, k, w')"
  shows "1 \<le> k \<and> k \<le> 4 \<and> (isl r \<longrightarrow> k = 4 \<and> in_stream w' = in_stream w)
    \<and> in_store w' = in_store w \<and> in_tasks w' = in_tasks w \<and> other_rows sid w' = other_rows sid w
    \<and> (in_stream w' = in_stream w \<or> one_event S (in_stream w) (in_stream w')
         \<and> (\<forall>env. run_pipeline env sid w' = (Inr (), w')))"
proof -
  have "Suc j \<le> k \<and> k \<le> Suc (j + n) \<and> (isl r \<longrightarrow> k = Suc (j + n) \<and> in_stream w' = in_stream w)
    \<and> in_store w' = in_store w \<and> in_tasks w' = in_tasks w \<and> other_rows sid w' = other_rows sid w
    \<and> (in_stream w' = in_stream w \<or> one_event S (in_stream w) (in_stream w') \<and> completed sid w')"
    if "pipeline_attempts n envs j sid w = (r, k, w')" for n j
    using that
  proof (induction n arbitrary: j w)
    case 0
    then obtain r' where "run_pipeline (envs j) sid w = (r', w')" "r = r'" "k = Suc j"
      by (auto simp: Let_def split: prod.splits)
    with run_pipeline_effects [of "envs j" S sid w r w'] assms(1) show ?case by auto
  next
    case (Suc n)
    obtain r1 w1 where run: "run_pipeline (envs j) sid w = (r1, w1)" by fastforce
    from assms(1) have "keeps_id (envs j)" "ie_stream (envs j) = S" by auto
    note eff = run_pipeline_effects [OF this run]
    show ?case
    proof (cases r1)
      case (Inl e)
      with Suc.prems run have "pipeline_attempts n envs (Suc j) sid w1 = (r, k, w')" by simp
      from Suc.IH [OF this] eff Inl show ?thesis by auto
    next
      case (Inr u)
      with Suc.prems run have "r = Inr u" "k = Suc j" "w' = w1" by auto
      with eff show ?thesis by auto
    qed
  qed
  from this [of 3 0] assms(2) completed_noop [of sid w'] show ?thesis
    by (auto simp: run_pipeline_task_def numeral_eq_Suc)
qed

lemma pipeline_task_once_witness:
  "\<exists>r k w'. run_pipeline_task (\<lambda>k. sample_ingest_env (int k)) ''s1'' (sample_ingest UPLOADED) = (r, k, w')
     \<and> 1 \<le> k \<and> k \<le> 4"
proof -
  obtain r k w' where run: "run_pipeline_task (\<lambda>k. sample_ingest_env (int k)) ''s1'' (sample_ingest UPLOADED) = (r, k, w')"
    by (cases "run_pipeline_task (\<lambda>k. sample_ingest_env (int k)) ''s1'' (sample_ingest UPLOADED)") auto
  have "\<forall>k. keeps_id (sample_ingest_env (int k)) \<and> ie_stream (sample_ingest_env (int k)) = log_ops"
    by (auto intro: resolved_keeps_id [of _ id] simp: sample_ingest_env_def)
  from pipeline_task_once [OF this run] run show ?thesis by blast
qed

text \<open>The upload view, over any storage that keeps its contract.  It answers 404, 400 or 204;
  anything but 204 changes nothing, and a session of another tenant is always a 404.  On 204
  the session was one of the token's tenant, its key opens to the uploaded bytes, other
  stored files, sessions and the stream are untouched and one pipeline task is queued.  The
  state of the session is not looked at: a completed one is accepted and no longer
  completed, so its pipeline will publish again.\<close>

theorem upload_put_effects:
  assumes "storage_provider P" and "upload_put P now rq pk f w = (Inr code, w')"
  shows "code \<in> {404, 400, 204}
    \<and> ((\<forall>r \<in> set (in_sessions w). us_id r = pk \<longrightarrow> get_tenant_id rq \<noteq> Some (us_tenant r)) \<longrightarrow> code = 404)
    \<and> (code \<noteq> 204 \<longrightarrow> w' = w)
    \<and> (code = 204 \<longrightarrow> (\<exists>s fo key. f = Some fo \<and> s \<in> set (in_sessions w) \<and> us_id s = pk
         \<and> get_tenant_id rq = Some (us_tenant s)
         \<and> contents P (in_store w') key = Some (fst (file_read_all fo))
         \<and> (\<forall>k. k \<noteq> key \<longrightarrow> contents P (in_store w') k = contents P (in_store w) k)
         \<and> (\<forall>r \<in> set (in_sessions w'). us_id r = pk \<longrightarrow>
              us_state r = UPLOADED \<and> us_storage_key r = Some key)
         \<and> \<not> completed pk w'
         \<and> other_rows pk w' = other_rows pk w \<and> in_stream w' = in_stream w
         \<and> in_tasks w' = in_tasks w @ [pk]))"
proof -
  let ?Q = "\<lambda>r. us_id r = pk \<and> get_tenant_id rq = Some (us_tenant r)"
  consider (none) "qs_get ?Q (in_sessions w) = Inl DoesNotExist" "code = 404" "w' = w"
    | (bad) s where "qs_get ?Q (in_sessions w) = Inr s" "code = 400" "w' = w"
    | (ok) s fo key st where "qs_get ?Q (in_sessions w) = Inr s" "f = Some fo" "code = 204"
        "sg_save P (us_id s) fo (in_store w) = (Inr key, st)"
        "w' = w\<lparr>in_store := st, in_sessions := save_row (\<lambda>r. us_id r = us_id s)
            (\<lambda>r. r\<lparr>us_storage_key := Some key, us_state := UPLOADED, us_updated_at := now\<rparr>)
            (in_sessions w), in_tasks := in_tasks w @ [us_id s]\<rparr>"
  proof (cases "qs_get ?Q (in_sessions w)")
    case (Inl e)
    with assms(2) have "e = DoesNotExist" by (cases e) (simp_all add: upload_put_def)
    with Inl assms(2) have "code = 404" "w' = w" by (simp_all add: upload_put_def)
    with none Inl \<open>e = DoesNotExist\<close> show ?thesis by blast
  next
    case (Inr s)
    show ?thesis
    proof (cases "\<exists>fo. f = Some fo \<and> truthy (fl_name fo)")
      case True
      then obtain fo where fo: "f = Some fo" "truthy (fl_name fo)" by blast
      obtain r st where sv: "sg_save P (us_id s) fo (in_store w) = (r, st)" by fastforce
      with Inr fo assms(2) obtain key where "r = Inr key" by (cases r) (simp_all add: upload_put_def)
      with assms(2) have "code = 204" "w' = w\<lparr>in_store := st, in_sessions := save_row (\<lambda>r. us_id r = us_id s)
            (\<lambda>r. r\<lparr>us_storage_key := Some key, us_state := UPLOADED, us_updated_at := now\<rparr>)
            (in_sessions w), in_tasks := in_tasks w @ [us_id s]\<rparr>"
        by (simp_all add: upload_put_def Inr fo sv)
      with ok Inr fo(1) sv \<open>r = Inr key\<close> show ?thesis by blast
    next
      case False
      with assms(2) have "code = 400" "w' = w"
        by (auto simp: upload_put_def Inr split: option.splits)
      with bad Inr show ?thesis by blast
    qed
  qed
  then show ?thesis
  proof cases
    case none
    then show ?thesis by simp
  next
    case bad
    with qs_get_Inr_D [OF bad(1)] show ?thesis by auto
  next
    case ok
    note s = qs_get_Inr_D [OF ok(1)]
    let ?f = "\<lambda>r. r\<lparr>us_storage_key := Some key, us_state := UPLOADED, us_updated_at := now\<rparr>"
    have w': "w' = set_row pk ?f (w\<lparr>in_store := st, in_tasks := in_tasks w @ [pk]\<rparr>)"
      using ok(5) s(2) by (simp add: set_row_def)
    have store: "in_store w' = st" "in_stream w' = in_stream w" "in_tasks w' = in_tasks w @ [pk]"
      by (simp_all add: w')
    have others: "other_rows pk w' = other_rows pk w"
      by (simp add: w' other_rows_def set_row_others)
    have rows: "us_state r = UPLOADED \<and> us_storage_key r = Some key"
      if "r \<in> set (in_sessions w')" "us_id r = pk" for r
    proof -
      from that(1) have "r \<in> set (in_sessions (set_row pk ?f
          (w\<lparr>in_store := st, in_tasks := in_tasks w @ [pk]\<rparr>)))" by (simp only: w')
      from set_row_rows [OF this that(2)] obtain x where "r = ?f x" by auto
      then show ?thesis by simp
    qed
    have again: "\<not> completed pk w'"
    proof
      assume "completed pk w'"
      then obtain x where x: "qs_get (\<lambda>r. us_id r = pk) (in_sessions w') = Inr x"
        and "us_state x = DOCUMENT_CREATED" by (auto simp: completed_def)
      with rows [OF qs_get_Inr_D(1) [OF x]] qs_get_Inr_D(2) [OF x] show False by simp
    qed
    have content: "contents P st key = Some (fst (file_read_all fo))"
      "\<forall>k. k \<noteq> key \<longrightarrow> contents P st k = contents P (in_store w) k"
      using storage_provider.open_saved [OF assms(1) ok(4)]
        storage_provider.save_other [OF assms(1) ok(4)] by simp_all
    show ?thesis unfolding store ok(3)
    proof (intro conjI impI)
      show "\<exists>s fo key. f = Some fo \<and> s \<in> set (in_sessions w) \<and> us_id s = pk
         \<and> get_tenant_id rq = Some (us_tenant s)
         \<and> contents P st key = Some (fst (file_read_all fo))
         \<and> (\<forall>k. k \<noteq> key \<longrightarrow> contents P st k = contents P (in_store w) k)
         \<and> (\<forall>r \<in> set (in_sessions w'). us_id r = pk \<longrightarrow> us_state r = UPLOADED \<and> us_storage_key r = Some key)
         \<and> \<not> completed pk w'
         \<and> other_rows pk w' = other_rows pk w \<and> in_stream w = in_stream w
         \<and> in_tasks w @ [pk] = in_tasks w @ [pk]"
        using ok(2) s content rows again others
        by (intro exI [of _ s] exI [of _ fo] exI [of _ key] conjI) simp_all
    qed (use s in auto)
  qed
qed

lemma upload_put_effects_witness:
  "\<exists>w'. upload_put (memory_storage (generate_storage_name ''now'')) 5
        (sample_request (Some (sample_user ''u'' False)) (Some ''t1'')) ''s1''
        (Some \<lparr>fl_name = Some ''a.pdf'', fl_data = ''new'', fl_pos = 0\<rparr>) (sample_ingest DOCUMENT_CREATED)
      = (Inr 204, w') \<and> \<not> completed ''s1'' w' \<and> in_tasks w' = [''s1'']"
proof -
  let ?rq = "sample_request (Some (sample_user ''u'' False)) (Some ''t1'')"
  have rq: "get_tenant_id ?rq = Some ''t1''" by (simp add: sample_request_def get_tenant_id_def)
  obtain w' where run: "upload_put (memory_storage (generate_storage_name ''now'')) 5 ?rq ''s1''
      (Some \<lparr>fl_name = Some ''a.pdf'', fl_data = ''new'', fl_pos = 0\<rparr>) (sample_ingest DOCUMENT_CREATED)
      = (Inr 204, w')"
    by (simp add: upload_put_def sample_ingest_def sample_session_def qs_get_def rq memory_storage_def
        base_save_def memory_save_hook_def)
  from upload_put_effects [OF memory.storage_provider_axioms run] run show ?thesis
    by (simp add: sample_ingest_def) blast
qed

end
