(* ===== verification/Lifecycle.thy ===== *)
theory Lifecycle
  imports AccessControl Metadata
begin

text \<open>
  The write lifecycle of every resource (\<open>core/base/serializers.py\<close>, \<open>core/base/views.py\<close>): the
  resolution of plugins, the hooks around create, update and destroy, the plugins that
  inject the tenant (\<open>apps/tenants/plugins.py\<close>), write the audit log (\<open>apps/sys_audit\<close>) and
  mark fields read-only (\<open>core/serializers/plugins.py\<close>), the validator of uniqueness within
  a tenant (\<open>core/validators/serializers.py\<close>), and soft deletion (\<open>core/base/models.py\<close>).
\<close>

section \<open>Actions that may raise\<close>

text \<open>
  A step of a request: it reads and changes the database and returns or raises.  There is
  no transaction around a request, so what was written before an exception stays.
\<close>

type_synonym ('w, 'a) act = "'w \<Rightarrow> 'a res \<times> 'w"

definition ret :: "'a \<Rightarrow> ('w, 'a) act" where
  "ret x w = (Inr x, w)"

definition raise_exn :: "exn \<Rightarrow> ('w, 'a) act" where
  "raise_exn e w = (Inl e, w)"

definition bind_act :: "('w, 'a) act \<Rightarrow> ('a \<Rightarrow> ('w, 'b) act) \<Rightarrow> ('w, 'b) act" where
  "bind_act m k w = (case m w of (Inl e, w') \<Rightarrow> (Inl e, w') | (Inr x, w') \<Rightarrow> k x w')"

definition lift_res :: "'a res \<Rightarrow> ('w, 'a) act" where
  "lift_res r w = (r, w)"

lemma bind_act_simps [simp]:
  "bind_act (ret x) k = k x"
  "bind_act (raise_exn e) k = raise_exn e"
  "bind_act (lift_res (Inr x)) k = k x"
  "bind_act (lift_res (Inl e)) k = raise_exn e"
  by (simp_all add: bind_act_def ret_def raise_exn_def lift_res_def fun_eq_iff)

lemma act_simps [simp]:
  "ret x w = (Inr x, w)" "raise_exn e w = (Inl e, w)" "lift_res r w = (r, w)"
  by (simp_all add: ret_def raise_exn_def lift_res_def)

lemma bind_act_Inr: "m w = (Inr x, w') \<Longrightarrow> bind_act m k w = k x w'"
  by (simp add: bind_act_def)

lemma bind_act_Inl: "m w = (Inl e, w') \<Longrightarrow> bind_act m k w = (Inl e, w')"
  by (simp add: bind_act_def)

lemma bind_act_Inr_iff:
  "bind_act m k w = (Inr y, w'') \<longleftrightarrow> (\<exists>x w'. m w = (Inr x, w') \<and> k x w' = (Inr y, w''))"
  by (auto simp: bind_act_def split: prod.splits sum.splits)

section \<open>Plugins and hooks\<close>

type_synonym attrs = "(string \<times> json) list"

text \<open>
  A serializer plugin has any of the hooks (\<open>None\<close>: \<open>hasattr\<close> is false).  \<open>'i\<close> is the model
  instance.  A hook that receives the data returns it as it leaves it.
\<close>

record ('i, 'w) plugin =
  pl_name :: string
  pl_pre_create :: "(attrs \<Rightarrow> ('w, attrs) act) option"
  pl_post_create :: "('i \<Rightarrow> ('w, unit) act) option"
  pl_pre_update :: "('i \<Rightarrow> attrs \<Rightarrow> ('w, attrs) act) option"
  pl_post_update :: "('i \<Rightarrow> ('w, unit) act) option"

record ('i, 'w) hooks =
  hk_pre_create :: "attrs \<Rightarrow> ('w, attrs) act"
  hk_do_create :: "attrs \<Rightarrow> ('w, 'i) act"
  hk_post_create :: "'i \<Rightarrow> attrs \<Rightarrow> ('w, unit) act"
  hk_pre_update :: "'i \<Rightarrow> attrs \<Rightarrow> ('w, attrs) act"
  hk_do_update :: "'i \<Rightarrow> attrs \<Rightarrow> ('w, 'i) act"
  hk_post_update :: "'i \<Rightarrow> attrs \<Rightarrow> ('w, unit) act"

text \<open>\<open>_get_plugins\<close>: global ones first, then local ones, without the excluded.\<close>

definition get_plugins ::
  "('i, 'w) plugin list \<Rightarrow> ('i, 'w) plugin list \<Rightarrow> string list \<Rightarrow> ('i, 'w) plugin list" where
  "get_plugins global_plugins local_plugins excluded =
     filter (\<lambda>p. pl_name p \<notin> set excluded) (global_plugins @ local_plugins)"

fun run_data_hooks :: "(attrs \<Rightarrow> ('w, attrs) act) option list \<Rightarrow> attrs \<Rightarrow> ('w, attrs) act" where
  "run_data_hooks [] d = ret d"
| "run_data_hooks (None # hs) d = run_data_hooks hs d"
| "run_data_hooks (Some h # hs) d = bind_act (h d) (\<lambda>d'. run_data_hooks hs d')"

fun run_instance_hooks :: "('i \<Rightarrow> ('w, unit) act) option list \<Rightarrow> 'i \<Rightarrow> ('w, unit) act" where
  "run_instance_hooks [] i = ret ()"
| "run_instance_hooks (None # hs) i = run_instance_hooks hs i"
| "run_instance_hooks (Some h # hs) i = bind_act (h i) (\<lambda>_. run_instance_hooks hs i)"

definition serializer_create ::
  "('i, 'w) plugin list \<Rightarrow> ('i, 'w) hooks \<Rightarrow> attrs \<Rightarrow> ('w, 'i) act" where
  "serializer_create plugins H validated_data =
     bind_act (run_data_hooks (map pl_pre_create plugins) validated_data) (\<lambda>d1.
     bind_act (hk_pre_create H d1) (\<lambda>d2.
     bind_act (hk_do_create H d2) (\<lambda>i.
     bind_act (hk_post_create H i d2) (\<lambda>_.
     bind_act (run_instance_hooks (map pl_post_create plugins) i) (\<lambda>_. ret i)))))"

definition serializer_update ::
  "('i, 'w) plugin list \<Rightarrow> ('i, 'w) hooks \<Rightarrow> 'i \<Rightarrow> attrs \<Rightarrow> ('w, 'i) act" where
  "serializer_update plugins H i validated_data =
     bind_act (run_data_hooks (map (\<lambda>p. map_option (\<lambda>h. h i) (pl_pre_update p)) plugins)
         validated_data) (\<lambda>d1.
     bind_act (hk_pre_update H i d1) (\<lambda>d2.
     bind_act (hk_do_update H i d2) (\<lambda>i'.
     bind_act (hk_post_update H i' d2) (\<lambda>_.
     bind_act (run_instance_hooks (map pl_post_update plugins) i') (\<lambda>_. ret i')))))"

text \<open>The hooks a serializer does not override.\<close>

definition default_hooks ::
  "(attrs \<Rightarrow> ('w, 'i) act) \<Rightarrow> ('i \<Rightarrow> attrs \<Rightarrow> ('w, 'i) act) \<Rightarrow> ('i, 'w) hooks" where
  "default_hooks create update = \<lparr>hk_pre_create = ret, hk_do_create = create,
     hk_post_create = (\<lambda>i d. ret ()), hk_pre_update = (\<lambda>i. ret), hk_do_update = update,
     hk_post_update = (\<lambda>i d. ret ())\<rparr>"

section \<open>The tenant plugin\<close>

text \<open>
  \<open>request = None\<close> is a serializer context without a request; \<open>has_tenant\<close> says whether the
  model has a \<open>tenant_id\<close>, \<open>tenant_of_instance\<close> is the instance's.
\<close>

definition injection_tenant_id :: "request option \<Rightarrow> string option" where
  "injection_tenant_id request = (case request of None \<Rightarrow> None | Some rq \<Rightarrow> get_tenant_id rq)"

definition tenant_pre_create :: "bool \<Rightarrow> request option \<Rightarrow> attrs \<Rightarrow> ('w, attrs) act" where
  "tenant_pre_create has_tenant request d =
     (if \<not> has_tenant then ret d
      else if \<not> truthy (injection_tenant_id request)
      then raise_exn (PermissionDenied ''No tenant context in token.'' ''permission_denied'')
      else ret (dict_set ''tenant_id'' (JStr (or_empty (injection_tenant_id request))) d))"

definition tenant_pre_update ::
  "bool \<Rightarrow> ('i \<Rightarrow> string) \<Rightarrow> 'i \<Rightarrow> attrs \<Rightarrow> ('w, attrs) act" where
  "tenant_pre_update has_tenant tenant_of_instance i d =
     (if \<not> has_tenant then ret d
      else (case map_of d ''tenant_id'' of
          None \<Rightarrow> ret d
        | Some t \<Rightarrow>
            if t \<noteq> JStr (tenant_of_instance i)
            then raise_exn (PermissionDenied ''Tenant reassignment is not allowed.'' ''permission_denied'')
            else ret (dict_pop ''tenant_id'' d)))"

definition tenant_injection ::
  "bool \<Rightarrow> ('i \<Rightarrow> string) \<Rightarrow> request option \<Rightarrow> ('i, 'w) plugin" where
  "tenant_injection has_tenant tenant_of_instance request =
     \<lparr>pl_name = ''TenantInjectionSerializerPlugin'',
      pl_pre_create = Some (tenant_pre_create has_tenant request), pl_post_create = None,
      pl_pre_update = Some (tenant_pre_update has_tenant tenant_of_instance),
      pl_post_update = None\<rparr>"

section \<open>The audit log\<close>

record audit_entry =
  au_actor :: user
  au_action :: string
  au_target_type :: string
  au_target_id :: string
  au_tenant :: "string option"
  au_changes :: attrs

record 'w app =
  ap_db :: 'w
  ap_audit :: "audit_entry list"

text \<open>
  \<open>log_audit\<close>: the anonymous user is an object, so it passes the plugin's test for truth, and
  the foreign key to a user rejects it.  Changes are stored as their JSON values.
\<close>

definition log_audit ::
  "user option \<Rightarrow> string \<Rightarrow> string \<Rightarrow> string \<Rightarrow> string option \<Rightarrow> attrs \<Rightarrow> ('w app, unit) act" where
  "log_audit actor action target_type target_id tenant_id changes w =
     (case actor of
        None \<Rightarrow> (Inl ValueErr, w)
      | Some u \<Rightarrow> (Inr (), w\<lparr>ap_audit := ap_audit w @ [\<lparr>au_actor = u, au_action = action,
            au_target_type = target_type, au_target_id = target_id, au_tenant = tenant_id,
            au_changes = changes\<rparr>]\<rparr>))"

definition audit_write ::
  "request option \<Rightarrow> string \<Rightarrow> string \<Rightarrow> string \<Rightarrow> attrs \<Rightarrow> ('w app, unit) act" where
  "audit_write request action target_type target_id changes =
     (case request of
        None \<Rightarrow> raise_exn RuntimeErr
      | Some rq \<Rightarrow> log_audit (rq_user rq) action target_type target_id (injection_tenant_id request) changes)"

text \<open>
  \<open>_build_update_diff\<close>: \<open>validated\<close> is the serializer's \<open>_validated_data\<close>, \<open>getattr_of i\<close> the
  attributes of the instance as the post-update hook finds it.
\<close>

definition build_update_diff :: "attrs \<Rightarrow> ('i \<Rightarrow> string \<rightharpoonup> json) \<Rightarrow> 'i \<Rightarrow> attrs" where
  "build_update_diff validated getattr_of i =
     map (\<lambda>(k, new). (k, JObj [(''old'', JStr (json_str (case getattr_of i k of None \<Rightarrow> JNull | Some v \<Rightarrow> v))),
                               (''new'', JStr (json_str new))]))
       (filter (\<lambda>(k, new). (case getattr_of i k of None \<Rightarrow> JNull | Some v \<Rightarrow> v) \<noteq> new) validated)"

definition audit_plugin ::
  "request option \<Rightarrow> string \<Rightarrow> ('i \<Rightarrow> string) \<Rightarrow> ('i \<Rightarrow> attrs) \<Rightarrow> attrs \<Rightarrow> ('i \<Rightarrow> string \<rightharpoonup> json)
    \<Rightarrow> ('i, 'w app) plugin" where
  "audit_plugin request label pk_of represent validated getattr_of =
     \<lparr>pl_name = ''AuditSerializerPlugin'', pl_pre_create = None,
      pl_post_create = Some (\<lambda>i. audit_write request ''create'' label (pk_of i) (represent i)),
      pl_pre_update = None,
      pl_post_update = Some (\<lambda>i. audit_write request ''update'' label (pk_of i)
         (build_update_diff validated getattr_of i))\<rparr>"

text \<open>\<open>AuditLog.save\<close>, \<open>delete\<close> and the manager's \<open>update\<close> and \<open>delete\<close>.\<close>

definition audit_save :: "bool \<Rightarrow> audit_entry \<Rightarrow> ('w app, unit) act" where
  "audit_save adding e w =
     (if \<not> adding then (Inl NotImplementedErr, w) else (Inr (), w\<lparr>ap_audit := ap_audit w @ [e]\<rparr>))"

definition audit_manager_update :: "('w app, unit) act" where
  "audit_manager_update = raise_exn NotImplementedErr"

definition audit_manager_delete :: "('w app, unit) act" where
  "audit_manager_delete = raise_exn NotImplementedErr"

definition audit_delete :: "audit_entry \<Rightarrow> ('w app, unit) act" where
  "audit_delete e = raise_exn NotImplementedErr"

section \<open>Destroying and soft deletion\<close>

text \<open>\<open>perform_destroy\<close> with the audit plugin of viewsets.\<close>

definition audit_on_post_destroy ::
  "request option \<Rightarrow> string \<Rightarrow> string \<Rightarrow> ('w app, unit) act" where
  "audit_on_post_destroy request label pk = audit_write request ''delete'' label pk []"

definition perform_destroy ::
  "('w app, unit) act \<Rightarrow> ('w app, unit) act \<Rightarrow> ('w app, unit) act \<Rightarrow> request option \<Rightarrow> string \<Rightarrow> string
    \<Rightarrow> ('w app, unit) act" where
  "perform_destroy pre_destroy delete post_destroy request label pk =
     bind_act pre_destroy (\<lambda>_. bind_act delete (\<lambda>_. bind_act post_destroy (\<lambda>_.
       audit_on_post_destroy request label pk)))"

record deletable =
  sd_pk :: string
  sd_deleted_at :: "int option"

definition soft_delete :: "int \<Rightarrow> string \<Rightarrow> deletable list \<Rightarrow> deletable list" where
  "soft_delete now pk rows = save_row (\<lambda>r. sd_pk r = pk) (\<lambda>r. r\<lparr>sd_deleted_at := Some now\<rparr>) rows"

definition hard_delete :: "string \<Rightarrow> deletable list \<Rightarrow> deletable list" where
  "hard_delete pk rows = filter (\<lambda>r. sd_pk r \<noteq> pk) rows"

definition get_active :: "deletable list \<Rightarrow> deletable list" where
  "get_active rows = filter (\<lambda>r. sd_deleted_at r = None) rows"

definition get_deleted :: "deletable list \<Rightarrow> deletable list" where
  "get_deleted rows = filter (\<lambda>r. sd_deleted_at r \<noteq> None) rows"

section \<open>Fields and uniqueness\<close>

record model_field =
  mf_primary_key :: bool
  mf_editable :: bool
  mf_auto_now :: bool
  mf_auto_now_add :: bool

text \<open>
  \<open>NonEditableFieldsSerializerPlugin.filter_fields\<close>: a field is its name and its read-only
  flag; DRF takes from the request the fields that are not read-only.
\<close>

definition filter_fields ::
  "(string \<rightharpoonup> model_field) \<Rightarrow> (string \<times> bool) list \<Rightarrow> (string \<times> bool) list" where
  "filter_fields model flds =
     map (\<lambda>(n, ro). case model n of
         None \<Rightarrow> (n, ro)
       | Some f \<Rightarrow> (n, if mf_primary_key f \<or> \<not> mf_editable f \<or> mf_auto_now f \<or> mf_auto_now_add f
                       then True else ro)) flds"

definition writable_data :: "(string \<times> bool) list \<Rightarrow> attrs \<Rightarrow> attrs" where
  "writable_data flds d = filter (\<lambda>(k, v). (k, False) \<in> set flds) d"

text \<open>
  \<open>UniqueTogetherContextValidator\<close>: \<open>fields\<close> and \<open>context_fields\<close> map lookups to the names of
  attributes and context keys, \<open>col r l\<close> is the value of row \<open>r\<close> at lookup \<open>l\<close>.  The rows are
  those of the scoped manager.
\<close>

fun context_filters :: "(string \<times> string) list \<Rightarrow> (string \<rightharpoonup> json) \<Rightarrow> attrs res" where
  "context_filters [] context = Inr []"
| "context_filters ((l, k) # cs) context =
     (case context k of
        None \<Rightarrow> Inl KeyErr
      | Some v \<Rightarrow> bind_res (context_filters cs context) (\<lambda>fs. Inr ((l, v) # fs)))"

definition field_filters :: "(string \<times> string) list \<Rightarrow> attrs \<Rightarrow> attrs" where
  "field_filters flds d =
     concat (map (\<lambda>(l, f). case map_of d f of None \<Rightarrow> [] | Some v \<Rightarrow> [(l, v)]) flds)"

definition unique_together ::
  "(string \<times> string) list \<Rightarrow> (string \<times> string) list \<Rightarrow> string \<Rightarrow> ('r \<Rightarrow> string) \<Rightarrow> ('r \<Rightarrow> string \<Rightarrow> json)
    \<Rightarrow> (string \<rightharpoonup> json) \<Rightarrow> 'r option \<Rightarrow> 'r list \<Rightarrow> attrs \<Rightarrow> unit res" where
  "unique_together flds context_fields message pk_of col context instance_row rows d =
     (let own = field_filters flds d in
      if own = [] then Inr ()
      else bind_res (context_filters context_fields context) (\<lambda>ctx.
        let same = filter (\<lambda>r. \<forall>(l, v) \<in> set (fold (\<lambda>(l, v). dict_set l v) ctx own). col r l = v) rows;
            others = (case instance_row of None \<Rightarrow> same
                      | Some i \<Rightarrow> filter (\<lambda>r. pk_of r \<noteq> pk_of i) same)
        in guard (others = []) (ValidationError [] message ''already_exists'')))"

section \<open>Facts about the lifecycle\<close>

lemma writable_not_readonly:
  "model n = Some f \<Longrightarrow> mf_primary_key f \<or> \<not> mf_editable f \<or> mf_auto_now f \<or> mf_auto_now_add f \<Longrightarrow>
     map_of (writable_data (filter_fields model flds) d) n = None"
  by (auto simp: writable_data_def filter_fields_def map_of_eq_None_iff split: option.splits if_splits)

lemma active_deleted_partition:
  "set (get_active rows) \<union> set (get_deleted rows) = set rows"
  "set (get_active rows) \<inter> set (get_deleted rows) = {}"
  by (auto simp: get_active_def get_deleted_def)

lemma soft_delete_active:
  "get_active (soft_delete now pk rows) = filter (\<lambda>r. sd_pk r \<noteq> pk) (get_active rows)"
  by (induction rows) (auto simp: get_active_def soft_delete_def)

lemma hard_delete_active:
  "get_active (hard_delete pk rows) = filter (\<lambda>r. sd_pk r \<noteq> pk) (get_active rows)"
  by (simp add: get_active_def hard_delete_def conj_commute)

text \<open>A model's own part of a create: its hooks around \<open>do_create\<close>.\<close>

definition own_create :: "('i, 'w) hooks \<Rightarrow> attrs \<Rightarrow> ('w, 'i) act" where
  "own_create H d =
     bind_act (hk_pre_create H d) (\<lambda>d2. bind_act (hk_do_create H d2) (\<lambda>i.
     bind_act (hk_post_create H i d2) (\<lambda>_. ret i)))"

lemma bind_act_assoc: "bind_act (bind_act m f) g = bind_act m (\<lambda>x. bind_act (f x) g)"
  by (auto simp: bind_act_def fun_eq_iff split: prod.splits sum.splits)

lemma serializer_create_own:
  "serializer_create ps H d = bind_act (run_data_hooks (map pl_pre_create ps) d) (\<lambda>d1.
     bind_act (own_create H d1) (\<lambda>i. bind_act (run_instance_hooks (map pl_post_create ps) i) (\<lambda>_. ret i)))"
  by (simp add: serializer_create_def own_create_def bind_act_assoc)

text \<open>The plugins of the settings that act on a write.\<close>

definition write_plugins ::
  "('i \<Rightarrow> string) \<Rightarrow> request \<Rightarrow> string \<Rightarrow> ('i \<Rightarrow> string) \<Rightarrow> ('i \<Rightarrow> attrs) \<Rightarrow> attrs
    \<Rightarrow> ('i \<Rightarrow> string \<rightharpoonup> json) \<Rightarrow> ('i, 'w app) plugin list" where
  "write_plugins tenant_of_instance rq label pk_of represent validated getattr_of =
     get_plugins [\<lparr>pl_name = ''NonEditableFieldsSerializerPlugin'', pl_pre_create = None,
          pl_post_create = None, pl_pre_update = None, pl_post_update = None\<rparr>,
        tenant_injection True tenant_of_instance (Some rq),
        audit_plugin (Some rq) label pk_of represent validated getattr_of] [] []"

lemma write_plugins_eq:
  "write_plugins ti rq label pk rep val ga =
     [\<lparr>pl_name = ''NonEditableFieldsSerializerPlugin'', pl_pre_create = None,
          pl_post_create = None, pl_pre_update = None, pl_post_update = None\<rparr>,
        tenant_injection True ti (Some rq), audit_plugin (Some rq) label pk rep val ga]"
  by (simp add: write_plugins_def get_plugins_def)

section \<open>Outcomes of the lifecycle\<close>

text \<open>A create and an update under the configured plugins.\<close>

lemma serializer_create_eq:
  fixes w :: "'w app"
  shows "serializer_create (write_plugins ti rq label pk rep val ga) H d w =
     (case tenant_of rq of
        None \<Rightarrow> (Inl (PermissionDenied ''No tenant context in token.'' ''permission_denied''), w)
      | Some t \<Rightarrow>
         (case own_create H (dict_set ''tenant_id'' (JStr t) d) w of
            (Inl e, w') \<Rightarrow> (Inl e, w')
          | (Inr i, w') \<Rightarrow>
             (case rq_user rq of
                None \<Rightarrow> (Inl ValueErr, w')
              | Some u \<Rightarrow> (Inr i, w'\<lparr>ap_audit := ap_audit w' @ [\<lparr>au_actor = u, au_action = ''create'',
                  au_target_type = label, au_target_id = pk i, au_tenant = Some t,
                  au_changes = rep i\<rparr>]\<rparr>))))"
proof (cases "tenant_of rq")
  case None
  then have "\<not> truthy (get_tenant_id rq)" by (simp add: tenant_of_None_iff)
  then have "run_data_hooks (map pl_pre_create (write_plugins ti rq label pk rep val ga)) d =
      (raise_exn (PermissionDenied ''No tenant context in token.'' ''permission_denied'') :: ('w app, attrs) act)"
    by (simp add: write_plugins_eq tenant_injection_def tenant_pre_create_def injection_tenant_id_def)
  with None show ?thesis by (simp add: serializer_create_own)
next
  case (Some t)
  then have t: "get_tenant_id rq = Some t" "t \<noteq> []" by (simp_all add: tenant_of_Some_iff)
  have pre: "run_data_hooks (map pl_pre_create (write_plugins ti rq label pk rep val ga)) d =
      (ret (dict_set ''tenant_id'' (JStr t) d) :: ('w app, attrs) act)"
    using t by (simp add: write_plugins_eq tenant_injection_def tenant_pre_create_def audit_plugin_def
        injection_tenant_id_def fun_eq_iff)
  have post: "run_instance_hooks (map pl_post_create (write_plugins ti rq label pk rep val ga)) i w' =
      (case rq_user rq of None \<Rightarrow> (Inl ValueErr, w')
       | Some u \<Rightarrow> (Inr (), w'\<lparr>ap_audit := ap_audit w' @ [\<lparr>au_actor = u, au_action = ''create'',
             au_target_type = label, au_target_id = pk i, au_tenant = Some t, au_changes = rep i\<rparr>]\<rparr>))"
    for i and w' :: "'w app"
    using t by (simp add: write_plugins_eq tenant_injection_def audit_plugin_def audit_write_def
        injection_tenant_id_def bind_act_def log_audit_def split: option.splits)
  show ?thesis using Some
    by (auto simp: serializer_create_own pre bind_act_def post split: prod.splits sum.splits option.splits)
qed

lemma serializer_update_eq:
  fixes w :: "'w app"
  assumes "rq_user rq = Some u" and "map_of d ''tenant_id'' = None"
  shows "serializer_update (write_plugins ti rq label pk rep val ga) (default_hooks create update) i d w =
     (case update i d w of
        (Inl e, w') \<Rightarrow> (Inl e, w')
      | (Inr i', w') \<Rightarrow> (Inr i', w'\<lparr>ap_audit := ap_audit w' @ [\<lparr>au_actor = u, au_action = ''update'',
           au_target_type = label, au_target_id = pk i', au_tenant = get_tenant_id rq,
           au_changes = build_update_diff val ga i'\<rparr>]\<rparr>))"
proof -
  have pre: "run_data_hooks (map (\<lambda>p. map_option (\<lambda>h. h i) (pl_pre_update p))
      (write_plugins ti rq label pk rep val ga)) d = (ret d :: ('w app, attrs) act)"
    using assms(2) by (simp add: write_plugins_eq tenant_injection_def tenant_pre_update_def audit_plugin_def fun_eq_iff)
  have post: "run_instance_hooks (map pl_post_update (write_plugins ti rq label pk rep val ga)) i' w' =
      (Inr (), w'\<lparr>ap_audit := ap_audit w' @ [\<lparr>au_actor = u, au_action = ''update'', au_target_type = label,
         au_target_id = pk i', au_tenant = get_tenant_id rq, au_changes = build_update_diff val ga i'\<rparr>]\<rparr>)" for i' and w' :: "'w app"
    using assms(1) by (simp add: write_plugins_eq tenant_injection_def audit_plugin_def audit_write_def
        injection_tenant_id_def bind_act_def log_audit_def)
  show ?thesis
    by (auto simp: serializer_update_def pre default_hooks_def bind_act_def post split: prod.splits sum.splits)
qed

section \<open>Properties of the lifecycle\<close>


text \<open>Every update under the configured plugins by a user of the tenant, of a model that overrides
  no hook and whose update assigns the validated fields: the audit entry it adds has no
  changes at all, because the difference is taken after the assignment; and data naming
  another tenant is refused before anything is written.\<close>

theorem update_audit_diff_empty:
  fixes w :: "'w app"
  assumes "tenant_of rq = Some t" and "rq_user rq = Some u"
    and "update i d w = (Inr i', w')" and "\<forall>(k, v) \<in> set d. ga i' k = Some v"
    and "map_of d ''tenant_id'' = None" and "x \<noteq> JStr (ti i)"
  shows "serializer_update (write_plugins ti rq label pk rep d ga) (default_hooks create update) i d w =
      (Inr i', w'\<lparr>ap_audit := ap_audit w' @ [\<lparr>au_actor = u, au_action = ''update'',
         au_target_type = label, au_target_id = pk i', au_tenant = Some t, au_changes = []\<rparr>]\<rparr>)
    \<and> serializer_update (write_plugins ti rq label pk rep d ga) H i (dict_set ''tenant_id'' x d) w =
      (Inl (PermissionDenied ''Tenant reassignment is not allowed.'' ''permission_denied''), w)"
proof
  have t: "get_tenant_id rq = Some t" "t \<noteq> []" using assms(1) by (simp_all add: tenant_of_Some_iff)
  have diff: "build_update_diff d ga i' = []"
    using assms(4) by (auto simp: build_update_diff_def filter_empty_conv)
  have pre: "run_data_hooks (map (\<lambda>p. map_option (\<lambda>h. h i) (pl_pre_update p))
      (write_plugins ti rq label pk rep d ga)) d = (ret d :: ('w app, attrs) act)"
    using assms(5) by (simp add: write_plugins_eq tenant_injection_def tenant_pre_update_def audit_plugin_def
        fun_eq_iff)
  have post: "run_instance_hooks (map pl_post_update (write_plugins ti rq label pk rep d ga)) i' w' =
      (Inr (), w'\<lparr>ap_audit := ap_audit w' @ [\<lparr>au_actor = u, au_action = ''update'',
         au_target_type = label, au_target_id = pk i', au_tenant = Some t, au_changes = []\<rparr>]\<rparr>)"
    using t assms(2) diff by (simp add: write_plugins_eq tenant_injection_def audit_plugin_def
        audit_write_def injection_tenant_id_def bind_act_def log_audit_def)
  show "serializer_update (write_plugins ti rq label pk rep d ga) (default_hooks create update) i d w =
      (Inr i', w'\<lparr>ap_audit := ap_audit w' @ [\<lparr>au_actor = u, au_action = ''update'',
         au_target_type = label, au_target_id = pk i', au_tenant = Some t, au_changes = []\<rparr>]\<rparr>)"
    using assms(3) post by (simp add: serializer_update_def pre default_hooks_def bind_act_def)
  have "run_data_hooks (map (\<lambda>p. map_option (\<lambda>h. h i) (pl_pre_update p))
      (write_plugins ti rq label pk rep d ga)) (dict_set ''tenant_id'' x d) =
      (raise_exn (PermissionDenied ''Tenant reassignment is not allowed.'' ''permission_denied'') :: ('w app, attrs) act)"
    using assms(6) by (simp add: write_plugins_eq tenant_injection_def tenant_pre_update_def)
  then show "serializer_update (write_plugins ti rq label pk rep d ga) H i (dict_set ''tenant_id'' x d) w =
      (Inl (PermissionDenied ''Tenant reassignment is not allowed.'' ''permission_denied''), w)"
    by (simp add: serializer_update_def)
qed

lemma update_audit_diff_empty_witness:
  "map au_changes (ap_audit (snd (serializer_update
      (write_plugins (\<lambda>i. ''t1'') (sample_request (Some (sample_user ''u'' False)) (Some ''t1'')) ''team''
         (\<lambda>i. ''p'') (\<lambda>i. []) [(''name'', JStr ''new'')] (\<lambda>i k. i k))
      (default_hooks (\<lambda>d. raise_exn KeyErr) (\<lambda>i d. ret (i ++ map_of d)))
      [''name'' \<mapsto> JStr ''old''] [(''name'', JStr ''new'')] \<lparr>ap_db = (), ap_audit = []\<rparr>))) = [[]]"
  using update_audit_diff_empty [of "sample_request (Some (sample_user ''u'' False)) (Some ''t1'')" "''t1''"
      "sample_user ''u'' False" "\<lambda>i d. ret (i ++ map_of d)" "[''name'' \<mapsto> JStr ''old'']"
      "[(''name'', JStr ''new'')]" "\<lparr>ap_db = (), ap_audit = []\<rparr>" _ "\<lparr>ap_db = (), ap_audit = []\<rparr>"
      "\<lambda>i k. i k" JNull "\<lambda>i. ''t1''"]
  by simp

definition tenant_key :: "('r \<Rightarrow> string \<Rightarrow> json) \<Rightarrow> string \<Rightarrow> 'r \<Rightarrow> json \<times> json" where
  "tenant_key col f r = (col r ''tenant_id'', col r f)"

text \<open>The uniqueness validator with the default context: with the field present it accepts
  exactly when no other row of the tenant has the value, and then inserting the row, or
  replacing the instance by it, keeps the pairs of tenant and value distinct.  Without the
  field it accepts anything; with the field and no tenant in the context it raises.\<close>

theorem unique_together_sound:
  "(map_of d f = None \<longrightarrow>
      unique_together [(f, f)] [(''tenant_id'', ''tenant_id'')] m pk col ctx inst rows d = Inr ())
    \<and> (\<forall>v t. map_of d f = Some v \<and> f \<noteq> ''tenant_id'' \<longrightarrow>
       (ctx ''tenant_id'' = None \<longrightarrow>
          unique_together [(f, f)] [(''tenant_id'', ''tenant_id'')] m pk col ctx inst rows d = Inl KeyErr)
     \<and> (ctx ''tenant_id'' = Some t \<longrightarrow>
          unique_together [(f, f)] [(''tenant_id'', ''tenant_id'')] m pk col ctx inst rows d =
            (if \<exists>r \<in> set rows. tenant_key col f r = (t, v) \<and> (\<forall>i. inst = Some i \<longrightarrow> pk r \<noteq> pk i)
             then Inl (ValidationError [] m ''already_exists'') else Inr ()))
     \<and> (ctx ''tenant_id'' = Some t \<and> distinct (map (tenant_key col f) rows) \<and> tenant_key col f new = (t, v) \<and>
        unique_together [(f, f)] [(''tenant_id'', ''tenant_id'')] m pk col ctx inst rows d = Inr () \<longrightarrow>
          (inst = None \<longrightarrow> distinct (map (tenant_key col f) (rows @ [new])))
        \<and> (\<forall>i. inst = Some i \<and> distinct (map pk rows) \<longrightarrow>
             distinct (map (tenant_key col f) (save_row (\<lambda>r. pk r = pk i) (\<lambda>_. new) rows)))))"
proof -
  have verdict: "unique_together [(f, f)] [(''tenant_id'', ''tenant_id'')] m pk col ctx inst rows d =
            (if \<exists>r \<in> set rows. tenant_key col f r = (t, v) \<and> (\<forall>i. inst = Some i \<longrightarrow> pk r \<noteq> pk i)
             then Inl (ValidationError [] m ''already_exists'') else Inr ())"
    if "map_of d f = Some v" "f \<noteq> ''tenant_id''" "ctx ''tenant_id'' = Some t" for v t
    using that by (auto simp: unique_together_def field_filters_def tenant_key_def guard_def
        filter_empty_conv Let_def split: option.splits)
  have ins: "distinct (map (tenant_key col f) (rows @ [new]))"
    if "distinct (map (tenant_key col f) rows)" "\<not> (\<exists>r \<in> set rows. tenant_key col f r = tenant_key col f new)" for new
    using that by auto
  have upd: "distinct (map (tenant_key col f) (save_row (\<lambda>r. pk r = p) (\<lambda>_. new) rs))"
    if "distinct (map (tenant_key col f) rs)" "distinct (map pk rs)" "\<not> (\<exists>r \<in> set rs. tenant_key col f r = tenant_key col f new \<and> pk r \<noteq> p)"
    for new p rs
    using that
  proof (induction rs)
    case (Cons r rs)
    have neq: "pk x \<noteq> pk r" if "x \<in> set rs" for x
      using Cons.prems(2) that by (metis (no_types) distinct.simps(2) image_eqI list.set_map list.simps(9))
    have nkey: "tenant_key col f x \<noteq> tenant_key col f r" if "x \<in> set rs" for x
      using Cons.prems(1) that by (metis (no_types) distinct.simps(2) image_eqI list.set_map list.simps(9))
    show ?case
    proof (cases "pk r = p")
      case True
      with neq have "save_row (\<lambda>r. pk r = p) (\<lambda>_. new) rs = rs" by (intro save_row_none) auto
      moreover have "tenant_key col f new \<notin> tenant_key col f ` set rs"
      proof
        assume "tenant_key col f new \<in> tenant_key col f ` set rs"
        then obtain x where "x \<in> set rs" "tenant_key col f x = tenant_key col f new" by auto
        with Cons.prems(3) neq True show False by auto
      qed
      ultimately show ?thesis using True Cons.prems(1) by simp
    next
      case False
      with Cons.prems(3) have "tenant_key col f r \<noteq> tenant_key col f new" by auto
      with nkey have "tenant_key col f r \<notin> tenant_key col f ` set (save_row (\<lambda>r. pk r = p) (\<lambda>_. new) rs)"
        by (auto simp: set_save_row split: if_splits) (metis nkey)
      with False Cons show ?thesis by simp
    qed
  qed simp
  show ?thesis
  proof (intro conjI allI impI)
    assume "map_of d f = None"
    then show "unique_together [(f, f)] [(''tenant_id'', ''tenant_id'')] m pk col ctx inst rows d = Inr ()"
      by (simp add: unique_together_def field_filters_def)
  next
    fix v t assume a: "map_of d f = Some v \<and> f \<noteq> ''tenant_id''"
    { assume "ctx ''tenant_id'' = None"
      with a show "unique_together [(f, f)] [(''tenant_id'', ''tenant_id'')] m pk col ctx inst rows d = Inl KeyErr"
        by (simp add: unique_together_def field_filters_def) }
    { assume "ctx ''tenant_id'' = Some t"
      with a show "unique_together [(f, f)] [(''tenant_id'', ''tenant_id'')] m pk col ctx inst rows d =
            (if \<exists>r \<in> set rows. tenant_key col f r = (t, v) \<and> (\<forall>i. inst = Some i \<longrightarrow> pk r \<noteq> pk i)
             then Inl (ValidationError [] m ''already_exists'') else Inr ())" by (intro verdict) auto }
    assume b: "ctx ''tenant_id'' = Some t \<and> distinct (map (tenant_key col f) rows) \<and> tenant_key col f new = (t, v) \<and>
        unique_together [(f, f)] [(''tenant_id'', ''tenant_id'')] m pk col ctx inst rows d = Inr ()"
    with a verdict [of v t] have no: "\<not> (\<exists>r \<in> set rows. tenant_key col f r = tenant_key col f new \<and> (\<forall>i. inst = Some i \<longrightarrow> pk r \<noteq> pk i))"
      by (auto split: if_splits)
    { assume "inst = None" with b no show "distinct (map (tenant_key col f) (rows @ [new]))" by (intro ins) auto }
    { fix i assume "inst = Some i \<and> distinct (map pk rows)"
      with b no show "distinct (map (tenant_key col f) (save_row (\<lambda>r. pk r = pk i) (\<lambda>_. new) rows))"
        by (intro upd) auto }
  qed
qed

lemma unique_together_sound_witness:
  "unique_together [(''name'', ''name'')] [(''tenant_id'', ''tenant_id'')] ''taken'' fst snd
       [''tenant_id'' \<mapsto> JStr ''t''] None
       [(''1'', \<lambda>k. if k = ''name'' then JStr ''a'' else JStr ''t'')] [(''name'', JStr ''b'')] = Inr ()
   \<and> unique_together [(''name'', ''name'')] [(''tenant_id'', ''tenant_id'')] ''taken'' fst snd
       [''tenant_id'' \<mapsto> JStr ''t''] None
       [(''1'', \<lambda>k. if k = ''name'' then JStr ''a'' else JStr ''t'')] [(''name'', JStr ''a'')]
       = Inl (ValidationError [] ''taken'' ''already_exists'')"
proof -
  let ?rows = "[(''1'', \<lambda>k. if k = ''name'' then JStr ''a'' else JStr ''t'')]"
  let ?new = "\<lambda>n. (''2'', \<lambda>k. if k = ''name'' then JStr n else JStr ''t'')"
  have "unique_together [(''name'', ''name'')] [(''tenant_id'', ''tenant_id'')] ''taken'' fst snd
      [''tenant_id'' \<mapsto> JStr ''t''] None ?rows [(''name'', JStr n)]
      = (if n = ''a'' then Inl (ValidationError [] ''taken'' ''already_exists'') else Inr ())" for n
    using unique_together_sound [of "[(''name'', JStr n)]" "''name''" "''taken''" fst snd
        "[''tenant_id'' \<mapsto> JStr ''t'']" None ?rows "?new n", THEN conjunct2,
        THEN spec [of _ "JStr n"], THEN spec [of _ "JStr ''t''"], THEN mp, THEN conjunct2, THEN conjunct1]
    by (auto simp: tenant_key_def)
  from this [of "''b''"] this [of "''a''"] show ?thesis by simp
qed

end
