(* ===== verification/Documents.thy ===== *)
theory Documents
  imports Ingestion Lifecycle
begin

text \<open>
  Documents and their versions (\<open>apps/dms_documents\<close>, \<open>apps/dms_document_versions\<close>,
  \<open>apps/dms_document_types\<close>): the handler that turns a \<open>document.created\<close> event into a
  document with its first version, the numbering of later versions, the lookup of document
  types by name, and the way of an uploaded file to its document.
\<close>

section \<open>Tables\<close>

record document_type =
  dt_id :: string
  dt_tenant :: string
  dt_name :: string

record document =
  do_id :: string
  do_tenant :: string
  do_title :: string
  do_document_type :: "string option"
  do_owner :: "string option"
  do_created_by :: "string option"
  do_availability :: string
  do_deleted_at :: "int option"

record document_version =
  dv_id :: string
  dv_tenant :: string
  dv_document :: string
  dv_version :: int
  dv_filename :: string
  dv_mime_type :: json
  dv_size :: json
  dv_checksum :: json
  dv_extension :: json
  dv_storage_key :: json
  dv_storage_state :: string
  dv_created_by :: "string option"

record docs =
  db_types :: "document_type list"
  db_documents :: "document list"
  db_versions :: "document_version list"

text \<open>
  Inserts check what the database checks: the tenant is not null, and the unique
  constraints on tenant and title, and on document and version.
\<close>

definition create_document ::
  "string \<Rightarrow> string option \<Rightarrow> string \<Rightarrow> string option \<Rightarrow> string option \<Rightarrow> (docs, document) act" where
  "create_document fresh tenant title type actor w =
     (case tenant of
        None \<Rightarrow> (Inl IntegrityErr, w)
      | Some t \<Rightarrow>
         if qs_exists (\<lambda>d. do_tenant d = t \<and> do_title d = title) (db_documents w)
         then (Inl IntegrityErr, w)
         else (let d = \<lparr>do_id = fresh, do_tenant = t, do_title = title, do_document_type = type,
                     do_owner = actor, do_created_by = actor, do_availability = ''ACTIVE'',
                     do_deleted_at = None\<rparr>
               in (Inr d, w\<lparr>db_documents := db_documents w @ [d]\<rparr>)))"

definition insert_version :: "document_version \<Rightarrow> (docs, document_version) act" where
  "insert_version v w =
     (if qs_exists (\<lambda>x. dv_document x = dv_document v \<and> dv_version x = dv_version v) (db_versions w)
      then (Inl IntegrityErr, w)
      else (Inr v, w\<lparr>db_versions := db_versions w @ [v]\<rparr>))"

section \<open>Document types by name\<close>

definition find_type :: "string \<Rightarrow> string \<Rightarrow> document_type list \<Rightarrow> document_type res" where
  "find_type tenant name types =
     qs_get (\<lambda>t. dt_tenant t = tenant \<and> lower (dt_name t) = lower name) types"

text \<open>
  \<open>UploadSessionCreateSerializer.validate_document_type\<close>.  \<open>types\<close> are the rows of the scoped
  manager; a null tenant matches no row.
\<close>

definition validate_document_type ::
  "string option \<Rightarrow> document_type list \<Rightarrow> string \<Rightarrow> string res" where
  "validate_document_type tenant types value =
     (if value = [] then Inr value
      else (case (case tenant of None \<Rightarrow> Inl DoesNotExist | Some t \<Rightarrow> find_type t value types) of
          Inl DoesNotExist \<Rightarrow> Inl (ValidationError ''document_type''
             (''Document type '' @ quoted value @ '' does not exist.'') ''invalid'')
        | Inl e \<Rightarrow> Inl e
        | Inr t \<Rightarrow> Inr (dt_name t)))"

section \<open>The event handler\<close>

definition payload_get :: "payload \<Rightarrow> string \<Rightarrow> json" where
  "payload_get p k = (case map_of p k of None \<Rightarrow> JNull | Some v \<Rightarrow> v)"

definition payload_item :: "payload \<Rightarrow> string \<Rightarrow> json res" where
  "payload_item p k = (case map_of p k of None \<Rightarrow> Inl KeyErr | Some v \<Rightarrow> Inr v)"

text \<open>A character column rejects null and stores the text of anything else.\<close>

definition char_column :: "json \<Rightarrow> string res" where
  "char_column v = (if v = JNull then Inl IntegrityErr else Inr (json_str v))"

definition json_text :: "json \<Rightarrow> string option" where
  "json_text v = (case v of JStr s \<Rightarrow> Some s | _ \<Rightarrow> None)"

text \<open>
  \<open>handle_document_created\<close>; \<open>fresh\<close> and \<open>vfresh\<close> are the keys the two rows draw.  A document
  type is looked up only when the name and the tenant are not empty.
\<close>

definition resolve_type :: "payload \<Rightarrow> string option \<Rightarrow> document_type list \<Rightarrow> string option res" where
  "resolve_type p tenant types =
     (case json_text (payload_get p ''document_type'') of
        None \<Rightarrow> Inr None
      | Some n \<Rightarrow>
          if n = [] \<or> \<not> truthy tenant then Inr None
          else (case find_type (or_empty tenant) n types of
              Inl DoesNotExist \<Rightarrow> Inl ValueErr
            | Inl e \<Rightarrow> Inl e
            | Inr t \<Rightarrow> Inr (Some (dt_id t))))"

definition handle_document_created ::
  "string \<Rightarrow> string \<Rightarrow> payload envelope \<Rightarrow> (docs, unit) act" where
  "handle_document_created fresh vfresh env w =
     (let p = en_payload env; tenant = en_tenant_id env; actor = en_actor_id env in
      bind_act (lift_res (resolve_type p tenant (db_types w))) (\<lambda>type.
      bind_act (lift_res (bind_res (payload_item p ''title'') char_column)) (\<lambda>title.
      bind_act (create_document fresh tenant title type actor) (\<lambda>d.
      bind_act (lift_res (bind_res (payload_item p ''filename'') char_column)) (\<lambda>filename.
      bind_act (insert_version \<lparr>dv_id = vfresh, dv_tenant = or_empty tenant, dv_document = do_id d,
          dv_version = 1, dv_filename = filename, dv_mime_type = payload_get p ''mime_type'',
          dv_size = payload_get p ''size'', dv_checksum = payload_get p ''checksum'',
          dv_extension = payload_get p ''extension'', dv_storage_key = payload_get p ''storage_key'',
          dv_storage_state = ''AVAILABLE'', dv_created_by = actor\<rparr>) (\<lambda>_. ret ()))))) w)"

section \<open>Numbering versions\<close>

text \<open>\<open>order_by("-version").first()\<close> over the versions of the document the manager shows.\<close>

definition last_version :: "ctx \<Rightarrow> string \<Rightarrow> document_version list \<Rightarrow> document_version option" where
  "last_version c doc vs =
     qs_first (sort_key (\<lambda>v. - dv_version v)
       (filter (\<lambda>v. dv_document v = doc) (manager_queryset dv_tenant c vs)))"

definition version_pre_create :: "ctx \<Rightarrow> attrs \<Rightarrow> (docs, attrs) act" where
  "version_pre_create c d w =
     (case map_of d ''document'' of
        Some (JStr doc) \<Rightarrow>
          (Inr (dict_set ''version'' (JInt (case last_version c doc (db_versions w) of
             None \<Rightarrow> 1 | Some v \<Rightarrow> dv_version v + 1)) d), w)
      | _ \<Rightarrow> (Inl KeyErr, w))"

text \<open>\<open>do_create\<close>: the columns the client cannot write take their defaults.\<close>

definition attr_text :: "attrs \<Rightarrow> string \<Rightarrow> string" where
  "attr_text d k = (case map_of d k of Some (JStr s) \<Rightarrow> s | _ \<Rightarrow> [])"

definition version_do_create :: "string \<Rightarrow> attrs \<Rightarrow> (docs, document_version) act" where
  "version_do_create vfresh d =
     insert_version \<lparr>dv_id = vfresh, dv_tenant = attr_text d ''tenant_id'',
       dv_document = attr_text d ''document'',
       dv_version = (case map_of d ''version'' of Some (JInt n) \<Rightarrow> n | _ \<Rightarrow> 0),
       dv_filename = attr_text d ''filename'', dv_mime_type = payload_get d ''mime_type'',
       dv_size = JNull, dv_checksum = JNull, dv_extension = JNull, dv_storage_key = JNull,
       dv_storage_state = ''UPLOADING'', dv_created_by = None\<rparr>"

text \<open>One create of a version by a request of tenant \<open>t\<close>, after the tenant plugin.\<close>

definition create_version :: "string \<Rightarrow> ctx \<Rightarrow> attrs \<Rightarrow> (docs, document_version) act" where
  "create_version vfresh c d = bind_act (version_pre_create c d) (version_do_create vfresh)"

section \<open>Facts about documents\<close>

lemma bind_lift [simp]: "bind_act (lift_res r) k w = (case r of Inl e \<Rightarrow> (Inl e, w) | Inr x \<Rightarrow> k x w)"
  by (simp add: bind_act_def lift_res_def split: sum.splits)

text \<open>The rows a well-formed event leads to.\<close>

definition event_document :: "string \<Rightarrow> string \<Rightarrow> payload envelope \<Rightarrow> string option \<Rightarrow> string \<Rightarrow> document" where
  "event_document fresh tenant env type title =
     \<lparr>do_id = fresh, do_tenant = tenant, do_title = title, do_document_type = type,
      do_owner = en_actor_id env, do_created_by = en_actor_id env, do_availability = ''ACTIVE'',
      do_deleted_at = None\<rparr>"

definition event_version :: "string \<Rightarrow> string \<Rightarrow> string \<Rightarrow> payload envelope \<Rightarrow> string \<Rightarrow> document_version" where
  "event_version fresh vfresh tenant env filename =
     \<lparr>dv_id = vfresh, dv_tenant = tenant, dv_document = fresh, dv_version = 1,
      dv_filename = filename, dv_mime_type = payload_get (en_payload env) ''mime_type'',
      dv_size = payload_get (en_payload env) ''size'',
      dv_checksum = payload_get (en_payload env) ''checksum'',
      dv_extension = payload_get (en_payload env) ''extension'',
      dv_storage_key = payload_get (en_payload env) ''storage_key'',
      dv_storage_state = ''AVAILABLE'', dv_created_by = en_actor_id env\<rparr>"

definition title_free :: "string \<Rightarrow> string \<Rightarrow> docs \<Rightarrow> bool" where
  "title_free tenant title w \<longleftrightarrow> (\<forall>d \<in> set (db_documents w). do_tenant d = tenant \<longrightarrow> do_title d \<noteq> title)"

lemma create_document_free:
  "create_document fresh (Some t) title type actor w =
     (if title_free t title w then
        (let d = \<lparr>do_id = fresh, do_tenant = t, do_title = title, do_document_type = type,
               do_owner = actor, do_created_by = actor, do_availability = ''ACTIVE'', do_deleted_at = None\<rparr>
         in (Inr d, w\<lparr>db_documents := db_documents w @ [d]\<rparr>))
      else (Inl IntegrityErr, w))"
  by (auto simp: create_document_def qs_exists_iff title_free_def Let_def)

lemma handle_title_taken:
  assumes "en_tenant_id env = Some t" and "payload_item (en_payload env) ''title'' = Inr (JStr title)"
    and "resolve_type (en_payload env) (Some t) (db_types w) = Inr type"
    and "\<not> title_free t title w"
  shows "handle_document_created fresh vfresh env w = (Inl IntegrityErr, w)"
  using assms by (simp add: handle_document_created_def char_column_def json_str_def
      create_document_free bind_act_Inl)

lemma handle_success:
  assumes "en_tenant_id env = Some t" and "payload_item (en_payload env) ''title'' = Inr (JStr title)"
    and "payload_item (en_payload env) ''filename'' = Inr (JStr filename)"
    and "resolve_type (en_payload env) (Some t) (db_types w) = Inr type"
    and "title_free t title w" and "\<forall>v \<in> set (db_versions w). dv_document v \<noteq> fresh"
  shows "handle_document_created fresh vfresh env w =
    (Inr (), w\<lparr>db_documents := db_documents w @ [event_document fresh t env type title],
       db_versions := db_versions w @ [event_version fresh vfresh t env filename]\<rparr>)"
proof -
  have "\<not> qs_exists (\<lambda>x. dv_document x = fresh \<and> dv_version x = 1) (db_versions w)"
    using assms(6) by (auto simp: qs_exists_iff)
  with assms show ?thesis
    by (simp add: handle_document_created_def char_column_def json_str_def create_document_free
        bind_act_def insert_version_def event_document_def event_version_def Let_def)
qed

text \<open>The handler of \<open>document.created\<close>.  On a well-formed event whose title is free in the
  tenant it creates exactly the document and its version 1 from the payload.  Run again (a
  redelivery, or a retry after the bookkeeping failed) it raises and changes nothing, so the
  document stays single.  But an event without a file name leaves the document without a
  version behind, and every retry then fails on the title.\<close>

theorem document_handler_outcomes:
  assumes "en_tenant_id env = Some t" and "payload_item (en_payload env) ''title'' = Inr (JStr title)"
    and "resolve_type (en_payload env) (Some t) (db_types w) = Inr type"
    and "title_free t title w" and "\<forall>v \<in> set (db_versions w). dv_document v \<noteq> fresh"
  shows "(\<forall>filename. payload_item (en_payload env) ''filename'' = Inr (JStr filename) \<longrightarrow>
      (\<exists>w'. handle_document_created fresh vfresh env w = (Inr (), w')
        \<and> db_types w' = db_types w
        \<and> db_documents w' = db_documents w @ [event_document fresh t env type title]
        \<and> db_versions w' = db_versions w @ [event_version fresh vfresh t env filename]
        \<and> (\<forall>fresh' vfresh'. handle_document_created fresh' vfresh' env w' = (Inl IntegrityErr, w'))))
    \<and> (payload_item (en_payload env) ''filename'' = Inl KeyErr \<longrightarrow>
      (\<exists>w'. handle_document_created fresh vfresh env w = (Inl KeyErr, w')
        \<and> db_documents w' = db_documents w @ [event_document fresh t env type title]
        \<and> db_versions w' = db_versions w
        \<and> (\<forall>fresh' vfresh'. handle_document_created fresh' vfresh' env w' = (Inl IntegrityErr, w'))))"
proof (intro conjI allI impI)
  fix filename assume fname: "payload_item (en_payload env) ''filename'' = Inr (JStr filename)"
  let ?w = "w\<lparr>db_documents := db_documents w @ [event_document fresh t env type title],
       db_versions := db_versions w @ [event_version fresh vfresh t env filename]\<rparr>"
  have "handle_document_created fresh' vfresh' env ?w = (Inl IntegrityErr, ?w)" for fresh' vfresh'
    using assms(1-3) by (intro handle_title_taken)
      (auto simp: title_free_def event_document_def)
  with handle_success [OF assms(1,2) fname assms(3-5)]
  show "\<exists>w'. handle_document_created fresh vfresh env w = (Inr (), w')
        \<and> db_types w' = db_types w
        \<and> db_documents w' = db_documents w @ [event_document fresh t env type title]
        \<and> db_versions w' = db_versions w @ [event_version fresh vfresh t env filename]
        \<and> (\<forall>fresh' vfresh'. handle_document_created fresh' vfresh' env w' = (Inl IntegrityErr, w'))"
    by (intro exI [of _ ?w]) simp
next
  assume fname: "payload_item (en_payload env) ''filename'' = Inl KeyErr"
  let ?w = "w\<lparr>db_documents := db_documents w @ [event_document fresh t env type title]\<rparr>"
  have "handle_document_created fresh' vfresh' env ?w = (Inl IntegrityErr, ?w)" for fresh' vfresh'
    using assms(1-3) by (intro handle_title_taken)
      (auto simp: title_free_def event_document_def)
  moreover have "handle_document_created fresh vfresh env w = (Inl KeyErr, ?w)"
    using assms fname by (simp add: handle_document_created_def char_column_def json_str_def
        create_document_free bind_act_def event_document_def Let_def)
  ultimately show "\<exists>w'. handle_document_created fresh vfresh env w = (Inl KeyErr, w')
        \<and> db_documents w' = db_documents w @ [event_document fresh t env type title]
        \<and> db_versions w' = db_versions w
        \<and> (\<forall>fresh' vfresh'. handle_document_created fresh' vfresh' env w' = (Inl IntegrityErr, w'))"
    by (intro exI [of _ ?w]) simp
qed

definition sample_event :: "payload \<Rightarrow> payload envelope" where
  "sample_event p = \<lparr>en_type = ''document.created'', en_payload = p, en_tenant_id = Some ''t1'',
     en_actor_id = None, en_id = ''e1'', en_published_at = ''now''\<rparr>"

lemma document_handler_outcomes_witness:
  "\<exists>w'. handle_document_created ''d'' ''v'' (sample_event [(''title'', JStr ''A''), (''filename'', JStr ''a.pdf'')])
       \<lparr>db_types = [], db_documents = [], db_versions = []\<rparr> = (Inr (), w')
     \<and> length (db_documents w') = 1 \<and> map dv_version (db_versions w') = [1]"
proof -
  let ?p = "[(''title'', JStr ''A''), (''filename'', JStr ''a.pdf'')]"
  have "payload_item ?p ''filename'' = Inr (JStr ''a.pdf'')" by (simp add: payload_item_def)
  with document_handler_outcomes [of "sample_event ?p" "''t1''" "''A''"
      "\<lparr>db_types = [], db_documents = [], db_versions = []\<rparr>" None "''d''" "''v''"]
  show ?thesis
    by (force simp: sample_event_def payload_item_def resolve_type_def payload_get_def json_text_def
        title_free_def event_version_def)
qed

section \<open>Version numbers\<close>

text \<open>The versions of a document are numbered 1 to \<open>n\<close> in the order they were stored.\<close>

definition numbered :: "string \<Rightarrow> nat \<Rightarrow> document_version list \<Rightarrow> bool" where
  "numbered doc n vs \<longleftrightarrow> map dv_version (filter (\<lambda>v. dv_document v = doc) vs) = map int [1..<Suc n]"

definition versions_of_tenant :: "string \<Rightarrow> string \<Rightarrow> document_version list \<Rightarrow> bool" where
  "versions_of_tenant doc t vs \<longleftrightarrow> (\<forall>v \<in> set vs. dv_document v = doc \<longrightarrow> dv_tenant v = t)"

lemma visible_versions:
  assumes "versions_of_tenant doc t vs" and "scope_tenant c = None \<or> scope_tenant c = Some t"
  shows "filter (\<lambda>v. dv_document v = doc) (manager_queryset dv_tenant c vs) =
    filter (\<lambda>v. dv_document v = doc) vs"
proof -
  have "filter (\<lambda>x. dv_tenant x = t \<and> dv_document x = doc) vs = filter (\<lambda>v. dv_document v = doc) vs"
    using assms(1) by (intro filter_cong) (auto simp: versions_of_tenant_def)
  with assms(2) show ?thesis by (auto simp: manager_queryset_def)
qed

lemma last_version_number:
  assumes "numbered doc n vs" and "versions_of_tenant doc t vs"
    and "scope_tenant c = None \<or> scope_tenant c = Some t"
  shows "(case last_version c doc vs of None \<Rightarrow> 1 | Some v \<Rightarrow> dv_version v + 1) = int n + 1"
proof -
  let ?own = "filter (\<lambda>v. dv_document v = doc) vs"
  have nums: "dv_version ` set ?own = int ` {1..n}"
    using assms(1) unfolding numbered_def
    by (metis atLeastLessThanSuc_atLeastAtMost list.set_map set_upt)
  have last: "last_version c doc vs = qs_first (sort_key (\<lambda>v. - dv_version v) ?own)"
    by (simp add: last_version_def visible_versions [OF assms(2,3)])
  show ?thesis
  proof (cases "last_version c doc vs")
    case None
    with last have "sort_key (\<lambda>v. - dv_version v) ?own = []" by (metis qs_first_None_iff)
    then have "?own = []" by (metis length_0_conv length_sort)
    with assms(1) show ?thesis using None by (cases n) (simp_all add: numbered_def)
  next
    case (Some v)
    note first = first_of_sorted [OF last [symmetric, unfolded Some]]
    from first(1) nums have "dv_version v \<in> int ` {1..n}" by (metis image_eqI)
    then have le: "1 \<le> n" "dv_version v \<le> int n" by auto
    then have "int n \<in> dv_version ` set ?own" using nums by auto
    then obtain u where "u \<in> set ?own" "dv_version u = int n" by auto
    with first(2) [of u] le Some show ?thesis by simp
  qed
qed

lemma numbered_fresh: "numbered doc n vs \<Longrightarrow> v \<in> set vs \<Longrightarrow> dv_document v = doc \<Longrightarrow> dv_version v \<noteq> int n + 1"
proof -
  assume a: "numbered doc n vs" "v \<in> set vs" "dv_document v = doc"
  then have "dv_version v \<in> set (map dv_version (filter (\<lambda>v. dv_document v = doc) vs))" by simp
  then have "dv_version v \<in> set (map int [1..<Suc n])" using a(1) by (simp only: numbered_def)
  then show "dv_version v \<noteq> int n + 1" by auto
qed

text \<open>Creating a version of a document whose versions are numbered 1 to \<open>n\<close> stores number
  \<open>n + 1\<close> whatever number the client sends, and keeps the numbering; and of two creates that
  both read the last number before either writes, the second is refused by the unique
  constraint and changes nothing.\<close>

theorem version_numbering:
  assumes "numbered doc n (db_versions w)" and "versions_of_tenant doc t (db_versions w)"
    and "scope_tenant c = None \<or> scope_tenant c = Some t"
    and "map_of d ''document'' = Some (JStr doc)" and "map_of d ''tenant_id'' = Some (JStr t)"
  shows "\<exists>v w' d'. create_version vfresh c d w = (Inr v, w')
    \<and> dv_document v = doc \<and> dv_version v = int n + 1 \<and> db_versions w' = db_versions w @ [v]
    \<and> numbered doc (Suc n) (db_versions w') \<and> versions_of_tenant doc t (db_versions w')
    \<and> version_pre_create c d w = (Inr d', w)
    \<and> version_do_create vfresh' d' w' = (Inl IntegrityErr, w')"
proof -
  let ?d = "dict_set ''version'' (JInt (int n + 1)) d"
  have pre: "version_pre_create c d w = (Inr ?d, w)"
    using assms(4) last_version_number [OF assms(1-3)] by (simp add: version_pre_create_def)
  define v where "v = \<lparr>dv_id = vfresh, dv_tenant = t, dv_document = doc, dv_version = int n + 1,
       dv_filename = attr_text d ''filename'', dv_mime_type = payload_get d ''mime_type'',
       dv_size = JNull, dv_checksum = JNull, dv_extension = JNull, dv_storage_key = JNull,
       dv_storage_state = ''UPLOADING'', dv_created_by = None\<rparr>"
  let ?w = "w\<lparr>db_versions := db_versions w @ [v]\<rparr>"
  have free: "\<not> qs_exists (\<lambda>x. dv_document x = doc \<and> dv_version x = int n + 1) (db_versions w)"
    using numbered_fresh [OF assms(1)] by (auto simp: qs_exists_iff)
  have do: "version_do_create vf ?d st =
      insert_version (v\<lparr>dv_id := vf\<rparr>) st" for vf st
    using assms(4,5) by (simp add: version_do_create_def attr_text_def payload_get_def v_def)
  have "create_version vfresh c d w = (Inr v, ?w)"
    using free by (simp add: create_version_def bind_act_Inr [of "version_pre_create c d", OF pre] do insert_version_def v_def)
  moreover have "version_do_create vfresh' ?d ?w = (Inl IntegrityErr, ?w)"
    by (simp add: do insert_version_def qs_exists_iff)
  moreover have "numbered doc (Suc n) (db_versions ?w)"
    using assms(1) by (simp add: numbered_def v_def)
  moreover have "versions_of_tenant doc t (db_versions ?w)"
    using assms(2) by (simp add: versions_of_tenant_def v_def)
  ultimately show ?thesis using pre
    by (intro exI [of _ v] exI [of _ ?w] exI [of _ ?d]) (simp add: v_def)
qed

lemma version_numbering_witness:
  "\<exists>v w'. create_version ''v1'' None [(''document'', JStr ''d''), (''tenant_id'', JStr ''t1''), (''version'', JInt 7)]
      \<lparr>db_types = [], db_documents = [], db_versions = []\<rparr> = (Inr v, w')
    \<and> dv_version v = 1 \<and> numbered ''d'' 1 (db_versions w')"
  using version_numbering [of "''d''" 0 "\<lparr>db_types = [], db_documents = [], db_versions = []\<rparr>" "''t1''" None
      "[(''document'', JStr ''d''), (''tenant_id'', JStr ''t1''), (''version'', JInt 7)]" "''v1''"]
  by (fastforce simp: numbered_def versions_of_tenant_def)

section \<open>From the uploaded file to the document\<close>

text \<open>The registry of the platform: the handler of \<open>document.created\<close>.\<close>

definition document_registry :: "string \<Rightarrow> string \<Rightarrow> (payload, docs) registry" where
  "document_registry fresh vfresh = event_handler ''document.created''
     \<lparr>hd_qualname = ''handle_document_created'', hd_run = handle_document_created fresh vfresh\<rparr> []"

text \<open>A run of the pipeline, a poll of the stream and the tasks it queued.\<close>

definition ingest_and_dispatch ::
  "('st, 's) ingest_env \<Rightarrow> (string \<Rightarrow> payload res) \<Rightarrow> nat \<Rightarrow> nat \<Rightarrow> nat \<Rightarrow> string \<Rightarrow> string \<Rightarrow> string
    \<Rightarrow> ('st, 's) ingest \<Rightarrow> docs \<Rightarrow> unit res \<times> unit res \<times> ('st, 's) ingest \<times> ('s, docs) bus" where
  "ingest_and_dispatch env loads batch mx lim fresh vfresh sid w db =
     (let reg = document_registry fresh vfresh;
          (r, w') = run_pipeline env sid w;
          (r', b) = poll_stream (ie_stream env) loads reg batch
             \<lparr>bu_stream = in_stream w', bu_queue = [], bu_processed = [], bu_dlq = [], bu_world = db\<rparr>
      in (r, r', w', run_queue loads reg mx lim b))"

lemma redis_round_trip:
  assumes "loads (dumps (en_payload e)) = Inr (en_payload e)"
    and "en_tenant_id e \<noteq> Some []" and "en_actor_id e \<noteq> Some []"
  shows "from_redis_fields loads (to_redis_fields dumps e) = Inr e"
proof -
  have opt: "or_none (or_empty x) = x" if "x \<noteq> Some []" for x
    using that by (cases x) (simp_all add: or_none_def)
  from assms show ?thesis
    by (simp add: from_redis_fields_def to_redis_fields_def field_get_def opt)
qed

lemma poll_single:
  assumes "stream_api S news pending" and "0 < n" and "news s = [(i, fs)]" and "pending s = []"
    and "from_redis_fields loads fs = Inr env" and "get_handlers reg (en_type env) = [h]"
    and "b = \<lparr>bu_stream = s, bu_queue = [], bu_processed = [], bu_dlq = [], bu_world = db\<rparr>"
  shows "\<exists>s'. poll_stream S loads reg n b = (Inr (), b\<lparr>bu_stream := s',
      bu_queue := [\<lparr>tk_qualname = hd_qualname h, tk_message_id = i, tk_fields = fs, tk_retries = 0\<rparr>]\<rparr>)
    \<and> news s' = [] \<and> pending s' = []"
proof -
  obtain ms s1 where rd: "so_read S n s = (ms, s1)" by fastforce
  from stream_api.read_news [OF assms(1) rd] assms(2-4)
  have ms: "ms = [(i, fs)]" "news s1 = []" "pending s1 = [i]" by simp_all
  have "\<not> processed (b\<lparr>bu_stream := s1\<rparr>) i" by (simp add: assms(7) processed_def)
  then have "poll_message S loads reg (i, fs) (b\<lparr>bu_stream := s1\<rparr>) = (Inr (), ack S i (b\<lparr>bu_stream := s1,
      bu_queue := [\<lparr>tk_qualname = hd_qualname h, tk_message_id = i, tk_fields = fs, tk_retries = 0\<rparr>]\<rparr>))"
    using assms(5,6) by (simp add: poll_message_def assms(7))
  then have "poll_stream S loads reg n b = (Inr (), b\<lparr>bu_stream := so_ack S i s1,
      bu_queue := [\<lparr>tk_qualname = hd_qualname h, tk_message_id = i, tk_fields = fs, tk_retries = 0\<rparr>]\<rparr>)"
    using rd ms(1) by (simp add: poll_stream_def assms(7) ack_def)
  with stream_api.ack_pending [OF assms(1), of i s1] ms show ?thesis by auto
qed

text \<open>The payload the pipeline publishes for a session and its file.\<close>

definition published_payload :: "(string \<Rightarrow> string) \<Rightarrow> fileobj \<Rightarrow> upload_session \<Rightarrow> payload" where
  "published_payload sha256 f s = event_payload (s\<lparr>us_checksum := Some (sha256 (fl_data f)),
     us_extension := or_none (lower (splitext_ext (us_filename s)))\<rparr>)"



end
