(* ===== verification/TenantSettings.thy ===== *)
theory TenantSettings
  imports AccessControl Metadata
begin

text \<open>
  Tenant settings (\<open>apps/tenant_settings\<close>, \<open>apps/tenants/utils.py\<close>): the catalogs of the apps,
  their validation and merging behind the cache, the lookup of a setting with its default,
  and the endpoint that lists, retrieves and updates the settings that are not private.
  The JSON Schema validator and \<open>json.loads\<close> are parameters.
\<close>

section \<open>Catalogs\<close>

text \<open>
  A catalog file is the outcome of parsing it; an entry is a dictionary.
\<close>

type_synonym entry_def = rules
type_synonym merged_catalog = "(string \<times> entry_def) list"

definition json_truth :: "json \<Rightarrow> bool" where
  "json_truth v = (case v of JNull \<Rightarrow> False | JBool b \<Rightarrow> b | JInt n \<Rightarrow> n \<noteq> 0 | JFloat t \<Rightarrow> t \<noteq> ''0.0''
     | JStr s \<Rightarrow> s \<noteq> [] | JList xs \<Rightarrow> xs \<noteq> [] | JObj d \<Rightarrow> d \<noteq> [])"

definition as_dict :: "json \<Rightarrow> rules" where
  "as_dict v = (case v of JObj d \<Rightarrow> d | _ \<Rightarrow> [])"

definition dict_get :: "rules \<Rightarrow> string \<Rightarrow> json" where
  "dict_get d k = (case map_of d k of None \<Rightarrow> JNull | Some v \<Rightarrow> v)"

definition dict_item :: "rules \<Rightarrow> string \<Rightarrow> json res" where
  "dict_item d k = (case map_of d k of None \<Rightarrow> Inl KeyErr | Some v \<Rightarrow> Inr v)"

definition catalog_settings :: "rules \<Rightarrow> merged_catalog" where
  "catalog_settings c = map (\<lambda>(k, v). (k, as_dict v)) (as_dict (dict_get c ''settings''))"

definition is_private :: "entry_def \<Rightarrow> bool" where
  "is_private e = json_truth (dict_get e ''private'')"

definition type_to_schema_type :: "string \<rightharpoonup> string" where
  "type_to_schema_type = [''string'' \<mapsto> ''string'', ''integer'' \<mapsto> ''integer'', ''boolean'' \<mapsto> ''boolean'']"

definition type_schema_conflict :: "entry_def \<Rightarrow> bool" where
  "type_schema_conflict e =
     (let schema = dict_get e ''schema'' in
      json_truth schema \<and>
      (case (case dict_get e ''type'' of JStr t \<Rightarrow> type_to_schema_type t | _ \<Rightarrow> None) of
         None \<Rightarrow> False
       | Some expected \<Rightarrow>
           (let st = dict_get (as_dict schema) ''type'' in json_truth st \<and> st \<noteq> JStr expected)))"

text \<open>Messages are written as the app, the key and the kind of the error.\<close>

datatype catalog_error = InvalidJson string | SchemaError string string | DuplicateKey string string string
  | TypeConflict string string

definition validate_type_schema_consistency :: "(string \<times> rules) list \<Rightarrow> catalog_error list" where
  "validate_type_schema_consistency catalogs =
     concat (map (\<lambda>(app, c). map (\<lambda>(k, e). TypeConflict app k)
        (filter (\<lambda>(k, e). type_schema_conflict e) (catalog_settings c))) catalogs)"

fun unique_from :: "(string \<times> string) list \<Rightarrow> (string \<times> string) list \<Rightarrow> catalog_error list" where
  "unique_from seen [] = []"
| "unique_from seen ((app, k) # rest) =
     (case map_of seen k of
        Some first \<Rightarrow> DuplicateKey k app first # unique_from seen rest
      | None \<Rightarrow> unique_from ((k, app) # seen) rest)"

definition setting_keys :: "(string \<times> rules) list \<Rightarrow> (string \<times> string) list" where
  "setting_keys catalogs = concat (map (\<lambda>(app, c). map (\<lambda>(k, _). (app, k)) (catalog_settings c)) catalogs)"

definition settings_uniqueness :: "(string \<times> rules) list \<Rightarrow> catalog_error list" where
  "settings_uniqueness catalogs = unique_from [] (setting_keys catalogs)"

text \<open>\<open>validate_all\<close>: \<open>schema_errors\<close> are the messages of the JSON Schema validator.\<close>

definition validate_settings_catalogs ::
  "(rules \<Rightarrow> string list) \<Rightarrow> (string \<times> rules res) list \<Rightarrow> catalog_error list" where
  "validate_settings_catalogs schema_errors found =
     (let errs = concat (map (\<lambda>(app, r). case r of Inl _ \<Rightarrow> [InvalidJson app]
                      | Inr c \<Rightarrow> map (SchemaError app) (schema_errors c)) found);
          loaded = concat (map (\<lambda>(app, r). case r of Inl _ \<Rightarrow> []
                      | Inr c \<Rightarrow> if schema_errors c = [] then [(app, c)] else []) found)
      in if errs \<noteq> [] then errs
         else settings_uniqueness loaded @ validate_type_schema_consistency loaded)"

fun merge_catalogs :: "(string \<times> rules res) list \<Rightarrow> merged_catalog \<Rightarrow> merged_catalog res" where
  "merge_catalogs [] m = Inr m"
| "merge_catalogs ((app, r) # rest) m =
     (case r of
        Inl e \<Rightarrow> Inl e
      | Inr c \<Rightarrow> merge_catalogs rest (fold (\<lambda>(k, d). dict_set k d) (catalog_settings c) m))"

definition catalog_cache_key :: string where
  "catalog_cache_key = ''tenant_settings:merged_catalog''"

definition settings_merged_catalog ::
  "('s, merged_catalog) cache_ops \<Rightarrow> (string \<times> rules res) list \<Rightarrow> 's \<Rightarrow> merged_catalog res \<times> 's" where
  "settings_merged_catalog C found s =
     (case c_get C catalog_cache_key s of
        Some (CObj m) \<Rightarrow> (Inr m, s)
      | _ \<Rightarrow>
         (case merge_catalogs found [] of
            Inl e \<Rightarrow> (Inl e, s)
          | Inr m \<Rightarrow> (Inr m, c_set C catalog_cache_key (CObj m) None s)))"

definition invalidate_catalog_cache :: "('s, merged_catalog) cache_ops \<Rightarrow> 's \<Rightarrow> 's" where
  "invalidate_catalog_cache C s = c_delete C catalog_cache_key s"

section \<open>Lookup\<close>

text \<open>A row always has a tenant; an instance built in memory from a default has none.\<close>

record tenant_setting =
  ts_tenant :: "string option"
  ts_key :: string
  ts_value :: string

definition setting_rows :: "ctx \<Rightarrow> tenant_setting list \<Rightarrow> tenant_setting list" where
  "setting_rows c rows = manager_queryset (\<lambda>r. or_empty (ts_tenant r)) c rows"

definition get_tenant_setting ::
  "ctx \<Rightarrow> tenant_setting list \<Rightarrow> merged_catalog \<Rightarrow> string \<Rightarrow> string \<Rightarrow> string option res" where
  "get_tenant_setting c rows cat tenant key =
     (case qs_first (filter (\<lambda>r. ts_tenant r = Some tenant \<and> ts_key r = key) (setting_rows c rows)) of
        Some r \<Rightarrow> Inr (Some (ts_value r))
      | None \<Rightarrow>
         (case map_of cat key of
            None \<Rightarrow> Inr None
          | Some e \<Rightarrow> if e = [] then Inr None
              else bind_res (dict_item e ''default'') (\<lambda>d. Inr (Some (json_str d)))))"

fun add_defaults ::
  "string \<Rightarrow> merged_catalog \<Rightarrow> (string \<times> string) list \<Rightarrow> (string \<times> string) list res" where
  "add_defaults prefix [] saved = Inr saved"
| "add_defaults prefix ((k, e) # cat) saved =
     (if map_of saved k = None \<and> (prefix = [] \<or> starts_with prefix k)
      then bind_res (dict_item e ''default'') (\<lambda>d. add_defaults prefix cat (dict_set k (json_str d) saved))
      else add_defaults prefix cat saved)"

definition get_tenant_settings ::
  "ctx \<Rightarrow> tenant_setting list \<Rightarrow> merged_catalog \<Rightarrow> string \<Rightarrow> string \<Rightarrow> (string \<times> string) list res" where
  "get_tenant_settings c rows cat tenant prefix =
     (let qs = filter (\<lambda>r. ts_tenant r = Some tenant \<and> (prefix = [] \<or> starts_with prefix (ts_key r)))
                 (setting_rows c rows)
      in add_defaults prefix cat (fold (\<lambda>r. dict_set (ts_key r) (ts_value r)) qs []))"

section \<open>The serializer\<close>

definition setting_error :: "string \<Rightarrow> string \<Rightarrow> exn" where
  "setting_error field msg = ValidationError field msg ''invalid''"

definition coerce_setting :: "(string \<Rightarrow> json res) \<Rightarrow> string \<Rightarrow> string \<Rightarrow> json res" where
  "coerce_setting loads v type =
     (if type = ''json''
      then (case loads v of Inr j \<Rightarrow> Inr j | Inl _ \<Rightarrow> Inl (setting_error ''value'' ''expects a valid JSON string.''))
      else if type = ''integer''
      then (case py_int v of Some n \<Rightarrow> Inr (JInt n) | None \<Rightarrow> Inl (setting_error ''value'' ''expects an integer value.''))
      else if type = ''boolean''
      then (if lower v \<in> {''true'', ''1''} then Inr (JBool True)
            else if lower v \<in> {''false'', ''0''} then Inr (JBool False)
            else Inl (setting_error ''value'' ''expects a boolean value (true/false).''))
      else Inr (JStr v))"

text \<open>\<open>schema_error schema v\<close> is the message with which \<open>jsonschema.validate\<close> rejects a value.\<close>

definition setting_validate ::
  "(string \<Rightarrow> json res) \<Rightarrow> (json \<Rightarrow> json \<Rightarrow> string option) \<Rightarrow> merged_catalog \<Rightarrow> string \<Rightarrow> string option
    \<Rightarrow> string option res" where
  "setting_validate loads schema_error cat key value =
     (case map_of cat key of
        None \<Rightarrow> Inl (setting_error ''key'' ''Unknown setting key.'')
      | Some e \<Rightarrow>
         if is_private e then Inl (setting_error ''key'' ''Unknown setting key.'')
         else (case value of
            None \<Rightarrow> Inr value
          | Some v \<Rightarrow>
              bind_res (dict_item e ''type'') (\<lambda>t.
              bind_res (coerce_setting loads v (json_str t)) (\<lambda>j.
              if json_truth (dict_get e ''schema'')
              then (case schema_error (dict_get e ''schema'') j of
                      None \<Rightarrow> Inr value | Some m \<Rightarrow> Inl (setting_error ''value'' m))
              else Inr value))))"

section \<open>The endpoint\<close>

definition public_catalog :: "merged_catalog \<Rightarrow> merged_catalog" where
  "public_catalog cat = filter (\<lambda>(k, e). \<not> is_private e) cat"

definition make_default :: "string \<Rightarrow> entry_def \<Rightarrow> tenant_setting res" where
  "make_default key e = bind_res (dict_item e ''default'') (\<lambda>d.
     Inr \<lparr>ts_tenant = None, ts_key = key, ts_value = json_str d\<rparr>)"

text \<open>The class queryset is built unscoped at import; the viewset plugin filters it.\<close>

definition setting_queryset :: "request \<Rightarrow> merged_catalog \<Rightarrow> tenant_setting list \<Rightarrow> tenant_setting list res" where
  "setting_queryset rq cat rows =
     bind_res (viewset_get_queryset None (Some (\<lambda>r. or_empty (ts_tenant r))) [] Map.empty rq rows) (\<lambda>qs.
       Inr (filter (\<lambda>r. ts_key r \<in> set (keys (public_catalog cat))) qs))"

definition setting_get_object ::
  "request \<Rightarrow> merged_catalog \<Rightarrow> string \<Rightarrow> tenant_setting list \<Rightarrow> tenant_setting res" where
  "setting_get_object rq cat key rows =
     (case map_of (public_catalog cat) key of
        None \<Rightarrow> Inl NotFound
      | Some e \<Rightarrow>
         (case bind_res (setting_queryset rq cat rows) (\<lambda>qs. qs_get (\<lambda>r. ts_key r = key)
                 (backend_filter_queryset True (Some (\<lambda>r. or_empty (ts_tenant r))) rq qs)) of
            Inr r \<Rightarrow> Inr r
          | Inl _ \<Rightarrow> make_default key e))"

fun settings_with_defaults ::
  "merged_catalog \<Rightarrow> (string \<times> tenant_setting) list \<Rightarrow> tenant_setting list res" where
  "settings_with_defaults [] saved = Inr []"
| "settings_with_defaults ((k, e) # cat) saved =
     bind_res (case map_of saved k of Some r \<Rightarrow> Inr r | None \<Rightarrow> make_default k e) (\<lambda>r.
     bind_res (settings_with_defaults cat saved) (\<lambda>rs. Inr (r # rs)))"

definition settings_list :: "request \<Rightarrow> merged_catalog \<Rightarrow> tenant_setting list \<Rightarrow> tenant_setting list res" where
  "settings_list rq cat rows =
     bind_res (setting_queryset rq cat rows) (\<lambda>qs.
       settings_with_defaults (public_catalog cat) (fold (\<lambda>r. dict_set (ts_key r) r) qs []))"

text \<open>
  PATCH: the serializer is a plain model serializer, so no plugin runs; saving an instance
  that is not a row inserts it, and a row without a tenant is refused by the database.
\<close>

definition save_setting :: "tenant_setting \<Rightarrow> string \<Rightarrow> tenant_setting list \<Rightarrow> unit res \<times> tenant_setting list" where
  "save_setting inst value rows =
     (case ts_tenant inst of
        None \<Rightarrow> (Inl IntegrityErr, rows)
      | Some t \<Rightarrow> (Inr (), save_row (\<lambda>r. ts_tenant r = Some t \<and> ts_key r = ts_key inst)
                     (\<lambda>r. r\<lparr>ts_value := value\<rparr>) rows))"

definition setting_partial_update ::
  "(string \<Rightarrow> json res) \<Rightarrow> (json \<Rightarrow> json \<Rightarrow> string option) \<Rightarrow> request \<Rightarrow> merged_catalog \<Rightarrow> string
    \<Rightarrow> string option \<Rightarrow> tenant_setting list \<Rightarrow> unit res \<times> tenant_setting list" where
  "setting_partial_update loads schema_error rq cat key value rows =
     (case setting_get_object rq cat key rows of
        Inl e \<Rightarrow> (Inl e, rows)
      | Inr inst \<Rightarrow>
         (case setting_validate loads schema_error cat (ts_key inst) value of
            Inl e \<Rightarrow> (Inl e, rows)
          | Inr v \<Rightarrow> save_setting inst (case v of None \<Rightarrow> ts_value inst | Some x \<Rightarrow> x) rows))"

section \<open>Facts about settings\<close>

lemma map_of_fold_dict_set:
  "map_of (fold (\<lambda>r. dict_set (f r) (g r)) qs d) k =
     (case qs_first (filter (\<lambda>r. f r = k) (rev qs)) of None \<Rightarrow> map_of d k | Some r \<Rightarrow> Some (g r))"
proof (induction qs rule: rev_induct)
  case (snoc q qs)
  then show ?case by simp
qed simp

lemma values_dict_set: "snd ` set (dict_set k v d) \<subseteq> insert v (snd ` set d)"
  by (induction k v d rule: dict_set.induct) auto

lemma values_fold_dict_set:
  "snd ` set (fold (\<lambda>r. dict_set (f r) r) xs d) \<subseteq> snd ` set d \<union> set xs"
proof (induction xs arbitrary: d)
  case (Cons x xs)
  have "snd ` set (fold (\<lambda>r. dict_set (f r) r) (x # xs) d) \<subseteq> snd ` set (dict_set (f x) x d) \<union> set xs"
    using Cons.IH by simp
  also have "\<dots> \<subseteq> snd ` set d \<union> set (x # xs)" using values_dict_set [of "f x" x d] by auto
  finally show ?case .
qed simp

lemma map_of_add_defaults:
  assumes "add_defaults prefix cat saved = Inr d" and "distinct (keys cat)"
  shows "map_of d k = (case map_of saved k of
       Some v \<Rightarrow> Some v
     | None \<Rightarrow> (case map_of cat k of
          None \<Rightarrow> None
        | Some e \<Rightarrow> if prefix = [] \<or> starts_with prefix k
                   then map_option json_str (map_of e ''default'') else None))"
  using assms
proof (induction prefix cat saved rule: add_defaults.induct)
  case (1 prefix saved)
  then show ?case by (cases "map_of d k") simp_all
next
  case (2 prefix k' e cat saved)
  have fresh: "map_of cat k' = None" using "2.prems"(2) by (simp add: map_of_eq_None_iff)
  show ?case
  proof (cases "map_of saved k' = None \<and> (prefix = [] \<or> starts_with prefix k')")
    case True
    with "2.prems"(1) obtain v where v: "map_of e ''default'' = Some v"
      and rest: "add_defaults prefix cat (dict_set k' (json_str v) saved) = Inr d"
      by (auto simp: dict_item_def res_simps split: option.splits)
    have "dict_item e ''default'' = Inr v" by (simp add: dict_item_def v)
    with "2.IH"(1) [OF True _ ] rest "2.prems"(2)
    have "map_of d k = (case map_of (dict_set k' (json_str v) saved) k of
       Some v \<Rightarrow> Some v
     | None \<Rightarrow> (case map_of cat k of None \<Rightarrow> None
        | Some e \<Rightarrow> if prefix = [] \<or> starts_with prefix k
                   then map_option json_str (map_of e ''default'') else None))" by simp
    with True v fresh show ?thesis by (auto split: option.splits)
  next
    case False
    with "2.IH"(2) "2.prems" fresh show ?thesis by (auto split: option.splits if_splits)
  qed
qed

lemma settings_with_defaults_keys:
  assumes "settings_with_defaults cat saved = Inr out" and "\<And>k r. map_of saved k = Some r \<Longrightarrow> ts_key r = k"
  shows "map ts_key out = keys cat"
    and "\<And>r. r \<in> set out \<Longrightarrow> ts_tenant r = None \<or> r \<in> snd ` set saved"
    and "\<And>k r. k \<in> set (keys cat) \<Longrightarrow> map_of saved k = Some r \<Longrightarrow> r \<in> set out"
  using assms
proof (induction cat saved arbitrary: out rule: settings_with_defaults.induct)
  case (2 k e cat saved)
  { case 1
    from "1"(1) obtain r rs where out: "out = r # rs" and r: "(case map_of saved k of Some r \<Rightarrow> Inr r | None \<Rightarrow> make_default k e) = Inr r"
      and rs: "settings_with_defaults cat saved = Inr rs" by (auto simp: res_simps)
    have "ts_key r = k" using r "1"(2) by (auto simp: make_default_def res_simps split: option.splits)
    with "2.IH"(1) [OF rs "1"(2)] out show ?case by simp }
  { case 2
    from "2"(2) obtain r' rs where out: "out = r' # rs" and r: "(case map_of saved k of Some r \<Rightarrow> Inr r | None \<Rightarrow> make_default k e) = Inr r'"
      and rs: "settings_with_defaults cat saved = Inr rs" by (auto simp: res_simps)
    have "ts_tenant r' = None \<or> r' \<in> snd ` set saved"
      using r by (auto simp: make_default_def res_simps split: option.splits dest!: map_of_SomeD intro: rev_image_eqI)
    with "2.IH"(2) [OF _ rs "2"(3)] "2"(1) out show ?case by auto }
  { case (3 k' r'')
    from "3"(3) obtain r' rs where out: "out = r' # rs" and r: "(case map_of saved k of Some r \<Rightarrow> Inr r | None \<Rightarrow> make_default k e) = Inr r'"
      and rs: "settings_with_defaults cat saved = Inr rs" by (auto simp: res_simps)
    with "3"(1,2) "2.IH"(3) [OF _ _ rs "3"(4)] show ?case by (cases "k' = k") auto }
qed simp_all

lemma public_not_private: "(k, e) \<in> set (public_catalog cat) \<Longrightarrow> \<not> is_private e"
  by (auto simp: public_catalog_def)

lemma public_lookup_None: "distinct (keys cat) \<Longrightarrow> map_of cat k = Some e \<Longrightarrow> is_private e \<Longrightarrow>
    map_of (public_catalog cat) k = None"
  by (auto simp: public_catalog_def map_of_eq_None_iff) (metis map_of_is_SomeI option.inject)

lemma queryset_rows:
  assumes "setting_queryset rq cat rows = Inr qs" and "\<not> rq_superuser rq"
  shows "qs = filter (\<lambda>r. ts_key r \<in> set (keys (public_catalog cat)))
    (case tenant_of rq of None \<Rightarrow> [] | Some t \<Rightarrow> filter (\<lambda>r. or_empty (ts_tenant r) = t) rows)"
  using assms by (auto simp: setting_queryset_def res_simps viewset_get_queryset_def manager_queryset_def
      plugin_filter_queryset_def parent_filter_def split: option.splits)

definition settings_inv :: "tenant_setting list \<Rightarrow> bool" where
  "settings_inv rows \<longleftrightarrow> distinct (map (\<lambda>r. (ts_tenant r, ts_key r)) rows)
     \<and> (\<forall>r \<in> set rows. \<exists>t. ts_tenant r = Some t \<and> t \<noteq> [])"

lemma settings_inv_unique:
  "settings_inv rows \<Longrightarrow> r \<in> set rows \<Longrightarrow> s \<in> set rows \<Longrightarrow> ts_tenant r = ts_tenant s \<Longrightarrow> ts_key r = ts_key s \<Longrightarrow> r = s"
  by (auto simp: settings_inv_def distinct_map inj_on_def)

lemma own_rows:
  "settings_inv rows \<Longrightarrow> filter (\<lambda>r. or_empty (ts_tenant r) = t) rows = filter (\<lambda>r. ts_tenant r = Some t) rows"
  by (rule filter_cong [OF refl]) (force simp: settings_inv_def)

lemma at_most_one:
  assumes "settings_inv rows" and "xs = filter (\<lambda>r. ts_tenant r = Some t \<and> ts_key r = k) rows"
  shows "xs = [] \<or> (\<exists>r. xs = [r])"
proof (cases xs)
  case (Cons a ys)
  have "distinct rows" using assms(1) by (auto simp: settings_inv_def distinct_map)
  then have "distinct xs" using assms(2) by simp
  moreover have "b = a" if "b \<in> set ys" for b
  proof (rule settings_inv_unique [OF assms(1)])
    have "a \<in> set xs" "b \<in> set xs" using Cons that by auto
    then show "b \<in> set rows" "a \<in> set rows" "ts_tenant b = ts_tenant a" "ts_key b = ts_key a"
      using assms(2) by auto
  qed
  ultimately show ?thesis using Cons by (cases ys) auto
qed simp

section \<open>Properties of tenant settings\<close>

text \<open>What a user of a tenant sees of the settings.  The list has exactly the keys of the
  catalog that are not private, in the catalog's order; a key with a saved row of the tenant
  shows that row, and no row of another tenant appears.  A private key is not found, and an
  update of it changes nothing.\<close>

theorem settings_visibility:
  assumes "settings_inv rows" and "distinct (keys cat)" and "\<not> rq_superuser rq" and "tenant_of rq = Some t"
    and "settings_list rq cat rows = Inr out"
  shows "map ts_key out = keys (public_catalog cat)
    \<and> (\<forall>r \<in> set rows. ts_tenant r = Some t \<and> ts_key r \<in> set (keys (public_catalog cat)) \<longrightarrow> r \<in> set out)
    \<and> (\<forall>r \<in> set out. ts_tenant r = None \<or> ts_tenant r = Some t \<and> r \<in> set rows)
    \<and> (\<forall>k e. map_of cat k = Some e \<and> is_private e \<longrightarrow> k \<notin> ts_key ` set out
         \<and> setting_get_object rq cat k rows = Inl NotFound
         \<and> setting_partial_update loads schema_error rq cat k value rows = (Inl NotFound, rows))"
proof -
  from assms(5) obtain qs where qs: "setting_queryset rq cat rows = Inr qs" and
    out: "settings_with_defaults (public_catalog cat) (fold (\<lambda>r. dict_set (ts_key r) r) qs []) = Inr out"
    by (auto simp: settings_list_def res_simps)
  let ?saved = "fold (\<lambda>r. dict_set (ts_key r) r) qs []"
  have qs_eq: "qs = filter (\<lambda>r. ts_key r \<in> set (keys (public_catalog cat))) (filter (\<lambda>r. ts_tenant r = Some t) rows)"
    using queryset_rows [OF qs assms(3)] assms(4) own_rows [OF assms(1)] by simp
  have lookup: "map_of ?saved k = qs_first (filter (\<lambda>r. ts_key r = k) (rev qs))" for k
    by (simp add: map_of_fold_dict_set split: option.splits)
  have keyed: "ts_key r = k" if "map_of ?saved k = Some r" for k r
    using that qs_first_Some_mem [of "filter (\<lambda>r. ts_key r = k) (rev qs)" r] by (auto simp: lookup)
  from values_fold_dict_set [of ts_key qs "[]"] have vals: "snd ` set ?saved \<subseteq> set qs" by simp
  have names: "map ts_key out = keys (public_catalog cat)"
    by (rule settings_with_defaults_keys(1) [OF out]) (rule keyed)
  have saved: "r \<in> set out" if r: "r \<in> set rows" "ts_tenant r = Some t" "ts_key r \<in> set (keys (public_catalog cat))" for r
  proof -
    have "r \<in> set (filter (\<lambda>x. ts_key x = ts_key r) (rev qs))" using r by (simp add: qs_eq)
    then obtain x where x: "qs_first (filter (\<lambda>x. ts_key x = ts_key r) (rev qs)) = Some x"
      by (cases "filter (\<lambda>x. ts_key x = ts_key r) (rev qs)") auto
    from qs_first_Some_mem [OF x] r have "x = r"
      by (intro settings_inv_unique [OF assms(1)]) (auto simp: qs_eq)
    with x have "map_of ?saved (ts_key r) = Some r" by (simp add: lookup)
    with settings_with_defaults_keys(3) [OF out keyed r(3)] show ?thesis by blast
  qed
  have own: "ts_tenant r = None \<or> ts_tenant r = Some t \<and> r \<in> set rows" if "r \<in> set out" for r
  proof -
    have "ts_tenant r = None \<or> r \<in> snd ` set ?saved"
      by (rule settings_with_defaults_keys(2) [OF out keyed that])
    with vals have "ts_tenant r = None \<or> r \<in> set qs" by blast
    then show ?thesis unfolding qs_eq by auto
  qed
  have hidden: "k \<notin> ts_key ` set out \<and> setting_get_object rq cat k rows = Inl NotFound"
    if "map_of cat k = Some e" "is_private e" for k e
  proof -
    note none = public_lookup_None [OF assms(2) that]
    then have "k \<notin> set (map ts_key out)" by (simp only: names) (simp add: map_of_eq_None_iff)
    with none show ?thesis by (simp add: setting_get_object_def)
  qed
  show ?thesis using names saved own hidden by (simp add: setting_partial_update_def)
qed

definition sample_catalog :: merged_catalog where
  "sample_catalog = [(''color'', [(''type'', JStr ''string''), (''default'', JStr ''red'')]),
     (''secret'', [(''type'', JStr ''string''), (''default'', JStr ''x''), (''private'', JBool True)])]"

lemma settings_visibility_witness:
  "settings_list (sample_request (Some (sample_user ''u'' False)) (Some ''t1'')) sample_catalog
      [\<lparr>ts_tenant = Some ''t2'', ts_key = ''color'', ts_value = ''blue''\<rparr>]
     = Inr [\<lparr>ts_tenant = None, ts_key = ''color'', ts_value = ''red''\<rparr>]
   \<and> setting_partial_update (\<lambda>_. Inr JNull) (\<lambda>_ _. None)
       (sample_request (Some (sample_user ''u'' False)) (Some ''t1'')) sample_catalog ''secret'' None
       [\<lparr>ts_tenant = Some ''t2'', ts_key = ''color'', ts_value = ''blue''\<rparr>]
     = (Inl NotFound, [\<lparr>ts_tenant = Some ''t2'', ts_key = ''color'', ts_value = ''blue''\<rparr>])"
proof -
  let ?rq = "sample_request (Some (sample_user ''u'' False)) (Some ''t1'')"
  let ?rows = "[\<lparr>ts_tenant = Some ''t2'', ts_key = ''color'', ts_value = ''blue''\<rparr>]"
  have run: "settings_list ?rq sample_catalog ?rows = Inr [\<lparr>ts_tenant = None, ts_key = ''color'', ts_value = ''red''\<rparr>]"
    by (simp add: settings_list_def setting_queryset_def viewset_get_queryset_def plugin_filter_queryset_def
        rq_superuser_def sample_user_def manager_queryset_def parent_filter_def public_catalog_def
        sample_catalog_def is_private_def dict_get_def json_truth_def make_default_def dict_item_def json_str_def)
  have "settings_inv ?rows" "distinct (keys sample_catalog)" "\<not> rq_superuser ?rq" "tenant_of ?rq = Some ''t1''"
    by (simp_all add: settings_inv_def sample_catalog_def rq_superuser_def sample_user_def)
  from settings_visibility [OF this run] run show ?thesis
    by (simp add: sample_catalog_def is_private_def dict_get_def json_truth_def)
qed

lemma setting_get_object_own:
  assumes "settings_inv rows" and "\<not> rq_superuser rq" and "tenant_of rq = Some t"
    and "map_of (public_catalog cat) key = Some e"
  shows "setting_get_object rq cat key rows =
    (case filter (\<lambda>r. ts_tenant r = Some t \<and> ts_key r = key) rows of
       [] \<Rightarrow> make_default key e | r # _ \<Rightarrow> Inr r)"
proof -
  let ?own = "filter (\<lambda>r. ts_tenant r = Some t \<and> ts_key r = key) rows"
  have "key \<in> set (keys (public_catalog cat))" using assms(4) by (force dest: map_of_SomeD)
  then have own: "filter (\<lambda>r. ts_key r = key) (backend_filter_queryset True (Some (\<lambda>r. or_empty (ts_tenant r))) rq
      (filter (\<lambda>r. ts_key r \<in> set (keys (public_catalog cat))) (filter (\<lambda>r. ts_tenant r = Some t) rows))) = ?own"
    using assms(3) by (auto simp: backend_filter_queryset_def intro!: filter_cong)
  have "setting_queryset rq cat rows = Inr (filter (\<lambda>r. ts_key r \<in> set (keys (public_catalog cat)))
      (filter (\<lambda>r. ts_tenant r = Some t) rows))"
    using assms(2,3) own_rows [OF assms(1), of t] by (simp add: setting_queryset_def viewset_get_queryset_def
        manager_queryset_def plugin_filter_queryset_def parent_filter_def)
  then have "bind_res (setting_queryset rq cat rows) (\<lambda>qs. qs_get (\<lambda>r. ts_key r = key)
        (backend_filter_queryset True (Some (\<lambda>r. or_empty (ts_tenant r))) rq qs)) =
      (case ?own of [] \<Rightarrow> Inl DoesNotExist | [r] \<Rightarrow> Inr r | _ \<Rightarrow> Inl MultipleObjectsReturned)"
    unfolding qs_get_def by (simp only: bind_res_simps own)
  with at_most_one [OF assms(1) refl, of t key] assms(4) show ?thesis
    by (auto simp: setting_get_object_def)
qed

lemma save_setting_inv:
  "settings_inv rows \<Longrightarrow> settings_inv (save_row P (\<lambda>r. r\<lparr>ts_value := v\<rparr>) rows)"
  by (auto simp: settings_inv_def map_save_row set_save_row)

text \<open>The update of a public setting by a user of a tenant.  When the tenant has a row for the
  key, a rejected value changes nothing and an accepted one changes the value of that row
  alone; when it has none, the update always fails and changes nothing, because the instance
  built from the default has no tenant: no setting can be saved for the first time this way.\<close>

theorem setting_update:
  assumes "settings_inv rows" and "\<not> rq_superuser rq" and "tenant_of rq = Some t"
    and "map_of (public_catalog cat) key = Some e"
  shows "((\<forall>r \<in> set rows. ts_tenant r = Some t \<longrightarrow> ts_key r \<noteq> key) \<longrightarrow>
       isl (fst (setting_partial_update loads schema_error rq cat key value rows))
     \<and> snd (setting_partial_update loads schema_error rq cat key value rows) = rows)
    \<and> (\<forall>r \<in> set rows. ts_tenant r = Some t \<and> ts_key r = key \<longrightarrow>
       setting_partial_update loads schema_error rq cat key value rows =
         (case setting_validate loads schema_error cat key value of
            Inl x \<Rightarrow> (Inl x, rows)
          | Inr v \<Rightarrow> (Inr (), save_row (\<lambda>s. ts_tenant s = Some t \<and> ts_key s = key)
              (\<lambda>s. s\<lparr>ts_value := (case v of None \<Rightarrow> ts_value r | Some x \<Rightarrow> x)\<rparr>) rows)))
    \<and> settings_inv (snd (setting_partial_update loads schema_error rq cat key value rows))"
proof -
  note get = setting_get_object_own [OF assms]
  have a: "isl (fst (setting_partial_update loads schema_error rq cat key value rows))
     \<and> snd (setting_partial_update loads schema_error rq cat key value rows) = rows"
    if "\<forall>r \<in> set rows. ts_tenant r = Some t \<longrightarrow> ts_key r \<noteq> key"
  proof -
    have "filter (\<lambda>r. ts_tenant r = Some t \<and> ts_key r = key) rows = []"
      using that by (auto simp: filter_empty_conv)
    then show ?thesis
      by (auto simp: setting_partial_update_def get make_default_def save_setting_def dict_item_def
          split: sum.splits option.splits)
  qed
  have b: "setting_partial_update loads schema_error rq cat key value rows =
         (case setting_validate loads schema_error cat key value of
            Inl x \<Rightarrow> (Inl x, rows)
          | Inr v \<Rightarrow> (Inr (), save_row (\<lambda>s. ts_tenant s = Some t \<and> ts_key s = key)
              (\<lambda>s. s\<lparr>ts_value := (case v of None \<Rightarrow> ts_value r | Some x \<Rightarrow> x)\<rparr>) rows))"
    if r: "r \<in> set rows" "ts_tenant r = Some t" "ts_key r = key" for r
  proof -
    have mem: "r \<in> set (filter (\<lambda>r. ts_tenant r = Some t \<and> ts_key r = key) rows)" using r by simp
    from at_most_one [OF assms(1) refl, of t key]
    have "filter (\<lambda>r. ts_tenant r = Some t \<and> ts_key r = key) rows = [r]"
      using mem by (metis (no_types, lifting) empty_iff empty_set set_ConsD)
    with r show ?thesis
      by (simp add: setting_partial_update_def get save_setting_def split: sum.splits)
  qed
  have c: "settings_inv (snd (setting_partial_update loads schema_error rq cat key value rows))"
  proof (cases "\<exists>r \<in> set rows. ts_tenant r = Some t \<and> ts_key r = key")
    case True
    with b assms(1) save_setting_inv show ?thesis by (auto split: sum.splits)
  next
    case False
    with a assms(1) show ?thesis by auto
  qed
  from a b c show ?thesis by blast
qed

lemma setting_update_witness:
  "isl (fst (setting_partial_update (\<lambda>_. Inr JNull) (\<lambda>_ _. None)
       (sample_request (Some (sample_user ''u'' False)) (Some ''t1'')) sample_catalog ''color'' (Some ''green'') []))"
proof -
  let ?rq = "sample_request (Some (sample_user ''u'' False)) (Some ''t1'')"
  have "settings_inv []" "\<not> rq_superuser ?rq" "tenant_of ?rq = Some ''t1''"
    "map_of (public_catalog sample_catalog) ''color'' = Some [(''type'', JStr ''string''), (''default'', JStr ''red'')]"
    by (simp_all add: settings_inv_def rq_superuser_def sample_user_def public_catalog_def sample_catalog_def
        is_private_def dict_get_def json_truth_def)
  from setting_update [OF this, of "\<lambda>_. Inr JNull" "\<lambda>_ _. None" "Some ''green''"] show ?thesis by simp
qed

text \<open>The two lookups agree: for a tenant whose settings are keyed uniquely and a catalog whose
  entries have defaults, the dictionary of all settings holds for every key exactly what the
  single lookup returns, which is the saved value, else the catalog's default, else nothing;
  with a prefix it holds the keys that start with it.\<close>

theorem settings_lookup_agree:
  assumes "settings_inv rows" and "distinct (keys cat)"
    and "\<forall>(k, e) \<in> set cat. map_of e ''default'' \<noteq> None"
  shows "\<exists>d. get_tenant_settings c rows cat t prefix = Inr d
    \<and> (\<forall>k. (if prefix = [] \<or> starts_with prefix k then Inr (map_of d k) = get_tenant_setting c rows cat t k
            else map_of d k = None))"
proof -
  let ?vis = "setting_rows c rows"
  let ?qs = "filter (\<lambda>r. ts_tenant r = Some t \<and> (prefix = [] \<or> starts_with prefix (ts_key r))) ?vis"
  let ?saved = "fold (\<lambda>r. dict_set (ts_key r) (ts_value r)) ?qs []"
  have total: "\<exists>d. add_defaults prefix cat' s = Inr d" if "set cat' \<subseteq> set cat" for cat' s
    using that assms(3)
  proof (induction prefix cat' s rule: add_defaults.induct)
    case (2 prefix k e cat' s)
    then obtain v where "map_of e ''default'' = Some v" by auto
    then have "dict_item e ''default'' = Inr v" by (simp add: dict_item_def)
    with 2 show ?case by simp
  qed simp
  then obtain d where d: "add_defaults prefix cat ?saved = Inr d" by blast
  note look = map_of_add_defaults [OF d assms(2)]
  have "?vis = filter (\<lambda>r. scope_tenant c = None \<or> scope_tenant c = Some (or_empty (ts_tenant r))) rows"
    by (auto simp: setting_rows_def manager_queryset_def split: option.splits intro!: filter_cong)
  then have inv: "settings_inv ?vis" using assms(1) by (simp add: settings_inv_def distinct_map_filter)
  have saved: "map_of ?saved k = (if prefix = [] \<or> starts_with prefix k
      then map_option ts_value (qs_first (filter (\<lambda>r. ts_tenant r = Some t \<and> ts_key r = k) ?vis)) else None)" for k
  proof -
    let ?own = "filter (\<lambda>r. ts_tenant r = Some t \<and> ts_key r = k) ?vis"
    have "filter (\<lambda>r. ts_key r = k) ?qs = (if prefix = [] \<or> starts_with prefix k then ?own else [])"
      by (auto intro!: filter_cong simp: filter_empty_conv)
    moreover have "rev ?own = ?own" using at_most_one [OF inv refl, of t k] by auto
    ultimately have own: "filter (\<lambda>r. ts_key r = k) (rev ?qs)
        = (if prefix = [] \<or> starts_with prefix k then ?own else [])"
      by (metis (no_types, lifting) rev_filter rev.simps(1))
    show ?thesis unfolding map_of_fold_dict_set own by (auto split: option.splits)
  qed
  have "if prefix = [] \<or> starts_with prefix k then Inr (map_of d k) = get_tenant_setting c rows cat t k
            else map_of d k = None" for k
  proof (cases "prefix = [] \<or> starts_with prefix k")
    case True
    then have sv: "map_of ?saved k = map_option ts_value (qs_first (filter (\<lambda>r. ts_tenant r = Some t \<and> ts_key r = k) ?vis))"
      using saved by simp
    show ?thesis
    proof (cases "qs_first (filter (\<lambda>r. ts_tenant r = Some t \<and> ts_key r = k) ?vis)")
      case (Some r)
      with sv look [of k] True show ?thesis by (simp add: get_tenant_setting_def)
    next
      case None
      show ?thesis
      proof (cases "map_of cat k")
        case (Some e)
        then obtain v where v: "map_of e ''default'' = Some v" using assms(3) by (force dest: map_of_SomeD)
        then have "e \<noteq> []" by auto
        with None Some v sv look [of k] True show ?thesis by (simp add: get_tenant_setting_def dict_item_def)
      next
        case none: None
        with None sv look [of k] True show ?thesis by (simp add: get_tenant_setting_def)
      qed
    qed
  next
    case False
    with saved [of k] look [of k] show ?thesis by (auto split: option.splits)
  qed
  with d show ?thesis by (auto simp: get_tenant_settings_def Let_def)
qed

lemma settings_lookup_agree_witness:
  "\<exists>d. get_tenant_settings None [\<lparr>ts_tenant = Some ''t1'', ts_key = ''color'', ts_value = ''blue''\<rparr>]
      sample_catalog ''t1'' [] = Inr d \<and> map_of d ''color'' = Some ''blue'' \<and> map_of d ''secret'' = Some ''x''"
proof -
  let ?rows = "[\<lparr>ts_tenant = Some ''t1'', ts_key = ''color'', ts_value = ''blue''\<rparr>]"
  have "settings_inv ?rows" "distinct (keys sample_catalog)"
    "\<forall>(k, e) \<in> set sample_catalog. map_of e ''default'' \<noteq> None"
    by (simp_all add: settings_inv_def sample_catalog_def)
  from settings_lookup_agree [OF this, of None "''t1''" "[]"] obtain d where
    "get_tenant_settings None ?rows sample_catalog ''t1'' [] = Inr d"
    and "\<forall>k. Inr (map_of d k) = get_tenant_setting None ?rows sample_catalog ''t1'' k" by auto
  moreover have "get_tenant_setting None ?rows sample_catalog ''t1'' ''color'' = Inr (Some ''blue'')"
    "get_tenant_setting None ?rows sample_catalog ''t1'' ''secret'' = Inr (Some ''x'')"
    by (simp_all add: get_tenant_setting_def setting_rows_def manager_queryset_def sample_catalog_def
        dict_item_def json_str_def)
  ultimately show ?thesis by (metis sum.inject(2))
qed

end
