(* ===== verification/Sessions.thy ===== *)
theory Sessions
  imports Lockout Lifecycle TenantSettings
begin

text \<open>
  The refresh tokens of the JWT library's blacklist app, as \<open>apps/iam_auth\<close> uses them: the
  limit on concurrent sessions, logout of one session and of all of them.  Issuing,
  verifying and blacklisting a token are the library's (parameters); the two tables
  \<open>OutstandingToken\<close> and \<open>BlacklistedToken\<close> are queried by the code and explicit here.
\<close>

section \<open>Outstanding and blacklisted tokens\<close>

record outstanding =
  ot_jti :: string
  ot_user :: string
  ot_created_at :: int

record token_db =
  td_outstanding :: "outstanding list"
  td_blacklisted :: "string list"

text \<open>\<open>filter(user=...).exclude(blacklistedtoken__isnull=False)\<close>.\<close>

definition active_tokens :: "string \<Rightarrow> token_db \<Rightarrow> outstanding list" where
  "active_tokens uid db =
     filter (\<lambda>t. ot_user t = uid \<and> ot_jti t \<notin> set (td_blacklisted db)) (td_outstanding db)"

definition blacklist_get_or_create :: "outstanding \<Rightarrow> token_db \<Rightarrow> token_db" where
  "blacklist_get_or_create t db =
     (if ot_jti t \<in> set (td_blacklisted db) then db
      else db\<lparr>td_blacklisted := td_blacklisted db @ [ot_jti t]\<rparr>)"

definition blacklist_create :: "outstanding \<Rightarrow> (token_db, unit) act" where
  "blacklist_create t db =
     (if ot_jti t \<in> set (td_blacklisted db) then (Inl IntegrityErr, db)
      else (Inr (), db\<lparr>td_blacklisted := td_blacklisted db @ [ot_jti t]\<rparr>))"

text \<open>\<open>LoginSerializer._enforce_session_limit\<close>; tokens created at the same instant keep the table's order.\<close>

definition enforce_session_limit :: "int_config \<Rightarrow> string \<Rightarrow> token_db \<Rightarrow> token_db" where
  "enforce_session_limit cfg uid db =
     (let limit = (case cfg ''MAX_CONCURRENT_SESSIONS'' of None \<Rightarrow> 0 | Some n \<Rightarrow> n) in
      if limit = 0 then db
      else
        let tokens = sort_key ot_created_at (active_tokens uid db);
            excess = int (length tokens) - limit in
        if excess \<le> 0 then db
        else fold blacklist_get_or_create (take (nat excess) tokens) db)"

section \<open>Logout\<close>

text \<open>
  \<open>verify_refresh\<close> is the construction of a \<open>RefreshToken\<close> (signature, expiry, blacklist),
  \<open>blacklist_token\<close> its \<open>blacklist()\<close>.
\<close>

definition validate_refresh :: "(string \<Rightarrow> token_db \<Rightarrow> string option) \<Rightarrow> string \<Rightarrow> token_db \<Rightarrow> string res" where
  "validate_refresh verify_refresh v db =
     (case verify_refresh v db of
        None \<Rightarrow> Inl (ValidationError ''refresh'' ''Invalid or expired token.'' ''invalid'')
      | Some jti \<Rightarrow> Inr jti)"

definition logout_post ::
  "(string \<Rightarrow> token_db \<Rightarrow> string option) \<Rightarrow> (string \<Rightarrow> token_db \<Rightarrow> token_db) \<Rightarrow> user \<Rightarrow> string
    \<Rightarrow> (token_db \<times> user_event list, unit) act" where
  "logout_post verify_refresh blacklist_token u refresh w =
     (case validate_refresh verify_refresh refresh (fst w) of
        Inl e \<Rightarrow> (Inl e, w)
      | Inr jti \<Rightarrow> (Inr (), (blacklist_token jti (fst w),
           record_event (Some u) (usr_email u) ''auth'' ''logout'' None [] (snd w))))"

fun blacklist_all :: "outstanding list \<Rightarrow> (token_db, unit) act" where
  "blacklist_all [] = ret ()"
| "blacklist_all (t # ts) = bind_act (blacklist_create t) (\<lambda>_. blacklist_all ts)"

definition logout_all_post :: "user \<Rightarrow> (token_db \<times> user_event list, unit) act" where
  "logout_all_post u w =
     (case blacklist_all (active_tokens (usr_id u) (fst w)) (fst w) of
        (Inl e, db) \<Rightarrow> (Inl e, (db, snd w))
      | (Inr _, db) \<Rightarrow> (Inr (), (db,
           record_event (Some u) (usr_email u) ''auth'' ''logout_all'' None [] (snd w))))"

section \<open>Facts about token tables\<close>

lemma fold_blacklist:
  "td_outstanding (fold blacklist_get_or_create ts db) = td_outstanding db"
  "set (td_blacklisted (fold blacklist_get_or_create ts db)) = set (td_blacklisted db) \<union> ot_jti ` set ts"
proof (induction ts arbitrary: db)
  case (Cons t ts)
  { case 1 show ?case using Cons.IH by (simp add: blacklist_get_or_create_def) }
  { case 2 show ?case using Cons.IH by (auto simp: blacklist_get_or_create_def) }
qed simp_all

lemma blacklist_all_run:
  assumes "distinct (map ot_jti ts)" and "\<forall>t \<in> set ts. ot_jti t \<notin> set (td_blacklisted db)"
  shows "blacklist_all ts db = (Inr (), db\<lparr>td_blacklisted := td_blacklisted db @ map ot_jti ts\<rparr>)"
  using assms
proof (induction ts arbitrary: db)
  case (Cons t ts)
  let ?db = "db\<lparr>td_blacklisted := td_blacklisted db @ [ot_jti t]\<rparr>"
  have "\<forall>s \<in> set ts. ot_jti s \<notin> set (td_blacklisted ?db)"
    using Cons.prems by (auto simp: image_iff)
  from Cons.IH [OF _ this] Cons.prems show ?case
    by (simp add: bind_act_def blacklist_create_def)
qed simp

lemma active_after:
  assumes "td_outstanding db' = td_outstanding db"
    and "set (td_blacklisted db') = set (td_blacklisted db) \<union> ot_jti ` set ts"
  shows "active_tokens uid db' = filter (\<lambda>t. ot_jti t \<notin> ot_jti ` set ts) (active_tokens uid db)"
  using assms by (simp add: active_tokens_def conj_commute conj_left_commute)

lemma active_distinct:
  "distinct (map ot_jti (td_outstanding db)) \<Longrightarrow> distinct (map ot_jti (active_tokens uid db))"
  by (simp add: active_tokens_def distinct_map_filter)

lemma jti_inj:
  assumes "distinct (map ot_jti xs)" and "x \<in> set xs" and "ys \<subseteq> set xs"
  shows "ot_jti x \<in> ot_jti ` ys \<longleftrightarrow> x \<in> ys"
  using assms by (auto simp: distinct_map inj_on_def)

lemma sorted_take_drop:
  assumes "sorted (map f xs)" and "a \<in> set (take k xs)" and "b \<in> set (drop k xs)"
  shows "f a \<le> (f b :: 'a :: linorder)"
proof -
  from assms(1) have "sorted (map f (take k xs) @ map f (drop k xs))"
    by (metis append_take_drop_id map_append)
  with assms(2,3) show ?thesis unfolding sorted_append by auto
qed

text \<open>The rows a cut of the oldest \<open>k\<close> leaves.\<close>

lemma cut_oldest:
  fixes k :: nat
  assumes "distinct (map ot_jti xs)" and "srt = sort_key ot_created_at xs"
    and "ys = filter (\<lambda>t. ot_jti t \<notin> ot_jti ` set (take k srt)) xs"
  shows "length ys = length xs - k" and "set ys = set (drop k srt)" and "set xs - set ys = set (take k srt)"
proof -
  have srt: "set srt = set xs" "distinct srt" "length srt = length xs"
    using assms(1,2) by (simp_all add: distinct_map)
  have split: "set (take k srt) \<union> set (drop k srt) = set xs" "set (take k srt) \<inter> set (drop k srt) = {}"
    using srt set_append [of "take k srt" "drop k srt"] set_take_disj_set_drop_if_distinct [of srt k k] by auto
  have ys: "set ys = set xs - set (take k srt)"
    using jti_inj [OF assms(1), of _ "set (take k srt)"] split by (auto simp: assms(3))
  with split show "set ys = set (drop k srt)" and "set xs - set ys = set (take k srt)" by auto
  have "distinct ys" using assms(1,3) by (simp add: distinct_map)
  then have "length ys = card (set (drop k srt))" using \<open>set ys = set (drop k srt)\<close> distinct_card by metis
  also have "\<dots> = length xs - k" using srt distinct_card [of "drop k srt"] by simp
  finally show "length ys = length xs - k" .
qed

lemma limit_outstanding: "td_outstanding (enforce_session_limit cfg uid db) = td_outstanding db"
  by (simp add: enforce_session_limit_def Let_def fold_blacklist)

lemma limit_blacklists:
  "set (td_blacklisted db) \<subseteq> set (td_blacklisted (enforce_session_limit cfg uid db))"
  by (simp add: enforce_session_limit_def Let_def fold_blacklist)

lemma active_subset:
  "set (active_tokens uid (enforce_session_limit cfg uid' db)) \<subseteq> set (active_tokens uid db)"
  using limit_blacklists [of db cfg uid'] by (auto simp: active_tokens_def limit_outstanding)

lemma active_limited_distinct:
  "distinct (map ot_jti (td_outstanding db)) \<Longrightarrow> distinct (active_tokens uid (enforce_session_limit cfg uid' db))"
  by (auto simp: active_tokens_def limit_outstanding distinct_map)

lemma limit_facts:
  assumes "distinct (map ot_jti (td_outstanding db))" and "cfg ''MAX_CONCURRENT_SESSIONS'' = Some limit" and "0 < limit"
  shows "length (active_tokens uid (enforce_session_limit cfg uid db)) = min (length (active_tokens uid db)) (nat limit)
    \<and> (\<forall>gone \<in> set (active_tokens uid db) - set (active_tokens uid (enforce_session_limit cfg uid db)).
        \<forall>kept \<in> set (active_tokens uid (enforce_session_limit cfg uid db)). ot_created_at gone \<le> ot_created_at kept)
    \<and> (uid' \<noteq> uid \<longrightarrow> active_tokens uid' (enforce_session_limit cfg uid db) = active_tokens uid' db)"
proof -
  let ?xs = "active_tokens uid db" and ?srt = "sort_key ot_created_at (active_tokens uid db)"
  let ?k = "nat (int (length ?xs) - limit)"
  let ?db = "enforce_session_limit cfg uid db"
  show ?thesis
  proof (cases "int (length ?xs) \<le> limit")
    case True
    then have "?db = db" using assms(2,3) by (simp add: enforce_session_limit_def)
    with True show ?thesis by auto
  next
    case False
    then have db: "?db = fold blacklist_get_or_create (take ?k ?srt) db"
      using assms(2,3) by (simp add: enforce_session_limit_def)
    have active: "active_tokens u ?db = filter (\<lambda>t. ot_jti t \<notin> ot_jti ` set (take ?k ?srt)) (active_tokens u db)" for u
      unfolding db by (rule active_after) (simp_all only: fold_blacklist)
    note cut = cut_oldest [OF active_distinct [OF assms(1)] refl active [of uid]]
    have len: "length (active_tokens uid ?db) = min (length ?xs) (nat limit)"
      using cut(1) False assms(3) by auto
    have order: "ot_created_at a \<le> ot_created_at b" if "a \<in> set (take ?k ?srt)" "b \<in> set (drop ?k ?srt)" for a b
      using that by (intro sorted_take_drop [of ot_created_at ?srt]) simp_all
    have other: "active_tokens uid' ?db = active_tokens uid' db" if "uid' \<noteq> uid"
    proof -
      have "t \<notin> set (active_tokens uid' db) \<or> ot_jti t \<notin> ot_jti ` set (take ?k ?srt)" for t
      proof (rule ccontr)
        assume "\<not> ?thesis"
        then obtain s where t: "t \<in> set (active_tokens uid' db)" and s: "s \<in> set (take ?k ?srt)" "ot_jti s = ot_jti t"
          by (auto simp: image_iff)
        from s(1) have s': "s \<in> set ?xs" using set_take_subset [of ?k ?srt] by auto
        with t s(2) assms(1) have "s = t"
          by (auto simp: active_tokens_def distinct_map inj_on_def)
        with t s' that show False by (simp add: active_tokens_def)
      qed
      then show ?thesis unfolding active by (intro filter_True) blast
    qed
    from len order other cut(2,3) show ?thesis by auto
  qed
qed

section \<open>Properties of sessions\<close>

text \<open>The limit on concurrent sessions.  With a positive limit, the user's active refresh
  tokens are cut to the limit (fewer stay as they are), the ones that go are the oldest,
  and no token of another user is touched.\<close>

theorem session_limit:
  assumes "distinct (map ot_jti (td_outstanding db))" and "cfg ''MAX_CONCURRENT_SESSIONS'' = Some limit" and "0 < limit"
  shows "length (active_tokens uid (enforce_session_limit cfg uid db)) = min (length (active_tokens uid db)) (nat limit)
    \<and> (\<forall>gone \<in> set (active_tokens uid db) - set (active_tokens uid (enforce_session_limit cfg uid db)).
        \<forall>kept \<in> set (active_tokens uid (enforce_session_limit cfg uid db)). ot_created_at gone \<le> ot_created_at kept)
    \<and> (uid' \<noteq> uid \<longrightarrow> active_tokens uid' (enforce_session_limit cfg uid db) = active_tokens uid' db)"
  using assms by (rule limit_facts)

definition sample_tokens :: token_db where
  "sample_tokens = \<lparr>td_outstanding = [\<lparr>ot_jti = ''b'', ot_user = ''u'', ot_created_at = 5\<rparr>,
      \<lparr>ot_jti = ''a'', ot_user = ''u'', ot_created_at = 3\<rparr>, \<lparr>ot_jti = ''z'', ot_user = ''v'', ot_created_at = 1\<rparr>],
     td_blacklisted = []\<rparr>"

lemma session_limit_witness:
  "length (active_tokens ''u'' (enforce_session_limit [''MAX_CONCURRENT_SESSIONS'' \<mapsto> 1] ''u'' sample_tokens)) = 1"
  using session_limit [of sample_tokens "[''MAX_CONCURRENT_SESSIONS'' \<mapsto> 1]" 1 "''u''"]
  by (simp add: sample_tokens_def active_tokens_def)

lemma logout_all_facts:
  assumes "distinct (map ot_jti (td_outstanding db))"
  shows "\<exists>db'. logout_all_post u (db, log) = (Inr (), (db',
        log @ [\<lparr>ev_actor = Some u, ev_user_email = usr_email u, ev_category = ''auth'', ev_event = ''logout_all'',
                ev_tenant = None, ev_metadata = []\<rparr>]))
    \<and> active_tokens (usr_id u) db' = [] \<and> td_outstanding db' = td_outstanding db
    \<and> (\<forall>uid. uid \<noteq> usr_id u \<longrightarrow> active_tokens uid db' = active_tokens uid db)"
proof -
  let ?ts = "active_tokens (usr_id u) db"
  let ?db = "db\<lparr>td_blacklisted := td_blacklisted db @ map ot_jti ?ts\<rparr>"
  have "blacklist_all ?ts db = (Inr (), ?db)"
    by (rule blacklist_all_run [OF active_distinct [OF assms]]) (simp add: active_tokens_def)
  then have run: "logout_all_post u (db, log) = (Inr (), (?db,
        record_event (Some u) (usr_email u) ''auth'' ''logout_all'' None [] log))"
    by (simp add: logout_all_post_def)
  have active: "active_tokens uid ?db = filter (\<lambda>t. ot_jti t \<notin> ot_jti ` set ?ts) (active_tokens uid db)" for uid
    by (rule active_after) simp_all
  have "active_tokens (usr_id u) ?db = []" unfolding active by (auto simp: filter_empty_conv)
  moreover have "active_tokens uid ?db = active_tokens uid db" if "uid \<noteq> usr_id u" for uid
    unfolding active using that assms by (intro filter_True) (auto simp: active_tokens_def distinct_map inj_on_def)
  ultimately show ?thesis using run by (auto simp: record_event_def)
qed

text \<open>Logging out everywhere.  With distinct token ids it always succeeds: afterwards the user
  has no active refresh token, the other users' tokens are as before, and exactly one
  \<open>logout_all\<close> event is recorded.\<close>

theorem logout_all_ends_sessions:
  assumes "distinct (map ot_jti (td_outstanding db))"
  shows "\<exists>db'. logout_all_post u (db, log) = (Inr (), (db',
        log @ [\<lparr>ev_actor = Some u, ev_user_email = usr_email u, ev_category = ''auth'', ev_event = ''logout_all'',
                ev_tenant = None, ev_metadata = []\<rparr>]))
    \<and> active_tokens (usr_id u) db' = []
    \<and> (\<forall>uid. uid \<noteq> usr_id u \<longrightarrow> active_tokens uid db' = active_tokens uid db)"
  using logout_all_facts [OF assms] by blast

lemma logout_all_witness:
  "\<exists>db'. fst (logout_all_post ((sample_user ''u'' False)\<lparr>usr_id := ''u''\<rparr>) (sample_tokens, [])) = Inr ()
     \<and> active_tokens ''u'' db' = []"
  using logout_all_ends_sessions [of sample_tokens "(sample_user ''u'' False)\<lparr>usr_id := ''u''\<rparr>" "[]"]
  by (auto simp: sample_tokens_def)

end
