(* ===== verification/Mfa.thy ===== *)
theory Mfa
  imports Sessions "HOL-Library.Countable"
begin

text \<open>
  Multi-factor authentication (\<open>apps/iam_mfa\<close>): the encryption of secrets at rest, the
  challenge token of a login, enrolment, verification and removal of a TOTP device, backup
  codes, and the second step of a login.  Cryptography (Fernet, JWT, TOTP, password hashing)
  is a record of parameters; \<open>crypto_contract\<close> states what is relied on.
\<close>

section \<open>The cryptographic libraries\<close>

datatype jwt_error = ExpiredSignature | InvalidToken

text \<open>
  \<open>co_encrypt\<close> and \<open>co_decrypt\<close> are those of a \<open>MultiFernet\<close> over derived keys,
  \<open>co_totp secret code now\<close> is \<open>TOTP(secret).verify(code, valid_window=1)\<close> (it raises on a
  secret that is not base32), \<open>co_hash\<close> takes the random salt as its first argument.
\<close>

record crypto_ops =
  co_derive :: "string \<Rightarrow> string"
  co_encrypt :: "string list \<Rightarrow> string \<Rightarrow> string"
  co_decrypt :: "string list \<Rightarrow> string \<Rightarrow> string option"
  co_totp :: "string \<Rightarrow> string \<Rightarrow> int \<Rightarrow> bool res"
  co_hash :: "nat \<Rightarrow> string \<Rightarrow> string"
  co_check :: "string \<Rightarrow> string \<Rightarrow> bool"
  co_jwt_encode :: "rules \<Rightarrow> string"
  co_jwt_decode :: "string \<Rightarrow> int \<Rightarrow> jwt_error + rules"

text \<open>
  A ciphertext made with a key decrypts under any list of keys that contains it; a password
  matches exactly its own hash; a token decodes to its claims unless it was issued in the
  future or has expired.
\<close>

definition crypto_contract :: "crypto_ops \<Rightarrow> bool" where
  "crypto_contract X \<longleftrightarrow>
     (\<forall>k ks ks' p. k \<in> set ks' \<longrightarrow> co_decrypt X ks' (co_encrypt X (k # ks) p) = Some p)
   \<and> (\<forall>n raw raw'. co_check X raw' (co_hash X n raw) \<longleftrightarrow> raw' = raw)
   \<and> (\<forall>p i e now. map_of p ''iat'' = Some (JInt i) \<and> map_of p ''exp'' = Some (JInt e) \<longrightarrow>
        co_jwt_decode X (co_jwt_encode X p) now =
          (if now < i then Inl InvalidToken else if e \<le> now then Inl ExpiredSignature else Inr p))"

section \<open>Secrets at rest\<close>

definition get_fernet :: "crypto_ops \<Rightarrow> string list \<Rightarrow> string list res" where
  "get_fernet X encryption_keys =
     (if encryption_keys = [] then Inl (OtherErr ''ImproperlyConfigured'')
      else Inr (map (co_derive X) encryption_keys))"

definition encrypt_secret :: "crypto_ops \<Rightarrow> string list \<Rightarrow> string \<Rightarrow> string res" where
  "encrypt_secret X encryption_keys plaintext =
     bind_res (get_fernet X encryption_keys) (\<lambda>fs. Inr (co_encrypt X fs plaintext))"

definition decrypt_secret :: "crypto_ops \<Rightarrow> string list \<Rightarrow> string \<Rightarrow> string res" where
  "decrypt_secret X encryption_keys ciphertext =
     bind_res (get_fernet X encryption_keys) (\<lambda>fs.
       case co_decrypt X fs ciphertext of None \<Rightarrow> Inl (OtherErr ''InvalidToken'') | Some p \<Rightarrow> Inr p)"

section \<open>The challenge token\<close>

definition challenge_ttl_minutes :: int where
  "challenge_ttl_minutes = 5"

definition challenge_type :: string where
  "challenge_type = ''mfa_challenge''"

definition issue_challenge_token :: "crypto_ops \<Rightarrow> int \<Rightarrow> string \<Rightarrow> string \<Rightarrow> string" where
  "issue_challenge_token X now user_id tenant_id =
     co_jwt_encode X [(''user_id'', JStr user_id), (''tenant_id'', JStr tenant_id),
       (''type'', JStr challenge_type), (''iat'', JInt now),
       (''exp'', JInt (now + challenge_ttl_minutes * 60))]"

definition challenge_error :: "string \<Rightarrow> string \<Rightarrow> exn" where
  "challenge_error msg code = ValidationError ''challenge_token'' msg code"

definition verify_challenge_token :: "crypto_ops \<Rightarrow> int \<Rightarrow> string \<Rightarrow> (json \<times> json) res" where
  "verify_challenge_token X now token =
     (case co_jwt_decode X token now of
        Inl ExpiredSignature \<Rightarrow> Inl (challenge_error ''Challenge token has expired.'' ''mfa_challenge_expired'')
      | Inl InvalidToken \<Rightarrow> Inl (challenge_error ''Invalid challenge token.'' ''mfa_challenge_invalid'')
      | Inr payload \<Rightarrow>
          if dict_get payload ''type'' \<noteq> JStr challenge_type
          then Inl (challenge_error ''Invalid challenge token.'' ''mfa_challenge_invalid'')
          else bind_res (dict_item payload ''user_id'') (\<lambda>u.
               bind_res (dict_item payload ''tenant_id'') (\<lambda>t. Inr (u, t))))"

section \<open>Devices and backup codes\<close>

record mfa_device =
  md_id :: string
  md_tenant :: string
  md_user :: string
  md_secret :: string
  md_label :: string
  md_active :: bool
  md_created_at :: int

record backup_code =
  bc_id :: string
  bc_device :: string
  bc_hash :: string
  bc_used :: bool
  bc_created_at :: int

record mfa_db =
  mf_devices :: "mfa_device list"
  mf_codes :: "backup_code list"

text \<open>
  Both tables order by descending creation time.  A device's manager is scoped to the bound
  tenant; the user of an anonymous request is no UUID, which the lookup refuses.
\<close>

definition device_rows :: "ctx \<Rightarrow> string \<Rightarrow> mfa_db \<Rightarrow> mfa_device list" where
  "device_rows c uid db =
     sort_key (\<lambda>d. - md_created_at d)
       (filter (\<lambda>d. md_user d = uid \<and> md_active d) (manager_queryset md_tenant c (mf_devices db)))"

definition active_device :: "ctx \<Rightarrow> user option \<Rightarrow> mfa_db \<Rightarrow> mfa_device option res" where
  "active_device c u db =
     (case u of
        None \<Rightarrow> Inl (ValidationError ''code'' ''not a valid UUID.'' ''invalid'')
      | Some u \<Rightarrow> Inr (qs_first (device_rows c (usr_id u) db)))"

definition unused_codes :: "string \<Rightarrow> mfa_db \<Rightarrow> backup_code list" where
  "unused_codes dev db =
     sort_key (\<lambda>b. - bc_created_at b) (filter (\<lambda>b. bc_device b = dev \<and> \<not> bc_used b) (mf_codes db))"

definition invalid_code :: exn where
  "invalid_code = ValidationError ''code'' ''Invalid authentication code.'' ''mfa_invalid_code''"

definition not_setup :: "string \<Rightarrow> exn" where
  "not_setup field = ValidationError field ''No active MFA device found.'' ''mfa_not_setup''"

section \<open>Enrolment\<close>

text \<open>\<open>MFASetupSerializer.save\<close>; the QR image of the provisioning URI is a parameter.\<close>

definition mfa_setup ::
  "(string \<Rightarrow> string \<Rightarrow> string) \<Rightarrow> string \<Rightarrow> ctx \<Rightarrow> user \<Rightarrow> mfa_db \<Rightarrow> (string \<times> string) res" where
  "mfa_setup qr_of random_secret c u db =
     (if device_rows c (usr_id u) db \<noteq> []
      then Inl (ValidationError ''detail'' ''MFA is already active for this user.'' ''mfa_already_active'')
      else Inr (random_secret, qr_of random_secret (usr_email u)))"

text \<open>A \<open>CharField\<close>: white space is trimmed and a blank value refused.\<close>

definition trimmed_field :: "string \<Rightarrow> string option \<Rightarrow> string res" where
  "trimmed_field name v =
     (case v of
        None \<Rightarrow> Inl (ValidationError name ''This field is required.'' ''required'')
      | Some s \<Rightarrow> if strip s = [] then Inl (ValidationError name ''This field may not be blank.'' ''blank'')
                  else Inr (strip s))"

definition code_field :: "string option \<Rightarrow> string res" where
  "code_field v = bind_res (trimmed_field ''code'' v) (\<lambda>s.
     if length s < 6 then Inl (ValidationError ''code'' ''Ensure this field has at least 6 characters.'' ''min_length'')
     else if 6 < length s then Inl (ValidationError ''code'' ''Ensure this field has no more than 6 characters.'' ''max_length'')
     else Inr s)"

text \<open>\<open>MFAConfirmSetupSerializer.validate\<close> and \<open>save\<close>.\<close>

definition confirm_validate :: "crypto_ops \<Rightarrow> int \<Rightarrow> string \<Rightarrow> string \<Rightarrow> unit res" where
  "confirm_validate X now secret code =
     bind_res (co_totp X secret code now) (\<lambda>valid. guard valid invalid_code)"

definition confirm_save ::
  "crypto_ops \<Rightarrow> string list \<Rightarrow> int \<Rightarrow> string \<Rightarrow> tenant list \<Rightarrow> request \<Rightarrow> user \<Rightarrow> string \<Rightarrow> string
    \<Rightarrow> (mfa_db, unit) act" where
  "confirm_save X encryption_keys now new_id tenants rq u secret label db =
     (case qs_get (\<lambda>t. get_tenant_id rq = Some (tn_id t)) tenants of
        Inl e \<Rightarrow> (Inl e, db)
      | Inr t \<Rightarrow>
         (case encrypt_secret X encryption_keys secret of
            Inl e \<Rightarrow> (Inl e, db)
          | Inr cipher \<Rightarrow> (Inr (), db\<lparr>mf_devices := mf_devices db @
              [\<lparr>md_id = new_id, md_tenant = tn_id t, md_user = usr_id u, md_secret = cipher,
                md_label = label, md_active = True, md_created_at = now\<rparr>]\<rparr>)))"

definition confirm_setup_post ::
  "crypto_ops \<Rightarrow> string list \<Rightarrow> int \<Rightarrow> string \<Rightarrow> tenant list \<Rightarrow> request \<Rightarrow> user
    \<Rightarrow> string option \<Rightarrow> string option \<Rightarrow> string option \<Rightarrow> (mfa_db, unit) act" where
  "confirm_setup_post X encryption_keys now new_id tenants rq u secret code label =
     bind_act (lift_res (trimmed_field ''secret'' secret)) (\<lambda>s.
     bind_act (lift_res (code_field code)) (\<lambda>k.
     bind_act (lift_res (trimmed_field ''label'' (case label of None \<Rightarrow> Some ''Authenticator App'' | Some l \<Rightarrow> Some l))) (\<lambda>l.
     bind_act (lift_res (confirm_validate X now s k)) (\<lambda>_.
       confirm_save X encryption_keys now new_id tenants rq u s l))))"

section \<open>Verification and removal\<close>

text \<open>\<open>MFAVerifySerializer.validate_code\<close>; \<open>MFADisableSerializer.validate_code\<close> is the same code.\<close>

definition validate_code ::
  "crypto_ops \<Rightarrow> string list \<Rightarrow> int \<Rightarrow> ctx \<Rightarrow> user option \<Rightarrow> mfa_db \<Rightarrow> string \<Rightarrow> string res" where
  "validate_code X encryption_keys now c u db v =
     bind_res (active_device c u db) (\<lambda>dev.
       case dev of
         None \<Rightarrow> Inl (not_setup ''code'')
       | Some d \<Rightarrow>
           bind_res (decrypt_secret X encryption_keys (md_secret d)) (\<lambda>secret.
           bind_res (co_totp X secret v now) (\<lambda>valid.
             if valid then Inr v else Inl invalid_code)))"

definition mfa_verify_post ::
  "crypto_ops \<Rightarrow> string list \<Rightarrow> int \<Rightarrow> ctx \<Rightarrow> user option \<Rightarrow> mfa_db \<Rightarrow> string option \<Rightarrow> unit res" where
  "mfa_verify_post X encryption_keys now c u db code =
     bind_res (code_field code) (\<lambda>v.
     bind_res (validate_code X encryption_keys now c u db v) (\<lambda>_. Inr ()))"

definition disable_save :: "ctx \<Rightarrow> user \<Rightarrow> mfa_db \<Rightarrow> mfa_db" where
  "disable_save c u db =
     (case qs_first (device_rows c (usr_id u) db) of
        None \<Rightarrow> db
      | Some d \<Rightarrow> \<lparr>mf_devices = save_row (\<lambda>r. md_id r = md_id d) (\<lambda>r. r\<lparr>md_active := False\<rparr>) (mf_devices db),
                   mf_codes = filter (\<lambda>b. bc_device b \<noteq> md_id d) (mf_codes db)\<rparr>)"

definition mfa_disable_post ::
  "crypto_ops \<Rightarrow> string list \<Rightarrow> int \<Rightarrow> ctx \<Rightarrow> user \<Rightarrow> string option \<Rightarrow> (mfa_db, unit) act" where
  "mfa_disable_post X encryption_keys now c u code db =
     (case bind_res (code_field code) (validate_code X encryption_keys now c (Some u) db) of
        Inl e \<Rightarrow> (Inl e, db)
      | Inr _ \<Rightarrow> (Inr (), disable_save c u db))"

section \<open>Backup codes and status\<close>

definition code_characters :: string where
  "code_characters = ''ABCDEFGHIJKLMNOPQRSTUVWXYZ0123456789''"

text \<open>\<open>rnd i j\<close> is the random number behind the character \<open>j\<close> of the code \<open>i\<close>.\<close>

definition raw_backup_codes :: "(nat \<Rightarrow> nat \<Rightarrow> nat) \<Rightarrow> nat \<Rightarrow> nat \<Rightarrow> string list" where
  "raw_backup_codes rnd count len =
     map (\<lambda>i. map (\<lambda>j. code_characters ! (rnd i j mod length code_characters)) [0..<len]) [0..<count]"

definition config_nat :: "int_config \<Rightarrow> string \<Rightarrow> int \<Rightarrow> nat" where
  "config_nat cfg k dflt = nat (case cfg k of None \<Rightarrow> dflt | Some n \<Rightarrow> n)"

definition generate_backup_codes ::
  "crypto_ops \<Rightarrow> int_config \<Rightarrow> (nat \<Rightarrow> nat \<Rightarrow> nat) \<Rightarrow> (nat \<Rightarrow> string) \<Rightarrow> (nat \<Rightarrow> nat) \<Rightarrow> int \<Rightarrow> ctx \<Rightarrow> user
    \<Rightarrow> (mfa_db, string list) act" where
  "generate_backup_codes X cfg rnd new_id salt now c u db =
     (case qs_first (device_rows c (usr_id u) db) of
        None \<Rightarrow> (Inl (not_setup ''detail''), db)
      | Some d \<Rightarrow>
          let raw = raw_backup_codes rnd (config_nat cfg ''backup_code_count'' 10)
                      (config_nat cfg ''backup_code_length'' 10) in
          (Inr raw, db\<lparr>mf_codes := filter (\<lambda>b. bc_device b \<noteq> md_id d) (mf_codes db) @
             map (\<lambda>(i, r). \<lparr>bc_id = new_id i, bc_device = md_id d, bc_hash = co_hash X (salt i) r,
                            bc_used = False, bc_created_at = now\<rparr>) (enumerate 0 raw)\<rparr>))"

record mfa_status =
  st_enabled :: bool
  st_enforcement :: string
  st_device_label :: "string option"
  st_backup_codes_remaining :: nat

definition mfa_status_of ::
  "ctx \<Rightarrow> tenant_setting list \<Rightarrow> merged_catalog \<Rightarrow> request \<Rightarrow> user \<Rightarrow> mfa_db \<Rightarrow> mfa_status res" where
  "mfa_status_of c rows cat rq u db =
     bind_res (get_tenant_setting c rows cat (or_empty (get_tenant_id rq)) ''mfa_enabled'') (\<lambda>en.
     bind_res (get_tenant_setting c rows cat (or_empty (get_tenant_id rq)) ''mfa_enforcement'') (\<lambda>enf.
       let dev = qs_first (device_rows c (usr_id u) db) in
       Inr \<lparr>st_enabled = (en = Some ''true''),
            st_enforcement = (if truthy enf then or_empty enf else ''optional''),
            st_device_label = map_option md_label dev,
            st_backup_codes_remaining = (case dev of None \<Rightarrow> 0 | Some d \<Rightarrow> length (unused_codes (md_id d) db))\<rparr>))"

section \<open>The second step of a login\<close>

text \<open>
  A token pair is kept as its claims: the refresh token's id, the user and the tenant (the
  access token copies the last two).  \<open>for_user\<close> is the library's \<open>RefreshToken.for_user\<close>.
\<close>

record token_pair =
  tp_jti :: string
  tp_user :: string
  tp_tenant :: string

type_synonym token_issuer = "user \<Rightarrow> int \<Rightarrow> (token_db, string) act"

definition issuer_contract :: "token_issuer \<Rightarrow> bool" where
  "issuer_contract for_user \<longleftrightarrow>
     (\<forall>u now db jti db'. for_user u now db = (Inr jti, db') \<longrightarrow>
        jti \<notin> ot_jti ` set (td_outstanding db) \<and> jti \<notin> set (td_blacklisted db)
      \<and> db' = db\<lparr>td_outstanding := td_outstanding db @
            [\<lparr>ot_jti = jti, ot_user = usr_id u, ot_created_at = now\<rparr>]\<rparr>)
   \<and> (\<forall>u now db e db'. for_user u now db = (Inl e, db') \<longrightarrow> db' = db)"

lemma issuer_adds:
  assumes "issuer_contract for_user" and "for_user u now db = (Inr jti, db')"
  shows "jti \<notin> ot_jti ` set (td_outstanding db)" and "jti \<notin> set (td_blacklisted db)"
    and "db' = db\<lparr>td_outstanding := td_outstanding db @ [\<lparr>ot_jti = jti, ot_user = usr_id u, ot_created_at = now\<rparr>]\<rparr>"
  using assms unfolding issuer_contract_def by blast+

definition login_device :: "ctx \<Rightarrow> string \<Rightarrow> string \<Rightarrow> mfa_db \<Rightarrow> mfa_device option" where
  "login_device c uid tenant db = qs_first (filter (\<lambda>d. md_tenant d = tenant) (device_rows c uid db))"

definition matching_code :: "crypto_ops \<Rightarrow> string \<Rightarrow> string \<Rightarrow> mfa_db \<Rightarrow> backup_code option" where
  "matching_code X dev code db = qs_first (filter (\<lambda>b. co_check X code (bc_hash b)) (unused_codes dev db))"

definition use_code :: "backup_code \<Rightarrow> mfa_db \<Rightarrow> mfa_db" where
  "use_code b db = db\<lparr>mf_codes := save_row (\<lambda>r. bc_id r = bc_id b) (\<lambda>r. r\<lparr>bc_used := True\<rparr>) (mf_codes db)\<rparr>"

text \<open>The check of the code: the TOTP of the device, otherwise an unused backup code, which is used up.\<close>

definition check_second_factor ::
  "crypto_ops \<Rightarrow> string list \<Rightarrow> int \<Rightarrow> mfa_device \<Rightarrow> string \<Rightarrow> (mfa_db, unit) act" where
  "check_second_factor X encryption_keys now d code db =
     (case bind_res (decrypt_secret X encryption_keys (md_secret d)) (\<lambda>s. co_totp X s code now) of
        Inl e \<Rightarrow> (Inl e, db)
      | Inr True \<Rightarrow> (Inr (), db)
      | Inr False \<Rightarrow>
         (case matching_code X (md_id d) code db of
            None \<Rightarrow> (Inl invalid_code, db)
          | Some b \<Rightarrow> (Inr (), use_code b db)))"

definition login_verify ::
  "crypto_ops \<Rightarrow> string list \<Rightarrow> token_issuer \<Rightarrow> user list \<Rightarrow> int \<Rightarrow> ctx \<Rightarrow> string \<Rightarrow> string
    \<Rightarrow> (mfa_db \<times> token_db, token_pair) act" where
  "login_verify X encryption_keys for_user users now c challenge code w =
     (case verify_challenge_token X now challenge of
        Inl e \<Rightarrow> (Inl e, w)
      | Inr (uid, tenant) \<Rightarrow>
         (case qs_get (\<lambda>u. JStr (usr_id u) = uid) users of
            Inl DoesNotExist \<Rightarrow> (Inl (challenge_error ''Invalid challenge token.'' ''mfa_challenge_invalid''), w)
         | Inl e \<Rightarrow> (Inl e, w)
          | Inr u \<Rightarrow>
             (case login_device c (usr_id u) (json_str tenant) (fst w) of
                None \<Rightarrow> (Inl (not_setup ''detail''), w)
              | Some d \<Rightarrow>
                 (case check_second_factor X encryption_keys now d code (fst w) of
                    (Inl e, db) \<Rightarrow> (Inl e, (db, snd w))
                  | (Inr _, db) \<Rightarrow>
                     (case for_user u now (snd w) of
                        (Inl e, tk) \<Rightarrow> (Inl e, (db, tk))
                      | (Inr jti, tk) \<Rightarrow>
                          (Inr \<lparr>tp_jti = jti, tp_user = usr_id u, tp_tenant = json_str tenant\<rparr>, (db, tk)))))))"

definition login_verify_post ::
  "crypto_ops \<Rightarrow> string list \<Rightarrow> token_issuer \<Rightarrow> user list \<Rightarrow> int \<Rightarrow> ctx \<Rightarrow> string option \<Rightarrow> string option
    \<Rightarrow> (mfa_db \<times> token_db, token_pair) act" where
  "login_verify_post X encryption_keys for_user users now c challenge code =
     bind_act (lift_res (trimmed_field ''challenge_token'' challenge)) (\<lambda>ch.
     bind_act (lift_res (trimmed_field ''code'' code)) (\<lambda>k.
       login_verify X encryption_keys for_user users now c ch k))"

section \<open>Facts about devices, codes and challenges\<close>

lemma mem_device_rows:
  "d \<in> set (device_rows c uid db) \<longleftrightarrow> d \<in> set (mf_devices db) \<and> md_user d = uid \<and> md_active d
     \<and> (case scope_tenant c of None \<Rightarrow> True | Some t \<Rightarrow> md_tenant d = t)"
  by (auto simp: device_rows_def manager_queryset_def split: option.splits)

lemma mem_unused_codes:
  "b \<in> set (unused_codes dev db) \<longleftrightarrow> b \<in> set (mf_codes db) \<and> bc_device b = dev \<and> \<not> bc_used b"
  by (auto simp: unused_codes_def)

lemma matching_code_Some:
  "matching_code X dev code db = Some b \<Longrightarrow> b \<in> set (unused_codes dev db) \<and> co_check X code (bc_hash b)"
  unfolding matching_code_def by (drule qs_first_Some_mem) auto

lemma matching_code_None:
  "matching_code X dev code db = None \<longleftrightarrow>
     (\<forall>b \<in> set (mf_codes db). bc_device b = dev \<and> \<not> bc_used b \<longrightarrow> \<not> co_check X code (bc_hash b))"
  by (auto simp: matching_code_def qs_first_None_iff filter_empty_conv mem_unused_codes)

lemma second_factor_cases:
  assumes "check_second_factor X ks now d code db = (Inr (), db')"
  obtains (totp) s where "decrypt_secret X ks (md_secret d) = Inr s" "co_totp X s code now = Inr True" "db' = db"
  | (backup) b where "b \<in> set (unused_codes (md_id d) db)" "co_check X code (bc_hash b)" "db' = use_code b db"
proof -
  let ?r = "bind_res (decrypt_secret X ks (md_secret d)) (\<lambda>s. co_totp X s code now)"
  consider "?r = Inr True" | "?r = Inr False" | e where "?r = Inl e"
    by (metis (full_types) old.sum.exhaust)
  then show thesis
  proof cases
    case 1
    then obtain s where "decrypt_secret X ks (md_secret d) = Inr s" "co_totp X s code now = Inr True"
      by (auto simp: res_simps)
    with 1 assms totp show thesis by (simp add: check_second_factor_def)
  next
    case 2
    with assms obtain b where b: "matching_code X (md_id d) code db = Some b" "db' = use_code b db"
      by (auto simp: check_second_factor_def split: option.splits)
    from matching_code_Some [OF b(1)] b(2) backup show thesis by blast
  qed (use assms in \<open>simp add: check_second_factor_def\<close>)
qed

lemma login_verify_Inr:
  assumes "login_verify X ks for_user users now c ch code w = (Inr tp, w')"
  obtains uid tenant u d where "verify_challenge_token X now ch = Inr (uid, tenant)"
    "qs_get (\<lambda>u. JStr (usr_id u) = uid) users = Inr u"
    "login_device c (usr_id u) (json_str tenant) (fst w) = Some d"
    "check_second_factor X ks now d code (fst w) = (Inr (), fst w')"
    "for_user u now (snd w) = (Inr (tp_jti tp), snd w')"
    "tp_user tp = usr_id u" "tp_tenant tp = json_str tenant"
proof -
  obtain uid tenant where v: "verify_challenge_token X now ch = Inr (uid, tenant)"
    using assms by (cases "verify_challenge_token X now ch") (auto simp: login_verify_def)
  obtain u where u: "qs_get (\<lambda>u. JStr (usr_id u) = uid) users = Inr u"
    using assms v by (cases "qs_get (\<lambda>u. JStr (usr_id u) = uid) users") (auto simp: login_verify_def split: exn.splits)
  obtain d where d: "login_device c (usr_id u) (json_str tenant) (fst w) = Some d"
    using assms v u by (cases "login_device c (usr_id u) (json_str tenant) (fst w)") (auto simp: login_verify_def)
  obtain r db where s: "check_second_factor X ks now d code (fst w) = (r, db)" by fastforce
  with assms v u d have r: "r = Inr ()" by (cases r) (auto simp: login_verify_def)
  obtain q tk where i: "for_user u now (snd w) = (q, tk)" by fastforce
  with assms v u d s r obtain jti where q: "q = Inr jti" by (cases q) (auto simp: login_verify_def)
  have "login_verify X ks for_user users now c ch code w =
      (Inr \<lparr>tp_jti = jti, tp_user = usr_id u, tp_tenant = json_str tenant\<rparr>, (db, tk))"
    using v u d s r i q by (simp add: login_verify_def)
  with assms have "tp = \<lparr>tp_jti = jti, tp_user = usr_id u, tp_tenant = json_str tenant\<rparr>" "w' = (db, tk)" by auto
  with that [OF v u d] s r i q show thesis by simp
qed

lemma login_verify_run:
  assumes "verify_challenge_token X now ch = Inr (uid, tenant)"
    and "qs_get (\<lambda>u. JStr (usr_id u) = uid) users = Inr u"
    and "login_device c (usr_id u) (json_str tenant) (fst w) = Some d"
    and "check_second_factor X ks now d code (fst w) = (Inr (), db)"
    and "for_user u now (snd w) = (Inr jti, tk)"
  shows "login_verify X ks for_user users now c ch code w =
    (Inr \<lparr>tp_jti = jti, tp_user = usr_id u, tp_tenant = json_str tenant\<rparr>, (db, tk))"
  using assms by (simp add: login_verify_def)

lemma crypto_laws:
  assumes "crypto_contract X"
  shows "k \<in> set ks' \<Longrightarrow> co_decrypt X ks' (co_encrypt X (k # ks) p) = Some p"
    and "co_check X raw' (co_hash X n raw) \<longleftrightarrow> raw' = raw"
    and "map_of q ''iat'' = Some (JInt i) \<Longrightarrow> map_of q ''exp'' = Some (JInt e) \<Longrightarrow>
      co_jwt_decode X (co_jwt_encode X q) now =
        (if now < i then Inl InvalidToken else if e \<le> now then Inl ExpiredSignature else Inr q)"
  using assms unfolding crypto_contract_def by simp_all

lemma decrypt_rotated:
  assumes "crypto_contract X" and "k \<in> set ks'" and "encrypt_secret X (k # ks) p = Inr cipher"
  shows "decrypt_secret X ks' cipher = Inr p"
proof -
  have "co_derive X k \<in> set (map (co_derive X) ks')" using assms(2) by simp
  from crypto_laws(1) [OF assms(1) this]
  have "co_decrypt X (map (co_derive X) ks') (co_encrypt X (co_derive X k # map (co_derive X) ks) p) = Some p" .
  moreover from assms(3) have "cipher = co_encrypt X (co_derive X k # map (co_derive X) ks) p"
    by (simp add: encrypt_secret_def get_fernet_def)
  ultimately show ?thesis using assms(2) by (auto simp: decrypt_secret_def get_fernet_def)
qed

lemma challenge_lifetime:
  assumes "crypto_contract X"
  shows "verify_challenge_token X now (issue_challenge_token X t0 u t) =
    (if now < t0 then Inl (challenge_error ''Invalid challenge token.'' ''mfa_challenge_invalid'')
     else if t0 + 300 \<le> now then Inl (challenge_error ''Challenge token has expired.'' ''mfa_challenge_expired'')
     else Inr (JStr u, JStr t))"
proof -
  let ?p = "[(''user_id'', JStr u), (''tenant_id'', JStr t), (''type'', JStr challenge_type), (''iat'', JInt t0),
     (''exp'', JInt (t0 + 300))]"
  have "map_of ?p ''iat'' = Some (JInt t0)" "map_of ?p ''exp'' = Some (JInt (t0 + 300))" by simp_all
  from crypto_laws(3) [OF assms this] have "co_jwt_decode X (co_jwt_encode X ?p) now =
      (if now < t0 then Inl InvalidToken else if t0 + 300 \<le> now then Inl ExpiredSignature else Inr ?p)" .
  then show ?thesis
    by (simp add: verify_challenge_token_def issue_challenge_token_def challenge_ttl_minutes_def dict_get_def dict_item_def)
qed

lemma use_code_spent:
  assumes "r \<in> set (mf_codes (use_code b db))" and "\<not> bc_used r"
  shows "r \<in> set (mf_codes db) \<and> bc_id r \<noteq> bc_id b"
  using assms by (auto simp: use_code_def set_save_row split: if_splits)

section \<open>An executable stand-in for the libraries\<close>

text \<open>
  Ciphertexts, hashes and tokens that carry what they stand for; the examples run over it.
\<close>

instance json :: countable
  by countable_datatype

definition plain_crypto :: crypto_ops where
  "plain_crypto = \<lparr>co_derive = (\<lambda>k. k), co_encrypt = (\<lambda>ks p. p), co_decrypt = (\<lambda>ks p. Some p),
     co_totp = (\<lambda>s code now. Inr (code = s)), co_hash = (\<lambda>n r. r), co_check = (\<lambda>r h. r = h),
     co_jwt_encode = (\<lambda>p. replicate (to_nat p) (CHR ''x'')),
     co_jwt_decode = (\<lambda>t now. let p = from_nat (length t) in
       case (map_of p ''iat'', map_of p ''exp'') of
         (Some (JInt i), Some (JInt e)) \<Rightarrow>
           if now < i then Inl InvalidToken else if e \<le> now then Inl ExpiredSignature else Inr p
       | _ \<Rightarrow> Inl InvalidToken)\<rparr>"

lemma plain_crypto_contract: "crypto_contract plain_crypto"
  by (simp add: crypto_contract_def plain_crypto_def)

definition serial_issuer :: token_issuer where
  "serial_issuer u now db =
     (let jti = replicate (Suc (sum_list (map length (map ot_jti (td_outstanding db) @ td_blacklisted db)))) (CHR ''t'')
      in (Inr jti, db\<lparr>td_outstanding := td_outstanding db @
            [\<lparr>ot_jti = jti, ot_user = usr_id u, ot_created_at = now\<rparr>]\<rparr>))"

lemma serial_issuer_contract: "issuer_contract serial_issuer"
proof -
  have "length s \<le> sum_list (map length (map ot_jti (td_outstanding db) @ td_blacklisted db))"
    if "s \<in> ot_jti ` set (td_outstanding db) \<union> set (td_blacklisted db)" for s db
    using that by (intro member_le_sum_list) auto
  then have "replicate (Suc (sum_list (map length (map ot_jti (td_outstanding db) @ td_blacklisted db)))) (CHR ''t'')
      \<notin> ot_jti ` set (td_outstanding db) \<union> set (td_blacklisted db)" for db
    by (metis Suc_n_not_le_n length_replicate)
  then show ?thesis by (auto simp: issuer_contract_def serial_issuer_def Let_def)
qed

definition sample_device :: mfa_device where
  "sample_device = \<lparr>md_id = ''d'', md_tenant = ''t'', md_user = ''u'', md_secret = ''123456'', md_label = ''A'',
     md_active = True, md_created_at = 1\<rparr>"

definition no_tokens :: token_db where
  "no_tokens = \<lparr>td_outstanding = [], td_blacklisted = []\<rparr>"

definition mfa_user :: user where
  "mfa_user = (sample_user ''u'' False)\<lparr>usr_id := ''u''\<rparr>"

lemma plain_second_factor:
  "check_second_factor plain_crypto [''k''] now sample_device ''123456'' db = (Inr (), db)"
  by (simp add: check_second_factor_def decrypt_secret_def get_fernet_def plain_crypto_def sample_device_def)

lemma sample_login_verify:
  assumes "login_device None ''u'' ''t'' (fst w) = Some sample_device"
  shows "login_verify plain_crypto [''k''] serial_issuer [mfa_user] 5 None
      (issue_challenge_token plain_crypto 0 ''u'' ''t'') ''123456'' w =
    (Inr \<lparr>tp_jti = replicate (Suc (sum_list (map length (map ot_jti (td_outstanding (snd w)) @ td_blacklisted (snd w))))) (CHR ''t''),
      tp_user = ''u'', tp_tenant = ''t''\<rparr>, (fst w, snd (serial_issuer mfa_user 5 (snd w))))"
proof -
  have "verify_challenge_token plain_crypto 5 (issue_challenge_token plain_crypto 0 ''u'' ''t'') = Inr (JStr ''u'', JStr ''t'')"
    by (simp add: challenge_lifetime [OF plain_crypto_contract])
  from login_verify_run [OF this, of "[mfa_user]" mfa_user None w sample_device "[''k'']" "''123456''" "fst w" serial_issuer]
  show ?thesis using assms
    by (simp add: plain_second_factor mfa_user_def qs_get_def json_str_def serial_issuer_def Let_def)
qed

section \<open>Properties of multi-factor authentication\<close>

text \<open>C25: What completing a login takes.  Tokens are issued only against a challenge that decodes,
  for its user and its tenant, when that user has an active device in that tenant and the
  code is the device's TOTP (the tables of devices and codes stay as they are) or an unused
  backup code of the device, which is used up.  The user gains exactly the one refresh token
  of the answer, and no other user's tokens change.\<close>

theorem mfa_login_grants:
  assumes "issuer_contract for_user" and "login_verify X ks for_user users now c challenge code w = (Inr tp, w')"
  shows "\<exists>tenant d. verify_challenge_token X now challenge = Inr (JStr (tp_user tp), tenant) \<and> tp_tenant tp = json_str tenant
    \<and> tp_user tp \<in> usr_id ` set users
    \<and> d \<in> set (mf_devices (fst w)) \<and> md_user d = tp_user tp \<and> md_tenant d = tp_tenant tp \<and> md_active d
    \<and> ((\<exists>s. decrypt_secret X ks (md_secret d) = Inr s \<and> co_totp X s code now = Inr True \<and> fst w' = fst w)
       \<or> (\<exists>b \<in> set (mf_codes (fst w)). bc_device b = md_id d \<and> \<not> bc_used b \<and> co_check X code (bc_hash b)
            \<and> fst w' = use_code b (fst w)))
    \<and> map ot_jti (active_tokens (tp_user tp) (snd w')) = map ot_jti (active_tokens (tp_user tp) (snd w)) @ [tp_jti tp]
    \<and> (\<forall>uid. uid \<noteq> tp_user tp \<longrightarrow> active_tokens uid (snd w') = active_tokens uid (snd w))"
  using assms(2)
proof (rule login_verify_Inr)
  fix uid tenant u d
  assume v: "verify_challenge_token X now challenge = Inr (uid, tenant)"
    and u: "qs_get (\<lambda>u. JStr (usr_id u) = uid) users = Inr u"
    and d: "login_device c (usr_id u) (json_str tenant) (fst w) = Some d"
    and s: "check_second_factor X ks now d code (fst w) = (Inr (), fst w')"
    and i: "for_user u now (snd w) = (Inr (tp_jti tp), snd w')"
    and tp: "tp_user tp = usr_id u" "tp_tenant tp = json_str tenant"
  have user: "u \<in> set users" "uid = JStr (usr_id u)" using qs_get_Inr_D [OF u] by auto
  have dev: "d \<in> set (mf_devices (fst w))" "md_user d = usr_id u" "md_active d" "md_tenant d = json_str tenant"
    using qs_first_Some_mem [OF d [unfolded login_device_def]] by (auto simp: mem_device_rows)
  have tok: "tp_jti tp \<notin> set (td_blacklisted (snd w))" "snd w' = (snd w)\<lparr>td_outstanding := td_outstanding (snd w) @
      [\<lparr>ot_jti = tp_jti tp, ot_user = usr_id u, ot_created_at = now\<rparr>]\<rparr>"
    using issuer_adds [OF assms(1) i] by simp_all
  have code: "(\<exists>s. decrypt_secret X ks (md_secret d) = Inr s \<and> co_totp X s code now = Inr True \<and> fst w' = fst w)
       \<or> (\<exists>b \<in> set (mf_codes (fst w)). bc_device b = md_id d \<and> \<not> bc_used b \<and> co_check X code (bc_hash b)
            \<and> fst w' = use_code b (fst w))"
    using s by (rule second_factor_cases) (auto simp: mem_unused_codes)
  show ?thesis
    using v user dev tok code tp by (intro exI [of _ tenant] exI [of _ d]) (auto simp: active_tokens_def)
qed

lemma mfa_login_grants_witness:
  "\<exists>tp w'. login_verify plain_crypto [''k''] serial_issuer [mfa_user] 5 None
      (issue_challenge_token plain_crypto 0 ''u'' ''t'') ''123456'' (\<lparr>mf_devices = [sample_device], mf_codes = []\<rparr>, no_tokens)
      = (Inr tp, w') \<and> tp_user tp \<in> {''u''}"
proof -
  let ?w = "(\<lparr>mf_devices = [sample_device], mf_codes = []\<rparr>, no_tokens)"
  have d: "login_device None ''u'' ''t'' (fst ?w) = Some sample_device"
    by (simp add: login_device_def device_rows_def manager_queryset_def sample_device_def)
  from mfa_login_grants [OF serial_issuer_contract sample_login_verify [OF d]] show ?thesis
    unfolding sample_login_verify [OF d] by (auto simp: mfa_user_def)
qed

text \<open>The challenge of a login.  A token issued at \<open>t0\<close> yields its user and tenant for five
  minutes and no longer, is reported expired from then on, and no signed token whose
  \<open>type\<close> is not the challenge's (an access token, say) is ever accepted as one.\<close>

theorem challenge_token_lifetime:
  assumes "crypto_contract X"
  shows "verify_challenge_token X now (issue_challenge_token X t0 u t) =
      (if now < t0 then Inl (challenge_error ''Invalid challenge token.'' ''mfa_challenge_invalid'')
       else if t0 + 300 \<le> now then Inl (challenge_error ''Challenge token has expired.'' ''mfa_challenge_expired'')
       else Inr (JStr u, JStr t))
    \<and> (\<forall>payload. co_jwt_decode X token now = Inr payload \<and> map_of payload ''type'' \<noteq> Some (JStr ''mfa_challenge'')
        \<longrightarrow> verify_challenge_token X now token = Inl (challenge_error ''Invalid challenge token.'' ''mfa_challenge_invalid''))"
  using challenge_lifetime [OF assms]
  by (auto simp: verify_challenge_token_def dict_get_def challenge_type_def split: option.splits)

lemma challenge_token_witness:
  "verify_challenge_token plain_crypto 299 (issue_challenge_token plain_crypto 0 ''u'' ''t'') = Inr (JStr ''u'', JStr ''t'')
   \<and> verify_challenge_token plain_crypto 300 (issue_challenge_token plain_crypto 0 ''u'' ''t'')
       = Inl (challenge_error ''Challenge token has expired.'' ''mfa_challenge_expired'')"
  using challenge_token_lifetime [OF plain_crypto_contract, of 299 0 "''u''" "''t''"]
    challenge_token_lifetime [OF plain_crypto_contract, of 300 0 "''u''" "''t''"] by simp

text \<open>A code just generated is on record exactly once, unused.\<close>

lemma generated_row:
  assumes "crypto_contract X" and "generate_backup_codes X cfg rnd new_id salt t0 c u db = (Inr raw, db1)"
    and "distinct raw" and "qs_first (device_rows c (usr_id u) db) = Some d" and "r \<in> set (mf_codes db1)"
    and "bc_device r = md_id d" and "i < length raw"
  shows "co_check X (raw ! i) (bc_hash r) \<longleftrightarrow>
    r = \<lparr>bc_id = new_id i, bc_device = md_id d, bc_hash = co_hash X (salt i) (raw ! i), bc_used = False, bc_created_at = t0\<rparr>"
proof -
  have codes: "mf_codes db1 = filter (\<lambda>b. bc_device b \<noteq> md_id d) (mf_codes db) @
      map (\<lambda>(i, r). \<lparr>bc_id = new_id i, bc_device = md_id d, bc_hash = co_hash X (salt i) r,
                     bc_used = False, bc_created_at = t0\<rparr>) (enumerate 0 raw)"
    using assms(2,4) by (auto simp: generate_backup_codes_def Let_def)
  with assms(5,6) obtain j where j: "j < length raw" "r = \<lparr>bc_id = new_id j, bc_device = md_id d,
      bc_hash = co_hash X (salt j) (raw ! j), bc_used = False, bc_created_at = t0\<rparr>"
    by (auto simp: in_set_enumerate_eq)
  have "raw ! i = raw ! j \<longleftrightarrow> i = j" using assms(3,7) j(1) by (simp add: nth_eq_iff_index_eq)
  moreover have "raw ! i = raw ! j" if "co_hash X (salt j) (raw ! j) = co_hash X (salt i) (raw ! i)"
    using crypto_laws(2) [OF assms(1)] that by metis
  ultimately show ?thesis using j(2) by (auto simp: crypto_laws(2) [OF assms(1)])
qed

lemma generated_mem:
  assumes "generate_backup_codes X cfg rnd new_id salt t0 c u db = (Inr raw, db1)"
    and "qs_first (device_rows c (usr_id u) db) = Some d" and "i < length raw"
  shows "\<lparr>bc_id = new_id i, bc_device = md_id d, bc_hash = co_hash X (salt i) (raw ! i), bc_used = False,
     bc_created_at = t0\<rparr> \<in> set (mf_codes db1)"
proof -
  have "(i, raw ! i) \<in> set (enumerate 0 raw)" using assms(3) by (simp add: in_set_enumerate_eq)
  then show ?thesis using assms(1,2) unfolding generate_backup_codes_def Let_def
    by (auto intro!: rev_image_eqI)
qed

lemma wrong_totp:
  assumes "decrypt_secret X ks (md_secret d) = Inr s" and "co_totp X s code now = Inr False"
  shows "check_second_factor X ks now d code db =
    (case matching_code X (md_id d) code db of None \<Rightarrow> (Inl invalid_code, db) | Some b \<Rightarrow> (Inr (), use_code b db))"
  using assms by (simp add: check_second_factor_def)

text \<open>C29: A backup code works exactly once.  Each code of a newly generated batch of different codes
  passes the second factor although it is no TOTP; it is then spent, so the same code is
  refused from then on and that refusal changes nothing.\<close>

theorem backup_code_once:
  assumes "crypto_contract X" and "generate_backup_codes X cfg rnd new_id salt t0 c u db = (Inr raw, db1)"
    and "distinct raw" and "qs_first (device_rows c (usr_id u) db) = Some d" and "code \<in> set raw"
    and "decrypt_secret X ks (md_secret d) = Inr s" and "co_totp X s code t1 = Inr False" and "co_totp X s code t2 = Inr False"
  shows "\<exists>db2. check_second_factor X ks t1 d code db1 = (Inr (), db2)
    \<and> check_second_factor X ks t2 d code db2 = (Inl invalid_code, db2)"
proof -
  from assms(5) obtain i where i: "i < length raw" "code = raw ! i" by (auto simp: in_set_conv_nth)
  define row where "row = \<lparr>bc_id = new_id i, bc_device = md_id d, bc_hash = co_hash X (salt i) (raw ! i),
     bc_used = False, bc_created_at = t0\<rparr>"
  note only = generated_row [OF assms(1-4) _ _ i(1), folded row_def i(2)]
  have mem: "row \<in> set (mf_codes db1)" unfolding row_def by (rule generated_mem [OF assms(2,4) i(1)])
  have row: "bc_device row = md_id d" "\<not> bc_used row" by (simp_all add: row_def)
  with only [OF mem] mem have "matching_code X (md_id d) code db1 \<noteq> None"
    by (auto simp: matching_code_None)
  then obtain b where b: "matching_code X (md_id d) code db1 = Some b" by blast
  from matching_code_Some [OF b] only [of b] have "b = row" by (auto simp: mem_unused_codes)
  have "matching_code X (md_id d) code (use_code row db1) = None"
    unfolding matching_code_None
  proof (intro ballI impI notI)
    fix r assume r: "r \<in> set (mf_codes (use_code row db1))" "bc_device r = md_id d \<and> \<not> bc_used r"
      and "co_check X code (bc_hash r)"
    with use_code_spent [OF r(1)] only [of r] show False by auto
  qed
  with b \<open>b = row\<close> show ?thesis
    by (simp add: wrong_totp [OF assms(6,7)] wrong_totp [OF assms(6,8)])
qed

lemma backup_code_once_witness:
  "\<exists>raw db1 db2. generate_backup_codes plain_crypto [''backup_code_count'' \<mapsto> 2] (\<lambda>i j. i) (\<lambda>i. [char_of i]) id 7 None mfa_user
      \<lparr>mf_devices = [sample_device], mf_codes = []\<rparr> = (Inr raw, db1)
    \<and> check_second_factor plain_crypto [''k''] 9 sample_device (raw ! 1) db1 = (Inr (), db2)
    \<and> check_second_factor plain_crypto [''k''] 9 sample_device (raw ! 1) db2 = (Inl invalid_code, db2)"
proof -
  let ?db = "\<lparr>mf_devices = [sample_device], mf_codes = []\<rparr>"
  let ?gen = "generate_backup_codes plain_crypto [''backup_code_count'' \<mapsto> 2] (\<lambda>i j. i) (\<lambda>i. [char_of i]) id 7 None mfa_user ?db"
  let ?raw = "[''AAAAAAAAAA'', ''BBBBBBBBBB'']"
  have dev: "qs_first (device_rows None (usr_id mfa_user) ?db) = Some sample_device"
    by (simp add: device_rows_def manager_queryset_def sample_device_def mfa_user_def)
  have "raw_backup_codes (\<lambda>i j. i) 2 10 = ?raw"
    by code_simp
  then obtain db1 where run: "?gen = (Inr ?raw, db1)"
    using dev by (simp add: generate_backup_codes_def config_nat_def Let_def)
  have "decrypt_secret plain_crypto [''k''] (md_secret sample_device) = Inr ''123456''"
    "co_totp plain_crypto ''123456'' ''BBBBBBBBBB'' 9 = Inr False"
    by (simp_all add: decrypt_secret_def get_fernet_def plain_crypto_def sample_device_def)
  from backup_code_once [OF plain_crypto_contract run _ dev _ this(1) this(2) this(2)]
  obtain db2 where "check_second_factor plain_crypto [''k''] 9 sample_device (?raw ! 1) db1 = (Inr (), db2)"
    "check_second_factor plain_crypto [''k''] 9 sample_device (?raw ! 1) db2 = (Inl invalid_code, db2)"
    by auto
  with run show ?thesis by blast
qed

text \<open>C23: Enrolment pays off at login, across a rotation of the encryption keys.  After a confirmed
  enrolment, a challenge for that user and tenant answered within five minutes with a TOTP
  of the enrolled secret yields tokens for that user and tenant, whatever keys are
  configured then, as long as the key of the enrolment is still among them (and the device
  is still the user's newest in the tenant).\<close>

theorem enrol_then_login:
  assumes "crypto_contract X"
    and "confirm_setup_post X (k # ks) t0 dev tenants rq u secret code0 label db0 = (Inr (), db1)"
    and "k \<in> set ks'" and "t1 \<le> now" and "now < t1 + 300"
    and "get_tenant_id rq = Some tenant" and "qs_get (\<lambda>v. usr_id v = usr_id u) users = Inr u"
    and "\<forall>d \<in> set (mf_devices db0). md_user d = usr_id u \<and> md_tenant d = tenant \<and> md_active d \<longrightarrow> md_created_at d < t0"
    and "co_totp X (strip (or_empty secret)) code now = Inr True" and "for_user u now tk = (Inr jti, tk')"
  shows "login_verify X ks' for_user users now None (issue_challenge_token X t1 (usr_id u) tenant) code (db1, tk)
    = (Inr \<lparr>tp_jti = jti, tp_user = usr_id u, tp_tenant = tenant\<rparr>, (db1, tk'))"
proof -
  from assms(2) obtain s l where s: "trimmed_field ''secret'' secret = Inr s"
    and save: "confirm_save X (k # ks) t0 dev tenants rq u s l db0 = (Inr (), db1)"
    unfolding confirm_setup_post_def by (auto simp: bind_act_Inr_iff)
  from s have s_eq: "s = strip (or_empty secret)" by (auto simp: trimmed_field_def split: option.splits if_splits)
  from save obtain tn cipher where tn: "qs_get (\<lambda>t. get_tenant_id rq = Some (tn_id t)) tenants = Inr tn"
    and cipher: "encrypt_secret X (k # ks) s = Inr cipher"
    and db1: "db1 = db0\<lparr>mf_devices := mf_devices db0 @ [\<lparr>md_id = dev, md_tenant = tn_id tn, md_user = usr_id u,
       md_secret = cipher, md_label = l, md_active = True, md_created_at = t0\<rparr>]\<rparr>"
    by (auto simp: confirm_save_def split: sum.splits)
  define d where "d = \<lparr>md_id = dev, md_tenant = tn_id tn, md_user = usr_id u, md_secret = cipher, md_label = l,
     md_active = True, md_created_at = t0\<rparr>"
  have tenant: "tn_id tn = tenant" using qs_get_Inr_D(2) [OF tn] assms(6) by simp
  let ?own = "filter (\<lambda>d. md_tenant d = tenant) (device_rows None (usr_id u) db1)"
  have own: "?own = sort_key (\<lambda>d. - md_created_at d)
      (filter (\<lambda>d. md_user d = usr_id u \<and> md_active d \<and> md_tenant d = tenant) (mf_devices db1))"
    by (simp add: device_rows_def manager_queryset_def filter_sort [symmetric] conj_ac)
  have "d \<in> set ?own" using tenant by (simp add: mem_device_rows db1 d_def)
  then obtain d' where d': "qs_first ?own = Some d'" by (cases ?own) auto
  have "d' = d"
  proof (rule ccontr)
    assume "d' \<noteq> d"
    from qs_first_Some_mem [OF d'] have m: "md_user d' = usr_id u" "md_active d'" "md_tenant d' = tenant" "d' \<in> set (mf_devices db1)"
      by (auto simp: mem_device_rows)
    with \<open>d' \<noteq> d\<close> have "d' \<in> set (mf_devices db0)" by (auto simp: db1 d_def)
    with m assms(8) have "md_created_at d' < t0" by blast
    moreover have "- md_created_at d' \<le> - md_created_at d"
      using first_of_sorted(2) [OF d' [unfolded own], of d] \<open>d \<in> set ?own\<close> unfolding own by simp
    ultimately show False by (simp add: d_def)
  qed
  with d' have dev: "login_device None (usr_id u) (json_str (JStr tenant)) (fst (db1, tk)) = Some d"
    by (simp add: login_device_def json_str_def)
  have "decrypt_secret X ks' (md_secret d) = Inr s"
    using decrypt_rotated [OF assms(1,3) cipher] by (simp add: d_def)
  then have "check_second_factor X ks' now d code (fst (db1, tk)) = (Inr (), db1)"
    using assms(9) s_eq by (simp add: check_second_factor_def)
  moreover have "verify_challenge_token X now (issue_challenge_token X t1 (usr_id u) tenant) = Inr (JStr (usr_id u), JStr tenant)"
    using assms(4,5) by (simp add: challenge_lifetime [OF assms(1)])
  ultimately show ?thesis
    using login_verify_run [of X now _ "JStr (usr_id u)" "JStr tenant" users u None "(db1, tk)" d] assms(7,10) dev
    by (simp add: json_str_def)
qed

lemma enrol_then_login_witness:
  "\<exists>db1. confirm_setup_post plain_crypto [''k''] 1 ''d'' [\<lparr>tn_id = ''t'', tn_name = [], tn_code = [], tn_is_active = True\<rparr>]
      (sample_request (Some mfa_user) (Some ''t'')) mfa_user (Some ''123456'') (Some ''123456'') None
      \<lparr>mf_devices = [], mf_codes = []\<rparr> = (Inr (), db1)
    \<and> fst (login_verify plain_crypto [''new'', ''k''] serial_issuer [mfa_user] 3 None
        (issue_challenge_token plain_crypto 2 (usr_id mfa_user) ''t'') ''123456'' (db1, no_tokens))
      = Inr \<lparr>tp_jti = ''t'', tp_user = usr_id mfa_user, tp_tenant = ''t''\<rparr>"
proof -
  let ?rq = "sample_request (Some mfa_user) (Some ''t'')"
  let ?enrol = "confirm_setup_post plain_crypto [''k''] 1 ''d'' [\<lparr>tn_id = ''t'', tn_name = [], tn_code = [], tn_is_active = True\<rparr>]
      ?rq mfa_user (Some ''123456'') (Some ''123456'') None \<lparr>mf_devices = [], mf_codes = []\<rparr>"
  have st: "strip ''123456'' = ''123456''" "strip ''Authenticator App'' = ''Authenticator App''" by code_simp+
  have rq: "get_tenant_id ?rq = Some ''t''" by (simp add: sample_request_def get_tenant_id_def)
  then have "fst ?enrol = Inr ()"
    by (simp add: confirm_setup_post_def bind_act_def trimmed_field_def code_field_def st confirm_validate_def guard_def
        plain_crypto_def confirm_save_def qs_get_def encrypt_secret_def get_fernet_def)
  then obtain db1 where run: "?enrol = (Inr (), db1)" by (cases ?enrol) auto
  have "co_totp plain_crypto (strip (or_empty (Some ''123456''))) ''123456'' 3 = Inr True"
    by (simp add: plain_crypto_def st)
  moreover have "serial_issuer mfa_user 3 no_tokens = (Inr ''t'', snd (serial_issuer mfa_user 3 no_tokens))"
    by (simp add: serial_issuer_def no_tokens_def Let_def)
  ultimately have "login_verify plain_crypto [''new'', ''k''] serial_issuer [mfa_user] 3 None
        (issue_challenge_token plain_crypto 2 (usr_id mfa_user) ''t'') ''123456'' (db1, no_tokens)
      = (Inr \<lparr>tp_jti = ''t'', tp_user = usr_id mfa_user, tp_tenant = ''t''\<rparr>, (db1, snd (serial_issuer mfa_user 3 no_tokens)))"
    by (intro enrol_then_login [OF plain_crypto_contract run, where code = "''123456''"]) (simp_all add: rq qs_get_def)
  with run show ?thesis by auto
qed

text \<open>What removing MFA does.  A successful request deactivates the user's newest active device
  in sight and deletes that device's backup codes; the user's other active devices, and
  every device and code of other users, stay.  Enrolment does not look for an active
  device, so a user may have several: then one removal is not enough to log in without a
  second factor.\<close>

theorem disable_one_device:
  assumes "distinct (map md_id (mf_devices db))" and "mfa_disable_post X ks now c u code db = (Inr (), db')"
  shows "\<exists>d. qs_first (device_rows c (usr_id u) db) = Some d \<and> md_user d = usr_id u
    \<and> device_rows c' (usr_id u) db' = filter (\<lambda>r. md_id r \<noteq> md_id d) (device_rows c' (usr_id u) db)
    \<and> (uid \<noteq> usr_id u \<longrightarrow> device_rows c' uid db' = device_rows c' uid db)
    \<and> unused_codes (md_id d) db' = []
    \<and> (dev \<noteq> md_id d \<longrightarrow> unused_codes dev db' = unused_codes dev db)"
proof -
  let ?v = "bind_res (code_field code) (validate_code X ks now c (Some u) db)"
  obtain v where "?v = Inr v" using assms(2) by (cases ?v) (auto simp: mfa_disable_post_def)
  with assms(2) have db': "db' = disable_save c u db" by (simp add: mfa_disable_post_def)
  from \<open>?v = Inr v\<close> obtain d where d: "qs_first (device_rows c (usr_id u) db) = Some d"
    by (auto simp: bind_res_Inr_iff validate_code_def active_device_def split: option.splits)
  from qs_first_Some_mem [OF d] have m: "d \<in> set (mf_devices db)" "md_user d = usr_id u" by (auto simp: mem_device_rows)
  let ?save = "save_row (\<lambda>r. md_id r = md_id d) (\<lambda>r. r\<lparr>md_active := False\<rparr>)"
  have same: "md_user r = usr_id u" if "r \<in> set (mf_devices db)" "md_id r = md_id d" for r
    using that m assms(1) by (auto simp: distinct_map inj_on_def)
  have rows: "filter (\<lambda>r. md_user r = i \<and> md_active r) (manager_queryset md_tenant c' (?save rs))
      = filter (\<lambda>r. md_id r \<noteq> md_id d) (filter (\<lambda>r. md_user r = i \<and> md_active r) (manager_queryset md_tenant c' rs))" for i rs
    by (induction rs) (auto simp: manager_queryset_def split: option.splits)
  have dv: "mf_devices db' = ?save (mf_devices db)" "mf_codes db' = filter (\<lambda>b. bc_device b \<noteq> md_id d) (mf_codes db)"
    using d by (simp_all add: db' disable_save_def)
  have all: "device_rows c' i db' = filter (\<lambda>r. md_id r \<noteq> md_id d) (device_rows c' i db)" for i
    unfolding device_rows_def dv(1) rows by (simp add: filter_sort)
  moreover have "device_rows c' uid db' = device_rows c' uid db" if "uid \<noteq> usr_id u"
    unfolding all using that same by (intro filter_True) (auto simp: mem_device_rows)
  moreover have "unused_codes (md_id d) db' = []" by (simp add: unused_codes_def dv(2) filter_empty_conv)
  moreover have "unused_codes dev db' = unused_codes dev db" if "dev \<noteq> md_id d"
    using that by (auto simp: unused_codes_def dv(2) intro!: arg_cong [where f = "sort_key _"] filter_cong)
  ultimately show ?thesis using d m(2) by blast
qed

definition two_devices :: mfa_db where
  "two_devices = \<lparr>mf_devices = [sample_device, sample_device\<lparr>md_id := ''e'', md_created_at := 2\<rparr>], mf_codes = []\<rparr>"

lemma disable_one_device_witness:
  "\<exists>db'. mfa_disable_post plain_crypto [''k''] 5 None mfa_user (Some ''123456'') two_devices = (Inr (), db')
     \<and> device_rows None ''u'' db' = [sample_device]"
proof -
  have st: "strip ''123456'' = ''123456''" by code_simp
  have rows: "device_rows None ''u'' two_devices = [sample_device\<lparr>md_id := ''e'', md_created_at := 2\<rparr>, sample_device]"
    by (simp add: device_rows_def two_devices_def manager_queryset_def sample_device_def)
  have "mfa_disable_post plain_crypto [''k''] 5 None mfa_user (Some ''123456'') two_devices
      = (Inr (), disable_save None mfa_user two_devices)"
    using rows by (simp add: mfa_disable_post_def code_field_def trimmed_field_def st validate_code_def active_device_def
        decrypt_secret_def get_fernet_def plain_crypto_def sample_device_def mfa_user_def)
  moreover have "distinct (map md_id (mf_devices two_devices))" by (simp add: two_devices_def sample_device_def)
  ultimately show ?thesis using disable_one_device [of two_devices plain_crypto "[''k'']" 5 None mfa_user "Some ''123456''"] rows
    by (auto simp: mfa_user_def sample_device_def)
qed

text \<open>A challenge and its code can be used again.  When a login was completed with a TOTP, the
  very same challenge token and code complete a second login at the same time, with a second
  refresh token: neither is spent by its use.\<close>

theorem challenge_replayed:
  assumes "login_verify X ks for_user users now c challenge code w = (Inr tp, w')" and "fst w' = fst w"
    and "\<And>u. u \<in> set users \<Longrightarrow> usr_id u = tp_user tp \<Longrightarrow> for_user u now (snd w') = (Inr jti, tk)"
  shows "login_verify X ks for_user users now c challenge code w'
    = (Inr \<lparr>tp_jti = jti, tp_user = tp_user tp, tp_tenant = tp_tenant tp\<rparr>, (fst w, tk))"
  using assms(1)
proof (rule login_verify_Inr)
  fix uid tenant u d
  assume r: "verify_challenge_token X now challenge = Inr (uid, tenant)"
    "qs_get (\<lambda>u. JStr (usr_id u) = uid) users = Inr u"
    "login_device c (usr_id u) (json_str tenant) (fst w) = Some d"
    "check_second_factor X ks now d code (fst w) = (Inr (), fst w')"
    and tp: "tp_user tp = usr_id u" "tp_tenant tp = json_str tenant"
  have "for_user u now (snd w') = (Inr jti, tk)"
    using assms(3) qs_get_Inr_D(1) [OF r(2)] tp by simp
  with r login_verify_run [of X now challenge uid tenant users u c w' d ks code "fst w" for_user jti tk] tp assms(2)
  show ?thesis by simp
qed

lemma challenge_replayed_witness:
  "\<exists>tp w'. login_verify plain_crypto [''k''] serial_issuer [mfa_user] 5 None
      (issue_challenge_token plain_crypto 0 ''u'' ''t'') ''123456'' (two_devices\<lparr>mf_devices := [sample_device]\<rparr>, no_tokens) = (Inr tp, w')
    \<and> length (active_tokens ''u'' (snd (snd (login_verify plain_crypto [''k''] serial_issuer [mfa_user] 5 None
      (issue_challenge_token plain_crypto 0 ''u'' ''t'') ''123456'' w')))) = 2"
proof -
  let ?w = "(two_devices\<lparr>mf_devices := [sample_device]\<rparr>, no_tokens)"
  have d: "login_device None ''u'' ''t'' (fst ?w) = Some sample_device"
    by (simp add: login_device_def device_rows_def manager_queryset_def sample_device_def)
  note run = sample_login_verify [OF d]
  let ?w' = "(fst ?w, snd (serial_issuer mfa_user 5 (snd ?w)))"
  have "serial_issuer u 5 (snd ?w') = (Inr (replicate 2 (CHR ''t'')), snd (serial_issuer mfa_user 5 (snd ?w')))"
    if "u \<in> set [mfa_user]" for u
    using that by (simp add: serial_issuer_def no_tokens_def Let_def numeral_2_eq_2)
  from challenge_replayed [OF run, where jti = "replicate 2 (CHR ''t'')" and tk = "snd (serial_issuer mfa_user 5 (snd ?w'))"] this
  have "login_verify plain_crypto [''k''] serial_issuer [mfa_user] 5 None
      (issue_challenge_token plain_crypto 0 ''u'' ''t'') ''123456'' ?w'
    = (Inr \<lparr>tp_jti = replicate 2 (CHR ''t''), tp_user = ''u'', tp_tenant = ''t''\<rparr>, (fst ?w, snd (serial_issuer mfa_user 5 (snd ?w'))))"
    by simp
  moreover have "length (active_tokens ''u'' (snd (serial_issuer mfa_user 5 (snd ?w')))) = 2"
    by (simp add: active_tokens_def serial_issuer_def no_tokens_def mfa_user_def Let_def)
  ultimately show ?thesis unfolding run by simp
qed

end
