(* ===== verification/Utilities.thy ===== *)
theory Utilities
  imports TenantSettings
begin

text \<open>
  The shared helpers of \<open>core\<close>: password policies and masking (\<open>utils/security.py\<close>), the
  field validators (\<open>validators/\<close>), the page size of a list (\<open>pagination/page.py\<close>), the
  envelope of errors and of answers (\<open>exceptions/\<close>, \<open>renderers.py\<close>).
\<close>

section \<open>Password policies\<close>

definition cfg_get :: "rules \<Rightarrow> string \<Rightarrow> json \<Rightarrow> json" where
  "cfg_get config k dflt = (case map_of config k of None \<Rightarrow> dflt | Some v \<Rightarrow> v)"

text \<open>Iterating a JSON value: \<open>None\<close> raises \<open>TypeError\<close>.\<close>

definition json_items :: "json \<Rightarrow> json list option" where
  "json_items v = (case v of JList xs \<Rightarrow> Some xs | JStr s \<Rightarrow> Some (map (\<lambda>c. JStr [c]) s)
     | JObj d \<Rightarrow> Some (map (\<lambda>kv. JStr (fst kv)) d) | _ \<Rightarrow> None)"

text \<open>\<open>len(password) < min_length\<close>; \<open>float_ceil\<close> is the ceiling of a float literal.\<close>

definition shorter_than :: "(string \<Rightarrow> int) \<Rightarrow> string \<Rightarrow> json \<Rightarrow> bool res" where
  "shorter_than float_ceil s v =
     (case v of JInt n \<Rightarrow> Inr (int (length s) < n) | JBool b \<Rightarrow> Inr (int (length s) < of_bool b)
      | JFloat t \<Rightarrow> Inr (int (length s) < float_ceil t) | _ \<Rightarrow> Inl TypeErr)"

definition special_characters :: string where
  "special_characters = ''!@#$%^&*(),.?:{}|<>'' @ [CHR 0x22]"

fun forbidden_word_errors :: "string \<Rightarrow> json list \<Rightarrow> string list res" where
  "forbidden_word_errors password [] = Inr []"
| "forbidden_word_errors password (w # ws) =
     (case w of
        JStr s \<Rightarrow> bind_res (forbidden_word_errors password ws) (\<lambda>es.
          Inr (if contains (lower s) (lower password)
               then (''Password cannot contain the word '' @ [CHR 0x27] @ s @ [CHR 0x27] @ ''.'') # es else es))
      | _ \<Rightarrow> Inl AttributeErr)"

definition requirement :: "rules \<Rightarrow> string \<Rightarrow> bool \<Rightarrow> string \<Rightarrow> string list" where
  "requirement config k met msg =
     (if json_truth (cfg_get config k (JBool True)) \<and> \<not> met then [msg] else [])"

text \<open>The list of errors; the password is valid when it is empty.\<close>

definition validate_password_complexity ::
  "(string \<Rightarrow> int) \<Rightarrow> string \<Rightarrow> rules \<Rightarrow> string list res" where
  "validate_password_complexity float_ceil password config =
     (let min_length = cfg_get config ''min_length'' (JInt 8) in
      bind_res (shorter_than float_ceil password min_length) (\<lambda>short.
      bind_res (case json_items (cfg_get config ''forbidden_words'' (JList [])) of
                  None \<Rightarrow> Inl TypeErr | Some ws \<Rightarrow> forbidden_word_errors password ws) (\<lambda>words.
      Inr ((if short then [''Password must be at least '' @ json_str min_length @ '' characters long.''] else [])
         @ requirement config ''require_uppercase'' (list_ex is_upper_ascii password)
             ''Password must contain at least one uppercase letter.''
         @ requirement config ''require_lowercase'' (list_ex is_lower_ascii password)
             ''Password must contain at least one lowercase letter.''
         @ requirement config ''require_digits'' (list_ex is_digit password)
             ''Password must contain at least one digit.''
         @ requirement config ''require_special'' (list_ex (\<lambda>c. c \<in> set special_characters) password)
             ''Password must contain at least one special character.''
         @ words))))"

section \<open>Keys and masks\<close>

definition key_alphabet :: string where
  "key_alphabet = ''abcdefghijklmnopqrstuvwxyzABCDEFGHIJKLMNOPQRSTUVWXYZ0123456789''"

definition generate_api_key :: "(nat \<Rightarrow> nat) \<Rightarrow> nat \<Rightarrow> string" where
  "generate_api_key rnd len = map (\<lambda>i. key_alphabet ! (rnd i mod length key_alphabet)) [0..<len]"

definition escape_char :: "char \<Rightarrow> string" where
  "escape_char c =
     (if c = CHR ''&'' then ''&amp;'' else if c = CHR ''<'' then ''&lt;'' else if c = CHR ''>'' then ''&gt;''
      else if c = CHR 0x22 then ''&quot;'' else if c = CHR 0x27 then ''&#x27;'' else [c])"

definition html_escape :: "string \<Rightarrow> string" where
  "html_escape s = concat (map escape_char s)"

text \<open>Slices: \<open>s[:n]\<close> and \<open>s[-n:]\<close> for \<open>n \<ge> 0\<close>; \<open>s[-0:]\<close> is all of \<open>s\<close>.\<close>

definition slice_end :: "nat \<Rightarrow> string \<Rightarrow> string" where
  "slice_end n s = (if n = 0 then s else drop (length s - n) s)"

definition mask_sensitive_data :: "string \<Rightarrow> int \<Rightarrow> string \<Rightarrow> string res" where
  "mask_sensitive_data data visible_chars mask_char =
     (if visible_chars < 0 then Inl ValueErr
      else if length mask_char \<noteq> 1 then Inl ValueErr
      else
        let n = nat visible_chars;
            mask = html_escape mask_char;
            sanitized = html_escape data in
        if length sanitized \<le> n then Inr (concat (replicate (length sanitized) mask))
        else Inr (html_escape (take n sanitized
               @ concat (replicate (length sanitized - 2 * n) mask) @ slice_end n sanitized)))"

section \<open>Validators\<close>

definition word_char :: "char \<Rightarrow> bool" where
  "word_char c = (is_lower_ascii c \<or> is_upper_ascii c \<or> is_digit c \<or> c = CHR ''_'')"

text \<open>\<open>^[a-zA-Z0-9_]+$\<close>: the dollar also matches before a final newline.\<close>

definition username_matches :: "string \<Rightarrow> bool" where
  "username_matches v =
     (let body = (if v \<noteq> [] \<and> last v = CHR 0x0A then butlast v else v)
      in body \<noteq> [] \<and> list_all word_char body)"

definition username_validator :: "string \<Rightarrow> unit res" where
  "username_validator v =
     (if \<not> username_matches v then Inl (invalid ''Username can only contain letters, numbers, and underscores.'')
      else if length v < 3 then Inl (invalid ''Username must be at least 3 characters long.'')
      else if length v > 30 then Inl (invalid ''Username cannot be longer than 30 characters.'')
      else Inr ())"

text \<open>\<open>str.isdigit\<close> also holds of the superscripts one to three.\<close>

definition isdigit_char :: "char \<Rightarrow> bool" where
  "isdigit_char c = (is_digit c \<or> char_code c \<in> {178, 179, 185})"

definition phone_validator :: "string \<Rightarrow> unit res" where
  "phone_validator v =
     (let cleaned = filter (\<lambda>c. \<not> is_space c \<and> c \<notin> set ''-()+.'') v in
      if cleaned = [] \<or> \<not> list_all isdigit_char cleaned then Inl (invalid ''Invalid phone number format.'')
      else if length cleaned < 10 \<or> length cleaned > 15
      then Inl (invalid ''Phone number must be between 10 and 15 digits.'')
      else Inr ())"

definition email_domain_validator :: "string list \<Rightarrow> string \<Rightarrow> unit res" where
  "email_domain_validator allowed_domains v =
     (case split_on (CHR ''@'') v of
        _ # domain # _ \<Rightarrow>
          if lower domain \<in> set (map lower allowed_domains) then Inr ()
          else Inl (invalid (''Email domain must be one of: '' @ join '', '' (map lower allowed_domains)))
      | _ \<Rightarrow> Inl (invalid ''Invalid email address.''))"

text \<open>A row is its id and the value of the field; the database's \<open>iexact\<close> folds the case.\<close>

definition validate_email_uniqueness :: "string \<Rightarrow> (string \<times> string) list \<Rightarrow> string option \<Rightarrow> bool" where
  "validate_email_uniqueness email rows exclude_id =
     (\<not> qs_exists (\<lambda>(i, e). lower e = lower email \<and> (truthy exclude_id \<longrightarrow> i \<noteq> or_empty exclude_id)) rows)"

definition validate_unique_slug :: "string \<Rightarrow> (string \<times> string) list \<Rightarrow> string option \<Rightarrow> string res" where
  "validate_unique_slug v rows exclude_id =
     (if qs_exists (\<lambda>(i, s). s = v \<and> (truthy exclude_id \<longrightarrow> i \<noteq> or_empty exclude_id)) rows
      then Inl (invalid ''already exists.'') else Inr v)"

definition validate_file_size_mb :: "int \<Rightarrow> int \<Rightarrow> bool" where
  "validate_file_size_mb size_bytes max_size_mb = (size_bytes \<le> max_size_mb * 1024 * 1024)"

definition validate_date_range :: "int option \<Rightarrow> int option \<Rightarrow> int \<Rightarrow> string list" where
  "validate_date_range start_date end_date max_days =
     (case (start_date, end_date) of
        (Some s, Some e) \<Rightarrow>
          (if s > e then [''Start date cannot be after end date.''] else [])
        @ (if (e - s) div 86400 > max_days then [''Date range cannot exceed '' @ show_int max_days @ '' days.''] else [])
      | _ \<Rightarrow> [])"

definition validate_json_field ::
  "(string \<Rightarrow> json res) \<Rightarrow> (json \<Rightarrow> json \<Rightarrow> string option) \<Rightarrow> string \<Rightarrow> rules \<Rightarrow> string list \<times> json option" where
  "validate_json_field loads schema_error v schema =
     (case loads v of
        Inl _ \<Rightarrow> ([''Invalid JSON''], None)
      | Inr j \<Rightarrow>
          ((if schema = [] then [] else (case schema_error (JObj schema) j of
              None \<Rightarrow> [] | Some m \<Rightarrow> [''Schema validation error: '' @ m])), Some j))"

section \<open>Pages\<close>

definition class_page_size :: int where
  "class_page_size = 10"

definition max_page_size :: int where
  "max_page_size = 100"

definition get_page_size :: "string option \<Rightarrow> int" where
  "get_page_size param =
     (case param of
        None \<Rightarrow> class_page_size
      | Some v \<Rightarrow>
         (case py_int v of
            None \<Rightarrow> class_page_size
          | Some n \<Rightarrow> if n > max_page_size then max_page_size else n))"

text \<open>The page of the library's paginator.\<close>

record page =
  pg_count :: nat
  pg_number :: nat
  pg_num_pages :: nat

record 'r page_response =
  pr_count :: nat
  pr_page_size :: int
  pr_current_page :: nat
  pr_total_pages :: nat
  pr_results :: "'r list"

definition get_paginated_response :: "page \<Rightarrow> 'r list \<Rightarrow> 'r page_response" where
  "get_paginated_response p data =
     \<lparr>pr_count = pg_count p, pr_page_size = class_page_size, pr_current_page = pg_number p,
      pr_total_pages = pg_num_pages p, pr_results = data\<rparr>"

section \<open>The error envelope\<close>

text \<open>
  The detail of an API exception: a message with its code (\<open>None\<close>: a plain string), a list or
  a dictionary.  A nested code that is itself a list or a dictionary is kept as such.
\<close>

datatype detail = Msg string "string option" | Many "detail list" | Fields "(string \<times> detail) list"

text \<open>The library's \<open>get_codes\<close>: a message without a code raises.\<close>

fun has_codes :: "detail \<Rightarrow> bool" where
  "has_codes (Msg m c) = (c \<noteq> None)"
| "has_codes (Many ds) = list_all has_codes ds"
| "has_codes (Fields fs) = list_all (\<lambda>kd. has_codes (snd kd)) fs"

datatype raised =
    DjangoIntegrityError
  | Http404
  | DjangoPermissionDenied
  | ApiException nat detail "string option" string "(string \<times> string) list"
  | Unhandled

fun first_code :: "(string \<times> detail) list \<Rightarrow> string option" where
  "first_code [] = None"
| "first_code ((k, d) # fs) =
     (case d of
        Msg m c \<Rightarrow> c
      | Many (Msg m c # _) \<Rightarrow> c
      | Many (_ # _) \<Rightarrow> Some ''nested''
      | _ \<Rightarrow> first_code fs)"

definition extract_code :: "raised \<Rightarrow> string res" where
  "extract_code exc =
     (case exc of
        ApiException status detail code default_code headers \<Rightarrow>
          (case detail of
             Many [] \<Rightarrow> Inr ''error''
           | Many (Msg m (Some c) # _) \<Rightarrow> Inr c
           | Many _ \<Rightarrow> Inl AttributeErr
           | Fields fs \<Rightarrow>
               if has_codes detail
               then Inr (case first_code fs of Some c \<Rightarrow> c | None \<Rightarrow> default_code)
               else Inl AttributeErr
           | Msg m (Some c) \<Rightarrow> Inr c
           | Msg m None \<Rightarrow> Inr (case code of Some c \<Rightarrow> c | None \<Rightarrow> default_code))
      | _ \<Rightarrow> Inr ''error'')"

record error_response =
  er_status :: nat
  er_code :: string
  er_headers :: "(string \<times> string) list"

definition exception_handler :: "raised \<Rightarrow> error_response res" where
  "exception_handler exc =
     (case exc of
        DjangoIntegrityError \<Rightarrow> Inr \<lparr>er_status = 400, er_code = ''validation_error'', er_headers = []\<rparr>
      | Unhandled \<Rightarrow> Inr \<lparr>er_status = 500, er_code = ''server_error'', er_headers = []\<rparr>
      | Http404 \<Rightarrow> bind_res (extract_code exc) (\<lambda>c. Inr \<lparr>er_status = 404, er_code = c, er_headers = []\<rparr>)
      | DjangoPermissionDenied \<Rightarrow> bind_res (extract_code exc) (\<lambda>c. Inr \<lparr>er_status = 403, er_code = c, er_headers = []\<rparr>)
      | ApiException status detail code default_code headers \<Rightarrow>
          bind_res (extract_code exc) (\<lambda>c. Inr \<lparr>er_status = status, er_code = c, er_headers = headers\<rparr>))"

text \<open>The exceptions of \<open>core/exceptions/api.py\<close>: the detail stays as it was given.\<close>

definition core_exception :: "nat \<Rightarrow> string \<Rightarrow> string \<Rightarrow> detail option \<Rightarrow> string option \<Rightarrow> raised" where
  "core_exception status default_detail default_code detail code =
     ApiException status (case detail of None \<Rightarrow> Msg default_detail None | Some d \<Rightarrow> d)
       (Some (if truthy code then or_empty code else default_code)) default_code []"

definition conflict_error :: "detail option \<Rightarrow> string option \<Rightarrow> raised" where
  "conflict_error = core_exception 409 ''Operation conflicts with current resource state.'' ''conflict''"

definition permission_denied_error :: "detail option \<Rightarrow> string option \<Rightarrow> raised" where
  "permission_denied_error =
     core_exception 403 ''You do not have permission to perform this action.'' ''permission_denied''"

definition throttling_error :: "detail option \<Rightarrow> string option \<Rightarrow> int option \<Rightarrow> raised" where
  "throttling_error detail code retry_after =
     (case core_exception 429 ''Too many requests. Please try again later.'' ''throttling_error'' detail code of
        ApiException s d c dc _ \<Rightarrow>
          ApiException s d c dc (case retry_after of None \<Rightarrow> [] | Some n \<Rightarrow> [(''Retry-After'', show_int n)])
      | r \<Rightarrow> r)"

section \<open>The answer envelope\<close>

datatype 'd answer = AsIs 'd | Wrapped 'd

text \<open>\<open>APIRenderer.render\<close>: \<open>None\<close> when there is no response in the context.\<close>

definition render :: "nat option \<Rightarrow> 'd \<Rightarrow> 'd answer" where
  "render status data =
     (case status of Some s \<Rightarrow> if s \<ge> 400 then AsIs data else Wrapped data | None \<Rightarrow> Wrapped data)"

section \<open>Properties of the helpers\<close>

lemma forbidden_none_iff:
  "forbidden_word_errors p (map JStr ws) = Inr es \<Longrightarrow> es = [] \<longleftrightarrow> (\<forall>w \<in> set ws. \<not> contains (lower w) (lower p))"
proof (induction ws arbitrary: es)
  case (Cons w ws)
  then obtain es' where "forbidden_word_errors p (map JStr ws) = Inr es'" by (auto simp: res_simps)
  with Cons show ?case by (cases "contains (lower w) (lower p)") auto
qed simp

lemma forbidden_words_run: "\<exists>es. forbidden_word_errors p (map JStr ws) = Inr es"
  by (induction ws) (auto simp: res_simps)

lemma requirement_Nil: "requirement config k met msg = [] \<longleftrightarrow> (json_truth (cfg_get config k (JBool True)) \<longrightarrow> met)"
  by (simp add: requirement_def)

text \<open>A password policy means what it says.  For a policy with an integer length and a list of
  forbidden words, the check never fails, and it accepts exactly the passwords that are long
  enough, have a character of every required class and contain no forbidden word in any
  case; a class is required unless the policy switches it off.\<close>

theorem password_policy_exact:
  assumes "cfg_get config ''min_length'' (JInt 8) = JInt n"
    and "cfg_get config ''forbidden_words'' (JList []) = JList (map JStr ws)"
  shows "\<exists>errors. validate_password_complexity fc password config = Inr errors
    \<and> (errors = [] \<longleftrightarrow> n \<le> int (length password)
      \<and> (json_truth (cfg_get config ''require_uppercase'' (JBool True)) \<longrightarrow> (\<exists>c \<in> set password. is_upper_ascii c))
      \<and> (json_truth (cfg_get config ''require_lowercase'' (JBool True)) \<longrightarrow> (\<exists>c \<in> set password. is_lower_ascii c))
      \<and> (json_truth (cfg_get config ''require_digits'' (JBool True)) \<longrightarrow> (\<exists>c \<in> set password. is_digit c))
      \<and> (json_truth (cfg_get config ''require_special'' (JBool True)) \<longrightarrow> (\<exists>c \<in> set password. c \<in> set special_characters))
      \<and> (\<forall>w \<in> set ws. \<not> contains (lower w) (lower password)))"
proof -
  obtain es where es: "forbidden_word_errors password (map JStr ws) = Inr es"
    using forbidden_words_run by blast
  have len: "shorter_than fc password (JInt n) = Inr (int (length password) < n)" by (simp add: shorter_than_def)
  have words: "json_items (JList (map JStr ws)) = Some (map JStr ws)" by (simp add: json_items_def)
  note run = validate_password_complexity_def [of fc password config, unfolded assms Let_def len words option.case es bind_res_simps]
  show ?thesis
    unfolding run using forbidden_none_iff [OF es] by (auto simp: requirement_Nil list_ex_iff)
qed

lemma password_policy_witness:
  "\<exists>errors. validate_password_complexity (\<lambda>t. 0) ''Secret-1'' [(''require_special'', JBool False)] = Inr errors \<and> errors = []"
proof -
  have c: "cfg_get [(''require_special'', JBool False)] ''min_length'' (JInt 8) = JInt 8"
    "cfg_get [(''require_special'', JBool False)] ''forbidden_words'' (JList []) = JList (map JStr [])"
    by (simp_all add: cfg_get_def)
  obtain errors where e: "validate_password_complexity (\<lambda>t. 0) ''Secret-1'' [(''require_special'', JBool False)] = Inr errors"
    using password_policy_exact [OF c, of "\<lambda>t. 0" "''Secret-1''"] by blast
  have "is_upper_ascii (CHR ''S'')" "is_lower_ascii (CHR ''e'')" "is_digit (CHR ''1'')"
    by (simp_all add: is_upper_ascii_def is_lower_ascii_def is_digit_def char_code_def)
  then have "errors = []"
    using password_policy_exact [OF c, of "\<lambda>t. 0" "''Secret-1''"] e by (auto simp: cfg_get_def json_truth_def)
  with e show ?thesis by blast
qed

text \<open>The page size of a request: never more than a hundred, but zero and negative sizes pass.\<close>

lemma page_size_bounds:
  "get_page_size param \<le> 100"
  "get_page_size param < 1 \<longleftrightarrow> (\<exists>v n. param = Some v \<and> py_int v = Some n \<and> n < 1)"
  "pr_page_size (get_paginated_response p data) = 10"
  by (auto simp: get_page_size_def class_page_size_def max_page_size_def get_paginated_response_def split: option.splits)

lemma html_escape_safe: "\<forall>c \<in> set s. escape_char c = [c] \<Longrightarrow> html_escape s = s"
  by (induction s) (simp_all add: html_escape_def)

text \<open>
  What a mask hides, for data without HTML characters: all of it when there are at most
  \<open>n\<close> characters, the middle when there are at least \<open>2 n\<close>; in between nothing is hidden,
  and with \<open>n = 0\<close> the data follows its own mask in full.
\<close>

lemma mask_shapes:
  assumes "\<forall>c \<in> set data. escape_char c = [c]" and "escape_char m = [m]" and "0 \<le> n"
  shows "mask_sensitive_data data n [m] =
    Inr (if length data \<le> nat n then replicate (length data) m
         else if n = 0 then replicate (length data) m @ data
         else if length data < 2 * nat n then take (nat n) data @ drop (length data - nat n) data
         else take (nat n) data @ replicate (length data - 2 * nat n) m @ drop (length data - nat n) data)"
proof -
  have rep: "concat (replicate k [m]) = replicate k m" for k by (induction k) simp_all
  have sub: "html_escape xs = xs" if "set xs \<subseteq> insert m (set data)" for xs
    using that assms(1,2) by (intro html_escape_safe) auto
  have all: "set (take k data @ replicate j m @ drop i data) \<subseteq> insert m (set data)" for i j k
    using set_take_subset [of k data] set_drop_subset [of i data] by auto
  have m: "html_escape [m] = [m]" using assms(2) by (simp add: html_escape_def)
  have d: "html_escape data = data" by (rule sub) auto
  have "html_escape (replicate (length data) m @ data) = replicate (length data) m @ data" by (rule sub) auto
  then show ?thesis
    using assms(3) sub [OF all [of "nat n" "length data - 2 * nat n" "length data - nat n"]]
    by (auto simp: mask_sensitive_data_def Let_def m d rep slice_end_def)
qed

text \<open>Every exception is answered.  A database conflict gives 400, an exception the framework does
  not know 500, an API exception its own status with a code: the one of its detail, else its
  own, else the default of its class.  Only a detail that is a list or dictionary of plain
  strings (the project's own exceptions keep the detail as given) makes the handler fail.\<close>

theorem error_answers:
  shows "exception_handler DjangoIntegrityError = Inr \<lparr>er_status = 400, er_code = ''validation_error'', er_headers = []\<rparr>
    \<and> exception_handler Unhandled = Inr \<lparr>er_status = 500, er_code = ''server_error'', er_headers = []\<rparr>
    \<and> (has_codes d \<longrightarrow> (\<forall>ds. d = Many ds \<longrightarrow> ds = [] \<or> (\<exists>m c. hd ds = Msg m c)) \<longrightarrow>
        (\<exists>c. exception_handler (ApiException s d code dc hs) = Inr \<lparr>er_status = s, er_code = c, er_headers = hs\<rparr>))
    \<and> exception_handler (conflict_error (Some (Msg m None)) None) = Inr \<lparr>er_status = 409, er_code = ''conflict'', er_headers = []\<rparr>
    \<and> exception_handler (throttling_error None None (Some n))
        = Inr \<lparr>er_status = 429, er_code = ''throttling_error'', er_headers = [(''Retry-After'', show_int n)]\<rparr>
    \<and> exception_handler (permission_denied_error (Some (Fields [(k, Msg m None)])) None) = Inl AttributeErr"
proof -
  have "\<exists>c. exception_handler (ApiException s d code dc hs) = Inr \<lparr>er_status = s, er_code = c, er_headers = hs\<rparr>"
    if "has_codes d" "\<forall>ds. d = Many ds \<longrightarrow> ds = [] \<or> (\<exists>m c. hd ds = Msg m c)"
  proof (cases d)
    case (Msg m c)
    with that show ?thesis by (auto simp: exception_handler_def extract_code_def)
  next
    case (Many ds)
    with that show ?thesis by (cases ds) (auto simp: exception_handler_def extract_code_def)
  next
    case (Fields fs)
    with that show ?thesis by (auto simp: exception_handler_def extract_code_def)
  qed
  then show ?thesis
    by (simp add: exception_handler_def extract_code_def conflict_error_def throttling_error_def
        permission_denied_error_def core_exception_def)
qed

lemma error_answers_witness:
  "exception_handler (ApiException 404 (Msg ''x'' (Some ''not_found'')) None ''error'' [])
     = Inr \<lparr>er_status = 404, er_code = ''not_found'', er_headers = []\<rparr>"
  using error_answers [of "Msg ''x'' (Some ''not_found'')" 404 None "''error''" "[]"]
  by (auto simp: exception_handler_def extract_code_def)

text \<open>The domain check looks between the first two at-signs only.\<close>

lemma email_domain_middle:
  "email_domain_validator [''ok.io''] ''x@ok.io@evil.io'' = Inr ()"
  by code_simp

lemma username_newline: "username_validator [CHR ''a'', CHR ''b'', CHR ''c'', CHR 0x0A] = Inr ()"
  by code_simp

end
