(* ===== verification/Login.thy ===== *)
theory Login
  imports Mfa Utilities "HOL-Library.Word"
begin

unbundle bit_operations_syntax

text \<open>
  Authentication (\<open>apps/iam_auth\<close>): the address policy of a tenant, the keys of the login
  throttles, the login serializer and view with lockout, password expiry, enrolment and
  session policies around them, unlocking an account and changing a password.
  \<open>authenticate\<close>, the address and date parsers and \<open>json.loads\<close> are parameters.
\<close>

section \<open>Address policy\<close>

datatype ip_addr = V4 "32 word" | V6 "128 word"
datatype ip_net = Net4 "32 word" nat | Net6 "128 word" nat

definition netmask :: "nat \<Rightarrow> 'a::len word" where
  "netmask p = push_bit (LENGTH('a) - p) (- 1)"

text \<open>\<open>client in ip_network(cidr, strict=False)\<close>: host bits of the written address are cleared.\<close>

fun in_network :: "ip_addr \<Rightarrow> ip_net \<Rightarrow> bool" where
  "in_network (V4 a) (Net4 n p) = (a AND netmask p = n AND netmask p)"
| "in_network (V6 a) (Net6 n p) = (a AND netmask p = n AND netmask p)"
| "in_network _ _ = False"

definition matches_any :: "(json \<Rightarrow> ip_net option) \<Rightarrow> ip_addr \<Rightarrow> json \<Rightarrow> bool res" where
  "matches_any parse_net client cidr_list =
     (case json_items cidr_list of
        None \<Rightarrow> Inl TypeErr
      | Some xs \<Rightarrow> Inr (list_ex (\<lambda>x. case parse_net x of None \<Rightarrow> False | Some n \<Rightarrow> in_network client n) xs))"

definition is_ip_blocked ::
  "(string \<Rightarrow> ip_addr option) \<Rightarrow> (json \<Rightarrow> ip_net option) \<Rightarrow> string \<Rightarrow> json \<Rightarrow> json \<Rightarrow> bool res" where
  "is_ip_blocked parse_ip parse_net ip allowlist blocklist =
     (case parse_ip ip of
        None \<Rightarrow> Inr False
      | Some client \<Rightarrow>
          bind_res (if json_truth blocklist then matches_any parse_net client blocklist else Inr False) (\<lambda>b.
          if b then Inr True
          else if json_truth allowlist
          then bind_res (matches_any parse_net client allowlist) (\<lambda>a. Inr (\<not> a))
          else Inr False))"

section \<open>Throttles\<close>

text \<open>\<open>_rate\<close>: \<open>None\<close> switches the throttle off.\<close>

definition throttle_rate :: "(string \<rightharpoonup> string) \<Rightarrow> string \<Rightarrow> string \<Rightarrow> string option" where
  "throttle_rate cfg k dflt =
     (let v = (case cfg k of None \<Rightarrow> dflt | Some r \<Rightarrow> r) in if v = ''0'' then None else Some v)"

definition throttle_key :: "string \<Rightarrow> string \<Rightarrow> string" where
  "throttle_key scope ident = ''throttle_'' @ scope @ ''_'' @ ident"

definition login_ip_key :: "string \<Rightarrow> string" where
  "login_ip_key ident = throttle_key ''login_ip'' ident"

definition login_email_key :: "string option \<Rightarrow> string \<Rightarrow> string" where
  "login_email_key email ident =
     throttle_key ''login_email'' (if truthy email then lower (or_empty email) else ident)"

section \<open>The state of a login\<close>

record password_history =
  ph_user :: string
  ph_hash :: string
  ph_created_at :: int

record auth_attempt =
  aa_email :: string
  aa_ip :: string
  aa_success :: bool
  aa_reason :: string
  aa_tenant :: "string option"

record 'c login_db =
  ld_users :: "user list"
  ld_tenants :: "tenant list"
  ld_memberships :: "membership list"
  ld_settings :: "tenant_setting list"
  ld_attributes :: "user_attribute list"
  ld_history :: "password_history list"
  ld_mfa :: mfa_db
  ld_tokens :: token_db
  ld_attempts :: "auth_attempt list"
  ld_events :: "user_event list"
  ld_cache :: 'c

text \<open>
  What the code calls: \<open>le_parse_iso\<close> gives the time and whether it carries a time zone.
\<close>

record ('c, 'x) login_env =
  le_ctx :: ctx
  le_now :: int
  le_catalog :: merged_catalog
  le_loads :: "string \<Rightarrow> json res"
  le_parse_ip :: "string \<Rightarrow> ip_addr option"
  le_parse_net :: "json \<Rightarrow> ip_net option"
  le_parse_iso :: "string \<Rightarrow> (bool \<times> int) option"
  le_authenticate :: "string \<Rightarrow> string \<Rightarrow> user option"
  le_for_user :: token_issuer
  le_crypto :: crypto_ops
  le_cache :: "('c, 'x) cache_ops"
  le_lockout :: int_config
  le_session :: int_config
  le_float_ceil :: "string \<Rightarrow> int"

definition setting_or ::
  "('c, 'x) login_env \<Rightarrow> 'c login_db \<Rightarrow> string \<Rightarrow> string \<Rightarrow> string \<Rightarrow> string res" where
  "setting_or E w tenant k dflt =
     bind_res (get_tenant_setting (le_ctx E) (ld_settings w) (le_catalog E) tenant k) (\<lambda>v.
       Inr (if truthy v then or_empty v else dflt))"

section \<open>The policies around a login\<close>

definition ip_blocked :: exn where
  "ip_blocked = PermissionDenied ''Login not allowed from this IP address.'' ''ip_blocked''"

definition enforce_ip_policy ::
  "('c, 'x) login_env \<Rightarrow> request \<Rightarrow> string \<Rightarrow> 'c login_db \<Rightarrow> unit res" where
  "enforce_ip_policy E rq tenant w =
     (if rq_ip rq = [] then Inr ()
      else
        bind_res (setting_or E w tenant ''ip_allowlist'' ''[]'') (\<lambda>raw_allow.
        bind_res (setting_or E w tenant ''ip_blocklist'' ''[]'') (\<lambda>raw_block.
        bind_res (le_loads E raw_allow) (\<lambda>allow.
        bind_res (le_loads E raw_block) (\<lambda>block.
        bind_res (is_ip_blocked (le_parse_ip E) (le_parse_net E) (rq_ip rq) allow block) (\<lambda>blocked.
          guard (\<not> blocked) ip_blocked))))))"

definition password_expired :: exn where
  "password_expired = ValidationError ''detail'' ''Your password has expired. Please change it to continue.'' ''password_expired''"

definition history_of :: "string \<Rightarrow> 'c login_db \<Rightarrow> password_history list" where
  "history_of uid w = sort_key (\<lambda>h. - ph_created_at h) (filter (\<lambda>h. ph_user h = uid) (ld_history w))"

definition enforce_password_expiry ::
  "('c, 'x) login_env \<Rightarrow> user \<Rightarrow> string \<Rightarrow> 'c login_db \<Rightarrow> unit res" where
  "enforce_password_expiry E u tenant w =
     (let forced = get_attribute (ld_attributes w) (usr_id u) tenant ''password_expires_at'' None in
      bind_res (if truthy forced
                then (case le_parse_iso E (or_empty forced) of
                        None \<Rightarrow> Inl ValueErr
                      | Some (aware, expires_at) \<Rightarrow>
                          if \<not> aware then Inl TypeErr else guard (le_now E < expires_at) password_expired)
                else Inr ()) (\<lambda>_.
      bind_res (setting_or E w tenant ''password_expiry_days'' ''0'') (\<lambda>raw_days.
      case py_int raw_days of
        None \<Rightarrow> Inl ValueErr
      | Some expiry_days \<Rightarrow>
          if expiry_days = 0 then Inr ()
          else
            let baseline = (case qs_first (history_of (usr_id u) w) of
                  Some h \<Rightarrow> ph_created_at h | None \<Rightarrow> usr_created_at u);
                age_days = (le_now E - baseline) div 86400
            in guard (age_days < expiry_days) password_expired)))"

definition enforce_mfa_enrollment ::
  "('c, 'x) login_env \<Rightarrow> user \<Rightarrow> string \<Rightarrow> 'c login_db \<Rightarrow> unit res" where
  "enforce_mfa_enrollment E u tenant w =
     bind_res (setting_or E w tenant ''mfa_enforcement'' ''optional'') (\<lambda>enforcement.
       if enforcement \<noteq> ''required'' then Inr ()
       else guard (login_device (le_ctx E) (usr_id u) tenant (ld_mfa w) \<noteq> None)
              (ValidationError ''detail'' ''MFA is required for this tenant. Please enroll a device first.''
                 ''mfa_setup_incomplete''))"

definition resolve_tenant_membership ::
  "('c, 'x) login_env \<Rightarrow> user \<Rightarrow> string option \<Rightarrow> 'c login_db \<Rightarrow> membership res" where
  "resolve_tenant_membership E u tenant_id w =
     (let memberships = filter mb_is_active (user_memberships (le_ctx E) u (ld_memberships w)) in
      if memberships = []
      then Inl (ValidationError ''detail'' ''User has no active tenant memberships.'' ''no_tenant_membership'')
      else (case tenant_id of
         Some t \<Rightarrow>
           (case qs_first (filter (\<lambda>m. mb_tenant m = t) memberships) of
              None \<Rightarrow> Inl (ValidationError ''tenant_id'' ''User does not belong to this tenant.'' ''invalid_tenant'')
            | Some m \<Rightarrow> Inr m)
       | None \<Rightarrow>
           (case memberships of
              [m] \<Rightarrow> Inr m
            | _ \<Rightarrow> Inl (ValidationError ''tenant_id''
                  ''This field is required when the user belongs to multiple tenants.'' ''tenant_required''))))"

section \<open>Login\<close>

text \<open>
  The answer is a challenge or a token pair.  \<open>super().validate\<close> authenticates and issues a
  first refresh token, whose strings are later overwritten in the answer.
\<close>

datatype login_answer = MfaRequired string | LoggedIn token_pair user

definition with_tokens :: "(token_db, 'a) act \<Rightarrow> ('c login_db, 'a) act" where
  "with_tokens m w = (case m (ld_tokens w) of (r, t) \<Rightarrow> (r, w\<lparr>ld_tokens := t\<rparr>))"

definition obtain_pair_validate ::
  "('c, 'x) login_env \<Rightarrow> string \<Rightarrow> string \<Rightarrow> ('c login_db, user) act" where
  "obtain_pair_validate E email password w =
     (case le_authenticate E email password of
        None \<Rightarrow> (Inl (AuthenticationFailed ''no_active_account''), w)
      | Some u \<Rightarrow>
          if \<not> usr_is_active u then (Inl (AuthenticationFailed ''no_active_account''), w)
          else bind_act (with_tokens (le_for_user E u (le_now E))) (\<lambda>_. ret u) w)"

definition login_policies ::
  "('c, 'x) login_env \<Rightarrow> request \<Rightarrow> user \<Rightarrow> string option \<Rightarrow> 'c login_db \<Rightarrow> membership res" where
  "login_policies E rq u tenant_id w =
     bind_res (resolve_tenant_membership E u tenant_id w) (\<lambda>m.
     bind_res (enforce_ip_policy E rq (mb_tenant m) w) (\<lambda>_.
     bind_res (enforce_password_expiry E u (mb_tenant m) w) (\<lambda>_.
     bind_res (enforce_mfa_enrollment E u (mb_tenant m) w) (\<lambda>_. Inr m))))"

definition login_finish ::
  "('c, 'x) login_env \<Rightarrow> user \<Rightarrow> string \<Rightarrow> ('c login_db, login_answer) act" where
  "login_finish E u tenant w =
     (case login_device (le_ctx E) (usr_id u) tenant (ld_mfa w) of
        Some d \<Rightarrow> (Inr (MfaRequired (issue_challenge_token (le_crypto E) (le_now E) (usr_id u) tenant)), w)
      | None \<Rightarrow>
          bind_act (with_tokens (le_for_user E u (le_now E))) (\<lambda>jti w'.
            (Inr (LoggedIn \<lparr>tp_jti = jti, tp_user = usr_id u, tp_tenant = tenant\<rparr> u),
             w'\<lparr>ld_tokens := enforce_session_limit (le_session E) (usr_id u) (ld_tokens w')\<rparr>)) w)"

definition login_validate ::
  "('c, 'x) login_env \<Rightarrow> request \<Rightarrow> string \<Rightarrow> string \<Rightarrow> string option \<Rightarrow> ('c login_db, login_answer) act" where
  "login_validate E rq email password tenant_id =
     bind_act (obtain_pair_validate E email password) (\<lambda>u w.
       bind_act (lift_res (login_policies E rq u tenant_id w)) (\<lambda>m. login_finish E u (mb_tenant m)) w)"

section \<open>The login endpoint\<close>

definition log_attempt :: "string \<Rightarrow> string \<Rightarrow> bool \<Rightarrow> string \<Rightarrow> 'c login_db \<Rightarrow> 'c login_db" where
  "log_attempt email ip success reason w =
     w\<lparr>ld_attempts := ld_attempts w @ [\<lparr>aa_email = email, aa_ip = ip, aa_success = success, aa_reason = reason, aa_tenant = None\<rparr>]\<rparr>"

text \<open>The receivers of the two signals.\<close>

definition handle_login_failed :: "('c, 'x) login_env \<Rightarrow> string \<Rightarrow> 'c login_db \<Rightarrow> 'c login_db" where
  "handle_login_failed E email w = w\<lparr>ld_cache := record_failed_attempt (le_cache E) (le_lockout E) email (ld_cache w)\<rparr>"

definition handle_password_changed :: "('c, 'x) login_env \<Rightarrow> string \<Rightarrow> 'c login_db \<Rightarrow> 'c login_db" where
  "handle_password_changed E email w = w\<lparr>ld_cache := clear_lockout (le_cache E) email (ld_cache w)\<rparr>"

text \<open>
  \<open>LoginView.post\<close>: the lockout, the log and the signal use the address as it was sent, the
  serializer its fields trimmed.
\<close>

definition login_fields ::
  "string option \<Rightarrow> string option \<Rightarrow> (string \<times> string) res" where
  "login_fields email password =
     bind_res (trimmed_field ''email'' email) (\<lambda>e. bind_res (trimmed_field ''password'' password) (\<lambda>p. Inr (e, p)))"

definition login_post ::
  "('c, 'x) login_env \<Rightarrow> request \<Rightarrow> string option \<Rightarrow> string option \<Rightarrow> string option
    \<Rightarrow> ('c login_db, login_answer) act" where
  "login_post E rq raw_email password tenant_id w =
     (let email = or_empty raw_email; ip = rq_ip rq in
      if is_locked (le_cache E) email (ld_cache w)
      then (Inl (ValidationError ''detail'' ''Account is locked due to too many failed login attempts.'' ''account_locked''),
            log_attempt email ip False ''account_locked'' w)
      else
        (case bind_act (lift_res (login_fields raw_email password))
                (\<lambda>(e, p). login_validate E rq e p tenant_id) w of
           (Inl (AuthenticationFailed code), w1) \<Rightarrow>
             (Inl (AuthenticationFailed code), handle_login_failed E email (log_attempt email ip False ''invalid_credentials'' w1))
         | (Inl e, w1) \<Rightarrow> (Inl e, w1)
         | (Inr ans, w1) \<Rightarrow>
             let w2 = log_attempt email ip True [] w1;
                 w3 = w2\<lparr>ld_events := record_event None email ''auth'' ''login'' None [(''ip_address'', ip)] (ld_events w2)\<rparr>
             in (Inr ans, w3\<lparr>ld_cache := clear_lockout (le_cache E) email (ld_cache w3)\<rparr>)))"

section \<open>Unlocking an account\<close>

text \<open>The result is the status of the response.\<close>

definition unlock_post :: "('c, 'x) login_env \<Rightarrow> request \<Rightarrow> user \<Rightarrow> string \<Rightarrow> ('c login_db, nat) act" where
  "unlock_post E rq u email w =
     (let unlocked = (Inr 204, w\<lparr>ld_cache := clear_lockout (le_cache E) email (ld_cache w),
            ld_events := record_event (Some u) email ''auth'' ''account_unlocked'' None
                           [(''unlocked_by'', usr_email u)] (ld_events w)\<rparr>) in
      if usr_email u = email
      then (Inl (ValidationError ''detail'' ''You cannot unlock your own account.'' ''self_unlock_forbidden''), w)
      else if usr_is_superuser u then unlocked
      else (case tenant_of rq of
              None \<Rightarrow> (Inr 403, w)
            | Some t \<Rightarrow>
                if qs_exists (\<lambda>m. mb_tenant m = t \<and> mb_is_active m \<and> mb_is_admin m)
                     (user_memberships (le_ctx E) u (ld_memberships w))
                then unlocked else (Inr 403, w)))"

section \<open>Changing a password\<close>

definition password_history_limit :: nat where
  "password_history_limit = 5"

definition password_config :: "('c, 'x) login_env \<Rightarrow> request \<Rightarrow> 'c login_db \<Rightarrow> rules res" where
  "password_config E rq w =
     (case tenant_of rq of
        None \<Rightarrow> Inr []
      | Some t \<Rightarrow>
          bind_res (get_tenant_setting (le_ctx E) (ld_settings w) (le_catalog E) t ''password_policy'') (\<lambda>raw.
          if \<not> truthy raw then Inr []
          else bind_res (le_loads E (or_empty raw)) (\<lambda>j.
                 case j of JNull \<Rightarrow> Inr [] | JObj d \<Rightarrow> Inr d | _ \<Rightarrow> Inl AttributeErr)))"

definition validate_old_password :: "('c, 'x) login_env \<Rightarrow> user \<Rightarrow> string \<Rightarrow> unit res" where
  "validate_old_password E u v =
     guard (co_check (le_crypto E) v (usr_password u))
       (ValidationError ''old_password'' ''Current password is incorrect.'' ''invalid'')"

definition password_validate ::
  "('c, 'x) login_env \<Rightarrow> request \<Rightarrow> user \<Rightarrow> string \<Rightarrow> string \<Rightarrow> 'c login_db \<Rightarrow> unit res" where
  "password_validate E rq u new_password confirmation w =
     (if new_password \<noteq> confirmation
      then Inl (ValidationError ''new_password_confirmation'' ''Passwords do not match.'' ''invalid'')
      else
        bind_res (password_config E rq w) (\<lambda>config.
        bind_res (validate_password_complexity (le_float_ceil E) new_password config) (\<lambda>errors.
        if errors \<noteq> [] then Inl (ValidationError ''new_password'' (hd errors) ''invalid'')
        else guard (\<not> list_ex (\<lambda>h. co_check (le_crypto E) new_password (ph_hash h))
                          (take password_history_limit (history_of (usr_id u) w)))
               (ValidationError ''new_password'' ''Cannot reuse any of your last 5 passwords.'' ''invalid''))))"

definition password_save ::
  "('c, 'x) login_env \<Rightarrow> nat \<Rightarrow> request \<Rightarrow> user \<Rightarrow> string \<Rightarrow> 'c login_db \<Rightarrow> 'c login_db" where
  "password_save E salt rq u new_password w =
     (let w1 = w\<lparr>ld_history := ld_history w @ [\<lparr>ph_user = usr_id u, ph_hash = usr_password u, ph_created_at = le_now E\<rparr>],
               ld_users := save_row (\<lambda>r. usr_id r = usr_id u)
                  (\<lambda>r. r\<lparr>usr_password := co_hash (le_crypto E) salt new_password\<rparr>) (ld_users w)\<rparr>;
          w2 = (case tenant_of rq of
                  None \<Rightarrow> w1
                | Some t \<Rightarrow>
                   (case qs_first (filter (\<lambda>tn. tn_id tn = t) (ld_tenants w1)) of
                      None \<Rightarrow> w1
                    | Some tn \<Rightarrow> w1\<lparr>ld_attributes :=
                        delete_attribute (usr_id u) (tn_id tn) ''password_expires_at'' (ld_attributes w1)\<rparr>))
      in handle_password_changed E (usr_email u) w2)"

text \<open>\<open>PasswordChangeView.post\<close>: the answer is an access token for the user, without a tenant.\<close>

record access_token =
  ac_user :: string
  ac_tenant :: "string option"

definition password_change_post ::
  "('c, 'x) login_env \<Rightarrow> nat \<Rightarrow> request \<Rightarrow> user \<Rightarrow> string option \<Rightarrow> string option \<Rightarrow> string option
    \<Rightarrow> ('c login_db, access_token) act" where
  "password_change_post E salt rq u old_password new_password confirmation w =
     (case bind_res (trimmed_field ''old_password'' old_password) (\<lambda>old.
           bind_res (validate_old_password E u old) (\<lambda>_.
           bind_res (trimmed_field ''new_password'' new_password) (\<lambda>new.
           bind_res (trimmed_field ''new_password_confirmation'' confirmation) (\<lambda>conf.
           bind_res (password_validate E rq u new conf w) (\<lambda>_. Inr new))))) of
        Inl e \<Rightarrow> (Inl e, w)
      | Inr new \<Rightarrow>
          let w' = password_save E salt rq u new w in
          (Inr \<lparr>ac_user = usr_id u, ac_tenant = None\<rparr>,
           w'\<lparr>ld_events := record_event (Some u) (usr_email u) ''auth'' ''password_change'' None [] (ld_events w')\<rparr>))"

section \<open>Facts about networks\<close>

lemma masked_eq_iff:
  fixes a n :: "'a::len word"
  assumes "p \<le> LENGTH('a)"
  shows "a AND netmask p = n AND netmask p \<longleftrightarrow> unat a div 2 ^ (LENGTH('a) - p) = unat n div 2 ^ (LENGTH('a) - p)"
proof -
  have "a AND netmask p = n AND netmask p \<longleftrightarrow> drop_bit (LENGTH('a) - p) a = drop_bit (LENGTH('a) - p) n"
  proof
    assume eq: "a AND netmask p = n AND netmask p"
    show "drop_bit (LENGTH('a) - p) a = drop_bit (LENGTH('a) - p) n"
    proof (rule bit_word_eqI)
      fix i assume "i < LENGTH('a)"
      have "bit (a AND netmask p) (LENGTH('a) - p + i) = bit (n AND netmask p) (LENGTH('a) - p + i)" by (simp only: eq)
      then show "bit (drop_bit (LENGTH('a) - p) a) i = bit (drop_bit (LENGTH('a) - p) n) i"
        by (auto simp: netmask_def bit_simps bit_drop_bit_eq add.commute dest: bit_imp_le_length)
    qed
  next
    assume eq: "drop_bit (LENGTH('a) - p) a = drop_bit (LENGTH('a) - p) n"
    show "a AND netmask p = n AND netmask p"
    proof (rule bit_word_eqI)
      fix i assume "i < LENGTH('a)"
      have "bit (drop_bit (LENGTH('a) - p) a) (i - (LENGTH('a) - p)) = bit (drop_bit (LENGTH('a) - p) n) (i - (LENGTH('a) - p))"
        by (simp only: eq)
      then show "bit (a AND netmask p) i = bit (n AND netmask p) i"
        by (auto simp: netmask_def bit_simps bit_drop_bit_eq add.commute)
    qed
  qed
  also have "\<dots> \<longleftrightarrow> unat a div 2 ^ (LENGTH('a) - p) = unat n div 2 ^ (LENGTH('a) - p)"
    by (metis unat_drop_bit_eq drop_bit_eq_div word_unat_eq_iff)
  finally show ?thesis .
qed

text \<open>Which addresses a network holds.  An address is in a network of the same family exactly
  when it agrees with the written address on the prefix, as blocks of addresses of the size
  the prefix leaves; a prefix of zero holds every address, a full prefix one, and addresses
  of the two families never match.\<close>

theorem network_block:
  shows "(p \<le> 32 \<longrightarrow> in_network (V4 a) (Net4 n p) = (unat a div 2 ^ (32 - p) = unat n div 2 ^ (32 - p)))
    \<and> (q \<le> 128 \<longrightarrow> in_network (V6 b) (Net6 m q) = (unat b div 2 ^ (128 - q) = unat m div 2 ^ (128 - q)))
    \<and> in_network (V4 a) (Net4 n 0) \<and> in_network (V4 a) (Net4 n 32) = (a = n)
    \<and> \<not> in_network (V4 a) (Net6 m q) \<and> \<not> in_network (V6 b) (Net4 n p)"
proof -
  have "unat w < 2 ^ 32" for w :: "32 word" by (rule order_less_le_trans [OF unsigned_less]) simp
  then have "unat a div 2 ^ 32 = 0" "unat n div 2 ^ 32 = 0" by simp_all
  then have "in_network (V4 a) (Net4 n 0)" using masked_eq_iff [of 0 a n] by simp
  moreover have "in_network (V4 a) (Net4 n 32) = (a = n)" using masked_eq_iff [of 32 a n] by (simp add: word_unat_eq_iff)
  ultimately show ?thesis using masked_eq_iff [of p a n] masked_eq_iff [of q b m] by simp
qed

lemma network_block_witness:
  "in_network (V4 0x0A010203) (Net4 0x0A000000 8) \<and> \<not> in_network (V4 0x0B010203) (Net4 0x0A000000 8)"
  using network_block [of 8 "0x0A010203" "0x0A000000" 0 0 0] network_block [of 8 "0x0B010203" "0x0A000000" 0 0 0] by simp

text \<open>The address policy of a tenant.  For a client address the parser accepts and two lists: the
  client is refused exactly when an entry of the blocklist holds it, or the allowlist is not
  empty and no entry of it does.  Entries that are no networks hold nothing, so an allowlist
  of such entries refuses everyone; a client address that cannot be parsed is let in.\<close>

theorem address_policy:
  shows "(parse_ip ip = Some client \<longrightarrow>
      is_ip_blocked parse_ip parse_net ip (JList allow) (JList block) =
        Inr ((\<exists>x \<in> set block. \<exists>n. parse_net x = Some n \<and> in_network client n)
           \<or> allow \<noteq> [] \<and> \<not> (\<exists>x \<in> set allow. \<exists>n. parse_net x = Some n \<and> in_network client n)))
    \<and> (parse_ip ip = None \<longrightarrow> is_ip_blocked parse_ip parse_net ip (JList allow) (JList block) = Inr False)"
proof -
  have m: "matches_any parse_net client (JList xs) = Inr (\<exists>x \<in> set xs. \<exists>n. parse_net x = Some n \<and> in_network client n)" for xs
    by (auto simp: matches_any_def json_items_def list_ex_iff split: option.splits)
  show ?thesis by (cases block) (auto simp: is_ip_blocked_def m json_truth_def)
qed

lemma address_policy_witness:
  "is_ip_blocked (\<lambda>_. Some (V4 1)) (\<lambda>_. None) ''x'' (JList [JStr ''typo'']) (JList []) = Inr True
   \<and> is_ip_blocked (\<lambda>_. None) (\<lambda>_. Some (Net4 0 0)) ''?'' (JList []) (JList [JStr ''0.0.0.0/0'']) = Inr False"
  using address_policy [of "\<lambda>_. Some (V4 1)" "''x''" "V4 1" "\<lambda>_. None" "[JStr ''typo'']" "[]"]
    address_policy [of "\<lambda>_. None" "''?''" "V4 1" "\<lambda>_. Some (Net4 0 0)" "[]" "[JStr ''0.0.0.0/0'']"] by simp

section \<open>Facts about the login\<close>

lemma with_tokens_Inr:
  "with_tokens m w = (Inr x, w') \<longleftrightarrow> (\<exists>db. m (ld_tokens w) = (Inr x, db) \<and> w' = w\<lparr>ld_tokens := db\<rparr>)"
  by (auto simp: with_tokens_def split: prod.splits)

lemma with_tokens_Inl:
  "with_tokens m w = (Inl e, w') \<longleftrightarrow> (\<exists>db. m (ld_tokens w) = (Inl e, db) \<and> w' = w\<lparr>ld_tokens := db\<rparr>)"
  by (auto simp: with_tokens_def split: prod.splits)

lemma obtain_pair_Inr:
  "obtain_pair_validate E email password w = (Inr u, w') \<longleftrightarrow>
     le_authenticate E email password = Some u \<and> usr_is_active u
   \<and> (\<exists>jti db. le_for_user E u (le_now E) (ld_tokens w) = (Inr jti, db) \<and> w' = w\<lparr>ld_tokens := db\<rparr>)"
  by (auto simp: obtain_pair_validate_def bind_act_def with_tokens_def split: option.splits prod.splits sum.splits)

lemma login_policies_Inr:
  "login_policies E rq u tenant_id w = Inr m \<longleftrightarrow>
     resolve_tenant_membership E u tenant_id w = Inr m \<and> enforce_ip_policy E rq (mb_tenant m) w = Inr ()
   \<and> enforce_password_expiry E u (mb_tenant m) w = Inr () \<and> enforce_mfa_enrollment E u (mb_tenant m) w = Inr ()"
  by (auto simp: login_policies_def res_simps)

lemma resolved_membership:
  assumes "resolve_tenant_membership E u tenant_id w = Inr m"
  shows "m \<in> set (ld_memberships w) \<and> mb_user m = usr_id u \<and> mb_is_active m
    \<and> (\<forall>t. tenant_id = Some t \<longrightarrow> mb_tenant m = t)"
proof -
  let ?ms = "filter mb_is_active (user_memberships (le_ctx E) u (ld_memberships w))"
  have "m \<in> set ?ms \<and> (\<forall>t. tenant_id = Some t \<longrightarrow> mb_tenant m = t)"
  proof (cases tenant_id)
    case None
    with assms have "?ms = [m]" by (auto simp: resolve_tenant_membership_def Let_def split: if_splits list.splits)
    then have "m \<in> set ?ms" by (simp only: list.set) simp
    with None show ?thesis by simp
  next
    case (Some t)
    with assms have "qs_first (filter (\<lambda>m. mb_tenant m = t) ?ms) = Some m"
      by (auto simp: resolve_tenant_membership_def Let_def split: if_splits option.splits)
    from qs_first_Some_mem [OF this] Some show ?thesis by simp
  qed
  then show ?thesis using user_memberships_mem [of m "le_ctx E" u "ld_memberships w"] by auto
qed

lemma login_validate_Inr:
  assumes "login_validate E rq email password tenant_id w = (Inr ans, w')"
  obtains u w1 m where "obtain_pair_validate E email password w = (Inr u, w1)"
    "login_policies E rq u tenant_id w1 = Inr m" "login_finish E u (mb_tenant m) w1 = (Inr ans, w')"
  using assms unfolding login_validate_def bind_act_Inr_iff by auto

lemma login_post_Inr:
  assumes "login_post E rq raw password tenant_id w = (Inr ans, w')"
  obtains e p w1 where "\<not> is_locked (le_cache E) (or_empty raw) (ld_cache w)"
    "login_fields raw password = Inr (e, p)" "login_validate E rq e p tenant_id w = (Inr ans, w1)"
    "ld_tokens w' = ld_tokens w1" "ld_cache w' = clear_lockout (le_cache E) (or_empty raw) (ld_cache w1)"
proof -
  have l: "\<not> is_locked (le_cache E) (or_empty raw) (ld_cache w)"
    using assms by (auto simp: login_post_def Let_def split: if_splits)
  obtain r w1 where run: "bind_act (lift_res (login_fields raw password)) (\<lambda>(e, p). login_validate E rq e p tenant_id) w = (r, w1)"
    by fastforce
  have r: "r = Inr ans"
    using assms l run by (cases r) (auto simp: login_post_def Let_def split: exn.splits)
  from run [unfolded r bind_act_Inr_iff] obtain e p where
    "login_fields raw password = Inr (e, p)" "login_validate E rq e p tenant_id w = (Inr ans, w1)" by auto
  moreover have "ld_tokens w' = ld_tokens w1" "ld_cache w' = clear_lockout (le_cache E) (or_empty raw) (ld_cache w1)"
    using assms l run r by (auto simp: login_post_def Let_def log_attempt_def)
  ultimately show thesis using that l by blast
qed

section \<open>Properties of login\<close>

text \<open>C4: What a successful login takes.  The account is not locked, the trimmed credentials
  authenticate an active user, who has an active membership in the tenant of the answer (the
  one asked for, if one was), whose address policy, password expiry and enrolment rules are
  passed.  A user with an active device in that tenant gets a challenge and no tokens; only a
  user without one gets a token pair.\<close>

theorem login_requires:
  assumes "login_post E rq raw password tenant_id w = (Inr ans, w')"
  shows "\<not> is_locked (le_cache E) (or_empty raw) (ld_cache w)
    \<and> (\<exists>u m w1. le_authenticate E (strip (or_empty raw)) (strip (or_empty password)) = Some u \<and> usr_is_active u
      \<and> m \<in> set (ld_memberships w) \<and> mb_user m = usr_id u \<and> mb_is_active m \<and> (\<forall>t. tenant_id = Some t \<longrightarrow> mb_tenant m = t)
      \<and> w1 = w\<lparr>ld_tokens := ld_tokens w1\<rparr>
      \<and> enforce_ip_policy E rq (mb_tenant m) w1 = Inr () \<and> enforce_password_expiry E u (mb_tenant m) w1 = Inr ()
      \<and> enforce_mfa_enrollment E u (mb_tenant m) w1 = Inr ()
      \<and> (case login_device (le_ctx E) (usr_id u) (mb_tenant m) (ld_mfa w) of
           Some d \<Rightarrow> ans = MfaRequired (issue_challenge_token (le_crypto E) (le_now E) (usr_id u) (mb_tenant m))
         | None \<Rightarrow> \<exists>jti. ans = LoggedIn \<lparr>tp_jti = jti, tp_user = usr_id u, tp_tenant = mb_tenant m\<rparr> u))"
  using assms
proof (rule login_post_Inr)
  fix e p wv
  assume l: "\<not> is_locked (le_cache E) (or_empty raw) (ld_cache w)" and f: "login_fields raw password = Inr (e, p)"
    and v: "login_validate E rq e p tenant_id w = (Inr ans, wv)"
  have ep: "e = strip (or_empty raw)" "p = strip (or_empty password)"
    using f by (auto simp: login_fields_def trimmed_field_def res_simps split: option.splits if_splits)
  from v show ?thesis
  proof (rule login_validate_Inr)
    fix u w1 m
    assume o: "obtain_pair_validate E e p w = (Inr u, w1)" and pol: "login_policies E rq u tenant_id w1 = Inr m"
      and fin: "login_finish E u (mb_tenant m) w1 = (Inr ans, wv)"
    from o have auth: "le_authenticate E e p = Some u" "usr_is_active u" and w1: "\<exists>db. w1 = w\<lparr>ld_tokens := db\<rparr>"
      by (auto simp: obtain_pair_Inr)
    then have same: "ld_memberships w1 = ld_memberships w" "ld_mfa w1 = ld_mfa w" "w1 = w\<lparr>ld_tokens := ld_tokens w1\<rparr>" by auto
    note mem = resolved_membership [OF conjunct1 [OF pol [unfolded login_policies_Inr]], unfolded same(1)]
    have "case login_device (le_ctx E) (usr_id u) (mb_tenant m) (ld_mfa w) of
        Some d \<Rightarrow> ans = MfaRequired (issue_challenge_token (le_crypto E) (le_now E) (usr_id u) (mb_tenant m))
      | None \<Rightarrow> \<exists>jti. ans = LoggedIn \<lparr>tp_jti = jti, tp_user = usr_id u, tp_tenant = mb_tenant m\<rparr> u"
      using fin by (cases "login_device (le_ctx E) (usr_id u) (mb_tenant m) (ld_mfa w)")
        (auto simp: login_finish_def same(2) bind_act_Inr_iff)
    with l auth ep mem pol same(3) show ?thesis
      unfolding login_policies_Inr by (intro conjI exI [of _ u] exI [of _ m] exI [of _ w1]) auto
  qed
qed

section \<open>Brute force\<close>

text \<open>Consecutive logins with one address, each after a delay and with its own password.\<close>

definition login_tries ::
  "('c, 'x) login_env \<Rightarrow> (int \<Rightarrow> 'c \<Rightarrow> 'c) \<Rightarrow> request \<Rightarrow> string \<Rightarrow> (int \<times> string) list \<Rightarrow> 'c login_db \<Rightarrow> 'c login_db" where
  "login_tries E wait rq raw tries w =
     fold (\<lambda>(d, p) w. snd (login_post E rq (Some raw) (Some p) None (w\<lparr>ld_cache := wait d (ld_cache w)\<rparr>))) tries w"

lemma wrong_login:
  assumes "\<not> is_locked (le_cache E) raw (ld_cache w)" and "strip raw \<noteq> []" and "strip p \<noteq> []"
    and "le_authenticate E (strip raw) (strip p) = None"
  shows "login_post E rq (Some raw) (Some p) tenant_id w =
    (Inl (AuthenticationFailed ''no_active_account''), handle_login_failed E raw (log_attempt raw (rq_ip rq) False ''invalid_credentials'' w))"
  using assms by (simp add: login_post_def login_fields_def trimmed_field_def login_validate_def bind_act_def obtain_pair_validate_def)

context cache_api
begin

lemma unlocked_wait:
  "\<not> is_locked C e s \<Longrightarrow> 0 \<le> d \<Longrightarrow> \<not> is_locked C e (wait d s)"
  by (auto simp: is_locked_view wait_view age_def cval_true_def split: option.splits cval.splits prod.splits if_splits)

end

lemma tries_count:
  assumes "cache_api (le_cache E) view wait" and "max_attempts (le_lockout E) > 0"
    and "view (ld_cache w) (attempts_key raw) = None" and "view (ld_cache w) (locked_key raw) = None" and "strip raw \<noteq> []"
    and "lockout_duration (le_lockout E) > 0 \<longrightarrow> sum_list (map fst tries) < lockout_duration (le_lockout E)"
    and "\<forall>(d, p) \<in> set tries. 0 \<le> d \<and> strip p \<noteq> [] \<and> le_authenticate E (strip raw) (strip p) = None"
    and "int (length tries) \<le> max_attempts (le_lockout E)"
  shows "ld_cache (login_tries E wait rq raw tries w) = failures (le_cache E) wait (le_lockout E) raw (map fst tries) (ld_cache w)
    \<and> ld_tokens (login_tries E wait rq raw tries w) = ld_tokens w"
  using assms(6-)
proof (induction tries rule: rev_induct)
  case Nil
  then show ?case by (simp add: login_tries_def failures_def)
next
  case (snoc x tries)
  obtain d p where x: "x = (d, p)" by fastforce
  let ?w = "login_tries E wait rq raw tries w"
  have pos: "0 \<le> d" "\<forall>d \<in> set (map fst tries). 0 \<le> d" using snoc.prems(2) x by auto
  with snoc.prems(1) x have sum: "lockout_duration (le_lockout E) > 0 \<longrightarrow> sum_list (map fst tries) < lockout_duration (le_lockout E)"
    by auto
  have IH: "ld_cache ?w = failures (le_cache E) wait (le_lockout E) raw (map fst tries) (ld_cache w)" "ld_tokens ?w = ld_tokens w"
    using snoc.IH [OF sum] snoc.prems(2,3) by auto
  have "\<not> is_locked (le_cache E) raw (ld_cache ?w)"
    using cache_api.failures_from_fresh [OF assms(1,2) pos(2) sum assms(3,4)] snoc.prems(3) by (simp add: IH(1))
  from cache_api.unlocked_wait [OF assms(1) this pos(1)]
  have "\<not> is_locked (le_cache E) raw (ld_cache (?w\<lparr>ld_cache := wait d (ld_cache ?w)\<rparr>))" by simp
  from wrong_login [OF this assms(5)] snoc.prems(2) x
  have step: "login_post E rq (Some raw) (Some p) None (?w\<lparr>ld_cache := wait d (ld_cache ?w)\<rparr>) =
    (Inl (AuthenticationFailed ''no_active_account''),
     handle_login_failed E raw (log_attempt raw (rq_ip rq) False ''invalid_credentials'' (?w\<lparr>ld_cache := wait d (ld_cache ?w)\<rparr>)))"
    by auto
  have "login_tries E wait rq raw (tries @ [x]) w = snd (login_post E rq (Some raw) (Some p) None (?w\<lparr>ld_cache := wait d (ld_cache ?w)\<rparr>))"
    by (simp add: login_tries_def x)
  with step IH show ?case by (simp add: handle_login_failed_def log_attempt_def failures_def x)
qed

text \<open>C6: Guessing a password locks the account.  After \<open>MAX_ATTEMPTS\<close> consecutive wrong passwords for
  an address, spread over less than the lockout duration, the next login with that address
  is refused as locked whatever the password is, even the right one, and issues no token.\<close>

theorem guessing_locks:
  assumes "cache_api (le_cache E) view wait" and "max_attempts (le_lockout E) > 0"
    and "view (ld_cache w) (attempts_key raw) = None" and "view (ld_cache w) (locked_key raw) = None" and "strip raw \<noteq> []"
    and "lockout_duration (le_lockout E) > 0 \<longrightarrow> sum_list (map fst tries) < lockout_duration (le_lockout E)"
    and "\<forall>(d, p) \<in> set tries. 0 \<le> d \<and> strip p \<noteq> [] \<and> le_authenticate E (strip raw) (strip p) = None"
    and "int (length tries) = max_attempts (le_lockout E)"
  shows "\<exists>w'. login_post E rq (Some raw) password tenant_id (login_tries E wait rq raw tries w)
      = (Inl (ValidationError ''detail'' ''Account is locked due to too many failed login attempts.'' ''account_locked''), w')
    \<and> ld_tokens w' = ld_tokens w"
proof -
  let ?w = "login_tries E wait rq raw tries w"
  have c: "ld_cache ?w = failures (le_cache E) wait (le_lockout E) raw (map fst tries) (ld_cache w)" "ld_tokens ?w = ld_tokens w"
    using tries_count [OF assms(1-7)] assms(8) by auto
  have "\<forall>d \<in> set (map fst tries). 0 \<le> d" using assms(7) by auto
  from cache_api.failures_from_fresh [OF assms(1,2) this assms(6,3,4)] assms(8)
  have "is_locked (le_cache E) raw (ld_cache ?w)" by (simp add: c(1))
  then show ?thesis by (simp add: login_post_def Let_def log_attempt_def c(2))
qed

definition empty_db :: "unit ttl login_db" where
  "empty_db = \<lparr>ld_users = [], ld_tenants = [], ld_memberships = [], ld_settings = [], ld_attributes = [], ld_history = [],
     ld_mfa = \<lparr>mf_devices = [], mf_codes = []\<rparr>, ld_tokens = no_tokens, ld_attempts = [], ld_events = [], ld_cache = no_entries\<rparr>"

definition login_sample_env :: "(unit ttl, unit) login_env" where
  "login_sample_env = \<lparr>le_ctx = None, le_now = 100, le_catalog = [], le_loads = (\<lambda>s. Inr (JList [])), le_parse_ip = (\<lambda>s. None),
     le_parse_net = (\<lambda>j. None), le_parse_iso = (\<lambda>s. None),
     le_authenticate = (\<lambda>e p. if e = ''a@x'' \<and> p = ''pw'' then Some mfa_user else None),
     le_for_user = serial_issuer, le_crypto = plain_crypto, le_cache = ttl_cache, le_lockout = [''MAX_ATTEMPTS'' \<mapsto> 2],
     le_session = Map.empty, le_float_ceil = (\<lambda>s. 0)\<rparr>"

lemma guessing_locks_witness:
  "\<exists>w'. login_post login_sample_env (sample_request None None) (Some ''a@x'') (Some ''pw'') None
      (login_tries login_sample_env ttl_wait (sample_request None None) ''a@x'' [(1, ''no''), (2, ''nope'')] empty_db)
    = (Inl (ValidationError ''detail'' ''Account is locked due to too many failed login attempts.'' ''account_locked''), w')
   \<and> ld_tokens w' = no_tokens"
proof -
  have st: "strip ''a@x'' = ''a@x''" "strip ''no'' = ''no''" "strip ''nope'' = ''nope''" by code_simp+
  have "cache_api (le_cache login_sample_env) ttl_view ttl_wait" using ttl.cache_api_axioms by (simp add: login_sample_env_def)
  from guessing_locks [OF this, of empty_db "''a@x''" "[(1, ''no''), (2, ''nope'')]" "sample_request None None" "Some ''pw''" None]
  show ?thesis
    by (simp add: st login_sample_env_def empty_db_def max_attempts_def lockout_duration_def ttl_view_def no_entries_def)
qed

lemma login_post_success:
  assumes "\<not> is_locked (le_cache E) raw (ld_cache w)" and "strip raw \<noteq> []" and "strip password \<noteq> []"
    and "login_validate E rq (strip raw) (strip password) tenant_id w = (Inr ans, w1)"
  obtains w' where "login_post E rq (Some raw) (Some password) tenant_id w = (Inr ans, w')"
  using assms by (simp add: login_post_def login_fields_def trimmed_field_def bind_act_def Let_def)

text \<open>The lock is keyed by the address as sent, the credentials by the trimmed one.  An account
  locked under its address still answers a login that pads the address with white space: a
  login the policies allow succeeds, unless that very spelling was locked too.\<close>

theorem padded_address_not_locked:
  assumes "is_locked (le_cache E) (strip raw) (ld_cache w)" and "\<not> is_locked (le_cache E) raw (ld_cache w)"
    and "strip raw \<noteq> []" and "strip password \<noteq> []"
    and "login_validate E rq (strip raw) (strip password) tenant_id w = (Inr ans, w1)"
  shows "fst (login_post E rq (Some raw) (Some password) tenant_id w) = Inr ans"
  by (rule login_post_success [OF assms(2-5)]) simp

definition member_db :: "unit ttl login_db" where
  "member_db = empty_db\<lparr>ld_memberships := [\<lparr>mb_id = ''m'', mb_user = ''u'', mb_tenant = ''t'', mb_role = ''r'',
     mb_is_admin = False, mb_is_active = True, mb_joined_at = 0\<rparr>],
   ld_cache := (no_entries(locked_key ''a@x'' \<mapsto> (CInt 1, None)))\<rparr>"

definition session_env :: "int_config \<Rightarrow> (unit ttl, unit) login_env" where
  "session_env cfg = login_sample_env\<lparr>le_session := cfg\<rparr>"

lemma session_env_empty: "session_env Map.empty = login_sample_env"
  by (simp add: session_env_def login_sample_env_def)

lemma sample_login:
  "\<exists>tp w'. login_validate (session_env cfg) (sample_request None None) ''a@x'' ''pw'' None (member_db\<lparr>ld_tokens := tk, ld_cache := ch\<rparr>)
     = (Inr (LoggedIn tp mfa_user), w')"
proof -
  have "py_int ''0'' = Some 0" by code_simp
  then have "login_policies (session_env cfg) (sample_request None None) mfa_user None (member_db\<lparr>ld_tokens := db, ld_cache := ch\<rparr>) = Inr (hd (ld_memberships member_db))" for db
    by (simp add: login_policies_def resolve_tenant_membership_def user_memberships_def manager_queryset_def session_env_def login_sample_env_def
        member_db_def empty_db_def mfa_user_def enforce_ip_policy_def sample_request_def enforce_password_expiry_def
        setting_or_def get_tenant_setting_def setting_rows_def enforce_mfa_enrollment_def is_ip_blocked_def guard_def)
  then show ?thesis
    by (simp add: login_validate_def bind_act_def obtain_pair_validate_def with_tokens_def session_env_def login_sample_env_def serial_issuer_def
        Let_def login_finish_def login_device_def device_rows_def manager_queryset_def member_db_def empty_db_def mfa_user_def sample_user_def)
qed

lemma sample_login_fresh:
  "\<exists>tp w'. login_validate login_sample_env (sample_request None None) ''a@x'' ''pw'' None (member_db\<lparr>ld_cache := no_entries\<rparr>)
     = (Inr (LoggedIn tp mfa_user), w')"
  using sample_login [where cfg = Map.empty and tk = "ld_tokens member_db" and ch = no_entries] by (auto simp: session_env_empty)

lemma same_cache: "member_db\<lparr>ld_tokens := tk, ld_cache := ld_cache member_db\<rparr> = member_db\<lparr>ld_tokens := tk\<rparr>"
  by (cases member_db) simp

lemma padded_address_witness:
  "\<exists>tp. fst (login_post login_sample_env (sample_request None None) (Some '' a@x'') (Some ''pw'') None member_db) = Inr (LoggedIn tp mfa_user)
    \<and> is_locked (le_cache login_sample_env) ''a@x'' (ld_cache member_db)"
proof -
  have st: "strip '' a@x'' = ''a@x''" "strip ''pw'' = ''pw''" by code_simp+
  obtain tp w' where run: "login_validate login_sample_env (sample_request None None) ''a@x'' ''pw'' None member_db = (Inr (LoggedIn tp mfa_user), w')"
    using sample_login [where cfg = Map.empty and tk = "ld_tokens member_db" and ch = "ld_cache member_db"] by (auto simp: session_env_empty)
  have l: "is_locked (le_cache login_sample_env) ''a@x'' (ld_cache member_db)" "\<not> is_locked (le_cache login_sample_env) '' a@x'' (ld_cache member_db)"
    by (simp_all add: is_locked_def login_sample_env_def ttl_cache_def member_db_def cval_true_def no_entries_def locked_key_def)
  from padded_address_not_locked [of login_sample_env "'' a@x''" member_db "''pw''" "sample_request None None" None] run l
  show ?thesis by (simp add: st)
qed

lemma login_requires_witness:
  "\<exists>tp w'. login_post login_sample_env (sample_request None None) (Some ''a@x'') (Some ''pw'') None (member_db\<lparr>ld_cache := no_entries\<rparr>)
     = (Inr (LoggedIn tp mfa_user), w') \<and> tp_tenant tp = ''t''"
proof -
  let ?w = "member_db\<lparr>ld_cache := no_entries\<rparr>"
  have st: "strip ''a@x'' = ''a@x''" "strip ''pw'' = ''pw''" by code_simp+
  obtain tp w1 where run: "login_validate login_sample_env (sample_request None None) ''a@x'' ''pw'' None ?w = (Inr (LoggedIn tp mfa_user), w1)"
    using sample_login_fresh by blast
  have "\<not> is_locked (le_cache login_sample_env) ''a@x'' (ld_cache ?w)"
    by (simp add: is_locked_def login_sample_env_def ttl_cache_def cval_true_def no_entries_def)
  with run obtain w' where
    post: "login_post login_sample_env (sample_request None None) (Some ''a@x'') (Some ''pw'') None ?w = (Inr (LoggedIn tp mfa_user), w')"
    using login_post_success [of login_sample_env "''a@x''" ?w "''pw''" "sample_request None None" None "LoggedIn tp mfa_user" w1]
    by (auto simp: st)
  from login_requires [OF post] have "tp_tenant tp = ''t''"
    by (auto simp: member_db_def split: option.splits)
  with post show ?thesis by blast
qed

text \<open>The refresh tokens a login leaves behind.  Once the credentials are right, one token is
  issued that no answer contains: it stays active when a policy refuses the login and when
  only a challenge is returned; a completed login has a second one, that of the answer.
  (Without a limit on sessions; a token issuer that works.)\<close>

theorem tokens_of_login:
  assumes "issuer_contract (le_for_user E)" and "\<And>db. \<exists>jti db'. le_for_user E u (le_now E) db = (Inr jti, db')"
    and "le_authenticate E email password = Some u" and "usr_is_active u" and "le_session E ''MAX_CONCURRENT_SESSIONS'' = None"
    and "login_validate E rq email password tenant_id w = (r, w')"
  shows "\<exists>hidden. active_tokens (usr_id u) (ld_tokens w') = active_tokens (usr_id u) (ld_tokens w) @ hidden #
      (case r of Inr (LoggedIn tp v) \<Rightarrow> [\<lparr>ot_jti = tp_jti tp, ot_user = usr_id u, ot_created_at = le_now E\<rparr>] | _ \<Rightarrow> [])
    \<and> (\<forall>tp v. r = Inr (LoggedIn tp v) \<longrightarrow> ot_jti hidden \<noteq> tp_jti tp)"
proof -
  have issued: "jti \<notin> ot_jti ` set (td_outstanding db)" "active_tokens (usr_id u) db' = active_tokens (usr_id u) db @
      [\<lparr>ot_jti = jti, ot_user = usr_id u, ot_created_at = le_now E\<rparr>]"
    "td_outstanding db' = td_outstanding db @ [\<lparr>ot_jti = jti, ot_user = usr_id u, ot_created_at = le_now E\<rparr>]"
    if "le_for_user E u (le_now E) db = (Inr jti, db')" for jti db db'
    using issuer_adds [OF assms(1) that] by (auto simp: active_tokens_def)
  obtain j1 db1 where i1: "le_for_user E u (le_now E) (ld_tokens w) = (Inr j1, db1)" using assms(2) by blast
  obtain j2 db2 where i2: "le_for_user E u (le_now E) db1 = (Inr j2, db2)" using assms(2) by blast
  let ?h = "\<lparr>ot_jti = j1, ot_user = usr_id u, ot_created_at = le_now E\<rparr>"
  let ?w1 = "w\<lparr>ld_tokens := db1\<rparr>"
  have run: "login_validate E rq email password tenant_id w =
      bind_act (lift_res (login_policies E rq u tenant_id ?w1)) (\<lambda>m. login_finish E u (mb_tenant m)) ?w1"
    using assms(3,4) i1 by (simp add: login_validate_def bind_act_def obtain_pair_validate_def with_tokens_def)
  show ?thesis
  proof (cases "login_policies E rq u tenant_id ?w1")
    case (Inl e)
    with run assms(6) have "r = Inl e" "w' = ?w1" by auto
    with issued(2) [OF i1] show ?thesis by (intro exI [of _ ?h]) simp
  next
    case (Inr m)
    with run assms(6) have fin: "login_finish E u (mb_tenant m) ?w1 = (r, w')" by simp
    show ?thesis
    proof (cases "login_device (le_ctx E) (usr_id u) (mb_tenant m) (ld_mfa w)")
      case None
      with fin i2 assms(5) have "r = Inr (LoggedIn \<lparr>tp_jti = j2, tp_user = usr_id u, tp_tenant = mb_tenant m\<rparr> u)" "ld_tokens w' = db2"
        by (auto simp: login_finish_def bind_act_def with_tokens_def enforce_session_limit_def)
      with issued(2) [OF i1] issued(2) [OF i2] issued(1) [OF i2] issued(3) [OF i1] show ?thesis
        by (intro exI [of _ ?h]) auto
    next
      case (Some d)
      with fin have "r = Inr (MfaRequired (issue_challenge_token (le_crypto E) (le_now E) (usr_id u) (mb_tenant m)))" "w' = ?w1"
        by (auto simp: login_finish_def)
      with issued(2) [OF i1] show ?thesis by (intro exI [of _ ?h]) simp
    qed
  qed
qed

lemma tokens_of_login_witness:
  "\<exists>tp w'. login_validate login_sample_env (sample_request None None) ''a@x'' ''pw'' None member_db = (Inr (LoggedIn tp mfa_user), w')
     \<and> length (active_tokens ''u'' (ld_tokens w')) = 2"
proof -
  obtain tp w' where run: "login_validate login_sample_env (sample_request None None) ''a@x'' ''pw'' None member_db = (Inr (LoggedIn tp mfa_user), w')"
    using sample_login [where cfg = Map.empty and tk = "ld_tokens member_db" and ch = "ld_cache member_db"] by (auto simp: session_env_empty)
  have "active_tokens ''u'' (ld_tokens member_db) = []" by (simp add: active_tokens_def member_db_def empty_db_def no_tokens_def)
  with tokens_of_login [OF _ _ _ _ _ run, of mfa_user] run show ?thesis
    using serial_issuer_contract by (auto simp: login_sample_env_def mfa_user_def sample_user_def serial_issuer_def Let_def)
qed

lemma logged_in_tokens:
  assumes "login_validate E rq email password tenant_id w = (Inr (LoggedIn tp v), w')"
  obtains j1 db1 db2 where "le_for_user E v (le_now E) (ld_tokens w) = (Inr j1, db1)"
    "le_for_user E v (le_now E) db1 = (Inr (tp_jti tp), db2)"
    "ld_tokens w' = enforce_session_limit (le_session E) (usr_id v) db2"
  using assms
proof (rule login_validate_Inr)
  fix u w1 m
  assume o: "obtain_pair_validate E email password w = (Inr u, w1)"
    and fin: "login_finish E u (mb_tenant m) w1 = (Inr (LoggedIn tp v), w')"
  from o obtain j1 where "le_for_user E u (le_now E) (ld_tokens w) = (Inr j1, ld_tokens w1)" by (auto simp: obtain_pair_Inr)
  moreover from fin obtain j2 db2 where "le_for_user E u (le_now E) (ld_tokens w1) = (Inr j2, db2)"
    "tp = \<lparr>tp_jti = j2, tp_user = usr_id u, tp_tenant = mb_tenant m\<rparr>" "v = u"
    "ld_tokens w' = enforce_session_limit (le_session E) (usr_id u) db2"
    by (auto simp: login_finish_def bind_act_Inr_iff with_tokens_Inr split: option.splits)
  ultimately show thesis using that by simp
qed

text \<open>A limit of two sessions allows one.  Because every login issues two tokens, with
  \<open>MAX_CONCURRENT_SESSIONS\<close> two a completed login ends every earlier session of the user
  (whose tokens are older), and keeps the token of its answer.\<close>

theorem limit_of_two_allows_one:
  assumes "issuer_contract (le_for_user E)" and "le_session E ''MAX_CONCURRENT_SESSIONS'' = Some 2"
    and "distinct (map ot_jti (td_outstanding (ld_tokens w)))"
    and "login_validate E rq email password tenant_id w = (Inr (LoggedIn tp v), w')"
    and "\<forall>t \<in> set (active_tokens (usr_id v) (ld_tokens w)). ot_created_at t < le_now E"
  shows "set (active_tokens (usr_id v) (ld_tokens w)) \<inter> set (active_tokens (usr_id v) (ld_tokens w')) = {}
    \<and> tp_jti tp \<in> ot_jti ` set (active_tokens (usr_id v) (ld_tokens w'))"
  using assms(4)
proof (rule logged_in_tokens)
  fix j1 db1 db2
  assume i1: "le_for_user E v (le_now E) (ld_tokens w) = (Inr j1, db1)"
    and i2: "le_for_user E v (le_now E) db1 = (Inr (tp_jti tp), db2)"
    and w': "ld_tokens w' = enforce_session_limit (le_session E) (usr_id v) db2"
  let ?old = "active_tokens (usr_id v) (ld_tokens w)" and ?new = "active_tokens (usr_id v) (ld_tokens w')"
  let ?a = "\<lparr>ot_jti = j1, ot_user = usr_id v, ot_created_at = le_now E\<rparr>"
  let ?b = "\<lparr>ot_jti = tp_jti tp, ot_user = usr_id v, ot_created_at = le_now E\<rparr>"
  note f1 = issuer_adds [OF assms(1) i1] and f2 = issuer_adds [OF assms(1) i2]
  have all: "active_tokens (usr_id v) db2 = ?old @ [?a, ?b]" and dist: "distinct (map ot_jti (td_outstanding db2))"
    using f1 f2 assms(3) by (auto simp: active_tokens_def)
  note lim = limit_facts [OF dist, of "le_session E" 2 "usr_id v" "[]", OF assms(2), folded w']
  have ab: "?a \<noteq> ?b" using f1 f2 by auto
  have sub: "set ?new \<subseteq> set ?old \<union> {?a, ?b}"
    using active_subset [of "usr_id v" "le_session E" "usr_id v" db2] unfolding all w' by auto
  have len: "length ?new = 2" using lim all by simp
  have "distinct ?new" using dist unfolding w' by (rule active_limited_distinct)
  then have card: "card (set ?new) = 2" using len distinct_card by metis
  have no_old: "t \<notin> set ?new" if "t \<in> set ?old" for t
  proof
    assume t: "t \<in> set ?new"
    have "t \<noteq> ?a" "t \<noteq> ?b" using that assms(5) by auto
    moreover have "\<not> (?a \<in> set ?new \<and> ?b \<in> set ?new)"
    proof
      assume "?a \<in> set ?new \<and> ?b \<in> set ?new"
      with t have "{t, ?a, ?b} \<subseteq> set ?new" by simp
      from card_mono [OF _ this] card ab \<open>t \<noteq> ?a\<close> \<open>t \<noteq> ?b\<close> show False by simp
    qed
    ultimately obtain g where "g \<in> {?a, ?b}" "g \<notin> set ?new" by blast
    with lim all t have "ot_created_at g \<le> ot_created_at t" by auto
    with \<open>g \<in> {?a, ?b}\<close> assms(5) that show False by auto
  qed
  then have "set ?new \<subseteq> {?a, ?b}" using sub by blast
  with card ab have "set ?new = {?a, ?b}" by (metis card_2_iff card_subset_eq finite.emptyI finite.insertI)
  with no_old show ?thesis by auto
qed

lemma limit_of_two_witness:
  "\<exists>tp w'. login_validate (session_env [''MAX_CONCURRENT_SESSIONS'' \<mapsto> 2]) (sample_request None None) ''a@x'' ''pw'' None
      (member_db\<lparr>ld_tokens := sample_tokens\<rparr>) = (Inr (LoggedIn tp mfa_user), w')
    \<and> \<lparr>ot_jti = ''b'', ot_user = ''u'', ot_created_at = 5\<rparr> \<notin> set (active_tokens ''u'' (ld_tokens w'))"
proof -
  let ?E = "session_env [''MAX_CONCURRENT_SESSIONS'' \<mapsto> 2]" and ?w = "member_db\<lparr>ld_tokens := sample_tokens\<rparr>"
  obtain tp w' where run: "login_validate ?E (sample_request None None) ''a@x'' ''pw'' None ?w = (Inr (LoggedIn tp mfa_user), w')"
    using sample_login [where cfg = "[''MAX_CONCURRENT_SESSIONS'' \<mapsto> 2]" and tk = sample_tokens and ch = "ld_cache member_db"] by (auto simp: same_cache)
  have "issuer_contract (le_for_user ?E)" using serial_issuer_contract by (simp add: session_env_def login_sample_env_def)
  from limit_of_two_allows_one [OF this _ _ run] run show ?thesis
    by (auto simp: session_env_def login_sample_env_def sample_tokens_def active_tokens_def mfa_user_def)
qed

section \<open>Properties of unlocking and of password changes\<close>

text \<open>Who may unlock an account.  An unlock happens only for a superuser or for an active
  administrator of the tenant of the request, never for one's own address, and it removes the
  lock of exactly the named address and is recorded; everything else changes nothing.  The
  named account need not belong to the administrator's tenant.\<close>

theorem unlock_authority:
  assumes "cache_api (le_cache E) view wait" and "unlock_post E rq u email w = (r, w')"
  shows "(r = Inr 204 \<longrightarrow> usr_email u \<noteq> email
        \<and> (usr_is_superuser u \<or> (\<exists>m \<in> set (ld_memberships w). mb_user m = usr_id u \<and> tenant_of rq = Some (mb_tenant m)
              \<and> mb_is_active m \<and> mb_is_admin m))
        \<and> \<not> is_locked (le_cache E) email (ld_cache w')
        \<and> (\<forall>other. other \<noteq> email \<longrightarrow> is_locked (le_cache E) other (ld_cache w') = is_locked (le_cache E) other (ld_cache w))
        \<and> length (ld_events w') = Suc (length (ld_events w)))
    \<and> (r \<noteq> Inr 204 \<longrightarrow> w' = w)
    \<and> (usr_email u \<noteq> email \<and> usr_is_superuser u \<longrightarrow> r = Inr 204)"
proof -
  note locked = cache_api.is_locked_view [OF assms(1)] and clear = cache_api.clear_view [OF assms(1)]
  have admin: "\<exists>m \<in> set (ld_memberships w). mb_user m = usr_id u \<and> mb_tenant m = t \<and> mb_is_active m \<and> mb_is_admin m"
    if "qs_exists (\<lambda>m. mb_tenant m = t \<and> mb_is_active m \<and> mb_is_admin m) (user_memberships (le_ctx E) u (ld_memberships w))" for t
    using that user_memberships_mem [of _ "le_ctx E" u "ld_memberships w"] by (auto simp: qs_exists_iff)
  from assms(2) show ?thesis
    using admin by (auto simp: unlock_post_def Let_def locked clear cval_true_def split: if_splits option.splits)
qed

lemma unlock_authority_witness:
  "\<exists>w'. unlock_post login_sample_env (sample_request None None) (mfa_user\<lparr>usr_is_superuser := True\<rparr>) ''a@x'' member_db = (Inr 204, w')
     \<and> \<not> is_locked (le_cache login_sample_env) ''a@x'' (ld_cache w')"
proof -
  let ?u = "mfa_user\<lparr>usr_is_superuser := True\<rparr>"
  have "cache_api (le_cache login_sample_env) ttl_view ttl_wait" using ttl.cache_api_axioms by (simp add: login_sample_env_def)
  moreover obtain r w' where run: "unlock_post login_sample_env (sample_request None None) ?u ''a@x'' member_db = (r, w')" by fastforce
  ultimately show ?thesis using unlock_authority [of login_sample_env ttl_view ttl_wait "sample_request None None" ?u "''a@x''" member_db r w']
    by (auto simp: mfa_user_def sample_user_def)
qed

text \<open>C35: What a password change does.  It takes the current password and a confirmed new one that the
  tenant's policy accepts and that is none of the user's last five former passwords.  The old
  hash joins the history, only that user's row gets the new hash, the lockout and a forced
  expiry in the tenant are cleared, the refresh tokens stay as they are, and the answer's
  access token names no tenant.  A refused change changes nothing.\<close>

theorem password_change_effects:
  assumes "password_change_post E salt rq u old new conf w = (r, w')"
  shows "(\<forall>e. r = Inl e \<longrightarrow> w' = w)
    \<and> (\<forall>tok. r = Inr tok \<longrightarrow>
        co_check (le_crypto E) (strip (or_empty old)) (usr_password u) \<and> strip (or_empty new) = strip (or_empty conf)
      \<and> (\<exists>config. password_config E rq w = Inr config
           \<and> validate_password_complexity (le_float_ceil E) (strip (or_empty new)) config = Inr [])
      \<and> (\<forall>h \<in> set (take 5 (history_of (usr_id u) w)). \<not> co_check (le_crypto E) (strip (or_empty new)) (ph_hash h))
      \<and> ld_history w' = ld_history w @ [\<lparr>ph_user = usr_id u, ph_hash = usr_password u, ph_created_at = le_now E\<rparr>]
      \<and> ld_users w' = save_row (\<lambda>r. usr_id r = usr_id u)
            (\<lambda>r. r\<lparr>usr_password := co_hash (le_crypto E) salt (strip (or_empty new))\<rparr>) (ld_users w)
      \<and> ld_cache w' = clear_lockout (le_cache E) (usr_email u) (ld_cache w)
      \<and> (\<forall>tn \<in> set (ld_tenants w). tenant_of rq = Some (tn_id tn) \<longrightarrow>
           get_attribute (ld_attributes w') (usr_id u) (tn_id tn) ''password_expires_at'' None = None)
      \<and> ld_tokens w' = ld_tokens w \<and> tok = \<lparr>ac_user = usr_id u, ac_tenant = None\<rparr>)"
proof -
  let ?chk = "bind_res (trimmed_field ''old_password'' old) (\<lambda>old.
      bind_res (validate_old_password E u old) (\<lambda>_. bind_res (trimmed_field ''new_password'' new) (\<lambda>new.
      bind_res (trimmed_field ''new_password_confirmation'' conf) (\<lambda>conf.
      bind_res (password_validate E rq u new conf w) (\<lambda>_. Inr new)))))"
  have field: "trimmed_field n v = Inr s \<Longrightarrow> s = strip (or_empty v)" for n v s
    by (auto simp: trimmed_field_def split: option.splits if_splits)
  show ?thesis
  proof (cases ?chk)
    case (Inl e)
    with assms show ?thesis by (auto simp: password_change_post_def)
  next
    case (Inr n)
    then obtain c where old: "co_check (le_crypto E) (strip (or_empty old)) (usr_password u)"
      and n: "n = strip (or_empty new)" and v: "password_validate E rq u n c w = Inr ()" and c: "c = strip (or_empty conf)"
      by (auto simp: bind_res_Inr_iff validate_old_password_def guard_Inr_iff dest!: field)
    from v have "n = c" and pol: "\<exists>config. password_config E rq w = Inr config
           \<and> validate_password_complexity (le_float_ceil E) n config = Inr []"
      and hist: "\<forall>h \<in> set (take 5 (history_of (usr_id u) w)). \<not> co_check (le_crypto E) n (ph_hash h)"
      by (auto simp: password_validate_def bind_res_Inr_iff guard_Inr_iff list_ex_iff password_history_limit_def
          split: if_splits)
    let ?w = "password_save E salt rq u n w"
    from assms Inr have r: "r = Inr \<lparr>ac_user = usr_id u, ac_tenant = None\<rparr>"
      and w': "w' = ?w\<lparr>ld_events := record_event (Some u) (usr_email u) ''auth'' ''password_change'' None [] (ld_events ?w)\<rparr>"
      by (auto simp: password_change_post_def Let_def)
    have saved: "ld_history ?w = ld_history w @ [\<lparr>ph_user = usr_id u, ph_hash = usr_password u, ph_created_at = le_now E\<rparr>]"
      "ld_users ?w = save_row (\<lambda>r. usr_id r = usr_id u) (\<lambda>r. r\<lparr>usr_password := co_hash (le_crypto E) salt n\<rparr>) (ld_users w)"
      "ld_cache ?w = clear_lockout (le_cache E) (usr_email u) (ld_cache w)" "ld_tokens ?w = ld_tokens w"
      by (auto simp: password_save_def Let_def handle_password_changed_def split: option.splits)
    have attr: "get_attribute (ld_attributes ?w) (usr_id u) (tn_id tn) ''password_expires_at'' None = None"
      if "tn \<in> set (ld_tenants w)" "tenant_of rq = Some (tn_id tn)" for tn
    proof -
      from that(1) obtain x where x: "qs_first (filter (\<lambda>t. tn_id t = tn_id tn) (ld_tenants w)) = Some x"
        by (cases "filter (\<lambda>t. tn_id t = tn_id tn) (ld_tenants w)") (auto simp: filter_empty_conv)
      from qs_first_Some_mem [OF x] that(2) x show ?thesis
        by (simp add: password_save_def Let_def handle_password_changed_def get_delete_attribute)
    qed
    show ?thesis
      using r w' saved attr old pol hist \<open>n = c\<close> n c by auto
  qed
qed

definition weak_policy :: "tenant_setting list" where
  "weak_policy = [\<lparr>ts_tenant = Some ''t'', ts_key = ''password_policy'', ts_value = ''{}''\<rparr>]"

definition policy_env :: "(unit ttl, unit) login_env" where
  "policy_env = login_sample_env\<lparr>le_loads := (\<lambda>s. Inr (JObj [(''min_length'', JInt 1), (''require_uppercase'', JBool False),
     (''require_lowercase'', JBool False), (''require_digits'', JBool False), (''require_special'', JBool False)]))\<rparr>"

lemma sample_change:
  "\<exists>w'. password_change_post policy_env 0 (sample_request (Some mfa_user) (Some ''t'')) (mfa_user\<lparr>usr_password := ''old''\<rparr>)
      (Some ''old'') (Some p) (Some p) (empty_db\<lparr>ld_settings := weak_policy\<rparr>) = (Inr \<lparr>ac_user = ''u'', ac_tenant = None\<rparr>, w')"
  if "strip p = p" "p \<noteq> []"
proof -
  have st: "strip ''old'' = ''old''" by code_simp
  have len: "1 \<le> int (length p)" using that(2) by (cases p) auto
  have "tenant_of (sample_request (Some mfa_user) (Some ''t'')) = Some ''t''"
    by (simp add: tenant_of_def get_tenant_id_def sample_request_def)
  then have "password_config policy_env (sample_request (Some mfa_user) (Some ''t'')) (empty_db\<lparr>ld_settings := weak_policy\<rparr>)
      = Inr [(''min_length'', JInt 1), (''require_uppercase'', JBool False),
     (''require_lowercase'', JBool False), (''require_digits'', JBool False), (''require_special'', JBool False)]"
    by (simp add: password_config_def get_tenant_setting_def setting_rows_def manager_queryset_def weak_policy_def
        policy_env_def login_sample_env_def)
  then show ?thesis using that len
    by (simp add: password_change_post_def trimmed_field_def st validate_old_password_def password_validate_def
        validate_password_complexity_def cfg_get_def shorter_than_def json_items_def requirement_def json_truth_def
        history_of_def empty_db_def guard_def policy_env_def login_sample_env_def plain_crypto_def mfa_user_def sample_user_def Let_def)
qed

lemma password_change_witness:
  "\<exists>w'. password_change_post policy_env 0 (sample_request (Some mfa_user) (Some ''t'')) (mfa_user\<lparr>usr_password := ''old''\<rparr>)
      (Some ''old'') (Some ''new'') (Some ''new'') (empty_db\<lparr>ld_settings := weak_policy\<rparr>) = (Inr \<lparr>ac_user = ''u'', ac_tenant = None\<rparr>, w')
    \<and> map ph_hash (ld_history w') = [''old'']"
proof -
  have st: "strip ''new'' = ''new''" by code_simp
  obtain w' where run: "password_change_post policy_env 0 (sample_request (Some mfa_user) (Some ''t'')) (mfa_user\<lparr>usr_password := ''old''\<rparr>)
      (Some ''old'') (Some ''new'') (Some ''new'') (empty_db\<lparr>ld_settings := weak_policy\<rparr>) = (Inr \<lparr>ac_user = ''u'', ac_tenant = None\<rparr>, w')"
    using sample_change [OF st] by auto
  from password_change_effects [OF run] run show ?thesis by (auto simp: empty_db_def)
qed

text \<open>The current password can be kept.  The check against reuse looks at former passwords only:
  when the policy accepts the current password and none of the last five former ones is the
  same, changing a password to itself succeeds.\<close>

theorem current_password_accepted:
  assumes "co_check (le_crypto E) (strip p) (usr_password u)" and "strip p \<noteq> []"
    and "password_config E rq w = Inr config" and "validate_password_complexity (le_float_ceil E) (strip p) config = Inr []"
    and "\<forall>h \<in> set (take 5 (history_of (usr_id u) w)). \<not> co_check (le_crypto E) (strip p) (ph_hash h)"
  shows "fst (password_change_post E salt rq u (Some p) (Some p) (Some p) w) = Inr \<lparr>ac_user = usr_id u, ac_tenant = None\<rparr>"
  using assms by (simp add: password_change_post_def trimmed_field_def validate_old_password_def password_validate_def
      password_history_limit_def list_ex_iff guard_def Let_def)

lemma current_password_witness:
  "fst (password_change_post policy_env 0 (sample_request None None) (mfa_user\<lparr>usr_password := ''Passw0rd!''\<rparr>)
      (Some ''Passw0rd!'') (Some ''Passw0rd!'') (Some ''Passw0rd!'') empty_db) = Inr \<lparr>ac_user = ''u'', ac_tenant = None\<rparr>"
proof -
  have st: "strip ''Passw0rd!'' = ''Passw0rd!''" by code_simp
  have ok: "validate_password_complexity (\<lambda>s. 0) ''Passw0rd!'' [] = Inr []" by code_simp
  have "password_config policy_env (sample_request None None) empty_db = Inr []"
    by (simp add: password_config_def tenant_of_def get_tenant_id_def sample_request_def)
  with current_password_accepted [of policy_env "''Passw0rd!''" "mfa_user\<lparr>usr_password := ''Passw0rd!''\<rparr>" "sample_request None None" empty_db "[]" 0]
    st ok show ?thesis
    by (simp add: policy_env_def login_sample_env_def plain_crypto_def history_of_def empty_db_def mfa_user_def)
qed

end
