(* ===== verification/Contracts.thy ===== *)
theory Contracts
  imports Documents Login
begin

text \<open>
  Abstract specifications two components implement: the typing of metadata values that
  \<open>apps/dms_metadata\<close> enforces, and the sessions of a user as the list of token ids that
  \<open>apps/iam_auth\<close> keeps in two tables, with a simulation of every operation.
\<close>

section \<open>Typing of metadata\<close>

inductive has_type :: "val_env \<Rightarrow> metadata_type \<Rightarrow> json \<Rightarrow> bool" for env where
  Null: "has_type env t JNull"
| Text: "t \<in> {T_STRING, T_TEXT, T_ENUM} \<Longrightarrow> has_type env t (JStr s)"
| Integer: "has_type env T_INTEGER (JInt n)"
| Decimal: "v = JInt n \<or> v = JFloat s \<or> v = JStr s \<Longrightarrow> parse_decimal (json_str v) \<noteq> None \<Longrightarrow> has_type env T_DECIMAL v"
| Boolean: "has_type env T_BOOLEAN (JBool b)"
| Date: "ve_date env s \<Longrightarrow> has_type env T_DATE (JStr s)"
| Datetime: "ve_datetime env s \<Longrightarrow> has_type env T_DATETIME (JStr s)"
| Time: "ve_time env s \<Longrightarrow> has_type env T_TIME (JStr s)"
| Uuid: "ve_uuid env s \<Longrightarrow> has_type env T_UUID (JStr s)"
| Email: "ve_email env s \<Longrightarrow> has_type env T_EMAIL (JStr s)"
| Url: "ve_url env s \<Longrightarrow> has_type env T_URL (JStr s)"
| Object: "has_type env T_JSON (JObj d)"

inductive_simps has_type_simps:
  "has_type env T_STRING v" "has_type env T_TEXT v" "has_type env T_ENUM v" "has_type env T_INTEGER v"
  "has_type env T_DECIMAL v" "has_type env T_BOOLEAN v" "has_type env T_DATE v" "has_type env T_DATETIME v"
  "has_type env T_TIME v" "has_type env T_UUID v" "has_type env T_EMAIL v" "has_type env T_URL v" "has_type env T_JSON v"

text \<open>The checks of the validator decide the typing relation.\<close>

lemma validate_type_iff: "validate_type env t v label = Inr () \<longleftrightarrow> has_type env t v"
  by (cases t; cases v) (auto simp: validate_type_def has_type_simps str_format_def guard_def is_str_def json_str_def)

lemma definitions_accept:
  "validate_definitions env ds metadata = Inr () \<longleftrightarrow> (\<forall>d \<in> set ds. validate_definition env d metadata = Inr ())"
  by (induction ds) (auto simp: bind_res_Inr_iff)

lemma no_extra_iff:
  "validate_no_extra_fields metadata defs = Inr () \<longleftrightarrow> set (keys metadata) \<subseteq> md_code ` set defs"
  by (auto simp: validate_no_extra_fields_def Let_def guard_Inr_iff filter_empty_conv)



section \<open>Sessions as lists\<close>

text \<open>
  The abstract state: the ids of a user's active refresh tokens, oldest first.
\<close>

type_synonym sessions = "string \<Rightarrow> string list"

datatype session_op = Issue user | EndAll user | Limit string

inductive session_spec :: "nat \<Rightarrow> session_op \<Rightarrow> sessions \<Rightarrow> sessions \<Rightarrow> bool" for limit where
  Issued: "(\<And>uid. jti \<notin> set (s uid)) \<Longrightarrow> session_spec limit (Issue u) s (s(usr_id u := s (usr_id u) @ [jti]))"
| Refused: "session_spec limit (Issue u) s s"
| Ended: "session_spec limit (EndAll u) s (s(usr_id u := []))"
| Limited: "session_spec limit (Limit uid) s
     (s(uid := (if limit = 0 then s uid else drop (length (s uid) - limit) (s uid))))"

inductive_cases spec_endE: "session_spec limit (EndAll u) s s'"
inductive_cases spec_limitE: "session_spec limit (Limit uid) s s'"

text \<open>What the abstract machine promises of its two cuts.\<close>

lemma spec_limit_bound:
  "session_spec limit (Limit uid) s s' \<Longrightarrow> 0 < limit \<Longrightarrow> length (s' uid) \<le> limit"
  by (erule spec_limitE) auto

lemma spec_end_empty: "session_spec limit (EndAll u) s s' \<Longrightarrow> s' (usr_id u) = []"
  by (erule spec_endE) auto

definition session_abs :: "token_db \<Rightarrow> sessions" where
  "session_abs db uid = map ot_jti (active_tokens uid db)"

text \<open>The operations of the code, at a time.\<close>

definition session_run :: "token_issuer \<Rightarrow> int_config \<Rightarrow> int \<Rightarrow> session_op \<Rightarrow> token_db \<Rightarrow> token_db" where
  "session_run for_user cfg now x db =
     (case x of
        Issue u \<Rightarrow> snd (for_user u now db)
      | EndAll u \<Rightarrow> fst (snd (logout_all_post u (db, [])))
      | Limit uid \<Rightarrow> enforce_session_limit cfg uid db)"

text \<open>Ids are unique, and the table is in the order of creation, none of it in the future.\<close>

definition session_inv :: "int \<Rightarrow> token_db \<Rightarrow> bool" where
  "session_inv now db \<longleftrightarrow> distinct (map ot_jti (td_outstanding db)) \<and> sorted (map ot_created_at (td_outstanding db))
     \<and> (\<forall>t \<in> set (td_outstanding db). ot_created_at t \<le> now)"

lemma active_sorted: "session_inv now db \<Longrightarrow> sort_key ot_created_at (active_tokens uid db) = active_tokens uid db"
  by (rule sort_key_id_if_sorted) (auto simp: active_tokens_def session_inv_def intro: sorted_filter)

lemma filter_not_taken:
  "distinct (map f xs) \<Longrightarrow> filter (\<lambda>t. f t \<notin> f ` set (take k xs)) xs = drop k xs"
proof (induction xs arbitrary: k)
  case (Cons x xs)
  show ?case
  proof (cases k)
    case 0
    then show ?thesis by simp
  next
    case (Suc j)
    have "filter (\<lambda>t. f t \<notin> insert (f x) (f ` set (take j xs))) xs = filter (\<lambda>t. f t \<notin> f ` set (take j xs)) xs"
      using Cons.prems by (intro filter_cong) (auto, metis imageI)
    with Cons Suc show ?thesis by simp
  qed
qed simp

lemma limit_run:
  assumes "session_inv now db" and "cfg ''MAX_CONCURRENT_SESSIONS'' = Some (int limit)"
  shows "session_abs (enforce_session_limit cfg uid db) =
    (session_abs db)(uid := (if limit = 0 then session_abs db uid else drop (length (session_abs db uid) - limit) (session_abs db uid)))"
proof (cases "limit = 0 \<or> length (active_tokens uid db) \<le> limit")
  case True
  then have "enforce_session_limit cfg uid db = db"
    using assms by (auto simp: enforce_session_limit_def Let_def active_sorted)
  with True show ?thesis by (auto simp: session_abs_def fun_eq_iff)
next
  case False
  let ?k = "length (active_tokens uid db) - limit"
  have d: "distinct (map ot_jti (td_outstanding db))" using assms(1) by (simp add: session_inv_def)
  have "nat (int (length (active_tokens uid db)) - int limit) = ?k" by simp
  then have run: "enforce_session_limit cfg uid db = fold blacklist_get_or_create (take ?k (active_tokens uid db)) db"
    using False assms(2) by (simp add: enforce_session_limit_def Let_def active_sorted [OF assms(1)])
  have active: "active_tokens v (enforce_session_limit cfg uid db) =
      filter (\<lambda>t. ot_jti t \<notin> ot_jti ` set (take ?k (active_tokens uid db))) (active_tokens v db)" for v
    unfolding run by (rule active_after) (simp_all only: fold_blacklist)
  have own: "active_tokens uid (enforce_session_limit cfg uid db) = drop ?k (active_tokens uid db)"
    unfolding active by (rule filter_not_taken [OF active_distinct [OF d]])
  have "active_tokens v (enforce_session_limit cfg uid db) = active_tokens v db" if "v \<noteq> uid" for v
    unfolding active
  proof (rule filter_True, intro ballI notI)
    fix t assume t: "t \<in> set (active_tokens v db)" "ot_jti t \<in> ot_jti ` set (take ?k (active_tokens uid db))"
    then obtain s where "s \<in> set (active_tokens uid db)" "ot_jti s = ot_jti t" using set_take_subset by fastforce
    with t(1) d have "s = t" by (auto simp: active_tokens_def distinct_map inj_on_def)
    with \<open>s \<in> set (active_tokens uid db)\<close> t(1) that show False by (simp add: active_tokens_def)
  qed
  with own False show ?thesis by (auto simp: session_abs_def fun_eq_iff drop_map)
qed

lemma end_all_run:
  assumes "session_inv now db"
  shows "session_abs (fst (snd (logout_all_post u (db, [])))) = (session_abs db)(usr_id u := [])"
    and "td_outstanding (fst (snd (logout_all_post u (db, [])))) = td_outstanding db"
proof -
  have d: "distinct (map ot_jti (td_outstanding db))" using assms by (simp add: session_inv_def)
  from logout_all_facts [OF d, of u "[]"] obtain db' where
    "snd (logout_all_post u (db, [])) = (db', snd (snd (logout_all_post u (db, []))))" "active_tokens (usr_id u) db' = []"
    "\<forall>uid. uid \<noteq> usr_id u \<longrightarrow> active_tokens uid db' = active_tokens uid db" "td_outstanding db' = td_outstanding db" by auto
  then show "session_abs (fst (snd (logout_all_post u (db, [])))) = (session_abs db)(usr_id u := [])"
    and "td_outstanding (fst (snd (logout_all_post u (db, [])))) = td_outstanding db"
    by (auto simp: session_abs_def fun_eq_iff) (metis fst_conv)+
qed

lemma run_simulates:
  assumes "issuer_contract for_user" and "cfg ''MAX_CONCURRENT_SESSIONS'' = Some (int limit)" and "session_inv now db"
  shows "session_spec limit x (session_abs db) (session_abs (session_run for_user cfg now x db))
    \<and> session_inv now (session_run for_user cfg now x db)"
proof (cases x)
  case (Issue u)
  show ?thesis
  proof (cases "for_user u now db")
    case (Pair r db')
    show ?thesis
    proof (cases r)
      case (Inl e)
      with assms(1) Pair have "db' = db" unfolding issuer_contract_def by blast
      with Issue Pair assms(3) show ?thesis by (simp add: session_run_def session_spec.Refused)
    next
      case (Inr jti)
      note new = issuer_adds [OF assms(1) Pair [unfolded Inr]]
      have active: "active_tokens uid db' = active_tokens uid db @
          (if uid = usr_id u then [\<lparr>ot_jti = jti, ot_user = usr_id u, ot_created_at = now\<rparr>] else [])" for uid
        using new by (simp add: active_tokens_def)
      then have "session_abs db' = (session_abs db)(usr_id u := session_abs db (usr_id u) @ [jti])"
        by (auto simp: session_abs_def fun_eq_iff)
      moreover have "jti \<notin> set (session_abs db uid)" for uid
        using new(1) by (auto simp: session_abs_def active_tokens_def)
      moreover have "session_inv now db'" using new assms(3) by (auto simp: session_inv_def sorted_append)
      ultimately show ?thesis using Issue Pair session_spec.Issued [of jti "session_abs db" limit u]
        by (simp add: session_run_def)
    qed
  qed
next
  case (EndAll u)
  with end_all_run [OF assms(3)] session_spec.Ended [of limit u "session_abs db"] assms(3) show ?thesis
    by (simp add: session_run_def session_inv_def)
next
  case (Limit uid)
  with limit_run [of now db cfg limit uid, OF assms(3,2)] session_spec.Limited [of limit uid "session_abs db"] assms(3) show ?thesis
    by (simp add: session_run_def session_inv_def limit_outstanding)
qed

inductive session_trace :: "nat \<Rightarrow> session_op list \<Rightarrow> sessions \<Rightarrow> sessions \<Rightarrow> bool" for limit where
  Done: "session_trace limit [] s s"
| Step: "session_spec limit x s s' \<Longrightarrow> session_trace limit xs s' s'' \<Longrightarrow> session_trace limit (x # xs) s s''"

fun session_runs :: "token_issuer \<Rightarrow> int_config \<Rightarrow> (int \<times> session_op) list \<Rightarrow> token_db \<Rightarrow> token_db" where
  "session_runs for_user cfg [] db = db"
| "session_runs for_user cfg ((t, x) # ops) db = session_runs for_user cfg ops (session_run for_user cfg t x db)"

lemma session_inv_later: "session_inv now db \<Longrightarrow> now \<le> t \<Longrightarrow> session_inv t db"
  by (auto simp: session_inv_def)

text \<open>C28: The token tables implement lists of sessions.  Any sequence of issued tokens, session limits
  and global logouts at increasing times, run on the two tables, is a run of the abstract
  machine in which a login appends an id to the user's list, a limit keeps the newest ids and
  a global logout empties the list, with no effect on other users' lists.\<close>

theorem sessions_refine:
  assumes "issuer_contract for_user" and "cfg ''MAX_CONCURRENT_SESSIONS'' = Some (int limit)" and "session_inv now db"
    and "sorted (map fst ops)" and "\<forall>(t, x) \<in> set ops. now \<le> t"
  shows "session_trace limit (map snd ops) (session_abs db) (session_abs (session_runs for_user cfg ops db))"
  using assms(3-)
proof (induction ops arbitrary: now db)
  case Nil
  show ?case by (simp add: session_trace.Done)
next
  case (Cons y ops)
  obtain t x where y: "y = (t, x)" by fastforce
  with Cons.prems have "session_inv t db" by (auto intro: session_inv_later)
  note sim = run_simulates [of for_user cfg limit t db x, OF assms(1,2) this]
  have "session_trace limit (map snd ops) (session_abs (session_run for_user cfg t x db))
      (session_abs (session_runs for_user cfg ops (session_run for_user cfg t x db)))"
    using Cons.prems y by (intro Cons.IH [OF conjunct2 [OF sim]]) auto
  with sim show ?case by (auto simp: y intro: session_trace.Step)
qed

lemma sessions_refine_witness:
  "session_trace 1 [Issue mfa_user, Issue mfa_user, Limit ''u'', EndAll mfa_user] (\<lambda>_. [])
     (session_abs (session_runs serial_issuer [''MAX_CONCURRENT_SESSIONS'' \<mapsto> 1]
        [(1, Issue mfa_user), (2, Issue mfa_user), (3, Limit ''u''), (4, EndAll mfa_user)] no_tokens))"
proof -
  have "session_abs no_tokens = (\<lambda>_. [])" by (simp add: session_abs_def active_tokens_def no_tokens_def fun_eq_iff)
  with sessions_refine [OF serial_issuer_contract, of "[''MAX_CONCURRENT_SESSIONS'' \<mapsto> 1]" 1 0 no_tokens
      "[(1, Issue mfa_user), (2, Issue mfa_user), (3, Limit ''u''), (4, EndAll mfa_user)]"]
  show ?thesis by (simp add: session_inv_def no_tokens_def)
qed

end
