(* ===== verification/Representation.thy ===== *)
theory Representation
  imports TenantSettings
begin

text \<open>
  The foreign key field of the serializers (\<open>core/fields/related.py\<close>): the rows a key may name
  and the nested representation of an instance, which follows references through the object
  graph, cycles included.
\<close>

section \<open>The rows a key may name\<close>

text \<open>
  \<open>deleted\<close> is \<open>None\<close> for a model without \<open>deleted_at\<close> (the filter raises \<open>FieldError\<close>); a lookup
  filters a column by a value; the context gives the values of the context filters.
\<close>

definition field_error :: exn where
  "field_error = OtherErr ''FieldError''"

fun resolve_context :: "(string \<times> string) list \<Rightarrow> (string \<rightharpoonup> json) \<Rightarrow> (string \<times> json) list res" where
  "resolve_context [] context = Inr []"
| "resolve_context ((lookup, k) # fs) context =
     (case context k of
        None \<Rightarrow> Inl KeyErr
      | Some v \<Rightarrow> bind_res (resolve_context fs context) (\<lambda>rest. Inr ((lookup, v) # rest)))"

definition apply_filters :: "('r \<Rightarrow> string \<Rightarrow> json) \<Rightarrow> (string \<times> json) list \<Rightarrow> 'r list \<Rightarrow> 'r list" where
  "apply_filters col fs rows = filter (\<lambda>r. \<forall>(l, v) \<in> set fs. col r l = v) rows"

definition fk_queryset ::
  "('r \<Rightarrow> bool) option \<Rightarrow> ('r \<Rightarrow> string \<Rightarrow> json) \<Rightarrow> bool \<Rightarrow> (string \<times> json) list \<Rightarrow> (string \<times> string) list
    \<Rightarrow> (string \<rightharpoonup> json) \<Rightarrow> 'r list \<Rightarrow> 'r list res" where
  "fk_queryset deleted col exclude_deleted base_filters context_fields context rows =
     bind_res (if \<not> exclude_deleted then Inr rows
               else (case deleted of None \<Rightarrow> Inl field_error | Some d \<Rightarrow> Inr (filter (\<lambda>r. \<not> d r) rows))) (\<lambda>live.
     bind_res (resolve_context context_fields context) (\<lambda>resolved.
       Inr (apply_filters col resolved (apply_filters col base_filters live))))"

text \<open>\<open>to_internal_value\<close> of the library with the field's own message.\<close>

definition fk_lookup ::
  "('r \<Rightarrow> bool) option \<Rightarrow> ('r \<Rightarrow> string \<Rightarrow> json) \<Rightarrow> ('r \<Rightarrow> string) \<Rightarrow> bool \<Rightarrow> (string \<times> json) list
    \<Rightarrow> (string \<times> string) list \<Rightarrow> string \<Rightarrow> string \<Rightarrow> (string \<rightharpoonup> json) \<Rightarrow> 'r list \<Rightarrow> string \<Rightarrow> 'r res" where
  "fk_lookup deleted col pk exclude_deleted base_filters context_fields field error_message context rows key =
     bind_res (fk_queryset deleted col exclude_deleted base_filters context_fields context rows) (\<lambda>qs.
       case qs_get (\<lambda>r. pk r = key) qs of
         Inl DoesNotExist \<Rightarrow> Inl (ValidationError field error_message ''invalid'')
       | r \<Rightarrow> r)"

lemma fk_lookup_Inr:
  assumes "fk_lookup deleted col pk ex base context_fields field msg context rows key = Inr r"
  obtains qs where "fk_queryset deleted col ex base context_fields context rows = Inr qs"
    and "qs_get (\<lambda>r. pk r = key) qs = Inr r"
proof -
  obtain qs where qs: "fk_queryset deleted col ex base context_fields context rows = Inr qs"
    using assms by (cases "fk_queryset deleted col ex base context_fields context rows") (auto simp: fk_lookup_def)
  moreover have "qs_get (\<lambda>r. pk r = key) qs = Inr r"
  proof (cases "qs_get (\<lambda>r. pk r = key) qs")
    case (Inl e)
    then show ?thesis using assms qs by (cases e) (simp_all add: fk_lookup_def)
  qed (use assms qs in \<open>simp add: fk_lookup_def\<close>)
  ultimately show thesis by (rule that)
qed

lemma resolve_context_mem:
  "resolve_context fs context = Inr resolved \<Longrightarrow> (l, k) \<in> set fs \<Longrightarrow> \<exists>v. context k = Some v \<and> (l, v) \<in> set resolved"
proof (induction fs arbitrary: resolved)
  case (Cons f fs)
  obtain l' k' where f: "f = (l', k')" by fastforce
  with Cons.prems(1) obtain v rest where "context k' = Some v" "resolve_context fs context = Inr rest" "resolved = (l', v) # rest"
    by (auto simp: bind_res_Inr_iff split: option.splits)
  with Cons.IH [of rest] Cons.prems(2) f show ?case by auto
qed simp

lemma fk_queryset_mem:
  assumes "fk_queryset deleted col ex base context_fields context rows = Inr qs" and "r \<in> set qs"
  shows "r \<in> set rows" and "\<forall>(l, v) \<in> set base. col r l = v" and "\<forall>(l, k) \<in> set context_fields. context k = Some (col r l)"
    and "ex \<longrightarrow> (\<exists>d. deleted = Some d \<and> \<not> d r)"
proof -
  obtain live resolved where live: "(if \<not> ex then Inr rows
      else (case deleted of None \<Rightarrow> Inl field_error | Some d \<Rightarrow> Inr (filter (\<lambda>r. \<not> d r) rows))) = Inr live"
    and resolved: "resolve_context context_fields context = Inr resolved"
    and qs: "qs = apply_filters col resolved (apply_filters col base live)"
    using assms(1) by (auto simp: fk_queryset_def bind_res_Inr_iff)
  from assms(2) qs have r: "r \<in> set live" "\<forall>(l, v) \<in> set base. col r l = v" "\<forall>(l, v) \<in> set resolved. col r l = v"
    by (auto simp: apply_filters_def)
  show "r \<in> set rows" and "ex \<longrightarrow> (\<exists>d. deleted = Some d \<and> \<not> d r)"
    using r(1) live by (auto split: if_splits option.splits)
  show "\<forall>(l, v) \<in> set base. col r l = v" by (rule r)
  show "\<forall>(l, k) \<in> set context_fields. context k = Some (col r l)"
    using resolve_context_mem [OF resolved] r(3) by fastforce
qed

lemma fk_lookup_mem:
  assumes "fk_lookup deleted col pk ex base context_fields field msg context rows key = Inr r"
  shows "r \<in> set rows" and "pk r = key" and "\<forall>(l, v) \<in> set base. col r l = v"
    and "\<forall>(l, k) \<in> set context_fields. context k = Some (col r l)"
    and "ex \<longrightarrow> (\<exists>d. deleted = Some d \<and> \<not> d r)"
proof -
  from assms obtain qs where qs: "fk_queryset deleted col ex base context_fields context rows = Inr qs"
    and get: "qs_get (\<lambda>r. pk r = key) qs = Inr r" by (rule fk_lookup_Inr)
  from qs_get_Inr_D [OF get] show "pk r = key" by simp
  from fk_queryset_mem [OF qs qs_get_Inr_D(1) [OF get]]
  show "r \<in> set rows" "\<forall>(l, v) \<in> set base. col r l = v" "\<forall>(l, k) \<in> set context_fields. context k = Some (col r l)"
    "ex \<longrightarrow> (\<exists>d. deleted = Some d \<and> \<not> d r)" by auto
qed

section \<open>Instances and values\<close>

text \<open>
  Objects live in a store and refer to each other by position.  \<open>in_hooks\<close> are the results of
  the methods \<open>get_<field>_representation\<close>, \<open>in_getters\<close> those of \<open>get_<segment>\<close>, \<open>in_attrs\<close> the
  attributes; Python's \<open>None\<close> is \<open>VPlain JNull\<close>.  An object that is no model keeps \<open>in_model\<close>
  false and is put into the answer as it is.
\<close>

datatype fval = VPlain json | VInst nat | VList "fval list"

record inst =
  in_class :: string
  in_pk :: string
  in_label :: string
  in_model :: bool
  in_fk_fields :: "string list option"
  in_hooks :: "string \<rightharpoonup> fval"
  in_getters :: "string \<rightharpoonup> fval"
  in_attrs :: "string \<rightharpoonup> fval"

type_synonym object_store = "inst list"
type_synonym serializer_hooks = "string \<Rightarrow> nat \<Rightarrow> fval option"

datatype repr = RPlain json | ROpaque fval | RObj "(string \<times> repr) list" | RList "repr list"

definition store_get :: "object_store \<Rightarrow> nat \<Rightarrow> inst option" where
  "store_get store r = (if r < length store then Some (store ! r) else None)"

definition identity :: "inst \<Rightarrow> string \<times> string" where
  "identity i = (in_class i, in_pk i)"

definition fallback :: "inst \<Rightarrow> repr" where
  "fallback i = RObj [(''id'', RPlain (JStr (in_pk i))), (''label'', RPlain (JStr (in_label i)))]"

section \<open>Resolving a field\<close>

text \<open>\<open>field_name.split("__", 1)\<close>, when the field name has a double underscore.\<close>

fun split_dunder :: "string \<Rightarrow> (string \<times> string) option" where
  "split_dunder (a # b # s) =
     (if a = CHR ''_'' \<and> b = CHR ''_'' then Some ([], s)
      else map_option (\<lambda>(h, t). (a # h, t)) (split_dunder (b # s)))"
| "split_dunder _ = None"

lemma split_dunder_shorter: "split_dunder s = Some (h, t) \<Longrightarrow> length t < length s"
  by (induction s arbitrary: h rule: split_dunder.induct) (fastforce split: if_splits)+

definition or_none_val :: "fval option \<Rightarrow> fval" where
  "or_none_val v = (case v of None \<Rightarrow> VPlain JNull | Some x \<Rightarrow> x)"

definition traversal_step :: "inst \<Rightarrow> string \<Rightarrow> fval" where
  "traversal_step i head = (case in_getters i head of Some x \<Rightarrow> x | None \<Rightarrow> or_none_val (in_attrs i head))"

function resolve_field_value ::
  "object_store \<Rightarrow> serializer_hooks option \<Rightarrow> string \<Rightarrow> fval \<Rightarrow> fval" where
  "resolve_field_value store serializer field_name v =
     (case v of
        VInst r \<Rightarrow>
          (case store_get store r of
             None \<Rightarrow> VPlain JNull
           | Some i \<Rightarrow>
               (case (case serializer of None \<Rightarrow> None | Some h \<Rightarrow> h field_name r) of
                  Some x \<Rightarrow> x
                | None \<Rightarrow>
                   (case in_hooks i field_name of
                      Some x \<Rightarrow> x
                    | None \<Rightarrow>
                       (case split_dunder field_name of
                          Some (head, tail) \<Rightarrow>
                            (if traversal_step i head = VPlain JNull then VPlain JNull
                             else resolve_field_value store None tail (traversal_step i head))
                        | None \<Rightarrow> or_none_val (in_attrs i field_name)))))
      | _ \<Rightarrow> VPlain JNull)"
  by pat_completeness auto
termination by (relation "measure (\<lambda>(_, _, name, _). length name)") (auto dest: split_dunder_shorter)

declare resolve_field_value.simps [simp del]

section \<open>Representing an instance\<close>

text \<open>
  The recursion ends on every store: an instance whose class and key were seen on the way is
  represented by its id and label, and there are finitely many of them.
\<close>

definition unseen :: "object_store \<Rightarrow> (string \<times> string) list \<Rightarrow> nat" where
  "unseen store visited = card (identity ` set store - set visited)"

lemma unseen_insert:
  assumes "store_get store r = Some i" and "identity i \<notin> set visited"
  shows "unseen store (identity i # visited) < unseen store visited"
proof -
  have mem: "identity i \<in> identity ` set store - set visited"
    using assms by (auto simp: store_get_def split: if_splits)
  have "identity ` set store - set (identity i # visited) \<subset> identity ` set store - set visited"
    using mem by auto
  then show ?thesis unfolding unseen_def by (intro psubset_card_mono) auto
qed

function (sequential)
      represent :: "object_store \<Rightarrow> serializer_hooks \<Rightarrow> (string \<times> string) list \<Rightarrow> nat \<Rightarrow> string list option \<Rightarrow> repr"
  and represent_fields :: "object_store \<Rightarrow> serializer_hooks \<Rightarrow> (string \<times> string) list \<Rightarrow> nat \<Rightarrow> string list
        \<Rightarrow> (string \<times> repr) list \<Rightarrow> (string \<times> repr) list"
  and represent_value :: "object_store \<Rightarrow> serializer_hooks \<Rightarrow> (string \<times> string) list \<Rightarrow> fval \<Rightarrow> repr"
  and represent_items :: "object_store \<Rightarrow> serializer_hooks \<Rightarrow> (string \<times> string) list \<Rightarrow> fval list \<Rightarrow> repr list"
  and represent_model :: "object_store \<Rightarrow> serializer_hooks \<Rightarrow> (string \<times> string) list \<Rightarrow> nat \<Rightarrow> repr"
where
  "represent store ser visited r flds =
     (case store_get store r of
        None \<Rightarrow> RPlain JNull
      | Some i \<Rightarrow>
          if identity i \<in> set visited then fallback i
          else (case flds of
                  None \<Rightarrow> fallback i
                | Some fs \<Rightarrow> RObj (represent_fields store ser (identity i # visited) r fs [])))"
| "represent_fields store ser visited r [] result = result"
| "represent_fields store ser visited r (f # fs) result =
     represent_fields store ser visited r fs
       (dict_set f (represent_value store ser visited (resolve_field_value store (Some ser) f (VInst r))) result)"
| "represent_value store ser visited (VPlain j) = RPlain j"
| "represent_value store ser visited (VInst s) = represent_model store ser visited s"
| "represent_value store ser visited (VList vs) = RList (represent_items store ser visited vs)"
| "represent_items store ser visited [] = []"
| "represent_items store ser visited (VInst s # vs) = represent_model store ser visited s # represent_items store ser visited vs"
| "represent_items store ser visited (VPlain j # vs) = RPlain j # represent_items store ser visited vs"
| "represent_items store ser visited (VList ws # vs) = ROpaque (VList ws) # represent_items store ser visited vs"
| "represent_model store ser visited s =
     (case store_get store s of
        None \<Rightarrow> RPlain JNull
      | Some i \<Rightarrow> if in_model i then represent store ser visited s (in_fk_fields i) else ROpaque (VInst s))"
  by pat_completeness auto
termination
  by (relation "inv_image (less_than <*lex*> less_than <*lex*> less_than)
      (\<lambda>x. case x of
         Inl (Inl (store, _, visited, _)) \<Rightarrow> (unseen store visited, 0, 0)
       | Inl (Inr (store, _, visited, _, fs, _)) \<Rightarrow> (unseen store visited, 4, length fs)
       | Inr (Inl (store, _, visited, _)) \<Rightarrow> (unseen store visited, 3, 0)
       | Inr (Inr (Inl (store, _, visited, vs))) \<Rightarrow> (unseen store visited, 2, length vs)
       | Inr (Inr (Inr (store, _, visited, _))) \<Rightarrow> (unseen store visited, 1, 0))")
    (auto intro: unseen_insert)

declare represent.simps [simp del] represent_model.simps [simp del]

text \<open>
  \<open>to_representation\<close> of the field: its own list of fields, else the one of the model.  What it is
  given is the outcome of the library's \<open>get_attribute\<close>: an object that holds the key alone, of
  a class of its own, because the field keeps the library's optimisation.
\<close>

definition to_representation :: "object_store \<Rightarrow> serializer_hooks \<Rightarrow> string list option \<Rightarrow> nat \<Rightarrow> repr" where
  "to_representation store ser representation_fields r =
     (case store_get store r of
        None \<Rightarrow> RPlain JNull
      | Some i \<Rightarrow> represent store ser [] r
          (case representation_fields of Some (f # fs) \<Rightarrow> Some (f # fs) | _ \<Rightarrow> in_fk_fields i))"

definition pk_only_object :: "string \<Rightarrow> inst" where
  "pk_only_object pk = \<lparr>in_class = ''PKOnlyObject'', in_pk = pk, in_label = pk, in_model = False, in_fk_fields = None,
     in_hooks = Map.empty, in_getters = Map.empty, in_attrs = [''pk'' \<mapsto> VPlain (JStr pk)]\<rparr>"

section \<open>Facts about representations\<close>

fun obj_depth :: "repr \<Rightarrow> nat" where
  "obj_depth (RObj kvs) = Suc (Max (insert 0 (set (map (\<lambda>kv. obj_depth (snd kv)) kvs))))"
| "obj_depth (RList rs) = Max (insert 0 (set (map obj_depth rs)))"
| "obj_depth (RPlain j) = 0"
| "obj_depth (ROpaque v) = 0"

lemma fallback_depth: "obj_depth (fallback i) = 1"
  by (simp add: fallback_def)

lemma dict_set_mem: "(k', x) \<in> set (dict_set k v d) \<Longrightarrow> x = v \<or> (k', x) \<in> set d"
  by (induction k v d rule: dict_set.induct) (auto split: if_splits)

lemma depth_bound:
  "obj_depth (represent store ser visited r flds) \<le> Suc (unseen store visited)"
  "(\<And>k x. (k, x) \<in> set result \<Longrightarrow> obj_depth x \<le> Suc (unseen store visited)) \<Longrightarrow>
     (k', x') \<in> set (represent_fields store ser visited r fs result) \<Longrightarrow> obj_depth x' \<le> Suc (unseen store visited)"
  "obj_depth (represent_value store ser visited v) \<le> Suc (unseen store visited)"
  "y \<in> set (represent_items store ser visited vs) \<Longrightarrow> obj_depth y \<le> Suc (unseen store visited)"
  "obj_depth (represent_model store ser visited s) \<le> Suc (unseen store visited)"
proof (induction store ser visited r flds and store ser visited r fs result and store ser visited v
    and store ser visited vs and store ser visited s arbitrary: and k' x' and and y and
    rule: represent_represent_fields_represent_value_represent_items_represent_model.induct)
  case (1 store ser visited r flds)
  show ?case
  proof (cases "store_get store r")
    case None
    then show ?thesis by (simp add: represent.simps)
  next
    case (Some i)
    show ?thesis
    proof (cases "identity i \<in> set visited \<or> flds = None")
      case True
      with Some have "represent store ser visited r flds = fallback i" by (auto simp: represent.simps split: option.splits)
      then show ?thesis by (simp add: fallback_depth)
    next
      case False
      then obtain fs where fs: "flds = Some fs" by auto
      with False Some have run: "represent store ser visited r flds = RObj (represent_fields store ser (identity i # visited) r fs [])"
        by (simp add: represent.simps)
      have "obj_depth x \<le> Suc (unseen store (identity i # visited))"
        if "(k, x) \<in> set (represent_fields store ser (identity i # visited) r fs [])" for k x
        using that Some False fs by (intro "1.IH" [of i fs k x]) auto
      moreover have "unseen store (identity i # visited) < unseen store visited"
        using unseen_insert [OF Some] False by simp
      ultimately have "n \<le> unseen store visited"
        if "n \<in> insert 0 (set (map (\<lambda>kv. obj_depth (snd kv)) (represent_fields store ser (identity i # visited) r fs [])))" for n
        using that by fastforce
      then show ?thesis unfolding run obj_depth.simps by (simp only: Suc_le_mono) (intro Max.boundedI, auto)
    qed
  qed
next
  case (3 store ser visited r f fs result)
  show ?case
    by (rule "3.IH"(2)) (use "3.prems" "3.IH"(1) in \<open>auto dest!: dict_set_mem\<close>)
next
  case (6 store ser visited vs)
  then show ?case by (auto intro!: Max.boundedI)
next
  case (11 store ser visited s)
  then show ?case by (auto simp: represent_model.simps split: option.splits)
qed auto

lemma pk_only_field:
  assumes "store_get store r = Some (pk_only_object pk)" and "ser f r = None" and "f \<noteq> ''pk''"
  shows "resolve_field_value store (Some ser) f (VInst r) = VPlain JNull"
proof -
  have none: "resolve_field_value store None g (VPlain j) = VPlain JNull" for g j
    by (subst resolve_field_value.simps) simp
  have step: "traversal_step (pk_only_object pk) head = (if head = ''pk'' then VPlain (JStr pk) else VPlain JNull)" for head
    by (simp add: traversal_step_def pk_only_object_def or_none_val_def)
  have hooks: "in_hooks (pk_only_object pk) f = None" "in_attrs (pk_only_object pk) f = None"
    using assms(3) by (simp_all add: pk_only_object_def)
  show ?thesis
    by (subst resolve_field_value.simps)
      (simp add: assms(1,2) hooks step none or_none_val_def split: option.splits)
qed

section \<open>Properties of the foreign key field\<close>

text \<open>A representation is finite and flat.  The representation of an instance is defined on every
  object graph, also a cyclic one, and nests no deeper than there are instances of different
  class and key; an instance that was met on the way appears as its id and label.\<close>

theorem representation_bounded:
  shows "obj_depth (represent store ser visited r flds) \<le> Suc (card (identity ` set store - set visited))
    \<and> (\<forall>i. store_get store r = Some i \<and> identity i \<in> set visited \<longrightarrow> represent store ser visited r flds = fallback i)
    \<and> (\<forall>i fs. store_get store r = Some i \<and> identity i \<notin> set visited \<and> flds = Some fs \<longrightarrow>
        represent store ser visited r flds = RObj (represent_fields store ser (identity i # visited) r fs []))"
  using depth_bound(1) [of store ser visited r flds] by (auto simp: unseen_def represent.simps)

definition cyclic_store :: object_store where
  "cyclic_store = [\<lparr>in_class = ''A'', in_pk = ''1'', in_label = ''one'', in_model = True, in_fk_fields = Some [''next''],
     in_hooks = Map.empty, in_getters = Map.empty, in_attrs = [''next'' \<mapsto> VInst 0]\<rparr>]"

lemma representation_bounded_witness:
  "represent cyclic_store (\<lambda>f r. None) [(''A'', ''1'')] 0 (Some [''next'']) = RObj [(''id'', RPlain (JStr ''1'')), (''label'', RPlain (JStr ''one''))]"
  using representation_bounded [of cyclic_store "\<lambda>f r. None" "[(''A'', ''1'')]" 0 "Some [''next'']"]
  by (simp add: cyclic_store_def store_get_def identity_def fallback_def)

text \<open>A key names only rows of the tenant.  The row a foreign key of a serializer resolves to has
  that key, passes the static filters, has the tenant of the serializer's context and, where
  the field asks for it, is not deleted; a context without the tenant raises, and with no such
  row the field's own message is the error.\<close>

theorem fk_lookup_scoped:
  assumes "context_fields = [(''tenant_id'', ''tenant_id'')]"
  shows "(fk_lookup deleted col pk ex base context_fields field msg context rows key = Inr r \<longrightarrow>
        r \<in> set rows \<and> pk r = key \<and> (\<forall>(l, v) \<in> set base. col r l = v)
      \<and> context ''tenant_id'' = Some (col r ''tenant_id'') \<and> (ex \<longrightarrow> (\<exists>d. deleted = Some d \<and> \<not> d r)))
    \<and> (context ''tenant_id'' = None \<and> \<not> ex \<longrightarrow>
        fk_lookup deleted col pk ex base context_fields field msg context rows key = Inl KeyErr)
    \<and> (context ''tenant_id'' = Some t \<and> \<not> ex \<and> (\<forall>r \<in> set rows. pk r = key \<longrightarrow> col r ''tenant_id'' \<noteq> t) \<longrightarrow>
        fk_lookup deleted col pk ex base context_fields field msg context rows key = Inl (ValidationError field msg ''invalid''))"
proof (intro conjI impI)
  assume run: "fk_lookup deleted col pk ex base context_fields field msg context rows key = Inr r"
  from fk_lookup_mem [OF run] show "r \<in> set rows" "pk r = key" "\<forall>(l, v) \<in> set base. col r l = v"
    "context ''tenant_id'' = Some (col r ''tenant_id'')" "ex \<Longrightarrow> \<exists>d. deleted = Some d \<and> \<not> d r"
    using assms by auto
next
  assume "context ''tenant_id'' = None \<and> \<not> ex"
  then show "fk_lookup deleted col pk ex base context_fields field msg context rows key = Inl KeyErr"
    by (simp add: fk_lookup_def fk_queryset_def assms)
next
  assume c: "context ''tenant_id'' = Some t \<and> \<not> ex \<and> (\<forall>r \<in> set rows. pk r = key \<longrightarrow> col r ''tenant_id'' \<noteq> t)"
  then have "fk_queryset deleted col ex base context_fields context rows = Inr (apply_filters col [(''tenant_id'', t)] (apply_filters col base rows))"
    by (simp add: fk_queryset_def assms)
  moreover have "qs_get (\<lambda>r. pk r = key) (apply_filters col [(''tenant_id'', t)] (apply_filters col base rows)) = Inl DoesNotExist"
    unfolding qs_get_DoesNotExist_iff using c by (auto simp: apply_filters_def)
  ultimately show "fk_lookup deleted col pk ex base context_fields field msg context rows key = Inl (ValidationError field msg ''invalid'')"
    by (simp add: fk_lookup_def)
qed

lemma fk_lookup_scoped_witness:
  "fk_lookup None (\<lambda>r l. JStr (snd r)) fst False [] [(''tenant_id'', ''tenant_id'')] ''team_id'' ''Team not found in this tenant.''
     [''tenant_id'' \<mapsto> JStr ''t''] [(''a'', ''other'')] ''a''
   = Inl (ValidationError ''team_id'' ''Team not found in this tenant.'' ''invalid'')"
  using fk_lookup_scoped [of "[(''tenant_id'', ''tenant_id'')]" None "\<lambda>r l. JStr (snd r)" fst False "[]" "''team_id''"
      "''Team not found in this tenant.''" "[''tenant_id'' \<mapsto> JStr ''t'']" "[(''a'', ''other'')]" "''a''" _ "JStr ''t''"] by simp

text \<open>Nested representations never reach the answer.  The field is given an object with the key
  alone: without a list of fields it shows the key as id and as label, whatever the model
  asks for, and with one (that does not name \<open>pk\<close> and has no hook on the serializer) every
  field is null.\<close>

theorem only_keys_shown:
  assumes "store_get store r = Some (pk_only_object pk)"
  shows "to_representation store ser None r = RObj [(''id'', RPlain (JStr pk)), (''label'', RPlain (JStr pk))]
    \<and> (\<forall>fs. fs \<noteq> [] \<and> distinct fs \<and> (\<forall>f \<in> set fs. f \<noteq> ''pk'' \<and> ser f r = None) \<longrightarrow>
        to_representation store ser (Some fs) r = RObj (map (\<lambda>f. (f, RPlain JNull)) fs))"
proof -
  have fields: "represent_fields store ser visited r fs acc = acc @ map (\<lambda>f. (f, RPlain JNull)) fs"
    if "distinct fs" "\<forall>f \<in> set fs. f \<noteq> ''pk'' \<and> ser f r = None" "set (keys acc) \<inter> set fs = {}" for visited fs acc
    using that
  proof (induction fs arbitrary: acc)
    case (Cons f fs)
    have "dict_set f (RPlain JNull) acc = acc @ [(f, RPlain JNull)]" using Cons.prems by (intro dict_set_fresh) auto
    moreover have "resolve_field_value store (Some ser) f (VInst r) = VPlain JNull"
      using Cons.prems by (intro pk_only_field [OF assms]) auto
    ultimately show ?case using Cons by (simp add: disjoint_iff)
  qed simp
  have "to_representation store ser (Some fs) r = RObj (map (\<lambda>f. (f, RPlain JNull)) fs)"
    if "fs \<noteq> []" "distinct fs" "\<forall>f \<in> set fs. f \<noteq> ''pk'' \<and> ser f r = None" for fs
    using that assms fields [of fs "[]"] by (cases fs) (auto simp: to_representation_def represent.simps)
  moreover have "to_representation store ser None r = fallback (pk_only_object pk)"
    using assms by (simp add: to_representation_def represent.simps pk_only_object_def)
  ultimately show ?thesis by (simp add: fallback_def pk_only_object_def)
qed

lemma only_keys_shown_witness:
  "to_representation [pk_only_object ''7''] (\<lambda>f r. None) (Some [''id'', ''user'']) 0 = RObj [(''id'', RPlain JNull), (''user'', RPlain JNull)]"
  using only_keys_shown [of "[pk_only_object ''7'']" 0 "''7''" "\<lambda>f r. None"] by (simp add: store_get_def)

end
