(* ===== verification/Directory.thy ===== *)
theory Directory
  imports Representation Login
begin

text \<open>
  Who belongs to what: the endpoints of memberships (\<open>apps/tenants/{views,serializers}.py\<close>) and
  of teams (\<open>apps/iam_teams\<close>) over one directory of rows, as steps of a transition system, with
  the invariants every sequence of requests keeps.
\<close>

section \<open>Rows\<close>

record role_row = tenant_role +
  rr_deleted_at :: "int option"

record team =
  tm_id :: string
  tm_tenant :: string
  tm_name :: string
  tm_description :: string
  tm_is_active :: bool
  tm_deleted_at :: "int option"

record team_membership =
  tmm_id :: string
  tmm_tenant :: string
  tmm_team :: string
  tmm_member :: string
  tmm_deleted_at :: "int option"

record directory =
  dr_members :: "membership list"
  dr_teams :: "team list"
  dr_team_members :: "team_membership list"

text \<open>The columns the filters of the serializers look at.\<close>

definition user_col :: "user \<Rightarrow> string \<Rightarrow> json" where
  "user_col u l = (if l = ''is_active'' then JBool (usr_is_active u) else JNull)"

definition role_col :: "'a tenant_role_scheme \<Rightarrow> string \<Rightarrow> json" where
  "role_col r l = (if l = ''tenant_id'' then JStr (role_tenant r) else JNull)"

definition member_col :: "membership \<Rightarrow> string \<Rightarrow> json" where
  "member_col m l =
     (if l = ''tenant_id'' then JStr (mb_tenant m)
      else if l = ''user_id'' then JStr (mb_user m)
      else if l = ''is_active'' then JBool (mb_is_active m) else JNull)"

definition team_col :: "team \<Rightarrow> string \<Rightarrow> json" where
  "team_col t l =
     (if l = ''tenant_id'' then JStr (tm_tenant t)
      else if l = ''name'' then JStr (tm_name t) else JNull)"

definition team_member_col :: "team_membership \<Rightarrow> string \<Rightarrow> json" where
  "team_member_col x l =
     (if l = ''tenant_id'' then JStr (tmm_tenant x)
      else if l = ''team_id'' then JStr (tmm_team x)
      else if l = ''membership_id'' then JStr (tmm_member x) else JNull)"

section \<open>Serializer contexts\<close>

text \<open>
  The plugin puts the tenant of the token into the context; \<open>get_serializer_context\<close> of the two
  membership viewsets insists on it for a create.
\<close>

definition plugin_context :: "request \<Rightarrow> string \<rightharpoonup> json" where
  "plugin_context rq = map_option JStr \<circ> plugin_on_build_context (Some rq) Map.empty"

definition get_serializer_context :: "string \<Rightarrow> request \<Rightarrow> (string \<rightharpoonup> json) res" where
  "get_serializer_context action rq =
     (if action = ''create''
      then (case tenant_of rq of
              None \<Rightarrow> Inl (PermissionDenied ''No tenant context in token.'' ''permission_denied'')
            | Some t \<Rightarrow> Inr ((plugin_context rq)(''tenant_id'' \<mapsto> JStr t)))
      else Inr (plugin_context rq))"

definition required_key :: "string \<Rightarrow> string option \<Rightarrow> string res" where
  "required_key field k =
     (case k of None \<Rightarrow> Inl (ValidationError field ''This field is required.'' ''required'') | Some x \<Rightarrow> Inr x)"

section \<open>Memberships\<close>

text \<open>
  \<open>MembershipCreateSerializer\<close>: the fields in their order (the library collects the errors of
  all fields, the first is given here), then the uniqueness validator over the rows of the
  scoped manager.
\<close>

record member_data =
  md_user :: "string option"
  md_role :: "string option"
  md_is_admin :: "bool option"

definition validate_new_member ::
  "ctx \<Rightarrow> (string \<rightharpoonup> json) \<Rightarrow> user list \<Rightarrow> role_row list \<Rightarrow> membership list \<Rightarrow> member_data
    \<Rightarrow> (user \<times> role_row) res" where
  "validate_new_member c context users roles mbs d =
     bind_res (required_key ''user_id'' (md_user d)) (\<lambda>uk.
     bind_res (fk_lookup None user_col usr_id False [(''is_active'', JBool True)] []
         ''user_id'' ''User not found or inactive.'' context users uk) (\<lambda>u.
     bind_res (required_key ''role_id'' (md_role d)) (\<lambda>rk.
     bind_res (fk_lookup (Some (\<lambda>r. rr_deleted_at r \<noteq> None)) role_col role_id True [] [(''tenant_id'', ''tenant_id'')]
         ''role_id'' ''Role not found in this tenant.'' context roles rk) (\<lambda>r.
     bind_res (unique_together [(''user_id'', ''user_id'')] [(''tenant_id'', ''tenant_id'')]
         ''User is already a member of this tenant.'' mb_id member_col context None
         (manager_queryset mb_tenant c mbs) [(''user_id'', JStr (usr_id u))]) (\<lambda>_. Inr (u, r))))))"

text \<open>The constraint \<open>unique_user_tenant\<close> of the table.\<close>

definition insert_member :: "membership \<Rightarrow> membership list \<Rightarrow> membership list res" where
  "insert_member m mbs =
     bind_res (guard (\<forall>x \<in> set mbs. \<not> (mb_user x = mb_user m \<and> mb_tenant x = mb_tenant m)) IntegrityErr)
       (\<lambda>_. Inr (mbs @ [m]))"

text \<open>\<open>pk\<close> is the key of the new row, \<open>now\<close> its \<open>joined_at\<close>; the row is active by default.\<close>

definition membership_create ::
  "ctx \<Rightarrow> request \<Rightarrow> string \<Rightarrow> int \<Rightarrow> user list \<Rightarrow> role_row list \<Rightarrow> member_data \<Rightarrow> directory \<Rightarrow> directory res" where
  "membership_create c rq pk now users roles d dir =
     bind_res (check_permissions (membership_permissions ''create'') c (dr_members dir) rq) (\<lambda>_.
     bind_res (get_serializer_context ''create'' rq) (\<lambda>context.
     bind_res (validate_new_member c context users roles (dr_members dir) d) (\<lambda>(u, r).
     bind_res (insert_member \<lparr>mb_id = pk, mb_user = usr_id u, mb_tenant = or_empty (tenant_of rq), mb_role = role_id r,
                 mb_is_admin = (md_is_admin d = Some True), mb_is_active = True, mb_joined_at = now\<rparr> (dr_members dir))
       (\<lambda>mbs. Inr (dir\<lparr>dr_members := mbs\<rparr>)))))"

text \<open>
  An update goes through \<open>MembershipListSerializer\<close>, whose user and role are read-only and whose
  key and \<open>joined_at\<close> the library makes read-only: the two flags are what a request can set.
\<close>

definition membership_update ::
  "ctx \<Rightarrow> request \<Rightarrow> string \<Rightarrow> bool option \<Rightarrow> bool option \<Rightarrow> directory \<Rightarrow> directory res" where
  "membership_update c rq pk is_admin is_active dir =
     bind_res (check_permissions (membership_permissions ''partial_update'') c (dr_members dir) rq) (\<lambda>_.
     bind_res (membership_get_object rq pk (dr_members dir)) (\<lambda>m.
       Inr (dir\<lparr>dr_members := save_row (\<lambda>x. mb_id x = mb_id m)
          (\<lambda>_. m\<lparr>mb_is_admin := (case is_admin of None \<Rightarrow> mb_is_admin m | Some b \<Rightarrow> b),
                  mb_is_active := (case is_active of None \<Rightarrow> mb_is_active m | Some b \<Rightarrow> b)\<rparr>) (dr_members dir)\<rparr>)))"

text \<open>The row is deleted, and with it the team memberships that refer to it.\<close>

definition membership_destroy :: "ctx \<Rightarrow> request \<Rightarrow> string \<Rightarrow> directory \<Rightarrow> directory res" where
  "membership_destroy c rq pk dir =
     bind_res (check_permissions (membership_permissions ''destroy'') c (dr_members dir) rq) (\<lambda>_.
     bind_res (membership_get_object rq pk (dr_members dir)) (\<lambda>m.
       Inr (dir\<lparr>dr_members := filter (\<lambda>x. mb_id x \<noteq> mb_id m) (dr_members dir),
                dr_team_members := filter (\<lambda>x. tmm_member x \<noteq> mb_id m) (dr_team_members dir)\<rparr>)))"

section \<open>Teams\<close>

definition team_permissions :: "string \<Rightarrow> permission list" where
  "team_permissions action = get_permissions (Some [PIsSuperUser]) [PIsAuthenticated] action"

text \<open>What lets a user see deleted rows: an administrator's membership in any tenant of the scope.\<close>

definition admin_somewhere :: "ctx \<Rightarrow> request \<Rightarrow> membership list \<Rightarrow> bool" where
  "admin_somewhere c rq mbs =
     (case rq_user rq of
        None \<Rightarrow> False
      | Some u \<Rightarrow> qs_exists (\<lambda>m. mb_is_active m \<and> mb_is_admin m) (user_memberships c u mbs))"

definition team_get_object :: "ctx \<Rightarrow> request \<Rightarrow> string \<Rightarrow> directory \<Rightarrow> team res" where
  "team_get_object c rq pk dir =
     bind_res (list_rows None True (Some tm_tenant) [] Map.empty (admin_somewhere c rq (dr_members dir))
         (Some (\<lambda>t. tm_deleted_at t \<noteq> None)) rq (dr_teams dir)) (\<lambda>rows.
       case qs_get (\<lambda>t. tm_id t = pk) rows of Inl _ \<Rightarrow> Inl NotFound | Inr t \<Rightarrow> Inr t)"

definition name_field :: "string option \<Rightarrow> string res" where
  "name_field v = bind_res (trimmed_field ''name'' v) (\<lambda>s.
     if 255 < length s
     then Inl (ValidationError ''name'' ''Ensure this field has no more than 255 characters.'' ''max_length'')
     else Inr s)"

definition team_unique :: "ctx \<Rightarrow> request \<Rightarrow> team option \<Rightarrow> team list \<Rightarrow> attrs \<Rightarrow> unit res" where
  "team_unique c rq i teams d =
     unique_together [(''name'', ''name'')] [(''tenant_id'', ''tenant_id'')]
       ''A team with this name already exists in this tenant.'' tm_id team_col (plugin_context rq) i
       (manager_queryset tm_tenant c teams) d"

record team_data =
  td_name :: "string option"
  td_description :: "string option"
  td_is_active :: "bool option"

definition tenant_injected :: "request \<Rightarrow> string res" where
  "tenant_injected rq =
     (case tenant_of rq of
        None \<Rightarrow> Inl (PermissionDenied ''No tenant context in token.'' ''permission_denied'')
      | Some t \<Rightarrow> Inr t)"

definition team_create :: "ctx \<Rightarrow> request \<Rightarrow> string \<Rightarrow> team_data \<Rightarrow> directory \<Rightarrow> directory res" where
  "team_create c rq pk d dir =
     bind_res (check_permissions (team_permissions ''create'') c (dr_members dir) rq) (\<lambda>_.
     bind_res (name_field (td_name d)) (\<lambda>name.
     bind_res (team_unique c rq None (dr_teams dir) [(''name'', JStr name)]) (\<lambda>_.
     bind_res (tenant_injected rq) (\<lambda>t.
     bind_res (guard (\<forall>x \<in> set (dr_teams dir). \<not> (tm_tenant x = t \<and> tm_name x = name)) IntegrityErr) (\<lambda>_.
       Inr (dir\<lparr>dr_teams := dr_teams dir @ [\<lparr>tm_id = pk, tm_tenant = t, tm_name = name,
          tm_description = strip (or_empty (td_description d)), tm_is_active = (td_is_active d \<noteq> Some False),
          tm_deleted_at = None\<rparr>]\<rparr>))))))"

definition team_update :: "ctx \<Rightarrow> request \<Rightarrow> string \<Rightarrow> team_data \<Rightarrow> directory \<Rightarrow> directory res" where
  "team_update c rq pk d dir =
     bind_res (check_permissions (team_permissions ''partial_update'') c (dr_members dir) rq) (\<lambda>_.
     bind_res (team_get_object c rq pk dir) (\<lambda>i.
     bind_res (case td_name d of None \<Rightarrow> Inr (tm_name i) | Some n \<Rightarrow> name_field (Some n)) (\<lambda>name.
     bind_res (team_unique c rq (Some i) (dr_teams dir)
         (case td_name d of None \<Rightarrow> [] | Some _ \<Rightarrow> [(''name'', JStr name)])) (\<lambda>_.
     bind_res (guard (\<forall>x \<in> set (dr_teams dir). tm_id x \<noteq> tm_id i \<longrightarrow> \<not> (tm_tenant x = tm_tenant i \<and> tm_name x = name))
         IntegrityErr) (\<lambda>_.
       Inr (dir\<lparr>dr_teams := save_row (\<lambda>x. tm_id x = tm_id i)
         (\<lambda>_. i\<lparr>tm_name := name,
             tm_description := (case td_description d of None \<Rightarrow> tm_description i | Some s \<Rightarrow> strip s),
             tm_is_active := (case td_is_active d of None \<Rightarrow> tm_is_active i | Some b \<Rightarrow> b)\<rparr>) (dr_teams dir)\<rparr>))))))"

text \<open>\<open>delete\<close> of a \<open>BaseModel\<close> is the soft deletion; nothing happens to the memberships of the team.\<close>

definition team_destroy :: "ctx \<Rightarrow> request \<Rightarrow> string \<Rightarrow> int \<Rightarrow> directory \<Rightarrow> directory res" where
  "team_destroy c rq pk now dir =
     bind_res (check_permissions (team_permissions ''destroy'') c (dr_members dir) rq) (\<lambda>_.
     bind_res (team_get_object c rq pk dir) (\<lambda>i.
       Inr (dir\<lparr>dr_teams := save_row (\<lambda>x. tm_id x = tm_id i) (\<lambda>_. i\<lparr>tm_deleted_at := Some now\<rparr>) (dr_teams dir)\<rparr>)))"

section \<open>Members of teams\<close>

definition validate_team_member ::
  "ctx \<Rightarrow> (string \<rightharpoonup> json) \<Rightarrow> directory \<Rightarrow> string option \<Rightarrow> string option \<Rightarrow> (team \<times> membership) res" where
  "validate_team_member c context dir team_key member_key =
     bind_res (required_key ''team_id'' team_key) (\<lambda>tk.
     bind_res (fk_lookup (Some (\<lambda>t. tm_deleted_at t \<noteq> None)) team_col tm_id True [] [(''tenant_id'', ''tenant_id'')]
         ''team_id'' ''Team not found in this tenant.'' context (dr_teams dir) tk) (\<lambda>t.
     bind_res (required_key ''membership_id'' member_key) (\<lambda>mk.
     bind_res (fk_lookup None member_col mb_id False [(''is_active'', JBool True)] [(''tenant_id'', ''tenant_id'')]
         ''membership_id'' ''Membership not found or inactive in this tenant.'' context (dr_members dir) mk) (\<lambda>m.
     bind_res (unique_together [(''team_id'', ''team_id''), (''membership_id'', ''membership_id'')]
         [(''tenant_id'', ''tenant_id'')] ''This member is already in the team.'' tmm_id team_member_col context None
         (manager_queryset tmm_tenant c (dr_team_members dir))
         [(''team_id'', JStr (tm_id t)), (''membership_id'', JStr (mb_id m))]) (\<lambda>_. Inr (t, m))))))"

definition team_member_create ::
  "ctx \<Rightarrow> request \<Rightarrow> string \<Rightarrow> string option \<Rightarrow> string option \<Rightarrow> directory \<Rightarrow> directory res" where
  "team_member_create c rq pk team_key member_key dir =
     bind_res (check_permissions (team_permissions ''create'') c (dr_members dir) rq) (\<lambda>_.
     bind_res (get_serializer_context ''create'' rq) (\<lambda>context.
     bind_res (validate_team_member c context dir team_key member_key) (\<lambda>(t, m).
     bind_res (guard (\<forall>x \<in> set (dr_team_members dir). \<not> (tmm_team x = tm_id t \<and> tmm_member x = mb_id m)) IntegrityErr) (\<lambda>_.
       Inr (dir\<lparr>dr_team_members := dr_team_members dir @ [\<lparr>tmm_id = pk, tmm_tenant = or_empty (tenant_of rq),
          tmm_team = tm_id t, tmm_member = mb_id m, tmm_deleted_at = None\<rparr>]\<rparr>)))))"

definition team_member_destroy :: "ctx \<Rightarrow> request \<Rightarrow> string \<Rightarrow> directory \<Rightarrow> directory res" where
  "team_member_destroy c rq pk dir =
     bind_res (check_permissions (team_permissions ''destroy'') c (dr_members dir) rq) (\<lambda>_.
     bind_res (list_rows None True (Some tmm_tenant) [] Map.empty (admin_somewhere c rq (dr_members dir))
         (Some (\<lambda>x. tmm_deleted_at x \<noteq> None)) rq (dr_team_members dir)) (\<lambda>rows.
       case qs_get (\<lambda>x. tmm_id x = pk) rows of
         Inl _ \<Rightarrow> Inl NotFound
       | Inr x \<Rightarrow> Inr (dir\<lparr>dr_team_members := filter (\<lambda>y. tmm_id y \<noteq> tmm_id x) (dr_team_members dir)\<rparr>)))"

section \<open>The directory as a transition system\<close>

text \<open>One step is one request that succeeds; a new row has a key no row of its table has.\<close>

inductive directory_step :: "directory \<Rightarrow> directory \<Rightarrow> bool" where
  invite: "\<lbrakk>membership_create c rq pk now users roles d dir = Inr dir'; pk \<notin> mb_id ` set (dr_members dir)\<rbrakk>
    \<Longrightarrow> directory_step dir dir'"
| change_member: "membership_update c rq pk adm act dir = Inr dir' \<Longrightarrow> directory_step dir dir'"
| deactivate_member: "deactivate c rq pk (dr_members dir) = Inr mbs \<Longrightarrow> directory_step dir (dir\<lparr>dr_members := mbs\<rparr>)"
| activate_member: "activate c rq pk (dr_members dir) = Inr mbs \<Longrightarrow> directory_step dir (dir\<lparr>dr_members := mbs\<rparr>)"
| remove_member: "membership_destroy c rq pk dir = Inr dir' \<Longrightarrow> directory_step dir dir'"
| new_team: "\<lbrakk>team_create c rq pk d dir = Inr dir'; pk \<notin> tm_id ` set (dr_teams dir)\<rbrakk> \<Longrightarrow> directory_step dir dir'"
| change_team: "team_update c rq pk d dir = Inr dir' \<Longrightarrow> directory_step dir dir'"
| delete_team: "team_destroy c rq pk now dir = Inr dir' \<Longrightarrow> directory_step dir dir'"
| join_team: "team_member_create c rq pk tk mk dir = Inr dir' \<Longrightarrow> directory_step dir dir'"
| leave_team: "team_member_destroy c rq pk dir = Inr dir' \<Longrightarrow> directory_step dir dir'"

text \<open>
  Keys and the pairs of user and tenant are distinct, team names are distinct in a tenant, and
  whoever is in a team is a member of the tenant of the team.
\<close>

definition team_member_ok :: "membership list \<Rightarrow> team list \<Rightarrow> team_membership \<Rightarrow> bool" where
  "team_member_ok mbs teams x =
     ((\<exists>t \<in> set teams. tm_id t = tmm_team x \<and> tm_tenant t = tmm_tenant x)
    \<and> (\<exists>m \<in> set mbs. mb_id m = tmm_member x \<and> mb_tenant m = tmm_tenant x))"

definition directory_ok :: "directory \<Rightarrow> bool" where
  "directory_ok dir =
     (distinct (map mb_id (dr_members dir)) \<and> distinct (map (\<lambda>m. (mb_user m, mb_tenant m)) (dr_members dir))
    \<and> distinct (map tm_id (dr_teams dir)) \<and> distinct (map (\<lambda>t. (tm_tenant t, tm_name t)) (dr_teams dir))
    \<and> distinct (map (\<lambda>x. (tmm_team x, tmm_member x)) (dr_team_members dir))
    \<and> list_all (team_member_ok (dr_members dir) (dr_teams dir)) (dr_team_members dir))"

section \<open>Facts about the rows a request reaches\<close>

lemma list_rows_own:
  assumes "list_rows ic True (Some f) ls kw adm del rq rows = Inr qs" and "r \<in> set qs"
  shows "r \<in> set rows" and "tenant_of rq = Some (f r)"
proof -
  obtain q where q: "viewset_get_queryset ic (Some f) ls kw rq rows = Inr q"
    and qs: "qs = backend_filter_queryset True (Some f) rq (soft_delete_filter adm del rq q)"
    using assms(1) by (auto simp: list_rows_def split: sum.splits)
  from assms(2) qs have "r \<in> set (soft_delete_filter adm del rq q)" and t: "tenant_of rq = Some (f r)"
    by (auto simp: backend_filter_queryset_def split: option.splits)
  then show "r \<in> set rows" using soft_delete_subset [of adm del rq q] viewset_get_queryset_subset [OF q] by blast
  show "tenant_of rq = Some (f r)" by (rule t)
qed

lemma membership_get_object_own:
  assumes "membership_get_object rq pk mbs = Inr m"
  shows "m \<in> set mbs" and "mb_id m = pk" and "tenant_of rq = Some (mb_tenant m)"
proof -
  obtain rows where rows: "list_rows None True (Some mb_tenant) [] Map.empty False None rq mbs = Inr rows"
    and get: "qs_get (\<lambda>m. mb_id m = pk) rows = Inr m"
    using assms by (auto simp: membership_get_object_def split: sum.splits)
  from qs_get_Inr_D [OF get] show "mb_id m = pk" by simp
  from list_rows_own [OF rows qs_get_Inr_D(1) [OF get]] show "m \<in> set mbs" "tenant_of rq = Some (mb_tenant m)" by auto
qed

lemma team_get_object_own:
  assumes "team_get_object c rq pk dir = Inr t"
  shows "t \<in> set (dr_teams dir)" and "tm_id t = pk" and "tenant_of rq = Some (tm_tenant t)"
proof -
  obtain rows where rows: "list_rows None True (Some tm_tenant) [] Map.empty (admin_somewhere c rq (dr_members dir))
         (Some (\<lambda>t. tm_deleted_at t \<noteq> None)) rq (dr_teams dir) = Inr rows"
    and sel: "(case qs_get (\<lambda>t. tm_id t = pk) rows of Inl _ \<Rightarrow> Inl NotFound | Inr t \<Rightarrow> Inr t) = Inr t"
    using assms unfolding team_get_object_def bind_res_Inr_iff by blast
  from sel have get: "qs_get (\<lambda>t. tm_id t = pk) rows = Inr t" by (cases "qs_get (\<lambda>t. tm_id t = pk) rows") auto
  from qs_get_Inr_D [OF get] show "tm_id t = pk" by simp
  from list_rows_own [OF rows qs_get_Inr_D(1) [OF get]]
  show "t \<in> set (dr_teams dir)" "tenant_of rq = Some (tm_tenant t)" by auto
qed

lemma context_tenant:
  assumes "get_serializer_context ''create'' rq = Inr context"
  obtains t where "tenant_of rq = Some t" and "context ''tenant_id'' = Some (JStr t)"
  using assms by (auto simp: get_serializer_context_def split: option.splits)

lemma admin_of_check:
  assumes "check_permissions (membership_permissions a) c mbs rq = Inr x" and "a \<in> set get_write_actions"
  shows "is_tenant_admin c mbs rq"
  using assms by (auto simp: check_permissions_def membership_permissions_def get_permissions_def permits_def guard_def
      split: if_splits)

lemma membership_create_D:
  assumes "membership_create c rq pk now users roles d dir = Inr dir'"
  obtains t u r where "is_tenant_admin c (dr_members dir) rq" "tenant_of rq = Some t" "u \<in> set users" "usr_is_active u"
    "md_user d = Some (usr_id u)" "r \<in> set roles" "role_tenant r = t" "rr_deleted_at r = None" "md_role d = Some (role_id r)"
    "\<forall>x \<in> set (dr_members dir). \<not> (mb_user x = usr_id u \<and> mb_tenant x = t)"
    "dir' = dir\<lparr>dr_members := dr_members dir @ [\<lparr>mb_id = pk, mb_user = usr_id u, mb_tenant = t, mb_role = role_id r,
        mb_is_admin = (md_is_admin d = Some True), mb_is_active = True, mb_joined_at = now\<rparr>]\<rparr>"
proof -
  obtain cx u r where chk: "check_permissions (membership_permissions ''create'') c (dr_members dir) rq = Inr ()"
    and con: "get_serializer_context ''create'' rq = Inr cx"
    and val: "validate_new_member c cx users roles (dr_members dir) d = Inr (u, r)"
    and ins: "\<forall>x \<in> set (dr_members dir). \<not> (mb_user x = usr_id u \<and> mb_tenant x = or_empty (tenant_of rq))"
    and dir': "dir' = dir\<lparr>dr_members := dr_members dir @ [\<lparr>mb_id = pk, mb_user = usr_id u, mb_tenant = or_empty (tenant_of rq),
        mb_role = role_id r, mb_is_admin = (md_is_admin d = Some True), mb_is_active = True, mb_joined_at = now\<rparr>]\<rparr>"
    using assms by (auto simp: membership_create_def insert_member_def res_simps)
  obtain t where t: "tenant_of rq = Some t" "cx ''tenant_id'' = Some (JStr t)" using con by (rule context_tenant)
  from val have u: "fk_lookup None user_col usr_id False [(''is_active'', JBool True)] []
         ''user_id'' ''User not found or inactive.'' cx users (the (md_user d)) = Inr u" "md_user d \<noteq> None"
    and r: "fk_lookup (Some (\<lambda>r. rr_deleted_at r \<noteq> None)) role_col role_id True [] [(''tenant_id'', ''tenant_id'')]
         ''role_id'' ''Role not found in this tenant.'' cx roles (the (md_role d)) = Inr r" "md_role d \<noteq> None"
    by (auto simp: validate_new_member_def required_key_def bind_res_Inr_iff split: option.splits)
  show thesis
    by (rule that [of t u r])
      (use t ins dir' chk fk_lookup_mem [OF u(1)] fk_lookup_mem [OF r(1)] u(2) r(2)
       in \<open>auto simp: user_col_def role_col_def get_write_actions_def intro: admin_of_check\<close>)
qed

lemma team_member_create_D:
  assumes "team_member_create c rq pk tk mk dir = Inr dir'"
  obtains t m where "t \<in> set (dr_teams dir)" "tm_deleted_at t = None" "m \<in> set (dr_members dir)" "mb_is_active m"
    "tenant_of rq = Some (tm_tenant t)" "mb_tenant m = tm_tenant t"
    "\<forall>x \<in> set (dr_team_members dir). \<not> (tmm_team x = tm_id t \<and> tmm_member x = mb_id m)"
    "dir' = dir\<lparr>dr_team_members := dr_team_members dir @ [\<lparr>tmm_id = pk, tmm_tenant = tm_tenant t,
          tmm_team = tm_id t, tmm_member = mb_id m, tmm_deleted_at = None\<rparr>]\<rparr>"
proof -
  obtain cx t m where con: "get_serializer_context ''create'' rq = Inr cx"
    and val: "validate_team_member c cx dir tk mk = Inr (t, m)"
    and ins: "\<forall>x \<in> set (dr_team_members dir). \<not> (tmm_team x = tm_id t \<and> tmm_member x = mb_id m)"
    and dir': "dir' = dir\<lparr>dr_team_members := dr_team_members dir @ [\<lparr>tmm_id = pk, tmm_tenant = or_empty (tenant_of rq),
          tmm_team = tm_id t, tmm_member = mb_id m, tmm_deleted_at = None\<rparr>]\<rparr>"
    using assms by (auto simp: team_member_create_def res_simps)
  obtain a where a: "tenant_of rq = Some a" "cx ''tenant_id'' = Some (JStr a)" using con by (rule context_tenant)
  from val have t: "fk_lookup (Some (\<lambda>t. tm_deleted_at t \<noteq> None)) team_col tm_id True [] [(''tenant_id'', ''tenant_id'')]
         ''team_id'' ''Team not found in this tenant.'' cx (dr_teams dir) (the tk) = Inr t"
    and m: "fk_lookup None member_col mb_id False [(''is_active'', JBool True)] [(''tenant_id'', ''tenant_id'')]
         ''membership_id'' ''Membership not found or inactive in this tenant.'' cx (dr_members dir) (the mk) = Inr m"
    by (auto simp: validate_team_member_def required_key_def bind_res_Inr_iff split: option.splits)
  show thesis
    by (rule that [of t m])
      (use a ins dir' fk_lookup_mem [OF t] fk_lookup_mem [OF m] in \<open>auto simp: team_col_def member_col_def\<close>)
qed

lemma team_member_destroy_D:
  assumes "team_member_destroy c rq pk dir = Inr dir'"
  obtains x where "x \<in> set (dr_team_members dir)" "tmm_id x = pk" "tenant_of rq = Some (tmm_tenant x)"
    "dir' = dir\<lparr>dr_team_members := filter (\<lambda>y. tmm_id y \<noteq> pk) (dr_team_members dir)\<rparr>"
proof -
  obtain rows where rows: "list_rows None True (Some tmm_tenant) [] Map.empty (admin_somewhere c rq (dr_members dir))
         (Some (\<lambda>x. tmm_deleted_at x \<noteq> None)) rq (dr_team_members dir) = Inr rows"
    and sel: "(case qs_get (\<lambda>x. tmm_id x = pk) rows of Inl _ \<Rightarrow> Inl NotFound
       | Inr x \<Rightarrow> Inr (dir\<lparr>dr_team_members := filter (\<lambda>y. tmm_id y \<noteq> tmm_id x) (dr_team_members dir)\<rparr>)) = Inr dir'"
    using assms unfolding team_member_destroy_def bind_res_Inr_iff by blast
  from sel obtain x where get: "qs_get (\<lambda>x. tmm_id x = pk) rows = Inr x"
    and dir': "dir' = dir\<lparr>dr_team_members := filter (\<lambda>y. tmm_id y \<noteq> tmm_id x) (dr_team_members dir)\<rparr>"
    by (cases "qs_get (\<lambda>x. tmm_id x = pk) rows") auto
  from qs_get_Inr_D(2) [OF get] dir' list_rows_own [OF rows qs_get_Inr_D(1) [OF get]] show thesis by (intro that) auto
qed

section \<open>The invariant of the directory\<close>

lemma the_row:
  assumes "distinct (map k rows)" and "i \<in> set rows" and "x \<in> set rows" and "k x = k i"
  shows "x = i"
  using assms by (auto simp: distinct_map inj_on_def)

lemma map_save_const:
  assumes "distinct (map k rows)" and "i \<in> set rows" and "f new = f i"
  shows "map f (save_row (\<lambda>x. k x = k i) (\<lambda>_. new) rows) = map f rows"
  using the_row [OF assms(1,2)] assms(3) by (auto simp: save_row_def)

lemma distinct_save_const:
  assumes "distinct (map k rows)" and "distinct (map f rows)" and "i \<in> set rows"
    and "\<And>x. x \<in> set rows \<Longrightarrow> k x \<noteq> k i \<Longrightarrow> f x \<noteq> f new"
  shows "distinct (map f (save_row (\<lambda>x. k x = k i) (\<lambda>_. new) rows))"
proof -
  have "map f (save_row (\<lambda>x. k x = k i) (\<lambda>_. new) rows) = map (\<lambda>x. if k x = k i then f new else f x) rows"
    by (auto simp: save_row_def)
  moreover have "inj_on (\<lambda>x. if k x = k i then f new else f x) (set rows)"
  proof (rule inj_onI)
    fix x y
    assume x: "x \<in> set rows" and y: "y \<in> set rows" and eq: "(if k x = k i then f new else f x) = (if k y = k i then f new else f y)"
    have f: "f x = f y \<Longrightarrow> x = y" using assms(2) x y by (auto simp: distinct_map inj_on_def)
    show "x = y"
      using the_row [OF assms(1,3) x] the_row [OF assms(1,3) y] assms(4) [OF x] assms(4) [OF y] eq f
      by (cases "k x = k i"; cases "k y = k i") auto
  qed
  ultimately show ?thesis using assms(1) by (simp add: distinct_map)
qed

lemma team_member_ok_pairs:
  "team_member_ok mbs teams x \<longleftrightarrow>
     (tmm_team x, tmm_tenant x) \<in> (\<lambda>t. (tm_id t, tm_tenant t)) ` set teams
   \<and> (tmm_member x, tmm_tenant x) \<in> (\<lambda>m. (mb_id m, mb_tenant m)) ` set mbs"
  unfolding team_member_ok_def by (auto intro: rev_image_eqI)

lemma team_members_kept:
  assumes "(\<lambda>t. (tm_id t, tm_tenant t)) ` set teams' = (\<lambda>t. (tm_id t, tm_tenant t)) ` set teams"
    and "(\<lambda>m. (mb_id m, mb_tenant m)) ` set mbs' = (\<lambda>m. (mb_id m, mb_tenant m)) ` set mbs"
  shows "team_member_ok mbs' teams' = team_member_ok mbs teams"
  by (rule ext) (simp only: team_member_ok_pairs assms)

lemma members_kept:
  assumes "directory_ok dir" and "map (\<lambda>m. (mb_id m, mb_user m, mb_tenant m)) mbs =
      map (\<lambda>m. (mb_id m, mb_user m, mb_tenant m)) (dr_members dir)"
  shows "directory_ok (dir\<lparr>dr_members := mbs\<rparr>)"
proof -
  have ids: "map mb_id mbs = map mb_id (dr_members dir)" using arg_cong [OF assms(2), of "map fst"] by (simp add: comp_def)
  have pairs: "map (\<lambda>m. (mb_user m, mb_tenant m)) mbs = map (\<lambda>m. (mb_user m, mb_tenant m)) (dr_members dir)"
    using arg_cong [OF assms(2), of "map snd"] by (simp add: comp_def)
  have "map (\<lambda>m. (mb_id m, mb_tenant m)) mbs = map (\<lambda>m. (mb_id m, mb_tenant m)) (dr_members dir)"
    using arg_cong [OF assms(2), of "map (\<lambda>(a, b, c). (a, c))"] by (simp add: comp_def)
  from arg_cong [OF this, of set]
  have ok: "team_member_ok mbs (dr_teams dir) = team_member_ok (dr_members dir) (dr_teams dir)"
    by (intro team_members_kept) auto
  show ?thesis using assms(1) unfolding directory_ok_def by (simp add: ids pairs ok)
qed

lemma set_active_keys:
  "map (\<lambda>m. (mb_id m, mb_user m, mb_tenant m)) (set_active b pk mbs) = map (\<lambda>m. (mb_id m, mb_user m, mb_tenant m)) mbs"
  by (simp add: set_active_def map_save_row)

lemma transition_keys:
  "deactivate c rq pk mbs = Inr mbs' \<Longrightarrow> \<exists>b i. mbs' = set_active b i mbs"
  "activate c rq pk mbs = Inr mbs' \<Longrightarrow> \<exists>b i. mbs' = set_active b i mbs"
  by (auto simp: deactivate_def activate_def split: sum.splits if_splits)

lemma teams_kept:
  assumes "directory_ok dir" and "i \<in> set (dr_teams dir)" and "tm_id new = tm_id i" and "tm_tenant new = tm_tenant i"
    and "\<And>x. x \<in> set (dr_teams dir) \<Longrightarrow> tm_id x \<noteq> tm_id i \<Longrightarrow> (tm_tenant x, tm_name x) \<noteq> (tm_tenant new, tm_name new)"
  shows "directory_ok (dir\<lparr>dr_teams := save_row (\<lambda>x. tm_id x = tm_id i) (\<lambda>_. new) (dr_teams dir)\<rparr>)"
proof -
  have d: "distinct (map tm_id (dr_teams dir))" using assms(1) by (simp add: directory_ok_def)
  have ids: "map tm_id (save_row (\<lambda>x. tm_id x = tm_id i) (\<lambda>_. new) (dr_teams dir)) = map tm_id (dr_teams dir)"
    using d assms by (intro map_save_const) auto
  have "map (\<lambda>t. (tm_id t, tm_tenant t)) (save_row (\<lambda>x. tm_id x = tm_id i) (\<lambda>_. new) (dr_teams dir))
      = map (\<lambda>t. (tm_id t, tm_tenant t)) (dr_teams dir)"
    using d assms by (intro map_save_const) auto
  from arg_cong [OF this, of set]
  have ok: "team_member_ok (dr_members dir) (save_row (\<lambda>x. tm_id x = tm_id i) (\<lambda>_. new) (dr_teams dir))
      = team_member_ok (dr_members dir) (dr_teams dir)"
    by (intro team_members_kept) (simp_all only: set_map)
  have names: "distinct (map (\<lambda>t. (tm_tenant t, tm_name t)) (save_row (\<lambda>x. tm_id x = tm_id i) (\<lambda>_. new) (dr_teams dir)))"
    using assms d by (intro distinct_save_const) (auto simp: directory_ok_def)
  show ?thesis using assms(1) names unfolding directory_ok_def by (simp add: ids ok)
qed

lemma distinct_map_filter_rows: "distinct (map f rows) \<Longrightarrow> distinct (map f (filter P rows))"
  by (rule distinct_map_filter)

lemma directory_step_ok:
  assumes "directory_step dir dir'" and "directory_ok dir"
  shows "directory_ok dir'"
  using assms
proof (cases rule: directory_step.cases)
  case (invite c rq pk now users roles d)
  then show ?thesis using assms(2)
    by (elim membership_create_D) (auto simp: directory_ok_def team_member_ok_def list_all_iff)
next
  case (change_member c rq pk adm act)
  then obtain m where m: "membership_get_object rq pk (dr_members dir) = Inr m"
    and dir': "dir' = dir\<lparr>dr_members := save_row (\<lambda>x. mb_id x = mb_id m)
          (\<lambda>_. m\<lparr>mb_is_admin := (case adm of None \<Rightarrow> mb_is_admin m | Some b \<Rightarrow> b),
                  mb_is_active := (case act of None \<Rightarrow> mb_is_active m | Some b \<Rightarrow> b)\<rparr>) (dr_members dir)\<rparr>"
    by (auto simp: membership_update_def bind_res_Inr_iff)
  show ?thesis unfolding dir'
    using assms(2) membership_get_object_own [OF m] by (intro members_kept map_save_const) (auto simp: directory_ok_def)
next
  case (deactivate_member c rq pk mbs)
  then obtain b i where "mbs = set_active b i (dr_members dir)" using transition_keys(1) by blast
  with deactivate_member show ?thesis using members_kept [OF assms(2) set_active_keys] by simp
next
  case (activate_member c rq pk mbs)
  then obtain b i where "mbs = set_active b i (dr_members dir)" using transition_keys(2) by blast
  with activate_member show ?thesis using members_kept [OF assms(2) set_active_keys] by simp
next
  case (remove_member c rq pk)
  then show ?thesis using assms(2)
    by (auto simp: membership_destroy_def bind_res_Inr_iff directory_ok_def team_member_ok_def list_all_iff
        intro: distinct_map_filter_rows) metis
next
  case (new_team c rq pk d)
  then show ?thesis using assms(2)
    by (auto simp: team_create_def res_simps directory_ok_def team_member_ok_def list_all_iff)
next
  case (change_team c rq pk d)
  then obtain i name where i: "team_get_object c rq pk dir = Inr i"
    and name: "\<forall>x \<in> set (dr_teams dir). tm_id x \<noteq> tm_id i \<longrightarrow> \<not> (tm_tenant x = tm_tenant i \<and> tm_name x = name)"
    and dir': "dir' = dir\<lparr>dr_teams := save_row (\<lambda>x. tm_id x = tm_id i)
         (\<lambda>_. i\<lparr>tm_name := name,
             tm_description := (case td_description d of None \<Rightarrow> tm_description i | Some s \<Rightarrow> strip s),
             tm_is_active := (case td_is_active d of None \<Rightarrow> tm_is_active i | Some b \<Rightarrow> b)\<rparr>) (dr_teams dir)\<rparr>"
    unfolding team_update_def res_simps by auto
  show ?thesis unfolding dir'
    using assms(2) team_get_object_own(1) [OF i] name by (intro teams_kept) auto
next
  case (delete_team c rq pk now)
  then obtain i where i: "team_get_object c rq pk dir = Inr i"
    and dir': "dir' = dir\<lparr>dr_teams := save_row (\<lambda>x. tm_id x = tm_id i) (\<lambda>_. i\<lparr>tm_deleted_at := Some now\<rparr>) (dr_teams dir)\<rparr>"
    by (auto simp: team_destroy_def bind_res_Inr_iff)
  have "(tm_tenant x, tm_name x) \<noteq> (tm_tenant i, tm_name i)" if "x \<in> set (dr_teams dir)" "tm_id x \<noteq> tm_id i" for x
    using assms(2) that team_get_object_own(1) [OF i] by (auto simp: directory_ok_def distinct_map inj_on_def)
  then show ?thesis unfolding dir'
    using assms(2) team_get_object_own(1) [OF i] by (intro teams_kept) auto
next
  case (join_team c rq pk tk mk)
  then show ?thesis using assms(2)
    by (elim team_member_create_D) (auto simp: directory_ok_def team_member_ok_def list_all_iff)
next
  case (leave_team c rq pk)
  then show ?thesis using assms(2)
    by (elim team_member_destroy_D) (auto simp: directory_ok_def list_all_iff intro: distinct_map_filter_rows)
qed

section \<open>Properties of the directory\<close>

text \<open>C10: Teams hold members of their tenant only.  After any sequence of requests a row of a team's
  membership names a team and a membership of one tenant, a user has at most one membership in
  a tenant, a team name is used once in a tenant and nobody is in a team twice.\<close>

theorem directory_invariant:
  assumes "directory_step\<^sup>*\<^sup>* dir dir'" and "directory_ok dir"
  shows "(\<forall>x \<in> set (dr_team_members dir'). \<exists>t \<in> set (dr_teams dir'). \<exists>m \<in> set (dr_members dir').
        tm_id t = tmm_team x \<and> mb_id m = tmm_member x \<and> tm_tenant t = tmm_tenant x \<and> mb_tenant m = tmm_tenant x)
    \<and> (\<forall>m \<in> set (dr_members dir'). \<forall>m' \<in> set (dr_members dir').
        mb_user m = mb_user m' \<and> mb_tenant m = mb_tenant m' \<longrightarrow> m = m')
    \<and> (\<forall>t \<in> set (dr_teams dir'). \<forall>t' \<in> set (dr_teams dir').
        tm_tenant t = tm_tenant t' \<and> tm_name t = tm_name t' \<longrightarrow> t = t')
    \<and> distinct (map (\<lambda>x. (tmm_team x, tmm_member x)) (dr_team_members dir'))"
proof -
  from assms have "directory_ok dir'" by (induction rule: rtranclp_induct) (auto intro: directory_step_ok)
  then have ok: "list_all (team_member_ok (dr_members dir') (dr_teams dir')) (dr_team_members dir')"
    and rest: "distinct (map (\<lambda>m. (mb_user m, mb_tenant m)) (dr_members dir'))"
      "distinct (map (\<lambda>t. (tm_tenant t, tm_name t)) (dr_teams dir'))"
      "distinct (map (\<lambda>x. (tmm_team x, tmm_member x)) (dr_team_members dir'))"
    by (auto simp: directory_ok_def)
  from ok have "\<forall>x \<in> set (dr_team_members dir'). \<exists>t \<in> set (dr_teams dir'). \<exists>m \<in> set (dr_members dir').
        tm_id t = tmm_team x \<and> mb_id m = tmm_member x \<and> tm_tenant t = tmm_tenant x \<and> mb_tenant m = tmm_tenant x"
    unfolding list_all_iff team_member_ok_def by blast
  with rest show ?thesis by (auto simp: distinct_map inj_on_def)
qed

definition sample_directory :: directory where
  "sample_directory = \<lparr>dr_members = [sample_membership ''m'' ''u'' ''t1'' True True],
     dr_teams = [\<lparr>tm_id = ''g'', tm_tenant = ''t1'', tm_name = ''Ops'', tm_description = [], tm_is_active = True, tm_deleted_at = None\<rparr>],
     dr_team_members = []\<rparr>"

definition sample_super :: request where
  "sample_super = sample_request (Some (sample_user ''s'' True)) (Some ''t1'')"

lemmas directory_defs = check_permissions_def team_permissions_def get_permissions_def get_write_actions_def permits_def
  is_authenticated_permission_def is_super_user_def get_serializer_context_def plugin_context_def
  plugin_on_build_context_def manager_queryset_def admin_somewhere_def user_memberships_def qs_exists_def
  list_rows_def viewset_get_queryset_def plugin_filter_queryset_def rq_superuser_def parent_filter_def
  soft_delete_filter_def backend_filter_queryset_def qs_get_def fk_lookup_def fk_queryset_def apply_filters_def
  required_key_def unique_together_def field_filters_def

lemma directory_invariant_witness:
  "\<exists>dir'. team_member_create None sample_super ''x'' (Some ''g'') (Some ''m'') sample_directory = Inr dir'
     \<and> (\<forall>x \<in> set (dr_team_members dir'). \<exists>t \<in> set (dr_teams dir'). \<exists>m \<in> set (dr_members dir').
        tm_id t = tmm_team x \<and> mb_id m = tmm_member x \<and> tm_tenant t = tmm_tenant x \<and> mb_tenant m = tmm_tenant x)"
proof -
  obtain dir' where run: "team_member_create None sample_super ''x'' (Some ''g'') (Some ''m'') sample_directory = Inr dir'"
    by (simp add: team_member_create_def validate_team_member_def directory_defs sample_super_def sample_directory_def
        sample_user_def sample_membership_def team_col_def member_col_def team_member_col_def)
  have "directory_ok sample_directory" by (simp add: directory_ok_def sample_directory_def)
  with directory_invariant [OF r_into_rtranclp [of directory_step, OF join_team [OF run]]] run show ?thesis by blast
qed

text \<open>An invitation needs an administrator, and stays in the tenant.  A membership that is created
  belongs to the tenant of the token, of which the requester is an active administrator; its
  user is active and was no member, its role is one of the tenant's and not deleted; the rest
  of the directory is unchanged.\<close>

theorem membership_invite:
  assumes "membership_create c rq pk now users roles d dir = Inr dir'"
  shows "\<exists>t u r m a. tenant_of rq = Some t
    \<and> rq_user rq = Some a \<and> (\<exists>own \<in> set (dr_members dir). mb_user own = usr_id a \<and> mb_tenant own = t \<and> mb_is_active own \<and> mb_is_admin own)
    \<and> u \<in> set users \<and> usr_is_active u \<and> md_user d = Some (usr_id u)
    \<and> (\<forall>x \<in> set (dr_members dir). \<not> (mb_user x = usr_id u \<and> mb_tenant x = t))
    \<and> r \<in> set roles \<and> role_tenant r = t \<and> rr_deleted_at r = None \<and> md_role d = Some (role_id r)
    \<and> mb_user m = usr_id u \<and> mb_tenant m = t \<and> mb_role m = role_id r \<and> mb_is_active m
    \<and> (mb_is_admin m \<longleftrightarrow> md_is_admin d = Some True) \<and> dir' = dir\<lparr>dr_members := dr_members dir @ [m]\<rparr>"
  using assms
proof (rule membership_create_D)
  fix t u r
  assume adm: "is_tenant_admin c (dr_members dir) rq" and t: "tenant_of rq = Some t"
    and rest: "u \<in> set users" "usr_is_active u" "md_user d = Some (usr_id u)" "r \<in> set roles" "role_tenant r = t"
    "rr_deleted_at r = None" "md_role d = Some (role_id r)" "\<forall>x \<in> set (dr_members dir). \<not> (mb_user x = usr_id u \<and> mb_tenant x = t)"
    "dir' = dir\<lparr>dr_members := dr_members dir @ [\<lparr>mb_id = pk, mb_user = usr_id u, mb_tenant = t, mb_role = role_id r,
        mb_is_admin = (md_is_admin d = Some True), mb_is_active = True, mb_joined_at = now\<rparr>]\<rparr>"
  obtain a own where "rq_user rq = Some a" "own \<in> set (dr_members dir)" "mb_user own = usr_id a" "mb_tenant own = t"
    "mb_is_active own" "mb_is_admin own"
    using adm t by (auto simp: is_tenant_admin_def qs_exists_iff dest: user_memberships_mem split: option.splits)
  with t rest show ?thesis
    by (intro exI [of _ t] exI [of _ u] exI [of _ r] exI [of _ "\<lparr>mb_id = pk, mb_user = usr_id u, mb_tenant = t,
        mb_role = role_id r, mb_is_admin = (md_is_admin d = Some True), mb_is_active = True, mb_joined_at = now\<rparr>"] exI [of _ a])
      (auto intro!: bexI [of _ own])
qed

definition sample_admin :: request where
  "sample_admin = sample_request (Some (sample_user ''u'' False)) (Some ''t1'')"

definition sample_role :: role_row where
  "sample_role = \<lparr>role_id = ''r1'', role_tenant = ''t1'', role_name = ''R'', role_kind = ''member'', role_description = [],
     role_permissions = [], rr_deleted_at = None\<rparr>"

lemma membership_invite_witness:
  "\<exists>dir' m. membership_create None sample_admin ''n'' 7 [sample_user ''v'' False] [sample_role]
      \<lparr>md_user = Some ''v'', md_role = Some ''r1'', md_is_admin = None\<rparr> sample_directory = Inr dir'
    \<and> dir' = sample_directory\<lparr>dr_members := dr_members sample_directory @ [m]\<rparr> \<and> mb_user m = ''v'' \<and> mb_tenant m = ''t1''"
proof -
  obtain dir' where run: "membership_create None sample_admin ''n'' 7 [sample_user ''v'' False] [sample_role]
      \<lparr>md_user = Some ''v'', md_role = Some ''r1'', md_is_admin = None\<rparr> sample_directory = Inr dir'"
    by (simp add: membership_create_def validate_new_member_def insert_member_def directory_defs membership_permissions_def
        is_tenant_admin_def sample_admin_def sample_directory_def sample_user_def sample_role_def sample_membership_def
        user_col_def role_col_def member_col_def)
  from membership_invite [OF run] run show ?thesis by (auto simp: sample_admin_def)
qed

lemma admin_of_writes:
  assumes "check_permissions (membership_permissions x) c mbs rq = Inr ()" and "x \<in> set get_write_actions"
  shows "\<exists>a t. rq_user rq = Some a \<and> tenant_of rq = Some t
      \<and> (\<exists>own \<in> set mbs. mb_user own = usr_id a \<and> mb_tenant own = t \<and> mb_is_active own \<and> mb_is_admin own)"
  using admin_of_check [OF assms]
  by (auto simp: is_tenant_admin_def qs_exists_iff dest: user_memberships_mem split: option.splits)

lemma update_scoped:
  assumes "directory_ok dir" and "membership_update c rq pk adm act dir = Inr dir'" and "tenant_of rq = Some t"
  shows "filter (\<lambda>m. mb_tenant m \<noteq> t) (dr_members dir') = filter (\<lambda>m. mb_tenant m \<noteq> t) (dr_members dir)"
    and "dr_team_members dir' = dr_team_members dir" and "dr_teams dir' = dr_teams dir"
proof -
  let ?new = "\<lambda>m. m\<lparr>mb_is_admin := (case adm of None \<Rightarrow> mb_is_admin m | Some b \<Rightarrow> b),
      mb_is_active := (case act of None \<Rightarrow> mb_is_active m | Some b \<Rightarrow> b)\<rparr>"
  obtain m where m: "membership_get_object rq pk (dr_members dir) = Inr m"
    and dir': "dir' = dir\<lparr>dr_members := save_row (\<lambda>x. mb_id x = mb_id m) (\<lambda>_. ?new m) (dr_members dir)\<rparr>"
    using assms(2) by (auto simp: membership_update_def bind_res_Inr_iff)
  note own = membership_get_object_own [OF m]
  have uniq: "x = m" if "x \<in> set (dr_members dir)" "mb_id x = mb_id m" for x
    using that assms(1) own(1) by (auto simp: directory_ok_def distinct_map inj_on_def)
  have "filter (\<lambda>x. mb_tenant x \<noteq> t) (save_row (\<lambda>x. mb_id x = mb_id m) (\<lambda>_. ?new m) rows)
      = filter (\<lambda>x. mb_tenant x \<noteq> t) rows" if "set rows \<subseteq> set (dr_members dir)" for rows
    using that uniq own(3) assms(3) by (induction rows) auto
  then show "filter (\<lambda>m. mb_tenant m \<noteq> t) (dr_members dir') = filter (\<lambda>m. mb_tenant m \<noteq> t) (dr_members dir)"
    by (simp add: dir')
qed (use assms(2) in \<open>auto simp: membership_update_def bind_res_Inr_iff\<close>)

lemma destroy_scoped:
  assumes "directory_ok dir" and "membership_destroy c rq pk dir = Inr dir'" and "tenant_of rq = Some t"
  shows "filter (\<lambda>m. mb_tenant m \<noteq> t) (dr_members dir') = filter (\<lambda>m. mb_tenant m \<noteq> t) (dr_members dir)"
    and "filter (\<lambda>x. tmm_tenant x \<noteq> t) (dr_team_members dir') = filter (\<lambda>x. tmm_tenant x \<noteq> t) (dr_team_members dir)"
    and "dr_teams dir' = dr_teams dir"
proof -
  obtain m where m: "membership_get_object rq pk (dr_members dir) = Inr m"
    and dir': "dir' = dir\<lparr>dr_members := filter (\<lambda>x. mb_id x \<noteq> mb_id m) (dr_members dir),
              dr_team_members := filter (\<lambda>x. tmm_member x \<noteq> mb_id m) (dr_team_members dir)\<rparr>"
    using assms(2) by (auto simp: membership_destroy_def bind_res_Inr_iff)
  have own: "m \<in> set (dr_members dir)" "t = mb_tenant m" using membership_get_object_own [OF m] assms(3) by auto
  have uniq: "x = m" if "x \<in> set (dr_members dir)" "mb_id x = mb_id m" for x
    using that assms(1) own(1) by (auto simp: directory_ok_def distinct_map inj_on_def)
  show "filter (\<lambda>m. mb_tenant m \<noteq> t) (dr_members dir') = filter (\<lambda>m. mb_tenant m \<noteq> t) (dr_members dir)"
    using uniq own(2) by (auto simp: dir' intro!: filter_cong)
  have "tmm_tenant x = t" if "x \<in> set (dr_team_members dir)" "tmm_member x = mb_id m" for x
  proof -
    from assms(1) that(1) obtain m' where "m' \<in> set (dr_members dir)" "mb_id m' = tmm_member x" "mb_tenant m' = tmm_tenant x"
      by (auto simp: directory_ok_def list_all_iff team_member_ok_def)
    with uniq [of m'] that(2) own(2) show ?thesis by simp
  qed
  then show "filter (\<lambda>x. tmm_tenant x \<noteq> t) (dr_team_members dir') = filter (\<lambda>x. tmm_tenant x \<noteq> t) (dr_team_members dir)"
    by (auto simp: dir' intro!: filter_cong)
  show "dr_teams dir' = dr_teams dir" by (simp add: dir')
qed

text \<open>Writes stay in the tenant.  Inviting, changing and removing a member is done by active
  administrators of the tenant of the token, and leaves the memberships of the other tenants
  and of their teams as they were.\<close>

theorem membership_writes_scoped:
  assumes "directory_ok dir"
    and "membership_create c rq pk now users roles d dir = Inr dir' \<or> membership_update c rq pk adm act dir = Inr dir'
      \<or> membership_destroy c rq pk dir = Inr dir'"
  shows "\<exists>a t. rq_user rq = Some a \<and> tenant_of rq = Some t
    \<and> (\<exists>own \<in> set (dr_members dir). mb_user own = usr_id a \<and> mb_tenant own = t \<and> mb_is_active own \<and> mb_is_admin own)
    \<and> filter (\<lambda>m. mb_tenant m \<noteq> t) (dr_members dir') = filter (\<lambda>m. mb_tenant m \<noteq> t) (dr_members dir)
    \<and> filter (\<lambda>x. tmm_tenant x \<noteq> t) (dr_team_members dir') = filter (\<lambda>x. tmm_tenant x \<noteq> t) (dr_team_members dir)
    \<and> dr_teams dir' = dr_teams dir"
  using assms(2)
proof (elim disjE)
  assume run: "membership_create c rq pk now users roles d dir = Inr dir'"
  then have "check_permissions (membership_permissions ''create'') c (dr_members dir) rq = Inr ()"
    by (auto simp: membership_create_def bind_res_Inr_iff)
  from admin_of_writes [OF this] run show ?thesis by (elim membership_create_D) (auto simp: get_write_actions_def)
next
  assume run: "membership_update c rq pk adm act dir = Inr dir'"
  then have "check_permissions (membership_permissions ''partial_update'') c (dr_members dir) rq = Inr ()"
    by (auto simp: membership_update_def bind_res_Inr_iff)
  from admin_of_writes [OF this] update_scoped [OF assms(1) run] show ?thesis by (auto simp: get_write_actions_def)
next
  assume run: "membership_destroy c rq pk dir = Inr dir'"
  then have "check_permissions (membership_permissions ''destroy'') c (dr_members dir) rq = Inr ()"
    by (auto simp: membership_destroy_def bind_res_Inr_iff)
  from admin_of_writes [OF this] destroy_scoped [OF assms(1) run] show ?thesis by (auto simp: get_write_actions_def)
qed

lemma membership_writes_scoped_witness:
  "\<exists>dir'. membership_destroy None sample_admin ''m'' sample_directory = Inr dir' \<and> dr_teams dir' = dr_teams sample_directory"
proof -
  obtain dir' where run: "membership_destroy None sample_admin ''m'' sample_directory = Inr dir'"
    by (simp add: membership_destroy_def membership_get_object_def directory_defs membership_permissions_def
        is_tenant_admin_def sample_admin_def sample_directory_def sample_user_def sample_membership_def)
  have "directory_ok sample_directory" by (simp add: directory_ok_def sample_directory_def)
  from membership_writes_scoped [OF this disjI2 [OF disjI2 [OF run]]] run show ?thesis by auto
qed

text \<open>A deleted team keeps its members and its name.  Deleting a team changes no team membership;
  afterwards nobody can be added to it, and for every request in its tenant the name stays
  taken, so a team of this name cannot be created again.\<close>

theorem deleted_team_reserved:
  assumes "team_destroy c rq pk now dir = Inr dir'" and "directory_ok dir"
    and "tenant_of rq2 = tenant_of rq" and "scope_tenant c2 \<in> {None, tenant_of rq}"
    and "check_permissions (team_permissions ''create'') c2 (dr_members dir) rq2 = Inr ()"
  shows "dr_team_members dir' = dr_team_members dir
    \<and> (\<forall>mk. team_member_create c2 rq2 pk2 (Some pk) mk dir'
         = Inl (ValidationError ''team_id'' ''Team not found in this tenant.'' ''invalid''))
    \<and> (\<forall>i n. i \<in> set (dr_teams dir) \<and> tm_id i = pk \<and> name_field (td_name n) = Inr (tm_name i) \<longrightarrow>
         team_create c2 rq2 pk2 n dir' = Inl (ValidationError [] ''A team with this name already exists in this tenant.'' ''already_exists''))"
proof -
  from assms(1) obtain i where i: "team_get_object c rq pk dir = Inr i"
    and dir': "dir' = dir\<lparr>dr_teams := save_row (\<lambda>x. tm_id x = tm_id i) (\<lambda>_. i\<lparr>tm_deleted_at := Some now\<rparr>) (dr_teams dir)\<rparr>"
    by (auto simp: team_destroy_def bind_res_Inr_iff)
  from team_get_object_own [OF i] have own: "i \<in> set (dr_teams dir)" "tm_id i = pk" "tenant_of rq = Some (tm_tenant i)" by auto
  have uniq: "x = i" if "x \<in> set (dr_teams dir)" "tm_id x = pk" for x
    using that assms(2) own(1,2) by (auto simp: directory_ok_def distinct_map inj_on_def)
  have cx: "plugin_context rq2 ''tenant_id'' = Some (JStr (tm_tenant i))"
    using assms(3) own(3) by (simp add: plugin_context_def plugin_on_build_context_def)
  obtain cx where con: "get_serializer_context ''create'' rq2 = Inr cx" "cx ''tenant_id'' = Some (JStr (tm_tenant i))"
    using assms(3) own(3) by (simp add: get_serializer_context_def)
  have del: "i\<lparr>tm_deleted_at := Some now\<rparr> \<in> set (dr_teams dir')"
    using own by (auto simp: dir' set_save_row)
  have none: "qs_get (\<lambda>t. tm_id t = pk) (apply_filters team_col fs (apply_filters team_col [] (filter (\<lambda>t. \<not> tm_deleted_at t \<noteq> None) (dr_teams dir')))) = Inl DoesNotExist" for fs
    unfolding qs_get_DoesNotExist_iff using own(2) by (auto simp: apply_filters_def dir' set_save_row)
  have "team_member_create c2 rq2 pk2 (Some pk) mk dir' = Inl (ValidationError ''team_id'' ''Team not found in this tenant.'' ''invalid'')" for mk
    using assms(5) con none by (simp add: team_member_create_def dir' validate_team_member_def required_key_def fk_lookup_def fk_queryset_def)
  moreover have "team_unique c2 rq2 None (dr_teams dir') [(''name'', JStr (tm_name i))] =
      Inl (ValidationError [] ''A team with this name already exists in this tenant.'' ''already_exists'')"
  proof -
    have "i\<lparr>tm_deleted_at := Some now\<rparr> \<in> set (manager_queryset tm_tenant c2 (dr_teams dir'))"
      using del assms(4) own(3) by (auto simp: manager_queryset_def)
    then show ?thesis using cx
      by (auto simp: team_unique_def unique_together_def field_filters_def team_col_def guard_def filter_empty_conv
          intro!: bexI [of _ "i\<lparr>tm_deleted_at := Some now\<rparr>"])
  qed
  ultimately show ?thesis using assms(5) uniq by (auto simp: team_create_def dir')
qed

lemma query_sample: "rq_query (sample_request u t) = Map.empty"
  by (simp add: sample_request_def)

lemma deleted_team_reserved_witness:
  "\<exists>dir'. team_destroy None sample_super ''g'' 9 sample_directory = Inr dir'
     \<and> team_create None sample_super ''g2'' \<lparr>td_name = Some ''Ops'', td_description = None, td_is_active = None\<rparr> dir'
       = Inl (ValidationError [] ''A team with this name already exists in this tenant.'' ''already_exists'')"
proof -
  obtain dir' where run: "team_destroy None sample_super ''g'' 9 sample_directory = Inr dir'"
    by (simp add: team_destroy_def team_get_object_def directory_defs query_sample lower_def sample_super_def sample_directory_def sample_user_def)
  have ok: "directory_ok sample_directory" by (simp add: directory_ok_def sample_directory_def)
  have chk: "check_permissions (team_permissions ''create'') None (dr_members sample_directory) sample_super = Inr ()"
    by (simp add: directory_defs sample_super_def sample_user_def)
  have st: "strip ''Ops'' = ''Ops''" by code_simp
  have name: "name_field (Some ''Ops'') = Inr ''Ops''"
    unfolding name_field_def trimmed_field_def option.case st by simp
  have i: "dr_teams sample_directory = [\<lparr>tm_id = ''g'', tm_tenant = ''t1'', tm_name = ''Ops'', tm_description = [],
      tm_is_active = True, tm_deleted_at = None\<rparr>]" by (simp add: sample_directory_def)
  from deleted_team_reserved [OF run ok refl _ chk, where ?pk2.0 = "''g2''"] run name show ?thesis
    by (auto simp: i scope_tenant_def get_bound_scope_def)
qed

end
