(* ===== verification/Listings.thy ===== *)
theory Listings
  imports Directory
begin

text \<open>
  What users read and change about themselves (\<open>apps/iam_users/{views,serializers}.py\<close>), the
  listings of events and login attempts (\<open>apps/sys_user_event\<close>), the health probes
  (\<open>apps/sys_health\<close>) and the generated filters (\<open>core/filters/base.py\<close>).
\<close>

section \<open>The profile of the requesting user\<close>

record user_row = user +
  ur_updated_at :: int

record profile =
  pf_user :: string
  pf_info :: json

record accounts =
  us_users :: "user_row list"
  us_profiles :: "profile list"

record me_data =
  me_first :: "json option"
  me_last :: "json option"
  me_info :: "json option"

text \<open>
  \<open>CharField(max_length=150, allow_blank=True)\<close>: Python's \<open>str\<close> of numbers, white space trimmed.
  A \<open>JSONField\<close> takes everything but null.
\<close>

definition null_error :: "string \<Rightarrow> exn" where
  "null_error field = ValidationError field ''This field may not be null.'' ''null''"

definition name_text :: "string \<Rightarrow> json \<Rightarrow> string res" where
  "name_text field v =
     (case (case v of JStr s \<Rightarrow> Inr s | JInt n \<Rightarrow> Inr (show_int n) | JFloat s \<Rightarrow> Inr s | JNull \<Rightarrow> Inl (null_error field)
            | _ \<Rightarrow> Inl (ValidationError field ''Not a valid string.'' ''invalid'')) of
        Inl e \<Rightarrow> Inl e
      | Inr s \<Rightarrow> if 150 < length (strip s)
                then Inl (ValidationError field ''Ensure this field has no more than 150 characters.'' ''max_length'')
                else Inr (strip s))"

definition info_json :: "json \<Rightarrow> json res" where
  "info_json v = (if v = JNull then Inl (null_error ''personal_info'') else Inr v)"

definition optional_field :: "(json \<Rightarrow> 'a res) \<Rightarrow> json option \<Rightarrow> 'a option res" where
  "optional_field parse v = (case v of None \<Rightarrow> Inr None | Some j \<Rightarrow> bind_res (parse j) (\<lambda>x. Inr (Some x)))"

definition me_validate :: "me_data \<Rightarrow> (string option \<times> string option \<times> json option) res" where
  "me_validate d =
     bind_res (optional_field (name_text ''first_name'') (me_first d)) (\<lambda>f.
     bind_res (optional_field (name_text ''last_name'') (me_last d)) (\<lambda>l.
     bind_res (optional_field info_json (me_info d)) (\<lambda>i. Inr (f, l, i))))"

text \<open>\<open>save(update_fields=cols)\<close>: an update of these columns that fails when it meets no row.\<close>

definition save_columns :: "string list \<Rightarrow> user_row \<Rightarrow> user_row list \<Rightarrow> user_row list res" where
  "save_columns cols u rows =
     (if \<not> qs_exists (\<lambda>x. usr_id x = usr_id u) rows then Inl (OtherErr ''DatabaseError'')
      else Inr (save_row (\<lambda>x. usr_id x = usr_id u)
        (\<lambda>x. x\<lparr>usr_first_name := if ''first_name'' \<in> set cols then usr_first_name u else usr_first_name x,
                usr_last_name := if ''last_name'' \<in> set cols then usr_last_name u else usr_last_name x\<rparr>) rows))"

definition profile_get_or_create :: "string \<Rightarrow> profile list \<Rightarrow> profile list" where
  "profile_get_or_create user rows =
     (if qs_exists (\<lambda>p. pf_user p = user) rows then rows else rows @ [\<lparr>pf_user = user, pf_info = JObj []\<rparr>])"

text \<open>\<open>UserMeUpdateSerializer.update\<close>.\<close>

definition me_update ::
  "user_row \<Rightarrow> string option \<times> string option \<times> json option \<Rightarrow> accounts \<Rightarrow> (user_row \<times> accounts) res" where
  "me_update u v w =
     (case v of (first, last_, personal_info) \<Rightarrow>
        let u' = u\<lparr>usr_first_name := (case first of None \<Rightarrow> usr_first_name u | Some s \<Rightarrow> s),
                    usr_last_name := (case last_ of None \<Rightarrow> usr_last_name u | Some s \<Rightarrow> s)\<rparr>;
            given = (if first = None then [] else [''first_name'']) @ (if last_ = None then [] else [''last_name'']);
            cols = (if given = [] then [''first_name'', ''last_name''] else given)
        in bind_res (save_columns cols u' (us_users w)) (\<lambda>users.
             Inr (u', w\<lparr>us_users := users,
               us_profiles := (case personal_info of
                   None \<Rightarrow> us_profiles w
                 | Some j \<Rightarrow> save_row (\<lambda>p. pf_user p = usr_id u) (\<lambda>p. p\<lparr>pf_info := j\<rparr>)
                               (profile_get_or_create (usr_id u) (us_profiles w)))\<rparr>)))"

text \<open>\<open>UserDetailSerializer\<close>: a user without a profile has the personal info null.\<close>

definition user_detail :: "(int \<Rightarrow> string) \<Rightarrow> user_row \<Rightarrow> profile list \<Rightarrow> attrs" where
  "user_detail show_time u profiles =
     [(''id'', JStr (usr_id u)), (''email'', JStr (usr_email u)), (''first_name'', JStr (usr_first_name u)),
      (''last_name'', JStr (usr_last_name u)), (''is_active'', JBool (usr_is_active u)),
      (''personal_info'', case qs_first (filter (\<lambda>p. pf_user p = usr_id u) profiles) of
           None \<Rightarrow> JNull | Some p \<Rightarrow> pf_info p),
      (''created_at'', JStr (show_time (usr_created_at u))), (''updated_at'', JStr (show_time (ur_updated_at u)))]"

definition me_get :: "(int \<Rightarrow> string) \<Rightarrow> user_row \<Rightarrow> accounts \<Rightarrow> attrs" where
  "me_get show_time u w = user_detail show_time u (us_profiles w)"

definition me_patch :: "(int \<Rightarrow> string) \<Rightarrow> user_row \<Rightarrow> me_data \<Rightarrow> (accounts, attrs) act" where
  "me_patch show_time u d w =
     (case bind_res (me_validate d) (\<lambda>v. me_update u v w) of
        Inl e \<Rightarrow> (Inl e, w)
      | Inr (u', w') \<Rightarrow> (Inr (user_detail show_time u' (us_profiles w')), w'))"

definition user_list_fields :: "user \<Rightarrow> attrs" where
  "user_list_fields u = [(''id'', JStr (usr_id u)), (''email'', JStr (usr_email u)), (''first_name'', JStr (usr_first_name u)),
     (''last_name'', JStr (usr_last_name u)), (''is_active'', JBool (usr_is_active u))]"

section \<open>The listings of events and attempts\<close>

text \<open>
  \<open>get_permissions\<close>, the filters every viewset has (the models have a nullable tenant, a null is
  equal to no tenant), newest rows first.
\<close>

definition log_permissions :: "request \<Rightarrow> permission list" where
  "log_permissions rq = (if rq_superuser rq then [PIsSuperUser] else [PIsAuthenticated, PIsTenantAdmin])"

definition log_list :: "('r \<Rightarrow> string option) \<Rightarrow> ctx \<Rightarrow> membership list \<Rightarrow> request \<Rightarrow> 'r list \<Rightarrow> 'r list res" where
  "log_list row_tenant c mbs rq rows =
     bind_res (check_permissions (log_permissions rq) c mbs rq) (\<lambda>_.
     bind_res (list_rows None True (Some (\<lambda>r. or_empty (row_tenant r))) [] Map.empty (admin_somewhere c rq mbs) None rq rows)
       (\<lambda>rs. Inr (rev rs)))"

definition event_list :: "ctx \<Rightarrow> membership list \<Rightarrow> request \<Rightarrow> user_event list \<Rightarrow> user_event list res" where
  "event_list = log_list ev_tenant"

definition attempt_list :: "ctx \<Rightarrow> membership list \<Rightarrow> request \<Rightarrow> auth_attempt list \<Rightarrow> auth_attempt list res" where
  "attempt_list = log_list aa_tenant"

text \<open>A request to an endpoint of authentication, whatever its outcome.\<close>

inductive auth_step :: "('c, 'x) login_env \<Rightarrow> 'c login_db \<Rightarrow> 'c login_db \<Rightarrow> bool" for E where
  login: "login_post E rq email password tenant w = (r, w') \<Longrightarrow> auth_step E w w'"
| unlock: "unlock_post E rq u email w = (s, w') \<Longrightarrow> auth_step E w w'"
| change: "password_change_post E salt rq u old new conf w = (a, w') \<Longrightarrow> auth_step E w w'"

section \<open>Health probes\<close>

text \<open>\<open>Some\<close> text is the exception of a dependency; \<open>get\<close> what the cache returns for the probe's key.\<close>

definition liveness :: "nat \<times> attrs" where
  "liveness = (200, [(''status'', JStr ''alive'')])"

definition readiness_errors :: "string option \<Rightarrow> string option \<Rightarrow> (string + string option) \<Rightarrow> attrs" where
  "readiness_errors connection set_key get =
     (case connection of None \<Rightarrow> [] | Some exc \<Rightarrow> [(''database'', JStr exc)])
   @ (case set_key of
        Some exc \<Rightarrow> [(''cache'', JStr exc)]
      | None \<Rightarrow> (case get of
            Inl exc \<Rightarrow> [(''cache'', JStr exc)]
          | Inr v \<Rightarrow> if v \<noteq> Some ''1'' then [(''cache'', JStr ''read-back mismatch'')] else []))"

definition readiness :: "string option \<Rightarrow> string option \<Rightarrow> (string + string option) \<Rightarrow> nat \<times> attrs" where
  "readiness connection set_key get =
     (let errors = readiness_errors connection set_key get in
      if errors \<noteq> [] then (503, [(''status'', JStr ''unavailable''), (''errors'', JObj errors)])
      else (200, [(''status'', JStr ''ready'')]))"

section \<open>Generated filters\<close>

definition supported_lookups :: "string list" where
  "supported_lookups = [''exact'', ''gte'', ''lte'', ''gt'', ''lt'', ''icontains'', ''in'', ''isnull'']"

text \<open>
  \<open>get_filterset_class\<close>: the name of each query parameter with the column and the lookup it
  filters by; \<open>None\<close> is no filter set.  \<open>is_fk\<close> is \<open>_is_fk_field\<close> on the view's model.
\<close>

definition auto_filters :: "(string \<Rightarrow> bool) \<Rightarrow> string list \<Rightarrow> (string \<times> string \<times> string) list" where
  "auto_filters is_fk filterset_fields =
     concat (map (\<lambda>f. map (\<lambda>l. (if l = ''exact'' then f else f @ ''__'' @ l, if is_fk f then f @ ''_id'' else f, l))
       supported_lookups) filterset_fields)"

definition get_filterset_class ::
  "bool \<Rightarrow> (string \<Rightarrow> bool) \<Rightarrow> string list option \<Rightarrow> (string \<times> string \<times> string) list option" where
  "get_filterset_class has_queryset is_fk filterset_fields =
     (case filterset_fields of
        Some (f # fs) \<Rightarrow> if has_queryset then Some (auto_filters is_fk (f # fs)) else None
      | _ \<Rightarrow> None)"

text \<open>
  \<open>_InFilter.filter\<close>: its base class hands it the list of the values it has already split; a list
  has no \<open>split\<close>.  \<open>base_filter\<close> is the library's own filter.
\<close>

datatype filter_value = FText string | FValues "string list"

definition filter_empty :: "filter_value \<Rightarrow> bool" where
  "filter_empty v = (case v of FText s \<Rightarrow> s = [] | FValues vs \<Rightarrow> vs = [])"

definition in_filter :: "char \<Rightarrow> ('r list \<Rightarrow> string list \<Rightarrow> 'r list) \<Rightarrow> 'r list \<Rightarrow> filter_value \<Rightarrow> 'r list res" where
  "in_filter sep base_filter qs v =
     (if filter_empty v then Inr qs
      else (case v of
              FText s \<Rightarrow> Inr (base_filter qs (map strip (split_on sep s)))
            | FValues _ \<Rightarrow> Inl AttributeErr))"

section \<open>Facts about listings\<close>

lemma log_list_rows:
  assumes "\<And>r. r \<in> set rows \<Longrightarrow> row_tenant r \<noteq> Some []"
  shows "log_list row_tenant c mbs rq rows =
     (if list_all (permits c mbs rq) (log_permissions rq)
      then Inr (rev (case tenant_of rq of None \<Rightarrow> [] | Some t \<Rightarrow> filter (\<lambda>r. row_tenant r = Some t) rows))
      else Inl (PermissionDenied [] ''permission_denied''))"
proof -
  let ?f = "\<lambda>r. or_empty (row_tenant r)"
  have eq: "?f r = t \<longleftrightarrow> row_tenant r = Some t" if "t \<noteq> []" for r t
    using that by (cases "row_tenant r") auto
  have "list_rows None True (Some ?f) [] Map.empty (admin_somewhere c rq mbs) None rq rows =
      Inr (case tenant_of rq of None \<Rightarrow> [] | Some t \<Rightarrow> filter (\<lambda>r. row_tenant r = Some t) rows)"
  proof (cases "tenant_of rq")
    case None
    then show ?thesis
      by (simp add: list_rows_def viewset_get_queryset_def plugin_filter_queryset_def manager_queryset_def parent_filter_def
          backend_filter_queryset_def scope_tenant_def get_bound_scope_def)
  next
    case (Some t)
    then have t: "t \<noteq> []" by (simp add: tenant_of_Some_iff)
    show ?thesis using Some eq [OF t]
      by (simp add: list_rows_def viewset_get_queryset_def plugin_filter_queryset_def manager_queryset_def parent_filter_def
          backend_filter_queryset_def soft_delete_filter_def scope_tenant_def get_bound_scope_def Let_def)
  qed
  then show ?thesis by (simp add: log_list_def check_permissions_def guard_def)
qed

lemma log_list_no_tenant:
  "\<forall>r \<in> set rows. row_tenant r = None \<Longrightarrow>
     log_list row_tenant c mbs rq rows \<in> {Inr [], Inl (PermissionDenied [] ''permission_denied'')}"
  by (subst log_list_rows) (auto simp: filter_empty_conv split: option.splits)

lemma log_list_append_no_tenant:
  assumes "\<forall>r \<in> set new. row_tenant r = None" and "\<forall>r \<in> set rows. row_tenant r \<noteq> Some []"
  shows "log_list row_tenant c mbs rq (rows @ new) = log_list row_tenant c mbs rq rows"
proof -
  have "filter (\<lambda>r. row_tenant r = Some t) new = []" for t using assms(1) by (auto simp: filter_empty_conv)
  moreover have "row_tenant r \<noteq> Some []" if "r \<in> set (rows @ new)" for r using assms that by auto
  ultimately show ?thesis using assms(2) log_list_rows [of "rows @ new" row_tenant c mbs rq] log_list_rows [of rows row_tenant c mbs rq]
    by (simp split: option.splits)
qed

text \<open>Logins, unlocking and password changes append rows without a tenant.\<close>

definition only_tokens :: "('c login_db, 'a) act \<Rightarrow> bool" where
  "only_tokens m = (\<forall>w. \<exists>db. snd (m w) = w\<lparr>ld_tokens := db\<rparr>)"

lemma same_tokens: "\<exists>db. w = w\<lparr>ld_tokens := db\<rparr>"
  by (rule exI [of _ "ld_tokens w"]) simp

lemma only_tokens_intros:
  "only_tokens (ret x)"
  "only_tokens (lift_res r)"
  "only_tokens (with_tokens tm)"
  "only_tokens m \<Longrightarrow> (\<And>x. only_tokens (k x)) \<Longrightarrow> only_tokens (bind_act m k)"
proof -
  show "only_tokens (ret x)" by (auto simp: only_tokens_def ret_def intro: same_tokens)
  show "only_tokens (lift_res r)" by (auto simp: only_tokens_def lift_res_def intro: same_tokens)
  show "only_tokens (with_tokens tm)" by (auto simp: only_tokens_def with_tokens_def split: prod.splits)
  assume m: "only_tokens m" and k: "\<And>x. only_tokens (k x)"
  show "only_tokens (bind_act m k)" unfolding only_tokens_def
  proof
    fix w
    obtain r w1 where r: "m w = (r, w1)" by fastforce
    with m obtain db where w1: "w1 = w\<lparr>ld_tokens := db\<rparr>" unfolding only_tokens_def by (metis snd_conv)
    show "\<exists>db. snd (bind_act m k w) = w\<lparr>ld_tokens := db\<rparr>"
    proof (cases r)
      case (Inr x)
      from k [of x] obtain db' where "snd (k x w1) = w1\<lparr>ld_tokens := db'\<rparr>" unfolding only_tokens_def by blast
      with r Inr w1 show ?thesis by (auto simp: bind_act_def)
    qed (use r w1 in \<open>auto simp: bind_act_def\<close>)
  qed
qed

lemma login_validate_tokens: "only_tokens (login_validate E rq e p t)"
proof -
  have pair: "only_tokens (obtain_pair_validate E e p)"
  proof (unfold only_tokens_def, rule allI)
    fix w
    have "only_tokens (bind_act (with_tokens (le_for_user E u (le_now E))) (\<lambda>_. ret u))" for u
      by (intro only_tokens_intros)
    then show "\<exists>db. snd (obtain_pair_validate E e p w) = w\<lparr>ld_tokens := db\<rparr>"
      unfolding obtain_pair_validate_def using same_tokens [of w] by (auto simp: only_tokens_def split: option.splits)
  qed
  have finish: "only_tokens (login_finish E u tn)" for u tn
  proof (unfold only_tokens_def, rule allI)
    fix w
    have "only_tokens (\<lambda>w'. (Inr (LoggedIn x u), w'\<lparr>ld_tokens := enforce_session_limit (le_session E) (usr_id u) (ld_tokens w')\<rparr>))" for x
      by (auto simp: only_tokens_def)
    then have "only_tokens (bind_act (with_tokens (le_for_user E u (le_now E))) (\<lambda>jti w'.
            (Inr (LoggedIn \<lparr>tp_jti = jti, tp_user = usr_id u, tp_tenant = tn\<rparr> u),
             w'\<lparr>ld_tokens := enforce_session_limit (le_session E) (usr_id u) (ld_tokens w')\<rparr>)))"
      by (intro only_tokens_intros) auto
    then show "\<exists>db. snd (login_finish E u tn w) = w\<lparr>ld_tokens := db\<rparr>"
      unfolding login_finish_def using same_tokens [of w] by (auto simp: only_tokens_def split: option.splits)
  qed
  have "only_tokens (\<lambda>w. bind_act (lift_res (login_policies E rq u t w)) (\<lambda>m. login_finish E u (mb_tenant m)) w)" for u
  proof (unfold only_tokens_def, rule allI)
    fix w
    have "only_tokens (bind_act (lift_res (login_policies E rq u t w)) (\<lambda>m. login_finish E u (mb_tenant m)))"
      by (intro only_tokens_intros finish)
    then show "\<exists>db. snd (bind_act (lift_res (login_policies E rq u t w)) (\<lambda>m. login_finish E u (mb_tenant m)) w) = w\<lparr>ld_tokens := db\<rparr>"
      by (simp add: only_tokens_def)
  qed
  with pair show ?thesis unfolding login_validate_def by (intro only_tokens_intros) auto
qed

definition untenanted_growth :: "'c login_db \<Rightarrow> 'c login_db \<Rightarrow> bool" where
  "untenanted_growth w w' =
     (\<exists>attempts events. ld_attempts w' = ld_attempts w @ attempts \<and> (\<forall>a \<in> set attempts. aa_tenant a = None)
        \<and> ld_events w' = ld_events w @ events \<and> (\<forall>e \<in> set events. ev_tenant e = None))"

lemma untenanted_growth_same: "ld_attempts w' = ld_attempts w \<Longrightarrow> ld_events w' = ld_events w \<Longrightarrow> untenanted_growth w w'"
  by (simp add: untenanted_growth_def)

lemma untenanted_growth_trans: "untenanted_growth w w' \<Longrightarrow> untenanted_growth w' w'' \<Longrightarrow> untenanted_growth w w''"
  unfolding untenanted_growth_def
proof (elim exE conjE)
  fix a1 e1 a2 e2
  assume "ld_attempts w' = ld_attempts w @ a1" "\<forall>a \<in> set a1. aa_tenant a = None" "ld_events w' = ld_events w @ e1"
    "\<forall>e \<in> set e1. ev_tenant e = None" "ld_attempts w'' = ld_attempts w' @ a2" "\<forall>a \<in> set a2. aa_tenant a = None"
    "ld_events w'' = ld_events w' @ e2" "\<forall>e \<in> set e2. ev_tenant e = None"
  then show "\<exists>attempts events. ld_attempts w'' = ld_attempts w @ attempts \<and> (\<forall>a \<in> set attempts. aa_tenant a = None)
      \<and> ld_events w'' = ld_events w @ events \<and> (\<forall>e \<in> set events. ev_tenant e = None)"
    by (intro exI [of _ "a1 @ a2"] exI [of _ "e1 @ e2"]) auto
qed

lemma login_post_growth:
  assumes "login_post E rq email password tenant w = (r, w')"
  shows "untenanted_growth w w'"
proof (cases "is_locked (le_cache E) (or_empty email) (ld_cache w)")
  case True
  with assms have "w' = log_attempt (or_empty email) (rq_ip rq) False ''account_locked'' w"
    by (simp add: login_post_def)
  then show ?thesis by (simp add: untenanted_growth_def log_attempt_def)
next
  case False
  obtain x w1 where run: "bind_act (lift_res (login_fields email password)) (\<lambda>(e, p). login_validate E rq e p tenant) w = (x, w1)"
    by fastforce
  have "only_tokens (bind_act (lift_res (login_fields email password)) (\<lambda>(e, p). login_validate E rq e p tenant))"
    by (intro only_tokens_intros) (auto intro: login_validate_tokens)
  with run obtain db where w1: "w1 = w\<lparr>ld_tokens := db\<rparr>" unfolding only_tokens_def by (metis snd_conv)
  show ?thesis
  proof (cases x)
    case (Inr ans)
    with False run assms w1 show ?thesis
      by (auto simp: login_post_def Let_def untenanted_growth_def log_attempt_def record_event_def)
  next
    case (Inl e)
    with False run assms w1 show ?thesis
      by (cases e) (auto simp: login_post_def Let_def untenanted_growth_def log_attempt_def handle_login_failed_def)
  qed
qed

lemma unlock_post_growth: "unlock_post E rq u email w = (s, w') \<Longrightarrow> untenanted_growth w w'"
  by (auto simp: unlock_post_def Let_def untenanted_growth_def record_event_def split: if_splits option.splits)

lemma password_save_logs:
  "ld_attempts (password_save E salt rq u new w) = ld_attempts w" "ld_events (password_save E salt rq u new w) = ld_events w"
  by (simp_all add: password_save_def Let_def handle_password_changed_def split: option.splits)

lemma password_change_growth:
  assumes "password_change_post E salt rq u old new conf w = (a, w')"
  shows "untenanted_growth w w'"
proof -
  from assms have "w' = w \<or> (\<exists>n. w' = password_save E salt rq u n w\<lparr>ld_events :=
      record_event (Some u) (usr_email u) ''auth'' ''password_change'' None [] (ld_events (password_save E salt rq u n w))\<rparr>)"
    unfolding password_change_post_def by (auto simp: Let_def split: sum.splits)
  then show ?thesis by (auto simp: untenanted_growth_def password_save_logs record_event_def)
qed

lemma auth_step_growth: "auth_step E w w' \<Longrightarrow> untenanted_growth w w'"
  by (erule auth_step.cases) (auto intro: login_post_growth unlock_post_growth password_change_growth)

section \<open>Properties of the listings and of the profile\<close>

text \<open>C7: Nobody can read the authentication log.  Attempts and events of logins, of unlocking and of
  password changes carry no tenant, and every listing is filtered by the tenant of the token:
  after any sequence of such requests the listing of attempts is empty or refused, whoever
  asks, superusers included, and the listing of events is what it was before.\<close>

theorem authentication_log_unreadable:
  assumes "(auth_step E)\<^sup>*\<^sup>* w w'" and "ld_attempts w = []" and "\<forall>e \<in> set (ld_events w). ev_tenant e \<noteq> Some []"
  shows "attempt_list c mbs rq (ld_attempts w') \<in> {Inr [], Inl (PermissionDenied [] ''permission_denied'')}
    \<and> event_list c mbs rq (ld_events w') = event_list c mbs rq (ld_events w)"
proof -
  from assms(1) have "untenanted_growth w w'"
    by (induction rule: rtranclp_induct) (auto intro: untenanted_growth_same untenanted_growth_trans auth_step_growth)
  then obtain attempts events where "ld_attempts w' = attempts" "\<forall>a \<in> set attempts. aa_tenant a = None"
    and "ld_events w' = ld_events w @ events" "\<forall>e \<in> set events. ev_tenant e = None"
    using assms(2) by (auto simp: untenanted_growth_def)
  then show ?thesis
    using log_list_no_tenant [of attempts aa_tenant c mbs rq] log_list_append_no_tenant [of events ev_tenant "ld_events w" c mbs rq] assms(3)
    by (simp add: attempt_list_def event_list_def)
qed

definition sample_row :: user_row where
  "sample_row = user.extend (sample_user ''u'' False) \<lparr>ur_updated_at = 0\<rparr>"

lemma authentication_log_unreadable_witness:
  "\<exists>w'. auth_step login_sample_env empty_db w' \<and> ld_attempts w' \<noteq> []
     \<and> attempt_list None [] (sample_request (Some (sample_user ''s'' True)) (Some ''t'')) (ld_attempts w') = Inr []"
proof -
  have st: "strip ''a@x'' = ''a@x''" "strip ''no'' = ''no''" by code_simp+
  obtain r w' where run: "login_post login_sample_env (sample_request None None) (Some ''a@x'') (Some ''no'') None empty_db = (r, w')"
    by fastforce
  have step: "auth_step login_sample_env empty_db w'" using run by (rule auth_step.login)
  have some: "ld_attempts w' \<noteq> []"
    using run by (auto simp: login_post_def Let_def log_attempt_def is_locked_def empty_db_def login_sample_env_def ttl_cache_def no_entries_def
        login_fields_def trimmed_field_def st login_validate_def obtain_pair_validate_def bind_act_def lift_res_def handle_login_failed_def
        split: if_splits)
  have none: "ld_attempts empty_db = []" "\<forall>e \<in> set (ld_events empty_db). ev_tenant e \<noteq> Some []" by (simp_all add: empty_db_def)
  let ?rq = "sample_request (Some (sample_user ''s'' True)) (Some ''t'')"
  have "attempt_list None [] ?rq (ld_attempts w') \<noteq> Inl (PermissionDenied [] ''permission_denied'')"
    by (simp add: attempt_list_def log_list_def check_permissions_def log_permissions_def rq_superuser_def permits_def is_super_user_def
        sample_user_def bind_res_Inl_iff list_rows_def viewset_get_queryset_def plugin_filter_queryset_def)
  with authentication_log_unreadable [OF r_into_rtranclp [of "auth_step login_sample_env", OF step] none, of None "[]" ?rq] step some
  show ?thesis by auto
qed

lemma save_columns_D:
  assumes "save_columns cols v rows = Inr rows'" and "u \<in> set rows" and "distinct (map usr_id rows)" and "usr_id v = usr_id u"
    and "''first_name'' \<notin> set cols \<Longrightarrow> usr_first_name v = usr_first_name u"
    and "''last_name'' \<notin> set cols \<Longrightarrow> usr_last_name v = usr_last_name u"
  shows "rows' = map (\<lambda>x. if usr_id x = usr_id u then x\<lparr>usr_first_name := usr_first_name v, usr_last_name := usr_last_name v\<rparr> else x) rows"
proof -
  have only: "x = u" if "x \<in> set rows" "usr_id x = usr_id u" for x
    using the_row [OF assms(3,2) that] .
  let ?g = "\<lambda>x. x\<lparr>usr_first_name := if ''first_name'' \<in> set cols then usr_first_name v else usr_first_name x,
      usr_last_name := if ''last_name'' \<in> set cols then usr_last_name v else usr_last_name x\<rparr>"
  let ?h = "\<lambda>x. x\<lparr>usr_first_name := usr_first_name v, usr_last_name := usr_last_name v\<rparr>"
  have "?g u = ?h u" using assms(5,6) by (cases u) auto
  with only have gh: "?g x = ?h x" if "x \<in> set rows" "usr_id x = usr_id u" for x using that by blast
  have "rows' = save_row (\<lambda>x. usr_id x = usr_id u) ?g rows"
    using assms(1,4) by (simp only: save_columns_def sum.simps split: if_splits)
  also have "\<dots> = map (\<lambda>x. if usr_id x = usr_id u then ?h x else x) rows"
    unfolding save_row_def by (intro map_cong refl if_cong gh)
  finally show ?thesis .
qed

lemma profile_saved:
  fixes u j
  assumes "distinct (map pf_user rows)"
  defines "rows' \<equiv> save_row (\<lambda>p. pf_user p = u) (\<lambda>p. p\<lparr>pf_info := j\<rparr>) (profile_get_or_create u rows)"
  shows "filter (\<lambda>p. pf_user p \<noteq> u) rows' = filter (\<lambda>p. pf_user p \<noteq> u) rows"
    and "distinct (map pf_user rows')"
    and "\<exists>p. qs_first (filter (\<lambda>p. pf_user p = u) rows') = Some p \<and> pf_info p = j"
proof -
  have keep: "filter (\<lambda>p. pf_user p \<noteq> u) (save_row (\<lambda>p. pf_user p = u) g rs) = filter (\<lambda>p. pf_user p \<noteq> u) rs"
    if "\<And>p. pf_user (g p) = pf_user p" for g and rs :: "profile list"
    using that by (induction rs) auto
  show "filter (\<lambda>p. pf_user p \<noteq> u) rows' = filter (\<lambda>p. pf_user p \<noteq> u) rows"
    unfolding rows'_def by (subst keep) (auto simp: profile_get_or_create_def)
  have map: "map pf_user rows' = map pf_user (profile_get_or_create u rows)"
    unfolding rows'_def by (simp add: map_save_row)
  then show "distinct (map pf_user rows')"
    using assms(1) by (auto simp: profile_get_or_create_def qs_exists_iff)
  have sel: "filter (\<lambda>p. pf_user p = u) rows' = map (\<lambda>p. p\<lparr>pf_info := j\<rparr>) (filter (\<lambda>p. pf_user p = u) (profile_get_or_create u rows))"
  proof -
    have "filter (\<lambda>p. pf_user p = u) (save_row (\<lambda>p. pf_user p = u) (\<lambda>p. p\<lparr>pf_info := j\<rparr>) rs)
        = map (\<lambda>p. p\<lparr>pf_info := j\<rparr>) (filter (\<lambda>p. pf_user p = u) rs)" for rs by (induction rs) auto
    then show ?thesis by (simp add: rows'_def)
  qed
  have "filter (\<lambda>p. pf_user p = u) (profile_get_or_create u rows) \<noteq> []"
    by (auto simp: profile_get_or_create_def qs_exists_iff filter_empty_conv)
  then show "\<exists>p. qs_first (filter (\<lambda>p. pf_user p = u) rows') = Some p \<and> pf_info p = j"
    unfolding sel by (cases "filter (\<lambda>p. pf_user p = u) (profile_get_or_create u rows)") auto
qed

lemma me_validate_fields:
  assumes "me_validate d = Inr (f, l, i)"
  shows "me_first d = None \<longleftrightarrow> f = None" and "me_last d = None \<longleftrightarrow> l = None" and "i = me_info d"
  using assms by (auto simp: me_validate_def optional_field_def info_json_def bind_res_Inr_iff split: option.splits if_splits)

lemma me_patch_success:
  assumes "u \<in> set (us_users w)" and "distinct (map usr_id (us_users w))" and "distinct (map pf_user (us_profiles w))"
    and run: "me_patch show_time u d w = (Inr ans, w')"
  obtains u' where "usr_id u' = usr_id u" and "u' \<in> set (us_users w')" and "ans = user_detail show_time u' (us_profiles w')"
    and "us_users w' = map (\<lambda>x. if usr_id x = usr_id u
        then x\<lparr>usr_first_name := usr_first_name u', usr_last_name := usr_last_name u'\<rparr> else x) (us_users w)"
    and "me_first d = None \<longrightarrow> usr_first_name u' = usr_first_name u" and "me_last d = None \<longrightarrow> usr_last_name u' = usr_last_name u"
    and "filter (\<lambda>p. pf_user p \<noteq> usr_id u) (us_profiles w') = filter (\<lambda>p. pf_user p \<noteq> usr_id u) (us_profiles w)"
    and "distinct (map pf_user (us_profiles w'))"
    and "case me_info d of None \<Rightarrow> us_profiles w' = us_profiles w | Some j \<Rightarrow> map_of ans ''personal_info'' = Some j"
proof -
  obtain v u' where val: "me_validate d = Inr v" and upd: "me_update u v w = Inr (u', w')"
    and ans: "ans = user_detail show_time u' (us_profiles w')"
    using run by (auto simp: me_patch_def bind_res_Inr_iff split: sum.splits)
  obtain f l i where v: "v = (f, l, i)" by (cases v)
  note fields = me_validate_fields [OF val [unfolded v]]
  let ?cols = "if f = None \<and> l = None then [''first_name'', ''last_name'']
      else (if f = None then [] else [''first_name'']) @ (if l = None then [] else [''last_name''])"
  from upd have u': "u' = u\<lparr>usr_first_name := (case f of None \<Rightarrow> usr_first_name u | Some s \<Rightarrow> s),
        usr_last_name := (case l of None \<Rightarrow> usr_last_name u | Some s \<Rightarrow> s)\<rparr>"
    and sav: "save_columns ?cols u' (us_users w) = Inr (us_users w')"
    and prof: "us_profiles w' = (case i of None \<Rightarrow> us_profiles w
        | Some j \<Rightarrow> save_row (\<lambda>p. pf_user p = usr_id u) (\<lambda>p. p\<lparr>pf_info := j\<rparr>) (profile_get_or_create (usr_id u) (us_profiles w)))"
    by (auto simp: me_update_def v Let_def bind_res_Inr_iff split: if_splits)
  have users: "us_users w' = map (\<lambda>x. if usr_id x = usr_id u
      then x\<lparr>usr_first_name := usr_first_name u', usr_last_name := usr_last_name u'\<rparr> else x) (us_users w)"
    by (rule save_columns_D [OF sav assms(1,2)]) (auto simp: u' split: if_splits)
  show thesis
  proof (rule that [of u'])
    show "u' \<in> set (us_users w')" using assms(1) by (auto simp: users u' image_iff intro!: bexI [of _ u])
    show "case me_info d of None \<Rightarrow> us_profiles w' = us_profiles w | Some j \<Rightarrow> map_of ans ''personal_info'' = Some j"
    proof (cases i)
      case (Some j)
      then have "me_info d = Some j" using fields(3) by simp
      with Some profile_saved(3) [OF assms(3), of "usr_id u" j] show ?thesis by (auto simp: prof ans user_detail_def u')
    qed (use fields(3) in \<open>simp add: prof\<close>)
    show "filter (\<lambda>p. pf_user p \<noteq> usr_id u) (us_profiles w') = filter (\<lambda>p. pf_user p \<noteq> usr_id u) (us_profiles w)"
      and "distinct (map pf_user (us_profiles w'))"
      using profile_saved(1,2) [OF assms(3)] assms(3) by (simp_all add: prof split: option.splits)
  qed (use users ans fields(1,2) in \<open>auto simp: u'\<close>)
qed

text \<open>A user changes only their own names and profile.  A successful update of the own account
  leaves every other account and profile, and of the own one the key, address, flags,
  password and both time stamps; the answer shows what is stored.  A refused one changes
  nothing.\<close>

theorem me_patch_own:
  assumes "u \<in> set (us_users w)" and "distinct (map usr_id (us_users w))" and "distinct (map pf_user (us_profiles w))"
  shows "(\<forall>e w'. me_patch show_time u d w = (Inl e, w') \<longrightarrow> w' = w)
    \<and> (\<forall>ans w'. me_patch show_time u d w = (Inr ans, w') \<longrightarrow>
         (\<exists>f l. us_users w' = map (\<lambda>x. if usr_id x = usr_id u then x\<lparr>usr_first_name := f, usr_last_name := l\<rparr> else x) (us_users w)
            \<and> (me_first d = None \<longrightarrow> f = usr_first_name u) \<and> (me_last d = None \<longrightarrow> l = usr_last_name u))
       \<and> filter (\<lambda>p. pf_user p \<noteq> usr_id u) (us_profiles w') = filter (\<lambda>p. pf_user p \<noteq> usr_id u) (us_profiles w)
       \<and> distinct (map pf_user (us_profiles w'))
       \<and> (case me_info d of None \<Rightarrow> us_profiles w' = us_profiles w
            | Some j \<Rightarrow> map_of ans ''personal_info'' = Some j)
       \<and> (\<exists>u' \<in> set (us_users w'). usr_id u' = usr_id u \<and> ans = user_detail show_time u' (us_profiles w')))"
proof (intro conjI allI impI)
  fix e w' assume "me_patch show_time u d w = (Inl e, w')"
  then show "w' = w" by (auto simp: me_patch_def split: sum.splits)
next
  fix ans w' assume run: "me_patch show_time u d w = (Inr ans, w')"
  obtain u' :: user_row where "us_users w' = map (\<lambda>x. if usr_id x = usr_id u
      then x\<lparr>usr_first_name := usr_first_name u', usr_last_name := usr_last_name u'\<rparr> else x) (us_users w)"
    and "me_first d = None \<longrightarrow> usr_first_name u' = usr_first_name u" and "me_last d = None \<longrightarrow> usr_last_name u' = usr_last_name u"
    using assms run by (rule me_patch_success) (rule that)
  then show "\<exists>f l. us_users w' = map (\<lambda>x. if usr_id x = usr_id u then x\<lparr>usr_first_name := f, usr_last_name := l\<rparr> else x) (us_users w)
      \<and> (me_first d = None \<longrightarrow> f = usr_first_name u) \<and> (me_last d = None \<longrightarrow> l = usr_last_name u)"
    by (intro exI [of _ "usr_first_name u'"] exI [of _ "usr_last_name u'"]) simp
  from assms run show "filter (\<lambda>p. pf_user p \<noteq> usr_id u) (us_profiles w') = filter (\<lambda>p. pf_user p \<noteq> usr_id u) (us_profiles w)"
    by (rule me_patch_success)
  from assms run show "distinct (map pf_user (us_profiles w'))" by (rule me_patch_success)
  from assms run show "case me_info d of None \<Rightarrow> us_profiles w' = us_profiles w | Some j \<Rightarrow> map_of ans ''personal_info'' = Some j"
    by (rule me_patch_success)
  from assms run show "\<exists>u' \<in> set (us_users w'). usr_id u' = usr_id u \<and> ans = user_detail show_time u' (us_profiles w')"
    by (rule me_patch_success) blast
qed

lemma me_patch_own_witness:
  "\<exists>ans w'. me_patch show_int sample_row \<lparr>me_first = Some (JStr ''Ada''), me_last = None, me_info = Some (JInt 3)\<rparr>
      \<lparr>us_users = [sample_row], us_profiles = []\<rparr> = (Inr ans, w') \<and> map_of ans ''personal_info'' = Some (JInt 3)"
proof -
  have st: "strip ''Ada'' = ''Ada''" by code_simp
  obtain ans w' where run: "me_patch show_int sample_row \<lparr>me_first = Some (JStr ''Ada''), me_last = None, me_info = Some (JInt 3)\<rparr>
      \<lparr>us_users = [sample_row], us_profiles = []\<rparr> = (Inr ans, w')"
    by (simp add: me_patch_def me_validate_def optional_field_def name_text_def st info_json_def me_update_def Let_def
        save_columns_def qs_exists_def)
  have mem: "sample_row \<in> set (us_users \<lparr>us_users = [sample_row], us_profiles = []\<rparr>)" by simp
  from me_patch_own [OF mem, of show_int "\<lparr>me_first = Some (JStr ''Ada''), me_last = None, me_info = Some (JInt 3)\<rparr>"] run
  show ?thesis by auto
qed

text \<open>The readiness probe.  It answers 200 exactly when the database can be reached and the cache
  returns what was written; otherwise 503 with the dependencies that failed.\<close>

theorem readiness_verdict:
  "(fst (readiness connection set_key get) = 200 \<longleftrightarrow> connection = None \<and> set_key = None \<and> get = Inr (Some ''1''))
   \<and> (fst (readiness connection set_key get) \<noteq> 200 \<longrightarrow> fst (readiness connection set_key get) = 503
        \<and> (\<exists>errors. map_of (snd (readiness connection set_key get)) ''errors'' = Some (JObj errors)
            \<and> (map_of errors ''database'' \<noteq> None \<longleftrightarrow> connection \<noteq> None)
            \<and> (map_of errors ''cache'' \<noteq> None \<longleftrightarrow> set_key \<noteq> None \<or> get \<noteq> Inr (Some ''1''))))"
  by (auto simp: readiness_def readiness_errors_def Let_def split: option.splits sum.splits)

end
