(* ===== verification/Stack.thy ===== *)
theory Stack
  imports Idempotency Tenancy
begin

text \<open>
  The middleware of a deployment in the order of \<open>config/settings/base.py\<close>: tenant context,
  telemetry, rate limit, idempotency, then the view, which is where the token is validated
  (\<open>apps/tenants/authentication.py\<close>).  Both counters and stored answers live in one cache.
\<close>

section \<open>One request through the stack\<close>

text \<open>
  What arrives: the user of Django's session, if any (\<open>AuthenticationMiddleware\<close> comes first),
  the outcome of validating the bearer token, and the idempotency header.  Middleware sees
  the user of the session and no token.
\<close>

record incoming =
  in_session_user :: "user option"
  in_jwt :: "(user option \<times> (string \<rightharpoonup> string)) option res"
  in_method :: string
  in_path :: string
  in_ip :: string
  in_query :: "string \<rightharpoonup> string"
  in_idempotency_key :: "string option"

definition middleware_request :: "incoming \<Rightarrow> request" where
  "middleware_request q = \<lparr>rq_user = in_session_user q, rq_auth = None, rq_method = in_method q,
     rq_path = in_path q, rq_ip = in_ip q, rq_query = in_query q\<rparr>"

definition view_request :: "incoming \<Rightarrow> (user option \<times> (string \<rightharpoonup> string)) option \<Rightarrow> request" where
  "view_request q p = \<lparr>rq_user = (case p of None \<Rightarrow> None | Some (u, claims) \<Rightarrow> u),
     rq_auth = map_option snd p, rq_method = in_method q, rq_path = in_path q, rq_ip = in_ip q, rq_query = in_query q\<rparr>"

text \<open>
  What the layers around a view hold besides the cache: the context, the token of the bound
  scope that the authentication left on the request, and the world of the view.
\<close>

type_synonym 'w inside = "ctx \<times> ctx option \<times> 'w"

text \<open>\<open>auth_failed\<close> is the answer of the framework to a token that does not validate.\<close>

definition view_layer ::
  "(exn \<Rightarrow> http_response) \<Rightarrow> incoming \<Rightarrow> (request \<Rightarrow> ctx \<Rightarrow> 'w \<Rightarrow> http_response \<times> 'w) \<Rightarrow> 'w inside
    \<Rightarrow> http_response \<times> 'w inside" where
  "view_layer auth_failed q handler st =
     (case st of (c, _, w) \<Rightarrow>
        (case run_view (in_jwt q) (\<lambda>p c'. Inr (handler (view_request q p) c' w)) c of
           (Inl e, c', tok) \<Rightarrow> (auth_failed e, (c', tok, w))
         | (Inr (r, w'), c', tok) \<Rightarrow> (r, (c', tok, w'))))"

text \<open>
  \<open>uncaught\<close> is the page Django makes of an exception that leaves a middleware.  The rate
  limiter reads the scope bound at that moment and the resolved view, which there is none yet.
\<close>

definition guarded_view ::
  "('s, entry) cache_ops \<Rightarrow> (string \<Rightarrow> 's \<Rightarrow> int option res) \<Rightarrow> rate_config \<Rightarrow> idem_config
    \<Rightarrow> (exn \<Rightarrow> http_response) \<Rightarrow> (exn \<Rightarrow> http_response) \<Rightarrow> incoming
    \<Rightarrow> (request \<Rightarrow> ctx \<Rightarrow> 'w \<Rightarrow> http_response \<times> 'w) \<Rightarrow> 's \<Rightarrow> 'w inside \<Rightarrow> http_response \<times> 's \<times> 'w inside" where
  "guarded_view C ttl rcfg icfg auth_failed uncaught q handler s st =
     (let rq = middleware_request q;
          (out, s') = rate_limit_call C ttl rcfg (get_bound_scope (fst st)) None rq
            (\<lambda>s. let (r, s', st') = idem_call C icfg rq (in_idempotency_key q) (view_layer auth_failed q handler) s st
                 in (Inr (r, st'), s')) s
      in case out of
           Inl e \<Rightarrow> (uncaught e, s', st)
         | Inr (r, st') \<Rightarrow> (r, s', st'))"

text \<open>The whole stack: the answer, the cache, the world, the context left behind and the span attribute.\<close>

definition deployed_stack ::
  "('s, entry) cache_ops \<Rightarrow> (string \<Rightarrow> 's \<Rightarrow> int option res) \<Rightarrow> rate_config \<Rightarrow> idem_config
    \<Rightarrow> (exn \<Rightarrow> http_response) \<Rightarrow> (exn \<Rightarrow> http_response) \<Rightarrow> incoming
    \<Rightarrow> (request \<Rightarrow> ctx \<Rightarrow> 'w \<Rightarrow> http_response \<times> 'w) \<Rightarrow> 's \<Rightarrow> 'w \<Rightarrow> ctx
    \<Rightarrow> http_response \<times> 's \<times> 'w \<times> ctx \<times> string option" where
  "deployed_stack C ttl rcfg icfg auth_failed uncaught q handler s w c =
     (let ((r, s', c', tok, w'), attr) =
            tenant_telemetry_middleware (\<lambda>c. guarded_view C ttl rcfg icfg auth_failed uncaught q handler s (c, None, w)) c;
          (_, c'') = tenant_context_middleware (\<lambda>_. (Inr (), c', tok) :: unit res \<times> ctx \<times> ctx option) c
      in (r, s', w', c'', attr))"

text \<open>Requests one after the other, each with the time that passes before it; the answers in order.\<close>

fun serve ::
  "('s, entry) cache_ops \<Rightarrow> (int \<Rightarrow> 's \<Rightarrow> 's) \<Rightarrow> (string \<Rightarrow> 's \<Rightarrow> int option res) \<Rightarrow> rate_config \<Rightarrow> idem_config
    \<Rightarrow> (exn \<Rightarrow> http_response) \<Rightarrow> (exn \<Rightarrow> http_response) \<Rightarrow> (request \<Rightarrow> ctx \<Rightarrow> 'w \<Rightarrow> http_response \<times> 'w)
    \<Rightarrow> (int \<times> incoming) list \<Rightarrow> 's \<Rightarrow> 'w \<Rightarrow> ctx \<Rightarrow> http_response list \<times> 's \<times> 'w \<times> ctx" where
  "serve C wait ttl rcfg icfg auth_failed uncaught handler [] s w c = ([], s, w, c)"
| "serve C wait ttl rcfg icfg auth_failed uncaught handler ((d, q) # qs) s w c =
     (let (r, s1, w1, c1, _) = deployed_stack C ttl rcfg icfg auth_failed uncaught q handler (wait d s) w c;
          (rs, s2, w2, c2) = serve C wait ttl rcfg icfg auth_failed uncaught handler qs s1 w1 c1
      in (r # rs, s2, w2, c2))"

section \<open>Facts about the stack\<close>

lemma view_layer_ctx:
  assumes "view_layer af q h (c, tok0, w) = (r, c', tok, w')"
  shows "(tok = None \<and> c' = c) \<or> tok = Some c"
proof -
  obtain x c1 t1 where rv: "run_view (in_jwt q) (\<lambda>p c'. Inr (h (view_request q p) c' w)) c = (x, c1, t1)"
    by (metis prod_cases3)
  from run_view_ctx [OF rv] rv assms show ?thesis by (auto simp: view_layer_def split: sum.splits prod.splits)
qed

lemma idem_anonymous:
  "rq_user rq = None \<Longrightarrow> idem_call C cfg rq header h s w = (case h w of (r, w') \<Rightarrow> (r, s, w'))"
  by (simp add: idem_call_def idem_lookup_def)

lemma idem_call_inside:
  assumes "idem_call C cfg rq header h s st = (r, s', st')"
  shows "st' = st \<or> st' = snd (h st)"
  using assms by (auto simp: idem_call_def Let_def split: decision.splits prod.splits)

lemma guarded_view_ctx:
  assumes "guarded_view C ttl rcfg icfg af un q h s (c, None, w) = (r, s', c', tok, w')"
  shows "(tok = None \<and> c' = c) \<or> tok = Some c"
proof -
  let ?inner = "\<lambda>s. let (r, s', st') = idem_call C icfg (middleware_request q) (in_idempotency_key q) (view_layer af q h) s (c, None, w)
                 in (Inr (r, st'), s')"
  have ok: "(tok = None \<and> c' = c) \<or> tok = Some c" if "?inner s1 = (Inr (r, c', tok, w'), s2)" for r s1 s2 c' tok w'
  proof -
    from that obtain s3 where "idem_call C icfg (middleware_request q) (in_idempotency_key q) (view_layer af q h) s1 (c, None, w)
        = (r, s3, c', tok, w')" by (auto simp: Let_def split: prod.splits)
    from idem_call_inside [OF this] show ?thesis
      using view_layer_ctx [of af q h c None w] by (metis prod.collapse prod.inject)
  qed
  have never: "fst (?inner s1) \<noteq> Inl e" for s1 e by (auto simp: Let_def split: prod.splits)
  obtain out s2 where run: "rate_limit_call C ttl rcfg (get_bound_scope c) None (middleware_request q) ?inner s = (out, s2)"
    by fastforce
  show ?thesis
  proof (cases out)
    case (Inl e)
    with assms run show ?thesis by (simp add: guarded_view_def)
  next
    case (Inr a)
    obtain s1 where "?inner s1 = (out, s2)"
      using run Inr unfolding rate_limit_call_def
      by (auto simp: Let_def split: if_splits sum.splits prod.splits)
    moreover from Inr assms run have "a = (r, c', tok, w')" by (auto simp: guarded_view_def split: prod.splits)
    ultimately show ?thesis using ok Inr by blast
  qed
qed

text \<open>A request without a session is anonymous to the middleware: its key is not looked at.\<close>

lemma guarded_view_anonymous:
  assumes "in_session_user q = None"
  shows "guarded_view C ttl rcfg icfg af un q h s st =
    (let (out, s') = rate_limit_call C ttl rcfg (get_bound_scope (fst st)) None (middleware_request q)
           (\<lambda>s. (Inr (view_layer af q h st), s)) s
     in case out of Inl e \<Rightarrow> (un e, s', st) | Inr (r, st') \<Rightarrow> (r, s', st'))"
proof -
  have "rq_user (middleware_request q) = None" using assms by (simp add: middleware_request_def)
  then have "(\<lambda>s. let (r, s', st') = idem_call C icfg (middleware_request q) (in_idempotency_key q) (view_layer af q h) s st
                 in (Inr (r, st'), s')) = (\<lambda>s. (Inr (view_layer af q h st) :: (http_response \<times> _) res, s))"
    by (simp add: idem_anonymous fun_eq_iff split: prod.splits)
  then show ?thesis by (simp add: guarded_view_def Let_def)
qed

lemma deployed_stack_eq:
  assumes "guarded_view C ttl rcfg icfg af un q h s (c, None, w) = (r, s', c', tok, w')"
  shows "deployed_stack C ttl rcfg icfg af un q h s w c = (r, s', w', c, map_of (get_bound_scope c) ''tenant_id'')"
  using guarded_view_ctx [OF assms] assms
  by (auto simp: deployed_stack_def tenant_telemetry_middleware_def tenant_context_middleware_def unbind_scope_def Let_def)

definition client_key :: "incoming \<Rightarrow> string" where
  "client_key q = ''rate_limit:ip:'' @ in_ip q @ '':'' @ in_path q"

lemma limited_step:
  assumes "in_session_user q = None" and "rl_enabled rcfg" and "\<not> list_ex (\<lambda>p. starts_with p (in_path q)) (rl_skip_paths rcfg)"
    and "parse_rate (rl_default_rate rcfg) = Inr (count, window)"
    and "is_rate_limited C (client_key q) count window s = (limited, s1)"
  shows "\<exists>e. deployed_stack C ttl rcfg icfg af un q h s w None =
    (if limited then (un e, s1, w, None, None)
     else (fst (view_layer af q h (None, None, w)), s1, snd (snd (snd (view_layer af q h (None, None, w)))), None, None))"
proof -
  have k: "build_key (get_scope_string rcfg (get_bound_scope None)) (get_ident (middleware_request q)) (in_path q) = client_key q"
    using assms(1) by (simp add: get_bound_scope_def get_scope_string_def build_key_def get_ident_def middleware_request_def client_key_def)
  have path: "rq_path (middleware_request q) = in_path q" by (simp add: middleware_request_def)
  have call: "rate_limit_call C ttl rcfg (get_bound_scope None) None (middleware_request q)
      (\<lambda>s. (Inr (view_layer af q h (None, None, w)), s)) s =
      (if limited then
             (case ttl (client_key q) s1 of
                Inl e \<Rightarrow> (Inl e, s1)
              | Inr t \<Rightarrow> (Inl (Throttling (case t of None \<Rightarrow> window | Some r \<Rightarrow> if r > 0 then r else window)), s1))
       else (Inr (view_layer af q h (None, None, w)), s1))"
    using assms by (simp add: rate_limit_call_def is_view_opted_out_def is_skipped_path_def path k Let_def)
  obtain r c' tok w' where v: "view_layer af q h (None, None, w) = (r, c', tok, w')" by (metis prod_cases4)
  have none: "map_of (get_bound_scope None) ''tenant_id'' = None" by (simp add: get_bound_scope_def)
  show ?thesis
  proof (cases limited)
    case True
    then obtain e where "guarded_view C ttl rcfg icfg af un q h s (None, None, w) = (un e, s1, None, None, w)"
      by (cases "ttl (client_key q) s1") (auto simp: guarded_view_anonymous [OF assms(1)] call)
    with True show ?thesis using deployed_stack_eq none by fastforce
  next
    case False
    then have "guarded_view C ttl rcfg icfg af un q h s (None, None, w) = (r, s1, c', tok, w')"
      by (simp add: guarded_view_anonymous [OF assms(1)] call) (simp add: v)
    with False v show ?thesis using deployed_stack_eq none by fastforce
  qed
qed

lemma serve_decisions:
  assumes "\<forall>e. hr_status (un e) = 500" and "\<forall>e. hr_status (af e) \<noteq> 500"
    and "\<forall>rq c w. hr_status (fst (h rq c w)) \<noteq> 500"
    and "rl_enabled rcfg" and "parse_rate (rl_default_rate rcfg) = Inr (count, window)"
    and "\<forall>(d, q) \<in> set qs. in_session_user q = None \<and> client_key q = k \<and> \<not> list_ex (\<lambda>p. starts_with p (in_path q)) (rl_skip_paths rcfg)"
  shows "map (\<lambda>r. hr_status r = 500) (fst (serve C wait ttl rcfg icfg af un h qs s w None))
       = decisions C wait k count window (map fst qs) s"
  using assms(6)
proof (induction qs arbitrary: s w)
  case (Cons a qs)
  obtain d q where a: "a = (d, q)" by (cases a)
  obtain limited s1 where lim: "is_rate_limited C (client_key q) count window (wait d s) = (limited, s1)" by fastforce
  have q: "in_session_user q = None" "client_key q = k" "\<not> list_ex (\<lambda>p. starts_with p (in_path q)) (rl_skip_paths rcfg)"
    using Cons.prems a by auto
  obtain e where step: "deployed_stack C ttl rcfg icfg af un q h (wait d s) w None =
    (if limited then (un e, s1, w, None, None)
     else (fst (view_layer af q h (None, None, w)), s1, snd (snd (snd (view_layer af q h (None, None, w)))), None, None))"
    using limited_step [OF q(1) assms(4) q(3) assms(5) lim, of ttl icfg af un h w] by blast
  have "hr_status (fst (view_layer af q h (None, None, w))) \<noteq> 500"
    using assms(2,3) by (auto simp: view_layer_def run_view_def authenticate_def Let_def bind_scope_def
        split: sum.splits prod.splits option.splits if_splits) (metis fst_conv)+
  note inside = this
  have IH: "map (\<lambda>r. hr_status r = 500) (fst (serve C wait ttl rcfg icfg af un h qs s1 w' None))
      = decisions C wait k count window (map fst qs) s1" for w'
    using Cons.IH Cons.prems by simp
  show ?case
    using IH inside assms(1) lim q(2) by (simp add: a step Let_def case_prod_beta)
qed simp

section \<open>Properties of the stack\<close>

text \<open>C8: The stack leaves no trace of a tenant, and without a session it does not protect retries.
  Whatever a request does, the scope afterwards is the one before; and for a client with a
  token but no session the idempotency key makes no difference at all: with the rate limit
  off, every copy of a request runs the view, in the scope of the tenant of its token, and
  neither looks at nor stores an answer.\<close>

theorem retries_unprotected_without_session:
  assumes "in_session_user q = None" and "\<not> rl_enabled rcfg" and "in_jwt q = Inr (Some (u, claims))"
    and "claims ''tenant_id'' = Some t" and "t \<noteq> []"
  shows "(\<exists>r s' w' attr. deployed_stack C ttl rcfg' icfg af un q' h s w c = (r, s', w', c, attr))
    \<and> deployed_stack C ttl rcfg icfg af un q h s w None =
        (let (r, w') = h (view_request q (Some (u, claims))) (Some [(''tenant_id'', t)]) w in (r, s, w', None, None))
    \<and> deployed_stack C ttl rcfg icfg af un (q\<lparr>in_idempotency_key := key\<rparr>) h s w None
      = deployed_stack C ttl rcfg icfg af un q h s w None"
proof -
  obtain r s' c' tok w' where "guarded_view C ttl rcfg' icfg af un q' h s (c, None, w) = (r, s', c', tok, w')"
    by (metis prod_cases5)
  from deployed_stack_eq [OF this]
  have scope: "\<exists>r s' w' attr. deployed_stack C ttl rcfg' icfg af un q' h s w c = (r, s', w', c, attr)" by blast
  have run: "deployed_stack C ttl rcfg icfg af un p h s w None =
        (let (r, w') = h (view_request q (Some (u, claims))) (Some [(''tenant_id'', t)]) w in (r, s, w', None, None))"
    if "p = q\<lparr>in_idempotency_key := key\<rparr>" for p key
  proof -
    obtain r w' where h: "h (view_request q (Some (u, claims))) (Some [(''tenant_id'', t)]) w = (r, w')" by fastforce
    have same: "view_request (q\<lparr>in_idempotency_key := key\<rparr>) = view_request q" by (auto simp: view_request_def fun_eq_iff)
    have "guarded_view C ttl rcfg icfg af un p h s (None, None, w) = (r, s, Some [(''tenant_id'', t)], Some None, w')"
      using assms that h by (simp add: guarded_view_anonymous rate_limit_call_def view_layer_def run_view_def authenticate_def
          bind_scope_def same)
    from deployed_stack_eq [OF this] h show ?thesis by (simp add: get_bound_scope_def)
  qed
  from run [of "q\<lparr>in_idempotency_key := in_idempotency_key q\<rparr>" "in_idempotency_key q"] run [OF refl, of key] scope
  show ?thesis by simp
qed

definition sample_incoming :: incoming where
  "sample_incoming = \<lparr>in_session_user = None,
     in_jwt = Inr (Some (Some (sample_user ''u'' False), [''tenant_id'' \<mapsto> ''t1''])), in_method = ''POST'', in_path = ''/x'',
     in_ip = ''10.0.0.1'', in_query = Map.empty, in_idempotency_key = Some ''k''\<rparr>"

definition sample_rates :: "bool \<Rightarrow> rate_config" where
  "sample_rates enabled = \<lparr>rl_enabled = enabled, rl_boundary_scope = False, rl_skip_paths = [], rl_default_rate = ''1/minute''\<rparr>"

definition error_page :: "int \<Rightarrow> exn \<Rightarrow> http_response" where
  "error_page status e = \<lparr>hr_status = status, hr_body = [], hr_content_type = None\<rparr>"

lemma retries_unprotected_witness:
  "(case serve ttl_cache ttl_wait (\<lambda>k s. Inl AttributeErr) (sample_rates False) idem_defaults (error_page 401) (error_page 500)
      (\<lambda>rq c n. counting n) [(1, sample_incoming), (1, sample_incoming)] no_requests 0 None of (rs, s, n, c) \<Rightarrow> n) = 2"
proof -
  have "deployed_stack ttl_cache (\<lambda>k s. Inl AttributeErr) (sample_rates False) idem_defaults (error_page 401) (error_page 500)
      sample_incoming (\<lambda>rq c n. counting n) s n None = (fst (counting n), s, Suc n, None, None)" for s n
    using retries_unprotected_without_session [of sample_incoming "sample_rates False" "Some (sample_user ''u'' False)"
        "[''tenant_id'' \<mapsto> ''t1'']" "''t1''" ttl_cache "\<lambda>k s. Inl AttributeErr" "sample_rates False" idem_defaults
        "error_page 401" "error_page 500" sample_incoming "\<lambda>rq c n. counting n" s n None None]
    by (simp add: sample_incoming_def sample_rates_def counting_def)
  then show ?thesis by simp
qed

text \<open>C9: All clients behind one address share one window, and beyond it they get a server error.
  For requests without a session to one path from one address, whoever their tokens name, the
  first is admitted and a later one is refused exactly when its ordinal in the window exceeds
  the configured count.  The refusal is raised outside the view layer, where no handler turns
  it into 429: it is the page for an uncaught exception.  Hypotheses on the framework: it
  answers exceptions of middleware that it does not know with status 500.\<close>

theorem shared_window:
  assumes "cache_api C view wait" and "\<forall>e. hr_status (un e) = 500" and "\<forall>e. hr_status (af e) \<noteq> 500"
    and "\<forall>rq c w. hr_status (fst (h rq c w)) \<noteq> 500"
    and "rl_enabled rcfg" and "rl_skip_paths rcfg = []" and "parse_rate (rl_default_rate rcfg) = Inr (count, window)" and "0 < window"
    and "\<forall>(d, q) \<in> set qs. 0 \<le> d \<and> in_session_user q = None \<and> in_ip q = ip \<and> in_path q = path"
    and "sum_list (tl (map fst qs)) < window" and "view s (''rate_limit:ip:'' @ ip @ '':'' @ path) = None"
  shows "map (\<lambda>r. hr_status r = 500) (fst (serve C wait ttl rcfg icfg af un h qs s w None))
       = map (\<lambda>i. 0 < i \<and> count < int i + 1) [0..<length qs]"
proof -
  let ?k = "''rate_limit:ip:'' @ ip @ '':'' @ path"
  have here: "\<forall>(d, q) \<in> set qs. in_session_user q = None \<and> client_key q = ?k \<and> \<not> list_ex (\<lambda>p. starts_with p (in_path q)) (rl_skip_paths rcfg)"
    using assms(6,9) by (auto simp: client_key_def)
  have later: "\<forall>d \<in> set (map fst qs). 0 \<le> d" using assms(9) by (auto simp: split_beta)
  from assms(2,3,4,5,7) here
  have "map (\<lambda>r. hr_status r = 500) (fst (serve C wait ttl rcfg icfg af un h qs s w None))
      = decisions C wait ?k count window (map fst qs) s" by (rule serve_decisions)
  moreover have "decisions C wait ?k count window (map fst qs) s
      = map (\<lambda>i. 0 < i \<and> count < int i + 1) [0..<length (map fst qs)]"
    using cache_api.decisions_fresh [of C view wait window "map fst qs" s ?k count, OF assms(1,8) later assms(10,11)] .
  ultimately show ?thesis by (simp only: length_map)
qed

lemma shared_window_witness:
  "map (\<lambda>r. hr_status r = 500) (fst (serve ttl_cache ttl_wait (\<lambda>k s. Inl AttributeErr) (sample_rates True) idem_defaults
      (error_page 401) (error_page 500) (\<lambda>rq c n. counting n)
      [(0, sample_incoming), (5, sample_incoming\<lparr>in_jwt := Inr None\<rparr>)] no_requests 0 None)) = [False, True]"
proof -
  have "parse_rate ''1/minute'' = Inr (1, 60)" by code_simp
  then show ?thesis
    using shared_window [OF ttl.cache_api_axioms, of "error_page 500" "error_page 401" "\<lambda>rq c n. counting n" "sample_rates True" 1 60
        "[(0, sample_incoming), (5, sample_incoming\<lparr>in_jwt := Inr None\<rparr>)]" "''10.0.0.1''" "''/x''" no_requests
        "\<lambda>k s. Inl AttributeErr" idem_defaults 0]
    by (simp add: error_page_def counting_def sample_rates_def sample_incoming_def no_requests_def ttl_view_def upt_rec)
qed

end
