(* ===== verification/Viewsets.thy ===== *)
theory Viewsets
  imports Directory Documents
begin

text \<open>
  The generic resource of \<open>core/base/{views,serializers}.py\<close>: fields and their values, the
  validation lifecycle, the endpoints of \<open>BaseViewSet\<close> (create, update, destroy) composed of
  permissions, object lookup, data preparation, validation and the write lifecycle, and what
  every such endpoint does to its table and to the audit log.
\<close>

section \<open>Fields\<close>

text \<open>
  A field of a serializer: its name, whether it is required, its read-only flag as declared,
  and the reading of a value of the request.  The readings are those of the framework's fields
  for the columns the models use.
\<close>

record field =
  fd_name :: string
  fd_required :: bool
  fd_read_only :: bool
  fd_parse :: "json \<Rightarrow> json res"

definition bad_field :: "string \<Rightarrow> string \<Rightarrow> string \<Rightarrow> 'a res" where
  "bad_field name message code = Inl (ValidationError name message code)"

definition not_null :: "string \<Rightarrow> (json \<Rightarrow> json res) \<Rightarrow> json \<Rightarrow> json res" where
  "not_null name parse v = (if v = JNull then bad_field name ''This field may not be null.'' ''null'' else parse v)"

definition nullable :: "(json \<Rightarrow> json res) \<Rightarrow> json \<Rightarrow> json res" where
  "nullable parse v = (if v = JNull then Inr JNull else parse v)"

definition char_value :: "string \<Rightarrow> bool \<Rightarrow> nat option \<Rightarrow> json \<Rightarrow> json res" where
  "char_value name allow_blank max_length v =
     (if (case v of JStr _ \<Rightarrow> True | JInt _ \<Rightarrow> True | JFloat _ \<Rightarrow> True | _ \<Rightarrow> False)
      then let s = strip (json_str v) in
           if s = [] then (if allow_blank then Inr (JStr []) else bad_field name ''This field may not be blank.'' ''blank'')
           else (case max_length of
                   None \<Rightarrow> Inr (JStr s)
                 | Some n \<Rightarrow> if n < length s then bad_field name (''Ensure this field has no more than '' @ show_int (int n) @ '' characters.'') ''max_length''
                            else Inr (JStr s))
      else bad_field name ''Not a valid string.'' ''invalid'')"

text \<open>\<open>spelling\<close> are the strings and numbers the framework reads as a Boolean.\<close>

definition bool_value :: "(json \<Rightarrow> bool option) \<Rightarrow> string \<Rightarrow> json \<Rightarrow> json res" where
  "bool_value spelling name v =
     (case v of
        JBool b \<Rightarrow> Inr v
      | _ \<Rightarrow> (case spelling v of None \<Rightarrow> bad_field name ''Must be a valid boolean.'' ''invalid'' | Some b \<Rightarrow> Inr (JBool b)))"

definition choice_value :: "string list \<Rightarrow> string \<Rightarrow> json \<Rightarrow> json res" where
  "choice_value choices name v =
     (if json_str v \<in> set choices then Inr (JStr (json_str v))
      else bad_field name (quoted (json_str v) @ '' is not a valid choice.'') ''invalid_choice'')"

text \<open>
  A foreign key is read by the key among the rows of the related model's default manager, at
  the time of the request; the empty string counts as null.
\<close>

definition fk_value :: "('r \<Rightarrow> string) \<Rightarrow> 'r list \<Rightarrow> string \<Rightarrow> json \<Rightarrow> json res" where
  "fk_value pk_of rows name v =
     (case v of
        JStr k \<Rightarrow>
          (case qs_get (\<lambda>r. pk_of r = k) rows of
             Inr r \<Rightarrow> Inr (JStr (pk_of r))
           | Inl DoesNotExist \<Rightarrow> bad_field name (''Invalid pk '' @ quoted k @ '' - object does not exist.'') ''does_not_exist''
           | Inl e \<Rightarrow> Inl e)
      | _ \<Rightarrow> bad_field name ''Incorrect type.'' ''incorrect_type'')"

definition fk_null :: "json \<Rightarrow> json" where
  "fk_null v = (if v = JStr [] then JNull else v)"

text \<open>
  \<open>to_internal_value\<close>: the fields in their order; absent ones are skipped, unless required and
  the request is not partial.  (The framework collects the errors of all fields; the first is
  given here.)
\<close>

fun run_fields :: "bool \<Rightarrow> field list \<Rightarrow> attrs \<Rightarrow> attrs res" where
  "run_fields partial [] data = Inr []"
| "run_fields partial (f # fs) data =
     (case map_of data (fd_name f) of
        None \<Rightarrow>
          if fd_required f \<and> \<not> partial then bad_field (fd_name f) ''This field is required.'' ''required''
          else run_fields partial fs data
      | Some v \<Rightarrow>
          bind_res (fd_parse f v) (\<lambda>x. bind_res (run_fields partial fs data) (\<lambda>r. Inr ((fd_name f, x) # r))))"

text \<open>\<open>get_fields\<close> with the plugin that marks fields read-only by their columns; what is left to write.\<close>

definition get_fields :: "(string \<rightharpoonup> model_field) \<Rightarrow> field list \<Rightarrow> field list" where
  "get_fields model fs =
     (let flags = map_of (filter_fields model (map (\<lambda>f. (fd_name f, fd_read_only f)) fs)) in
      map (\<lambda>f. f\<lparr>fd_read_only := (flags (fd_name f) = Some True)\<rparr>) fs)"

definition writable :: "field list \<Rightarrow> field list" where
  "writable fs = filter (\<lambda>f. \<not> fd_read_only f) fs"

section \<open>The validation lifecycle\<close>

record 'w validation =
  va_pre :: "attrs \<Rightarrow> ('w, unit) act"
  va_do :: "attrs \<Rightarrow> ('w, attrs) act"
  va_post :: "attrs \<Rightarrow> ('w, unit) act"

definition default_validation :: "'w validation" where
  "default_validation = \<lparr>va_pre = (\<lambda>d. ret ()), va_do = ret, va_post = (\<lambda>d. ret ())\<rparr>"

text \<open>\<open>validate\<close>: the hooks of the plugins around those of the serializer.\<close>

definition serializer_validate ::
  "(attrs \<Rightarrow> ('w, unit) act) option list \<Rightarrow> (attrs \<Rightarrow> ('w, unit) act) option list \<Rightarrow> 'w validation
    \<Rightarrow> attrs \<Rightarrow> ('w, attrs) act" where
  "serializer_validate on_pre on_post V d =
     bind_act (run_instance_hooks on_pre d) (\<lambda>_.
     bind_act (va_pre V d) (\<lambda>_.
     bind_act (va_do V d) (\<lambda>d'.
     bind_act (va_post V d') (\<lambda>_.
     bind_act (run_instance_hooks on_post d') (\<lambda>_. ret d')))))"

text \<open>\<open>validate_slug\<close>; \<open>slugify\<close> is the library's.\<close>

definition validate_slug :: "(string \<Rightarrow> string) \<Rightarrow> attrs \<Rightarrow> string \<Rightarrow> string" where
  "validate_slug slugify initial_data v =
     (if v = [] then slugify (json_str (case map_of initial_data ''name'' of None \<Rightarrow> JStr [] | Some n \<Rightarrow> n)) else v)"

text \<open>\<open>SoftDeletableSerializerMixin.to_representation\<close>: \<open>r\<close> is what the framework renders.\<close>

definition soft_deletable_representation :: "int option \<Rightarrow> attrs \<Rightarrow> attrs" where
  "soft_deletable_representation deleted_at r =
     (if deleted_at \<noteq> None then dict_set ''is_deleted'' (JBool True) r
      else dict_pop ''deleted_by'' (dict_pop ''deleted_at'' r))"

section \<open>Resources\<close>

text \<open>
  What a view set and its serializer declare: the model's label, key, tenant, deletion mark and
  table, the parents in the URL, the write permissions, the columns, fields and validators, and
  the hooks \<open>do_validate\<close> and \<open>pre_create\<close>; \<open>rs_build\<close> is the model's constructor, \<open>rs_assign\<close>
  the loop of \<open>do_update\<close>, \<open>rs_clash\<close> says which rows the unique constraints forbid beside each other.
\<close>

record ('i, 'w) resource =
  rs_label :: string
  rs_pk :: "'i \<Rightarrow> string"
  rs_tenant :: "'i \<Rightarrow> string"
  rs_deleted :: "'i \<Rightarrow> bool"
  rs_rows :: "'w \<Rightarrow> 'i list"
  rs_put :: "'i list \<Rightarrow> 'w \<Rightarrow> 'w"
  rs_parents :: "(string \<times> ('i \<Rightarrow> string)) list"
  rs_write_permissions :: "permission list option"
  rs_model :: "string \<rightharpoonup> model_field"
  rs_fields :: "ctx \<Rightarrow> 'w \<Rightarrow> field list"
  rs_validator :: "ctx \<Rightarrow> (string \<rightharpoonup> json) \<Rightarrow> 'i option \<Rightarrow> 'w \<Rightarrow> attrs \<Rightarrow> unit res"
  rs_do_validate :: "ctx \<Rightarrow> 'i option \<Rightarrow> 'w \<Rightarrow> attrs \<Rightarrow> unit res"
  rs_pre_create :: "ctx \<Rightarrow> 'w \<Rightarrow> attrs \<Rightarrow> attrs res"
  rs_build :: "string \<Rightarrow> attrs \<Rightarrow> 'i"
  rs_assign :: "attrs \<Rightarrow> 'i \<Rightarrow> 'i"
  rs_mark_deleted :: "int \<Rightarrow> 'i \<Rightarrow> 'i"
  rs_clash :: "'i \<Rightarrow> 'i \<Rightarrow> bool"
  rs_attr :: "'i \<Rightarrow> string \<rightharpoonup> json"
  rs_represent :: "'i \<Rightarrow> attrs"

text \<open>\<open>do_create\<close>, \<open>do_update\<close> and the soft deletion, with the constraints of the database.\<close>

definition rs_free :: "('i, 'w) resource \<Rightarrow> 'i \<Rightarrow> 'i list \<Rightarrow> bool" where
  "rs_free R i rows = list_all (\<lambda>r. \<not> rs_clash R r i) rows"

definition do_create :: "('i, 'w) resource \<Rightarrow> string \<Rightarrow> attrs \<Rightarrow> ('w app, 'i) act" where
  "do_create R fresh d w =
     (let i = rs_build R fresh d; rows = rs_rows R (ap_db w) in
      if rs_free R i rows then (Inr i, w\<lparr>ap_db := rs_put R (rows @ [i]) (ap_db w)\<rparr>) else (Inl IntegrityErr, w))"

definition do_update :: "('i, 'w) resource \<Rightarrow> 'i \<Rightarrow> attrs \<Rightarrow> ('w app, 'i) act" where
  "do_update R i d w =
     (let i' = rs_assign R d i; rows = rs_rows R (ap_db w) in
      if rs_free R i' (filter (\<lambda>r. rs_pk R r \<noteq> rs_pk R i) rows)
      then (Inr i', w\<lparr>ap_db := rs_put R (save_row (\<lambda>r. rs_pk R r = rs_pk R i) (\<lambda>_. i') rows) (ap_db w)\<rparr>)
      else (Inl IntegrityErr, w))"

definition delete_row :: "('i, 'w) resource \<Rightarrow> int \<Rightarrow> 'i \<Rightarrow> ('w app, unit) act" where
  "delete_row R now i w =
     (Inr (), w\<lparr>ap_db := rs_put R (save_row (\<lambda>r. rs_pk R r = rs_pk R i) (\<lambda>_. rs_mark_deleted R now i)
        (rs_rows R (ap_db w))) (ap_db w)\<rparr>)"

definition resource_hooks :: "('i, 'w) resource \<Rightarrow> ctx \<Rightarrow> string \<Rightarrow> ('i, 'w app) hooks" where
  "resource_hooks R c fresh =
     (default_hooks (do_create R fresh) (do_update R))
       \<lparr>hk_pre_create := (\<lambda>d w. (rs_pre_create R c (ap_db w) d, w))\<rparr>"

section \<open>Endpoints\<close>

definition removesuffix :: "string \<Rightarrow> string \<Rightarrow> string" where
  "removesuffix s suf =
     (if length suf \<le> length s \<and> drop (length s - length suf) s = suf then take (length s - length suf) s else s)"

definition clean_create_data :: "string list \<Rightarrow> (string \<rightharpoonup> string) \<Rightarrow> attrs \<Rightarrow> attrs" where
  "clean_create_data parents url_kwargs data =
     fold (\<lambda>k d. case url_kwargs k of None \<Rightarrow> d | Some v \<Rightarrow> dict_set (removesuffix k ''_id'') (JStr v) d) parents data"

definition clean_update_data :: "attrs \<Rightarrow> attrs" where
  "clean_update_data data = data"

definition view_permissions :: "('i, 'w) resource \<Rightarrow> string \<Rightarrow> permission list" where
  "view_permissions R action = get_permissions (rs_write_permissions R) [PIsAuthenticated] action"

text \<open>\<open>get_object\<close>: the row of the key among those the view shows to this request.\<close>

definition get_object ::
  "('i, 'w) resource \<Rightarrow> ctx \<Rightarrow> membership list \<Rightarrow> request \<Rightarrow> (string \<rightharpoonup> string) \<Rightarrow> string \<Rightarrow> 'w \<Rightarrow> 'i res" where
  "get_object R c mbs rq url_kwargs pk db =
     bind_res (list_rows None True (Some (rs_tenant R)) (rs_parents R) url_kwargs (admin_somewhere c rq mbs)
         (Some (rs_deleted R)) rq (rs_rows R db)) (\<lambda>rows.
       case qs_get (\<lambda>r. rs_pk R r = pk) rows of Inl _ \<Rightarrow> Inl NotFound | Inr r \<Rightarrow> Inr r)"

text \<open>\<open>is_valid\<close>: the fields, the validators of the serializer, then \<open>validate\<close>.  No configured plugin has a validation hook.\<close>

definition run_validation ::
  "('i, 'w) resource \<Rightarrow> ctx \<Rightarrow> request \<Rightarrow> 'i option \<Rightarrow> bool \<Rightarrow> attrs \<Rightarrow> ('w app, attrs) act" where
  "run_validation R c rq instance_row partial data w =
     bind_act (lift_res (run_fields partial (writable (get_fields (rs_model R) (rs_fields R c (ap_db w)))) data)) (\<lambda>d.
     bind_act (lift_res (rs_validator R c (plugin_context rq) instance_row (ap_db w) d)) (\<lambda>_.
     serializer_validate [None, None, None] [None, None, None]
       (default_validation\<lparr>va_do := (\<lambda>d w. (bind_res (rs_do_validate R c instance_row (ap_db w) d) (\<lambda>_. Inr d), w))\<rparr>) d)) w"

definition resource_plugins :: "('i, 'w) resource \<Rightarrow> request \<Rightarrow> attrs \<Rightarrow> ('i, 'w app) plugin list" where
  "resource_plugins R rq validated =
     write_plugins (rs_tenant R) rq (rs_label R) (rs_pk R) (rs_represent R) validated (rs_attr R)"

text \<open>\<open>perform_create\<close> and \<open>perform_update\<close> run the view's own hooks, which nothing overrides, around \<open>save\<close>.\<close>

definition perform_save :: "('w, unit) act \<Rightarrow> ('w, 'i) act \<Rightarrow> ('i \<Rightarrow> ('w, unit) act) \<Rightarrow> ('w, 'i) act" where
  "perform_save pre save post = bind_act pre (\<lambda>_. bind_act save (\<lambda>i. bind_act (post i) (\<lambda>_. ret i)))"

definition create_endpoint ::
  "('i, 'w) resource \<Rightarrow> ctx \<Rightarrow> membership list \<Rightarrow> request \<Rightarrow> (string \<rightharpoonup> string) \<Rightarrow> string \<Rightarrow> attrs \<Rightarrow> ('w app, 'i) act" where
  "create_endpoint R c mbs rq url_kwargs fresh body =
     bind_act (lift_res (check_permissions (view_permissions R ''create'') c mbs rq)) (\<lambda>_.
     bind_act (run_validation R c rq None False (clean_create_data (map fst (rs_parents R)) url_kwargs body)) (\<lambda>d.
       perform_save (ret ()) (serializer_create (resource_plugins R rq d) (resource_hooks R c fresh) d) (\<lambda>_. ret ())))"

definition update_endpoint ::
  "('i, 'w) resource \<Rightarrow> ctx \<Rightarrow> membership list \<Rightarrow> request \<Rightarrow> (string \<rightharpoonup> string) \<Rightarrow> string \<Rightarrow> bool \<Rightarrow> attrs \<Rightarrow> ('w app, 'i) act" where
  "update_endpoint R c mbs rq url_kwargs pk partial body =
     bind_act (lift_res (check_permissions (view_permissions R (if partial then ''partial_update'' else ''update'')) c mbs rq)) (\<lambda>_.
     bind_act (\<lambda>w. (get_object R c mbs rq url_kwargs pk (ap_db w), w)) (\<lambda>i.
     bind_act (run_validation R c rq (Some i) partial (clean_update_data body)) (\<lambda>d.
       perform_save (ret ()) (serializer_update (resource_plugins R rq d) (default_hooks (do_create R []) (do_update R)) i d)
         (\<lambda>_. ret ()))))"

definition destroy_endpoint ::
  "('i, 'w) resource \<Rightarrow> ctx \<Rightarrow> membership list \<Rightarrow> request \<Rightarrow> (string \<rightharpoonup> string) \<Rightarrow> string \<Rightarrow> int \<Rightarrow> ('w app, unit) act" where
  "destroy_endpoint R c mbs rq url_kwargs pk now =
     bind_act (lift_res (check_permissions (view_permissions R ''destroy'') c mbs rq)) (\<lambda>_.
     bind_act (\<lambda>w. (get_object R c mbs rq url_kwargs pk (ap_db w), w)) (\<lambda>i.
       perform_destroy (ret ()) (delete_row R now i) (ret ()) (Some rq) (rs_label R) (rs_pk R i)))"

section \<open>What an endpoint does\<close>

lemma run_fields_Cons:
  assumes "run_fields partial (f # fs) data = Inr d"
  shows "(map_of data (fd_name f) = None \<and> run_fields partial fs data = Inr d)
    \<or> (\<exists>v x r. map_of data (fd_name f) = Some v \<and> fd_parse f v = Inr x \<and> run_fields partial fs data = Inr r
         \<and> d = (fd_name f, x) # r)"
  using assms by (cases "map_of data (fd_name f)") (auto simp: bind_res_Inr_iff bad_field_def split: if_splits)

lemma run_fields_keys: "run_fields partial fs data = Inr d \<Longrightarrow> set (keys d) \<subseteq> fd_name ` set fs"
proof (induction fs arbitrary: d)
  case (Cons f fs)
  from run_fields_Cons [OF Cons.prems] show ?case by (elim disjE exE conjE) (drule Cons.IH; simp add: subset_insertI2)+
qed simp

lemma perform_save_plain [simp]: "perform_save (ret ()) save (\<lambda>_. ret ()) = save"
  by (auto simp: perform_save_def bind_act_def ret_def fun_eq_iff split: prod.splits sum.splits)

lemma run_fields_given:
  "run_fields partial fs data = Inr d \<Longrightarrow> map_of data k = None \<Longrightarrow> map_of d k = None"
proof (induction fs arbitrary: d)
  case (Cons f fs)
  from run_fields_Cons [OF Cons.prems(1)] Cons.IH Cons.prems(2) show ?case by auto
qed simp

lemma get_fields_names: "fd_name ` set (writable (get_fields model fs)) \<subseteq> fd_name ` set fs"
  by (auto simp: get_fields_def writable_def Let_def)

lemma run_fields_value:
  "run_fields partial fs data = Inr d \<Longrightarrow> map_of d k = Some x
     \<Longrightarrow> \<exists>f \<in> set fs. \<exists>v. fd_name f = k \<and> map_of data k = Some v \<and> fd_parse f v = Inr x"
proof (induction fs arbitrary: d)
  case (Cons f fs)
  from run_fields_Cons [OF Cons.prems(1)] show ?case
  proof (elim disjE exE conjE)
    assume "run_fields partial fs data = Inr d"
    from Cons.IH [OF this Cons.prems(2)] show ?thesis by (simp add: Bex_def) blast
  next
    fix v y r
    assume f: "map_of data (fd_name f) = Some v" "fd_parse f v = Inr y" "run_fields partial fs data = Inr r" "d = (fd_name f, y) # r"
    show ?thesis
    proof (cases "fd_name f = k")
      case True
      with f Cons.prems(2) show ?thesis by auto
    next
      case False
      with f Cons.prems(2) have "map_of r k = Some x" by simp
      from Cons.IH [OF f(3) this] show ?thesis by (simp add: Bex_def) blast
    qed
  qed
qed simp

lemma run_fields_required:
  "run_fields False fs data = Inr d \<Longrightarrow> f \<in> set fs \<Longrightarrow> fd_required f \<Longrightarrow> map_of d (fd_name f) \<noteq> None"
proof (induction fs arbitrary: d)
  case (Cons g fs)
  show ?case
  proof (cases "map_of data (fd_name g)")
    case None
    with Cons.prems(1) have "\<not> fd_required g" "run_fields False fs data = Inr d"
      by (auto simp: bad_field_def split: if_splits)
    with Cons show ?thesis by auto
  next
    case (Some v)
    from run_fields_Cons [OF Cons.prems(1)] Some obtain y r where "run_fields False fs data = Inr r" "d = (fd_name g, y) # r" by auto
    with Cons.IH [of r] Cons.prems(2,3) show ?thesis by auto
  qed
qed simp

lemma writable_fields:
  assumes "f \<in> set (writable (get_fields model fs))"
  shows "\<exists>g \<in> set fs. fd_name g = fd_name f \<and> fd_parse g = fd_parse f"
  using assms by (auto simp: writable_def get_fields_def Let_def)

lemma validated_value:
  assumes "run_fields partial (writable (get_fields model fs)) data = Inr d" and "map_of d k = Some x"
  shows "\<exists>f \<in> set fs. \<exists>v. fd_name f = k \<and> map_of data k = Some v \<and> fd_parse f v = Inr x"
  using run_fields_value [OF assms] writable_fields by metis

lemma fk_value_Inr: "fk_value pk_of rows n v = Inr x \<Longrightarrow> \<exists>r \<in> set rows. x = JStr (pk_of r) \<and> v = x"
  by (auto simp: fk_value_def bad_field_def split: json.splits sum.splits exn.splits dest: qs_get_Inr_D)

lemma run_validation_Inr:
  "run_validation R c rq i partial data w = (Inr d, w') \<longleftrightarrow>
     w' = w \<and> run_fields partial (writable (get_fields (rs_model R) (rs_fields R c (ap_db w)))) data = Inr d
     \<and> rs_validator R c (plugin_context rq) i (ap_db w) d = Inr () \<and> rs_do_validate R c i (ap_db w) d = Inr ()"
  by (auto simp: run_validation_def serializer_validate_def default_validation_def bind_act_def ret_def
      bind_res_def split: sum.splits)

lemma run_validation_Inl: "run_validation R c rq i partial data w = (Inl e, w') \<Longrightarrow> w' = w"
  by (auto simp: run_validation_def serializer_validate_def default_validation_def bind_act_def ret_def
      bind_res_def split: sum.splits)

lemma view_permissions_user:
  assumes "check_permissions (view_permissions R action) c mbs rq = Inr v"
  obtains u where "rq_user rq = Some u"
  using assms by (cases "rq_user rq") (auto simp: check_permissions_def view_permissions_def get_permissions_def
      guard_Inr_iff permits_def is_authenticated_permission_def split: option.splits list.splits if_splits)

lemma get_object_own:
  assumes "get_object R c mbs rq kw pk db = Inr i"
  shows "i \<in> set (rs_rows R db)" and "tenant_of rq = Some (rs_tenant R i)" and "rs_pk R i = pk"
proof -
  let ?shown = "list_rows None True (Some (rs_tenant R)) (rs_parents R) kw (admin_somewhere c rq mbs)
         (Some (rs_deleted R)) rq (rs_rows R db)"
  obtain rows where rows: "?shown = Inr rows" using assms by (cases ?shown) (auto simp: get_object_def)
  then have get: "qs_get (\<lambda>r. rs_pk R r = pk) rows = Inr i"
    using assms by (cases "qs_get (\<lambda>r. rs_pk R r = pk) rows") (auto simp: get_object_def)
  note i = qs_get_Inr_D [OF get]
  from list_rows_own [OF rows i(1)] i(2)
  show "i \<in> set (rs_rows R db)" "tenant_of rq = Some (rs_tenant R i)" "rs_pk R i = pk" by auto
qed

definition audit_row :: "user \<Rightarrow> string \<Rightarrow> string \<Rightarrow> string \<Rightarrow> string \<Rightarrow> attrs \<Rightarrow> audit_entry" where
  "audit_row u action label pk t changes = \<lparr>au_actor = u, au_action = action, au_target_type = label,
     au_target_id = pk, au_tenant = Some t, au_changes = changes\<rparr>"

text \<open>
  A refused create changes nothing; one that succeeds appends the built row, with the tenant
  of the token, and one entry of the audit log.
\<close>

lemma create_endpoint_outcome:
  assumes "create_endpoint R c mbs rq kw fresh body w = (x, w')"
  shows "(\<exists>e. x = Inl e \<and> w' = w)
    \<or> (\<exists>u t d d' i. rq_user rq = Some u \<and> tenant_of rq = Some t
        \<and> run_fields False (writable (get_fields (rs_model R) (rs_fields R c (ap_db w))))
            (clean_create_data (map fst (rs_parents R)) kw body) = Inr d
        \<and> rs_validator R c (plugin_context rq) None (ap_db w) d = Inr () \<and> rs_do_validate R c None (ap_db w) d = Inr ()
        \<and> rs_pre_create R c (ap_db w) (dict_set ''tenant_id'' (JStr t) d) = Inr d'
        \<and> i = rs_build R fresh d' \<and> rs_free R i (rs_rows R (ap_db w)) \<and> x = Inr i
        \<and> w' = \<lparr>ap_db = rs_put R (rs_rows R (ap_db w) @ [i]) (ap_db w),
              ap_audit = ap_audit w @ [audit_row u ''create'' (rs_label R) (rs_pk R i) t (rs_represent R i)]\<rparr>)"
proof (cases "check_permissions (view_permissions R ''create'') c mbs rq")
  case (Inl e)
  with assms show ?thesis by (intro disjI1) (auto simp: create_endpoint_def)
next
  case ok: (Inr _)
  then obtain u where u: "rq_user rq = Some u" by (rule view_permissions_user)
  let ?data = "clean_create_data (map fst (rs_parents R)) kw body"
  obtain v w1 where v: "run_validation R c rq None False ?data w = (v, w1)" by fastforce
  show ?thesis
  proof (cases v)
    case (Inl e)
    with v have "w1 = w" using run_validation_Inl by metis
    with Inl v assms ok show ?thesis by (intro disjI1) (auto simp: create_endpoint_def bind_act_Inl)
  next
    case valid: (Inr d)
    with v have d: "run_validation R c rq None False ?data w = (Inr d, w)" using run_validation_Inr by metis
    note valid = d [unfolded run_validation_Inr]
    have run: "(x, w') = serializer_create (resource_plugins R rq d) (resource_hooks R c fresh) d w"
      using assms by (simp add: create_endpoint_def ok bind_act_Inr [of "run_validation R c rq None False ?data", OF d])
    show ?thesis
    proof (cases "tenant_of rq")
      case None
      with run show ?thesis by (intro disjI1) (auto simp: resource_plugins_def serializer_create_eq)
    next
      case (Some t)
      let ?d = "dict_set ''tenant_id'' (JStr t) d"
      show ?thesis
      proof (cases "rs_pre_create R c (ap_db w) ?d")
        case (Inl e)
        with run Some show ?thesis by (intro disjI1) (auto simp: resource_plugins_def serializer_create_eq own_create_def resource_hooks_def
            default_hooks_def bind_act_def)
      next
        case (Inr d')
        let ?i = "rs_build R fresh d'"
        have own: "own_create (resource_hooks R c fresh) ?d w = do_create R fresh d' w"
          using Inr by (auto simp: own_create_def resource_hooks_def default_hooks_def bind_act_def ret_def split: prod.splits sum.splits)
        show ?thesis
        proof (cases "rs_free R ?i (rs_rows R (ap_db w))")
          case False
          then have "do_create R fresh d' w = (Inl IntegrityErr, w)" by (simp add: do_create_def Let_def)
          with run Some own show ?thesis by (intro disjI1) (auto simp: resource_plugins_def serializer_create_eq)
        next
          case True
          then have "do_create R fresh d' w = (Inr ?i, w\<lparr>ap_db := rs_put R (rs_rows R (ap_db w) @ [?i]) (ap_db w)\<rparr>)"
            by (simp add: do_create_def Let_def)
          with run Some own u have "x = Inr ?i" "w' = \<lparr>ap_db = rs_put R (rs_rows R (ap_db w) @ [?i]) (ap_db w),
              ap_audit = ap_audit w @ [audit_row u ''create'' (rs_label R) (rs_pk R ?i) t (rs_represent R ?i)]\<rparr>"
            by (simp_all add: resource_plugins_def serializer_create_eq audit_row_def)
          with u Some valid Inr True show ?thesis by blast
        qed
      qed
    qed
  qed
qed

lemma update_endpoint_outcome:
  assumes "update_endpoint R c mbs rq kw pk partial body w = (x, w')"
    and "\<And>db. ''tenant_id'' \<notin> fd_name ` set (rs_fields R c db)"
  shows "(\<exists>e. x = Inl e \<and> w' = w)
    \<or> (\<exists>u t d i i'. rq_user rq = Some u \<and> tenant_of rq = Some t \<and> get_object R c mbs rq kw pk (ap_db w) = Inr i
        \<and> run_fields partial (writable (get_fields (rs_model R) (rs_fields R c (ap_db w)))) body = Inr d
        \<and> map_of d ''tenant_id'' = None
        \<and> rs_validator R c (plugin_context rq) (Some i) (ap_db w) d = Inr () \<and> rs_do_validate R c (Some i) (ap_db w) d = Inr ()
        \<and> i' = rs_assign R d i \<and> rs_free R i' (filter (\<lambda>r. rs_pk R r \<noteq> pk) (rs_rows R (ap_db w))) \<and> x = Inr i'
        \<and> w' = \<lparr>ap_db = rs_put R (save_row (\<lambda>r. rs_pk R r = pk) (\<lambda>_. i') (rs_rows R (ap_db w))) (ap_db w),
              ap_audit = ap_audit w @ [audit_row u ''update'' (rs_label R) (rs_pk R i') t (build_update_diff d (rs_attr R) i')]\<rparr>)"
proof (cases "check_permissions (view_permissions R (if partial then ''partial_update'' else ''update'')) c mbs rq")
  case (Inl e)
  with assms(1) show ?thesis by (intro disjI1) (auto simp: update_endpoint_def)
next
  case ok: (Inr _)
  then obtain u where u: "rq_user rq = Some u" by (rule view_permissions_user)
  show ?thesis
  proof (cases "get_object R c mbs rq kw pk (ap_db w)")
    case (Inl e)
    with assms(1) ok show ?thesis by (intro disjI1 exI [of _ e]) (auto simp: update_endpoint_def bind_act_def)
  next
    case obj: (Inr i)
    note own = get_object_own [OF obj]
    obtain v w1 where v: "run_validation R c rq (Some i) partial (clean_update_data body) w = (v, w1)" by fastforce
    let ?rest = "\<lambda>i. bind_act (run_validation R c rq (Some i) partial (clean_update_data body)) (\<lambda>d.
       serializer_update (resource_plugins R rq d) (default_hooks (do_create R []) (do_update R)) i d)"
    have found: "bind_act (\<lambda>w. (get_object R c mbs rq kw pk (ap_db w), w)) ?rest w = ?rest i w"
      by (rule bind_act_Inr [of "\<lambda>w. (get_object R c mbs rq kw pk (ap_db w), w)" w i w]) (simp only: obj)
    have "update_endpoint R c mbs rq kw pk partial body w = bind_act (\<lambda>w. (get_object R c mbs rq kw pk (ap_db w), w)) ?rest w"
      unfolding update_endpoint_def ok bind_act_simps perform_save_plain ..
    from trans [OF this found] have step: "(x, w') = ?rest i w" unfolding assms(1) .
    show ?thesis
    proof (cases v)
      case (Inl e)
      with v have "w1 = w" using run_validation_Inl by metis
      with Inl v step show ?thesis by (intro disjI1) (auto simp: bind_act_Inl)
    next
      case valid: (Inr d)
      with v have d: "run_validation R c rq (Some i) partial (clean_update_data body) w = (Inr d, w)" using run_validation_Inr by metis
      note valid = d [unfolded run_validation_Inr clean_update_data_def]
      from valid have "run_fields partial (writable (get_fields (rs_model R) (rs_fields R c (ap_db w)))) body = Inr d" by blast
      from order_trans [OF run_fields_keys [OF this] get_fields_names] assms(2) [of "ap_db w"]
      have fresh: "map_of d ''tenant_id'' = None" by (auto simp: map_of_eq_None_iff)
      have run: "(x, w') = serializer_update (resource_plugins R rq d) (default_hooks (do_create R []) (do_update R)) i d w"
        using step by (simp add: bind_act_Inr [of "run_validation R c rq (Some i) partial (clean_update_data body)", OF d])
      let ?i = "rs_assign R d i"
      show ?thesis
      proof (cases "rs_free R ?i (filter (\<lambda>r. rs_pk R r \<noteq> pk) (rs_rows R (ap_db w)))")
        case False
        then have "do_update R i d w = (Inl IntegrityErr, w)" using own(3) by (simp add: do_update_def Let_def)
        with run show ?thesis by (intro disjI1) (auto simp: resource_plugins_def serializer_update_eq [OF u fresh])
      next
        case True
        then have "do_update R i d w = (Inr ?i, w\<lparr>ap_db := rs_put R (save_row (\<lambda>r. rs_pk R r = pk) (\<lambda>_. ?i) (rs_rows R (ap_db w))) (ap_db w)\<rparr>)"
          using own(3) by (simp add: do_update_def Let_def)
        moreover from own(2) have "get_tenant_id rq = Some (rs_tenant R i)" by (simp add: tenant_of_Some_iff)
        ultimately have "x = Inr ?i" "w' = \<lparr>ap_db = rs_put R (save_row (\<lambda>r. rs_pk R r = pk) (\<lambda>_. ?i) (rs_rows R (ap_db w))) (ap_db w),
              ap_audit = ap_audit w @ [audit_row u ''update'' (rs_label R) (rs_pk R ?i) (rs_tenant R i) (build_update_diff d (rs_attr R) ?i)]\<rparr>"
          using run by (simp_all add: resource_plugins_def serializer_update_eq [OF u fresh] audit_row_def)
        with u own(2) obj valid fresh True show ?thesis by blast
      qed
    qed
  qed
qed

lemma destroy_endpoint_outcome:
  assumes "destroy_endpoint R c mbs rq kw pk now w = (x, w')"
  shows "(\<exists>e. x = Inl e \<and> w' = w)
    \<or> (\<exists>u t i. rq_user rq = Some u \<and> tenant_of rq = Some t \<and> get_object R c mbs rq kw pk (ap_db w) = Inr i \<and> x = Inr ()
        \<and> w' = \<lparr>ap_db = rs_put R (save_row (\<lambda>r. rs_pk R r = pk) (\<lambda>_. rs_mark_deleted R now i) (rs_rows R (ap_db w))) (ap_db w),
              ap_audit = ap_audit w @ [audit_row u ''delete'' (rs_label R) pk t []]\<rparr>)"
proof (cases "check_permissions (view_permissions R ''destroy'') c mbs rq")
  case (Inl e)
  with assms show ?thesis by (intro disjI1 exI [of _ e]) (auto simp: destroy_endpoint_def)
next
  case ok: (Inr _)
  then obtain u where u: "rq_user rq = Some u" by (rule view_permissions_user)
  show ?thesis
  proof (cases "get_object R c mbs rq kw pk (ap_db w)")
    case (Inl e)
    with assms ok show ?thesis by (intro disjI1 exI [of _ e]) (auto simp: destroy_endpoint_def bind_act_def)
  next
    case obj: (Inr i)
    note own = get_object_own [OF obj]
    from own(2) have "get_tenant_id rq = Some (rs_tenant R i)" by (simp add: tenant_of_Some_iff)
    with assms ok obj u own(3)
    have "x = Inr ()" "w' = \<lparr>ap_db = rs_put R (save_row (\<lambda>r. rs_pk R r = pk) (\<lambda>_. rs_mark_deleted R now i) (rs_rows R (ap_db w))) (ap_db w),
              ap_audit = ap_audit w @ [audit_row u ''delete'' (rs_label R) pk (rs_tenant R i) []]\<rparr>"
      by (auto simp: destroy_endpoint_def bind_act_def perform_destroy_def delete_row_def audit_on_post_destroy_def
          audit_write_def log_audit_def injection_tenant_id_def ret_def audit_row_def)
    with u own(2) obj show ?thesis by blast
  qed
qed

section \<open>Writes to a table\<close>

text \<open>
  What a successful request does to the table: it adds a row of the tenant, or replaces one by
  a row with the same key and tenant, and logs it.
\<close>

inductive writes :: "('i, 'w) resource \<Rightarrow> string \<Rightarrow> 'w app \<Rightarrow> 'w app \<Rightarrow> bool"
  for R t w where
  added: "\<lbrakk>rs_tenant R i = t; rs_pk R i \<notin> rs_pk R ` set (rs_rows R (ap_db w)); rs_free R i (rs_rows R (ap_db w))\<rbrakk>
    \<Longrightarrow> writes R t w \<lparr>ap_db = rs_put R (rs_rows R (ap_db w) @ [i]) (ap_db w),
          ap_audit = ap_audit w @ [audit_row u ''create'' (rs_label R) (rs_pk R i) t changes]\<rparr>"
| replaced: "\<lbrakk>i \<in> set (rs_rows R (ap_db w)); rs_tenant R i = t; rs_tenant R i' = t; rs_pk R i' = rs_pk R i;
      rs_free R i' (filter (\<lambda>r. rs_pk R r \<noteq> rs_pk R i) (rs_rows R (ap_db w))) \<or> rs_clash R i' = rs_clash R i\<rbrakk>
    \<Longrightarrow> writes R t w \<lparr>ap_db = rs_put R (save_row (\<lambda>r. rs_pk R r = rs_pk R i) (\<lambda>_. i') (rs_rows R (ap_db w))) (ap_db w),
          ap_audit = ap_audit w @ [audit_row u action (rs_label R) (rs_pk R i) t changes]\<rparr>"

definition table_ok :: "('i, 'w) resource \<Rightarrow> 'w app \<Rightarrow> bool" where
  "table_ok R w =
     (distinct (map (rs_pk R) (rs_rows R (ap_db w)))
    \<and> (\<forall>r \<in> set (rs_rows R (ap_db w)). \<forall>s \<in> set (rs_rows R (ap_db w)). rs_pk R r \<noteq> rs_pk R s \<longrightarrow> \<not> rs_clash R r s))"

text \<open>Every row has the entry of its creation in the audit log.\<close>

definition audited :: "('i, 'w) resource \<Rightarrow> 'w app \<Rightarrow> bool" where
  "audited R w =
     (\<forall>r \<in> set (rs_rows R (ap_db w)). \<exists>e \<in> set (ap_audit w). au_action e = ''create'' \<and> au_target_type e = rs_label R
        \<and> au_target_id e = rs_pk R r \<and> au_tenant e = Some (rs_tenant R r))"

locale resource_laws =
  fixes R :: "('i, 'w) resource"
  assumes rows_put: "rs_rows R (rs_put R rows db) = rows"
    and build_pk: "rs_pk R (rs_build R k d) = k"
    and build_tenant: "map_of d ''tenant_id'' = Some (JStr t) \<Longrightarrow> rs_tenant R (rs_build R k d) = t"
    and assign_pk: "rs_pk R (rs_assign R d i) = rs_pk R i"
    and assign_tenant: "rs_tenant R (rs_assign R d i) = rs_tenant R i"
    and deleted_pk: "rs_pk R (rs_mark_deleted R now i) = rs_pk R i"
    and deleted_tenant: "rs_tenant R (rs_mark_deleted R now i) = rs_tenant R i"
    and deleted_clash: "rs_clash R (rs_mark_deleted R now i) = rs_clash R i"
    and clash_sym: "rs_clash R r s = rs_clash R s r"
    and no_tenant_field: "''tenant_id'' \<notin> fd_name ` set (rs_fields R c db)"
    and pre_create_tenant: "rs_pre_create R c db d = Inr d' \<Longrightarrow> map_of d' ''tenant_id'' = map_of d ''tenant_id''"
begin

lemma create_writes:
  assumes "create_endpoint R c mbs rq kw k body w = (x, w')" and "k \<notin> rs_pk R ` set (rs_rows R (ap_db w))"
  shows "w' = w \<or> (\<exists>t. tenant_of rq = Some t \<and> writes R t w w')"
  using create_endpoint_outcome [OF assms(1)]
proof (elim disjE exE conjE)
  fix u t d d' i
  assume t: "tenant_of rq = Some t" and pre: "rs_pre_create R c (ap_db w) (dict_set ''tenant_id'' (JStr t) d) = Inr d'"
    and i: "i = rs_build R k d'" and free: "rs_free R i (rs_rows R (ap_db w))"
    and w': "w' = \<lparr>ap_db = rs_put R (rs_rows R (ap_db w) @ [i]) (ap_db w),
              ap_audit = ap_audit w @ [audit_row u ''create'' (rs_label R) (rs_pk R i) t (rs_represent R i)]\<rparr>"
  have "rs_tenant R i = t" unfolding i by (rule build_tenant) (simp add: pre_create_tenant [OF pre])
  then have "writes R t w w'" unfolding w' using assms(2) free by (intro writes.added) (simp_all add: i build_pk)
  with t show ?thesis by blast
qed simp

lemma update_writes:
  assumes "update_endpoint R c mbs rq kw pk partial body w = (x, w')"
  shows "w' = w \<or> (\<exists>t. tenant_of rq = Some t \<and> writes R t w w')"
  using update_endpoint_outcome [OF assms no_tenant_field]
proof (elim disjE exE conjE)
  fix u t d i i'
  assume t: "tenant_of rq = Some t" and obj: "get_object R c mbs rq kw pk (ap_db w) = Inr i" and i': "i' = rs_assign R d i"
    and free: "rs_free R i' (filter (\<lambda>r. rs_pk R r \<noteq> pk) (rs_rows R (ap_db w)))"
    and w': "w' = \<lparr>ap_db = rs_put R (save_row (\<lambda>r. rs_pk R r = pk) (\<lambda>_. i') (rs_rows R (ap_db w))) (ap_db w),
              ap_audit = ap_audit w @ [audit_row u ''update'' (rs_label R) (rs_pk R i') t (build_update_diff d (rs_attr R) i')]\<rparr>"
  note own = get_object_own [OF obj]
  have "rs_tenant R i = t" using own(2) t by simp
  then have "writes R t w w'" unfolding w' own(3) [symmetric]
    using own free writes.replaced [of i R w t i' u "''update''" "build_update_diff d (rs_attr R) i'"]
    by (simp add: i' assign_pk assign_tenant)
  with t show ?thesis by blast
qed simp

lemma destroy_writes:
  assumes "destroy_endpoint R c mbs rq kw pk now w = (x, w')"
  shows "w' = w \<or> (\<exists>t. tenant_of rq = Some t \<and> writes R t w w')"
  using destroy_endpoint_outcome [OF assms]
proof (elim disjE exE conjE)
  fix u t i
  assume t: "tenant_of rq = Some t" and obj: "get_object R c mbs rq kw pk (ap_db w) = Inr i"
    and w': "w' = \<lparr>ap_db = rs_put R (save_row (\<lambda>r. rs_pk R r = pk) (\<lambda>_. rs_mark_deleted R now i) (rs_rows R (ap_db w))) (ap_db w),
              ap_audit = ap_audit w @ [audit_row u ''delete'' (rs_label R) pk t []]\<rparr>"
  note own = get_object_own [OF obj]
  have "rs_tenant R i = t" using own(2) t by simp
  then have "writes R t w w'" unfolding w' own(3) [symmetric]
    using own by (intro writes.replaced) (simp_all add: deleted_pk deleted_tenant deleted_clash)
  with t show ?thesis by blast
qed simp

text \<open>A property of all rows is kept when what is built, assigned or marked has it.\<close>

lemma create_rows:
  assumes "create_endpoint R c mbs rq kw k body w = (x, w')" and "list_all P (rs_rows R (ap_db w))"
    and "\<And>t d d'. \<lbrakk>tenant_of rq = Some t;
        run_fields False (writable (get_fields (rs_model R) (rs_fields R c (ap_db w)))) (clean_create_data (map fst (rs_parents R)) kw body) = Inr d;
        rs_pre_create R c (ap_db w) (dict_set ''tenant_id'' (JStr t) d) = Inr d'\<rbrakk> \<Longrightarrow> P (rs_build R k d')"
  shows "list_all P (rs_rows R (ap_db w'))"
  using create_endpoint_outcome [OF assms(1)]
proof (elim disjE exE conjE)
  fix u t d d' i
  assume "tenant_of rq = Some t" "rs_pre_create R c (ap_db w) (dict_set ''tenant_id'' (JStr t) d) = Inr d'" "i = rs_build R k d'"
    "run_fields False (writable (get_fields (rs_model R) (rs_fields R c (ap_db w)))) (clean_create_data (map fst (rs_parents R)) kw body) = Inr d"
    "w' = \<lparr>ap_db = rs_put R (rs_rows R (ap_db w) @ [i]) (ap_db w),
              ap_audit = ap_audit w @ [audit_row u ''create'' (rs_label R) (rs_pk R i) t (rs_represent R i)]\<rparr>"
  with assms(2,3) show ?thesis by (simp add: rows_put)
qed (use assms(2) in simp)

lemma list_all_save_row: "list_all P rows \<Longrightarrow> P i \<Longrightarrow> list_all P (save_row Q (\<lambda>_. i) rows)"
  by (auto simp: list_all_iff set_save_row)

lemma update_rows:
  assumes "update_endpoint R c mbs rq kw pk partial body w = (x, w')" and "list_all P (rs_rows R (ap_db w))"
    and "\<And>d i. \<lbrakk>tenant_of rq = Some (rs_tenant R i); P i;
        run_fields partial (writable (get_fields (rs_model R) (rs_fields R c (ap_db w)))) body = Inr d\<rbrakk> \<Longrightarrow> P (rs_assign R d i)"
  shows "list_all P (rs_rows R (ap_db w'))"
  using update_endpoint_outcome [OF assms(1) no_tenant_field]
proof (elim disjE exE conjE)
  fix u t d i i'
  assume obj: "get_object R c mbs rq kw pk (ap_db w) = Inr i" and i': "i' = rs_assign R d i"
    and fields: "run_fields partial (writable (get_fields (rs_model R) (rs_fields R c (ap_db w)))) body = Inr d"
    and w': "w' = \<lparr>ap_db = rs_put R (save_row (\<lambda>r. rs_pk R r = pk) (\<lambda>_. i') (rs_rows R (ap_db w))) (ap_db w),
              ap_audit = ap_audit w @ [audit_row u ''update'' (rs_label R) (rs_pk R i') t (build_update_diff d (rs_attr R) i')]\<rparr>"
  note own = get_object_own [OF obj]
  from own(1) assms(2) have "P i" by (simp add: list_all_iff)
  from assms(3) [OF own(2) this fields] show ?thesis unfolding w' i' using assms(2) by (simp add: rows_put list_all_save_row)
qed (use assms(2) in simp)

lemma destroy_rows:
  assumes "destroy_endpoint R c mbs rq kw pk now w = (x, w')" and "list_all P (rs_rows R (ap_db w))"
    and "\<And>i. P i \<Longrightarrow> P (rs_mark_deleted R now i)"
  shows "list_all P (rs_rows R (ap_db w'))"
  using destroy_endpoint_outcome [OF assms(1)]
proof (elim disjE exE conjE)
  fix u t i
  assume obj: "get_object R c mbs rq kw pk (ap_db w) = Inr i"
    and w': "w' = \<lparr>ap_db = rs_put R (save_row (\<lambda>r. rs_pk R r = pk) (\<lambda>_. rs_mark_deleted R now i) (rs_rows R (ap_db w))) (ap_db w),
              ap_audit = ap_audit w @ [audit_row u ''delete'' (rs_label R) pk t []]\<rparr>"
  from get_object_own(1) [OF obj] assms(2) have "P i" by (simp add: list_all_iff)
  with assms(2,3) show ?thesis unfolding w' by (simp add: rows_put list_all_save_row)
qed (use assms(2) in simp)

lemma endpoint_table:
  shows "create_endpoint R c mbs rq kw k body w = (x, w') \<Longrightarrow> ap_db w' = ap_db w \<or> (\<exists>rows. ap_db w' = rs_put R rows (ap_db w))"
    and "update_endpoint R c mbs rq kw pk partial body w = (x, w') \<Longrightarrow> ap_db w' = ap_db w \<or> (\<exists>rows. ap_db w' = rs_put R rows (ap_db w))"
    and "destroy_endpoint R c mbs rq kw pk now w = (y, w') \<Longrightarrow> ap_db w' = ap_db w \<or> (\<exists>rows. ap_db w' = rs_put R rows (ap_db w))"
proof -
  show "ap_db w' = ap_db w \<or> (\<exists>rows. ap_db w' = rs_put R rows (ap_db w))" if "create_endpoint R c mbs rq kw k body w = (x, w')"
    using create_endpoint_outcome [OF that] by (elim disjE exE conjE) auto
  show "ap_db w' = ap_db w \<or> (\<exists>rows. ap_db w' = rs_put R rows (ap_db w))" if "update_endpoint R c mbs rq kw pk partial body w = (x, w')"
    using update_endpoint_outcome [OF that no_tenant_field] by (elim disjE exE conjE) auto
  show "ap_db w' = ap_db w \<or> (\<exists>rows. ap_db w' = rs_put R rows (ap_db w))" if "destroy_endpoint R c mbs rq kw pk now w = (y, w')"
    using destroy_endpoint_outcome [OF that] by (elim disjE exE conjE) auto
qed

lemma endpoint_keys:
  shows "create_endpoint R c mbs rq kw k body w = (x, w') \<Longrightarrow> rs_pk R ` set (rs_rows R (ap_db w')) \<subseteq> insert k (rs_pk R ` set (rs_rows R (ap_db w)))"
    and "update_endpoint R c mbs rq kw pk partial body w = (x, w') \<Longrightarrow> rs_pk R ` set (rs_rows R (ap_db w')) \<subseteq> rs_pk R ` set (rs_rows R (ap_db w))"
    and "destroy_endpoint R c mbs rq kw pk now w = (y, w') \<Longrightarrow> rs_pk R ` set (rs_rows R (ap_db w')) \<subseteq> rs_pk R ` set (rs_rows R (ap_db w))"
proof -
  let ?P = "\<lambda>K r. rs_pk R r \<in> K"
  have all: "list_all (?P K) rows \<longleftrightarrow> rs_pk R ` set rows \<subseteq> K" for K rows by (auto simp: list_all_iff)
  show "rs_pk R ` set (rs_rows R (ap_db w')) \<subseteq> insert k (rs_pk R ` set (rs_rows R (ap_db w)))"
    if "create_endpoint R c mbs rq kw k body w = (x, w')"
    using create_rows [OF that, of "?P (insert k (rs_pk R ` set (rs_rows R (ap_db w))))"] by (auto simp: list_all_iff build_pk)
  show "rs_pk R ` set (rs_rows R (ap_db w')) \<subseteq> rs_pk R ` set (rs_rows R (ap_db w))"
    if "update_endpoint R c mbs rq kw pk partial body w = (x, w')"
    using update_rows [OF that, of "?P (rs_pk R ` set (rs_rows R (ap_db w)))"] by (simp add: all assign_pk)
  show "rs_pk R ` set (rs_rows R (ap_db w')) \<subseteq> rs_pk R ` set (rs_rows R (ap_db w))"
    if "destroy_endpoint R c mbs rq kw pk now w = (y, w')"
    using destroy_rows [OF that, of "?P (rs_pk R ` set (rs_rows R (ap_db w)))"] by (simp add: all deleted_pk)
qed

text \<open>The rows of other tenants stay as they are, and the table stays well-formed and audited.\<close>

lemma writes_own:
  assumes "writes R t w w'" and "table_ok R w" and "t' \<noteq> t"
  shows "filter (\<lambda>r. rs_tenant R r = t') (rs_rows R (ap_db w')) = filter (\<lambda>r. rs_tenant R r = t') (rs_rows R (ap_db w))"
  using assms(1)
proof cases
  case (added i u changes)
  with assms(3) show ?thesis by (simp add: rows_put)
next
  case (replaced i i' u action changes)
  have "rs_tenant R r = t" if "r \<in> set (rs_rows R (ap_db w))" "rs_pk R r = rs_pk R i" for r
    using assms(2) that replaced by (auto simp: table_ok_def distinct_map dest: inj_onD)
  then have "filter (\<lambda>r. rs_tenant R r = t') (save_row (\<lambda>r. rs_pk R r = rs_pk R i) (\<lambda>_. i') rows)
      = filter (\<lambda>r. rs_tenant R r = t') rows" if "set rows \<subseteq> set (rs_rows R (ap_db w))" for rows
    using that by (induction rows) (use assms(3) replaced in auto)
  with replaced show ?thesis by (simp add: rows_put)
qed

lemma writes_keep_keys:
  assumes "writes R t w w'" and "table_ok R w" and "r \<in> set (rs_rows R (ap_db w))"
  shows "\<exists>r' \<in> set (rs_rows R (ap_db w')). rs_pk R r' = rs_pk R r \<and> rs_tenant R r' = rs_tenant R r"
  using assms(1)
proof cases
  case (added i u changes)
  with assms(3) show ?thesis by (auto simp: rows_put)
next
  case (replaced i i' u action changes)
  then have "rs_pk R r = rs_pk R i \<Longrightarrow> r = i" using assms(2,3) by (auto simp: table_ok_def distinct_map dest: inj_onD)
  with replaced assms(3) show ?thesis by (auto simp: rows_put set_save_row)
qed

lemma writes_table_ok:
  assumes "writes R t w w'" and "table_ok R w"
  shows "table_ok R w'"
  using assms(1)
proof cases
  case (added i u changes)
  then show ?thesis using assms(2) clash_sym by (auto simp: table_ok_def rows_put rs_free_def list_all_iff)
next
  case (replaced i i' u action changes)
  let ?rows = "rs_rows R (ap_db w)"
  have keys: "map (rs_pk R) (save_row (\<lambda>r. rs_pk R r = rs_pk R i) (\<lambda>_. i') ?rows) = map (rs_pk R) ?rows"
    using replaced by (simp add: save_row_def)
  have apart: "\<not> rs_clash R i' r" if "r \<in> set ?rows" "rs_pk R r \<noteq> rs_pk R i" for r
    using replaced(6) that assms(2) replaced(2) clash_sym by (auto simp: rs_free_def list_all_iff table_ok_def)
  show ?thesis using assms(2) replaced apart clash_sym keys
    by (auto simp: table_ok_def rows_put set_save_row)
qed

lemma writes_audited:
  assumes "writes R t w w'" and "audited R w"
  shows "audited R w'"
  using assms(1)
proof cases
  case (added i u changes)
  then show ?thesis using assms(2) by (auto simp: audited_def rows_put audit_row_def)
next
  case (replaced i i' u action changes)
  then show ?thesis using assms(2) by (fastforce simp: audited_def rows_put set_save_row)
qed

end

lemma writes_log:
  assumes "writes R t w w'"
  shows "\<exists>e. ap_audit w' = ap_audit w @ [e] \<and> au_tenant e = Some t \<and> au_target_type e = rs_label R"
  using assms by cases (simp_all add: audit_row_def)

lemma writes_frame:
  assumes "writes R t w w'"
  shows "\<exists>rows e. w' = \<lparr>ap_db = rs_put R rows (ap_db w), ap_audit = ap_audit w @ [e]\<rparr>"
  using assms by cases auto

text \<open>A write to one table keeps what holds of another.\<close>

lemma writes_other:
  assumes "writes R t w w'" and "\<And>rows db. rs_rows S (rs_put R rows db) = rs_rows S db"
  shows "table_ok S w \<Longrightarrow> table_ok S w'" and "audited S w \<Longrightarrow> audited S w'"
    and "rs_rows S (ap_db w') = rs_rows S (ap_db w)"
proof -
  obtain rows e where w': "w' = \<lparr>ap_db = rs_put R rows (ap_db w), ap_audit = ap_audit w @ [e]\<rparr>"
    using writes_frame [OF assms(1)] by blast
  show "table_ok S w \<Longrightarrow> table_ok S w'" by (simp add: w' table_ok_def assms(2))
  show "audited S w \<Longrightarrow> audited S w'" by (fastforce simp: w' audited_def assms(2))
  show "rs_rows S (ap_db w') = rs_rows S (ap_db w)" by (simp add: w' assms(2))
qed

section \<open>Endpoints as functions of the store\<close>

definition validate_request ::
  "('i, 'w) resource \<Rightarrow> ctx \<Rightarrow> request \<Rightarrow> 'i option \<Rightarrow> bool \<Rightarrow> attrs \<Rightarrow> 'w \<Rightarrow> attrs res" where
  "validate_request R c rq instance_row partial data db =
     bind_res (run_fields partial (writable (get_fields (rs_model R) (rs_fields R c db))) data) (\<lambda>d.
     bind_res (rs_validator R c (plugin_context rq) instance_row db d) (\<lambda>_.
     bind_res (rs_do_validate R c instance_row db d) (\<lambda>_. Inr d)))"

lemma run_validation_eq: "run_validation R c rq i partial data w = (validate_request R c rq i partial data (ap_db w), w)"
  by (auto simp: run_validation_def validate_request_def serializer_validate_def default_validation_def bind_act_def ret_def
      bind_res_def split: sum.splits)

lemma validate_request_Inr:
  "validate_request R c rq i partial data db = Inr d \<Longrightarrow>
     run_fields partial (writable (get_fields (rs_model R) (rs_fields R c db))) data = Inr d"
  by (auto simp: validate_request_def bind_res_Inr_iff)

lemma own_create_resource:
  "own_create (resource_hooks R c k) d w =
     (case rs_pre_create R c (ap_db w) d of Inl e \<Rightarrow> (Inl e, w) | Inr d' \<Rightarrow> do_create R k d' w)"
  by (auto simp: own_create_def resource_hooks_def default_hooks_def bind_act_def ret_def split: prod.splits sum.splits)

lemma create_endpoint_eq:
  assumes "rq_user rq = Some u" and "tenant_of rq = Some t"
  shows "create_endpoint R c mbs rq kw k body w =
     (case check_permissions (view_permissions R ''create'') c mbs rq of
        Inl e \<Rightarrow> (Inl e, w)
      | Inr _ \<Rightarrow>
     (case validate_request R c rq None False (clean_create_data (map fst (rs_parents R)) kw body) (ap_db w) of
        Inl e \<Rightarrow> (Inl e, w)
      | Inr d \<Rightarrow>
     (case rs_pre_create R c (ap_db w) (dict_set ''tenant_id'' (JStr t) d) of
        Inl e \<Rightarrow> (Inl e, w)
      | Inr d' \<Rightarrow>
         let i = rs_build R k d' in
         if rs_free R i (rs_rows R (ap_db w))
         then (Inr i, \<lparr>ap_db = rs_put R (rs_rows R (ap_db w) @ [i]) (ap_db w),
                 ap_audit = ap_audit w @ [audit_row u ''create'' (rs_label R) (rs_pk R i) t (rs_represent R i)]\<rparr>)
         else (Inl IntegrityErr, w))))"
  by (simp add: create_endpoint_def bind_act_def lift_res_def run_validation_eq resource_plugins_def serializer_create_eq
      own_create_resource do_create_def Let_def assms audit_row_def split: sum.splits)

lemma update_endpoint_eq:
  assumes "rq_user rq = Some u" and "tenant_of rq = Some t" and "\<And>db. ''tenant_id'' \<notin> fd_name ` set (rs_fields R c db)"
  shows "update_endpoint R c mbs rq kw pk partial body w =
     (case check_permissions (view_permissions R (if partial then ''partial_update'' else ''update'')) c mbs rq of
        Inl e \<Rightarrow> (Inl e, w)
      | Inr _ \<Rightarrow>
     (case get_object R c mbs rq kw pk (ap_db w) of
        Inl e \<Rightarrow> (Inl e, w)
      | Inr i \<Rightarrow>
     (case validate_request R c rq (Some i) partial body (ap_db w) of
        Inl e \<Rightarrow> (Inl e, w)
      | Inr d \<Rightarrow>
         let i' = rs_assign R d i in
         if rs_free R i' (filter (\<lambda>r. rs_pk R r \<noteq> pk) (rs_rows R (ap_db w)))
         then (Inr i', \<lparr>ap_db = rs_put R (save_row (\<lambda>r. rs_pk R r = pk) (\<lambda>_. i') (rs_rows R (ap_db w))) (ap_db w),
                 ap_audit = ap_audit w @ [audit_row u ''update'' (rs_label R) (rs_pk R i') t (build_update_diff d (rs_attr R) i')]\<rparr>)
         else (Inl IntegrityErr, w))))"
proof (cases "check_permissions (view_permissions R (if partial then ''partial_update'' else ''update'')) c mbs rq")
  case ok: (Inr v)
  show ?thesis
  proof (cases "get_object R c mbs rq kw pk (ap_db w)")
    case obj: (Inr i)
    show ?thesis
    proof (cases "validate_request R c rq (Some i) partial body (ap_db w)")
      case valid: (Inr d)
      from order_trans [OF run_fields_keys [OF validate_request_Inr [OF valid]] get_fields_names] assms(3) [of "ap_db w"]
      have "map_of d ''tenant_id'' = None" by (auto simp: map_of_eq_None_iff)
      with ok obj valid get_object_own(3) [OF obj] assms(1,2) show ?thesis
        by (simp add: update_endpoint_def bind_act_def lift_res_def run_validation_eq clean_update_data_def resource_plugins_def
            serializer_update_eq do_update_def Let_def audit_row_def tenant_of_Some_iff)
    qed (use ok obj in \<open>simp add: update_endpoint_def bind_act_def lift_res_def run_validation_eq clean_update_data_def\<close>)
  qed (use ok in \<open>simp add: update_endpoint_def bind_act_def lift_res_def\<close>)
qed (simp add: update_endpoint_def bind_act_def lift_res_def)

lemma destroy_endpoint_eq:
  assumes "rq_user rq = Some u" and "tenant_of rq = Some t"
  shows "destroy_endpoint R c mbs rq kw pk now w =
     (case check_permissions (view_permissions R ''destroy'') c mbs rq of
        Inl e \<Rightarrow> (Inl e, w)
      | Inr _ \<Rightarrow>
     (case get_object R c mbs rq kw pk (ap_db w) of
        Inl e \<Rightarrow> (Inl e, w)
      | Inr i \<Rightarrow> (Inr (), \<lparr>ap_db = rs_put R (save_row (\<lambda>r. rs_pk R r = pk) (\<lambda>_. rs_mark_deleted R now i) (rs_rows R (ap_db w))) (ap_db w),
              ap_audit = ap_audit w @ [audit_row u ''delete'' (rs_label R) pk t []]\<rparr>)))"
proof (cases "check_permissions (view_permissions R ''destroy'') c mbs rq")
  case ok: (Inr v)
  show ?thesis
  proof (cases "get_object R c mbs rq kw pk (ap_db w)")
    case obj: (Inr i)
    with ok get_object_own(3) [OF obj] assms show ?thesis
      by (simp add: destroy_endpoint_def bind_act_def lift_res_def perform_destroy_def delete_row_def audit_on_post_destroy_def
          audit_write_def log_audit_def injection_tenant_id_def ret_def audit_row_def tenant_of_Some_iff)
  qed (use ok in \<open>simp add: destroy_endpoint_def bind_act_def lift_res_def\<close>)
qed (simp add: destroy_endpoint_def bind_act_def lift_res_def)

end
