(* ===== verification/DmsApi.thy ===== *)
theory DmsApi
  imports Viewsets Contracts
begin

text \<open>
  The endpoints of the document management as instances of the generic resource: document
  types (\<open>apps/dms_document_types\<close>), metadata definitions nested under them
  (\<open>apps/dms_metadata\<close>), documents (\<open>apps/dms_documents\<close>) and their versions
  (\<open>apps/dms_document_versions\<close>).  They share one store; every sequence of requests keeps its
  references within a tenant, its names unique, its versions numbered and its writes audited.
\<close>

section \<open>Rows and the store\<close>

record type_row = document_type +
  ty_description :: string
  ty_deleted_at :: "int option"

record definition_row =
  dfn_id :: string
  dfn_tenant :: string
  dfn_spec :: metadata_definition
  dfn_searchable :: bool
  dfn_filterable :: bool
  dfn_sortable :: bool
  dfn_indexed :: bool
  dfn_deleted_at :: "int option"

record document_row = document +
  dx_description :: "string option"
  dx_metadata :: json

record dms =
  ds_users :: "user list"
  ds_types :: "type_row list"
  ds_definitions :: "definition_row list"
  ds_documents :: "document_row list"
  ds_versions :: "document_version list"

text \<open>Assigning the validated values to columns: an absent key leaves the column.\<close>

definition text_or :: "attrs \<Rightarrow> string \<Rightarrow> string \<Rightarrow> string" where
  "text_or d k old = (case map_of d k of Some (JStr s) \<Rightarrow> s | _ \<Rightarrow> old)"

definition opt_text_or :: "attrs \<Rightarrow> string \<Rightarrow> string option \<Rightarrow> string option" where
  "opt_text_or d k old = (case map_of d k of Some (JStr s) \<Rightarrow> Some s | Some _ \<Rightarrow> None | None \<Rightarrow> old)"

definition bool_or :: "attrs \<Rightarrow> string \<Rightarrow> bool \<Rightarrow> bool" where
  "bool_or d k old = (case map_of d k of Some (JBool b) \<Rightarrow> b | _ \<Rightarrow> old)"

definition json_or :: "attrs \<Rightarrow> string \<Rightarrow> json \<Rightarrow> json" where
  "json_or d k old = (case map_of d k of Some v \<Rightarrow> v | None \<Rightarrow> old)"

text \<open>The columns every model has from \<open>BaseModel\<close> and the tenant.\<close>

definition base_model :: "(string \<times> model_field) list" where
  "base_model =
     [(''id'', \<lparr>mf_primary_key = True, mf_editable = False, mf_auto_now = False, mf_auto_now_add = False\<rparr>),
      (''created_at'', \<lparr>mf_primary_key = False, mf_editable = True, mf_auto_now = False, mf_auto_now_add = True\<rparr>),
      (''updated_at'', \<lparr>mf_primary_key = False, mf_editable = True, mf_auto_now = True, mf_auto_now_add = False\<rparr>)]"

definition standard_fields :: "field list" where
  "standard_fields = map (\<lambda>n. \<lparr>fd_name = n, fd_required = False, fd_read_only = True, fd_parse = Inr\<rparr>)
     [''id'', ''created_at'', ''updated_at'']"

definition input :: "string \<Rightarrow> bool \<Rightarrow> (string \<Rightarrow> json \<Rightarrow> json res) \<Rightarrow> field" where
  "input name required parse = \<lparr>fd_name = name, fd_required = required, fd_read_only = False, fd_parse = parse name\<rparr>"

definition text_input :: "string \<Rightarrow> bool \<Rightarrow> nat option \<Rightarrow> field" where
  "text_input name required max_length =
     input name required (\<lambda>n. not_null n (char_value n (\<not> required) max_length))"

section \<open>Document types\<close>

definition type_col :: "type_row \<Rightarrow> string \<Rightarrow> json" where
  "type_col r l =
     (if l = ''tenant_id'' then JStr (dt_tenant r) else if l = ''name'' then JStr (dt_name r) else JNull)"

text \<open>What the serializer shows of a row; the two time stamps are left out.\<close>

definition type_json :: "type_row \<Rightarrow> attrs" where
  "type_json r = [(''id'', JStr (dt_id r)), (''name'', JStr (dt_name r)), (''description'', JStr (ty_description r))]"

definition type_resource :: "(type_row, dms) resource" where
  "type_resource = \<lparr>rs_label = ''dms_document_types.documenttype'', rs_pk = dt_id, rs_tenant = dt_tenant,
     rs_deleted = (\<lambda>r. ty_deleted_at r \<noteq> None), rs_rows = ds_types, rs_put = (\<lambda>rows w. w\<lparr>ds_types := rows\<rparr>),
     rs_parents = [], rs_write_permissions = None, rs_model = map_of base_model,
     rs_fields = (\<lambda>c w. standard_fields @ [text_input ''name'' True (Some 100), text_input ''description'' False None]),
     rs_validator = (\<lambda>c context i w d. unique_together [(''name'', ''name'')] [(''tenant_id'', ''tenant_id'')]
        ''A document type with this name already exists in this tenant.'' dt_id type_col context i
        (manager_queryset dt_tenant c (ds_types w)) d),
     rs_do_validate = (\<lambda>c i w d. Inr ()), rs_pre_create = (\<lambda>c w d. Inr d),
     rs_build = (\<lambda>k d. \<lparr>dt_id = k, dt_tenant = attr_text d ''tenant_id'', dt_name = attr_text d ''name'',
        ty_description = attr_text d ''description'', ty_deleted_at = None\<rparr>),
     rs_assign = (\<lambda>d i. i\<lparr>dt_name := text_or d ''name'' (dt_name i), ty_description := text_or d ''description'' (ty_description i)\<rparr>),
     rs_mark_deleted = (\<lambda>now i. i\<lparr>ty_deleted_at := Some now\<rparr>),
     rs_clash = (\<lambda>r i. dt_tenant r = dt_tenant i \<and> dt_name r = dt_name i),
     rs_attr = (\<lambda>i. map_of (type_json i)),
     rs_represent = (\<lambda>i. soft_deletable_representation (ty_deleted_at i) (type_json i))\<rparr>"

section \<open>Metadata definitions\<close>

definition data_type_code :: "metadata_type \<Rightarrow> string" where
  "data_type_code t = (case t of T_STRING \<Rightarrow> ''STRING'' | T_TEXT \<Rightarrow> ''TEXT'' | T_INTEGER \<Rightarrow> ''INTEGER'' | T_DECIMAL \<Rightarrow> ''DECIMAL''
     | T_BOOLEAN \<Rightarrow> ''BOOLEAN'' | T_DATE \<Rightarrow> ''DATE'' | T_DATETIME \<Rightarrow> ''DATETIME'' | T_TIME \<Rightarrow> ''TIME'' | T_UUID \<Rightarrow> ''UUID''
     | T_EMAIL \<Rightarrow> ''EMAIL'' | T_URL \<Rightarrow> ''URL'' | T_JSON \<Rightarrow> ''JSON'' | T_ENUM \<Rightarrow> ''ENUM'')"

definition data_types :: "metadata_type list" where
  "data_types = [T_STRING, T_TEXT, T_INTEGER, T_DECIMAL, T_BOOLEAN, T_DATE, T_DATETIME, T_TIME, T_UUID, T_EMAIL, T_URL, T_JSON, T_ENUM]"

definition data_type_of :: "attrs \<Rightarrow> metadata_type option" where
  "data_type_of d = (case map_of d ''data_type'' of Some (JStr s) \<Rightarrow> find (\<lambda>t. data_type_code t = s) data_types | _ \<Rightarrow> None)"

text \<open>
  Validation rules are objects or null here: with a data type the check refuses anything else,
  without one the code would store it.
\<close>

definition rules_value :: "string \<Rightarrow> json \<Rightarrow> json res" where
  "rules_value name v = (case v of JObj _ \<Rightarrow> Inr v | _ \<Rightarrow> bad_field name ''validation_rules must be a JSON object.'' ''invalid'')"

definition rules_of :: "json \<Rightarrow> rules option" where
  "rules_of v = (case v of JObj r \<Rightarrow> Some r | _ \<Rightarrow> None)"

definition definition_attrs_of :: "attrs \<Rightarrow> definition_attrs" where
  "definition_attrs_of d = \<lparr>da_data_type = data_type_of d, da_validation_rules = rules_of (json_or d ''validation_rules'' JNull),
     da_default_value = (if json_or d ''default_value'' JNull = JNull then None else map_of d ''default_value'')\<rparr>"

definition flag_names :: "string list" where
  "flag_names = [''required'', ''searchable'', ''filterable'', ''sortable'', ''indexed'']"

definition definition_fields :: "(json \<Rightarrow> bool option) \<Rightarrow> ctx \<Rightarrow> dms \<Rightarrow> field list" where
  "definition_fields spelling c w =
     standard_fields
     @ [input ''document_type'' True (\<lambda>n v. not_null n (fk_value dt_id (manager_queryset dt_tenant c (ds_types w)) n) (fk_null v)),
        text_input ''code'' True (Some 100), text_input ''name'' True (Some 255),
        input ''data_type'' True (\<lambda>n. not_null n (choice_value (map data_type_code data_types) n))]
     @ map (\<lambda>n. input n False (\<lambda>n. not_null n (bool_value spelling n))) flag_names
     @ [input ''default_value'' False (\<lambda>n. Inr), input ''validation_rules'' False (\<lambda>n. nullable (rules_value n))]"

definition assign_definition :: "attrs \<Rightarrow> metadata_definition \<Rightarrow> metadata_definition" where
  "assign_definition d m = \<lparr>md_code = text_or d ''code'' (md_code m), md_name = text_or d ''name'' (md_name m),
     md_document_type = text_or d ''document_type'' (md_document_type m),
     md_data_type = (case data_type_of d of None \<Rightarrow> md_data_type m | Some t \<Rightarrow> t),
     md_required = bool_or d ''required'' (md_required m), md_default_value = json_or d ''default_value'' (md_default_value m),
     md_validation_rules = (case map_of d ''validation_rules'' of None \<Rightarrow> md_validation_rules m | Some v \<Rightarrow> rules_of v)\<rparr>"

definition blank_definition :: metadata_definition where
  "blank_definition = \<lparr>md_code = [], md_name = [], md_document_type = [], md_data_type = T_STRING, md_required = False,
     md_default_value = JNull, md_validation_rules = None\<rparr>"

definition definition_json :: "definition_row \<Rightarrow> attrs" where
  "definition_json r = [(''id'', JStr (dfn_id r)), (''document_type'', JStr (md_document_type (dfn_spec r))),
     (''code'', JStr (md_code (dfn_spec r))), (''name'', JStr (md_name (dfn_spec r))),
     (''data_type'', JStr (data_type_code (md_data_type (dfn_spec r)))), (''required'', JBool (md_required (dfn_spec r))),
     (''searchable'', JBool (dfn_searchable r)), (''filterable'', JBool (dfn_filterable r)), (''sortable'', JBool (dfn_sortable r)),
     (''indexed'', JBool (dfn_indexed r)), (''default_value'', md_default_value (dfn_spec r)),
     (''validation_rules'', case md_validation_rules (dfn_spec r) of None \<Rightarrow> JNull | Some rules \<Rightarrow> JObj rules)]"

definition definition_resource :: "val_env \<Rightarrow> (json \<Rightarrow> bool option) \<Rightarrow> (definition_row, dms) resource" where
  "definition_resource env spelling = \<lparr>rs_label = ''dms_metadata.metadatadefinition'', rs_pk = dfn_id, rs_tenant = dfn_tenant,
     rs_deleted = (\<lambda>r. dfn_deleted_at r \<noteq> None), rs_rows = ds_definitions, rs_put = (\<lambda>rows w. w\<lparr>ds_definitions := rows\<rparr>),
     rs_parents = [(''document_type_id'', \<lambda>r. md_document_type (dfn_spec r))], rs_write_permissions = None,
     rs_model = map_of base_model, rs_fields = definition_fields spelling,
     rs_validator = (\<lambda>c context i w d. Inr ()),
     rs_do_validate = (\<lambda>c i w d. bind_res (definition_do_validate env (definition_attrs_of d)) (\<lambda>_. Inr ())),
     rs_pre_create = (\<lambda>c w d. Inr d),
     rs_build = (\<lambda>k d. \<lparr>dfn_id = k, dfn_tenant = attr_text d ''tenant_id'', dfn_spec = assign_definition d blank_definition,
        dfn_searchable = bool_or d ''searchable'' False, dfn_filterable = bool_or d ''filterable'' False,
        dfn_sortable = bool_or d ''sortable'' False, dfn_indexed = bool_or d ''indexed'' False, dfn_deleted_at = None\<rparr>),
     rs_assign = (\<lambda>d i. i\<lparr>dfn_spec := assign_definition d (dfn_spec i),
        dfn_searchable := bool_or d ''searchable'' (dfn_searchable i), dfn_filterable := bool_or d ''filterable'' (dfn_filterable i),
        dfn_sortable := bool_or d ''sortable'' (dfn_sortable i), dfn_indexed := bool_or d ''indexed'' (dfn_indexed i)\<rparr>),
     rs_mark_deleted = (\<lambda>now i. i\<lparr>dfn_deleted_at := Some now\<rparr>),
     rs_clash = (\<lambda>r i. dfn_tenant r = dfn_tenant i
        \<and> md_document_type (dfn_spec r) = md_document_type (dfn_spec i) \<and> md_code (dfn_spec r) = md_code (dfn_spec i)),
     rs_attr = (\<lambda>i. map_of (definition_json i)),
     rs_represent = (\<lambda>i. soft_deletable_representation (dfn_deleted_at i) (definition_json i))\<rparr>"

section \<open>Documents\<close>

text \<open>
  \<open>MetadataValidationService.validate\<close> on metadata that is no object, which the column admits:
  \<open>code in metadata\<close> looks into a list or a string and raises on a number; \<open>metadata[code]\<close> and
  \<open>metadata.keys()\<close> raise on all of them.
\<close>

definition json_contains :: "json \<Rightarrow> string \<Rightarrow> bool res" where
  "json_contains v k =
     (case v of
        JList vs \<Rightarrow> Inr (JStr k \<in> set vs)
      | JStr s \<Rightarrow> Inr (contains k s)
      | _ \<Rightarrow> Inl TypeErr)"

fun check_no_object :: "json \<Rightarrow> metadata_definition list \<Rightarrow> unit res" where
  "check_no_object v [] = Inl AttributeErr"
| "check_no_object v (d # ds) =
     bind_res (json_contains v (md_code d)) (\<lambda>found.
       if found then Inl TypeErr
       else if md_required d
       then Inl (invalid (''Required metadata field '' @ md_code d @ '' ('' @ md_name d @ '') is missing.''))
       else check_no_object v ds)"

definition document_check :: "val_env \<Rightarrow> metadata_definition list \<Rightarrow> attrs \<Rightarrow> unit res" where
  "document_check env all d =
     (case (map_of d ''document_type'', map_of d ''metadata'') of
        (Some (JStr t), Some v) \<Rightarrow>
          (case v of
             JObj m \<Rightarrow> bind_res (document_do_validate env all \<lparr>dc_document_type = Some t, dc_metadata = Some m\<rparr>) (\<lambda>_. Inr ())
           | _ \<Rightarrow> rewrap ''metadata'' (check_no_object v (filter (\<lambda>x. md_document_type x = t) all)))
      | (Some (JStr t), None) \<Rightarrow> bind_res (document_do_validate env all \<lparr>dc_document_type = Some t, dc_metadata = None\<rparr>) (\<lambda>_. Inr ())
      | _ \<Rightarrow> Inr ())"

definition document_fields :: "ctx \<Rightarrow> dms \<Rightarrow> field list" where
  "document_fields c w =
     [\<lparr>fd_name = ''id'', fd_required = False, fd_read_only = True, fd_parse = Inr\<rparr>,
      input ''document_type'' False (\<lambda>n v. nullable (fk_value dt_id (manager_queryset dt_tenant c (ds_types w)) n) (fk_null v)),
      text_input ''title'' True (Some 255),
      input ''description'' False (\<lambda>n. nullable (char_value n True None)),
      input ''metadata'' False (\<lambda>n. not_null n Inr),
      input ''availability'' False (\<lambda>n. not_null n (choice_value [''ACTIVE'', ''ARCHIVED''] n)),
      input ''owner'' False (\<lambda>n v. nullable (fk_value usr_id (ds_users w) n) (fk_null v))]"

definition document_json :: "document_row \<Rightarrow> attrs" where
  "document_json r = [(''id'', JStr (do_id r)),
     (''document_type'', case do_document_type r of None \<Rightarrow> JNull | Some t \<Rightarrow> JStr t), (''title'', JStr (do_title r)),
     (''description'', case dx_description r of None \<Rightarrow> JNull | Some s \<Rightarrow> JStr s), (''metadata'', dx_metadata r),
     (''availability'', JStr (do_availability r)), (''owner'', case do_owner r of None \<Rightarrow> JNull | Some u \<Rightarrow> JStr u)]"

definition assign_document :: "attrs \<Rightarrow> document_row \<Rightarrow> document_row" where
  "assign_document d i = i\<lparr>do_document_type := opt_text_or d ''document_type'' (do_document_type i),
     do_title := text_or d ''title'' (do_title i), dx_description := opt_text_or d ''description'' (dx_description i),
     dx_metadata := json_or d ''metadata'' (dx_metadata i), do_availability := text_or d ''availability'' (do_availability i),
     do_owner := opt_text_or d ''owner'' (do_owner i)\<rparr>"

definition blank_document :: "string \<Rightarrow> attrs \<Rightarrow> document_row" where
  "blank_document k d = \<lparr>do_id = k, do_tenant = attr_text d ''tenant_id'', do_title = [], do_document_type = None, do_owner = None,
     do_created_by = None, do_availability = ''ACTIVE'', do_deleted_at = None, dx_description = None, dx_metadata = JObj []\<rparr>"

definition visible_specs :: "ctx \<Rightarrow> dms \<Rightarrow> metadata_definition list" where
  "visible_specs c w = map dfn_spec (manager_queryset dfn_tenant c (ds_definitions w))"

definition document_resource :: "val_env \<Rightarrow> (document_row, dms) resource" where
  "document_resource env = \<lparr>rs_label = ''dms_documents.document'', rs_pk = do_id, rs_tenant = do_tenant,
     rs_deleted = (\<lambda>r. do_deleted_at r \<noteq> None), rs_rows = ds_documents, rs_put = (\<lambda>rows w. w\<lparr>ds_documents := rows\<rparr>),
     rs_parents = [], rs_write_permissions = None, rs_model = map_of base_model, rs_fields = document_fields,
     rs_validator = (\<lambda>c context i w d. Inr ()),
     rs_do_validate = (\<lambda>c i w d. document_check env (visible_specs c w) d),
     rs_pre_create = (\<lambda>c w d. Inr d),
     rs_build = (\<lambda>k d. assign_document d (blank_document k d)), rs_assign = assign_document,
     rs_mark_deleted = (\<lambda>now i. i\<lparr>do_deleted_at := Some now\<rparr>),
     rs_clash = (\<lambda>r i. do_tenant r = do_tenant i \<and> do_title r = do_title i),
     rs_attr = (\<lambda>i. map_of (document_json i)),
     rs_represent = (\<lambda>i. soft_deletable_representation (do_deleted_at i) (document_json i))\<rparr>"

section \<open>Document versions\<close>

text \<open>The columns that are not editable are read-only fields, so a request sets the name and type of the file.\<close>

definition version_model :: "(string \<times> model_field) list" where
  "version_model = map (\<lambda>n. (n, \<lparr>mf_primary_key = False, mf_editable = False, mf_auto_now = False, mf_auto_now_add = False\<rparr>))
     [''version'', ''extension'', ''checksum'', ''size'', ''storage_state'', ''created_by''] @ base_model"

definition version_fields :: "ctx \<Rightarrow> dms \<Rightarrow> field list" where
  "version_fields c w =
     [input ''id'' False (\<lambda>n. Inr),
      input ''document'' True (\<lambda>n v. not_null n (fk_value do_id (manager_queryset do_tenant c (ds_documents w)) n) (fk_null v)),
      input ''version'' False (\<lambda>n. Inr), text_input ''filename'' True (Some 255),
      input ''mime_type'' False (\<lambda>n. nullable (char_value n True (Some 100)))]
     @ map (\<lambda>n. input n False (\<lambda>n. Inr)) [''extension'', ''checksum'', ''size'', ''storage_state'', ''created_by'', ''created_at'']"

definition version_json :: "document_version \<Rightarrow> attrs" where
  "version_json r = [(''id'', JStr (dv_id r)), (''document'', JStr (dv_document r)), (''version'', JInt (dv_version r)),
     (''filename'', JStr (dv_filename r)), (''mime_type'', dv_mime_type r), (''extension'', dv_extension r),
     (''checksum'', dv_checksum r), (''size'', dv_size r), (''storage_state'', JStr (dv_storage_state r)),
     (''created_by'', case dv_created_by r of None \<Rightarrow> JNull | Some u \<Rightarrow> JStr u)]"

definition next_version :: "ctx \<Rightarrow> dms \<Rightarrow> attrs \<Rightarrow> attrs res" where
  "next_version c w d =
     (case map_of d ''document'' of
        Some (JStr doc) \<Rightarrow> Inr (dict_set ''version'' (JInt (case last_version c doc (ds_versions w) of
            None \<Rightarrow> 1 | Some v \<Rightarrow> dv_version v + 1)) d)
      | _ \<Rightarrow> Inl KeyErr)"

definition build_version :: "string \<Rightarrow> attrs \<Rightarrow> document_version" where
  "build_version k d = \<lparr>dv_id = k, dv_tenant = attr_text d ''tenant_id'', dv_document = attr_text d ''document'',
     dv_version = (case map_of d ''version'' of Some (JInt n) \<Rightarrow> n | _ \<Rightarrow> 0), dv_filename = attr_text d ''filename'',
     dv_mime_type = json_or d ''mime_type'' JNull, dv_size = JNull, dv_checksum = JNull, dv_extension = JNull,
     dv_storage_key = JNull, dv_storage_state = ''UPLOADING'', dv_created_by = None\<rparr>"

definition version_resource :: "(document_version, dms) resource" where
  "version_resource = \<lparr>rs_label = ''dms_document_versions.documentversion'', rs_pk = dv_id, rs_tenant = dv_tenant,
     rs_deleted = (\<lambda>r. False), rs_rows = ds_versions, rs_put = (\<lambda>rows w. w\<lparr>ds_versions := rows\<rparr>),
     rs_parents = [(''document_id'', dv_document)], rs_write_permissions = None, rs_model = map_of version_model,
     rs_fields = version_fields, rs_validator = (\<lambda>c context i w d. Inr ()), rs_do_validate = (\<lambda>c i w d. Inr ()),
     rs_pre_create = next_version, rs_build = build_version, rs_assign = (\<lambda>d i. i), rs_mark_deleted = (\<lambda>now i. i),
     rs_clash = (\<lambda>r i. dv_document r = dv_document i \<and> dv_version r = dv_version i),
     rs_attr = (\<lambda>i. map_of (version_json i)), rs_represent = version_json\<rparr>"

section \<open>The four resources obey the contract\<close>

lemmas column_simps = attr_text_def text_or_def base_model_def standard_fields_def text_input_def input_def

interpretation types: resource_laws type_resource
  by unfold_locales (auto simp: type_resource_def column_simps)

interpretation definitions: resource_laws "definition_resource env spelling"
  by unfold_locales (auto simp: definition_resource_def definition_fields_def flag_names_def column_simps)

interpretation documents: resource_laws "document_resource env"
  by unfold_locales (auto simp: document_resource_def document_fields_def assign_document_def blank_document_def column_simps)

interpretation versions: resource_laws version_resource
  by unfold_locales (auto simp: version_resource_def version_fields_def build_version_def next_version_def column_simps
      split: option.splits json.splits)

section \<open>Requests as steps\<close>

text \<open>
  A request reaches the view with the scope of its token bound (\<open>run_view\<close>).  A step is one
  request to one of the endpoints, successful or not; a new row has a key no row has.
\<close>

definition in_scope :: "ctx \<Rightarrow> request \<Rightarrow> bool" where
  "in_scope c rq = (case tenant_of rq of None \<Rightarrow> True | Some t \<Rightarrow> scope_tenant c = Some t)"

inductive dms_step :: "val_env \<Rightarrow> (json \<Rightarrow> bool option) \<Rightarrow> request \<Rightarrow> dms app \<Rightarrow> dms app \<Rightarrow> bool"
  for env spelling where
  create_type: "\<lbrakk>create_endpoint type_resource c mbs rq Map.empty k body w = (x, w'); in_scope c rq;
     k \<notin> dt_id ` set (ds_types (ap_db w))\<rbrakk> \<Longrightarrow> dms_step env spelling rq w w'"
| update_type: "\<lbrakk>update_endpoint type_resource c mbs rq Map.empty pk partial body w = (x, w'); in_scope c rq\<rbrakk>
    \<Longrightarrow> dms_step env spelling rq w w'"
| destroy_type: "\<lbrakk>destroy_endpoint type_resource c mbs rq Map.empty pk now w = (y, w'); in_scope c rq\<rbrakk>
    \<Longrightarrow> dms_step env spelling rq w w'"
| create_definition: "\<lbrakk>create_endpoint (definition_resource env spelling) c mbs rq [''document_type_id'' \<mapsto> parent] k body w = (x', w');
     in_scope c rq; k \<notin> dfn_id ` set (ds_definitions (ap_db w))\<rbrakk> \<Longrightarrow> dms_step env spelling rq w w'"
| update_definition: "\<lbrakk>update_endpoint (definition_resource env spelling) c mbs rq [''document_type_id'' \<mapsto> parent] pk partial body w = (x', w');
     in_scope c rq\<rbrakk> \<Longrightarrow> dms_step env spelling rq w w'"
| destroy_definition: "\<lbrakk>destroy_endpoint (definition_resource env spelling) c mbs rq [''document_type_id'' \<mapsto> parent] pk now w = (y, w');
     in_scope c rq\<rbrakk> \<Longrightarrow> dms_step env spelling rq w w'"
| create_document: "\<lbrakk>create_endpoint (document_resource env) c mbs rq Map.empty k body w = (d, w'); in_scope c rq;
     k \<notin> do_id ` set (ds_documents (ap_db w))\<rbrakk> \<Longrightarrow> dms_step env spelling rq w w'"
| update_document: "\<lbrakk>update_endpoint (document_resource env) c mbs rq Map.empty pk partial body w = (d, w'); in_scope c rq\<rbrakk>
    \<Longrightarrow> dms_step env spelling rq w w'"
| destroy_document: "\<lbrakk>destroy_endpoint (document_resource env) c mbs rq Map.empty pk now w = (y, w'); in_scope c rq\<rbrakk>
    \<Longrightarrow> dms_step env spelling rq w w'"
| create_version: "\<lbrakk>create_endpoint version_resource c mbs rq [''document_id'' \<mapsto> parent] k body w = (v, w'); in_scope c rq;
     k \<notin> dv_id ` set (ds_versions (ap_db w))\<rbrakk> \<Longrightarrow> dms_step env spelling rq w w'"

text \<open>
  References name a row of the same tenant; the versions of every document are numbered 1 to
  \<open>n\<close> in the order they were stored.
\<close>

definition refers :: "('a \<Rightarrow> string) \<Rightarrow> ('a \<Rightarrow> string) \<Rightarrow> 'a list \<Rightarrow> string \<Rightarrow> string \<Rightarrow> bool" where
  "refers pk_of tenant_of_row rows key tenant = list_ex (\<lambda>r. pk_of r = key \<and> tenant_of_row r = tenant) rows"

definition definition_refs :: "dms \<Rightarrow> bool" where
  "definition_refs w = list_all (\<lambda>d. refers dt_id dt_tenant (ds_types w) (md_document_type (dfn_spec d)) (dfn_tenant d)) (ds_definitions w)"

definition document_refs :: "dms \<Rightarrow> bool" where
  "document_refs w = list_all (\<lambda>d. case do_document_type d of None \<Rightarrow> True
     | Some k \<Rightarrow> refers dt_id dt_tenant (ds_types w) k (do_tenant d)) (ds_documents w)"

definition version_refs :: "dms \<Rightarrow> bool" where
  "version_refs w = list_all (\<lambda>v. refers do_id do_tenant (ds_documents w) (dv_document v) (dv_tenant v)) (ds_versions w)"

definition versions_numbered :: "dms \<Rightarrow> bool" where
  "versions_numbered w =
     (\<forall>doc. numbered doc (length (filter (\<lambda>v. dv_document v = doc) (ds_versions w))) (ds_versions w))"

definition tables_ok :: "val_env \<Rightarrow> (json \<Rightarrow> bool option) \<Rightarrow> dms app \<Rightarrow> bool" where
  "tables_ok env spelling w =
     (table_ok type_resource w \<and> table_ok (definition_resource env spelling) w \<and> table_ok (document_resource env) w
      \<and> table_ok version_resource w
      \<and> audited type_resource w \<and> audited (definition_resource env spelling) w \<and> audited (document_resource env) w
      \<and> audited version_resource w)"

definition dms_ok :: "val_env \<Rightarrow> (json \<Rightarrow> bool option) \<Rightarrow> dms app \<Rightarrow> bool" where
  "dms_ok env spelling w =
     (tables_ok env spelling w \<and> definition_refs (ap_db w) \<and> document_refs (ap_db w) \<and> version_refs (ap_db w)
      \<and> versions_numbered (ap_db w))"

section \<open>One request, one table\<close>

lemma refers_iff: "refers pk tn rows k t \<longleftrightarrow> (\<exists>r \<in> set rows. pk r = k \<and> tn r = t)"
  by (simp add: refers_def list_ex_iff)

text \<open>Rows and what a table refers to are read off the resource.\<close>

lemma resource_simps [simp]:
  "rs_rows type_resource w = ds_types w" "rs_pk type_resource = dt_id" "rs_tenant type_resource = dt_tenant"
  "rs_put type_resource ty w = w\<lparr>ds_types := ty\<rparr>" "rs_label type_resource = ''dms_document_types.documenttype''"
  "rs_rows (definition_resource env spelling) w = ds_definitions w" "rs_pk (definition_resource env spelling) = dfn_id"
  "rs_tenant (definition_resource env spelling) = dfn_tenant"
  "rs_put (definition_resource env spelling) df w = w\<lparr>ds_definitions := df\<rparr>"
  "rs_label (definition_resource env spelling) = ''dms_metadata.metadatadefinition''"
  "rs_rows (document_resource env) w = ds_documents w" "rs_pk (document_resource env) = do_id"
  "rs_tenant (document_resource env) = do_tenant" "rs_put (document_resource env) dc w = w\<lparr>ds_documents := dc\<rparr>"
  "rs_label (document_resource env) = ''dms_documents.document''"
  "rs_rows version_resource w = ds_versions w" "rs_pk version_resource = dv_id" "rs_tenant version_resource = dv_tenant"
  "rs_put version_resource vs w = w\<lparr>ds_versions := vs\<rparr>" "rs_label version_resource = ''dms_document_versions.documentversion''"
  by (simp_all add: type_resource_def definition_resource_def document_resource_def version_resource_def)

text \<open>Each step is a write of the request's tenant to one of the four tables, or changes nothing.\<close>

lemma dms_step_writes:
  assumes "dms_step env spelling rq w w'"
  shows "w' = w \<or> (\<exists>t. tenant_of rq = Some t \<and> (writes type_resource t w w' \<or> writes (definition_resource env spelling) t w w'
    \<or> writes (document_resource env) t w w' \<or> writes version_resource t w w'))"
  using assms
proof cases
  case (create_type c mbs k body x)
  from types.create_writes [OF create_type(1)] create_type(3) show ?thesis by auto
next
  case (update_type c mbs pk partial body x)
  from types.update_writes [OF update_type(1)] show ?thesis by blast
next
  case (destroy_type c mbs pk now y)
  from types.destroy_writes [OF destroy_type(1)] show ?thesis by blast
next
  case (create_definition c mbs parent k body x')
  from definitions.create_writes [OF create_definition(1)] create_definition(3) show ?thesis by auto
next
  case (update_definition c mbs parent pk partial body x')
  from definitions.update_writes [OF update_definition(1)] show ?thesis by blast
next
  case (destroy_definition c mbs parent pk now y)
  from definitions.destroy_writes [OF destroy_definition(1)] show ?thesis by blast
next
  case (create_document c mbs k body d)
  from documents.create_writes [OF create_document(1)] create_document(3) show ?thesis by auto
next
  case (update_document c mbs pk partial body d)
  from documents.update_writes [OF update_document(1)] show ?thesis by blast
next
  case (destroy_document c mbs pk now y)
  from documents.destroy_writes [OF destroy_document(1)] show ?thesis by blast
next
  case (create_version c mbs parent k body v)
  from versions.create_writes [OF create_version(1)] create_version(3) show ?thesis by auto
qed

section \<open>The tables stay well-formed and audited\<close>

lemma tables_kept:
  assumes "tables_ok env spelling w" and "dms_step env spelling rq w w'"
  shows "tables_ok env spelling w'"
  using dms_step_writes [OF assms(2)]
proof (elim disjE exE conjE)
  fix t assume w: "writes type_resource t w w'"
  show ?thesis using assms(1) types.writes_table_ok [OF w] types.writes_audited [OF w]
      writes_other(1,2) [OF w, of "definition_resource env spelling"] writes_other(1,2) [OF w, of "document_resource env"] writes_other(1,2) [OF w, of "version_resource"]
    unfolding tables_ok_def by simp
next
  fix t assume w: "writes (definition_resource env spelling) t w w'"
  show ?thesis using assms(1) definitions.writes_table_ok [OF w] definitions.writes_audited [OF w]
      writes_other(1,2) [OF w, of "type_resource"] writes_other(1,2) [OF w, of "document_resource env"] writes_other(1,2) [OF w, of "version_resource"]
    unfolding tables_ok_def by simp
next
  fix t assume w: "writes (document_resource env) t w w'"
  show ?thesis using assms(1) documents.writes_table_ok [OF w] documents.writes_audited [OF w]
      writes_other(1,2) [OF w, of "type_resource"] writes_other(1,2) [OF w, of "definition_resource env spelling"] writes_other(1,2) [OF w, of "version_resource"]
    unfolding tables_ok_def by simp
next
  fix t assume w: "writes version_resource t w w'"
  show ?thesis using assms(1) versions.writes_table_ok [OF w] versions.writes_audited [OF w]
      writes_other(1,2) [OF w, of "type_resource"] writes_other(1,2) [OF w, of "definition_resource env spelling"] writes_other(1,2) [OF w, of "document_resource env"]
    unfolding tables_ok_def by simp
qed (use assms(1) in simp)

section \<open>References stay within a tenant\<close>

lemma in_scope_rows:
  assumes "in_scope c rq" and "tenant_of rq = Some t" and "r \<in> set (manager_queryset f c rows)"
  shows "r \<in> set rows" and "f r = t"
  using assms by (auto simp: in_scope_def manager_queryset_def)

text \<open>What a validated foreign key names.\<close>

lemma definition_type_value:
  assumes "run_fields partial (writable (get_fields (rs_model (definition_resource env spelling)) (rs_fields (definition_resource env spelling) c w))) data = Inr d"
    and "map_of d ''document_type'' = Some x" and "in_scope c rq" and "tenant_of rq = Some t"
  shows "\<exists>k. x = JStr k \<and> refers dt_id dt_tenant (ds_types w) k t"
proof -
  from validated_value [OF assms(1,2)] obtain v where
    "not_null ''document_type'' (fk_value dt_id (manager_queryset dt_tenant c (ds_types w)) ''document_type'') (fk_null v) = Inr x"
    by (auto simp: definition_resource_def definition_fields_def standard_fields_def input_def text_input_def flag_names_def)
  then have "fk_value dt_id (manager_queryset dt_tenant c (ds_types w)) ''document_type'' (fk_null v) = Inr x"
    by (simp add: not_null_def bad_field_def split: if_splits)
  from fk_value_Inr [OF this] obtain r where "r \<in> set (manager_queryset dt_tenant c (ds_types w))" "x = JStr (dt_id r)" by blast
  with in_scope_rows [OF assms(3,4) this(1)] show ?thesis by (auto simp: refers_iff)
qed

lemma document_type_value:
  assumes "run_fields partial (writable (get_fields (rs_model (document_resource env)) (rs_fields (document_resource env) c w))) data = Inr d"
    and "map_of d ''document_type'' = Some x" and "in_scope c rq" and "tenant_of rq = Some t"
  shows "x = JNull \<or> (\<exists>k. x = JStr k \<and> refers dt_id dt_tenant (ds_types w) k t)"
proof -
  from validated_value [OF assms(1,2)] obtain v where
    "nullable (fk_value dt_id (manager_queryset dt_tenant c (ds_types w)) ''document_type'') (fk_null v) = Inr x"
    by (auto simp: document_resource_def document_fields_def input_def text_input_def)
  then have "x = JNull \<or> fk_value dt_id (manager_queryset dt_tenant c (ds_types w)) ''document_type'' (fk_null v) = Inr x"
    by (simp add: nullable_def split: if_splits)
  then show ?thesis
  proof
    assume "fk_value dt_id (manager_queryset dt_tenant c (ds_types w)) ''document_type'' (fk_null v) = Inr x"
    from fk_value_Inr [OF this] obtain r where "r \<in> set (manager_queryset dt_tenant c (ds_types w))" "x = JStr (dt_id r)" by blast
    with in_scope_rows [OF assms(3,4) this(1)] show ?thesis by (auto simp: refers_iff)
  qed simp
qed

lemma version_document_value:
  assumes "run_fields partial (writable (get_fields (rs_model version_resource) (rs_fields version_resource c w))) data = Inr d"
    and "map_of d ''document'' = Some x" and "in_scope c rq" and "tenant_of rq = Some t"
  shows "\<exists>k. x = JStr k \<and> refers do_id do_tenant (ds_documents w) k t"
proof -
  from validated_value [OF assms(1,2)] obtain v where
    "not_null ''document'' (fk_value do_id (manager_queryset do_tenant c (ds_documents w)) ''document'') (fk_null v) = Inr x"
    by (auto simp: version_resource_def version_fields_def input_def text_input_def)
  then have "fk_value do_id (manager_queryset do_tenant c (ds_documents w)) ''document'' (fk_null v) = Inr x"
    by (simp add: not_null_def bad_field_def split: if_splits)
  from fk_value_Inr [OF this] obtain r where "r \<in> set (manager_queryset do_tenant c (ds_documents w))" "x = JStr (do_id r)" by blast
  with in_scope_rows [OF assms(3,4) this(1)] show ?thesis by (auto simp: refers_iff)
qed

lemma refers_types_kept:
  assumes "writes type_resource t w w'" and "table_ok type_resource w" and "refers dt_id dt_tenant (ds_types (ap_db w)) k t'"
  shows "refers dt_id dt_tenant (ds_types (ap_db w')) k t'"
  using assms(3) types.writes_keep_keys [OF assms(1,2)] by (auto simp: refers_iff)

lemma refers_documents_kept:
  assumes "writes (document_resource env) t w w'" and "table_ok (document_resource env) w"
    and "refers do_id do_tenant (ds_documents (ap_db w)) k t'"
  shows "refers do_id do_tenant (ds_documents (ap_db w')) k t'"
  using assms(3) documents.writes_keep_keys [OF assms(1,2)] by (auto simp: refers_iff)

lemma definition_type_given:
  assumes "run_fields False (writable (get_fields (rs_model (definition_resource env spelling)) (rs_fields (definition_resource env spelling) c w))) data = Inr d"
  obtains y where "map_of d ''document_type'' = Some y"
  using run_fields_required [OF assms] by (force simp: definition_resource_def definition_fields_def input_def text_input_def flag_names_def
        writable_def get_fields_def filter_fields_def base_model_def standard_fields_def)

lemma version_document_given:
  assumes "run_fields False (writable (get_fields (rs_model version_resource) (rs_fields version_resource c w))) data = Inr d"
  obtains y where "map_of d ''document'' = Some y"
  using run_fields_required [OF assms] by (force simp: version_resource_def version_fields_def version_model_def input_def text_input_def
        writable_def get_fields_def filter_fields_def base_model_def)

lemma definition_refs_kept:
  assumes "dms_step env spelling rq w w'" and "tables_ok env spelling w" and "definition_refs (ap_db w)"
  shows "definition_refs (ap_db w')"
proof -
  define P where "P = (\<lambda>d :: definition_row. refers dt_id dt_tenant (ds_types (ap_db w)) (md_document_type (dfn_spec d)) (dfn_tenant d))"
  have before: "list_all P (rs_rows (definition_resource env spelling) (ap_db w))" using assms(3) by (simp add: P_def definition_refs_def)
  have after: "definition_refs (ap_db w')" if "list_all P (rs_rows (definition_resource env spelling) (ap_db w'))" "ds_types (ap_db w') = ds_types (ap_db w)"
    using that by (simp add: P_def definition_refs_def)
  have types: ?thesis if "w' = w \<or> (\<exists>t. tenant_of rq = Some t \<and> writes type_resource t w w')"
    using that
  proof (elim disjE exE conjE)
    fix t assume wr: "writes type_resource t w w'"
    from assms(2) have "table_ok type_resource w" by (simp add: tables_ok_def)
    with refers_types_kept [OF wr] assms(3) writes_other(3) [OF wr, of "definition_resource env spelling"] show ?thesis
      by (simp add: definition_refs_def list_all_iff)
  qed (use assms(3) in simp)
  have documents: ?thesis if "w' = w \<or> (\<exists>t. tenant_of rq = Some t \<and> writes (document_resource env) t w w')"
    using that assms(3) by (auto simp: definition_refs_def dest!: writes_frame)
  have versions: ?thesis if "w' = w \<or> (\<exists>t. tenant_of rq = Some t \<and> writes version_resource t w w')"
    using that assms(3) by (auto simp: definition_refs_def dest!: writes_frame)
  show ?thesis
    using assms(1)
  proof cases
    case (create_definition c mbs parent k body x')
    have "list_all P (rs_rows (definition_resource env spelling) (ap_db w'))"
    proof (rule definitions.create_rows [OF create_definition(1) before])
      fix t d d'
      assume t: "tenant_of rq = Some t" and fields: "run_fields False (writable (get_fields (rs_model (definition_resource env spelling))
          (rs_fields (definition_resource env spelling) c (ap_db w)))) (clean_create_data (map fst (rs_parents (definition_resource env spelling)))
          [''document_type_id'' \<mapsto> parent] body) = Inr d"
        and pre: "rs_pre_create (definition_resource env spelling) c (ap_db w) (dict_set ''tenant_id'' (JStr t) d) = Inr d'"
      obtain y where y: "map_of d ''document_type'' = Some y" using definition_type_given [OF fields] .
      from definition_type_value [OF fields y create_definition(2) t] y pre
      show "P (rs_build (definition_resource env spelling) k d')"
        by (auto simp: P_def definition_resource_def assign_definition_def text_or_def attr_text_def)
    qed
    then show ?thesis using definitions.create_writes [OF create_definition(1)] create_definition(3) by (intro after) (auto dest!: writes_frame)
  next
    case (update_definition c mbs parent pk partial body x')
    have "list_all P (rs_rows (definition_resource env spelling) (ap_db w'))"
    proof (rule definitions.update_rows [OF update_definition(1) before])
      fix d i
      assume t: "tenant_of rq = Some (rs_tenant (definition_resource env spelling) i)" and i: "P i"
        and fields: "run_fields partial (writable (get_fields (rs_model (definition_resource env spelling))
          (rs_fields (definition_resource env spelling) c (ap_db w)))) body = Inr d"
      show "P (rs_assign (definition_resource env spelling) d i)"
        using i definition_type_value [OF fields _ update_definition(2) t]
        by (cases "map_of d ''document_type''") (auto simp: P_def definition_resource_def assign_definition_def text_or_def)
    qed
    then show ?thesis using definitions.update_writes [OF update_definition(1)] by (intro after) (auto dest!: writes_frame)
  next
    case (destroy_definition c mbs parent pk now y)
    have "list_all P (rs_rows (definition_resource env spelling) (ap_db w'))"
      by (rule definitions.destroy_rows [OF destroy_definition(1) before]) (simp add: P_def definition_resource_def)
    then show ?thesis using definitions.destroy_writes [OF destroy_definition(1)] by (intro after) (auto dest!: writes_frame)
  next
    case create_type then show ?thesis using types.create_writes types by simp
  next
    case update_type then show ?thesis using types.update_writes types by blast
  next
    case destroy_type then show ?thesis using types.destroy_writes types by blast
  next
    case create_document then show ?thesis using documents.create_writes documents by simp
  next
    case update_document then show ?thesis using documents.update_writes documents by blast
  next
    case destroy_document then show ?thesis using documents.destroy_writes documents by blast
  next
    case create_version then show ?thesis using versions.create_writes versions by simp
  qed
qed

lemma assign_document_simps:
  "do_id (assign_document d i) = do_id i" "do_tenant (assign_document d i) = do_tenant i"
  "do_document_type (assign_document d i) = opt_text_or d ''document_type'' (do_document_type i)"
  "do_title (assign_document d i) = text_or d ''title'' (do_title i)" "dx_metadata (assign_document d i) = json_or d ''metadata'' (dx_metadata i)"
  by (simp_all add: assign_document_def)

lemma document_refs_cong:
  "ds_types db' = ds_types db \<Longrightarrow> ds_documents db' = ds_documents db \<Longrightarrow> document_refs db' = document_refs db"
  by (simp only: document_refs_def)

lemma document_refs_kept:
  assumes "dms_step env spelling rq w w'" and "tables_ok env spelling w" and "document_refs (ap_db w)"
  shows "document_refs (ap_db w')"
proof -
  define P where "P = (\<lambda>d :: document_row. case do_document_type d of None \<Rightarrow> True
     | Some k \<Rightarrow> refers dt_id dt_tenant (ds_types (ap_db w)) k (do_tenant d))"
  have before: "list_all P (rs_rows (document_resource env) (ap_db w))" using assms(3) by (simp add: P_def document_refs_def)
  have after: "document_refs (ap_db w')" if "list_all P (rs_rows (document_resource env) (ap_db w'))" "ds_types (ap_db w') = ds_types (ap_db w)"
    using that by (auto simp: P_def document_refs_def list_all_iff split: option.splits)
  have types: ?thesis if "w' = w \<or> (\<exists>t. tenant_of rq = Some t \<and> writes type_resource t w w')"
    using that
  proof (elim disjE exE conjE)
    fix t assume wr: "writes type_resource t w w'"
    from assms(2) have "table_ok type_resource w" by (simp add: tables_ok_def)
    with refers_types_kept [OF wr] assms(3) writes_other(3) [OF wr, of "document_resource env"] show ?thesis
      by (auto simp: document_refs_def list_all_iff split: option.splits)
  qed (use assms(3) in simp)
  have definitions: ?thesis if "w' = w \<or> (\<exists>t. tenant_of rq = Some t \<and> writes (definition_resource env spelling) t w w')"
    using that assms(3) document_refs_cong [of "ap_db w'" "ap_db w"] by (auto dest!: writes_frame)
  have versions: ?thesis if "w' = w \<or> (\<exists>t. tenant_of rq = Some t \<and> writes version_resource t w w')"
    using that assms(3) document_refs_cong [of "ap_db w'" "ap_db w"] by (auto dest!: writes_frame)
  show ?thesis
    using assms(1)
  proof cases
    case (create_document c mbs k body x')
    have "list_all P (rs_rows (document_resource env) (ap_db w'))"
    proof (rule documents.create_rows [OF create_document(1) before])
      fix t d d'
      assume t: "tenant_of rq = Some t" and fields: "run_fields False (writable (get_fields (rs_model (document_resource env))
          (rs_fields (document_resource env) c (ap_db w)))) (clean_create_data (map fst (rs_parents (document_resource env))) Map.empty body) = Inr d"
        and pre: "rs_pre_create (document_resource env) c (ap_db w) (dict_set ''tenant_id'' (JStr t) d) = Inr d'"
      show "P (rs_build (document_resource env) k d')"
        using document_type_value [OF fields _ create_document(2) t] pre
        by (cases "map_of d ''document_type''")
          (auto simp: P_def document_resource_def assign_document_simps blank_document_def opt_text_or_def attr_text_def)
    qed
    then show ?thesis using documents.create_writes [OF create_document(1)] create_document(3) by (intro after) (auto dest!: writes_frame)
  next
    case (update_document c mbs pk partial body x')
    have "list_all P (rs_rows (document_resource env) (ap_db w'))"
    proof (rule documents.update_rows [OF update_document(1) before])
      fix d i
      assume t: "tenant_of rq = Some (rs_tenant (document_resource env) i)" and i: "P i"
        and fields: "run_fields partial (writable (get_fields (rs_model (document_resource env))
          (rs_fields (document_resource env) c (ap_db w)))) body = Inr d"
      show "P (rs_assign (document_resource env) d i)"
        using i document_type_value [OF fields _ update_document(2) t]
        by (cases "map_of d ''document_type''") (auto simp: P_def document_resource_def assign_document_simps opt_text_or_def split: option.split)
    qed
    then show ?thesis using documents.update_writes [OF update_document(1)] by (intro after) (auto dest!: writes_frame)
  next
    case (destroy_document c mbs pk now y)
    have "list_all P (rs_rows (document_resource env) (ap_db w'))"
      by (rule documents.destroy_rows [OF destroy_document(1) before]) (auto simp: P_def document_resource_def split: option.split)
    then show ?thesis using documents.destroy_writes [OF destroy_document(1)] by (intro after) (auto dest!: writes_frame)
  next
    case create_type then show ?thesis using types.create_writes types by simp
  next
    case update_type then show ?thesis using types.update_writes types by blast
  next
    case destroy_type then show ?thesis using types.destroy_writes types by blast
  next
    case create_definition then show ?thesis using definitions.create_writes definitions by simp
  next
    case update_definition then show ?thesis using definitions.update_writes definitions by blast
  next
    case destroy_definition then show ?thesis using definitions.destroy_writes definitions by blast
  next
    case create_version then show ?thesis using versions.create_writes versions by simp
  qed
qed

text \<open>A version is created for a document of the tenant and gets the next number.\<close>

lemma version_build_facts:
  assumes "run_fields False (writable (get_fields (rs_model version_resource) (rs_fields version_resource c db))) data = Inr d"
    and "in_scope c rq" and "tenant_of rq = Some t"
    and "rs_pre_create version_resource c db (dict_set ''tenant_id'' (JStr t) d) = Inr d'"
  shows "\<exists>doc. map_of d ''document'' = Some (JStr doc) \<and> refers do_id do_tenant (ds_documents db) doc t
    \<and> dv_document (rs_build version_resource k d') = doc \<and> dv_tenant (rs_build version_resource k d') = t
    \<and> dv_version (rs_build version_resource k d')
        = (case last_version c doc (ds_versions db) of None \<Rightarrow> 1 | Some v \<Rightarrow> dv_version v + 1)"
proof -
  obtain y where y: "map_of d ''document'' = Some y" using version_document_given [OF assms(1)] .
  from version_document_value [OF assms(1) y assms(2,3)] obtain doc where
    doc: "y = JStr doc" "refers do_id do_tenant (ds_documents db) doc t" by blast
  from y doc assms(4) show ?thesis
    by (auto simp: version_resource_def next_version_def build_version_def attr_text_def)
qed

lemma version_refs_kept:
  assumes "dms_step env spelling rq w w'" and "tables_ok env spelling w" and "version_refs (ap_db w)"
  shows "version_refs (ap_db w')"
proof -
  have documents: ?thesis if "w' = w \<or> (\<exists>t. tenant_of rq = Some t \<and> writes (document_resource env) t w w')"
    using that
  proof (elim disjE exE conjE)
    fix t assume wr: "writes (document_resource env) t w w'"
    from assms(2) have "table_ok (document_resource env) w" by (simp add: tables_ok_def)
    with refers_documents_kept [OF wr] assms(3) writes_other(3) [OF wr, of version_resource] show ?thesis
      by (simp add: version_refs_def list_all_iff)
  qed (use assms(3) in simp)
  have types: ?thesis if "w' = w \<or> (\<exists>t. tenant_of rq = Some t \<and> writes type_resource t w w')"
    using that assms(3) by (auto simp: version_refs_def dest!: writes_frame)
  have definitions: ?thesis if "w' = w \<or> (\<exists>t. tenant_of rq = Some t \<and> writes (definition_resource env spelling) t w w')"
    using that assms(3) by (auto simp: version_refs_def dest!: writes_frame)
  show ?thesis
    using assms(1)
  proof cases
    case (create_version c mbs parent k body v)
    define P where "P = (\<lambda>v :: document_version. refers do_id do_tenant (ds_documents (ap_db w)) (dv_document v) (dv_tenant v))"
    have before: "list_all P (rs_rows version_resource (ap_db w))" using assms(3) by (simp add: P_def version_refs_def)
    have "list_all P (rs_rows version_resource (ap_db w'))"
      using version_build_facts [OF _ create_version(2)] by (intro versions.create_rows [OF create_version(1) before]) (fastforce simp: P_def)
    then show ?thesis using versions.create_writes [OF create_version(1)] create_version(3)
      by (auto simp: P_def version_refs_def dest!: writes_frame)
  next
    case create_type then show ?thesis using types.create_writes types by simp
  next
    case update_type then show ?thesis using types.update_writes types by blast
  next
    case destroy_type then show ?thesis using types.destroy_writes types by blast
  next
    case create_definition then show ?thesis using definitions.create_writes definitions by simp
  next
    case update_definition then show ?thesis using definitions.update_writes definitions by blast
  next
    case destroy_definition then show ?thesis using definitions.destroy_writes definitions by blast
  next
    case create_document then show ?thesis using documents.create_writes documents by simp
  next
    case update_document then show ?thesis using documents.update_writes documents by blast
  next
    case destroy_document then show ?thesis using documents.destroy_writes documents by blast
  qed
qed

lemma versions_of_refs:
  assumes "version_refs db" and "distinct (map do_id (ds_documents db))" and "refers do_id do_tenant (ds_documents db) doc t"
  shows "versions_of_tenant doc t (ds_versions db)"
  unfolding versions_of_tenant_def
proof (intro ballI impI)
  fix v assume v: "v \<in> set (ds_versions db)" "dv_document v = doc"
  with assms(1) have "refers do_id do_tenant (ds_documents db) doc (dv_tenant v)" by (auto simp: version_refs_def list_all_iff)
  then obtain r where r: "r \<in> set (ds_documents db)" "do_id r = doc" "do_tenant r = dv_tenant v" by (auto simp: refers_iff)
  from assms(3) obtain s where s: "s \<in> set (ds_documents db)" "do_id s = doc" "do_tenant s = t" by (auto simp: refers_iff)
  from assms(2) r s have "r = s" by (metis distinct_map inj_onD)
  with r s show "dv_tenant v = t" by simp
qed

lemma numbered_append:
  assumes "versions_numbered db" and "dv_version v = int (length (filter (\<lambda>x. dv_document x = dv_document v) (ds_versions db))) + 1"
  shows "versions_numbered (db\<lparr>ds_versions := ds_versions db @ [v]\<rparr>)"
  using assms by (auto simp: versions_numbered_def numbered_def)

lemma versions_numbered_kept:
  assumes "dms_step env spelling rq w w'" and "tables_ok env spelling w" and "version_refs (ap_db w)" and "versions_numbered (ap_db w)"
  shows "versions_numbered (ap_db w')"
proof -
  have frame: "versions_numbered (ap_db w')" if "ds_versions (ap_db w') = ds_versions (ap_db w)"
    using that assms(4) by (simp add: versions_numbered_def)
  show ?thesis
    using assms(1)
  proof cases
    case (create_version c mbs parent k body x)
    show ?thesis
      using create_endpoint_outcome [OF create_version(1)]
    proof (elim disjE exE conjE)
      fix u t d d' i
      assume t: "tenant_of rq = Some t" and fields: "run_fields False (writable (get_fields (rs_model version_resource)
            (rs_fields version_resource c (ap_db w)))) (clean_create_data (map fst (rs_parents version_resource)) [''document_id'' \<mapsto> parent] body) = Inr d"
        and pre: "rs_pre_create version_resource c (ap_db w) (dict_set ''tenant_id'' (JStr t) d) = Inr d'"
        and i: "i = rs_build version_resource k d'"
        and w': "w' = \<lparr>ap_db = rs_put version_resource (rs_rows version_resource (ap_db w) @ [i]) (ap_db w),
              ap_audit = ap_audit w @ [audit_row u ''create'' (rs_label version_resource) (rs_pk version_resource i) t (rs_represent version_resource i)]\<rparr>"
      from version_build_facts [OF fields create_version(2) t pre, of k] obtain doc where
        doc: "refers do_id do_tenant (ds_documents (ap_db w)) doc t" "dv_document i = doc"
          "dv_version i = (case last_version c doc (ds_versions (ap_db w)) of None \<Rightarrow> 1 | Some v \<Rightarrow> dv_version v + 1)"
        unfolding i by blast
      have "distinct (map do_id (ds_documents (ap_db w)))" using assms(2) by (simp add: tables_ok_def table_ok_def)
      from versions_of_refs [OF assms(3) this doc(1)] have own: "versions_of_tenant doc t (ds_versions (ap_db w))" .
      have num: "numbered doc (length (filter (\<lambda>v. dv_document v = doc) (ds_versions (ap_db w)))) (ds_versions (ap_db w))"
        using assms(4) by (simp add: versions_numbered_def)
      have "scope_tenant c = Some t" using create_version(2) t by (simp add: in_scope_def)
      with last_version_number [OF num own] have "dv_version i = int (length (filter (\<lambda>x. dv_document x = dv_document i) (ds_versions (ap_db w)))) + 1"
        by (simp add: doc)
      from numbered_append [OF assms(4) this] show ?thesis by (simp add: w')
    qed (use assms(4) in simp)
  next
    case (create_type c mbs k body x)
    from types.create_writes [OF create_type(1)] create_type(3) show ?thesis by (intro frame) (auto dest!: writes_frame)
  next
    case (update_type c mbs pk partial body x)
    from types.update_writes [OF update_type(1)] show ?thesis by (intro frame) (auto dest!: writes_frame)
  next
    case (destroy_type c mbs pk now y)
    from types.destroy_writes [OF destroy_type(1)] show ?thesis by (intro frame) (auto dest!: writes_frame)
  next
    case (create_definition c mbs parent k body x')
    from definitions.create_writes [OF create_definition(1)] create_definition(3) show ?thesis by (intro frame) (auto dest!: writes_frame)
  next
    case (update_definition c mbs parent pk partial body x')
    from definitions.update_writes [OF update_definition(1)] show ?thesis by (intro frame) (auto dest!: writes_frame)
  next
    case (destroy_definition c mbs parent pk now y)
    from definitions.destroy_writes [OF destroy_definition(1)] show ?thesis by (intro frame) (auto dest!: writes_frame)
  next
    case (create_document c mbs k body d)
    from documents.create_writes [OF create_document(1)] create_document(3) show ?thesis by (intro frame) (auto dest!: writes_frame)
  next
    case (update_document c mbs pk partial body d)
    from documents.update_writes [OF update_document(1)] show ?thesis by (intro frame) (auto dest!: writes_frame)
  next
    case (destroy_document c mbs pk now y)
    from documents.destroy_writes [OF destroy_document(1)] show ?thesis by (intro frame) (auto dest!: writes_frame)
  qed
qed

section \<open>Sequences of requests\<close>

definition dms_request :: "val_env \<Rightarrow> (json \<Rightarrow> bool option) \<Rightarrow> dms app \<Rightarrow> dms app \<Rightarrow> bool" where
  "dms_request env spelling w w' = (\<exists>rq. dms_step env spelling rq w w')"

interpretation dms: state_machine "dms_request env spelling" "dms_ok env spelling"
  by unfold_locales
    (auto simp: dms_request_def dms_ok_def intro: tables_kept definition_refs_kept document_refs_kept version_refs_kept versions_numbered_kept)

definition empty_dms :: "user list \<Rightarrow> dms app" where
  "empty_dms users = \<lparr>ap_db = \<lparr>ds_users = users, ds_types = [], ds_definitions = [], ds_documents = [], ds_versions = []\<rparr>, ap_audit = []\<rparr>"

lemma empty_dms_ok: "dms_ok env spelling (empty_dms users)"
  by (simp add: dms_ok_def tables_ok_def table_ok_def audited_def definition_refs_def document_refs_def version_refs_def
      versions_numbered_def numbered_def empty_dms_def)

text \<open>What belongs to a tenant.\<close>

definition tenant_view :: "string \<Rightarrow> dms app
    \<Rightarrow> type_row list \<times> definition_row list \<times> document_row list \<times> document_version list \<times> audit_entry list" where
  "tenant_view t w = (filter (\<lambda>r. dt_tenant r = t) (ds_types (ap_db w)), filter (\<lambda>r. dfn_tenant r = t) (ds_definitions (ap_db w)),
     filter (\<lambda>r. do_tenant r = t) (ds_documents (ap_db w)), filter (\<lambda>r. dv_tenant r = t) (ds_versions (ap_db w)),
     filter (\<lambda>e. au_tenant e = Some t) (ap_audit w))"

lemma step_keeps_others:
  assumes "dms_step env spelling rq w w'" and "tables_ok env spelling w" and "tenant_of rq \<noteq> Some t"
  shows "tenant_view t w' = tenant_view t w"
  using dms_step_writes [OF assms(1)]
proof (elim disjE exE conjE)
  fix t' assume rq: "tenant_of rq = Some t'" and wr: "writes type_resource t' w w'"
  with assms have "filter (\<lambda>r. dt_tenant r = t) (ds_types (ap_db w')) = filter (\<lambda>r. dt_tenant r = t) (ds_types (ap_db w))"
    using types.writes_own [OF wr, of t] by (auto simp: tables_ok_def)
  with writes_log [OF wr] writes_frame [OF wr] rq assms(3) show ?thesis by (auto simp: tenant_view_def)
next
  fix t' assume rq: "tenant_of rq = Some t'" and wr: "writes (definition_resource env spelling) t' w w'"
  with assms have "filter (\<lambda>r. dfn_tenant r = t) (ds_definitions (ap_db w')) = filter (\<lambda>r. dfn_tenant r = t) (ds_definitions (ap_db w))"
    using definitions.writes_own [OF wr, of t] by (auto simp: tables_ok_def)
  with writes_log [OF wr] writes_frame [OF wr] rq assms(3) show ?thesis by (auto simp: tenant_view_def)
next
  fix t' assume rq: "tenant_of rq = Some t'" and wr: "writes (document_resource env) t' w w'"
  with assms have "filter (\<lambda>r. do_tenant r = t) (ds_documents (ap_db w')) = filter (\<lambda>r. do_tenant r = t) (ds_documents (ap_db w))"
    using documents.writes_own [OF wr, of t] by (auto simp: tables_ok_def)
  with writes_log [OF wr] writes_frame [OF wr] rq assms(3) show ?thesis by (auto simp: tenant_view_def)
next
  fix t' assume rq: "tenant_of rq = Some t'" and wr: "writes version_resource t' w w'"
  with assms have "filter (\<lambda>r. dv_tenant r = t) (ds_versions (ap_db w')) = filter (\<lambda>r. dv_tenant r = t) (ds_versions (ap_db w))"
    using versions.writes_own [OF wr, of t] by (auto simp: tables_ok_def)
  with writes_log [OF wr] writes_frame [OF wr] rq assms(3) show ?thesis by (auto simp: tenant_view_def)
qed simp

section \<open>Properties of the document management\<close>

lemma table_distinct:
  assumes "table_ok R w" and "\<And>r s. f r = f s \<Longrightarrow> rs_clash R r s"
  shows "distinct (map f (rs_rows R (ap_db w)))"
proof -
  let ?rows = "rs_rows R (ap_db w)"
  have "inj_on f (set ?rows)"
  proof (rule inj_onI)
    fix r s assume rs: "r \<in> set ?rows" "s \<in> set ?rows" "f r = f s"
    then have "rs_pk R r = rs_pk R s" using assms by (auto simp: table_ok_def)
    with rs assms(1) show "r = s" by (auto simp: table_ok_def distinct_map dest: inj_onD)
  qed
  moreover have "distinct ?rows" using assms(1) by (auto simp: table_ok_def distinct_map)
  ultimately show ?thesis by (simp add: distinct_map)
qed

text \<open>C2: Whatever requests of whatever tenants the document management serves, from an empty store it
  only reaches stores where: names of types, titles of documents and codes of definitions are
  distinct in their tenant (and type); definitions, documents and versions refer to rows of
  their own tenant; the versions of every document are numbered 1 to n in order; and every row
  has the entry of its creation, under its tenant, in the audit log.\<close>

theorem dms_invariant:
  assumes "(dms_request env spelling)\<^sup>*\<^sup>* (empty_dms users) w"
  shows "distinct (map (\<lambda>r. (dt_tenant r, dt_name r)) (ds_types (ap_db w)))
    \<and> distinct (map (\<lambda>r. (do_tenant r, do_title r)) (ds_documents (ap_db w)))
    \<and> distinct (map (\<lambda>r. (dfn_tenant r, md_document_type (dfn_spec r), md_code (dfn_spec r))) (ds_definitions (ap_db w)))
    \<and> definition_refs (ap_db w) \<and> document_refs (ap_db w) \<and> version_refs (ap_db w)
    \<and> (\<forall>doc. map dv_version (filter (\<lambda>v. dv_document v = doc) (ds_versions (ap_db w)))
          = map int [1..<Suc (length (filter (\<lambda>v. dv_document v = doc) (ds_versions (ap_db w))))])
    \<and> audited type_resource w \<and> audited (definition_resource env spelling) w \<and> audited (document_resource env) w
    \<and> audited version_resource w"
proof -
  have ok: "dms_ok env spelling w" by (rule dms.steps_good [OF assms empty_dms_ok])
  then have tables: "table_ok type_resource w" "table_ok (definition_resource env spelling) w" "table_ok (document_resource env) w"
    by (simp_all add: dms_ok_def tables_ok_def)
  have "distinct (map (\<lambda>r. (dt_tenant r, dt_name r)) (ds_types (ap_db w)))"
    using table_distinct [OF tables(1), of "\<lambda>r. (dt_tenant r, dt_name r)"] by (simp add: type_resource_def)
  moreover have "distinct (map (\<lambda>r. (do_tenant r, do_title r)) (ds_documents (ap_db w)))"
    using table_distinct [OF tables(3), of "\<lambda>r. (do_tenant r, do_title r)"] by (simp add: document_resource_def)
  moreover have "distinct (map (\<lambda>r. (dfn_tenant r, md_document_type (dfn_spec r), md_code (dfn_spec r))) (ds_definitions (ap_db w)))"
    using table_distinct [OF tables(2), of "\<lambda>r. (dfn_tenant r, md_document_type (dfn_spec r), md_code (dfn_spec r))"]
    by (simp add: definition_resource_def)
  ultimately show ?thesis using ok by (simp add: dms_ok_def tables_ok_def versions_numbered_def numbered_def)
qed

definition sample_editor :: request where
  "sample_editor = sample_request (Some (sample_user ''a'' False)) (Some ''t1'')"

lemma dms_invariant_witness:
  "\<exists>w. (dms_request sample_val_env (\<lambda>_. None))\<^sup>*\<^sup>* (empty_dms []) w \<and> ds_types (ap_db w) \<noteq> []
    \<and> distinct (map (\<lambda>r. (dt_tenant r, dt_name r)) (ds_types (ap_db w)))"
proof -
  let ?c = "Some [(''tenant_id'', ''t1'')]"
  let ?run = "create_endpoint type_resource ?c [] sample_editor Map.empty ''k'' [(''name'', JStr ''Invoice'')] (empty_dms [])"
  have st: "strip ''Invoice'' = ''Invoice''" by code_simp
  have fields: "writable (get_fields (rs_model type_resource) (rs_fields type_resource c db))
      = [text_input ''name'' True (Some 100), text_input ''description'' False None]" for c db
    by (simp add: writable_def get_fields_def Let_def filter_fields_def type_resource_def base_model_def standard_fields_def
        text_input_def input_def)
  have data: "run_fields False [text_input ''name'' True (Some 100), text_input ''description'' False None] [(''name'', JStr ''Invoice'')]
      = Inr [(''name'', JStr ''Invoice'')]"
    by (simp add: text_input_def input_def not_null_def char_value_def json_str_def st Let_def)
  have perms: "check_permissions (view_permissions type_resource ''create'') ?c [] sample_editor = Inr ()"
    by (simp add: check_permissions_def view_permissions_def type_resource_def get_permissions_def permits_def
        is_authenticated_permission_def sample_editor_def)
  have unique: "rs_validator type_resource ?c (plugin_context sample_editor) None (ap_db (empty_dms [])) [(''name'', JStr ''Invoice'')] = Inr ()"
    by (simp add: type_resource_def unique_together_def field_filters_def plugin_context_def plugin_on_build_context_def
        sample_editor_def manager_queryset_def empty_dms_def scope_tenant_def get_bound_scope_def)
  have valid: "run_validation type_resource ?c sample_editor None False (clean_create_data (map fst (rs_parents type_resource)) Map.empty [(''name'', JStr ''Invoice'')])
      (empty_dms []) = (Inr [(''name'', JStr ''Invoice'')], empty_dms [])"
    unfolding run_validation_Inr fields
    using data unique by (simp add: clean_create_data_def type_resource_def)
  have "fst ?run \<noteq> Inl e" for e
    unfolding create_endpoint_def perms bind_act_simps bind_act_Inr [of "run_validation type_resource ?c sample_editor None False _", OF valid]
    by (simp add: resource_plugins_def serializer_create_eq sample_editor_def own_create_def resource_hooks_def default_hooks_def bind_act_def
        do_create_def rs_free_def empty_dms_def ret_def Let_def type_resource_def)
  moreover obtain x w where run: "?run = (x, w)" by fastforce
  ultimately have "ds_types (ap_db w) \<noteq> []"
    using create_endpoint_outcome [OF run] by (elim disjE exE conjE) auto
  moreover have "dms_request sample_val_env (\<lambda>_. None) (empty_dms []) w"
    unfolding dms_request_def using dms_step.create_type [OF run, of sample_val_env "\<lambda>_. None"]
    by (intro exI [of _ sample_editor]) (simp add: in_scope_def sample_editor_def scope_tenant_def get_bound_scope_def empty_dms_def)
  then have "(dms_request sample_val_env (\<lambda>_. None))\<^sup>*\<^sup>* (empty_dms []) w" by blast
  ultimately show ?thesis using dms_invariant by blast
qed

lemma check_no_object_refuses: "check_no_object v ds \<noteq> Inr ()"
  by (induction ds) (auto simp: bind_res_Inr_iff)

lemma document_check_Inr:
  assumes "document_check env all d = Inr ()" and "map_of d ''document_type'' = Some (JStr t)"
  shows "\<exists>m. map_of d ''metadata'' = Some (JObj m) \<and> metadata_validate env all t m = Inr ()"
proof (cases "map_of d ''metadata''")
  case None
  with assms show ?thesis by (simp add: document_check_def document_do_validate_def)
next
  case (Some v)
  show ?thesis
  proof (cases "\<exists>m. v = JObj m")
    case True
    then obtain m where m: "v = JObj m" by blast
    with Some assms show ?thesis
      by (cases "metadata_validate env all t m")
        (auto simp: document_check_def document_do_validate_def rewrap_def split: exn.splits)
  next
    case False
    let ?r = "check_no_object v (filter (\<lambda>x. md_document_type x = t) all)"
    from False Some assms have "rewrap ''metadata'' ?r = Inr ()" by (auto simp: document_check_def split: json.splits)
    then show ?thesis using check_no_object_refuses [of v "filter (\<lambda>x. md_document_type x = t) all"]
      by (cases ?r) (auto simp: rewrap_def split: exn.splits)
  qed
qed

text \<open>C31: What the endpoint of documents checks, and what it does not.  A document that is created with a
  type has an object for metadata, valid against the definitions of that type: whatever else
  the body holds is refused.  But any document can afterwards be given any metadata at all: a
  partial update that names only the metadata is stored as it is, and the type stays.\<close>

theorem document_metadata_checked:
  assumes "dms_ok env spelling w" and "in_scope c rq" and "rq_user rq = Some u"
    and "get_object (document_resource env) c mbs rq Map.empty pk (ap_db w) = Inr i" and "v \<noteq> JNull"
  shows "(create_endpoint (document_resource env) c mbs rq Map.empty k body w = (Inr d, w') \<and> do_document_type d = Some ty
        \<longrightarrow> (\<exists>m. dx_metadata d = JObj m \<and> metadata_validate env (visible_specs c (ap_db w)) ty m = Inr ()))
    \<and> (\<exists>i' w''. update_endpoint (document_resource env) c mbs rq Map.empty pk True [(''metadata'', v)] w = (Inr i', w'')
        \<and> i' \<in> set (ds_documents (ap_db w'')) \<and> dx_metadata i' = v \<and> do_document_type i' = do_document_type i)"
proof (intro conjI impI; (elim conjE)?)
  let ?R = "document_resource env"
  assume run: "create_endpoint ?R c mbs rq Map.empty k body w = (Inr d, w')" and ty: "do_document_type d = Some ty"
  from create_endpoint_outcome [OF run]
  show "\<exists>m. dx_metadata d = JObj m \<and> metadata_validate env (visible_specs c (ap_db w)) ty m = Inr ()"
  proof (elim disjE exE conjE)
    fix u t dat d' i
    assume fields: "run_fields False (writable (get_fields (rs_model ?R) (rs_fields ?R c (ap_db w))))
          (clean_create_data (map fst (rs_parents ?R)) Map.empty body) = Inr dat"
      and check: "rs_do_validate ?R c None (ap_db w) dat = Inr ()"
      and pre: "rs_pre_create ?R c (ap_db w) (dict_set ''tenant_id'' (JStr t) dat) = Inr d'"
      and i: "i = rs_build ?R k d'" "(Inr d :: document_row res) = Inr i" and t: "tenant_of rq = Some t"
    have d: "d = assign_document (dict_set ''tenant_id'' (JStr t) dat) (blank_document k (dict_set ''tenant_id'' (JStr t) dat))"
      using i pre by (simp add: document_resource_def)
    from ty obtain y where y: "map_of dat ''document_type'' = Some y"
      by (cases "map_of dat ''document_type''") (auto simp: d assign_document_simps opt_text_or_def blank_document_def)
    with ty have "y = JStr ty" using document_type_value [OF fields y assms(2) t]
      by (auto simp: d assign_document_simps opt_text_or_def)
    with check y have "\<exists>m. map_of dat ''metadata'' = Some (JObj m) \<and> metadata_validate env (visible_specs c (ap_db w)) ty m = Inr ()"
      by (intro document_check_Inr) (simp_all add: document_resource_def)
    then show ?thesis by (auto simp: d assign_document_simps json_or_def)
  qed simp
next
  let ?R = "document_resource env"
  note own = get_object_own [OF assms(4)]
  have t: "tenant_of rq = Some (do_tenant i)" using own(2) by simp
  have perms: "check_permissions (view_permissions ?R ''partial_update'') c mbs rq = Inr ()"
    by (simp add: check_permissions_def view_permissions_def document_resource_def get_permissions_def permits_def
        is_authenticated_permission_def assms(3))
  have "run_fields True (writable (get_fields (rs_model ?R) (rs_fields ?R c (ap_db w)))) [(''metadata'', v)] = Inr [(''metadata'', v)]"
    using assms(5) by (simp add: writable_def get_fields_def Let_def filter_fields_def document_resource_def base_model_def
        document_fields_def text_input_def input_def not_null_def)
  then have valid: "validate_request ?R c rq (Some i) True [(''metadata'', v)] (ap_db w) = Inr [(''metadata'', v)]"
    by (simp add: validate_request_def) (simp add: document_resource_def document_check_def)
  let ?i = "rs_assign ?R [(''metadata'', v)] i"
  have i': "?i = i\<lparr>dx_metadata := v\<rparr>"
    by (simp add: document_resource_def assign_document_def opt_text_or_def text_or_def json_or_def)
  have "table_ok ?R w" using assms(1) by (simp add: dms_ok_def tables_ok_def)
  then have free: "rs_free ?R ?i (filter (\<lambda>r. rs_pk ?R r \<noteq> pk) (rs_rows ?R (ap_db w)))"
    using own unfolding i' by (auto simp: rs_free_def list_all_iff table_ok_def document_resource_def)
  have "i \<in> set (ds_documents (ap_db w))" "do_id i = pk" using own by simp_all
  then have "i\<lparr>dx_metadata := v\<rparr> \<in> set (save_row (\<lambda>r. do_id r = pk) (\<lambda>_. i\<lparr>dx_metadata := v\<rparr>) (ds_documents (ap_db w)))"
    by (auto simp: set_save_row)
  with free show "\<exists>i' w''. update_endpoint ?R c mbs rq Map.empty pk True [(''metadata'', v)] w = (Inr i', w'')
        \<and> i' \<in> set (ds_documents (ap_db w'')) \<and> dx_metadata i' = v \<and> do_document_type i' = do_document_type i"
    by (simp add: update_endpoint_eq [OF assms(3) t documents.no_tenant_field] perms assms(4) valid i' Let_def)
qed

definition sample_documents :: "dms app" where
  "sample_documents = \<lparr>ap_db = \<lparr>ds_users = [],
     ds_types = [\<lparr>dt_id = ''ty'', dt_tenant = ''t1'', dt_name = ''Invoice'', ty_description = [], ty_deleted_at = None\<rparr>],
     ds_definitions = [],
     ds_documents = [\<lparr>do_id = ''d'', do_tenant = ''t1'', do_title = ''A'', do_document_type = Some ''ty'', do_owner = None,
       do_created_by = None, do_availability = ''ACTIVE'', do_deleted_at = None, dx_description = None, dx_metadata = JObj []\<rparr>],
     ds_versions = []\<rparr>,
   ap_audit = [audit_row (sample_user ''a'' False) ''create'' ''dms_document_types.documenttype'' ''ty'' ''t1'' [],
     audit_row (sample_user ''a'' False) ''create'' ''dms_documents.document'' ''d'' ''t1'' []]\<rparr>"

lemma sample_documents_ok: "dms_ok env spelling sample_documents"
  by (simp add: dms_ok_def tables_ok_def table_ok_def audited_def sample_documents_def audit_row_def definition_refs_def document_refs_def
      version_refs_def versions_numbered_def numbered_def refers_def)

lemma sample_editor_scope: "in_scope (Some [(''tenant_id'', ''t1'')]) sample_editor"
  by (simp add: in_scope_def sample_editor_def scope_tenant_def get_bound_scope_def)

lemma document_metadata_checked_witness:
  "\<exists>i' w''. update_endpoint (document_resource sample_val_env) (Some [(''tenant_id'', ''t1'')]) [] sample_editor Map.empty ''d'' True
      [(''metadata'', JInt 5)] sample_documents = (Inr i', w'') \<and> dx_metadata i' = JInt 5 \<and> do_document_type i' = Some ''ty''"
proof -
  let ?i = "hd (ds_documents (ap_db sample_documents))"
  have "get_object (document_resource sample_val_env) (Some [(''tenant_id'', ''t1'')]) [] sample_editor Map.empty ''d'' (ap_db sample_documents) = Inr ?i"
    by (simp add: get_object_def list_rows_def viewset_get_queryset_def manager_queryset_def scope_tenant_def get_bound_scope_def
        plugin_filter_queryset_def rq_superuser_def sample_editor_def sample_user_def backend_filter_queryset_def parent_filter_def
        soft_delete_filter_def Let_def admin_somewhere_def user_memberships_def qs_exists_def sample_documents_def document_resource_def
        qs_get_def)
  from document_metadata_checked [OF sample_documents_ok sample_editor_scope _ this, of "sample_user ''a'' False" "JInt 5"]
  show ?thesis by (fastforce simp: sample_editor_def sample_documents_def)
qed

text \<open>C32: A metadata definition belongs to the type in the URL when it is created: whatever type the body
  names, a create that succeeds is for the parent, and the parent is a type of the tenant.  An
  update is not bound to the URL: a body that names another type of the tenant moves the
  definition there.\<close>

theorem nested_parent_wins:
  assumes "dms_ok env spelling w" and "in_scope c rq" and "rq_user rq = Some u"
    and "get_object (definition_resource env spelling) c mbs rq [''document_type_id'' \<mapsto> p] pk (ap_db w) = Inr i"
    and "refers dt_id dt_tenant (ds_types (ap_db w)) q (dfn_tenant i)" and "q \<noteq> []"
    and "\<forall>r \<in> set (ds_definitions (ap_db w)). dfn_id r \<noteq> pk \<longrightarrow>
      \<not> (dfn_tenant r = dfn_tenant i \<and> md_document_type (dfn_spec r) = q \<and> md_code (dfn_spec r) = md_code (dfn_spec i))"
  shows "(create_endpoint (definition_resource env spelling) c mbs rq [''document_type_id'' \<mapsto> p] k body w = (Inr d, w')
        \<longrightarrow> md_document_type (dfn_spec d) = p \<and> refers dt_id dt_tenant (ds_types (ap_db w)) p (dfn_tenant d))
    \<and> (\<exists>i' w''. update_endpoint (definition_resource env spelling) c mbs rq [''document_type_id'' \<mapsto> p] pk True [(''document_type'', JStr q)] w
          = (Inr i', w'') \<and> dfn_id i' = pk \<and> md_document_type (dfn_spec i') = q)"
proof (intro conjI impI)
  let ?R = "definition_resource env spelling"
  assume run: "create_endpoint ?R c mbs rq [''document_type_id'' \<mapsto> p] k body w = (Inr d, w')"
  have "md_document_type (dfn_spec d) = p \<and> refers dt_id dt_tenant (ds_types (ap_db w)) p (dfn_tenant d)"
    using create_endpoint_outcome [OF run]
  proof (elim disjE exE conjE)
    fix u t dat d' i
    assume fields: "run_fields False (writable (get_fields (rs_model ?R) (rs_fields ?R c (ap_db w))))
          (clean_create_data (map fst (rs_parents ?R)) [''document_type_id'' \<mapsto> p] body) = Inr dat"
      and pre: "rs_pre_create ?R c (ap_db w) (dict_set ''tenant_id'' (JStr t) dat) = Inr d'"
      and i: "i = rs_build ?R k d'" "(Inr d :: definition_row res) = Inr i" and t: "tenant_of rq = Some t"
    obtain y where y: "map_of dat ''document_type'' = Some y" using definition_type_given [OF fields] .
    from definition_type_value [OF fields y assms(2) t] obtain ty where
      ty: "y = JStr ty" "refers dt_id dt_tenant (ds_types (ap_db w)) ty t" by blast
    have "map_of (clean_create_data (map fst (rs_parents ?R)) [''document_type_id'' \<mapsto> p] body) ''document_type'' = Some (JStr p)"
      by (simp add: clean_create_data_def definition_resource_def removesuffix_def)
    with validated_value [OF fields y] have "not_null ''document_type'' (fk_value dt_id (manager_queryset dt_tenant c (ds_types (ap_db w))) ''document_type'')
        (fk_null (JStr p)) = Inr y"
      by (auto simp: definition_resource_def definition_fields_def standard_fields_def input_def text_input_def flag_names_def)
    then have "fk_null (JStr p) = y" by (auto simp: not_null_def bad_field_def split: if_splits dest: fk_value_Inr)
    with ty(1) have "ty = p" by (auto simp: fk_null_def split: if_splits)
    with ty y i pre show ?thesis
      by (auto simp: definition_resource_def assign_definition_def text_or_def attr_text_def)
  qed simp
  then show "md_document_type (dfn_spec d) = p" "refers dt_id dt_tenant (ds_types (ap_db w)) p (dfn_tenant d)" by auto
next
  let ?R = "definition_resource env spelling"
  note own = get_object_own [OF assms(4)]
  have t: "tenant_of rq = Some (dfn_tenant i)" using own(2) by simp
  then have scope: "scope_tenant c = Some (dfn_tenant i)" using assms(2) by (simp add: in_scope_def)
  have perms: "check_permissions (view_permissions ?R ''partial_update'') c mbs rq = Inr ()"
    by (simp add: check_permissions_def view_permissions_def definition_resource_def get_permissions_def permits_def
        is_authenticated_permission_def assms(3))
  from assms(5) obtain r where r: "r \<in> set (ds_types (ap_db w))" "dt_id r = q" "dt_tenant r = dfn_tenant i" by (auto simp: refers_iff)
  have keys: "distinct (map dt_id (ds_types (ap_db w)))" using assms(1) by (simp add: dms_ok_def tables_ok_def table_ok_def)
  have "filter (\<lambda>x. dt_id x = q) (filter (\<lambda>x. dt_tenant x = dfn_tenant i) rows) = [r]"
    if "distinct (map dt_id rows)" "r \<in> set rows" for rows
    using that
  proof (induction rows)
    case (Cons a rows)
    then show ?case using r by (auto simp: filter_empty_conv image_iff)
  qed simp
  from this [OF keys r(1)] have "qs_get (\<lambda>x. dt_id x = q) (manager_queryset dt_tenant c (ds_types (ap_db w))) = Inr r"
    by (simp add: qs_get_Inr_iff manager_queryset_def scope)
  then have fk: "fk_value dt_id (manager_queryset dt_tenant c (ds_types (ap_db w))) ''document_type'' (JStr q) = Inr (JStr q)"
    using r(2) by (simp add: fk_value_def)
  have "run_fields True (writable (get_fields (rs_model ?R) (rs_fields ?R c (ap_db w)))) [(''document_type'', JStr q)] = Inr [(''document_type'', JStr q)]"
    using assms(6) fk by (simp add: writable_def get_fields_def Let_def filter_fields_def definition_resource_def base_model_def
        definition_fields_def standard_fields_def flag_names_def text_input_def input_def not_null_def fk_null_def)
  then have valid: "validate_request ?R c rq (Some i) True [(''document_type'', JStr q)] (ap_db w) = Inr [(''document_type'', JStr q)]"
    by (simp add: validate_request_def)
      (simp add: definition_resource_def definition_do_validate_def definition_attrs_of_def data_type_of_def)
  let ?i = "rs_assign ?R [(''document_type'', JStr q)] i"
  have i': "dfn_id ?i = dfn_id i" "dfn_tenant ?i = dfn_tenant i" "md_document_type (dfn_spec ?i) = q" "md_code (dfn_spec ?i) = md_code (dfn_spec i)"
    by (simp_all add: definition_resource_def assign_definition_def text_or_def)
  have clash: "rs_clash ?R x y \<longleftrightarrow> dfn_tenant x = dfn_tenant y \<and> md_document_type (dfn_spec x) = md_document_type (dfn_spec y)
      \<and> md_code (dfn_spec x) = md_code (dfn_spec y)" for x y by (simp add: definition_resource_def)
  have "rs_free ?R ?i (filter (\<lambda>r. rs_pk ?R r \<noteq> pk) (rs_rows ?R (ap_db w)))"
    using assms(7) by (auto simp: rs_free_def list_all_iff clash i')
  then show "\<exists>i' w''. update_endpoint ?R c mbs rq [''document_type_id'' \<mapsto> p] pk True [(''document_type'', JStr q)] w = (Inr i', w'')
        \<and> dfn_id i' = pk \<and> md_document_type (dfn_spec i') = q"
    using own(3) by (simp add: update_endpoint_eq [OF assms(3) t [folded resource_simps(8)] definitions.no_tenant_field] perms assms(4) valid i' Let_def)
qed

definition sample_definitions :: "dms app" where
  "sample_definitions = \<lparr>ap_db = \<lparr>ds_users = [],
     ds_types = [\<lparr>dt_id = ''p'', dt_tenant = ''t1'', dt_name = ''Invoice'', ty_description = [], ty_deleted_at = None\<rparr>,
       \<lparr>dt_id = ''q'', dt_tenant = ''t1'', dt_name = ''Contract'', ty_description = [], ty_deleted_at = None\<rparr>],
     ds_definitions = [\<lparr>dfn_id = ''m'', dfn_tenant = ''t1'', dfn_spec = blank_definition\<lparr>md_document_type := ''p''\<rparr>, dfn_searchable = False,
       dfn_filterable = False, dfn_sortable = False, dfn_indexed = False, dfn_deleted_at = None\<rparr>],
     ds_documents = [], ds_versions = []\<rparr>,
   ap_audit = [audit_row (sample_user ''a'' False) ''create'' ''dms_document_types.documenttype'' ''p'' ''t1'' [],
     audit_row (sample_user ''a'' False) ''create'' ''dms_document_types.documenttype'' ''q'' ''t1'' [],
     audit_row (sample_user ''a'' False) ''create'' ''dms_metadata.metadatadefinition'' ''m'' ''t1'' []]\<rparr>"

lemma nested_parent_wins_witness:
  "\<exists>i' w''. update_endpoint (definition_resource sample_val_env (\<lambda>_. None)) (Some [(''tenant_id'', ''t1'')]) [] sample_editor
      [''document_type_id'' \<mapsto> ''p''] ''m'' True [(''document_type'', JStr ''q'')] sample_definitions = (Inr i', w'')
    \<and> md_document_type (dfn_spec i') = ''q''"
proof -
  let ?R = "definition_resource sample_val_env (\<lambda>_. None)"
  let ?i = "hd (ds_definitions (ap_db sample_definitions))"
  have ok: "dms_ok sample_val_env (\<lambda>_. None) sample_definitions"
    by (simp add: dms_ok_def tables_ok_def table_ok_def audited_def sample_definitions_def audit_row_def definition_refs_def document_refs_def
        version_refs_def versions_numbered_def numbered_def refers_def type_resource_def blank_definition_def)
  have "get_object ?R (Some [(''tenant_id'', ''t1'')]) [] sample_editor [''document_type_id'' \<mapsto> ''p''] ''m'' (ap_db sample_definitions) = Inr ?i"
    by (simp add: get_object_def list_rows_def viewset_get_queryset_def manager_queryset_def scope_tenant_def get_bound_scope_def
        plugin_filter_queryset_def rq_superuser_def sample_editor_def sample_user_def backend_filter_queryset_def parent_filter_def
        soft_delete_filter_def Let_def admin_somewhere_def user_memberships_def qs_exists_def sample_definitions_def definition_resource_def
        qs_get_def blank_definition_def)
  from nested_parent_wins [OF ok sample_editor_scope _ this, of "sample_user ''a'' False" "''q''"]
  show ?thesis by (fastforce simp: sample_editor_def sample_definitions_def refers_def)
qed

end
