(* ===== verification/TenantIsolation.thy ===== *)
theory TenantIsolation
  imports DmsApi
begin

text \<open>
  Noninterference between tenants: what the document management answers to the requests of one
  tenant does not depend on the requests of the others.  The contract \<open>resource_local\<close> says
  that a resource reads the store through the rows of one tenant; the four resources satisfy it.
\<close>

section \<open>A request sees the rows of its tenant\<close>

lemma parent_filter_commute: "parent_filter ls kw (filter P rows) = filter P (parent_filter ls kw rows)"
proof (induction ls arbitrary: rows)
  case (Cons l ls)
  obtain k f where l: "l = (k, f)" by fastforce
  show ?case
  proof (cases "kw k")
    case (Some v)
    with Cons.IH [of "filter (\<lambda>r. f r = v) rows"] show ?thesis by (simp add: l parent_filter_def conj_commute)
  qed (use Cons.IH in \<open>simp add: l parent_filter_def\<close>)
qed (simp add: parent_filter_def)

lemma soft_delete_commute: "soft_delete_filter a d rq (filter P rows) = filter P (soft_delete_filter a d rq rows)"
  by (auto simp: soft_delete_filter_def Let_def conj_commute split: option.splits)

lemma list_rows_local:
  assumes "tenant_of rq = Some t"
  shows "list_rows None True (Some f) ls kw a d rq (filter (\<lambda>r. f r = t) rows) = list_rows None True (Some f) ls kw a d rq rows"
  using assms by (simp add: list_rows_def viewset_get_queryset_def manager_queryset_def scope_tenant_def get_bound_scope_def
      plugin_filter_queryset_def backend_filter_queryset_def parent_filter_commute soft_delete_commute)

lemma get_object_local:
  assumes "tenant_of rq = Some t"
    and "filter (\<lambda>r. rs_tenant R r = t) (rs_rows R db1) = filter (\<lambda>r. rs_tenant R r = t) (rs_rows R db2)"
  shows "get_object R c mbs rq kw pk db1 = get_object R c mbs rq kw pk db2"
  unfolding get_object_def
  using list_rows_local [OF assms(1), of "rs_tenant R" _ _ _ _ "rs_rows R db1"] list_rows_local [OF assms(1), of "rs_tenant R" _ _ _ _ "rs_rows R db2"] assms(2)
  by metis

section \<open>Resources that read one tenant\<close>

text \<open>
  \<open>sim t\<close> relates stores that agree on what tenant \<open>t\<close> has.  A resource is local when fields,
  validators and hooks see the same in related stores under the scope of \<open>t\<close>.
\<close>

definition log_of :: "string \<Rightarrow> audit_entry list \<Rightarrow> audit_entry list" where
  "log_of t log = filter (\<lambda>e. au_tenant e = Some t) log"

lemma log_of_append: "log_of t (xs @ ys) = log_of t xs @ log_of t ys"
  by (simp add: log_of_def)

locale resource_local = resource_laws R for R :: "('i, 'w) resource" +
  fixes sim :: "string \<Rightarrow> 'w \<Rightarrow> 'w \<Rightarrow> bool"
  assumes sim_rows: "sim t db1 db2 \<Longrightarrow> filter (\<lambda>r. rs_tenant R r = t) (rs_rows R db1) = filter (\<lambda>r. rs_tenant R r = t) (rs_rows R db2)"
    and sim_fields: "sim t db1 db2 \<Longrightarrow> scope_tenant c = Some t \<Longrightarrow> rs_fields R c db1 = rs_fields R c db2"
    and sim_validator: "sim t db1 db2 \<Longrightarrow> scope_tenant c = Some t \<Longrightarrow> rs_validator R c context i db1 d = rs_validator R c context i db2 d"
    and sim_check: "sim t db1 db2 \<Longrightarrow> scope_tenant c = Some t \<Longrightarrow> rs_do_validate R c i db1 d = rs_do_validate R c i db2 d"
    and sim_pre: "sim t db1 db2 \<Longrightarrow> scope_tenant c = Some t \<Longrightarrow> rs_pre_create R c db1 d = rs_pre_create R c db2 d"
    and sim_put: "sim t db1 db2 \<Longrightarrow> filter (\<lambda>r. rs_tenant R r = t) rows1 = filter (\<lambda>r. rs_tenant R r = t) rows2
      \<Longrightarrow> sim t (rs_put R rows1 db1) (rs_put R rows2 db2)"
begin

definition alike :: "string \<Rightarrow> 'w app \<Rightarrow> 'w app \<Rightarrow> bool" where
  "alike t w1 w2 = (sim t (ap_db w1) (ap_db w2) \<and> log_of t (ap_audit w1) = log_of t (ap_audit w2))"

lemma validated_alike:
  assumes "sim t db1 db2" and "scope_tenant c = Some t"
  shows "validate_request R c rq i partial data db1 = validate_request R c rq i partial data db2"
  unfolding validate_request_def sim_fields [OF assms] sim_validator [OF assms] sim_check [OF assms] ..

lemma create_alike:
  assumes "rq_user rq = Some u" and "tenant_of rq = Some t" and "scope_tenant c = Some t" and "alike t w1 w2"
    and "\<And>d d'. \<lbrakk>validate_request R c rq None False (clean_create_data (map fst (rs_parents R)) kw body) (ap_db w1) = Inr d;
        rs_pre_create R c (ap_db w1) (dict_set ''tenant_id'' (JStr t) d) = Inr d'\<rbrakk>
      \<Longrightarrow> rs_free R (rs_build R k d') (rs_rows R (ap_db w1)) = rs_free R (rs_build R k d') (rs_rows R (ap_db w2))"
  shows "fst (create_endpoint R c mbs rq kw k body w1) = fst (create_endpoint R c mbs rq kw k body w2)
    \<and> alike t (snd (create_endpoint R c mbs rq kw k body w1)) (snd (create_endpoint R c mbs rq kw k body w2))"
proof -
  from assms(4) have s: "sim t (ap_db w1) (ap_db w2)" by (simp add: alike_def)
  note eq = create_endpoint_eq [OF assms(1,2), of R c mbs kw k body]
  show ?thesis
  proof (cases "check_permissions (view_permissions R ''create'') c mbs rq")
    case ok: (Inr v)
    show ?thesis
    proof (cases "validate_request R c rq None False (clean_create_data (map fst (rs_parents R)) kw body) (ap_db w1)")
      case (Inl e)
      then have "validate_request R c rq None False (clean_create_data (map fst (rs_parents R)) kw body) (ap_db w2) = Inl e"
        using validated_alike [OF s assms(3)] by metis
      with Inl ok assms(4) show ?thesis by (simp add: eq)
    next
      case valid: (Inr d)
      then have valid2: "validate_request R c rq None False (clean_create_data (map fst (rs_parents R)) kw body) (ap_db w2) = Inr d"
        using validated_alike [OF s assms(3)] by metis
      show ?thesis
      proof (cases "rs_pre_create R c (ap_db w1) (dict_set ''tenant_id'' (JStr t) d)")
        case (Inl e)
        then have "rs_pre_create R c (ap_db w2) (dict_set ''tenant_id'' (JStr t) d) = Inl e" using sim_pre [OF s assms(3)] by metis
        with Inl ok valid valid2 assms(4) show ?thesis by (simp add: eq)
      next
        case pre: (Inr d')
        have pre2: "rs_pre_create R c (ap_db w2) (dict_set ''tenant_id'' (JStr t) d) = Inr d'"
          using pre sim_pre [OF s assms(3)] by metis
        have free: "rs_free R (rs_build R k d') (rs_rows R (ap_db w1)) = rs_free R (rs_build R k d') (rs_rows R (ap_db w2))"
          by (rule assms(5) [OF valid pre])
        have "sim t (rs_put R (rs_rows R (ap_db w1) @ [rs_build R k d']) (ap_db w1)) (rs_put R (rs_rows R (ap_db w2) @ [rs_build R k d']) (ap_db w2))"
          by (rule sim_put [OF s]) (simp add: sim_rows [OF s])
        with ok valid valid2 pre pre2 free assms(4) show ?thesis
          by (simp add: eq Let_def alike_def log_of_append)
      qed
    qed
  qed (use assms(4) in \<open>simp add: eq\<close>)
qed

end

text \<open>When unique constraints are per tenant, replacing rows is local as well.\<close>

locale resource_local_rows = resource_local R sim for R :: "('i, 'w) resource" and sim :: "string \<Rightarrow> 'w \<Rightarrow> 'w \<Rightarrow> bool" +
  assumes clash_tenant: "rs_clash R r s \<Longrightarrow> rs_tenant R r = rs_tenant R s"
begin

lemma free_local:
  assumes "rs_tenant R i = t" and "filter (\<lambda>r. rs_tenant R r = t) rows1 = filter (\<lambda>r. rs_tenant R r = t) rows2"
  shows "rs_free R i rows1 = rs_free R i rows2"
proof -
  have "rs_free R i rows = list_all (\<lambda>r. \<not> rs_clash R r i) (filter (\<lambda>r. rs_tenant R r = t) rows)" for rows
    using clash_tenant assms(1) by (auto simp: rs_free_def list_all_iff)
  with assms(2) show ?thesis by simp
qed

lemma save_local:
  assumes "table_ok R w" and "i \<in> set (rs_rows R (ap_db w))" and "rs_tenant R i = t" and "rs_tenant R i' = t" and "rs_pk R i = pk"
  shows "filter (\<lambda>r. rs_tenant R r = t) (save_row (\<lambda>r. rs_pk R r = pk) (\<lambda>_. i') (rs_rows R (ap_db w)))
      = save_row (\<lambda>r. rs_pk R r = pk) (\<lambda>_. i') (filter (\<lambda>r. rs_tenant R r = t) (rs_rows R (ap_db w)))"
proof -
  have own: "rs_tenant R r = t" if "r \<in> set (rs_rows R (ap_db w))" "rs_pk R r = pk" for r
  proof -
    from assms(1,2,5) that have "r = i" by (metis table_ok_def distinct_map inj_onD)
    with assms(3) show ?thesis by simp
  qed
  have "filter (\<lambda>r. rs_tenant R r = t) (save_row (\<lambda>r. rs_pk R r = pk) (\<lambda>_. i') rows)
      = save_row (\<lambda>r. rs_pk R r = pk) (\<lambda>_. i') (filter (\<lambda>r. rs_tenant R r = t) rows)" if "set rows \<subseteq> set (rs_rows R (ap_db w))" for rows
    using that by (induction rows) (use own assms(4) in auto)
  then show ?thesis by simp
qed

lemma create_alike_rows:
  assumes "rq_user rq = Some u" and "tenant_of rq = Some t" and "scope_tenant c = Some t" and "alike t w1 w2"
  shows "fst (create_endpoint R c mbs rq kw k body w1) = fst (create_endpoint R c mbs rq kw k body w2)
    \<and> alike t (snd (create_endpoint R c mbs rq kw k body w1)) (snd (create_endpoint R c mbs rq kw k body w2))"
proof (rule create_alike [OF assms])
  fix d d' assume pre: "rs_pre_create R c (ap_db w1) (dict_set ''tenant_id'' (JStr t) d) = Inr d'"
  have "rs_tenant R (rs_build R k d') = t" by (rule build_tenant) (simp add: pre_create_tenant [OF pre])
  moreover from assms(4) have "sim t (ap_db w1) (ap_db w2)" by (simp add: alike_def)
  ultimately show "rs_free R (rs_build R k d') (rs_rows R (ap_db w1)) = rs_free R (rs_build R k d') (rs_rows R (ap_db w2))"
    by (rule free_local [OF _ sim_rows])
qed

lemma replace_alike:
  assumes "alike t w1 w2" and "table_ok R w1" and "table_ok R w2" and "get_object R c mbs rq kw pk (ap_db w1) = Inr i"
    and "get_object R c mbs rq kw pk (ap_db w2) = Inr i" and "tenant_of rq = Some t" and "rs_tenant R i' = t"
  shows "sim t (rs_put R (save_row (\<lambda>r. rs_pk R r = pk) (\<lambda>_. i') (rs_rows R (ap_db w1))) (ap_db w1))
      (rs_put R (save_row (\<lambda>r. rs_pk R r = pk) (\<lambda>_. i') (rs_rows R (ap_db w2))) (ap_db w2))"
proof -
  from assms(1) have s: "sim t (ap_db w1) (ap_db w2)" by (simp add: alike_def)
  note own1 = get_object_own [OF assms(4)] and own2 = get_object_own [OF assms(5)]
  from own1(2) assms(6) have t: "rs_tenant R i = t" by simp
  show ?thesis
    by (rule sim_put [OF s])
      (simp only: save_local [OF assms(2) own1(1) t assms(7) own1(3)] save_local [OF assms(3) own2(1) t assms(7) own2(3)] sim_rows [OF s])
qed

lemma update_alike:
  assumes "rq_user rq = Some u" and "tenant_of rq = Some t" and "scope_tenant c = Some t" and "alike t w1 w2"
    and "table_ok R w1" and "table_ok R w2"
  shows "fst (update_endpoint R c mbs rq kw pk partial body w1) = fst (update_endpoint R c mbs rq kw pk partial body w2)
    \<and> alike t (snd (update_endpoint R c mbs rq kw pk partial body w1)) (snd (update_endpoint R c mbs rq kw pk partial body w2))"
proof -
  from assms(4) have s: "sim t (ap_db w1) (ap_db w2)" by (simp add: alike_def)
  note eq = update_endpoint_eq [OF assms(1,2) no_tenant_field, of c mbs kw pk partial body]
  note obj_same = get_object_local [OF assms(2) sim_rows [OF s], of c mbs kw pk]
  show ?thesis
  proof (cases "check_permissions (view_permissions R (if partial then ''partial_update'' else ''update'')) c mbs rq")
    case ok: (Inr v)
    show ?thesis
    proof (cases "get_object R c mbs rq kw pk (ap_db w1)")
      case (Inl e)
      then have "get_object R c mbs rq kw pk (ap_db w2) = Inl e" using obj_same by simp
      with Inl ok assms(4) show ?thesis by (simp add: eq)
    next
      case obj: (Inr i)
      then have obj2: "get_object R c mbs rq kw pk (ap_db w2) = Inr i" using obj_same by simp
      show ?thesis
      proof (cases "validate_request R c rq (Some i) partial body (ap_db w1)")
        case (Inl e)
        then have "validate_request R c rq (Some i) partial body (ap_db w2) = Inl e" using validated_alike [OF s assms(3)] by metis
        with Inl ok obj obj2 assms(4) show ?thesis by (simp add: eq)
      next
        case valid: (Inr d)
        then have valid2: "validate_request R c rq (Some i) partial body (ap_db w2) = Inr d"
          using validated_alike [OF s assms(3)] by metis
        let ?i = "rs_assign R d i"
        have t: "rs_tenant R ?i = t" using get_object_own(2) [OF obj] assms(2) by (simp add: assign_tenant)
        have "filter (\<lambda>r. rs_tenant R r = t) (filter (\<lambda>r. rs_pk R r \<noteq> pk) (rs_rows R (ap_db w1)))
            = filter (\<lambda>r. rs_tenant R r = t) (filter (\<lambda>r. rs_pk R r \<noteq> pk) (rs_rows R (ap_db w2)))"
          using arg_cong [OF sim_rows [OF s], of "filter (\<lambda>r. rs_pk R r \<noteq> pk)"] by (simp add: conj_commute)
        then have free: "rs_free R ?i (filter (\<lambda>r. rs_pk R r \<noteq> pk) (rs_rows R (ap_db w1)))
            = rs_free R ?i (filter (\<lambda>r. rs_pk R r \<noteq> pk) (rs_rows R (ap_db w2)))" by (rule free_local [OF t])
        from replace_alike [OF assms(4-6) obj obj2 assms(2) t] ok obj obj2 valid valid2 free assms(4) show ?thesis
          by (simp add: eq Let_def alike_def log_of_append)
      qed
    qed
  qed (use assms(4) in \<open>simp add: eq\<close>)
qed

lemma destroy_alike:
  assumes "rq_user rq = Some u" and "tenant_of rq = Some t" and "alike t w1 w2" and "table_ok R w1" and "table_ok R w2"
  shows "fst (destroy_endpoint R c mbs rq kw pk now w1) = fst (destroy_endpoint R c mbs rq kw pk now w2)
    \<and> alike t (snd (destroy_endpoint R c mbs rq kw pk now w1)) (snd (destroy_endpoint R c mbs rq kw pk now w2))"
proof -
  from assms(3) have s: "sim t (ap_db w1) (ap_db w2)" by (simp add: alike_def)
  note eq = destroy_endpoint_eq [OF assms(1,2), of R c mbs kw pk now]
  note obj_same = get_object_local [OF assms(2) sim_rows [OF s], of c mbs kw pk]
  show ?thesis
  proof (cases "check_permissions (view_permissions R ''destroy'') c mbs rq")
    case ok: (Inr v)
    show ?thesis
    proof (cases "get_object R c mbs rq kw pk (ap_db w1)")
      case (Inl e)
      then have "get_object R c mbs rq kw pk (ap_db w2) = Inl e" using obj_same by simp
      with Inl ok assms(3) show ?thesis by (simp add: eq)
    next
      case obj: (Inr i)
      then have obj2: "get_object R c mbs rq kw pk (ap_db w2) = Inr i" using obj_same by simp
      have "rs_tenant R (rs_mark_deleted R now i) = t" using get_object_own(2) [OF obj] assms(2) by (simp add: deleted_tenant)
      from replace_alike [OF assms(3-5) obj obj2 assms(2) this] ok obj obj2 assms(3) show ?thesis
        by (simp add: eq alike_def log_of_append)
    qed
  qed (use assms(3) in \<open>simp add: eq\<close>)
qed

end

section \<open>The document management reads one tenant\<close>

definition same_for :: "string \<Rightarrow> dms \<Rightarrow> dms \<Rightarrow> bool" where
  "same_for t db1 db2 =
     (ds_users db1 = ds_users db2
    \<and> filter (\<lambda>r. dt_tenant r = t) (ds_types db1) = filter (\<lambda>r. dt_tenant r = t) (ds_types db2)
    \<and> filter (\<lambda>r. dfn_tenant r = t) (ds_definitions db1) = filter (\<lambda>r. dfn_tenant r = t) (ds_definitions db2)
    \<and> filter (\<lambda>r. do_tenant r = t) (ds_documents db1) = filter (\<lambda>r. do_tenant r = t) (ds_documents db2)
    \<and> filter (\<lambda>r. dv_tenant r = t) (ds_versions db1) = filter (\<lambda>r. dv_tenant r = t) (ds_versions db2))"

lemma scoped_rows: "scope_tenant c = Some t \<Longrightarrow> manager_queryset f c rows = filter (\<lambda>r. f r = t) rows"
  by (simp add: manager_queryset_def)

lemma last_version_same: "scope_tenant c = Some t \<Longrightarrow> same_for t db1 db2 \<Longrightarrow>
    last_version c doc (ds_versions db1) = last_version c doc (ds_versions db2)"
  by (simp add: last_version_def scoped_rows same_for_def)

interpretation local_types: resource_local_rows type_resource same_for
  by unfold_locales (auto simp: type_resource_def same_for_def scoped_rows)

interpretation local_definitions: resource_local_rows "definition_resource env spelling" same_for
  by unfold_locales (auto simp: definition_resource_def same_for_def scoped_rows definition_fields_def)

interpretation local_documents: resource_local_rows "document_resource env" same_for
  by unfold_locales (auto simp: document_resource_def same_for_def scoped_rows document_fields_def visible_specs_def)

interpretation local_versions: resource_local version_resource same_for
proof unfold_locales
  fix t db1 db2 c d
  assume "same_for t db1 db2" and "scope_tenant c = Some t"
  then show "rs_pre_create version_resource c db1 d = rs_pre_create version_resource c db2 d"
    by (simp add: version_resource_def next_version_def last_version_same split: option.splits json.splits)
qed (auto simp: version_resource_def same_for_def scoped_rows version_fields_def)

lemma version_free_local:
  assumes "version_refs db" and "distinct (map do_id (ds_documents db))" and "refers do_id do_tenant (ds_documents db) (dv_document v) t"
  shows "rs_free version_resource v (ds_versions db) = rs_free version_resource v (filter (\<lambda>r. dv_tenant r = t) (ds_versions db))"
  using versions_of_refs [OF assms] by (auto simp: rs_free_def version_resource_def list_all_iff versions_of_tenant_def)

lemma version_create_alike:
  assumes "dms_ok env spelling w1" and "dms_ok env spelling w2"
    and "rq_user rq = Some u" and "tenant_of rq = Some t" and "scope_tenant c = Some t" and "local_versions.alike t w1 w2"
  shows "fst (create_endpoint version_resource c mbs rq kw k body w1) = fst (create_endpoint version_resource c mbs rq kw k body w2)
    \<and> local_versions.alike t (snd (create_endpoint version_resource c mbs rq kw k body w1)) (snd (create_endpoint version_resource c mbs rq kw k body w2))"
proof (rule local_versions.create_alike [OF assms(3-6)])
  fix d d'
  assume valid: "validate_request version_resource c rq None False (clean_create_data (map fst (rs_parents version_resource)) kw body) (ap_db w1) = Inr d"
    and pre: "rs_pre_create version_resource c (ap_db w1) (dict_set ''tenant_id'' (JStr t) d) = Inr d'"
  let ?v = "rs_build version_resource k d'"
  have scope: "in_scope c rq" using assms(4,5) by (simp add: in_scope_def)
  from version_build_facts [OF validate_request_Inr [OF valid] scope assms(4) pre, of k]
  have refs1: "refers do_id do_tenant (ds_documents (ap_db w1)) (dv_document ?v) t" by blast
  have s: "same_for t (ap_db w1) (ap_db w2)" using assms(6) by (simp add: local_versions.alike_def)
  then have docs: "filter (\<lambda>r. do_tenant r = t) (ds_documents (ap_db w1)) = filter (\<lambda>r. do_tenant r = t) (ds_documents (ap_db w2))"
    and vs: "filter (\<lambda>r. dv_tenant r = t) (ds_versions (ap_db w1)) = filter (\<lambda>r. dv_tenant r = t) (ds_versions (ap_db w2))"
    by (simp_all add: same_for_def)
  from arg_cong [OF docs, of set]
  have "r \<in> set (ds_documents (ap_db w1)) \<and> do_tenant r = t \<longleftrightarrow> r \<in> set (ds_documents (ap_db w2)) \<and> do_tenant r = t" for r
    by (auto simp: set_eq_iff)
  with refs1 have refs2: "refers do_id do_tenant (ds_documents (ap_db w2)) (dv_document ?v) t" by (auto simp: refers_iff)
  have ok: "version_refs (ap_db w)" "distinct (map do_id (ds_documents (ap_db w)))" if "dms_ok env spelling w" for w
    using that by (simp_all add: dms_ok_def tables_ok_def table_ok_def)
  have "rs_free version_resource ?v (ds_versions (ap_db w1)) = rs_free version_resource ?v (ds_versions (ap_db w2))"
    unfolding version_free_local [OF ok [OF assms(1)] refs1] version_free_local [OF ok [OF assms(2)] refs2] vs ..
  then show "rs_free version_resource ?v (rs_rows version_resource (ap_db w1)) = rs_free version_resource ?v (rs_rows version_resource (ap_db w2))"
    by simp
qed

section \<open>Serving requests\<close>

datatype dms_call =
    CreateType string attrs
  | UpdateType string bool attrs
  | DestroyType string int
  | CreateDefinition string string attrs
  | UpdateDefinition string string bool attrs
  | DestroyDefinition string string int
  | CreateDocument string attrs
  | UpdateDocument string bool attrs
  | DestroyDocument string int
  | CreateVersion string string attrs

datatype dms_answer = TypeRow type_row | DefinitionRow definition_row | DocumentRow document_row | VersionRow document_version | NoContent

record dms_req =
  dq_request :: request
  dq_members :: "membership list"
  dq_call :: dms_call

definition request_scope :: "request \<Rightarrow> ctx" where
  "request_scope rq = (case tenant_of rq of None \<Rightarrow> None | Some t \<Rightarrow> Some [(''tenant_id'', t)])"

definition answer :: "('i \<Rightarrow> dms_answer) \<Rightarrow> 'i res \<times> 'w \<Rightarrow> dms_answer res \<times> 'w" where
  "answer f r = (case fst r of Inl e \<Rightarrow> Inl e | Inr i \<Rightarrow> Inr (f i), snd r)"

text \<open>The URL table: the endpoint a call goes to; the first string of a nested call is the parent in the URL.\<close>

definition serve_dms :: "val_env \<Rightarrow> (json \<Rightarrow> bool option) \<Rightarrow> dms_req \<Rightarrow> dms app \<Rightarrow> dms_answer res \<times> dms app" where
  "serve_dms env spelling q w =
     (let rq = dq_request q; c = request_scope rq; mbs = dq_members q in
      case dq_call q of
        CreateType k body \<Rightarrow> answer TypeRow (create_endpoint type_resource c mbs rq Map.empty k body w)
      | UpdateType pk partial body \<Rightarrow> answer TypeRow (update_endpoint type_resource c mbs rq Map.empty pk partial body w)
      | DestroyType pk now \<Rightarrow> answer (\<lambda>_. NoContent) (destroy_endpoint type_resource c mbs rq Map.empty pk now w)
      | CreateDefinition p k body \<Rightarrow>
          answer DefinitionRow (create_endpoint (definition_resource env spelling) c mbs rq [''document_type_id'' \<mapsto> p] k body w)
      | UpdateDefinition p pk partial body \<Rightarrow>
          answer DefinitionRow (update_endpoint (definition_resource env spelling) c mbs rq [''document_type_id'' \<mapsto> p] pk partial body w)
      | DestroyDefinition p pk now \<Rightarrow>
          answer (\<lambda>_. NoContent) (destroy_endpoint (definition_resource env spelling) c mbs rq [''document_type_id'' \<mapsto> p] pk now w)
      | CreateDocument k body \<Rightarrow> answer DocumentRow (create_endpoint (document_resource env) c mbs rq Map.empty k body w)
      | UpdateDocument pk partial body \<Rightarrow> answer DocumentRow (update_endpoint (document_resource env) c mbs rq Map.empty pk partial body w)
      | DestroyDocument pk now \<Rightarrow> answer (\<lambda>_. NoContent) (destroy_endpoint (document_resource env) c mbs rq Map.empty pk now w)
      | CreateVersion p k body \<Rightarrow> answer VersionRow (create_endpoint version_resource c mbs rq [''document_id'' \<mapsto> p] k body w))"

text \<open>The answers the requests of a tenant get when all requests are served in order.\<close>

fun answers_to :: "val_env \<Rightarrow> (json \<Rightarrow> bool option) \<Rightarrow> string \<Rightarrow> dms_req list \<Rightarrow> dms app \<Rightarrow> dms_answer res list" where
  "answers_to env spelling t [] w = []"
| "answers_to env spelling t (q # qs) w =
     (let (x, w') = serve_dms env spelling q w; xs = answers_to env spelling t qs w'
      in if tenant_of (dq_request q) = Some t then x # xs else xs)"

text \<open>The key a create draws, with its table; keys are drawn once.\<close>

definition call_key :: "dms_call \<Rightarrow> (string \<times> string) list" where
  "call_key cl = (case cl of CreateType k _ \<Rightarrow> [(''type'', k)] | CreateDefinition _ k _ \<Rightarrow> [(''definition'', k)]
     | CreateDocument k _ \<Rightarrow> [(''document'', k)] | CreateVersion _ k _ \<Rightarrow> [(''version'', k)] | _ \<Rightarrow> [])"

definition stored_keys :: "dms \<Rightarrow> (string \<times> string) list" where
  "stored_keys db = map (\<lambda>r. (''type'', dt_id r)) (ds_types db) @ map (\<lambda>r. (''definition'', dfn_id r)) (ds_definitions db)
     @ map (\<lambda>r. (''document'', do_id r)) (ds_documents db) @ map (\<lambda>r. (''version'', dv_id r)) (ds_versions db)"

definition fresh_calls :: "dms_req list \<Rightarrow> dms app \<Rightarrow> bool" where
  "fresh_calls qs w =
     (distinct (concat (map (call_key \<circ> dq_call) qs))
      \<and> list_all (\<lambda>k. k \<notin> set (stored_keys (ap_db w))) (concat (map (call_key \<circ> dq_call) qs)))"

lemma answer_simps [simp]: "snd (answer f r) = snd r" "fst (answer f r) = (case fst r of Inl e \<Rightarrow> Inl e | Inr i \<Rightarrow> Inr (f i))"
  by (simp_all add: answer_def)

lemma request_scope_in: "in_scope (request_scope rq) rq"
  by (auto simp: in_scope_def request_scope_def scope_tenant_def get_bound_scope_def tenant_of_Some_iff split: option.splits)

lemma serve_is_step:
  assumes "fresh_calls (q # qs) w"
  shows "dms_step env spelling (dq_request q) w (snd (serve_dms env spelling q w))"
proof -
  have new: "k \<notin> set (stored_keys (ap_db w))" if "k \<in> set (call_key (dq_call q))" for k
    using assms that by (auto simp: fresh_calls_def list_all_iff)
  note scope = request_scope_in [of "dq_request q"]
  show ?thesis
  proof (cases "dq_call q")
    case (CreateType k body)
    then have "k \<notin> dt_id ` set (ds_types (ap_db w))" using new by (auto simp: call_key_def stored_keys_def)
    with CreateType scope show ?thesis by (auto simp: serve_dms_def Let_def intro: dms_step.create_type [OF surjective_pairing])
  next
    case (UpdateType pk partial body)
    with scope show ?thesis by (auto simp: serve_dms_def Let_def intro: dms_step.update_type [OF surjective_pairing])
  next
    case (DestroyType pk now)
    with scope show ?thesis by (auto simp: serve_dms_def Let_def intro: dms_step.destroy_type [OF surjective_pairing])
  next
    case (CreateDefinition p k body)
    then have "k \<notin> dfn_id ` set (ds_definitions (ap_db w))" using new by (auto simp: call_key_def stored_keys_def)
    with CreateDefinition scope show ?thesis by (auto simp: serve_dms_def Let_def intro: dms_step.create_definition [OF surjective_pairing])
  next
    case (UpdateDefinition p pk partial body)
    with scope show ?thesis by (auto simp: serve_dms_def Let_def intro: dms_step.update_definition [OF surjective_pairing])
  next
    case (DestroyDefinition p pk now)
    with scope show ?thesis by (auto simp: serve_dms_def Let_def intro: dms_step.destroy_definition [OF surjective_pairing])
  next
    case (CreateDocument k body)
    then have "k \<notin> do_id ` set (ds_documents (ap_db w))" using new by (auto simp: call_key_def stored_keys_def)
    with CreateDocument scope show ?thesis by (auto simp: serve_dms_def Let_def intro: dms_step.create_document [OF surjective_pairing])
  next
    case (UpdateDocument pk partial body)
    with scope show ?thesis by (auto simp: serve_dms_def Let_def intro: dms_step.update_document [OF surjective_pairing])
  next
    case (DestroyDocument pk now)
    with scope show ?thesis by (auto simp: serve_dms_def Let_def intro: dms_step.destroy_document [OF surjective_pairing])
  next
    case (CreateVersion p k body)
    then have "k \<notin> dv_id ` set (ds_versions (ap_db w))" using new by (auto simp: call_key_def stored_keys_def)
    with CreateVersion scope show ?thesis by (auto simp: serve_dms_def Let_def intro: dms_step.create_version [OF surjective_pairing])
  qed
qed

lemma stored_keys_set:
  "set (stored_keys db) = Pair ''type'' ` dt_id ` set (ds_types db) \<union> Pair ''definition'' ` dfn_id ` set (ds_definitions db)
     \<union> Pair ''document'' ` do_id ` set (ds_documents db) \<union> Pair ''version'' ` dv_id ` set (ds_versions db)"
  by (auto simp: stored_keys_def)

text \<open>Only the table of the call changes, and it gains at most the drawn key.\<close>

lemma image_grow: "A' \<subseteq> K \<union> A \<Longrightarrow> f ` A' \<subseteq> f ` K \<union> f ` A"
  by (metis image_Un image_mono)

lemma union_grow:
  "X \<subseteq> K \<union> A \<Longrightarrow> X \<union> B \<union> C \<union> D \<subseteq> (A \<union> B \<union> C \<union> D) \<union> K"
  "X \<subseteq> K \<union> B \<Longrightarrow> A \<union> X \<union> C \<union> D \<subseteq> (A \<union> B \<union> C \<union> D) \<union> K"
  "X \<subseteq> K \<union> C \<Longrightarrow> A \<union> B \<union> X \<union> D \<subseteq> (A \<union> B \<union> C \<union> D) \<union> K"
  "X \<subseteq> K \<union> D \<Longrightarrow> A \<union> B \<union> C \<union> X \<subseteq> (A \<union> B \<union> C \<union> D) \<union> K"
  by blast+

lemma keys_grow:
  "\<lbrakk>db' = db \<or> (\<exists>rows. db' = db\<lparr>ds_types := rows\<rparr>); dt_id ` set (ds_types db') \<subseteq> K \<union> dt_id ` set (ds_types db)\<rbrakk>
     \<Longrightarrow> set (stored_keys db') \<subseteq> set (stored_keys db) \<union> Pair ''type'' ` K"
  "\<lbrakk>db' = db \<or> (\<exists>rows. db' = db\<lparr>ds_definitions := rows\<rparr>); dfn_id ` set (ds_definitions db') \<subseteq> K \<union> dfn_id ` set (ds_definitions db)\<rbrakk>
     \<Longrightarrow> set (stored_keys db') \<subseteq> set (stored_keys db) \<union> Pair ''definition'' ` K"
  "\<lbrakk>db' = db \<or> (\<exists>rows. db' = db\<lparr>ds_documents := rows\<rparr>); do_id ` set (ds_documents db') \<subseteq> K \<union> do_id ` set (ds_documents db)\<rbrakk>
     \<Longrightarrow> set (stored_keys db') \<subseteq> set (stored_keys db) \<union> Pair ''document'' ` K"
  "\<lbrakk>db' = db \<or> (\<exists>rows. db' = db\<lparr>ds_versions := rows\<rparr>); dv_id ` set (ds_versions db') \<subseteq> K \<union> dv_id ` set (ds_versions db)\<rbrakk>
     \<Longrightarrow> set (stored_keys db') \<subseteq> set (stored_keys db) \<union> Pair ''version'' ` K"
proof -
  assume db: "db' = db \<or> (\<exists>rows. db' = db\<lparr>ds_types := rows\<rparr>)" and K: "dt_id ` set (ds_types db') \<subseteq> K \<union> dt_id ` set (ds_types db)"
  from db have "ds_definitions db' = ds_definitions db" "ds_documents db' = ds_documents db" "ds_versions db' = ds_versions db" by auto
  then show "set (stored_keys db') \<subseteq> set (stored_keys db) \<union> Pair ''type'' ` K"
    unfolding stored_keys_set using union_grow(1) [OF image_grow [OF K]] by (simp only:)
next
  assume db: "db' = db \<or> (\<exists>rows. db' = db\<lparr>ds_definitions := rows\<rparr>)" and K: "dfn_id ` set (ds_definitions db') \<subseteq> K \<union> dfn_id ` set (ds_definitions db)"
  from db have "ds_types db' = ds_types db" "ds_documents db' = ds_documents db" "ds_versions db' = ds_versions db" by auto
  then show "set (stored_keys db') \<subseteq> set (stored_keys db) \<union> Pair ''definition'' ` K"
    unfolding stored_keys_set using union_grow(2) [OF image_grow [OF K]] by (simp only:)
next
  assume db: "db' = db \<or> (\<exists>rows. db' = db\<lparr>ds_documents := rows\<rparr>)" and K: "do_id ` set (ds_documents db') \<subseteq> K \<union> do_id ` set (ds_documents db)"
  from db have "ds_types db' = ds_types db" "ds_definitions db' = ds_definitions db" "ds_versions db' = ds_versions db" by auto
  then show "set (stored_keys db') \<subseteq> set (stored_keys db) \<union> Pair ''document'' ` K"
    unfolding stored_keys_set using union_grow(3) [OF image_grow [OF K]] by (simp only:)
next
  assume db: "db' = db \<or> (\<exists>rows. db' = db\<lparr>ds_versions := rows\<rparr>)" and K: "dv_id ` set (ds_versions db') \<subseteq> K \<union> dv_id ` set (ds_versions db)"
  from db have "ds_types db' = ds_types db" "ds_definitions db' = ds_definitions db" "ds_documents db' = ds_documents db" by auto
  then show "set (stored_keys db') \<subseteq> set (stored_keys db) \<union> Pair ''version'' ` K"
    unfolding stored_keys_set using union_grow(4) [OF image_grow [OF K]] by (simp only:)
qed

lemma serve_keys: "set (stored_keys (ap_db (snd (serve_dms env spelling q w)))) \<subseteq> set (stored_keys (ap_db w)) \<union> set (call_key (dq_call q))"
proof (cases "dq_call q")
  case (CreateType k body)
  show ?thesis
    using keys_grow(1) [of _ _ "{k}", OF types.endpoint_table(1) [OF surjective_pairing, simplified]] types.endpoint_keys(1) [OF surjective_pairing]
    by (simp add: CreateType serve_dms_def Let_def call_key_def)
next
  case (UpdateType pk partial body)
  show ?thesis
    using keys_grow(1) [of _ _ "{}", OF types.endpoint_table(2) [OF surjective_pairing, simplified]] types.endpoint_keys(2) [OF surjective_pairing]
    by (simp add: UpdateType serve_dms_def Let_def call_key_def)
next
  case (DestroyType pk now)
  show ?thesis
    using keys_grow(1) [of _ _ "{}", OF types.endpoint_table(3) [OF surjective_pairing, simplified]] types.endpoint_keys(3) [OF surjective_pairing]
    by (simp add: DestroyType serve_dms_def Let_def call_key_def)
next
  case (CreateDefinition p k body)
  show ?thesis
    using keys_grow(2) [of _ _ "{k}", OF definitions.endpoint_table(1) [OF surjective_pairing, simplified]] definitions.endpoint_keys(1) [OF surjective_pairing]
    by (simp add: CreateDefinition serve_dms_def Let_def call_key_def)
next
  case (UpdateDefinition p pk partial body)
  show ?thesis
    using keys_grow(2) [of _ _ "{}", OF definitions.endpoint_table(2) [OF surjective_pairing, simplified]] definitions.endpoint_keys(2) [OF surjective_pairing]
    by (simp add: UpdateDefinition serve_dms_def Let_def call_key_def)
next
  case (DestroyDefinition p pk now)
  show ?thesis
    using keys_grow(2) [of _ _ "{}", OF definitions.endpoint_table(3) [OF surjective_pairing, simplified]] definitions.endpoint_keys(3) [OF surjective_pairing]
    by (simp add: DestroyDefinition serve_dms_def Let_def call_key_def)
next
  case (CreateDocument k body)
  show ?thesis
    using keys_grow(3) [of _ _ "{k}", OF documents.endpoint_table(1) [OF surjective_pairing, simplified]] documents.endpoint_keys(1) [OF surjective_pairing]
    by (simp add: CreateDocument serve_dms_def Let_def call_key_def)
next
  case (UpdateDocument pk partial body)
  show ?thesis
    using keys_grow(3) [of _ _ "{}", OF documents.endpoint_table(2) [OF surjective_pairing, simplified]] documents.endpoint_keys(2) [OF surjective_pairing]
    by (simp add: UpdateDocument serve_dms_def Let_def call_key_def)
next
  case (DestroyDocument pk now)
  show ?thesis
    using keys_grow(3) [of _ _ "{}", OF documents.endpoint_table(3) [OF surjective_pairing, simplified]] documents.endpoint_keys(3) [OF surjective_pairing]
    by (simp add: DestroyDocument serve_dms_def Let_def call_key_def)
next
  case (CreateVersion p k body)
  show ?thesis
    using keys_grow(4) [of _ _ "{k}", OF versions.endpoint_table(1) [OF surjective_pairing, simplified]] versions.endpoint_keys(1) [OF surjective_pairing]
    by (simp add: CreateVersion serve_dms_def Let_def call_key_def)
qed

section \<open>Noninterference\<close>

lemma anonymous_refused:
  assumes "rq_user rq = None"
  shows "create_endpoint R c mbs rq kw k body w = (Inl (PermissionDenied [] ''permission_denied''), w)"
    and "update_endpoint R c mbs rq kw pk partial body w = (Inl (PermissionDenied [] ''permission_denied''), w)"
    and "destroy_endpoint R c mbs rq kw pk now w = (Inl (PermissionDenied [] ''permission_denied''), w)"
proof -
  have refuse: "check_permissions (view_permissions R action) c mbs rq = Inl (PermissionDenied [] ''permission_denied'')" for action
    using assms by (auto simp: check_permissions_def view_permissions_def get_permissions_def guard_def permits_def
        is_authenticated_permission_def split: option.splits list.splits)
  show "create_endpoint R c mbs rq kw k body w = (Inl (PermissionDenied [] ''permission_denied''), w)"
    "update_endpoint R c mbs rq kw pk partial body w = (Inl (PermissionDenied [] ''permission_denied''), w)"
    "destroy_endpoint R c mbs rq kw pk now w = (Inl (PermissionDenied [] ''permission_denied''), w)"
    by (simp_all add: create_endpoint_def update_endpoint_def destroy_endpoint_def refuse)
qed

abbreviation dms_alike :: "string \<Rightarrow> dms app \<Rightarrow> dms app \<Rightarrow> bool" where
  "dms_alike \<equiv> local_types.alike"

lemma dms_alike_iff: "dms_alike t w1 w2 \<longleftrightarrow> same_for t (ap_db w1) (ap_db w2) \<and> log_of t (ap_audit w1) = log_of t (ap_audit w2)"
  by (simp only: local_types.alike_def)

lemma dms_alike_trans: "dms_alike t w1 w2 \<Longrightarrow> dms_alike t w2 w3 \<Longrightarrow> dms_alike t w1 w3"
  unfolding dms_alike_iff same_for_def by metis

lemma serve_alike:
  assumes "dms_ok env spelling w1" and "dms_ok env spelling w2" and "tenant_of (dq_request q) = Some t" and "dms_alike t w1 w2"
  shows "fst (serve_dms env spelling q w1) = fst (serve_dms env spelling q w2)
    \<and> dms_alike t (snd (serve_dms env spelling q w1)) (snd (serve_dms env spelling q w2))"
proof (cases "rq_user (dq_request q)")
  case None
  with assms(4) show ?thesis by (cases "dq_call q") (simp_all add: serve_dms_def Let_def anonymous_refused)
next
  case (Some u)
  have scope: "scope_tenant (request_scope (dq_request q)) = Some t"
    using assms(3) tenant_of_Some_iff [of "dq_request q" t] by (simp add: request_scope_def scope_tenant_def get_bound_scope_def)
  have ok: "table_ok type_resource w" "table_ok (definition_resource env spelling) w" "table_ok (document_resource env) w"
    if "dms_ok env spelling w" for w using that by (simp_all add: dms_ok_def tables_ok_def)
  note create = local_types.create_alike_rows [OF Some assms(3) scope assms(4)]
    local_definitions.create_alike_rows [OF Some assms(3) scope assms(4)]
    local_documents.create_alike_rows [OF Some assms(3) scope assms(4)]
    version_create_alike [OF assms(1,2) Some assms(3) scope assms(4)]
  note update = local_types.update_alike [OF Some assms(3) scope assms(4) ok(1) [OF assms(1)] ok(1) [OF assms(2)]]
    local_definitions.update_alike [OF Some assms(3) scope assms(4) ok(2) [OF assms(1)] ok(2) [OF assms(2)]]
    local_documents.update_alike [OF Some assms(3) scope assms(4) ok(3) [OF assms(1)] ok(3) [OF assms(2)]]
  note destroy = local_types.destroy_alike [OF Some assms(3,4) ok(1) [OF assms(1)] ok(1) [OF assms(2)]]
    local_definitions.destroy_alike [OF Some assms(3,4) ok(2) [OF assms(1)] ok(2) [OF assms(2)]]
    local_documents.destroy_alike [OF Some assms(3,4) ok(3) [OF assms(1)] ok(3) [OF assms(2)]]
  show ?thesis
    by (cases "dq_call q") (simp_all add: serve_dms_def Let_def create update destroy)
qed

lemma serve_others:
  assumes "dms_ok env spelling w" and "fresh_calls (q # qs) w" and "tenant_of (dq_request q) \<noteq> Some t"
  shows "dms_alike t (snd (serve_dms env spelling q w)) w"
proof -
  note step = serve_is_step [OF assms(2), of env spelling]
  have "tenant_view t (snd (serve_dms env spelling q w)) = tenant_view t w"
    using step_keeps_others [OF step _ assms(3)] assms(1) by (simp add: dms_ok_def)
  moreover have "ds_users (ap_db (snd (serve_dms env spelling q w))) = ds_users (ap_db w)"
    using dms_step_writes [OF step] by (auto dest!: writes_frame)
  ultimately show ?thesis unfolding dms_alike_iff by (simp add: same_for_def tenant_view_def log_of_def)
qed

lemma serve_ok:
  assumes "dms_ok env spelling w" and "fresh_calls (q # qs) w"
  shows "dms_ok env spelling (snd (serve_dms env spelling q w))" and "fresh_calls qs (snd (serve_dms env spelling q w))"
proof -
  from serve_is_step [OF assms(2)] dms.step_good [OF assms(1)] show "dms_ok env spelling (snd (serve_dms env spelling q w))"
    unfolding dms_request_def by blast
  from serve_keys [of env spelling q w] assms(2) show "fresh_calls qs (snd (serve_dms env spelling q w))"
    by (fastforce simp: fresh_calls_def list_all_iff)
qed

lemma fresh_purged: "fresh_calls qs w \<Longrightarrow> fresh_calls (filter P qs) w"
  by (induction qs) (auto simp: fresh_calls_def list_all_iff)

lemma answers_alike:
  assumes "dms_ok env spelling w1" and "dms_ok env spelling w2" and "fresh_calls qs w1"
    and "fresh_calls (filter (\<lambda>q. tenant_of (dq_request q) = Some t) qs) w2" and "dms_alike t w1 w2"
  shows "answers_to env spelling t qs w1 = answers_to env spelling t (filter (\<lambda>q. tenant_of (dq_request q) = Some t) qs) w2"
  using assms
proof (induction qs arbitrary: w1 w2)
  case (Cons q qs)
  let ?own = "filter (\<lambda>q. tenant_of (dq_request q) = Some t)"
  obtain x1 w1' where s1: "serve_dms env spelling q w1 = (x1, w1')" by fastforce
  obtain x2 w2' where s2: "serve_dms env spelling q w2 = (x2, w2')" by fastforce
  note ok1 = serve_ok [OF Cons.prems(1,3), unfolded s1 snd_conv]
  show ?case
  proof (cases "tenant_of (dq_request q) = Some t")
    case True
    with Cons.prems(4) have fresh2: "fresh_calls (q # ?own qs) w2" by simp
    note ok2 = serve_ok [OF Cons.prems(2) fresh2, unfolded s2 snd_conv]
    from serve_alike [OF Cons.prems(1,2) True Cons.prems(5)] s1 s2 have "x1 = x2" "dms_alike t w1' w2'" by simp_all
    with Cons.IH [OF ok1(1) ok2(1) ok1(2) ok2(2)] True s1 s2 show ?thesis by simp
  next
    case False
    from dms_alike_trans [OF serve_others [OF Cons.prems(1,3) False, unfolded s1 snd_conv] Cons.prems(5)]
    have "dms_alike t w1' w2" .
    with Cons.IH [OF ok1(1) Cons.prems(2) ok1(2)] Cons.prems(4) False s1 show ?thesis by simp
  qed
qed simp

text \<open>C1: Tenants do not influence each other.  From any well-formed store, whatever requests of any
  tenants are served in whatever order, the answers the requests of one tenant get (the rows
  they create and see, and the errors) are those they would get if nobody else had asked.
  The key a create draws is new, which random keys are.\<close>

theorem tenant_noninterference:
  assumes "dms_ok env spelling w" and "fresh_calls qs w"
  shows "answers_to env spelling t qs w = answers_to env spelling t (filter (\<lambda>q. tenant_of (dq_request q) = Some t) qs) w"
  using answers_alike [OF assms(1,1,2) fresh_purged [OF assms(2)]] unfolding dms_alike_iff by (simp add: same_for_def)

definition sample_calls :: "dms_req list" where
  "sample_calls =
     [\<lparr>dq_request = sample_request (Some (sample_user ''a'' False)) (Some ''t1''), dq_members = [],
       dq_call = CreateType ''k1'' [(''name'', JStr ''Invoice'')]\<rparr>,
      \<lparr>dq_request = sample_request (Some (sample_user ''b'' False)) (Some ''t2''), dq_members = [],
       dq_call = CreateType ''k2'' [(''name'', JStr ''Invoice'')]\<rparr>,
      \<lparr>dq_request = sample_request (Some (sample_user ''b'' True)) (Some ''t2''), dq_members = [], dq_call = DestroyType ''k1'' 9\<rparr>]"

lemma tenant_noninterference_witness:
  "answers_to sample_val_env (\<lambda>_. None) ''t2'' sample_calls (empty_dms [])
     = answers_to sample_val_env (\<lambda>_. None) ''t2'' (tl sample_calls) (empty_dms [])"
proof -
  have "filter (\<lambda>q. tenant_of (dq_request q) = Some ''t2'') sample_calls = tl sample_calls" by (simp add: sample_calls_def)
  moreover have "fresh_calls sample_calls (empty_dms [])"
    by (simp add: fresh_calls_def sample_calls_def call_key_def stored_keys_def empty_dms_def)
  ultimately show ?thesis using tenant_noninterference [OF empty_dms_ok, of sample_calls "[]" sample_val_env "\<lambda>_. None" "''t2''"] by simp
qed

end
