(* ===== verification/Schema.thy ===== *)
theory Schema
  imports PyString
begin

text \<open>
  The tables of the platform as the code declares them: the vocabulary of model fields, the
  abstract bases of \<open>core/base/models.py\<close> and \<open>apps/tenants/models.py\<close>, and one definition per
  model class of the \<open>models.py\<close> files, with its fields, inherited ones first, and its
  \<open>Meta\<close>.  \<open>Migrations\<close> compares them with what the migration files build, \<open>Deletion\<close> reads
  from them what the removal of a row does to the rows that refer to it.

  A field is written with the keyword arguments of its declaration (\<open>fld type arguments\<close>) and
  kept in a normal form in which a foreign key is indexed and a one-to-one field is unique.
  Verbose names and help texts are left out.  Of \<open>User\<close>, the five fields of the framework's
  own base classes are not declared here (\<open>library_fields\<close>).
\<close>

section \<open>Fields\<close>

datatype on_delete = CASCADE | SET_NULL | PROTECT

datatype field_type =
    UUIDField
  | CharField nat
  | EmailField nat
  | URLField nat
  | TextField
  | BooleanField
  | DateTimeField
  | JSONField
  | PositiveIntegerField
  | PositiveBigIntegerField
  | ForeignKey string on_delete string
  | OneToOneField string on_delete string
  | ManyToManyField string string

datatype default_value = NoDefault | DUuid4 | DDict | DBool bool | DStr string

datatype kwarg =
    Null | Blank | Unique | DbIndex | PrimaryKey | NotEditable | AutoNow | AutoNowAdd
  | Default default_value
  | Choices "(string \<times> string) list"

record model_field =
  mf_type :: field_type
  mf_null :: bool
  mf_blank :: bool
  mf_unique :: bool
  mf_index :: bool
  mf_primary_key :: bool
  mf_editable :: bool
  mf_auto_now :: bool
  mf_auto_now_add :: bool
  mf_default :: default_value
  mf_choices :: "(string \<times> string) list"

fun plain_field :: "field_type \<Rightarrow> model_field" where
  "plain_field t =
     \<lparr>mf_type = t, mf_null = False, mf_blank = False,
      mf_unique = (case t of OneToOneField _ _ _ \<Rightarrow> True | _ \<Rightarrow> False),
      mf_index = (case t of ForeignKey _ _ _ \<Rightarrow> True | OneToOneField _ _ _ \<Rightarrow> True | _ \<Rightarrow> False),
      mf_primary_key = False, mf_editable = True, mf_auto_now = False, mf_auto_now_add = False,
      mf_default = NoDefault, mf_choices = []\<rparr>"

fun apply_kwarg :: "kwarg \<Rightarrow> model_field \<Rightarrow> model_field" where
  "apply_kwarg Null f = f\<lparr>mf_null := True\<rparr>"
| "apply_kwarg Blank f = f\<lparr>mf_blank := True\<rparr>"
| "apply_kwarg Unique f = f\<lparr>mf_unique := True\<rparr>"
| "apply_kwarg DbIndex f = f\<lparr>mf_index := True\<rparr>"
| "apply_kwarg PrimaryKey f = f\<lparr>mf_primary_key := True\<rparr>"
| "apply_kwarg NotEditable f = f\<lparr>mf_editable := False\<rparr>"
| "apply_kwarg AutoNow f = f\<lparr>mf_auto_now := True\<rparr>"
| "apply_kwarg AutoNowAdd f = f\<lparr>mf_auto_now_add := True\<rparr>"
| "apply_kwarg (Default d) f = f\<lparr>mf_default := d\<rparr>"
| "apply_kwarg (Choices c) f = f\<lparr>mf_choices := c\<rparr>"

definition fld :: "field_type \<Rightarrow> kwarg list \<Rightarrow> model_field" where
  "fld t ks = fold apply_kwarg ks (plain_field t)"

type_synonym columns = "(string \<times> model_field) list"

section \<open>Models\<close>

text \<open>
  A model is known by its application and its name in lower case.  The target of a relation
  is written as a label (\<open>tenants.Tenant\<close>, in any case) or as \<open>self\<close>.
\<close>

type_synonym model_key = "string \<times> string"

definition auth_user_model :: string where
  "auth_user_model = ''iam_users.User''"

definition key_of_label :: "string \<Rightarrow> model_key" where
  "key_of_label l = (let s = lower l in (takeWhile (\<lambda>c. c \<noteq> CHR ''.'') s, tl (dropWhile (\<lambda>c. c \<noteq> CHR ''.'') s)))"

definition label_of :: "model_key \<Rightarrow> string" where
  "label_of k = fst k @ ''.'' @ snd k"

definition resolve_label :: "model_key \<Rightarrow> string \<Rightarrow> string" where
  "resolve_label own l = (if l = ''self'' then label_of own else lower l)"

fun resolve_type :: "model_key \<Rightarrow> field_type \<Rightarrow> field_type" where
  "resolve_type own (ForeignKey l od rel) = ForeignKey (resolve_label own l) od rel"
| "resolve_type own (OneToOneField l od rel) = OneToOneField (resolve_label own l) od rel"
| "resolve_type own (ManyToManyField l rel) = ManyToManyField (resolve_label own l) rel"
| "resolve_type own t = t"

definition resolve_field :: "model_key \<Rightarrow> model_field \<Rightarrow> model_field" where
  "resolve_field own f = f\<lparr>mf_type := resolve_type own (mf_type f)\<rparr>"

definition relation :: "model_field \<Rightarrow> (model_key \<times> on_delete) option" where
  "relation f = (case mf_type f of
      ForeignKey l od _ \<Rightarrow> Some (key_of_label l, od)
    | OneToOneField l od _ \<Rightarrow> Some (key_of_label l, od)
    | _ \<Rightarrow> None)"

definition relation_targets :: "model_field \<Rightarrow> model_key list" where
  "relation_targets f = (case mf_type f of
      ForeignKey l _ _ \<Rightarrow> [key_of_label l]
    | OneToOneField l _ _ \<Rightarrow> [key_of_label l]
    | ManyToManyField l _ \<Rightarrow> [key_of_label l]
    | _ \<Rightarrow> [])"

record meta =
  mt_table :: string
  mt_ordering :: "string list"
  mt_plural :: "string option"
  mt_constraints :: "(string \<times> string list) list"
  mt_indexes :: "(string \<times> string list) list"

record data_model =
  dm_fields :: columns
  dm_meta :: meta

text \<open>A field declared in a class replaces the inherited field of its name.\<close>

definition inherit_fields :: "columns \<Rightarrow> columns \<Rightarrow> columns" where
  "inherit_fields inherited own = filter (\<lambda>(n, _). n \<notin> fst ` set own) inherited @ own"

definition model_class :: "string \<Rightarrow> string \<Rightarrow> columns \<Rightarrow> columns \<Rightarrow> meta \<Rightarrow> model_key \<times> data_model" where
  "model_class app name inherited own m =
     (let k = (app, lower name)
      in (k, \<lparr>dm_fields = map (\<lambda>(n, f). (n, resolve_field k f)) (inherit_fields inherited own), dm_meta = m\<rparr>))"

text \<open>The label of a member of a \<open>TextChoices\<close> class that gives none is its name in title case.\<close>

definition title_word :: "string \<Rightarrow> string" where
  "title_word s = (case s of [] \<Rightarrow> [] | c # cs \<Rightarrow> c # lower cs)"

definition auto_choices :: "(string \<times> string) list \<Rightarrow> (string \<times> string) list" where
  "auto_choices = map (\<lambda>(name, value). (value, join '' '' (map title_word (split_on CHR ''_'' name))))"

section \<open>Abstract bases\<close>

definition uuid_primary_key_model :: columns where
  "uuid_primary_key_model = [(''id'', fld UUIDField [PrimaryKey, Default DUuid4, NotEditable])]"

definition time_stamped_model :: columns where
  "time_stamped_model =
     [(''created_at'', fld DateTimeField [AutoNowAdd]), (''updated_at'', fld DateTimeField [AutoNow])]"

definition soft_deletable_model :: columns where
  "soft_deletable_model =
     [(''deleted_at'', fld DateTimeField [Null, Blank, DbIndex]),
      (''deleted_by'', fld (CharField 255) [Null, Blank])]"

definition base_model_columns :: columns where
  "base_model_columns = uuid_primary_key_model @ time_stamped_model @ soft_deletable_model"

definition tenant_aware_model :: columns where
  "tenant_aware_model =
     inherit_fields base_model_columns
       [(''tenant'', fld (ForeignKey ''tenants.Tenant'' CASCADE ''%(class)s_set'') [DbIndex])]"

section \<open>Choices\<close>

definition role_kinds :: "(string \<times> string) list" where
  "role_kinds = auto_choices
     [(''OWNER'', ''owner''), (''ADMIN'', ''admin''), (''MEMBER'', ''member''), (''VIEWER'',
        ''viewer''), (''CUSTOM'', ''custom'')]"

definition availabilities :: "(string \<times> string) list" where
  "availabilities =
     [(''ACTIVE'', ''Active''), (''ARCHIVED'', ''Archived'')]"

definition storage_states :: "(string \<times> string) list" where
  "storage_states =
     [(''PENDING'', ''Pending''), (''UPLOADING'', ''Uploading''), (''PROCESSING'', ''Processing''),
        (''AVAILABLE'', ''Available''), (''CORRUPTED'', ''Corrupted''), (''QUARANTINED'',
        ''Quarantined''), (''ARCHIVED'', ''Archived'')]"

definition upload_states :: "(string \<times> string) list" where
  "upload_states =
     [(''NEW'', ''New''), (''UPLOAD_REQUESTED'', ''Upload Requested''), (''UPLOADING'', ''Uploading''),
        (''UPLOADED'', ''Uploaded''), (''VALIDATING'', ''Validating''), (''PROCESSING'',
        ''Processing''), (''READY'', ''Ready''), (''DOCUMENT_CREATED'', ''Document Created''),
        (''COMPLETED'', ''Completed''), (''FAILED'', ''Failed''), (''EXPIRED'', ''Expired''),
        (''CANCELLED'', ''Cancelled''), (''QUARANTINED'', ''Quarantined'')]"

definition metadata_types :: "(string \<times> string) list" where
  "metadata_types =
     [(''STRING'', ''String''), (''TEXT'', ''Text''), (''INTEGER'', ''Integer''), (''DECIMAL'',
        ''Decimal''), (''BOOLEAN'', ''Boolean''), (''DATE'', ''Date''), (''DATETIME'', ''DateTime''),
        (''TIME'', ''Time''), (''UUID'', ''UUID''), (''EMAIL'', ''Email''), (''URL'', ''URL''),
        (''JSON'', ''JSON''), (''ENUM'', ''Enum'')]"

section \<open>Model classes\<close>

definition tenant_model :: "model_key \<times> data_model" where
  "tenant_model =
     model_class ''tenants'' ''Tenant'' []
       [(''id'', fld UUIDField [PrimaryKey, Default DUuid4, NotEditable]),
        (''name'', fld (CharField 255) []),
        (''code'', fld (CharField 100) [Unique]),
        (''is_active'', fld BooleanField [Default (DBool True)]),
        (''details'', fld JSONField [Default DDict, Blank]),
        (''created_at'', fld DateTimeField [AutoNowAdd]),
        (''updated_at'', fld DateTimeField [AutoNow])]
       \<lparr>mt_table = ''tenants'', mt_ordering = [''name''], mt_plural = None, mt_constraints = [],
          mt_indexes = []\<rparr>"

definition tenant_setting_model :: "model_key \<times> data_model" where
  "tenant_setting_model =
     model_class ''tenants'' ''TenantSetting'' []
       [(''id'', fld UUIDField [PrimaryKey, Default DUuid4, NotEditable]),
        (''tenant'', fld (ForeignKey ''tenants.Tenant'' CASCADE ''settings'') []),
        (''key'', fld (CharField 255) []),
        (''value'', fld TextField []),
        (''created_at'', fld DateTimeField [AutoNowAdd]),
        (''updated_at'', fld DateTimeField [AutoNow])]
       \<lparr>mt_table = ''tenants_settings'', mt_ordering = [''key''], mt_plural = None,
          mt_constraints = [(''unique_setting_per_tenant'', [''tenant'', ''key''])], mt_indexes =
          []\<rparr>"

definition user_model :: "model_key \<times> data_model" where
  "user_model =
     model_class ''iam_users'' ''User'' []
       [(''id'', fld UUIDField [PrimaryKey, Default DUuid4, NotEditable]),
        (''email'', fld (EmailField 254) [Unique]),
        (''first_name'', fld (CharField 150) [Blank]),
        (''last_name'', fld (CharField 150) [Blank]),
        (''is_active'', fld BooleanField [Default (DBool True)]),
        (''created_at'', fld DateTimeField [AutoNowAdd]),
        (''updated_at'', fld DateTimeField [AutoNow])]
       \<lparr>mt_table = ''iam_users'', mt_ordering = [''-created_at''], mt_plural = None,
          mt_constraints = [], mt_indexes = []\<rparr>"

definition user_profile_model :: "model_key \<times> data_model" where
  "user_profile_model =
     model_class ''iam_users'' ''UserProfile'' []
       [(''id'', fld UUIDField [PrimaryKey, Default DUuid4, NotEditable]),
        (''user'', fld (OneToOneField ''iam_users.User'' CASCADE ''profile'') []),
        (''personal_info'', fld JSONField [Default DDict, Blank])]
       \<lparr>mt_table = ''iam_users_profiles'', mt_ordering = [''-user__created_at''], mt_plural =
          None, mt_constraints = [], mt_indexes = []\<rparr>"

definition tenant_membership_model :: "model_key \<times> data_model" where
  "tenant_membership_model =
     model_class ''iam_users'' ''TenantMembership'' []
       [(''id'', fld UUIDField [PrimaryKey, Default DUuid4, NotEditable]),
        (''user'', fld (ForeignKey ''iam_users.User'' CASCADE ''memberships'') []),
        (''tenant'', fld (ForeignKey ''tenants.Tenant'' CASCADE ''memberships'') []),
        (''role'', fld (ForeignKey ''iam_roles.TenantRole'' PROTECT ''memberships'') []),
        (''is_admin'', fld BooleanField [Default (DBool False)]),
        (''is_active'', fld BooleanField [Default (DBool True)]),
        (''joined_at'', fld DateTimeField [AutoNowAdd])]
       \<lparr>mt_table = ''iam_users_memberships'', mt_ordering = [''-joined_at''], mt_plural = None,
          mt_constraints = [(''unique_user_tenant'', [''user'', ''tenant''])], mt_indexes = []\<rparr>"

definition user_tenant_attribute_model :: "model_key \<times> data_model" where
  "user_tenant_attribute_model =
     model_class ''iam_users'' ''UserTenantAttribute'' []
       [(''id'', fld UUIDField [PrimaryKey, Default DUuid4, NotEditable]),
        (''user'', fld (ForeignKey auth_user_model CASCADE ''tenant_attributes'') []),
        (''tenant'', fld (ForeignKey ''tenants.Tenant'' CASCADE ''user_attributes'') []),
        (''attribute'', fld (CharField 100) []),
        (''value'', fld TextField []),
        (''created_at'', fld DateTimeField [AutoNowAdd])]
       \<lparr>mt_table = ''iam_users_tenant_attributes'', mt_ordering = [''-created_at''], mt_plural =
          None, mt_constraints = [(''unique_user_tenant_attribute'', [''user'', ''tenant'',
          ''attribute''])], mt_indexes = []\<rparr>"

definition tenant_role_model :: "model_key \<times> data_model" where
  "tenant_role_model =
     model_class ''iam_roles'' ''TenantRole'' tenant_aware_model
       [(''tenant'', fld (ForeignKey ''tenants.Tenant'' CASCADE ''roles'') [DbIndex]),
        (''name'', fld (CharField 50) []),
        (''kind'', fld (CharField 10) [Choices role_kinds, Default (DStr ''custom'')]),
        (''description'', fld TextField [Blank]),
        (''permissions'', fld JSONField [Default DDict])]
       \<lparr>mt_table = ''iam_roles'', mt_ordering = [''name''], mt_plural = None, mt_constraints =
          [(''unique_role_per_tenant'', [''tenant'', ''name''])], mt_indexes = []\<rparr>"

definition team_model :: "model_key \<times> data_model" where
  "team_model =
     model_class ''iam_teams'' ''Team'' tenant_aware_model
       [(''name'', fld (CharField 255) []),
        (''description'', fld TextField [Blank]),
        (''is_active'', fld BooleanField [Default (DBool True)])]
       \<lparr>mt_table = ''iam_teams'', mt_ordering = [''name''], mt_plural = None, mt_constraints =
          [(''unique_team_per_tenant'', [''tenant'', ''name''])], mt_indexes = []\<rparr>"

definition team_membership_model :: "model_key \<times> data_model" where
  "team_membership_model =
     model_class ''iam_teams'' ''TeamMembership'' tenant_aware_model
       [(''team'', fld (ForeignKey ''iam_teams.Team'' CASCADE ''memberships'') []),
        (''membership'', fld (ForeignKey ''iam_users.TenantMembership'' CASCADE ''team_memberships'') [])]
       \<lparr>mt_table = ''iam_teams_memberships'', mt_ordering = [''-created_at''], mt_plural = None,
          mt_constraints = [(''unique_member_per_team'', [''team'', ''membership''])], mt_indexes =
          []\<rparr>"

definition user_password_history_model :: "model_key \<times> data_model" where
  "user_password_history_model =
     model_class ''iam_auth'' ''UserPasswordHistory'' []
       [(''id'', fld UUIDField [PrimaryKey, Default DUuid4, NotEditable]),
        (''user'', fld (ForeignKey auth_user_model CASCADE ''password_history'') []),
        (''hashed_password'', fld (CharField 255) []),
        (''created_at'', fld DateTimeField [AutoNowAdd])]
       \<lparr>mt_table = ''iam_auth_password_history'', mt_ordering = [''-created_at''], mt_plural =
          Some ''user password histories'', mt_constraints = [], mt_indexes = []\<rparr>"

definition mfa_device_model :: "model_key \<times> data_model" where
  "mfa_device_model =
     model_class ''iam_mfa'' ''MFADevice'' tenant_aware_model
       [(''user'', fld (ForeignKey auth_user_model CASCADE ''mfa_devices'') []),
        (''secret'', fld TextField []),
        (''label'', fld (CharField 255) []),
        (''is_active'', fld BooleanField [Default (DBool True)])]
       \<lparr>mt_table = ''iam_mfa_devices'', mt_ordering = [''-created_at''], mt_plural = None,
          mt_constraints = [], mt_indexes = []\<rparr>"

definition mfa_backup_code_model :: "model_key \<times> data_model" where
  "mfa_backup_code_model =
     model_class ''iam_mfa'' ''MFABackupCode'' base_model_columns
       [(''mfa_device'', fld (ForeignKey ''iam_mfa.MFADevice'' CASCADE ''backup_codes'') []),
        (''code_hash'', fld (CharField 255) []),
        (''is_used'', fld BooleanField [Default (DBool False)])]
       \<lparr>mt_table = ''iam_mfa_backup_codes'', mt_ordering = [''-created_at''], mt_plural = None,
          mt_constraints = [], mt_indexes = []\<rparr>"

definition oauth2_client_model :: "model_key \<times> data_model" where
  "oauth2_client_model =
     model_class ''iam_oauth'' ''OAuth2Client'' tenant_aware_model
       [(''tenant'', fld (ForeignKey ''tenants.Tenant'' CASCADE ''oauth2_clients'') [DbIndex]),
        (''client_id'', fld (CharField 255) []),
        (''client_secret'', fld (CharField 255) [Null, Blank]),
        (''client_name'', fld (CharField 255) []),
        (''redirect_uris'', fld TextField []),
        (''grant_types'', fld TextField []),
        (''response_types'', fld TextField []),
        (''scope'', fld TextField [Default (DStr '''')]),
        (''is_confidential'', fld BooleanField [Default (DBool True)]),
        (''is_active'', fld BooleanField [Default (DBool True)])]
       \<lparr>mt_table = ''iam_oauth_clients'', mt_ordering = [''client_name''], mt_plural = None,
          mt_constraints = [(''unique_client_per_tenant'', [''tenant'', ''client_id''])], mt_indexes =
          []\<rparr>"

definition authorization_code_model :: "model_key \<times> data_model" where
  "authorization_code_model =
     model_class ''iam_oauth'' ''AuthorizationCode'' tenant_aware_model
       [(''client'', fld (ForeignKey ''iam_oauth.OAuth2Client'' CASCADE ''authorization_codes'') [DbIndex]),
        (''tenant'', fld (ForeignKey ''tenants.Tenant'' CASCADE ''authorization_codes'') [DbIndex]),
        (''code'', fld (CharField 255) []),
        (''redirect_uri'', fld (URLField 2048) []),
        (''scope'', fld TextField [Default (DStr '''')]),
        (''code_challenge'', fld (CharField 255) [Null, Blank]),
        (''code_challenge_method'', fld (CharField 10) [Null, Blank]),
        (''user_id'', fld UUIDField [Null, Blank]),
        (''expires_at'', fld DateTimeField []),
        (''is_consumed'', fld BooleanField [Default (DBool False)]),
        (''consumed_at'', fld DateTimeField [Null, Blank])]
       \<lparr>mt_table = ''iam_oauth_authorization_codes'', mt_ordering = [''-created_at''], mt_plural
          = None, mt_constraints = [(''unique_auth_code_per_client'', [''client'', ''code''])],
          mt_indexes = [(''idx_auth_code_code'', [''code'']), (''idx_auth_code_client_consumed'',
          [''client'', ''is_consumed''])]\<rparr>"

definition oauth2_refresh_token_model :: "model_key \<times> data_model" where
  "oauth2_refresh_token_model =
     model_class ''iam_oauth'' ''OAuth2RefreshToken'' tenant_aware_model
       [(''client'', fld (ForeignKey ''iam_oauth.OAuth2Client'' CASCADE ''refresh_tokens'') [DbIndex]),
        (''tenant'', fld (ForeignKey ''tenants.Tenant'' CASCADE ''oauth2_refresh_tokens'') [DbIndex]),
        (''user_id'', fld UUIDField []),
        (''token'', fld (CharField 255) [Unique]),
        (''scope'', fld TextField [Default (DStr '''')]),
        (''expires_at'', fld DateTimeField []),
        (''is_revoked'', fld BooleanField [Default (DBool False)]),
        (''revoked_at'', fld DateTimeField [Null, Blank]),
        (''replaced_by'', fld (OneToOneField ''self'' SET_NULL ''replaces'') [Null, Blank])]
       \<lparr>mt_table = ''iam_oauth_refresh_tokens'', mt_ordering = [''-created_at''], mt_plural =
          None, mt_constraints = [], mt_indexes = [(''idx_oauth_refresh_token_token'', [''token'']),
          (''idx_oauth_rt_client_revoked'', [''client'', ''is_revoked'']),
          (''idx_oauth_rt_user_revoked'', [''user_id'', ''is_revoked''])]\<rparr>"

definition document_type_model :: "model_key \<times> data_model" where
  "document_type_model =
     model_class ''dms_document_types'' ''DocumentType'' tenant_aware_model
       [(''name'', fld (CharField 100) []),
        (''description'', fld TextField [Blank])]
       \<lparr>mt_table = ''dms_document_types'', mt_ordering = [''name''], mt_plural = None,
          mt_constraints = [(''unique_document_type_per_tenant'', [''tenant'', ''name''])], mt_indexes =
          []\<rparr>"

definition document_model :: "model_key \<times> data_model" where
  "document_model =
     model_class ''dms_documents'' ''Document'' tenant_aware_model
       [(''document_type'', fld (ForeignKey ''dms_document_types.DocumentType'' SET_NULL ''documents'')
              [Null, Blank]),
        (''title'', fld (CharField 255) []),
        (''description'', fld TextField [Null, Blank]),
        (''metadata'', fld JSONField [Default DDict]),
        (''availability'', fld (CharField 20) [Choices availabilities, Default (DStr ''ACTIVE'')]),
        (''archived_at'', fld DateTimeField [Null, Blank]),
        (''owner'', fld (ForeignKey ''iam_users.User'' SET_NULL ''+'') [Null, Blank]),
        (''created_by'', fld (ForeignKey ''iam_users.User'' SET_NULL ''+'') [Null, Blank]),
        (''updated_by'', fld (ForeignKey ''iam_users.User'' SET_NULL ''+'') [Null, Blank])]
       \<lparr>mt_table = ''dms_documents'', mt_ordering = [''-created_at''], mt_plural = None,
          mt_constraints = [(''unique_document_title_per_tenant'', [''tenant'', ''title''])], mt_indexes
          = []\<rparr>"

definition document_version_model :: "model_key \<times> data_model" where
  "document_version_model =
     model_class ''dms_document_versions'' ''DocumentVersion'' tenant_aware_model
       [(''document'', fld (ForeignKey ''dms_documents.Document'' CASCADE ''versions'') []),
        (''version'', fld PositiveIntegerField [NotEditable]),
        (''filename'', fld (CharField 255) []),
        (''mime_type'', fld (CharField 100) [Null, Blank]),
        (''extension'', fld (CharField 20) [Null, Blank, NotEditable]),
        (''checksum'', fld (CharField 64) [Null, Blank, NotEditable]),
        (''size'', fld PositiveBigIntegerField [Null, Blank, NotEditable]),
        (''storage_backend'', fld (CharField 20) [Default (DStr ''LOCAL''), NotEditable]),
        (''storage_key'', fld (CharField 500) [Null, Blank, NotEditable]),
        (''storage_state'', fld (CharField 20) [Choices storage_states, Default (DStr ''UPLOADING''),
              NotEditable]),
        (''created_by'', fld (ForeignKey ''iam_users.User'' SET_NULL ''+'') [Null, Blank, NotEditable])]
       \<lparr>mt_table = ''dms_document_versions'', mt_ordering = [''-created_at''], mt_plural = None,
          mt_constraints = [(''unique_version_per_document'', [''document'', ''version''])], mt_indexes
          = []\<rparr>"

definition metadata_definition_model :: "model_key \<times> data_model" where
  "metadata_definition_model =
     model_class ''dms_metadata'' ''MetadataDefinition'' tenant_aware_model
       [(''code'', fld (CharField 100) []),
        (''name'', fld (CharField 255) []),
        (''document_type'', fld (ForeignKey ''dms_document_types.DocumentType'' CASCADE
              ''metadata_definitions'') [DbIndex]),
        (''data_type'', fld (CharField 20) [Choices metadata_types, DbIndex]),
        (''required'', fld BooleanField [Default (DBool False)]),
        (''searchable'', fld BooleanField [Default (DBool False)]),
        (''filterable'', fld BooleanField [Default (DBool False)]),
        (''sortable'', fld BooleanField [Default (DBool False)]),
        (''indexed'', fld BooleanField [Default (DBool False)]),
        (''default_value'', fld JSONField [Null, Blank]),
        (''validation_rules'', fld JSONField [Null, Blank])]
       \<lparr>mt_table = ''dms_metadata_definitions'', mt_ordering = [], mt_plural = None,
          mt_constraints = [(''unique_metadata_definition_per_tenant_and_document_type'', [''tenant'',
          ''document_type'', ''code''])], mt_indexes = []\<rparr>"

definition upload_session_model :: "model_key \<times> data_model" where
  "upload_session_model =
     model_class ''dms_ingestion'' ''UploadSession'' tenant_aware_model
       [(''title'', fld (CharField 255) []),
        (''document_type'', fld (CharField 100) [Null, Blank]),
        (''filename'', fld (CharField 255) []),
        (''mime_type'', fld (CharField 100) []),
        (''size'', fld PositiveBigIntegerField []),
        (''checksum'', fld (CharField 64) [Null, Blank]),
        (''extension'', fld (CharField 20) [Null, Blank]),
        (''state'', fld (CharField 20) [Choices upload_states, Default (DStr ''NEW'')]),
        (''storage_key'', fld (CharField 500) [Null, Blank]),
        (''error_detail'', fld TextField [Null, Blank]),
        (''created_by'', fld (ForeignKey ''iam_users.User'' SET_NULL ''+'') [Null, Blank]),
        (''updated_by'', fld (ForeignKey ''iam_users.User'' SET_NULL ''+'') [Null, Blank])]
       \<lparr>mt_table = ''dms_ingestion_upload_sessions'', mt_ordering = [''-created_at''], mt_plural
          = None, mt_constraints = [], mt_indexes = []\<rparr>"

definition audit_log_model :: "model_key \<times> data_model" where
  "audit_log_model =
     model_class ''sys_audit'' ''AuditLog'' []
       [(''id'', fld UUIDField [PrimaryKey, Default DUuid4, NotEditable]),
        (''actor'', fld (ForeignKey auth_user_model PROTECT ''audit_logs'') []),
        (''action'', fld (CharField 50) []),
        (''target_type'', fld (CharField 255) []),
        (''target_id'', fld UUIDField []),
        (''tenant'', fld (ForeignKey ''tenants.Tenant'' CASCADE ''audit_logs'') [Null, Blank]),
        (''changes'', fld JSONField [Default DDict]),
        (''created_at'', fld DateTimeField [AutoNowAdd])]
       \<lparr>mt_table = ''sys_audit_log'', mt_ordering = [''-created_at''], mt_plural = None,
          mt_constraints = [], mt_indexes = [(''idx_audit_tenant_time'', [''tenant'', ''created_at'']),
          (''idx_audit_target'', [''target_type'', ''target_id''])]\<rparr>"

definition user_event_model :: "model_key \<times> data_model" where
  "user_event_model =
     model_class ''sys_user_event'' ''UserEvent'' []
       [(''id'', fld UUIDField [PrimaryKey, Default DUuid4, NotEditable]),
        (''actor'', fld (ForeignKey auth_user_model SET_NULL ''user_events'') [Null, Blank]),
        (''user_email'', fld (EmailField 254) []),
        (''category'', fld (CharField 50) []),
        (''event'', fld (CharField 50) []),
        (''tenant'', fld (ForeignKey ''tenants.Tenant'' CASCADE ''user_events'') [Null, Blank]),
        (''metadata'', fld JSONField [Default DDict]),
        (''created_at'', fld DateTimeField [AutoNowAdd])]
       \<lparr>mt_table = ''sys_user_events'', mt_ordering = [''-created_at''], mt_plural = None,
          mt_constraints = [], mt_indexes = [(''idx_user_event_actor_time'', [''actor'',
          ''created_at'']), (''idx_user_event_tenant_time'', [''tenant'', ''created_at'']),
          (''idx_user_event_category_event'', [''category'', ''event''])]\<rparr>"

definition auth_attempt_log_model :: "model_key \<times> data_model" where
  "auth_attempt_log_model =
     model_class ''sys_user_event'' ''AuthAttemptLog'' []
       [(''id'', fld UUIDField [PrimaryKey, Default DUuid4, NotEditable]),
        (''email'', fld (EmailField 254) []),
        (''ip_address'', fld (CharField 45) []),
        (''success'', fld BooleanField []),
        (''failure_reason'', fld (CharField 100) [Blank]),
        (''tenant'', fld (ForeignKey ''tenants.Tenant'' CASCADE ''auth_attempts'') [Null, Blank]),
        (''created_at'', fld DateTimeField [AutoNowAdd])]
       \<lparr>mt_table = ''sys_auth_attempts'', mt_ordering = [''-created_at''], mt_plural = None,
          mt_constraints = [], mt_indexes = [(''idx_auth_attempt_email_time'', [''email'',
          ''created_at'']), (''idx_auth_attempt_ip_time'', [''ip_address'', ''created_at''])]\<rparr>"

definition processed_event_model :: "model_key \<times> data_model" where
  "processed_event_model =
     model_class ''sys_eventbus'' ''ProcessedEvent'' []
       [(''id'', fld UUIDField [PrimaryKey, Default DUuid4, NotEditable]),
        (''message_id'', fld (CharField 255) [Unique]),
        (''event_type'', fld (CharField 255) []),
        (''processed_at'', fld DateTimeField [AutoNowAdd])]
       \<lparr>mt_table = ''sys_eventbus_processed_event'', mt_ordering = [], mt_plural = None,
          mt_constraints = [], mt_indexes = [(''idx_processed_event_message_id'',
          [''message_id''])]\<rparr>"

definition dead_letter_event_model :: "model_key \<times> data_model" where
  "dead_letter_event_model =
     model_class ''sys_eventbus'' ''DeadLetterEvent'' []
       [(''id'', fld UUIDField [PrimaryKey, Default DUuid4, NotEditable]),
        (''message_id'', fld (CharField 255) []),
        (''event_type'', fld (CharField 255) []),
        (''payload'', fld JSONField []),
        (''tenant_id'', fld UUIDField [Null, Blank]),
        (''error'', fld TextField []),
        (''retries'', fld PositiveIntegerField []),
        (''failed_at'', fld DateTimeField [AutoNowAdd])]
       \<lparr>mt_table = ''sys_eventbus_dead_letter_event'', mt_ordering = [''-failed_at''], mt_plural
          = None, mt_constraints = [], mt_indexes = [(''idx_dlq_event_type'', [''event_type'']),
          (''idx_dlq_tenant_id'', [''tenant_id''])]\<rparr>"

definition declared_models :: "(model_key \<times> data_model) list" where
  "declared_models =
     [tenant_model, tenant_setting_model, user_model, user_profile_model, tenant_membership_model,
        user_tenant_attribute_model, tenant_role_model, team_model, team_membership_model,
        user_password_history_model, mfa_device_model, mfa_backup_code_model, oauth2_client_model,
        authorization_code_model, oauth2_refresh_token_model, document_type_model, document_model,
        document_version_model, metadata_definition_model, upload_session_model, audit_log_model,
        user_event_model, auth_attempt_log_model, processed_event_model, dead_letter_event_model]"

end
