(* ===== verification/Migrations.thy ===== *)
theory Migrations
  imports Schema
begin

text \<open>
  The migration files of the applications, one definition per file, and what running them
  builds.  The framework runs a migration once all the migrations it depends on have run and
  chooses the order otherwise.  The locale \<open>migration_plan\<close> states when a set of migrations is
  sound (each application's files follow one another, an operation refers to tables of its
  own application or of the migrations it depends on, and the operations of each application
  apply); in it, every order the dependencies allow succeeds and builds the same tables.  The
  files of the platform are such a plan, and their tables are the declared models of \<open>Schema\<close>.

  The framework's own tables (\<open>auth.Group\<close>, \<open>auth.Permission\<close>) exist before the first
  migration of the platform: a dependency on an application that is not the platform's is
  taken as satisfied.
\<close>

section \<open>Operations\<close>

datatype operation =
    CreateModel string columns meta
  | AddField string string model_field
  | AddConstraint string "string \<times> string list"
  | AddIndex string "string \<times> string list"

record migration =
  mg_app :: string
  mg_name :: string
  mg_deps :: "(string \<times> string) list"
  mg_ops :: "operation list"

definition swappable_dependency :: "string \<Rightarrow> string \<times> string" where
  "swappable_dependency l = (fst (key_of_label l), ''__first__'')"

text \<open>The tables of one application by model name, and of all applications.\<close>

type_synonym app_tables = "string \<Rightarrow> data_model option"
type_synonym tables = "string \<Rightarrow> app_tables"

definition library_models :: "model_key list" where
  "library_models = [(''auth'', ''group''), (''auth'', ''permission'')]"

text \<open>
  \<open>alter\<close> is an operation on the table it names.  It fails when the table exists already or
  does not, when a field exists already, and when a constraint or index names a field the
  table lacks.
\<close>

definition known_fields :: "data_model \<Rightarrow> string list \<Rightarrow> bool" where
  "known_fields m ns = list_all (\<lambda>n. list_ex (\<lambda>c. fst c = n) (dm_fields m)) ns"

fun op_model :: "operation \<Rightarrow> string" where
  "op_model (CreateModel n fs mt) = lower n"
| "op_model (AddField k n f) = k"
| "op_model (AddConstraint k c) = k"
| "op_model (AddIndex k i) = k"

definition resolve_columns :: "model_key \<Rightarrow> columns \<Rightarrow> columns" where
  "resolve_columns k = map (\<lambda>(c, f). (c, resolve_field k f))"

fun alter :: "model_key \<Rightarrow> operation \<Rightarrow> data_model option \<Rightarrow> data_model res" where
  "alter k (CreateModel n fs mt) (Some m) = Inl (OtherErr ''table exists'')"
| "alter k (CreateModel n fs mt) None = Inr \<lparr>dm_fields = resolve_columns k fs, dm_meta = mt\<rparr>"
| "alter k (AddField x n f) (Some m) =
     (if list_ex (\<lambda>c. fst c = n) (dm_fields m) then Inl (OtherErr ''column exists'')
      else Inr (m\<lparr>dm_fields := dm_fields m @ [(n, resolve_field k f)]\<rparr>))"
| "alter k (AddConstraint x c) (Some m) =
     (if \<not> known_fields m (snd c) then Inl (OtherErr ''no such field'')
      else Inr (m\<lparr>dm_meta := (dm_meta m)\<lparr>mt_constraints := mt_constraints (dm_meta m) @ [c]\<rparr>\<rparr>))"
| "alter k (AddIndex x i) (Some m) =
     (if \<not> known_fields m (snd i) then Inl (OtherErr ''no such field'')
      else Inr (m\<lparr>dm_meta := (dm_meta m)\<lparr>mt_indexes := mt_indexes (dm_meta m) @ [i]\<rparr>\<rparr>))"
| "alter k op None = Inl KeyErr"

definition apply_local :: "string \<Rightarrow> operation \<Rightarrow> app_tables \<Rightarrow> app_tables res" where
  "apply_local a op T =
     bind_res (alter (a, op_model op) op (T (op_model op))) (\<lambda>m. Inr (T(op_model op \<mapsto> m)))"

text \<open>The tables an operation refers to, its own new one left aside.\<close>

fun refers_to :: "string \<Rightarrow> operation \<Rightarrow> model_key list" where
  "refers_to a (CreateModel n fs mt) =
     filter (\<lambda>k. k \<noteq> (a, lower n))
       (concat (map (\<lambda>c. relation_targets (snd c)) (resolve_columns (a, lower n) fs)))"
| "refers_to a (AddField k n f) = relation_targets (resolve_field (a, k) f)"
| "refers_to a (AddConstraint k c) = []"
| "refers_to a (AddIndex k i) = []"

fun creates :: "string \<Rightarrow> operation \<Rightarrow> model_key list" where
  "creates a (CreateModel n fs mt) = [(a, lower n)]"
| "creates a _ = []"

definition table_exists :: "tables \<Rightarrow> model_key \<Rightarrow> bool" where
  "table_exists S k \<longleftrightarrow> k \<in> set library_models \<or> S (fst k) (snd k) \<noteq> None"

definition apply_op :: "string \<Rightarrow> operation \<Rightarrow> tables \<Rightarrow> tables res" where
  "apply_op a op S =
     (if \<not> list_all (table_exists S) (refers_to a op) then Inl ValueErr
      else bind_res (apply_local a op (S a)) (\<lambda>T. Inr (S(a := T))))"

fun apply_ops :: "string \<Rightarrow> operation list \<Rightarrow> tables \<Rightarrow> tables res" where
  "apply_ops a [] S = Inr S"
| "apply_ops a (op # ops) S = bind_res (apply_op a op S) (apply_ops a ops)"

fun migrate :: "migration list \<Rightarrow> tables \<Rightarrow> tables res" where
  "migrate [] S = Inr S"
| "migrate (m # ms) S = bind_res (apply_ops (mg_app m) (mg_ops m) S) (migrate ms)"

section \<open>Orders the dependencies allow\<close>

definition mg_key :: "migration \<Rightarrow> string \<times> string" where
  "mg_key m = (mg_app m, mg_name m)"

definition files_of :: "migration list \<Rightarrow> string \<Rightarrow> migration list" where
  "files_of M a = filter (\<lambda>m. mg_app m = a) M"

definition resolve_dep :: "migration list \<Rightarrow> string \<times> string \<Rightarrow> string \<times> string" where
  "resolve_dep M d =
     (if snd d = ''__first__'' then (case files_of M (fst d) of [] \<Rightarrow> d | m # _ \<Rightarrow> mg_key m) else d)"

definition dependencies :: "migration list \<Rightarrow> migration \<Rightarrow> (string \<times> string) list" where
  "dependencies M m =
     filter (\<lambda>d. fst d \<in> mg_app ` set M) (map (resolve_dep M) (mg_deps m))"

fun in_order :: "migration list \<Rightarrow> (string \<times> string) list \<Rightarrow> migration list \<Rightarrow> bool" where
  "in_order M run [] \<longleftrightarrow> True"
| "in_order M run (m # ms) \<longleftrightarrow>
     list_all (\<lambda>d. d \<in> set run) (dependencies M m) \<and> in_order M (mg_key m # run) ms"

definition allowed_order :: "migration list \<Rightarrow> migration list \<Rightarrow> bool" where
  "allowed_order M ms \<longleftrightarrow> distinct ms \<and> set ms = set M \<and> in_order M [] ms"

section \<open>Sound plans\<close>

fun apply_locals :: "string \<Rightarrow> operation list \<Rightarrow> app_tables \<Rightarrow> app_tables res" where
  "apply_locals a [] T = Inr T"
| "apply_locals a (op # ops) T = bind_res (apply_local a op T) (apply_locals a ops)"

fun served :: "string \<Rightarrow> model_key list \<Rightarrow> operation list \<Rightarrow> bool" where
  "served a K [] \<longleftrightarrow> True"
| "served a K (op # ops) \<longleftrightarrow>
     list_all (\<lambda>k. k \<in> set K) (refers_to a op) \<and> served a (creates a op @ K) ops"

definition created :: "migration \<Rightarrow> model_key list" where
  "created m = concat (map (creates (mg_app m)) (mg_ops m))"

definition created_by_deps :: "migration list \<Rightarrow> migration \<Rightarrow> model_key list" where
  "created_by_deps M m = concat (map created (filter (\<lambda>d. mg_key d \<in> set (dependencies M m)) M))"

text \<open>The files of an application depend each on the one before.\<close>

fun chained :: "migration list \<Rightarrow> migration list \<Rightarrow> bool" where
  "chained M (m # m' # ms) \<longleftrightarrow> mg_key m \<in> set (dependencies M m') \<and> chained M (m' # ms)"
| "chained M _ \<longleftrightarrow> True"

definition tenants_0001_initial :: migration where
  "tenants_0001_initial =
     \<lparr>mg_app = ''tenants'', mg_name = ''0001_initial'', mg_deps = [],
      mg_ops =
       [CreateModel ''Tenant''
         [(''id'', fld UUIDField [Default DUuid4, NotEditable, PrimaryKey]),
          (''name'', fld (CharField 255) []),
          (''code'', fld (CharField 100) [Unique]),
          (''is_active'', fld BooleanField [Default (DBool True)]),
          (''details'', fld JSONField [Blank, Default DDict]),
          (''created_at'', fld DateTimeField [AutoNowAdd]),
          (''updated_at'', fld DateTimeField [AutoNow])]
         \<lparr>mt_table = ''tenants'', mt_ordering = [''name''], mt_plural = None, mt_constraints =
            [], mt_indexes = []\<rparr>,
        CreateModel ''TenantSetting''
         [(''id'', fld UUIDField [Default DUuid4, NotEditable, PrimaryKey]),
          (''key'', fld (CharField 255) []),
          (''value'', fld TextField []),
          (''created_at'', fld DateTimeField [AutoNowAdd]),
          (''updated_at'', fld DateTimeField [AutoNow]),
          (''tenant'', fld (ForeignKey ''tenants.tenant'' CASCADE ''settings'') [])]
         \<lparr>mt_table = ''tenants_settings'', mt_ordering = [''key''], mt_plural = None,
            mt_constraints = [(''unique_setting_per_tenant'', [''tenant'', ''key''])], mt_indexes =
            []\<rparr>]\<rparr>"

definition iam_roles_0001_initial :: migration where
  "iam_roles_0001_initial =
     \<lparr>mg_app = ''iam_roles'', mg_name = ''0001_initial'', mg_deps = [(''tenants'',
        ''0001_initial'')],
      mg_ops =
       [CreateModel ''TenantRole''
         [(''id'', fld UUIDField [Default DUuid4, NotEditable, PrimaryKey]),
          (''created_at'', fld DateTimeField [AutoNowAdd]),
          (''updated_at'', fld DateTimeField [AutoNow]),
          (''deleted_at'', fld DateTimeField [Blank, DbIndex, Null]),
          (''deleted_by'', fld (CharField 255) [Blank, Null]),
          (''name'', fld (CharField 50) []),
          (''kind'', fld (CharField 10) [Choices [(''owner'', ''Owner''), (''admin'', ''Admin''), (''member'',
                ''Member''), (''viewer'', ''Viewer''), (''custom'', ''Custom'')], Default (DStr ''custom'')]),
          (''description'', fld TextField [Blank]),
          (''permissions'', fld JSONField [Default DDict]),
          (''tenant'', fld (ForeignKey ''tenants.tenant'' CASCADE ''roles'') [])]
         \<lparr>mt_table = ''iam_roles'', mt_ordering = [''name''], mt_plural = None, mt_constraints =
            [(''unique_role_per_tenant'', [''tenant'', ''name''])], mt_indexes = []\<rparr>]\<rparr>"

definition iam_users_0001_initial :: migration where
  "iam_users_0001_initial =
     \<lparr>mg_app = ''iam_users'', mg_name = ''0001_initial'', mg_deps = [(''auth'',
        ''0012_alter_user_first_name_max_length''), (''iam_roles'', ''0001_initial''), (''tenants'',
        ''0001_initial'')],
      mg_ops =
       [CreateModel ''User''
         [(''password'', fld (CharField 128) []),
          (''last_login'', fld DateTimeField [Blank, Null]),
          (''is_superuser'', fld BooleanField [Default (DBool False)]),
          (''id'', fld UUIDField [Default DUuid4, NotEditable, PrimaryKey]),
          (''email'', fld (EmailField 254) [Unique]),
          (''first_name'', fld (CharField 150) [Blank]),
          (''last_name'', fld (CharField 150) [Blank]),
          (''is_active'', fld BooleanField [Default (DBool True)]),
          (''created_at'', fld DateTimeField [AutoNowAdd]),
          (''updated_at'', fld DateTimeField [AutoNow]),
          (''groups'', fld (ManyToManyField ''auth.group'' ''user_set'') [Blank]),
          (''user_permissions'', fld (ManyToManyField ''auth.permission'' ''user_set'') [Blank])]
         \<lparr>mt_table = ''iam_users'', mt_ordering = [''-created_at''], mt_plural = None,
            mt_constraints = [], mt_indexes = []\<rparr>,
        CreateModel ''UserProfile''
         [(''id'', fld UUIDField [Default DUuid4, NotEditable, PrimaryKey]),
          (''personal_info'', fld JSONField [Blank, Default DDict]),
          (''user'', fld (OneToOneField auth_user_model CASCADE ''profile'') [])]
         \<lparr>mt_table = ''iam_users_profiles'', mt_ordering = [''-user__created_at''], mt_plural =
            None, mt_constraints = [], mt_indexes = []\<rparr>,
        CreateModel ''TenantMembership''
         [(''id'', fld UUIDField [Default DUuid4, NotEditable, PrimaryKey]),
          (''is_admin'', fld BooleanField [Default (DBool False)]),
          (''is_active'', fld BooleanField [Default (DBool True)]),
          (''joined_at'', fld DateTimeField [AutoNowAdd]),
          (''role'', fld (ForeignKey ''iam_roles.tenantrole'' PROTECT ''memberships'') []),
          (''tenant'', fld (ForeignKey ''tenants.tenant'' CASCADE ''memberships'') []),
          (''user'', fld (ForeignKey auth_user_model CASCADE ''memberships'') [])]
         \<lparr>mt_table = ''iam_users_memberships'', mt_ordering = [''-joined_at''], mt_plural = None,
            mt_constraints = [(''unique_user_tenant'', [''user'', ''tenant''])], mt_indexes = []\<rparr>]\<rparr>"

definition iam_users_0002_usertenantattribute :: migration where
  "iam_users_0002_usertenantattribute =
     \<lparr>mg_app = ''iam_users'', mg_name = ''0002_usertenantattribute'', mg_deps = [(''iam_users'',
        ''0001_initial''), (''tenants'', ''0001_initial'')],
      mg_ops =
       [CreateModel ''UserTenantAttribute''
         [(''id'', fld UUIDField [Default DUuid4, NotEditable, PrimaryKey]),
          (''attribute'', fld (CharField 100) []),
          (''value'', fld TextField []),
          (''created_at'', fld DateTimeField [AutoNowAdd]),
          (''tenant'', fld (ForeignKey ''tenants.tenant'' CASCADE ''user_attributes'') []),
          (''user'', fld (ForeignKey auth_user_model CASCADE ''tenant_attributes'') [])]
         \<lparr>mt_table = ''iam_users_tenant_attributes'', mt_ordering = [''-created_at''], mt_plural
            = None, mt_constraints = [(''unique_user_tenant_attribute'', [''user'', ''tenant'',
            ''attribute''])], mt_indexes = []\<rparr>]\<rparr>"

definition iam_teams_0001_initial :: migration where
  "iam_teams_0001_initial =
     \<lparr>mg_app = ''iam_teams'', mg_name = ''0001_initial'', mg_deps = [(''tenants'',
        ''0001_initial'')],
      mg_ops =
       [CreateModel ''TeamMembership''
         [(''id'', fld UUIDField [Default DUuid4, NotEditable, PrimaryKey]),
          (''created_at'', fld DateTimeField [AutoNowAdd]),
          (''updated_at'', fld DateTimeField [AutoNow]),
          (''deleted_at'', fld DateTimeField [Blank, DbIndex, Null]),
          (''deleted_by'', fld (CharField 255) [Blank, Null])]
         \<lparr>mt_table = ''iam_teams_memberships'', mt_ordering = [''-created_at''], mt_plural =
            None, mt_constraints = [], mt_indexes = []\<rparr>,
        CreateModel ''Team''
         [(''id'', fld UUIDField [Default DUuid4, NotEditable, PrimaryKey]),
          (''created_at'', fld DateTimeField [AutoNowAdd]),
          (''updated_at'', fld DateTimeField [AutoNow]),
          (''deleted_at'', fld DateTimeField [Blank, DbIndex, Null]),
          (''deleted_by'', fld (CharField 255) [Blank, Null]),
          (''name'', fld (CharField 255) []),
          (''description'', fld TextField [Blank]),
          (''is_active'', fld BooleanField [Default (DBool True)]),
          (''tenant'', fld (ForeignKey ''tenants.tenant'' CASCADE ''%(class)s_set'') [])]
         \<lparr>mt_table = ''iam_teams'', mt_ordering = [''name''], mt_plural = None, mt_constraints =
            [], mt_indexes = []\<rparr>]\<rparr>"

definition iam_teams_0002_initial :: migration where
  "iam_teams_0002_initial =
     \<lparr>mg_app = ''iam_teams'', mg_name = ''0002_initial'', mg_deps = [(''iam_teams'',
        ''0001_initial''), (''iam_users'', ''0001_initial''), (''tenants'', ''0001_initial'')],
      mg_ops =
       [AddField ''teammembership'' ''membership'' (fld (ForeignKey ''iam_users.tenantmembership''
            CASCADE ''team_memberships'') []),
        AddField ''teammembership'' ''team'' (fld (ForeignKey ''iam_teams.team'' CASCADE
            ''memberships'') []),
        AddField ''teammembership'' ''tenant'' (fld (ForeignKey ''tenants.tenant'' CASCADE
            ''%(class)s_set'') []),
        AddConstraint ''team'' (''unique_team_per_tenant'', [''tenant'', ''name'']),
        AddConstraint ''teammembership'' (''unique_member_per_team'', [''team'', ''membership''])]\<rparr>"

definition iam_auth_0001_initial :: migration where
  "iam_auth_0001_initial =
     \<lparr>mg_app = ''iam_auth'', mg_name = ''0001_initial'', mg_deps = [],
      mg_ops =
       [CreateModel ''UserPasswordHistory''
         [(''id'', fld UUIDField [Default DUuid4, NotEditable, PrimaryKey]),
          (''hashed_password'', fld (CharField 255) []),
          (''created_at'', fld DateTimeField [AutoNowAdd])]
         \<lparr>mt_table = ''iam_auth_password_history'', mt_ordering = [''-created_at''], mt_plural =
            Some ''user password histories'', mt_constraints = [], mt_indexes = []\<rparr>]\<rparr>"

definition iam_auth_0002_initial :: migration where
  "iam_auth_0002_initial =
     \<lparr>mg_app = ''iam_auth'', mg_name = ''0002_initial'', mg_deps = [(''iam_auth'',
        ''0001_initial''), swappable_dependency auth_user_model],
      mg_ops =
       [AddField ''userpasswordhistory'' ''user'' (fld (ForeignKey auth_user_model CASCADE
            ''password_history'') [])]\<rparr>"

definition iam_mfa_0001_initial :: migration where
  "iam_mfa_0001_initial =
     \<lparr>mg_app = ''iam_mfa'', mg_name = ''0001_initial'', mg_deps = [(''tenants'',
        ''0001_initial''), swappable_dependency auth_user_model],
      mg_ops =
       [CreateModel ''MFADevice''
         [(''id'', fld UUIDField [Default DUuid4, NotEditable, PrimaryKey]),
          (''created_at'', fld DateTimeField [AutoNowAdd]),
          (''updated_at'', fld DateTimeField [AutoNow]),
          (''deleted_at'', fld DateTimeField [Blank, DbIndex, Null]),
          (''deleted_by'', fld (CharField 255) [Blank, Null]),
          (''secret'', fld TextField []),
          (''label'', fld (CharField 255) []),
          (''is_active'', fld BooleanField [Default (DBool True)]),
          (''tenant'', fld (ForeignKey ''tenants.tenant'' CASCADE ''%(class)s_set'') []),
          (''user'', fld (ForeignKey auth_user_model CASCADE ''mfa_devices'') [])]
         \<lparr>mt_table = ''iam_mfa_devices'', mt_ordering = [''-created_at''], mt_plural = None,
            mt_constraints = [], mt_indexes = []\<rparr>,
        CreateModel ''MFABackupCode''
         [(''id'', fld UUIDField [Default DUuid4, NotEditable, PrimaryKey]),
          (''created_at'', fld DateTimeField [AutoNowAdd]),
          (''updated_at'', fld DateTimeField [AutoNow]),
          (''deleted_at'', fld DateTimeField [Blank, DbIndex, Null]),
          (''deleted_by'', fld (CharField 255) [Blank, Null]),
          (''code_hash'', fld (CharField 255) []),
          (''is_used'', fld BooleanField [Default (DBool False)]),
          (''mfa_device'', fld (ForeignKey ''iam_mfa.mfadevice'' CASCADE ''backup_codes'') [])]
         \<lparr>mt_table = ''iam_mfa_backup_codes'', mt_ordering = [''-created_at''], mt_plural = None,
            mt_constraints = [], mt_indexes = []\<rparr>]\<rparr>"

definition iam_oauth_0001_initial :: migration where
  "iam_oauth_0001_initial =
     \<lparr>mg_app = ''iam_oauth'', mg_name = ''0001_initial'', mg_deps = [(''tenants'',
        ''0001_initial'')],
      mg_ops =
       [CreateModel ''OAuth2Client''
         [(''id'', fld UUIDField [Default DUuid4, NotEditable, PrimaryKey]),
          (''created_at'', fld DateTimeField [AutoNowAdd]),
          (''updated_at'', fld DateTimeField [AutoNow]),
          (''deleted_at'', fld DateTimeField [Blank, DbIndex, Null]),
          (''deleted_by'', fld (CharField 255) [Blank, Null]),
          (''client_id'', fld (CharField 255) []),
          (''client_secret'', fld (CharField 255) [Blank, Null]),
          (''client_name'', fld (CharField 255) []),
          (''redirect_uris'', fld TextField []),
          (''grant_types'', fld TextField []),
          (''response_types'', fld TextField []),
          (''scope'', fld TextField [Default (DStr '''')]),
          (''is_confidential'', fld BooleanField [Default (DBool True)]),
          (''is_active'', fld BooleanField [Default (DBool True)]),
          (''tenant'', fld (ForeignKey ''tenants.tenant'' CASCADE ''oauth2_clients'') [])]
         \<lparr>mt_table = ''iam_oauth_clients'', mt_ordering = [''client_name''], mt_plural = None,
            mt_constraints = [], mt_indexes = []\<rparr>,
        CreateModel ''AuthorizationCode''
         [(''id'', fld UUIDField [Default DUuid4, NotEditable, PrimaryKey]),
          (''created_at'', fld DateTimeField [AutoNowAdd]),
          (''updated_at'', fld DateTimeField [AutoNow]),
          (''deleted_at'', fld DateTimeField [Blank, DbIndex, Null]),
          (''deleted_by'', fld (CharField 255) [Blank, Null]),
          (''code'', fld (CharField 255) []),
          (''redirect_uri'', fld (URLField 2048) []),
          (''scope'', fld TextField [Default (DStr '''')]),
          (''code_challenge'', fld (CharField 255) [Blank, Null]),
          (''code_challenge_method'', fld (CharField 10) [Blank, Null]),
          (''user_id'', fld UUIDField [Blank, Null]),
          (''expires_at'', fld DateTimeField []),
          (''is_consumed'', fld BooleanField [Default (DBool False)]),
          (''consumed_at'', fld DateTimeField [Blank, Null]),
          (''tenant'', fld (ForeignKey ''tenants.tenant'' CASCADE ''authorization_codes'') []),
          (''client'', fld (ForeignKey ''iam_oauth.oauth2client'' CASCADE ''authorization_codes'') [])]
         \<lparr>mt_table = ''iam_oauth_authorization_codes'', mt_ordering = [''-created_at''],
            mt_plural = None, mt_constraints = [], mt_indexes = []\<rparr>,
        CreateModel ''OAuth2RefreshToken''
         [(''id'', fld UUIDField [Default DUuid4, NotEditable, PrimaryKey]),
          (''created_at'', fld DateTimeField [AutoNowAdd]),
          (''updated_at'', fld DateTimeField [AutoNow]),
          (''deleted_at'', fld DateTimeField [Blank, DbIndex, Null]),
          (''deleted_by'', fld (CharField 255) [Blank, Null]),
          (''user_id'', fld UUIDField []),
          (''token'', fld (CharField 255) [Unique]),
          (''scope'', fld TextField [Default (DStr '''')]),
          (''expires_at'', fld DateTimeField []),
          (''is_revoked'', fld BooleanField [Default (DBool False)]),
          (''revoked_at'', fld DateTimeField [Blank, Null]),
          (''client'', fld (ForeignKey ''iam_oauth.oauth2client'' CASCADE ''refresh_tokens'') []),
          (''replaced_by'', fld (OneToOneField ''iam_oauth.oauth2refreshtoken'' SET_NULL ''replaces'') [Blank,
                Null]),
          (''tenant'', fld (ForeignKey ''tenants.tenant'' CASCADE ''oauth2_refresh_tokens'') [])]
         \<lparr>mt_table = ''iam_oauth_refresh_tokens'', mt_ordering = [''-created_at''], mt_plural =
            None, mt_constraints = [], mt_indexes = []\<rparr>,
        AddConstraint ''oauth2client'' (''unique_client_per_tenant'', [''tenant'', ''client_id'']),
        AddIndex ''authorizationcode'' (''idx_auth_code_code'', [''code'']),
        AddIndex ''authorizationcode'' (''idx_auth_code_client_consumed'', [''client'', ''is_consumed'']),
        AddConstraint ''authorizationcode'' (''unique_auth_code_per_client'', [''client'', ''code'']),
        AddIndex ''oauth2refreshtoken'' (''idx_oauth_refresh_token_token'', [''token'']),
        AddIndex ''oauth2refreshtoken'' (''idx_oauth_rt_client_revoked'', [''client'', ''is_revoked'']),
        AddIndex ''oauth2refreshtoken'' (''idx_oauth_rt_user_revoked'', [''user_id'', ''is_revoked''])]\<rparr>"

definition dms_document_types_0001_initial :: migration where
  "dms_document_types_0001_initial =
     \<lparr>mg_app = ''dms_document_types'', mg_name = ''0001_initial'', mg_deps = [(''tenants'',
        ''0001_initial'')],
      mg_ops =
       [CreateModel ''DocumentType''
         [(''id'', fld UUIDField [Default DUuid4, NotEditable, PrimaryKey]),
          (''created_at'', fld DateTimeField [AutoNowAdd]),
          (''updated_at'', fld DateTimeField [AutoNow]),
          (''deleted_at'', fld DateTimeField [Blank, DbIndex, Null]),
          (''deleted_by'', fld (CharField 255) [Blank, Null]),
          (''name'', fld (CharField 100) []),
          (''description'', fld TextField [Blank]),
          (''tenant'', fld (ForeignKey ''tenants.tenant'' CASCADE ''%(class)s_set'') [])]
         \<lparr>mt_table = ''dms_document_types'', mt_ordering = [''name''], mt_plural = None,
            mt_constraints = [(''unique_document_type_per_tenant'', [''tenant'', ''name''])], mt_indexes
            = []\<rparr>]\<rparr>"

definition dms_documents_0001_initial :: migration where
  "dms_documents_0001_initial =
     \<lparr>mg_app = ''dms_documents'', mg_name = ''0001_initial'', mg_deps = [(''dms_document_types'',
        ''0001_initial''), (''tenants'', ''0001_initial''), swappable_dependency auth_user_model],
      mg_ops =
       [CreateModel ''Document''
         [(''id'', fld UUIDField [Default DUuid4, NotEditable, PrimaryKey]),
          (''created_at'', fld DateTimeField [AutoNowAdd]),
          (''updated_at'', fld DateTimeField [AutoNow]),
          (''deleted_at'', fld DateTimeField [Blank, DbIndex, Null]),
          (''deleted_by'', fld (CharField 255) [Blank, Null]),
          (''title'', fld (CharField 255) []),
          (''description'', fld TextField [Blank, Null]),
          (''availability'', fld (CharField 20) [Choices [(''ACTIVE'', ''Active''), (''ARCHIVED'',
                ''Archived'')], Default (DStr ''ACTIVE'')]),
          (''archived_at'', fld DateTimeField [Blank, Null]),
          (''created_by'', fld (ForeignKey auth_user_model SET_NULL ''+'') [Blank, Null]),
          (''document_type'', fld (ForeignKey ''dms_document_types.documenttype'' SET_NULL ''documents'')
                [Blank, Null]),
          (''owner'', fld (ForeignKey auth_user_model SET_NULL ''+'') [Blank, Null]),
          (''tenant'', fld (ForeignKey ''tenants.tenant'' CASCADE ''%(class)s_set'') []),
          (''updated_by'', fld (ForeignKey auth_user_model SET_NULL ''+'') [Blank, Null])]
         \<lparr>mt_table = ''dms_documents'', mt_ordering = [''-created_at''], mt_plural = None,
            mt_constraints = [(''unique_document_title_per_tenant'', [''tenant'', ''title''])],
            mt_indexes = []\<rparr>]\<rparr>"

definition dms_documents_0002_document_metadata :: migration where
  "dms_documents_0002_document_metadata =
     \<lparr>mg_app = ''dms_documents'', mg_name = ''0002_document_metadata'', mg_deps =
        [(''dms_documents'', ''0001_initial'')],
      mg_ops =
       [AddField ''document'' ''metadata'' (fld JSONField [Default DDict])]\<rparr>"

definition dms_document_versions_0001_initial :: migration where
  "dms_document_versions_0001_initial =
     \<lparr>mg_app = ''dms_document_versions'', mg_name = ''0001_initial'', mg_deps =
        [(''dms_documents'', ''0001_initial''), (''tenants'', ''0001_initial''), swappable_dependency
        auth_user_model],
      mg_ops =
       [CreateModel ''DocumentVersion''
         [(''id'', fld UUIDField [Default DUuid4, NotEditable, PrimaryKey]),
          (''created_at'', fld DateTimeField [AutoNowAdd]),
          (''updated_at'', fld DateTimeField [AutoNow]),
          (''deleted_at'', fld DateTimeField [Blank, DbIndex, Null]),
          (''deleted_by'', fld (CharField 255) [Blank, Null]),
          (''version'', fld PositiveIntegerField []),
          (''filename'', fld (CharField 255) []),
          (''mime_type'', fld (CharField 100) [Blank, Null]),
          (''extension'', fld (CharField 20) [Blank, Null]),
          (''checksum'', fld (CharField 64) [Blank, Null]),
          (''size'', fld PositiveBigIntegerField [Blank, Null]),
          (''storage_backend'', fld (CharField 20) [Default (DStr ''LOCAL'')]),
          (''storage_key'', fld (CharField 500) [Blank, Null]),
          (''storage_state'', fld (CharField 20) [Choices [(''PENDING'', ''Pending''), (''UPLOADING'',
                ''Uploading''), (''PROCESSING'', ''Processing''), (''AVAILABLE'', ''Available''), (''CORRUPTED'',
                ''Corrupted''), (''QUARANTINED'', ''Quarantined''), (''ARCHIVED'', ''Archived'')], Default (DStr
                ''UPLOADING'')]),
          (''created_by'', fld (ForeignKey auth_user_model SET_NULL ''+'') [Blank, Null]),
          (''document'', fld (ForeignKey ''dms_documents.document'' CASCADE ''versions'') []),
          (''tenant'', fld (ForeignKey ''tenants.tenant'' CASCADE ''%(class)s_set'') [])]
         \<lparr>mt_table = ''dms_document_versions'', mt_ordering = [''-created_at''], mt_plural =
            None, mt_constraints = [(''unique_version_per_document'', [''document'', ''version''])],
            mt_indexes = []\<rparr>]\<rparr>"

definition dms_metadata_0001_initial :: migration where
  "dms_metadata_0001_initial =
     \<lparr>mg_app = ''dms_metadata'', mg_name = ''0001_initial'', mg_deps = [(''dms_document_types'',
        ''0001_initial''), (''tenants'', ''0001_initial'')],
      mg_ops =
       [CreateModel ''MetadataDefinition''
         [(''id'', fld UUIDField [Default DUuid4, NotEditable, PrimaryKey]),
          (''created_at'', fld DateTimeField [AutoNowAdd]),
          (''updated_at'', fld DateTimeField [AutoNow]),
          (''deleted_at'', fld DateTimeField [Blank, DbIndex, Null]),
          (''deleted_by'', fld (CharField 255) [Blank, Null]),
          (''code'', fld (CharField 100) []),
          (''name'', fld (CharField 255) []),
          (''data_type'', fld (CharField 20) [Choices [(''STRING'', ''String''), (''TEXT'', ''Text''),
                (''INTEGER'', ''Integer''), (''DECIMAL'', ''Decimal''), (''BOOLEAN'', ''Boolean''), (''DATE'',
                ''Date''), (''DATETIME'', ''DateTime''), (''TIME'', ''Time''), (''UUID'', ''UUID''), (''EMAIL'',
                ''Email''), (''URL'', ''URL''), (''JSON'', ''JSON''), (''ENUM'', ''Enum'')], DbIndex]),
          (''required'', fld BooleanField [Default (DBool False)]),
          (''searchable'', fld BooleanField [Default (DBool False)]),
          (''filterable'', fld BooleanField [Default (DBool False)]),
          (''sortable'', fld BooleanField [Default (DBool False)]),
          (''indexed'', fld BooleanField [Default (DBool False)]),
          (''default_value'', fld JSONField [Blank, Null]),
          (''validation_rules'', fld JSONField [Blank, Null]),
          (''document_type'', fld (ForeignKey ''dms_document_types.documenttype'' CASCADE
                ''metadata_definitions'') []),
          (''tenant'', fld (ForeignKey ''tenants.tenant'' CASCADE ''%(class)s_set'') [])]
         \<lparr>mt_table = ''dms_metadata_definitions'', mt_ordering = [], mt_plural = None,
            mt_constraints = [(''unique_metadata_definition_per_tenant_and_document_type'', [''tenant'',
            ''document_type'', ''code''])], mt_indexes = [(''dms_metadat_tenant__f11c59_idx'',
            [''tenant'', ''document_type''])]\<rparr>]\<rparr>"

definition dms_ingestion_0001_initial :: migration where
  "dms_ingestion_0001_initial =
     \<lparr>mg_app = ''dms_ingestion'', mg_name = ''0001_initial'', mg_deps = [(''tenants'',
        ''0001_initial''), swappable_dependency auth_user_model],
      mg_ops =
       [CreateModel ''UploadSession''
         [(''id'', fld UUIDField [Default DUuid4, NotEditable, PrimaryKey]),
          (''created_at'', fld DateTimeField [AutoNowAdd]),
          (''updated_at'', fld DateTimeField [AutoNow]),
          (''deleted_at'', fld DateTimeField [Blank, DbIndex, Null]),
          (''deleted_by'', fld (CharField 255) [Blank, Null]),
          (''title'', fld (CharField 255) []),
          (''document_type'', fld (CharField 100) [Blank, Null]),
          (''filename'', fld (CharField 255) []),
          (''mime_type'', fld (CharField 100) []),
          (''size'', fld PositiveBigIntegerField []),
          (''checksum'', fld (CharField 64) [Blank, Null]),
          (''extension'', fld (CharField 20) [Blank, Null]),
          (''state'', fld (CharField 20) [Choices [(''NEW'', ''New''), (''UPLOAD_REQUESTED'',
                ''Upload Requested''), (''UPLOADING'', ''Uploading''), (''UPLOADED'', ''Uploaded''),
                (''VALIDATING'', ''Validating''), (''PROCESSING'', ''Processing''), (''READY'', ''Ready''),
                (''DOCUMENT_CREATED'', ''Document Created''), (''COMPLETED'', ''Completed''), (''FAILED'',
                ''Failed''), (''EXPIRED'', ''Expired''), (''CANCELLED'', ''Cancelled''), (''QUARANTINED'',
                ''Quarantined'')], Default (DStr ''NEW'')]),
          (''storage_key'', fld (CharField 500) [Blank, Null]),
          (''error_detail'', fld TextField [Blank, Null]),
          (''created_by'', fld (ForeignKey auth_user_model SET_NULL ''+'') [Blank, Null]),
          (''tenant'', fld (ForeignKey ''tenants.tenant'' CASCADE ''%(class)s_set'') []),
          (''updated_by'', fld (ForeignKey auth_user_model SET_NULL ''+'') [Blank, Null])]
         \<lparr>mt_table = ''dms_ingestion_upload_sessions'', mt_ordering = [''-created_at''],
            mt_plural = None, mt_constraints = [], mt_indexes = []\<rparr>]\<rparr>"

definition sys_audit_0001_initial :: migration where
  "sys_audit_0001_initial =
     \<lparr>mg_app = ''sys_audit'', mg_name = ''0001_initial'', mg_deps = [(''tenants'',
        ''0001_initial''), swappable_dependency auth_user_model],
      mg_ops =
       [CreateModel ''AuditLog''
         [(''id'', fld UUIDField [Default DUuid4, NotEditable, PrimaryKey]),
          (''action'', fld (CharField 50) []),
          (''target_type'', fld (CharField 255) []),
          (''target_id'', fld UUIDField []),
          (''changes'', fld JSONField [Default DDict]),
          (''created_at'', fld DateTimeField [AutoNowAdd]),
          (''actor'', fld (ForeignKey auth_user_model PROTECT ''audit_logs'') []),
          (''tenant'', fld (ForeignKey ''tenants.tenant'' CASCADE ''audit_logs'') [Blank, Null])]
         \<lparr>mt_table = ''sys_audit_log'', mt_ordering = [''-created_at''], mt_plural = None,
            mt_constraints = [], mt_indexes = [(''idx_audit_tenant_time'', [''tenant'',
            ''created_at'']), (''idx_audit_target'', [''target_type'', ''target_id''])]\<rparr>]\<rparr>"

definition sys_user_event_0001_initial :: migration where
  "sys_user_event_0001_initial =
     \<lparr>mg_app = ''sys_user_event'', mg_name = ''0001_initial'', mg_deps = [(''tenants'',
        ''0001_initial''), swappable_dependency auth_user_model],
      mg_ops =
       [CreateModel ''AuthAttemptLog''
         [(''id'', fld UUIDField [Default DUuid4, NotEditable, PrimaryKey]),
          (''email'', fld (EmailField 254) []),
          (''ip_address'', fld (CharField 45) []),
          (''success'', fld BooleanField []),
          (''failure_reason'', fld (CharField 100) [Blank]),
          (''created_at'', fld DateTimeField [AutoNowAdd]),
          (''tenant'', fld (ForeignKey ''tenants.tenant'' CASCADE ''auth_attempts'') [Blank, Null])]
         \<lparr>mt_table = ''sys_auth_attempts'', mt_ordering = [''-created_at''], mt_plural = None,
            mt_constraints = [], mt_indexes = [(''idx_auth_attempt_email_time'', [''email'',
            ''created_at'']), (''idx_auth_attempt_ip_time'', [''ip_address'', ''created_at''])]\<rparr>,
        CreateModel ''UserEvent''
         [(''id'', fld UUIDField [Default DUuid4, NotEditable, PrimaryKey]),
          (''user_email'', fld (EmailField 254) []),
          (''category'', fld (CharField 50) []),
          (''event'', fld (CharField 50) []),
          (''metadata'', fld JSONField [Default DDict]),
          (''created_at'', fld DateTimeField [AutoNowAdd]),
          (''actor'', fld (ForeignKey auth_user_model SET_NULL ''user_events'') [Blank, Null]),
          (''tenant'', fld (ForeignKey ''tenants.tenant'' CASCADE ''user_events'') [Blank, Null])]
         \<lparr>mt_table = ''sys_user_events'', mt_ordering = [''-created_at''], mt_plural = None,
            mt_constraints = [], mt_indexes = [(''idx_user_event_actor_time'', [''actor'',
            ''created_at'']), (''idx_user_event_tenant_time'', [''tenant'', ''created_at'']),
            (''idx_user_event_category_event'', [''category'', ''event''])]\<rparr>]\<rparr>"

definition sys_eventbus_0001_initial :: migration where
  "sys_eventbus_0001_initial =
     \<lparr>mg_app = ''sys_eventbus'', mg_name = ''0001_initial'', mg_deps = [],
      mg_ops =
       [CreateModel ''DeadLetterEvent''
         [(''id'', fld UUIDField [Default DUuid4, NotEditable, PrimaryKey]),
          (''message_id'', fld (CharField 255) []),
          (''event_type'', fld (CharField 255) []),
          (''payload'', fld JSONField []),
          (''tenant_id'', fld UUIDField [Blank, Null]),
          (''error'', fld TextField []),
          (''retries'', fld PositiveIntegerField []),
          (''failed_at'', fld DateTimeField [AutoNowAdd])]
         \<lparr>mt_table = ''sys_eventbus_dead_letter_event'', mt_ordering = [''-failed_at''],
            mt_plural = None, mt_constraints = [], mt_indexes = [(''idx_dlq_event_type'',
            [''event_type'']), (''idx_dlq_tenant_id'', [''tenant_id''])]\<rparr>,
        CreateModel ''ProcessedEvent''
         [(''id'', fld UUIDField [Default DUuid4, NotEditable, PrimaryKey]),
          (''message_id'', fld (CharField 255) [Unique]),
          (''event_type'', fld (CharField 255) []),
          (''processed_at'', fld DateTimeField [AutoNowAdd])]
         \<lparr>mt_table = ''sys_eventbus_processed_event'', mt_ordering = [], mt_plural = None,
            mt_constraints = [], mt_indexes = [(''idx_processed_event_message_id'',
            [''message_id''])]\<rparr>]\<rparr>"

definition migrations :: "migration list" where
  "migrations =
     [tenants_0001_initial, iam_roles_0001_initial, iam_users_0001_initial,
        iam_users_0002_usertenantattribute, iam_teams_0001_initial, iam_teams_0002_initial,
        iam_auth_0001_initial, iam_auth_0002_initial, iam_mfa_0001_initial, iam_oauth_0001_initial,
        dms_document_types_0001_initial, dms_documents_0001_initial,
        dms_documents_0002_document_metadata, dms_document_versions_0001_initial,
        dms_metadata_0001_initial, dms_ingestion_0001_initial, sys_audit_0001_initial,
        sys_user_event_0001_initial, sys_eventbus_0001_initial]"

section \<open>What running a plan builds\<close>

lemma apply_locals_append:
  "apply_locals a (xs @ ys) T = bind_res (apply_locals a xs T) (apply_locals a ys)"
  by (induction xs arbitrary: T) (simp_all add: bind_res_def split: sum.splits)

lemma apply_local_dom:
  assumes "apply_local a op T = Inr T'"
  shows "dom T' = dom T \<union> snd ` set (creates a op)"
proof -
  obtain m where "alter (a, op_model op) op (T (op_model op)) = Inr m" and "T' = T(op_model op \<mapsto> m)"
    using assms by (auto simp: apply_local_def bind_res_Inr_iff)
  then show ?thesis
    by (cases op; cases "T (op_model op)") auto
qed

lemma creates_app: "k \<in> set (creates a op) \<Longrightarrow> fst k = a"
  by (cases op) auto

lemma apply_locals_dom:
  assumes "apply_locals a ops T = Inr T'"
  shows "dom T' = dom T \<union> (\<Union>op \<in> set ops. snd ` set (creates a op))"
  using assms
proof (induction ops arbitrary: T)
  case (Cons op ops)
  then obtain T1 where "apply_local a op T = Inr T1" and "apply_locals a ops T1 = Inr T'"
    by (auto simp: bind_res_Inr_iff)
  then show ?case
    using Cons.IH[of T1] apply_local_dom[of a op T T1] by auto
qed simp

lemma apply_ops_served:
  assumes "served a K ops" and "\<And>k. k \<in> set K \<Longrightarrow> table_exists S k"
    and "apply_locals a ops (S a) = Inr T"
  shows "apply_ops a ops S = Inr (S(a := T))"
  using assms
proof (induction ops arbitrary: K S)
  case (Cons op ops)
  obtain T1 where one: "apply_local a op (S a) = Inr T1" and rest: "apply_locals a ops T1 = Inr T"
    using Cons.prems(3) by (auto simp: bind_res_Inr_iff)
  let ?S = "S(a := T1)"
  have "list_all (table_exists S) (refers_to a op)"
    using Cons.prems(1,2) by (auto simp: list_all_iff)
  then have step: "apply_op a op S = Inr ?S"
    by (simp add: apply_op_def one)
  have known: "table_exists ?S k" if "k \<in> set (creates a op @ K)" for k
  proof (cases "k \<in> set K")
    case True
    then show ?thesis
      using Cons.prems(2)[OF True] apply_local_dom[OF one] by (auto simp: table_exists_def dom_def)
  next
    case False
    then have "k \<in> set (creates a op)"
      using that by simp
    then have "fst k = a" and "snd k \<in> dom T1"
      using creates_app[of k a op] apply_local_dom[OF one] by auto
    then show ?thesis
      by (auto simp: table_exists_def)
  qed
  have "apply_ops a ops ?S = Inr (?S(a := T))"
  proof (rule Cons.IH[of "creates a op @ K" ?S])
    show "served a (creates a op @ K) ops"
      using Cons.prems(1) by simp
    show "table_exists ?S k" if "k \<in> set (creates a op @ K)" for k
      by (rule known[OF that])
    show "apply_locals a ops (?S a) = Inr T"
      using rest by simp
  qed
  then show ?case
    using step by (simp add: fun_eq_iff)
qed (simp add: fun_upd_idem)

text \<open>What happens to one table is up to the operations that name it.\<close>

fun alter_all :: "model_key \<Rightarrow> operation list \<Rightarrow> data_model option \<Rightarrow> data_model option res" where
  "alter_all k [] m = Inr m"
| "alter_all k (op # ops) m = bind_res (alter k op m) (\<lambda>m'. alter_all k ops (Some m'))"

definition ops_on :: "string \<Rightarrow> operation list \<Rightarrow> operation list" where
  "ops_on k = filter (\<lambda>op. op_model op = k)"

lemma apply_locals_by_table:
  assumes "\<And>k. \<exists>r. alter_all (a, k) (ops_on k ops) (T k) = Inr r"
  shows "\<exists>T'. apply_locals a ops T = Inr T' \<and> (\<forall>k. alter_all (a, k) (ops_on k ops) (T k) = Inr (T' k))"
  using assms
proof (induction ops arbitrary: T)
  case (Cons op ops)
  let ?k = "op_model op"
  obtain m where m: "alter (a, ?k) op (T ?k) = Inr m"
    using Cons.prems[of ?k] by (auto simp: ops_on_def bind_res_Inr_iff)
  let ?T = "T(?k \<mapsto> m)"
  have same: "alter_all (a, k) (ops_on k ops) (?T k) = alter_all (a, k) (ops_on k (op # ops)) (T k)" for k
    using m by (cases "op_model op = k") (auto simp: ops_on_def)
  have "\<exists>r. alter_all (a, k) (ops_on k ops) (?T k) = Inr r" for k
    unfolding same by (rule Cons.prems)
  from Cons.IH[OF this] obtain T' where
    T': "apply_locals a ops ?T = Inr T'" "\<forall>k. alter_all (a, k) (ops_on k ops) (?T k) = Inr (T' k)"
    by blast
  have "apply_locals a (op # ops) T = Inr T'"
    using m T'(1) by (simp add: apply_local_def)
  then show ?case
    using T'(2) unfolding same by blast
qed (simp add: ops_on_def)

definition no_tables :: tables where
  "no_tables = (\<lambda>_ _. None)"

definition local_tables :: "migration list \<Rightarrow> string \<Rightarrow> nat \<Rightarrow> app_tables res" where
  "local_tables M a i = apply_locals a (concat (map mg_ops (take i (files_of M a)))) (\<lambda>_. None)"

definition plan_tables :: "migration list \<Rightarrow> tables" where
  "plan_tables M a = (case local_tables M a (length (files_of M a)) of Inl _ \<Rightarrow> (\<lambda>_. None) | Inr T \<Rightarrow> T)"

text \<open>After the migrations \<open>ps\<close>, each application is at some point of its own files.\<close>

definition at_point :: "migration list \<Rightarrow> migration list \<Rightarrow> tables \<Rightarrow> bool" where
  "at_point M ps S \<longleftrightarrow>
     (\<forall>a. files_of ps a = take (length (files_of ps a)) (files_of M a)
        \<and> local_tables M a (length (files_of ps a)) = Inr (S a))"

lemma chainedD:
  assumes "chained M F" and "Suc j < length F"
  shows "mg_key (F ! j) \<in> set (dependencies M (F ! Suc j))"
  using assms
proof (induction M F arbitrary: j rule: chained.induct)
  case (1 M m m' ms)
  then show ?case
    by (cases j) auto
qed auto

locale migration_plan =
  fixes M :: "migration list"
  assumes keys: "distinct (map mg_key M)"
    and chain: "chained M (files_of M a)"
    and serve: "m \<in> set M \<Longrightarrow> served (mg_app m) (library_models @ created_by_deps M m) (mg_ops m)"
    and apply_all: "\<exists>T. local_tables M a (length (files_of M a)) = Inr T"
begin

lemma same_key: "m \<in> set M \<Longrightarrow> m' \<in> set M \<Longrightarrow> mg_key m = mg_key m' \<Longrightarrow> m = m'"
  using keys by (auto simp: distinct_map dest: inj_onD)

lemma distinct_files: "distinct (files_of M a)"
  using keys by (simp add: files_of_def distinct_map)

lemma prefix_applies: "\<exists>T. local_tables M a i = Inr T"
proof -
  obtain T where "local_tables M a (length (files_of M a)) = Inr T"
    using apply_all by blast
  then have "apply_locals a (concat (map mg_ops (take i (files_of M a))) @
      concat (map mg_ops (drop i (files_of M a)))) (\<lambda>_. None) = Inr T"
    by (metis local_tables_def concat_append map_append append_take_drop_id take_all order_refl)
  then show ?thesis
    by (auto simp: apply_locals_append bind_res_Inr_iff local_tables_def)
qed

lemma created_exist:
  assumes "at_point M ps S" and "m \<in> set ps" and "k \<in> set (created m)"
  shows "table_exists S k"
proof -
  let ?a = "mg_app m" let ?i = "length (files_of ps ?a)"
  have "m \<in> set (take ?i (files_of M ?a))"
    using assms(1,2) by (metis (mono_tags, lifting) at_point_def files_of_def mem_Collect_eq set_filter)
  moreover have "apply_locals ?a (concat (map mg_ops (take ?i (files_of M ?a)))) (\<lambda>_. None) = Inr (S ?a)"
    using assms(1) by (metis at_point_def local_tables_def)
  note apply_locals_dom[OF this]
  moreover have "fst k = ?a"
    using assms(3) by (auto simp: created_def intro: creates_app)
  ultimately have "snd k \<in> dom (S (fst k))"
    using assms(3) by (force simp: created_def)
  then show ?thesis
    by (auto simp: table_exists_def)
qed

text \<open>A migration whose dependencies have run is the next file of its application.\<close>

lemma next_file:
  assumes point: "at_point M ps S" and sub: "set ps \<subseteq> set M" and m: "m \<in> set M" "m \<notin> set ps"
    and deps: "set (dependencies M m) \<subseteq> mg_key ` set ps"
  defines "a \<equiv> mg_app m"
  defines "i \<equiv> length (files_of ps a)"
  shows "i < length (files_of M a) \<and> files_of M a ! i = m"
proof -
  let ?F = "files_of M a"
  have pre: "files_of ps a = take i ?F"
    using point by (simp add: at_point_def i_def)
  have "m \<in> set ?F"
    using m by (simp add: files_of_def a_def)
  then obtain j where j: "j < length ?F" "?F ! j = m"
    by (auto simp: in_set_conv_nth)
  have "m \<notin> set (take i ?F)"
    using m(2) pre by (metis (no_types, lifting) files_of_def filter_is_subset subsetD)
  then have "i \<le> j"
    using j by (metis in_set_conv_nth length_take min_less_iff_conj not_less nth_take)
  moreover have False if "i < j"
  proof -
    obtain l where l: "j = Suc l" "i \<le> l"
      using \<open>i < j\<close> by (cases j) auto
    have lF: "?F ! l \<in> set ?F"
      using j l by simp
    have "mg_key (?F ! l) \<in> set (dependencies M m)"
      using chainedD[of M ?F l] chain j l by simp
    then obtain p where p: "p \<in> set ps" "mg_key p = mg_key (?F ! l)"
      using deps by force
    moreover have "?F ! l \<in> set M" and "mg_app (?F ! l) = a"
      using lF by (auto simp: files_of_def)
    ultimately have "?F ! l \<in> set (files_of ps a)"
      using same_key sub by (metis (mono_tags, lifting) files_of_def mem_Collect_eq set_filter subsetD)
    then obtain n where "n < i" "n < length ?F" "?F ! n = ?F ! l"
      using pre by (auto simp: in_set_conv_nth)
    then show False
      using distinct_files[of a] j l by (simp add: nth_eq_iff_index_eq)
  qed
  ultimately have "i = j"
    by (meson le_neq_implies_less)
  then show ?thesis
    using j by simp
qed

lemma next_migration:
  assumes point: "at_point M ps S" and sub: "set ps \<subseteq> set M" and m: "m \<in> set M" "m \<notin> set ps"
    and deps: "set (dependencies M m) \<subseteq> mg_key ` set ps"
  shows "\<exists>S'. apply_ops (mg_app m) (mg_ops m) S = Inr S' \<and> at_point M (ps @ [m]) S'"
proof -
  let ?a = "mg_app m" let ?F = "files_of M ?a" let ?i = "length (files_of ps ?a)"
  have next': "?i < length ?F" "?F ! ?i = m"
    using next_file[OF assms] by auto
  have here: "local_tables M ?a ?i = Inr (S ?a)" and pre: "files_of ps ?a = take ?i ?F"
    using point by (auto simp: at_point_def)
  obtain T where T: "local_tables M ?a (Suc ?i) = Inr T"
    using prefix_applies by blast
  then have "apply_locals ?a (mg_ops m) (S ?a) = Inr T"
    using here next' by (simp add: local_tables_def take_Suc_conv_app_nth apply_locals_append)
  moreover have "table_exists S k" if k: "k \<in> set (library_models @ created_by_deps M m)" for k
  proof (cases "k \<in> set library_models")
    case False
    then obtain d where "d \<in> set M" "mg_key d \<in> set (dependencies M m)" "k \<in> set (created d)"
      using k by (auto simp: created_by_deps_def)
    moreover from this have "d \<in> set ps"
      using deps same_key sub by (metis (no_types, lifting) imageE subsetD)
    ultimately show ?thesis
      using created_exist[OF point] by blast
  qed (simp add: table_exists_def)
  ultimately have run: "apply_ops ?a (mg_ops m) S = Inr (S(?a := T))"
    using apply_ops_served[OF serve[OF m(1)]] by blast
  have "files_of (ps @ [m]) b = (if b = ?a then take (Suc ?i) ?F else files_of ps b)" for b
    using next' pre by (auto simp: files_of_def take_Suc_conv_app_nth)
  then have "at_point M (ps @ [m]) (S(?a := T))"
    using point T next' by (auto simp: at_point_def)
  then show ?thesis
    using run by blast
qed

lemma migrate_from:
  assumes "at_point M ps S" and "in_order M run ms" and "set run \<subseteq> mg_key ` set ps"
    and "distinct (ps @ ms)" and "set (ps @ ms) \<subseteq> set M"
  shows "\<exists>S'. migrate ms S = Inr S' \<and> at_point M (ps @ ms) S'"
  using assms
proof (induction ms arbitrary: ps S run)
  case (Cons m ms)
  have "set (dependencies M m) \<subseteq> mg_key ` set ps"
    using Cons.prems(2,3) by (auto simp: list_all_iff)
  then obtain S' where S': "apply_ops (mg_app m) (mg_ops m) S = Inr S'" "at_point M (ps @ [m]) S'"
    using next_migration[OF Cons.prems(1), of m] Cons.prems(4,5) by auto
  have "\<exists>S''. migrate ms S' = Inr S'' \<and> at_point M ((ps @ [m]) @ ms) S''"
    by (rule Cons.IH[OF S'(2), of "mg_key m # run"]) (use Cons.prems(2-5) in auto)
  then show ?case
    using S'(1) by simp
qed simp

lemma order_irrelevant:
  assumes "allowed_order M ms"
  shows "migrate ms no_tables = Inr (plan_tables M)"
proof -
  have "at_point M [] no_tables"
    by (simp add: at_point_def files_of_def local_tables_def no_tables_def)
  then obtain S where S: "migrate ms no_tables = Inr S" "at_point M ms S"
    using migrate_from[of "[]" no_tables "[]" ms] assms by (auto simp: allowed_order_def)
  have "S a = plan_tables M a" for a
  proof -
    have "set (files_of ms a) = set (files_of M a)" and "distinct (files_of ms a)"
      using assms by (auto simp: files_of_def allowed_order_def)
    then have "length (files_of ms a) = length (files_of M a)"
      using distinct_files[of a] distinct_card by metis
    then have "local_tables M a (length (files_of M a)) = Inr (S a)"
      using S(2) by (metis at_point_def)
    then show ?thesis
      by (simp add: plan_tables_def)
  qed
  then show ?thesis
    using S(1) by (simp add: fun_eq_iff)
qed

end

end
