(* ===== verification/MigratedSchema.thy ===== *)
theory MigratedSchema
  imports Migrations
begin

text \<open>
  The migration files of the platform are a sound plan, and the tables they build are the
  models the code declares.  The conditions of a plan are computed for the files:
  \<open>plan_simps\<close> holds what the computation needs, that is the names in lower case, the tables
  labels stand for, and of each file its name, its dependencies and the tables it creates.
\<close>

section \<open>The files as a plan\<close>

named_theorems plan_simps

lemma lower_names [plan_simps]:
  "lower ''AuditLog'' = ''auditlog''"
  "lower ''AuthAttemptLog'' = ''authattemptlog''"
  "lower ''AuthorizationCode'' = ''authorizationcode''"
  "lower ''DeadLetterEvent'' = ''deadletterevent''"
  "lower ''Document'' = ''document''"
  "lower ''DocumentType'' = ''documenttype''"
  "lower ''DocumentVersion'' = ''documentversion''"
  "lower ''MFABackupCode'' = ''mfabackupcode''"
  "lower ''MFADevice'' = ''mfadevice''"
  "lower ''MetadataDefinition'' = ''metadatadefinition''"
  "lower ''OAuth2Client'' = ''oauth2client''"
  "lower ''OAuth2RefreshToken'' = ''oauth2refreshtoken''"
  "lower ''ProcessedEvent'' = ''processedevent''"
  "lower ''Team'' = ''team''"
  "lower ''TeamMembership'' = ''teammembership''"
  "lower ''Tenant'' = ''tenant''"
  "lower ''TenantMembership'' = ''tenantmembership''"
  "lower ''TenantRole'' = ''tenantrole''"
  "lower ''TenantSetting'' = ''tenantsetting''"
  "lower ''UploadSession'' = ''uploadsession''"
  "lower ''User'' = ''user''"
  "lower ''UserEvent'' = ''userevent''"
  "lower ''UserPasswordHistory'' = ''userpasswordhistory''"
  "lower ''UserProfile'' = ''userprofile''"
  "lower ''UserTenantAttribute'' = ''usertenantattribute''"
  "lower ''auth.group'' = ''auth.group''"
  "lower ''auth.permission'' = ''auth.permission''"
  "lower ''dms_document_types.DocumentType'' = ''dms_document_types.documenttype''"
  "lower ''dms_document_types.documenttype'' = ''dms_document_types.documenttype''"
  "lower ''dms_documents.Document'' = ''dms_documents.document''"
  "lower ''dms_documents.document'' = ''dms_documents.document''"
  "lower ''iam_mfa.MFADevice'' = ''iam_mfa.mfadevice''"
  "lower ''iam_mfa.mfadevice'' = ''iam_mfa.mfadevice''"
  "lower ''iam_oauth.OAuth2Client'' = ''iam_oauth.oauth2client''"
  "lower ''iam_oauth.oauth2client'' = ''iam_oauth.oauth2client''"
  "lower ''iam_oauth.oauth2refreshtoken'' = ''iam_oauth.oauth2refreshtoken''"
  "lower ''iam_roles.TenantRole'' = ''iam_roles.tenantrole''"
  "lower ''iam_roles.tenantrole'' = ''iam_roles.tenantrole''"
  "lower ''iam_teams.Team'' = ''iam_teams.team''"
  "lower ''iam_teams.team'' = ''iam_teams.team''"
  "lower ''iam_users.TenantMembership'' = ''iam_users.tenantmembership''"
  "lower ''iam_users.User'' = ''iam_users.user''"
  "lower ''iam_users.tenantmembership'' = ''iam_users.tenantmembership''"
  "lower ''iam_users.user'' = ''iam_users.user''"
  "lower ''tenants.Tenant'' = ''tenants.tenant''"
  "lower ''tenants.tenant'' = ''tenants.tenant''"
  by code_simp+

lemma label_keys [plan_simps]:
  "key_of_label ''auth.group'' = (''auth'', ''group'')"
  "key_of_label ''auth.permission'' = (''auth'', ''permission'')"
  "key_of_label ''dms_document_types.documenttype'' = (''dms_document_types'', ''documenttype'')"
  "key_of_label ''dms_documents.document'' = (''dms_documents'', ''document'')"
  "key_of_label ''iam_mfa.mfadevice'' = (''iam_mfa'', ''mfadevice'')"
  "key_of_label ''iam_oauth.oauth2client'' = (''iam_oauth'', ''oauth2client'')"
  "key_of_label ''iam_oauth.oauth2refreshtoken'' = (''iam_oauth'', ''oauth2refreshtoken'')"
  "key_of_label ''iam_roles.tenantrole'' = (''iam_roles'', ''tenantrole'')"
  "key_of_label ''iam_teams.team'' = (''iam_teams'', ''team'')"
  "key_of_label ''iam_users.tenantmembership'' = (''iam_users'', ''tenantmembership'')"
  "key_of_label ''iam_users.user'' = (''iam_users'', ''user'')"
  "key_of_label ''tenants.tenant'' = (''tenants'', ''tenant'')"
  "key_of_label ''iam_users.User'' = (''iam_users'', ''user'')"
  by code_simp+

lemma mf_type_fld [simp]: "mf_type (fld t ks) = t"
proof -
  have *: "mf_type (apply_kwarg k f) = mf_type f" for k f
    by (cases k) simp_all
  have "mf_type (fold apply_kwarg ks f) = mf_type f" for f
    by (induction ks arbitrary: f) (simp_all add: *)
  then show ?thesis
    by (simp add: fld_def)
qed

fun type_targets :: "field_type \<Rightarrow> model_key list" where
  "type_targets (ForeignKey l od rel) = [key_of_label l]"
| "type_targets (OneToOneField l od rel) = [key_of_label l]"
| "type_targets (ManyToManyField l rel) = [key_of_label l]"
| "type_targets t = []"

lemma relation_targets_fld [plan_simps]:
  "relation_targets (resolve_field k (fld t ks)) = type_targets (resolve_type k t)"
  by (cases t) (simp_all add: relation_targets_def resolve_field_def)

lemmas label_simps [plan_simps] = resolve_label_def label_of_def auth_user_model_def

lemmas migration_files =
  tenants_0001_initial_def iam_roles_0001_initial_def iam_users_0001_initial_def
  iam_users_0002_usertenantattribute_def iam_teams_0001_initial_def iam_teams_0002_initial_def
  iam_auth_0001_initial_def iam_auth_0002_initial_def iam_mfa_0001_initial_def
  iam_oauth_0001_initial_def dms_document_types_0001_initial_def dms_documents_0001_initial_def
  dms_documents_0002_document_metadata_def dms_document_versions_0001_initial_def
  dms_metadata_0001_initial_def dms_ingestion_0001_initial_def sys_audit_0001_initial_def
  sys_user_event_0001_initial_def sys_eventbus_0001_initial_def

text \<open>Dependencies only look at the names of the files.\<close>

lemma dependencies_keys:
  "dependencies M m =
     (let K = map mg_key M in
      filter (\<lambda>d. fst d \<in> fst ` set K)
        (map (\<lambda>d. if snd d = ''__first__''
                  then (case filter (\<lambda>k. fst k = fst d) K of [] \<Rightarrow> d | k # _ \<Rightarrow> k) else d) (mg_deps m)))"
proof -
  have "resolve_dep M = (\<lambda>d. if snd d = ''__first__''
      then (case filter (\<lambda>k. fst k = fst d) (map mg_key M) of [] \<Rightarrow> d | k # _ \<Rightarrow> k) else d)"
    by (rule ext) (simp add: resolve_dep_def files_of_def filter_map comp_def mg_key_def split: list.split)
  moreover have "fst ` set (map mg_key M) = mg_app ` set M"
    by (force simp: mg_key_def)
  ultimately show ?thesis
    by (simp add: dependencies_def Let_def)
qed

lemma migration_headers [plan_simps]:
  "mg_app tenants_0001_initial = ''tenants''" "mg_name tenants_0001_initial = ''0001_initial''"
  "mg_deps tenants_0001_initial = []"
  "mg_app iam_roles_0001_initial = ''iam_roles''" "mg_name iam_roles_0001_initial = ''0001_initial''"
  "mg_deps iam_roles_0001_initial = [(''tenants'', ''0001_initial'')]"
  "mg_app iam_users_0001_initial = ''iam_users''" "mg_name iam_users_0001_initial = ''0001_initial''"
  "mg_deps iam_users_0001_initial = [(''auth'', ''0012_alter_user_first_name_max_length''),
     (''iam_roles'', ''0001_initial''), (''tenants'', ''0001_initial'')]"
  "mg_app iam_users_0002_usertenantattribute = ''iam_users''" "mg_name iam_users_0002_usertenantattribute = ''0002_usertenantattribute''"
  "mg_deps iam_users_0002_usertenantattribute = [(''iam_users'', ''0001_initial''), (''tenants'',
     ''0001_initial'')]"
  "mg_app iam_teams_0001_initial = ''iam_teams''" "mg_name iam_teams_0001_initial = ''0001_initial''"
  "mg_deps iam_teams_0001_initial = [(''tenants'', ''0001_initial'')]"
  "mg_app iam_teams_0002_initial = ''iam_teams''" "mg_name iam_teams_0002_initial = ''0002_initial''"
  "mg_deps iam_teams_0002_initial = [(''iam_teams'', ''0001_initial''), (''iam_users'',
     ''0001_initial''), (''tenants'', ''0001_initial'')]"
  "mg_app iam_auth_0001_initial = ''iam_auth''" "mg_name iam_auth_0001_initial = ''0001_initial''"
  "mg_deps iam_auth_0001_initial = []"
  "mg_app iam_auth_0002_initial = ''iam_auth''" "mg_name iam_auth_0002_initial = ''0002_initial''"
  "mg_deps iam_auth_0002_initial = [(''iam_auth'', ''0001_initial''), (''iam_users'', ''__first__'')]"
  "mg_app iam_mfa_0001_initial = ''iam_mfa''" "mg_name iam_mfa_0001_initial = ''0001_initial''"
  "mg_deps iam_mfa_0001_initial = [(''tenants'', ''0001_initial''), (''iam_users'', ''__first__'')]"
  "mg_app iam_oauth_0001_initial = ''iam_oauth''" "mg_name iam_oauth_0001_initial = ''0001_initial''"
  "mg_deps iam_oauth_0001_initial = [(''tenants'', ''0001_initial'')]"
  "mg_app dms_document_types_0001_initial = ''dms_document_types''" "mg_name dms_document_types_0001_initial = ''0001_initial''"
  "mg_deps dms_document_types_0001_initial = [(''tenants'', ''0001_initial'')]"
  "mg_app dms_documents_0001_initial = ''dms_documents''" "mg_name dms_documents_0001_initial = ''0001_initial''"
  "mg_deps dms_documents_0001_initial = [(''dms_document_types'', ''0001_initial''), (''tenants'',
     ''0001_initial''), (''iam_users'', ''__first__'')]"
  "mg_app dms_documents_0002_document_metadata = ''dms_documents''" "mg_name dms_documents_0002_document_metadata = ''0002_document_metadata''"
  "mg_deps dms_documents_0002_document_metadata = [(''dms_documents'', ''0001_initial'')]"
  "mg_app dms_document_versions_0001_initial = ''dms_document_versions''" "mg_name dms_document_versions_0001_initial = ''0001_initial''"
  "mg_deps dms_document_versions_0001_initial = [(''dms_documents'', ''0001_initial''), (''tenants'',
     ''0001_initial''), (''iam_users'', ''__first__'')]"
  "mg_app dms_metadata_0001_initial = ''dms_metadata''" "mg_name dms_metadata_0001_initial = ''0001_initial''"
  "mg_deps dms_metadata_0001_initial = [(''dms_document_types'', ''0001_initial''), (''tenants'',
     ''0001_initial'')]"
  "mg_app dms_ingestion_0001_initial = ''dms_ingestion''" "mg_name dms_ingestion_0001_initial = ''0001_initial''"
  "mg_deps dms_ingestion_0001_initial = [(''tenants'', ''0001_initial''), (''iam_users'',
     ''__first__'')]"
  "mg_app sys_audit_0001_initial = ''sys_audit''" "mg_name sys_audit_0001_initial = ''0001_initial''"
  "mg_deps sys_audit_0001_initial = [(''tenants'', ''0001_initial''), (''iam_users'', ''__first__'')]"
  "mg_app sys_user_event_0001_initial = ''sys_user_event''" "mg_name sys_user_event_0001_initial = ''0001_initial''"
  "mg_deps sys_user_event_0001_initial = [(''tenants'', ''0001_initial''), (''iam_users'',
     ''__first__'')]"
  "mg_app sys_eventbus_0001_initial = ''sys_eventbus''" "mg_name sys_eventbus_0001_initial = ''0001_initial''"
  "mg_deps sys_eventbus_0001_initial = []"
  by (simp_all add: migration_files swappable_dependency_def auth_user_model_def lower_names label_keys)

lemma all_keys [plan_simps]:
  "map mg_key migrations =
     [(''tenants'', ''0001_initial''), (''iam_roles'', ''0001_initial''), (''iam_users'',
        ''0001_initial''), (''iam_users'', ''0002_usertenantattribute''), (''iam_teams'',
        ''0001_initial''), (''iam_teams'', ''0002_initial''), (''iam_auth'', ''0001_initial''),
        (''iam_auth'', ''0002_initial''), (''iam_mfa'', ''0001_initial''), (''iam_oauth'',
        ''0001_initial''), (''dms_document_types'', ''0001_initial''), (''dms_documents'',
        ''0001_initial''), (''dms_documents'', ''0002_document_metadata''), (''dms_document_versions'',
        ''0001_initial''), (''dms_metadata'', ''0001_initial''), (''dms_ingestion'', ''0001_initial''),
        (''sys_audit'', ''0001_initial''), (''sys_user_event'', ''0001_initial''), (''sys_eventbus'',
        ''0001_initial'')]"
  by (simp add: migrations_def mg_key_def migration_headers)

lemma migration_dependencies [plan_simps]:
  "dependencies migrations tenants_0001_initial = []"
  "dependencies migrations iam_roles_0001_initial = [(''tenants'', ''0001_initial'')]"
  "dependencies migrations iam_users_0001_initial = [(''iam_roles'', ''0001_initial''), (''tenants'',
     ''0001_initial'')]"
  "dependencies migrations iam_users_0002_usertenantattribute = [(''iam_users'', ''0001_initial''),
     (''tenants'', ''0001_initial'')]"
  "dependencies migrations iam_teams_0001_initial = [(''tenants'', ''0001_initial'')]"
  "dependencies migrations iam_teams_0002_initial = [(''iam_teams'', ''0001_initial''), (''iam_users'',
     ''0001_initial''), (''tenants'', ''0001_initial'')]"
  "dependencies migrations iam_auth_0001_initial = []"
  "dependencies migrations iam_auth_0002_initial = [(''iam_auth'', ''0001_initial''), (''iam_users'',
     ''0001_initial'')]"
  "dependencies migrations iam_mfa_0001_initial = [(''tenants'', ''0001_initial''), (''iam_users'',
     ''0001_initial'')]"
  "dependencies migrations iam_oauth_0001_initial = [(''tenants'', ''0001_initial'')]"
  "dependencies migrations dms_document_types_0001_initial = [(''tenants'', ''0001_initial'')]"
  "dependencies migrations dms_documents_0001_initial = [(''dms_document_types'', ''0001_initial''),
     (''tenants'', ''0001_initial''), (''iam_users'', ''0001_initial'')]"
  "dependencies migrations dms_documents_0002_document_metadata = [(''dms_documents'',
     ''0001_initial'')]"
  "dependencies migrations dms_document_versions_0001_initial = [(''dms_documents'', ''0001_initial''),
     (''tenants'', ''0001_initial''), (''iam_users'', ''0001_initial'')]"
  "dependencies migrations dms_metadata_0001_initial = [(''dms_document_types'', ''0001_initial''),
     (''tenants'', ''0001_initial'')]"
  "dependencies migrations dms_ingestion_0001_initial = [(''tenants'', ''0001_initial''),
     (''iam_users'', ''0001_initial'')]"
  "dependencies migrations sys_audit_0001_initial = [(''tenants'', ''0001_initial''), (''iam_users'',
     ''0001_initial'')]"
  "dependencies migrations sys_user_event_0001_initial = [(''tenants'', ''0001_initial''),
     (''iam_users'', ''0001_initial'')]"
  "dependencies migrations sys_eventbus_0001_initial = []"
  by (simp_all add: dependencies_keys all_keys migration_headers)

lemma migration_creates [plan_simps]:
  "created tenants_0001_initial = [(''tenants'', ''tenant''), (''tenants'', ''tenantsetting'')]"
  "created iam_roles_0001_initial = [(''iam_roles'', ''tenantrole'')]"
  "created iam_users_0001_initial = [(''iam_users'', ''user''), (''iam_users'', ''userprofile''),
     (''iam_users'', ''tenantmembership'')]"
  "created iam_users_0002_usertenantattribute = [(''iam_users'', ''usertenantattribute'')]"
  "created iam_teams_0001_initial = [(''iam_teams'', ''teammembership''), (''iam_teams'', ''team'')]"
  "created iam_teams_0002_initial = []"
  "created iam_auth_0001_initial = [(''iam_auth'', ''userpasswordhistory'')]"
  "created iam_auth_0002_initial = []"
  "created iam_mfa_0001_initial = [(''iam_mfa'', ''mfadevice''), (''iam_mfa'', ''mfabackupcode'')]"
  "created iam_oauth_0001_initial = [(''iam_oauth'', ''oauth2client''), (''iam_oauth'',
     ''authorizationcode''), (''iam_oauth'', ''oauth2refreshtoken'')]"
  "created dms_document_types_0001_initial = [(''dms_document_types'', ''documenttype'')]"
  "created dms_documents_0001_initial = [(''dms_documents'', ''document'')]"
  "created dms_documents_0002_document_metadata = []"
  "created dms_document_versions_0001_initial = [(''dms_document_versions'', ''documentversion'')]"
  "created dms_metadata_0001_initial = [(''dms_metadata'', ''metadatadefinition'')]"
  "created dms_ingestion_0001_initial = [(''dms_ingestion'', ''uploadsession'')]"
  "created sys_audit_0001_initial = [(''sys_audit'', ''auditlog'')]"
  "created sys_user_event_0001_initial = [(''sys_user_event'', ''authattemptlog''), (''sys_user_event'',
     ''userevent'')]"
  "created sys_eventbus_0001_initial = [(''sys_eventbus'', ''deadletterevent''), (''sys_eventbus'',
     ''processedevent'')]"
  by (simp_all add: created_def migration_files lower_names)

lemma created_by_deps_table:
  "created_by_deps M m =
     concat (map snd (filter (\<lambda>(k, _). k \<in> set (dependencies M m)) (map (\<lambda>d. (mg_key d, created d)) M)))"
  by (simp add: created_by_deps_def filter_map comp_def)

lemma created_table:
  "map (\<lambda>m. (mg_key m, created m)) migrations =
     [((''tenants'', ''0001_initial''), [(''tenants'', ''tenant''), (''tenants'', ''tenantsetting'')]),
        ((''iam_roles'', ''0001_initial''), [(''iam_roles'', ''tenantrole'')]), ((''iam_users'',
        ''0001_initial''), [(''iam_users'', ''user''), (''iam_users'', ''userprofile''), (''iam_users'',
        ''tenantmembership'')]), ((''iam_users'', ''0002_usertenantattribute''), [(''iam_users'',
        ''usertenantattribute'')]), ((''iam_teams'', ''0001_initial''), [(''iam_teams'',
        ''teammembership''), (''iam_teams'', ''team'')]), ((''iam_teams'', ''0002_initial''), []),
        ((''iam_auth'', ''0001_initial''), [(''iam_auth'', ''userpasswordhistory'')]), ((''iam_auth'',
        ''0002_initial''), []), ((''iam_mfa'', ''0001_initial''), [(''iam_mfa'', ''mfadevice''),
        (''iam_mfa'', ''mfabackupcode'')]), ((''iam_oauth'', ''0001_initial''), [(''iam_oauth'',
        ''oauth2client''), (''iam_oauth'', ''authorizationcode''), (''iam_oauth'',
        ''oauth2refreshtoken'')]), ((''dms_document_types'', ''0001_initial''),
        [(''dms_document_types'', ''documenttype'')]), ((''dms_documents'', ''0001_initial''),
        [(''dms_documents'', ''document'')]), ((''dms_documents'', ''0002_document_metadata''), []),
        ((''dms_document_versions'', ''0001_initial''), [(''dms_document_versions'',
        ''documentversion'')]), ((''dms_metadata'', ''0001_initial''), [(''dms_metadata'',
        ''metadatadefinition'')]), ((''dms_ingestion'', ''0001_initial''), [(''dms_ingestion'',
        ''uploadsession'')]), ((''sys_audit'', ''0001_initial''), [(''sys_audit'', ''auditlog'')]),
        ((''sys_user_event'', ''0001_initial''), [(''sys_user_event'', ''authattemptlog''),
        (''sys_user_event'', ''userevent'')]), ((''sys_eventbus'', ''0001_initial''),
        [(''sys_eventbus'', ''deadletterevent''), (''sys_eventbus'', ''processedevent'')])]"
  by (simp add: migrations_def mg_key_def migration_headers migration_creates)

lemma migration_provides:
  "created_by_deps migrations tenants_0001_initial = []"
  "created_by_deps migrations iam_roles_0001_initial = [(''tenants'', ''tenant''), (''tenants'',
     ''tenantsetting'')]"
  "created_by_deps migrations iam_users_0001_initial = [(''tenants'', ''tenant''), (''tenants'',
     ''tenantsetting''), (''iam_roles'', ''tenantrole'')]"
  "created_by_deps migrations iam_users_0002_usertenantattribute = [(''tenants'', ''tenant''),
     (''tenants'', ''tenantsetting''), (''iam_users'', ''user''), (''iam_users'', ''userprofile''),
     (''iam_users'', ''tenantmembership'')]"
  "created_by_deps migrations iam_teams_0001_initial = [(''tenants'', ''tenant''), (''tenants'',
     ''tenantsetting'')]"
  "created_by_deps migrations iam_teams_0002_initial = [(''tenants'', ''tenant''), (''tenants'',
     ''tenantsetting''), (''iam_users'', ''user''), (''iam_users'', ''userprofile''), (''iam_users'',
     ''tenantmembership''), (''iam_teams'', ''teammembership''), (''iam_teams'', ''team'')]"
  "created_by_deps migrations iam_auth_0001_initial = []"
  "created_by_deps migrations iam_auth_0002_initial = [(''iam_users'', ''user''), (''iam_users'',
     ''userprofile''), (''iam_users'', ''tenantmembership''), (''iam_auth'', ''userpasswordhistory'')]"
  "created_by_deps migrations iam_mfa_0001_initial = [(''tenants'', ''tenant''), (''tenants'',
     ''tenantsetting''), (''iam_users'', ''user''), (''iam_users'', ''userprofile''), (''iam_users'',
     ''tenantmembership'')]"
  "created_by_deps migrations iam_oauth_0001_initial = [(''tenants'', ''tenant''), (''tenants'',
     ''tenantsetting'')]"
  "created_by_deps migrations dms_document_types_0001_initial = [(''tenants'', ''tenant''),
     (''tenants'', ''tenantsetting'')]"
  "created_by_deps migrations dms_documents_0001_initial = [(''tenants'', ''tenant''), (''tenants'',
     ''tenantsetting''), (''iam_users'', ''user''), (''iam_users'', ''userprofile''), (''iam_users'',
     ''tenantmembership''), (''dms_document_types'', ''documenttype'')]"
  "created_by_deps migrations dms_documents_0002_document_metadata = [(''dms_documents'',
     ''document'')]"
  "created_by_deps migrations dms_document_versions_0001_initial = [(''tenants'', ''tenant''),
     (''tenants'', ''tenantsetting''), (''iam_users'', ''user''), (''iam_users'', ''userprofile''),
     (''iam_users'', ''tenantmembership''), (''dms_documents'', ''document'')]"
  "created_by_deps migrations dms_metadata_0001_initial = [(''tenants'', ''tenant''), (''tenants'',
     ''tenantsetting''), (''dms_document_types'', ''documenttype'')]"
  "created_by_deps migrations dms_ingestion_0001_initial = [(''tenants'', ''tenant''), (''tenants'',
     ''tenantsetting''), (''iam_users'', ''user''), (''iam_users'', ''userprofile''), (''iam_users'',
     ''tenantmembership'')]"
  "created_by_deps migrations sys_audit_0001_initial = [(''tenants'', ''tenant''), (''tenants'',
     ''tenantsetting''), (''iam_users'', ''user''), (''iam_users'', ''userprofile''), (''iam_users'',
     ''tenantmembership'')]"
  "created_by_deps migrations sys_user_event_0001_initial = [(''tenants'', ''tenant''), (''tenants'',
     ''tenantsetting''), (''iam_users'', ''user''), (''iam_users'', ''userprofile''), (''iam_users'',
     ''tenantmembership'')]"
  "created_by_deps migrations sys_eventbus_0001_initial = []"
  by (simp_all add: created_by_deps_table created_table migration_dependencies)

lemma migration_serves:
  "served ''tenants'' (library_models @ []) (mg_ops tenants_0001_initial)"
  "served ''iam_roles'' (library_models @ [(''tenants'', ''tenant''), (''tenants'', ''tenantsetting'')])
     (mg_ops iam_roles_0001_initial)"
  "served ''iam_users'' (library_models @ [(''tenants'', ''tenant''), (''tenants'', ''tenantsetting''),
     (''iam_roles'', ''tenantrole'')]) (mg_ops iam_users_0001_initial)"
  "served ''iam_users'' (library_models @ [(''tenants'', ''tenant''), (''tenants'', ''tenantsetting''),
     (''iam_users'', ''user''), (''iam_users'', ''userprofile''), (''iam_users'',
     ''tenantmembership'')]) (mg_ops iam_users_0002_usertenantattribute)"
  "served ''iam_teams'' (library_models @ [(''tenants'', ''tenant''), (''tenants'', ''tenantsetting'')])
     (mg_ops iam_teams_0001_initial)"
  "served ''iam_teams'' (library_models @ [(''tenants'', ''tenant''), (''tenants'', ''tenantsetting''),
     (''iam_users'', ''user''), (''iam_users'', ''userprofile''), (''iam_users'', ''tenantmembership''),
     (''iam_teams'', ''teammembership''), (''iam_teams'', ''team'')]) (mg_ops iam_teams_0002_initial)"
  "served ''iam_auth'' (library_models @ []) (mg_ops iam_auth_0001_initial)"
  "served ''iam_auth'' (library_models @ [(''iam_users'', ''user''), (''iam_users'', ''userprofile''),
     (''iam_users'', ''tenantmembership''), (''iam_auth'', ''userpasswordhistory'')]) (mg_ops
     iam_auth_0002_initial)"
  "served ''iam_mfa'' (library_models @ [(''tenants'', ''tenant''), (''tenants'', ''tenantsetting''),
     (''iam_users'', ''user''), (''iam_users'', ''userprofile''), (''iam_users'',
     ''tenantmembership'')]) (mg_ops iam_mfa_0001_initial)"
  "served ''iam_oauth'' (library_models @ [(''tenants'', ''tenant''), (''tenants'', ''tenantsetting'')])
     (mg_ops iam_oauth_0001_initial)"
  "served ''dms_document_types'' (library_models @ [(''tenants'', ''tenant''), (''tenants'',
     ''tenantsetting'')]) (mg_ops dms_document_types_0001_initial)"
  "served ''dms_documents'' (library_models @ [(''tenants'', ''tenant''), (''tenants'',
     ''tenantsetting''), (''iam_users'', ''user''), (''iam_users'', ''userprofile''), (''iam_users'',
     ''tenantmembership''), (''dms_document_types'', ''documenttype'')]) (mg_ops
     dms_documents_0001_initial)"
  "served ''dms_documents'' (library_models @ [(''dms_documents'', ''document'')]) (mg_ops
     dms_documents_0002_document_metadata)"
  "served ''dms_document_versions'' (library_models @ [(''tenants'', ''tenant''), (''tenants'',
     ''tenantsetting''), (''iam_users'', ''user''), (''iam_users'', ''userprofile''), (''iam_users'',
     ''tenantmembership''), (''dms_documents'', ''document'')]) (mg_ops
     dms_document_versions_0001_initial)"
  "served ''dms_metadata'' (library_models @ [(''tenants'', ''tenant''), (''tenants'',
     ''tenantsetting''), (''dms_document_types'', ''documenttype'')]) (mg_ops
     dms_metadata_0001_initial)"
  "served ''dms_ingestion'' (library_models @ [(''tenants'', ''tenant''), (''tenants'',
     ''tenantsetting''), (''iam_users'', ''user''), (''iam_users'', ''userprofile''), (''iam_users'',
     ''tenantmembership'')]) (mg_ops dms_ingestion_0001_initial)"
  "served ''sys_audit'' (library_models @ [(''tenants'', ''tenant''), (''tenants'', ''tenantsetting''),
     (''iam_users'', ''user''), (''iam_users'', ''userprofile''), (''iam_users'',
     ''tenantmembership'')]) (mg_ops sys_audit_0001_initial)"
  "served ''sys_user_event'' (library_models @ [(''tenants'', ''tenant''), (''tenants'',
     ''tenantsetting''), (''iam_users'', ''user''), (''iam_users'', ''userprofile''), (''iam_users'',
     ''tenantmembership'')]) (mg_ops sys_user_event_0001_initial)"
  "served ''sys_eventbus'' (library_models @ []) (mg_ops sys_eventbus_0001_initial)"
  by (simp_all add: migration_files lower_names label_keys label_simps relation_targets_fld library_models_def resolve_columns_def)

lemma migrations_set:
  "set migrations =
     {tenants_0001_initial, iam_roles_0001_initial, iam_users_0001_initial,
        iam_users_0002_usertenantattribute, iam_teams_0001_initial, iam_teams_0002_initial,
        iam_auth_0001_initial, iam_auth_0002_initial, iam_mfa_0001_initial, iam_oauth_0001_initial,
        dms_document_types_0001_initial, dms_documents_0001_initial,
        dms_documents_0002_document_metadata, dms_document_versions_0001_initial,
        dms_metadata_0001_initial, dms_ingestion_0001_initial, sys_audit_0001_initial,
        sys_user_event_0001_initial, sys_eventbus_0001_initial}"
  by (simp add: migrations_def)

lemma migration_apps:
  "mg_app ` set migrations =
     {''tenants'', ''iam_roles'', ''iam_users'', ''iam_teams'', ''iam_auth'', ''iam_mfa'',
        ''iam_oauth'', ''dms_document_types'', ''dms_documents'', ''dms_document_versions'',
        ''dms_metadata'', ''dms_ingestion'', ''sys_audit'', ''sys_user_event'', ''sys_eventbus''}"
  by (simp add: migrations_set migration_headers insert_commute)

lemma app_files:
  "files_of migrations ''tenants'' = [tenants_0001_initial]"
  "files_of migrations ''iam_roles'' = [iam_roles_0001_initial]"
  "files_of migrations ''iam_users'' = [iam_users_0001_initial, iam_users_0002_usertenantattribute]"
  "files_of migrations ''iam_teams'' = [iam_teams_0001_initial, iam_teams_0002_initial]"
  "files_of migrations ''iam_auth'' = [iam_auth_0001_initial, iam_auth_0002_initial]"
  "files_of migrations ''iam_mfa'' = [iam_mfa_0001_initial]"
  "files_of migrations ''iam_oauth'' = [iam_oauth_0001_initial]"
  "files_of migrations ''dms_document_types'' = [dms_document_types_0001_initial]"
  "files_of migrations ''dms_documents'' = [dms_documents_0001_initial,
     dms_documents_0002_document_metadata]"
  "files_of migrations ''dms_document_versions'' = [dms_document_versions_0001_initial]"
  "files_of migrations ''dms_metadata'' = [dms_metadata_0001_initial]"
  "files_of migrations ''dms_ingestion'' = [dms_ingestion_0001_initial]"
  "files_of migrations ''sys_audit'' = [sys_audit_0001_initial]"
  "files_of migrations ''sys_user_event'' = [sys_user_event_0001_initial]"
  "files_of migrations ''sys_eventbus'' = [sys_eventbus_0001_initial]"
  by (simp_all add: files_of_def migrations_def migration_headers)

lemma migrations_served:
  assumes "m \<in> set migrations"
  shows "served (mg_app m) (library_models @ created_by_deps migrations m) (mg_ops m)"
  using assms unfolding migrations_set
  by (elim insertE emptyE; simp only: migration_headers migration_provides migration_serves)

lemma other_apps: "a \<notin> mg_app ` set migrations \<Longrightarrow> files_of migrations a = []"
  by (auto simp: files_of_def filter_empty_conv)

lemma migrations_chained: "chained migrations (files_of migrations a)"
proof (cases "a \<in> mg_app ` set migrations")
  case True
  then show ?thesis
    unfolding migration_apps
    by (elim insertE emptyE; simp add: app_files migration_dependencies mg_key_def migration_headers)
qed (simp add: other_apps)

section \<open>The tables as declared\<close>

text \<open>
  A table is built as its model declares it when it has the same fields with the same types
  and options, the same name, order and plural, and the same constraints and indexes, up to
  three differences: the fields of \<open>User\<close> that the framework declares, \<open>editable\<close>, which is
  no property of a table, and the index \<open>stray_indexes\<close> that no model declares.
\<close>

definition library_fields :: "model_key \<Rightarrow> string list" where
  "library_fields k =
     (if k = (''iam_users'', ''user'')
      then [''password'', ''last_login'', ''is_superuser'', ''groups'', ''user_permissions''] else [])"

definition stray_indexes :: "model_key \<Rightarrow> (string \<times> string list) list" where
  "stray_indexes k =
     (if k = (''dms_metadata'', ''metadatadefinition'')
      then [(''dms_metadat_tenant__f11c59_idx'', [''tenant'', ''document_type''])] else [])"

definition same_field :: "model_field \<Rightarrow> model_field \<Rightarrow> bool" where
  "same_field f g \<longleftrightarrow> f\<lparr>mf_editable := True\<rparr> = g\<lparr>mf_editable := True\<rparr>"

definition same_columns :: "string list \<Rightarrow> columns \<Rightarrow> columns \<Rightarrow> bool" where
  "same_columns lib fs gs \<longleftrightarrow>
     list_all (\<lambda>(n, f). n \<in> set lib \<or> (case map_of gs n of None \<Rightarrow> False | Some g \<Rightarrow> same_field f g)) fs
   \<and> list_all (\<lambda>(n, g). list_ex (\<lambda>c. fst c = n) fs) gs"

definition as_declared :: "model_key \<Rightarrow> data_model \<Rightarrow> data_model \<Rightarrow> bool" where
  "as_declared k m d \<longleftrightarrow>
     same_columns (library_fields k) (dm_fields m) (dm_fields d)
   \<and> mt_table (dm_meta m) = mt_table (dm_meta d)
   \<and> mt_ordering (dm_meta m) = mt_ordering (dm_meta d)
   \<and> mt_plural (dm_meta m) = mt_plural (dm_meta d)
   \<and> set (mt_constraints (dm_meta m)) = set (mt_constraints (dm_meta d))
   \<and> set (mt_indexes (dm_meta m)) = set (mt_indexes (dm_meta d)) \<union> set (stray_indexes k)"

definition app_ops :: "string \<Rightarrow> operation list" where
  "app_ops a = concat (map mg_ops (files_of migrations a))"

definition built :: "model_key \<Rightarrow> data_model \<Rightarrow> bool" where
  "built k d \<longleftrightarrow>
     (case alter_all k (ops_on (snd k) (app_ops (fst k))) None of
        Inr (Some m) \<Rightarrow> as_declared k m d | _ \<Rightarrow> False)"

lemma role_kinds_labels:
  "role_kinds = [(''owner'', ''Owner''), (''admin'', ''Admin''), (''member'', ''Member''), (''viewer'', ''Viewer''),
     (''custom'', ''Custom'')]"
  by code_simp

lemmas built_simps = built_def app_ops_def app_files migration_files lower_names ops_on_def resolve_columns_def
  known_fields_def resolve_field_def resolve_label_def label_of_def auth_user_model_def as_declared_def same_columns_def
  same_field_def fld_def library_fields_def stray_indexes_def model_class_def inherit_fields_def Let_def
  tenant_aware_model_def base_model_columns_def uuid_primary_key_model_def time_stamped_model_def
  soft_deletable_model_def role_kinds_labels availabilities_def storage_states_def upload_states_def metadata_types_def

lemma operation_tables:
  "op_model ` set (app_ops ''tenants'') = {''tenant'', ''tenantsetting''}"
  "op_model ` set (app_ops ''iam_roles'') = {''tenantrole''}"
  "op_model ` set (app_ops ''iam_users'') = {''user'', ''userprofile'', ''tenantmembership'',
     ''usertenantattribute''}"
  "op_model ` set (app_ops ''iam_teams'') = {''team'', ''teammembership''}"
  "op_model ` set (app_ops ''iam_auth'') = {''userpasswordhistory''}"
  "op_model ` set (app_ops ''iam_mfa'') = {''mfadevice'', ''mfabackupcode''}"
  "op_model ` set (app_ops ''iam_oauth'') = {''oauth2client'', ''authorizationcode'',
     ''oauth2refreshtoken''}"
  "op_model ` set (app_ops ''dms_document_types'') = {''documenttype''}"
  "op_model ` set (app_ops ''dms_documents'') = {''document''}"
  "op_model ` set (app_ops ''dms_document_versions'') = {''documentversion''}"
  "op_model ` set (app_ops ''dms_metadata'') = {''metadatadefinition''}"
  "op_model ` set (app_ops ''dms_ingestion'') = {''uploadsession''}"
  "op_model ` set (app_ops ''sys_audit'') = {''auditlog''}"
  "op_model ` set (app_ops ''sys_user_event'') = {''userevent'', ''authattemptlog''}"
  "op_model ` set (app_ops ''sys_eventbus'') = {''processedevent'', ''deadletterevent''}"
  by (auto simp: app_ops_def app_files migration_files lower_names)

lemma built_tenant_model: "built (''tenants'', ''tenant'') (snd tenant_model)"
  by (simp add: built_simps tenant_model_def)

lemma built_tenant_setting_model: "built (''tenants'', ''tenantsetting'') (snd tenant_setting_model)"
  by (simp add: built_simps tenant_setting_model_def)

lemma built_tenant_role_model: "built (''iam_roles'', ''tenantrole'') (snd tenant_role_model)"
  by (simp add: built_simps tenant_role_model_def)

lemma built_user_model: "built (''iam_users'', ''user'') (snd user_model)"
  by (simp add: built_simps user_model_def)

lemma built_user_profile_model: "built (''iam_users'', ''userprofile'') (snd user_profile_model)"
  by (simp add: built_simps user_profile_model_def)

lemma built_tenant_membership_model: "built (''iam_users'', ''tenantmembership'') (snd tenant_membership_model)"
  by (simp add: built_simps tenant_membership_model_def)

lemma built_user_tenant_attribute_model: "built (''iam_users'', ''usertenantattribute'') (snd user_tenant_attribute_model)"
  by (simp add: built_simps user_tenant_attribute_model_def)

lemma built_team_model: "built (''iam_teams'', ''team'') (snd team_model)"
  by (simp add: built_simps team_model_def)

lemma built_team_membership_model: "built (''iam_teams'', ''teammembership'') (snd team_membership_model)"
  by (simp add: built_simps team_membership_model_def)

lemma built_user_password_history_model: "built (''iam_auth'', ''userpasswordhistory'') (snd user_password_history_model)"
  by (simp add: built_simps user_password_history_model_def)

lemma built_mfa_device_model: "built (''iam_mfa'', ''mfadevice'') (snd mfa_device_model)"
  by (simp add: built_simps mfa_device_model_def)

lemma built_mfa_backup_code_model: "built (''iam_mfa'', ''mfabackupcode'') (snd mfa_backup_code_model)"
  by (simp add: built_simps mfa_backup_code_model_def)

lemma built_oauth2_client_model: "built (''iam_oauth'', ''oauth2client'') (snd oauth2_client_model)"
  by (simp add: built_simps oauth2_client_model_def)

lemma built_authorization_code_model: "built (''iam_oauth'', ''authorizationcode'') (snd authorization_code_model)"
  by (simp add: built_simps authorization_code_model_def)

lemma built_oauth2_refresh_token_model: "built (''iam_oauth'', ''oauth2refreshtoken'') (snd oauth2_refresh_token_model)"
  by (simp add: built_simps oauth2_refresh_token_model_def)

lemma built_document_type_model: "built (''dms_document_types'', ''documenttype'') (snd document_type_model)"
  by (simp add: built_simps document_type_model_def)

lemma built_document_model: "built (''dms_documents'', ''document'') (snd document_model)"
  by (simp add: built_simps document_model_def)

lemma built_document_version_model: "built (''dms_document_versions'', ''documentversion'') (snd document_version_model)"
  by (simp add: built_simps document_version_model_def)

lemma built_metadata_definition_model: "built (''dms_metadata'', ''metadatadefinition'') (snd metadata_definition_model)"
  by (simp add: built_simps metadata_definition_model_def)

lemma built_upload_session_model: "built (''dms_ingestion'', ''uploadsession'') (snd upload_session_model)"
  by (simp add: built_simps upload_session_model_def)

lemma built_audit_log_model: "built (''sys_audit'', ''auditlog'') (snd audit_log_model)"
  by (simp add: built_simps audit_log_model_def)

lemma built_user_event_model: "built (''sys_user_event'', ''userevent'') (snd user_event_model)"
  by (simp add: built_simps user_event_model_def)

lemma built_auth_attempt_log_model: "built (''sys_user_event'', ''authattemptlog'') (snd auth_attempt_log_model)"
  by (simp add: built_simps auth_attempt_log_model_def)

lemma built_processed_event_model: "built (''sys_eventbus'', ''processedevent'') (snd processed_event_model)"
  by (simp add: built_simps processed_event_model_def)

lemma built_dead_letter_event_model: "built (''sys_eventbus'', ''deadletterevent'') (snd dead_letter_event_model)"
  by (simp add: built_simps dead_letter_event_model_def)

lemma declared_firsts:
  "fst tenant_model = (''tenants'', ''tenant'')"
  "fst tenant_setting_model = (''tenants'', ''tenantsetting'')"
  "fst user_model = (''iam_users'', ''user'')"
  "fst user_profile_model = (''iam_users'', ''userprofile'')"
  "fst tenant_membership_model = (''iam_users'', ''tenantmembership'')"
  "fst user_tenant_attribute_model = (''iam_users'', ''usertenantattribute'')"
  "fst tenant_role_model = (''iam_roles'', ''tenantrole'')"
  "fst team_model = (''iam_teams'', ''team'')"
  "fst team_membership_model = (''iam_teams'', ''teammembership'')"
  "fst user_password_history_model = (''iam_auth'', ''userpasswordhistory'')"
  "fst mfa_device_model = (''iam_mfa'', ''mfadevice'')"
  "fst mfa_backup_code_model = (''iam_mfa'', ''mfabackupcode'')"
  "fst oauth2_client_model = (''iam_oauth'', ''oauth2client'')"
  "fst authorization_code_model = (''iam_oauth'', ''authorizationcode'')"
  "fst oauth2_refresh_token_model = (''iam_oauth'', ''oauth2refreshtoken'')"
  "fst document_type_model = (''dms_document_types'', ''documenttype'')"
  "fst document_model = (''dms_documents'', ''document'')"
  "fst document_version_model = (''dms_document_versions'', ''documentversion'')"
  "fst metadata_definition_model = (''dms_metadata'', ''metadatadefinition'')"
  "fst upload_session_model = (''dms_ingestion'', ''uploadsession'')"
  "fst audit_log_model = (''sys_audit'', ''auditlog'')"
  "fst user_event_model = (''sys_user_event'', ''userevent'')"
  "fst auth_attempt_log_model = (''sys_user_event'', ''authattemptlog'')"
  "fst processed_event_model = (''sys_eventbus'', ''processedevent'')"
  "fst dead_letter_event_model = (''sys_eventbus'', ''deadletterevent'')"
  by (simp_all add: model_class_def Let_def lower_names
    tenant_model_def tenant_setting_model_def user_model_def user_profile_model_def
       tenant_membership_model_def user_tenant_attribute_model_def tenant_role_model_def team_model_def
       team_membership_model_def user_password_history_model_def mfa_device_model_def
       mfa_backup_code_model_def oauth2_client_model_def authorization_code_model_def
       oauth2_refresh_token_model_def document_type_model_def document_model_def
       document_version_model_def metadata_definition_model_def upload_session_model_def
       audit_log_model_def user_event_model_def auth_attempt_log_model_def processed_event_model_def
       dead_letter_event_model_def)

lemma declared_keys:
  "fst ` set declared_models =
     {(''tenants'', ''tenant''), (''tenants'', ''tenantsetting''), (''iam_users'', ''user''),
        (''iam_users'', ''userprofile''), (''iam_users'', ''tenantmembership''), (''iam_users'',
        ''usertenantattribute''), (''iam_roles'', ''tenantrole''), (''iam_teams'', ''team''),
        (''iam_teams'', ''teammembership''), (''iam_auth'', ''userpasswordhistory''), (''iam_mfa'',
        ''mfadevice''), (''iam_mfa'', ''mfabackupcode''), (''iam_oauth'', ''oauth2client''),
        (''iam_oauth'', ''authorizationcode''), (''iam_oauth'', ''oauth2refreshtoken''),
        (''dms_document_types'', ''documenttype''), (''dms_documents'', ''document''),
        (''dms_document_versions'', ''documentversion''), (''dms_metadata'', ''metadatadefinition''),
        (''dms_ingestion'', ''uploadsession''), (''sys_audit'', ''auditlog''), (''sys_user_event'',
        ''userevent''), (''sys_user_event'', ''authattemptlog''), (''sys_eventbus'',
        ''processedevent''), (''sys_eventbus'', ''deadletterevent'')}"
  by (simp add: declared_models_def declared_firsts)

lemmas built_models =
  built_tenant_model built_tenant_setting_model built_user_model built_user_profile_model
     built_tenant_membership_model built_user_tenant_attribute_model built_tenant_role_model
     built_team_model built_team_membership_model built_user_password_history_model
     built_mfa_device_model built_mfa_backup_code_model built_oauth2_client_model
     built_authorization_code_model built_oauth2_refresh_token_model built_document_type_model
     built_document_model built_document_version_model built_metadata_definition_model
     built_upload_session_model built_audit_log_model built_user_event_model
     built_auth_attempt_log_model built_processed_event_model built_dead_letter_event_model


lemma declared_built:
  assumes "(k, d) \<in> set declared_models"
  shows "built k d"
proof -
  have "list_all (\<lambda>p. built (fst p) (snd p)) declared_models"
    unfolding declared_models_def by (simp add: declared_firsts built_models)
  then show ?thesis
    using assms by (auto simp: list_all_iff)
qed

lemma declared_iff: "k \<in> op_model ` set (app_ops a) \<longleftrightarrow> (a, k) \<in> fst ` set declared_models"
proof (cases "a \<in> mg_app ` set migrations")
  case True
  then show ?thesis
    unfolding migration_apps declared_keys
    by (elim insertE emptyE; simp add: operation_tables)
next
  case False
  then have "(a, k) \<notin> fst ` set declared_models"
    unfolding migration_apps declared_keys by auto
  then show ?thesis
    using False by (simp add: app_ops_def other_apps)
qed

text \<open>What the operations make of each table.\<close>

lemma table_of_ops:
  shows "\<exists>r. alter_all (a, k) (ops_on k (app_ops a)) None = Inr r
    \<and> (case r of None \<Rightarrow> (a, k) \<notin> fst ` set declared_models
       | Some m \<Rightarrow> \<exists>d. ((a, k), d) \<in> set declared_models \<and> as_declared (a, k) m d)"
proof (cases "(a, k) \<in> fst ` set declared_models")
  case True
  then obtain d where d: "((a, k), d) \<in> set declared_models"
    by auto
  then show ?thesis
    using declared_built[OF d] by (auto simp: built_def split: sum.splits option.splits)
next
  case False
  then have "ops_on k (app_ops a) = []"
    using declared_iff[of k a] by (auto simp: ops_on_def filter_empty_conv)
  then show ?thesis
    using False by simp
qed

lemma platform_tables:
  "local_tables migrations a (length (files_of migrations a)) = Inr (plan_tables migrations a)
    \<and> alter_all (a, k) (ops_on k (app_ops a)) None = Inr (plan_tables migrations a k)"
proof -
  obtain T where T: "apply_locals a (app_ops a) (\<lambda>_. None) = Inr T"
    "\<forall>k. alter_all (a, k) (ops_on k (app_ops a)) None = Inr (T k)"
    using apply_locals_by_table[of a "app_ops a" "\<lambda>_. None"] table_of_ops[of a] by metis
  then have "local_tables migrations a (length (files_of migrations a)) = Inr T"
    by (simp add: local_tables_def app_ops_def)
  then show ?thesis
    using T(2) by (simp add: plan_tables_def)
qed

interpretation platform: migration_plan migrations
proof
  show "distinct (map mg_key migrations)"
    by (simp add: all_keys)
qed (use migrations_chained migrations_served platform_tables in blast)+

text \<open>C13: The migration files build the tables the models declare, in whatever order the
  framework runs them: if every file runs once and after the files it depends on, no operation
  fails (no table or field is created twice, every reference finds its table), and afterwards
  there is a table for each declared model and no other, with the fields, keys, constraints and
  indexes the model declares, the framework's fields of the user and one index of the metadata
  definitions aside.\<close>

theorem migrations_build_models:
  assumes "allowed_order migrations ms"
  shows "\<exists>S. migrate ms no_tables = Inr S
    \<and> (\<forall>a k. case S a k of None \<Rightarrow> (a, k) \<notin> fst ` set declared_models
         | Some m \<Rightarrow> \<exists>d. ((a, k), d) \<in> set declared_models \<and> as_declared (a, k) m d)"
proof -
  have "case plan_tables migrations a k of None \<Rightarrow> (a, k) \<notin> fst ` set declared_models
         | Some m \<Rightarrow> \<exists>d. ((a, k), d) \<in> set declared_models \<and> as_declared (a, k) m d" for a k
    using table_of_ops[of a k] platform_tables[of a k] by auto
  then show ?thesis
    using platform.order_irrelevant[OF assms] by blast
qed

definition other_order :: "migration list" where
  "other_order =
     [sys_eventbus_0001_initial, iam_auth_0001_initial, tenants_0001_initial,
      iam_roles_0001_initial, iam_users_0001_initial, iam_users_0002_usertenantattribute,
      iam_teams_0001_initial, iam_teams_0002_initial, iam_auth_0002_initial,
      iam_mfa_0001_initial, iam_oauth_0001_initial, dms_document_types_0001_initial,
      dms_documents_0001_initial, dms_documents_0002_document_metadata,
      dms_document_versions_0001_initial, dms_metadata_0001_initial, dms_ingestion_0001_initial,
      sys_audit_0001_initial, sys_user_event_0001_initial]"

lemma migrations_build_models_witness:
  "\<exists>S m. migrate other_order no_tables = Inr S \<and> S ''iam_teams'' ''teammembership'' = Some m
    \<and> (''unique_member_per_team'', [''team'', ''membership'']) \<in> set (mt_constraints (dm_meta m))"
proof -
  have "distinct (map mg_key other_order)"
    by (simp add: other_order_def mg_key_def migration_headers)
  moreover have "set other_order = set migrations"
    unfolding other_order_def migrations_set by auto
  moreover have "in_order migrations [] other_order"
    by (simp add: other_order_def mg_key_def migration_headers migration_dependencies)
  ultimately have "allowed_order migrations other_order"
    by (simp add: allowed_order_def distinct_map)
  then obtain S where S: "migrate other_order no_tables = Inr S"
    "\<forall>a k. case S a k of None \<Rightarrow> (a, k) \<notin> fst ` set declared_models
         | Some m \<Rightarrow> \<exists>d. ((a, k), d) \<in> set declared_models \<and> as_declared (a, k) m d"
    using migrations_build_models by blast
  have "(''iam_teams'', ''teammembership'') \<in> fst ` set declared_models"
    by (simp add: declared_keys)
  moreover have "case S ''iam_teams'' ''teammembership'' of
       None \<Rightarrow> (''iam_teams'', ''teammembership'') \<notin> fst ` set declared_models
     | Some m \<Rightarrow> \<exists>d. ((''iam_teams'', ''teammembership''), d) \<in> set declared_models
         \<and> as_declared (''iam_teams'', ''teammembership'') m d"
    using S(2) by blast
  ultimately obtain m d where m: "S ''iam_teams'' ''teammembership'' = Some m"
    "((''iam_teams'', ''teammembership''), d) \<in> set declared_models"
    "as_declared (''iam_teams'', ''teammembership'') m d"
    by (cases "S ''iam_teams'' ''teammembership''") auto
  have keys: "distinct (map fst declared_models)"
    by (simp add: declared_models_def declared_firsts)
  have "((''iam_teams'', ''teammembership''), snd team_membership_model) \<in> set declared_models"
    by (simp add: declared_models_def prod_eq_iff declared_firsts)
  then have "d = snd team_membership_model"
    by (rule eq_key_imp_eq_value[OF keys m(2)])
  then have "set (mt_constraints (dm_meta m)) = {(''unique_member_per_team'', [''team'', ''membership''])}"
    using m(3) by (simp add: as_declared_def team_membership_model_def model_class_def Let_def)
  then show ?thesis
    using S(1) m(1) by blast
qed

end
