(* ===== verification/Deletion.thy ===== *)
theory Deletion
  imports MigratedSchema Directory Lifecycle Utilities
begin

text \<open>
  What removing a row does to the rows that refer to it.  The \<open>on_delete\<close> rules are those the
  models declare; the framework's collector follows them: what refers to a deleted row by
  \<open>CASCADE\<close> is deleted too, a reference by \<open>SET_NULL\<close> is cleared, and one row that refers to a
  deleted row by \<open>PROTECT\<close> refuses the whole deletion (\<open>ProtectedError\<close>, an
  \<open>IntegrityError\<close>).  Then the endpoints that really remove rows, with the audit entry that is
  to record the removal.
\<close>

section \<open>Rows and the rules of their references\<close>

record table_row =
  tr_model :: model_key
  tr_pk :: string
  tr_refs :: "(string \<times> string option) list"

definition model_relations :: "data_model \<Rightarrow> (string \<times> model_key \<times> on_delete) list" where
  "model_relations d =
     concat (map (\<lambda>(n, f). case relation f of None \<Rightarrow> [] | Some (t, od) \<Rightarrow> [(n, t, od)]) (dm_fields d))"

definition relations :: "model_key \<Rightarrow> (string \<times> model_key \<times> on_delete) list" where
  "relations k = (case map_of declared_models k of None \<Rightarrow> [] | Some d \<Rightarrow> model_relations d)"

definition refers :: "on_delete \<Rightarrow> table_row \<Rightarrow> table_row \<Rightarrow> bool" where
  "refers od r x \<longleftrightarrow>
     list_ex (\<lambda>(n, t, od'). od' = od \<and> t = tr_model x \<and> map_of (tr_refs r) n = Some (Some (tr_pk x)))
       (relations (tr_model r))"

section \<open>The collector\<close>

definition cascades :: "table_row list \<Rightarrow> table_row \<Rightarrow> table_row list" where
  "cascades db x = filter (\<lambda>r. refers CASCADE r x) db"

function collect :: "table_row list \<Rightarrow> table_row list \<Rightarrow> table_row list \<Rightarrow> table_row list" where
  "collect db seen [] = seen"
| "collect db seen (x # todo) =
     (if x \<in> set seen \<or> x \<notin> set db then collect db seen todo
      else collect db (x # seen) (cascades db x @ todo))"
  by pat_completeness auto
termination
proof (relation "measures [\<lambda>(db, seen, todo). card (set db - set seen), \<lambda>(db, seen, todo). length todo]")
  fix db seen :: "table_row list" and x todo
  assume "\<not> (x \<in> set seen \<or> x \<notin> set db)"
  then have "card (set db - set (x # seen)) < card (set db - set seen)"
    by (intro psubset_card_mono) auto
  then show "((db, x # seen, cascades db x @ todo), (db, seen, x # todo))
      \<in> measures [\<lambda>(db, seen, todo). card (set db - set seen), \<lambda>(db, seen, todo). length todo]"
    by simp
qed auto

definition nullify :: "table_row list \<Rightarrow> table_row \<Rightarrow> table_row" where
  "nullify D r =
     r\<lparr>tr_refs := map (\<lambda>(n, v). (n,
        if list_ex (\<lambda>(n', t, od). n' = n \<and> od = SET_NULL \<and> list_ex (\<lambda>y. tr_model y = t \<and> v = Some (tr_pk y)) D)
             (relations (tr_model r))
        then None else v)) (tr_refs r)\<rparr>"

definition delete_instance :: "table_row list \<Rightarrow> table_row \<Rightarrow> table_row list res" where
  "delete_instance db x =
     (let D = collect db [] [x] in
      if list_ex (\<lambda>r. list_ex (refers PROTECT r) D) db then Inl IntegrityErr
      else Inr (map (nullify D) (filter (\<lambda>r. r \<notin> set D) db)))"

section \<open>What is collected\<close>

inductive_set owned :: "table_row list \<Rightarrow> table_row \<Rightarrow> table_row set"
  for db x where
  self: "x \<in> set db \<Longrightarrow> x \<in> owned db x"
| refers: "\<lbrakk>y \<in> owned db x; r \<in> set db; refers CASCADE r y\<rbrakk> \<Longrightarrow> r \<in> owned db x"

lemma collect_closed:
  assumes "\<And>y r. \<lbrakk>y \<in> set seen; r \<in> set db; refers CASCADE r y\<rbrakk> \<Longrightarrow> r \<in> set seen \<union> set todo"
  shows "set seen \<union> (set todo \<inter> set db) \<subseteq> set (collect db seen todo)
    \<and> (\<forall>y r. y \<in> set (collect db seen todo) \<and> r \<in> set db \<and> refers CASCADE r y \<longrightarrow> r \<in> set (collect db seen todo))"
  using assms
proof (induction db seen todo rule: collect.induct)
  case (2 db seen x todo)
  show ?case
  proof (cases "x \<in> set seen \<or> x \<notin> set db")
    case True
    have "set seen \<union> (set todo \<inter> set db) \<subseteq> set (collect db seen todo)
      \<and> (\<forall>y r. y \<in> set (collect db seen todo) \<and> r \<in> set db \<and> refers CASCADE r y \<longrightarrow> r \<in> set (collect db seen todo))"
      by (rule 2(1)[OF True]) (use 2(3) True in fastforce)
    then show ?thesis
      using True by auto
  next
    case False
    have "set (x # seen) \<union> (set (cascades db x @ todo) \<inter> set db) \<subseteq> set (collect db (x # seen) (cascades db x @ todo))
      \<and> (\<forall>y r. y \<in> set (collect db (x # seen) (cascades db x @ todo)) \<and> r \<in> set db \<and> refers CASCADE r y
           \<longrightarrow> r \<in> set (collect db (x # seen) (cascades db x @ todo)))"
      by (rule 2(2)[OF False]) (use 2(3) in \<open>auto simp: cascades_def\<close>)
    then show ?thesis
      using False by auto
  qed
qed auto

lemma collect_owned:
  assumes "set seen \<subseteq> owned db x" and "set todo \<inter> set db \<subseteq> owned db x"
  shows "set (collect db seen todo) \<subseteq> owned db x"
  using assms
proof (induction db seen todo rule: collect.induct)
  case (2 db seen y todo)
  show ?case
  proof (cases "y \<in> set seen \<or> y \<notin> set db")
    case True
    then show ?thesis
      using 2(1)[OF True] 2(3,4) by auto
  next
    case False
    then have "y \<in> owned db x"
      using 2(4) by auto
    then have "set (cascades db y @ todo) \<inter> set db \<subseteq> owned db x"
      using 2(4) by (auto simp: cascades_def intro: owned.refers)
    then show ?thesis
      using 2(2)[OF False] 2(3) \<open>y \<in> owned db x\<close> False by auto
  qed
qed auto

text \<open>The collector finds what the deleted row owns, directly or through others, and nothing else.\<close>

lemma collect_correct:
  assumes "x \<in> set db"
  shows "set (collect db [] [x]) = owned db x"
proof
  show "set (collect db [] [x]) \<subseteq> owned db x"
    by (rule collect_owned) (use assms in \<open>auto intro: owned.self\<close>)
  have c: "set [] \<union> (set [x] \<inter> set db) \<subseteq> set (collect db [] [x])
    \<and> (\<forall>y r. y \<in> set (collect db [] [x]) \<and> r \<in> set db \<and> refers CASCADE r y \<longrightarrow> r \<in> set (collect db [] [x]))"
    by (rule collect_closed) simp
  show "owned db x \<subseteq> set (collect db [] [x])"
  proof
    fix r
    assume "r \<in> owned db x"
    then show "r \<in> set (collect db [] [x])"
      by (induction rule: owned.induct) (use c assms in auto)
  qed
qed

declare collect.simps [simp del]

lemma owned_sub: "r \<in> owned db x \<Longrightarrow> r \<in> set db"
  by (induction rule: owned.induct) auto

section \<open>A deletion leaves no dangling reference\<close>

definition nullable :: "data_model \<Rightarrow> string \<Rightarrow> bool" where
  "nullable d n \<longleftrightarrow> list_ex (\<lambda>(n', f). n' = n \<and> mf_null f) (dm_fields d)"

definition column_nullable :: "model_key \<Rightarrow> string \<Rightarrow> bool" where
  "column_nullable k n \<longleftrightarrow> (case map_of declared_models k of None \<Rightarrow> False | Some d \<Rightarrow> nullable d n)"

text \<open>Every reference is filled with the key of a row there is, or is empty where it may be.\<close>

definition references_ok :: "table_row list \<Rightarrow> bool" where
  "references_ok db \<longleftrightarrow>
     list_all (\<lambda>r. list_all (\<lambda>(n, t, od).
        case map_of (tr_refs r) n of
          None \<Rightarrow> False
        | Some None \<Rightarrow> column_nullable (tr_model r) n
        | Some (Some p) \<Rightarrow> list_ex (\<lambda>y. tr_model y = t \<and> tr_pk y = p) db) (relations (tr_model r))) db"

lemma relations_of_model:
  assumes "(k, d) \<in> set declared_models"
  shows "relations k = model_relations d" and "column_nullable k n = nullable d n"
proof -
  have "distinct (map fst declared_models)"
    by (simp add: declared_models_def declared_firsts)
  then have "map_of declared_models k = Some d"
    using assms by (rule map_of_is_SomeI)
  then show "relations k = model_relations d" and "column_nullable k n = nullable d n"
    by (simp_all add: relations_def column_nullable_def)
qed

lemma declared_pair:
  "p \<in> set declared_models \<Longrightarrow> fst p = k \<Longrightarrow> (k, snd p) \<in> set declared_models"
  by auto

lemma relation_fld: "relation (resolve_field k (fld t ks)) =
    (case resolve_type k t of
      ForeignKey l od _ \<Rightarrow> Some (key_of_label l, od)
    | OneToOneField l od _ \<Rightarrow> Some (key_of_label l, od)
    | _ \<Rightarrow> None)"
  by (cases t) (simp_all add: relation_def resolve_field_def)

text \<open>What is set to null may be null.\<close>

definition set_null_ok :: "data_model \<Rightarrow> bool" where
  "set_null_ok d \<longleftrightarrow>
     list_all (\<lambda>(n, f). case relation f of Some (t, SET_NULL) \<Rightarrow> mf_null f | _ \<Rightarrow> True) (dm_fields d)"

lemmas model_defs =
  tenant_model_def tenant_setting_model_def user_model_def user_profile_model_def
  tenant_membership_model_def user_tenant_attribute_model_def tenant_role_model_def
  team_model_def team_membership_model_def user_password_history_model_def mfa_device_model_def
  mfa_backup_code_model_def oauth2_client_model_def authorization_code_model_def
  oauth2_refresh_token_model_def document_type_model_def document_model_def
  document_version_model_def metadata_definition_model_def upload_session_model_def
  audit_log_model_def user_event_model_def auth_attempt_log_model_def processed_event_model_def
  dead_letter_event_model_def

lemmas base_defs = tenant_aware_model_def base_model_columns_def uuid_primary_key_model_def
  time_stamped_model_def soft_deletable_model_def

lemmas relation_simps = relation_fld resolve_field_def fld_def model_class_def Let_def inherit_fields_def
  lower_names label_keys resolve_label_def label_of_def auth_user_model_def base_defs

lemma declared_set_null: "list_all (\<lambda>p. set_null_ok (snd p)) declared_models"
  unfolding declared_models_def
  by (simp add: set_null_ok_def relation_simps model_defs relation_def)

lemma set_null_nullable:
  assumes "(n, t, SET_NULL) \<in> set (relations k)"
  shows "column_nullable k n"
proof -
  obtain d where d: "map_of declared_models k = Some d"
    using assms by (cases "map_of declared_models k") (auto simp: relations_def)
  then have "set_null_ok d"
    using declared_set_null map_of_SomeD[OF d] by (auto simp: list_all_iff)
  moreover have "(n, t, SET_NULL) \<in> set (model_relations d)"
    using assms d by (simp add: relations_def)
  then obtain f where f: "(n, f) \<in> set (dm_fields d)" "relation f = Some (t, SET_NULL)"
    by (auto simp: model_relations_def split: option.splits)
  ultimately have "mf_null f"
    by (auto simp: set_null_ok_def list_all_iff dest!: bspec[OF _ f(1)])
  then have "nullable d n"
    using f(1) by (auto simp: nullable_def list_ex_iff intro!: bexI[OF _ f(1)])
  then show ?thesis
    using d by (simp add: column_nullable_def)
qed

lemma map_of_map_key: "map_of (map (\<lambda>(n, v). (n, f n v)) xs) n = map_option (f n) (map_of xs n)"
  by (induction xs) auto

lemma map_of_nullify:
  "map_of (tr_refs (nullify D r)) n = map_option (\<lambda>v.
     if list_ex (\<lambda>(n', t, od). n' = n \<and> od = SET_NULL \<and> list_ex (\<lambda>y. tr_model y = t \<and> v = Some (tr_pk y)) D)
          (relations (tr_model r)) then None else v) (map_of (tr_refs r) n)"
  by (simp add: nullify_def map_of_map_key)

lemma nullify_keys [simp]: "tr_model (nullify D r) = tr_model r" "tr_pk (nullify D r) = tr_pk r"
  by (simp_all add: nullify_def)

lemma delete_refused:
  assumes "x \<in> set db" and "y \<in> owned db x" and "r \<in> set db" and "refers PROTECT r y"
  shows "delete_instance db x = Inl IntegrityErr"
  using assms collect_correct[OF assms(1)] by (auto simp: delete_instance_def Let_def list_ex_iff)

lemma delete_done:
  assumes "x \<in> set db" and "delete_instance db x = Inr db'"
  obtains D where "set D = owned db x" "db' = map (nullify D) (filter (\<lambda>r. r \<notin> set D) db)"
    "\<And>r y. \<lbrakk>r \<in> set db; y \<in> set D\<rbrakk> \<Longrightarrow> \<not> refers PROTECT r y"
proof (rule that[of "collect db [] [x]"])
  show "set (collect db [] [x]) = owned db x"
    by (rule collect_correct[OF assms(1)])
qed (use assms(2) in \<open>auto simp: delete_instance_def Let_def list_ex_iff split: if_splits\<close>)

text \<open>A row that stays refers to none that went.\<close>

lemma kept_row_refs:
  assumes x: "x \<in> set db" and del: "delete_instance db x = Inr db'" and r: "r' \<in> set db'" and y: "y \<in> owned db x"
  shows "\<not> refers od r' y"
proof
  assume ref: "refers od r' y"
  obtain D where D: "set D = owned db x" "db' = map (nullify D) (filter (\<lambda>r. r \<notin> set D) db)"
    "\<And>r y. \<lbrakk>r \<in> set db; y \<in> set D\<rbrakk> \<Longrightarrow> \<not> refers PROTECT r y"
    using delete_done[OF x del] by blast
  obtain r0 where r0: "r0 \<in> set db" "r0 \<notin> set D" "r' = nullify D r0"
    using r D(2) by auto
  obtain n where n: "(n, tr_model y, od) \<in> set (relations (tr_model r0))"
    and v: "map_of (tr_refs r') n = Some (Some (tr_pk y))"
    using ref r0(3) by (auto simp: refers_def list_ex_iff)
  then have v0: "map_of (tr_refs r0) n = Some (Some (tr_pk y))"
    and kept: "\<not> list_ex (\<lambda>(n', t, od). n' = n \<and> od = SET_NULL \<and> list_ex (\<lambda>z. tr_model z = t \<and> Some (tr_pk y) = Some (tr_pk z)) D)
          (relations (tr_model r0))"
    unfolding r0(3) map_of_nullify by (auto split: if_splits)
  have "refers od r0 y"
    using n v0 by (auto simp: refers_def list_ex_iff)
  then show False
  proof (cases od)
    case CASCADE
    then have "r0 \<in> owned db x"
      using \<open>refers od r0 y\<close> y r0(1) by (auto intro: owned.refers)
    then show ?thesis
      using r0(2) D(1) by simp
  next
    case SET_NULL
    then show ?thesis
      using kept n y D(1) by (auto simp: list_ex_iff)
  next
    case PROTECT
    then show ?thesis
      using D(1,3) \<open>refers od r0 y\<close> y r0(1) by auto
  qed
qed

lemma deletion_references:
  assumes x: "x \<in> set db" and del: "delete_instance db x = Inr db'" and ok: "references_ok db"
  shows "references_ok db'"
proof -
  obtain D where D: "set D = owned db x" "db' = map (nullify D) (filter (\<lambda>r. r \<notin> set D) db)"
    using delete_done[OF x del] by blast
  have "case map_of (tr_refs r') n of
          None \<Rightarrow> False
        | Some None \<Rightarrow> column_nullable (tr_model r') n
        | Some (Some p) \<Rightarrow> list_ex (\<lambda>y. tr_model y = t \<and> tr_pk y = p) db'"
    if r': "r' \<in> set db'" and rel: "(n, t, od) \<in> set (relations (tr_model r'))" for r' n t od
  proof -
    obtain r where r: "r \<in> set db" "r \<notin> set D" "r' = nullify D r"
      using r' D(2) by auto
    have here: "case map_of (tr_refs r) n of
          None \<Rightarrow> False
        | Some None \<Rightarrow> column_nullable (tr_model r) n
        | Some (Some p) \<Rightarrow> list_ex (\<lambda>y. tr_model y = t \<and> tr_pk y = p) db"
      using ok r(1,3) rel by (auto simp: references_ok_def list_all_iff)
    show ?thesis
    proof (cases "map_of (tr_refs r') n")
      case None
      then show ?thesis
        using here unfolding r(3) map_of_nullify by (cases "map_of (tr_refs r) n") auto
    next
      case (Some v)
      show ?thesis
      proof (cases v)
        case None
        then have "map_of (tr_refs r) n = Some None \<or> (\<exists>t'. (n, t', SET_NULL) \<in> set (relations (tr_model r)))"
          using Some unfolding r(3) map_of_nullify by (auto simp: list_ex_iff split: if_splits)
        then have "column_nullable (tr_model r') n"
          using here set_null_nullable[of n _ "tr_model r"] r(3) by (elim disjE exE) simp_all
        then show ?thesis
          using Some None by simp
      next
        case (Some p)
        with \<open>map_of (tr_refs r') n = Some v\<close> have p: "map_of (tr_refs r') n = Some (Some p)"
          by simp
        then have "map_of (tr_refs r) n = Some (Some p)"
          unfolding r(3) map_of_nullify by (auto split: if_splits)
        then obtain y where y: "y \<in> set db" "tr_model y = t" "tr_pk y = p"
          using here by (auto simp: list_ex_iff)
        have "refers od r' y"
          using rel p y by (auto simp: refers_def list_ex_iff)
        then have "y \<notin> set D"
          using kept_row_refs[OF x del r'] D(1) by blast
        then have "nullify D y \<in> set db'"
          using y(1) D(2) by auto
        then show ?thesis
          using p y by (auto simp: list_ex_iff intro!: bexI[of _ "nullify D y"])
      qed
    qed
  qed
  then show ?thesis
    unfolding references_ok_def list_all_iff by blast
qed

section \<open>Tenants, users and what they own\<close>

lemma relations_of_declared: "p \<in> set declared_models \<Longrightarrow> relations (fst p) = model_relations (snd p)"
  by (cases p) (simp add: relations_of_model)

lemma relations_by_model:
  "relations (''tenants'', ''tenant'') = model_relations (snd tenant_model)"
  "relations (''iam_users'', ''tenantmembership'') = model_relations (snd tenant_membership_model)"
  "relations (''iam_roles'', ''tenantrole'') = model_relations (snd tenant_role_model)"
  "relations (''iam_teams'', ''team'') = model_relations (snd team_model)"
  "relations (''iam_teams'', ''teammembership'') = model_relations (snd team_membership_model)"
  "relations (''sys_audit'', ''auditlog'') = model_relations (snd audit_log_model)"
  "relations (''iam_users'', ''user'') = model_relations (snd user_model)"
  unfolding declared_firsts[symmetric]
  by (rule relations_of_declared, simp add: declared_models_def)+

lemma model_relations_facts:
  "relations (''tenants'', ''tenant'') = []"
  "relations (''iam_users'', ''tenantmembership'') =
     [(''user'', (''iam_users'', ''user''), CASCADE), (''tenant'', (''tenants'', ''tenant''), CASCADE),
      (''role'', (''iam_roles'', ''tenantrole''), PROTECT)]"
  "relations (''iam_roles'', ''tenantrole'') = [(''tenant'', (''tenants'', ''tenant''), CASCADE)]"
  "relations (''iam_teams'', ''team'') = [(''tenant'', (''tenants'', ''tenant''), CASCADE)]"
  "relations (''iam_teams'', ''teammembership'') =
     [(''tenant'', (''tenants'', ''tenant''), CASCADE), (''team'', (''iam_teams'', ''team''), CASCADE),
      (''membership'', (''iam_users'', ''tenantmembership''), CASCADE)]"
  "relations (''sys_audit'', ''auditlog'') =
     [(''actor'', (''iam_users'', ''user''), PROTECT), (''tenant'', (''tenants'', ''tenant''), CASCADE)]"
  "relations (''iam_users'', ''user'') = []"
  by (simp_all add: relations_by_model model_relations_def relation_simps relation_def
    tenant_model_def tenant_membership_model_def tenant_role_model_def team_model_def team_membership_model_def
    audit_log_model_def user_model_def)

abbreviation is_tenant :: "table_row \<Rightarrow> bool" where
  "is_tenant r \<equiv> tr_model r = (''tenants'', ''tenant'')"

abbreviation points_to :: "table_row \<Rightarrow> string \<Rightarrow> table_row \<Rightarrow> bool" where
  "points_to r n x \<equiv> map_of (tr_refs r) n = Some (Some (tr_pk x))"

definition member_of_role :: "table_row \<Rightarrow> table_row \<Rightarrow> bool" where
  "member_of_role m r \<longleftrightarrow>
     tr_model r = (''iam_roles'', ''tenantrole'') \<and> tr_model m = (''iam_users'', ''tenantmembership'')
   \<and> points_to m ''role'' r"

lemma tenant_with_members_kept:
  assumes "t \<in> set db" and "is_tenant t" and "r \<in> set db" and "points_to r ''tenant'' t"
    and "m \<in> set db" and "member_of_role m r"
  shows "delete_instance db t = Inl IntegrityErr"
proof -
  have "refers CASCADE r t"
    using assms(2,4,6) by (simp add: refers_def member_of_role_def model_relations_facts)
  then have "r \<in> owned db t"
    using assms(1,3) by (auto intro: owned.intros)
  moreover have "refers PROTECT m r"
    using assms(6) by (simp add: refers_def member_of_role_def model_relations_facts)
  ultimately show ?thesis
    using delete_refused[OF assms(1)] assms(5) by blast
qed

lemma tenant_audit_removed:
  assumes "t \<in> set db" and "is_tenant t" and "delete_instance db t = Inr db'"
    and "tr_model a = (''sys_audit'', ''auditlog'')" and "points_to a ''tenant'' t"
  shows "a \<notin> set db'"
proof
  assume "a \<in> set db'"
  moreover have "refers CASCADE a t"
    using assms(2,4,5) by (simp add: refers_def model_relations_facts)
  ultimately show False
    using kept_row_refs[OF assms(1,3)] assms(1) by (blast intro: owned.self)
qed

text \<open>C18: Removing a tenant is all or nothing.  A tenant one of whose roles is held by a member
  cannot be removed, although roles and members belong to it and would go with it: the
  reference of a membership to its role is protected, so the request is refused as an
  integrity error.  Where it is not refused, nothing is left that refers to the tenant or to a
  row that was removed (audit entries of the tenant go as well), and every reference that
  remains is filled with a row that is still there, or is empty where it may be.\<close>

theorem tenant_removal:
  assumes "references_ok db" and "t \<in> set db" and "is_tenant t"
  shows "((\<exists>r \<in> set db. \<exists>m \<in> set db. points_to r ''tenant'' t \<and> member_of_role m r)
       \<longrightarrow> delete_instance db t = Inl IntegrityErr)
    \<and> (\<forall>db'. delete_instance db t = Inr db' \<longrightarrow>
      references_ok db'
      \<and> (\<forall>r \<in> set db'. \<forall>y \<in> owned db t. \<forall>od. \<not> refers od r y)
      \<and> (\<forall>a. tr_model a = (''sys_audit'', ''auditlog'') \<and> points_to a ''tenant'' t \<longrightarrow> a \<notin> set db'))"
proof (intro conjI impI allI ballI)
  assume "\<exists>r \<in> set db. \<exists>m \<in> set db. points_to r ''tenant'' t \<and> member_of_role m r"
  then show "delete_instance db t = Inl IntegrityErr"
    by (elim bexE conjE) (rule tenant_with_members_kept[OF assms(2,3)])
next
  fix db'
  assume del: "delete_instance db t = Inr db'"
  show "references_ok db'"
    by (rule deletion_references[OF assms(2) del assms(1)])
  show "\<not> refers od r y" if "r \<in> set db'" "y \<in> owned db t" for r y od
    by (rule kept_row_refs[OF assms(2) del that])
  show "a \<notin> set db'" if "tr_model a = (''sys_audit'', ''auditlog'') \<and> points_to a ''tenant'' t" for a
    by (rule tenant_audit_removed[OF assms(2,3) del conjunct1[OF that] conjunct2[OF that]])
qed

definition sample_rows :: "table_row list" where
  "sample_rows =
     [\<lparr>tr_model = (''tenants'', ''tenant''), tr_pk = ''t'', tr_refs = []\<rparr>,
      \<lparr>tr_model = (''iam_users'', ''user''), tr_pk = ''u'', tr_refs = []\<rparr>,
      \<lparr>tr_model = (''iam_roles'', ''tenantrole''), tr_pk = ''r'', tr_refs = [(''tenant'', Some ''t'')]\<rparr>,
      \<lparr>tr_model = (''sys_audit'', ''auditlog''), tr_pk = ''a'', tr_refs = [(''actor'', Some ''u''), (''tenant'', Some ''t'')]\<rparr>]"

definition sample_member_row :: table_row where
  "sample_member_row =
     \<lparr>tr_model = (''iam_users'', ''tenantmembership''), tr_pk = ''m'',
      tr_refs = [(''user'', Some ''u''), (''tenant'', Some ''t''), (''role'', Some ''r'')]\<rparr>"

lemma tenant_removal_witness:
  "delete_instance (sample_member_row # sample_rows) (sample_rows ! 0) = Inl IntegrityErr
   \<and> (\<exists>db'. delete_instance sample_rows (sample_rows ! 0) = Inr db' \<and> references_ok db' \<and> sample_rows ! 3 \<notin> set db')"
proof
  have refused: "references_ok (sample_member_row # sample_rows)"
    "sample_rows ! 0 \<in> set (sample_member_row # sample_rows)" "is_tenant (sample_rows ! 0)"
    "sample_rows ! 2 \<in> set (sample_member_row # sample_rows)"
    "points_to (sample_rows ! 2) ''tenant'' (sample_rows ! 0)" "member_of_role sample_member_row (sample_rows ! 2)"
    by (simp_all add: sample_rows_def sample_member_row_def references_ok_def model_relations_facts member_of_role_def)
  show "delete_instance (sample_member_row # sample_rows) (sample_rows ! 0) = Inl IntegrityErr"
  proof (rule mp[OF conjunct1[OF tenant_removal[OF refused(1-3)]]])
    show "\<exists>r \<in> set (sample_member_row # sample_rows). \<exists>m \<in> set (sample_member_row # sample_rows).
        points_to r ''tenant'' (sample_rows ! 0) \<and> member_of_role m r"
      by (rule bexI[of _ "sample_rows ! 2"], rule bexI[of _ sample_member_row])
        (use refused(4-6) in simp_all)
  qed
  have done': "references_ok sample_rows" "sample_rows ! 0 \<in> set sample_rows"
    by (simp_all add: sample_rows_def references_ok_def model_relations_facts)
  obtain db' where db': "delete_instance sample_rows (sample_rows ! 0) = Inr db'"
    by (simp add: delete_instance_def sample_rows_def cascades_def refers_def model_relations_facts Let_def collect.simps)
  then show "\<exists>db'. delete_instance sample_rows (sample_rows ! 0) = Inr db' \<and> references_ok db' \<and> sample_rows ! 3 \<notin> set db'"
    using tenant_removal[OF done' refused(3)] by (auto simp: sample_rows_def)
qed

section \<open>The removal of a membership\<close>

text \<open>
  The rows of the directory as rows of the tables.  A membership's removal, as \<open>Directory\<close>
  has it, is what the collector makes of them.
\<close>

definition member_node :: "membership \<Rightarrow> table_row" where
  "member_node m =
     \<lparr>tr_model = (''iam_users'', ''tenantmembership''), tr_pk = mb_id m,
      tr_refs = [(''user'', Some (mb_user m)), (''tenant'', Some (mb_tenant m)), (''role'', Some (mb_role m))]\<rparr>"

definition team_node :: "team \<Rightarrow> table_row" where
  "team_node t =
     \<lparr>tr_model = (''iam_teams'', ''team''), tr_pk = tm_id t, tr_refs = [(''tenant'', Some (tm_tenant t))]\<rparr>"

definition team_member_node :: "team_membership \<Rightarrow> table_row" where
  "team_member_node x =
     \<lparr>tr_model = (''iam_teams'', ''teammembership''), tr_pk = tmm_id x,
      tr_refs = [(''tenant'', Some (tmm_tenant x)), (''team'', Some (tmm_team x)), (''membership'', Some (tmm_member x))]\<rparr>"

definition directory_rows :: "directory \<Rightarrow> table_row list" where
  "directory_rows dir =
     map member_node (dr_members dir) @ map team_node (dr_teams dir) @ map team_member_node (dr_team_members dir)"

lemmas node_defs = member_node_def team_node_def team_member_node_def

lemma refers_nodes:
  "\<not> refers od (member_node x) (member_node m)" "\<not> refers od (team_node t) (member_node m)"
  "refers od (team_member_node y) (member_node m) \<longleftrightarrow> od = CASCADE \<and> tmm_member y = mb_id m"
  "\<not> refers od (member_node x) (team_member_node y)" "\<not> refers od (team_node t) (team_member_node y)"
  "\<not> refers od (team_member_node z) (team_member_node y)"
  by (auto simp: refers_def node_defs model_relations_facts)

lemma nullify_nodes:
  "nullify D (member_node x) = member_node x" "nullify D (team_node t) = team_node t"
  "nullify D (team_member_node y) = team_member_node y"
  by (simp_all add: nullify_def node_defs model_relations_facts)

lemma member_owned:
  assumes "m \<in> set (dr_members dir)"
  shows "owned (directory_rows dir) (member_node m) =
    insert (member_node m) (team_member_node ` {x \<in> set (dr_team_members dir). tmm_member x = mb_id m})"
proof
  show "owned (directory_rows dir) (member_node m)
      \<subseteq> insert (member_node m) (team_member_node ` {x \<in> set (dr_team_members dir). tmm_member x = mb_id m})"
  proof
    fix r
    assume "r \<in> owned (directory_rows dir) (member_node m)"
    then show "r \<in> insert (member_node m) (team_member_node ` {x \<in> set (dr_team_members dir). tmm_member x = mb_id m})"
      by (induction rule: owned.induct) (auto simp: directory_rows_def refers_nodes)
  qed
  have self: "member_node m \<in> owned (directory_rows dir) (member_node m)"
    using assms by (intro owned.self) (simp add: directory_rows_def)
  then show "insert (member_node m) (team_member_node ` {x \<in> set (dr_team_members dir). tmm_member x = mb_id m})
      \<subseteq> owned (directory_rows dir) (member_node m)"
    by (auto intro!: owned.refers[OF self] simp: refers_nodes) (simp add: directory_rows_def)
qed

lemma member_nodes_kept:
  assumes "distinct (map mb_id ms)" and "m \<in> set ms"
  shows "filter (\<lambda>r. r \<noteq> member_node m) (map member_node ms) = map member_node (filter (\<lambda>x. mb_id x \<noteq> mb_id m) ms)"
proof -
  have "member_node x = member_node m \<longleftrightarrow> mb_id x = mb_id m" if "x \<in> set ms" for x
    using assms that by (auto simp: distinct_map dest: inj_onD) (simp add: node_defs)
  then show ?thesis
    by (simp add: filter_map comp_def cong: filter_cong)
qed

lemma node_neq [simp]:
  "team_node t \<noteq> member_node m" "team_member_node x \<noteq> member_node m" "member_node m \<noteq> team_member_node x"
  "team_node t \<noteq> team_member_node x"
  by (simp_all add: node_defs)

lemma team_member_node_member: "team_member_node x = team_member_node y \<Longrightarrow> tmm_member x = tmm_member y"
  by (simp add: node_defs)

lemma member_deletion:
  assumes "distinct (map mb_id (dr_members dir))" and m: "m \<in> set (dr_members dir)"
  shows "delete_instance (directory_rows dir) (member_node m) =
    Inr (directory_rows (dir\<lparr>dr_members := filter (\<lambda>x. mb_id x \<noteq> mb_id m) (dr_members dir),
       dr_team_members := filter (\<lambda>x. tmm_member x \<noteq> mb_id m) (dr_team_members dir)\<rparr>))"
proof -
  obtain C where C: "collect (directory_rows dir) [] [member_node m] = C"
    by blast
  have D: "set C = insert (member_node m) (team_member_node ` {x \<in> set (dr_team_members dir). tmm_member x = mb_id m})"
    using collect_correct[of "member_node m" "directory_rows dir"] member_owned[OF m] m
    unfolding C[symmetric] by (simp add: directory_rows_def)
  have protect: "\<not> refers PROTECT r y" if "r \<in> set (directory_rows dir)" "y \<in> set C" for r y
    using that(1) that(2)[unfolded D] by (auto simp: directory_rows_def refers_nodes)
  have members: "filter (\<lambda>r. r \<notin> set C) (map member_node (dr_members dir)) =
      map member_node (filter (\<lambda>x. mb_id x \<noteq> mb_id m) (dr_members dir))"
  proof -
    have "filter (\<lambda>r. r \<notin> set C) (map member_node (dr_members dir)) =
        filter (\<lambda>r. r \<noteq> member_node m) (map member_node (dr_members dir))"
      unfolding D by (rule filter_cong) auto
    then show ?thesis
      using member_nodes_kept[OF assms] by simp
  qed
  have teams: "filter (\<lambda>r. r \<notin> set C) (map team_node (dr_teams dir)) = map team_node (dr_teams dir)"
    unfolding D by (rule filter_True) auto
  have "team_member_node x \<in> set C \<longleftrightarrow> tmm_member x = mb_id m" if "x \<in> set (dr_team_members dir)" for x
    using that unfolding D by (auto dest: team_member_node_member)
  then have team_members: "filter (\<lambda>r. r \<notin> set C) (map team_member_node (dr_team_members dir)) =
      map team_member_node (filter (\<lambda>x. tmm_member x \<noteq> mb_id m) (dr_team_members dir))"
    by (simp add: filter_map comp_def cong: filter_cong)
  have "delete_instance (directory_rows dir) (member_node m) =
      Inr (map (nullify C) (filter (\<lambda>r. r \<notin> set C) (directory_rows dir)))"
    using protect by (auto simp: delete_instance_def Let_def list_ex_iff C)
  moreover have "filter (\<lambda>r. r \<notin> set C) (directory_rows dir) =
      directory_rows (dir\<lparr>dr_members := filter (\<lambda>x. mb_id x \<noteq> mb_id m) (dr_members dir),
        dr_team_members := filter (\<lambda>x. tmm_member x \<noteq> mb_id m) (dr_team_members dir)\<rparr>)"
    unfolding directory_rows_def filter_append members teams team_members by simp
  moreover have "map (nullify C) (directory_rows d) = directory_rows d" for d
    by (simp add: directory_rows_def nullify_nodes comp_def)
  ultimately show ?thesis
    by simp
qed

text \<open>C20: The removal of a membership as the directory has it is the deletion of its row under
  the declared rules: the collector, run on the rows of memberships, teams and team
  memberships, removes the membership with the key asked for and its places in teams, refuses
  nothing and touches no other row.\<close>

theorem membership_removal_refines:
  assumes "directory_ok dir" and "membership_destroy c rq pk dir = Inr dir'"
  shows "\<exists>m \<in> set (dr_members dir). mb_id m = pk
    \<and> delete_instance (directory_rows dir) (member_node m) = Inr (directory_rows dir')"
proof -
  obtain m where m: "membership_get_object rq pk (dr_members dir) = Inr m"
    and dir': "dir' = dir\<lparr>dr_members := filter (\<lambda>x. mb_id x \<noteq> mb_id m) (dr_members dir),
       dr_team_members := filter (\<lambda>x. tmm_member x \<noteq> mb_id m) (dr_team_members dir)\<rparr>"
    using assms(2) by (auto simp: membership_destroy_def bind_res_Inr_iff)
  have "distinct (map mb_id (dr_members dir))"
    using assms(1) by (simp add: directory_ok_def)
  from member_deletion[OF this membership_get_object_own(1)[OF m]] show ?thesis
    using membership_get_object_own[OF m] dir' by auto
qed

definition staffed_directory :: directory where
  "staffed_directory = sample_directory\<lparr>dr_team_members :=
     [\<lparr>tmm_id = ''x'', tmm_tenant = ''t1'', tmm_team = ''g'', tmm_member = ''m'', tmm_deleted_at = None\<rparr>]\<rparr>"

lemma staffed_directory_ok: "directory_ok staffed_directory"
  by (simp add: directory_ok_def staffed_directory_def sample_directory_def team_member_ok_def sample_membership_def)

lemma staffed_removal:
  "membership_destroy None sample_admin ''m'' staffed_directory =
     Inr (sample_directory\<lparr>dr_members := []\<rparr>)"
  by (simp add: membership_destroy_def membership_get_object_def directory_defs membership_permissions_def
      is_tenant_admin_def sample_admin_def sample_directory_def staffed_directory_def sample_user_def sample_membership_def)

lemma membership_removal_refines_witness:
  "\<exists>m. delete_instance (directory_rows staffed_directory) (member_node m) =
     Inr (directory_rows (sample_directory\<lparr>dr_members := []\<rparr>))"
  using membership_removal_refines[OF staffed_directory_ok staffed_removal] by blast

section \<open>The audit entry of a removal\<close>

text \<open>
  A row that is really removed has no key any more (the framework sets \<open>pk\<close> to \<open>None\<close>), and the
  column of the audit entry's target may not be null.  \<open>perform_destroy\<close> of \<open>Lifecycle\<close> is the
  case of a model whose \<open>delete\<close> only marks the row.
\<close>

lemma target_required: "\<not> column_nullable (''sys_audit'', ''auditlog'') ''target_id''"
proof -
  have "((''sys_audit'', ''auditlog''), snd audit_log_model) \<in> set declared_models"
    by (rule declared_pair) (simp_all add: declared_models_def declared_firsts)
  then show ?thesis
    using relations_of_model(2) by (simp add: nullable_def audit_log_model_def model_class_def Let_def resolve_field_def
        fld_def inherit_fields_def)
qed

definition audit_after_delete :: "request option \<Rightarrow> string \<Rightarrow> string option \<Rightarrow> ('w app, unit) act" where
  "audit_after_delete request label pk =
     (case pk of
        Some p \<Rightarrow> audit_on_post_destroy request label p
      | None \<Rightarrow> (case request of None \<Rightarrow> raise_exn RuntimeErr | Some _ \<Rightarrow> raise_exn IntegrityErr))"

definition destroy_row ::
  "bool \<Rightarrow> ('w app, unit) act \<Rightarrow> ('w app, unit) act \<Rightarrow> ('w app, unit) act \<Rightarrow> request option \<Rightarrow> string \<Rightarrow> string
    \<Rightarrow> ('w app, unit) act" where
  "destroy_row soft pre_destroy delete post_destroy request label pk =
     bind_act pre_destroy (\<lambda>_. bind_act delete (\<lambda>_. bind_act post_destroy (\<lambda>_.
       audit_after_delete request label (if soft then Some pk else None))))"

lemma soft_destroy_row: "destroy_row True = perform_destroy"
  by (simp add: destroy_row_def perform_destroy_def audit_after_delete_def fun_eq_iff)

definition membership_destroy_view :: "ctx \<Rightarrow> request \<Rightarrow> string \<Rightarrow> (directory app, unit) act" where
  "membership_destroy_view c rq pk w =
     (case membership_destroy c rq pk (ap_db w) of
        Inl e \<Rightarrow> (Inl e, w)
      | Inr dir' \<Rightarrow>
          destroy_row False (ret ()) (\<lambda>w. (Inr (), w\<lparr>ap_db := dir'\<rparr>)) (ret ()) (Some rq)
            ''iam_users.tenantmembership'' pk w)"

text \<open>C19: Removing a member succeeds in the store and fails for the client: the membership and
  its places in teams are gone, no audit entry records it (the entry's target would be the key
  of the removed row, which is no more), and the answer is the 400 of an integrity error.
  Repeating the request finds nothing.\<close>

theorem removed_member_unaudited:
  assumes "directory_ok (ap_db w)" and "membership_destroy c rq pk (ap_db w) = Inr dir'"
  shows "membership_destroy_view c rq pk w = (Inl IntegrityErr, w\<lparr>ap_db := dir'\<rparr>)
    \<and> pk \<in> mb_id ` set (dr_members (ap_db w)) \<and> pk \<notin> mb_id ` set (dr_members dir')
    \<and> exception_handler DjangoIntegrityError = Inr \<lparr>er_status = 400, er_code = ''validation_error'', er_headers = []\<rparr>"
proof -
  have "membership_destroy_view c rq pk w = (Inl IntegrityErr, w\<lparr>ap_db := dir'\<rparr>)"
    using assms(2) by (simp add: membership_destroy_view_def destroy_row_def bind_act_def audit_after_delete_def
        ret_def raise_exn_def)
  moreover obtain m where m: "membership_get_object rq pk (dr_members (ap_db w)) = Inr m"
    and "dr_members dir' = filter (\<lambda>x. mb_id x \<noteq> mb_id m) (dr_members (ap_db w))"
    using assms(2) by (auto simp: membership_destroy_def bind_res_Inr_iff)
  ultimately show ?thesis
    using membership_get_object_own[OF m] by (auto simp: exception_handler_def)
qed

lemma removed_member_unaudited_witness:
  "membership_destroy_view None sample_admin ''m'' \<lparr>ap_db = staffed_directory, ap_audit = []\<rparr> =
     (Inl IntegrityErr, \<lparr>ap_db = sample_directory\<lparr>dr_members := []\<rparr>, ap_audit = []\<rparr>)"
  using removed_member_unaudited[of "\<lparr>ap_db = staffed_directory, ap_audit = []\<rparr>" None sample_admin "''m''"]
    staffed_directory_ok staffed_removal by simp

end
