(* ===== verification/Configuration.thy ===== *)
theory Configuration
  imports Stack Login Ingestion
begin

text \<open>
  \<open>config/settings/base.py\<close>: the settings of a deployment as a function of its environment, in
  the order the module reads the variables, and what the settings it can produce mean for the
  components: which protections are on when nothing is configured, and that no environment
  gives the MFA component a key.
\<close>

section \<open>Reading the environment\<close>

text \<open>
  The reader is the library's: \<open>er_int\<close>, \<open>er_bool\<close>, \<open>er_list\<close> and \<open>er_db\<close> are its parsers of
  integers, truth values, lists and database addresses (\<open>None\<close>: it raises).  A default is
  used as it is, without parsing.
\<close>

type_synonym environment = "string \<rightharpoonup> string"

record env_reader =
  er_int :: "string \<Rightarrow> int option"
  er_bool :: "string \<Rightarrow> bool"
  er_list :: "string \<Rightarrow> string list"
  er_db :: "string \<Rightarrow> (string \<times> string) list option"

definition env_required :: "environment \<Rightarrow> string \<Rightarrow> string res" where
  "env_required E k = (case E k of None \<Rightarrow> Inl (OtherErr ''ImproperlyConfigured'') | Some v \<Rightarrow> Inr v)"

definition env_text :: "environment \<Rightarrow> string \<Rightarrow> string \<Rightarrow> string" where
  "env_text E k d = (case E k of None \<Rightarrow> d | Some v \<Rightarrow> v)"

definition env_int :: "env_reader \<Rightarrow> environment \<Rightarrow> string \<Rightarrow> int \<Rightarrow> int res" where
  "env_int R E k d =
     (case E k of None \<Rightarrow> Inr d
      | Some v \<Rightarrow> (case er_int R v of None \<Rightarrow> Inl ValueErr | Some n \<Rightarrow> Inr n))"

definition env_bool :: "env_reader \<Rightarrow> environment \<Rightarrow> string \<Rightarrow> bool \<Rightarrow> bool" where
  "env_bool R E k d = (case E k of None \<Rightarrow> d | Some v \<Rightarrow> er_bool R v)"

definition env_list :: "env_reader \<Rightarrow> environment \<Rightarrow> string \<Rightarrow> string list \<Rightarrow> string list" where
  "env_list R E k d = (case E k of None \<Rightarrow> d | Some v \<Rightarrow> er_list R v)"

section \<open>Fixed settings\<close>

definition installed_apps :: "string list" where
  "installed_apps =
     [''django.contrib.admin'', ''django.contrib.auth'', ''django.contrib.contenttypes'',
      ''django.contrib.sessions'', ''django.contrib.messages'', ''django.contrib.staticfiles'',
      ''corsheaders'', ''rest_framework'', ''rest_framework_simplejwt'',
      ''rest_framework_simplejwt.token_blacklist'', ''drf_spectacular'', ''apps.sys_audit'',
      ''apps.sys_user_event'', ''apps.sys_health'', ''apps.sys_permissions'', ''apps.tenant_settings'',
      ''apps.tenants'', ''apps.iam_teams'', ''apps.iam_roles'', ''apps.iam_users'', ''apps.iam_auth'',
      ''apps.iam_mfa'', ''apps.iam_oauth'', ''apps.dms_document_types'', ''apps.dms_documents'',
      ''apps.dms_document_versions'', ''apps.sys_eventbus'', ''apps.dms_ingestion'', ''apps.dms_metadata'',
      ''storages'']"

definition middleware_classes :: "string list" where
  "middleware_classes =
     [''django.middleware.security.SecurityMiddleware'',
      ''django.contrib.sessions.middleware.SessionMiddleware'', ''corsheaders.middleware.CorsMiddleware'',
      ''django.middleware.common.CommonMiddleware'', ''django.middleware.csrf.CsrfViewMiddleware'',
      ''django.contrib.auth.middleware.AuthenticationMiddleware'',
      ''django.contrib.messages.middleware.MessageMiddleware'',
      ''django.middleware.clickjacking.XFrameOptionsMiddleware'',
      ''apps.tenants.middleware.TenantContextMiddleware'',
      ''apps.tenants.middleware.TenantTelemetryMiddleware'',
      ''core.middleware.rate_limit.FixedWindowRateLimitMiddleware'',
      ''core.middleware.idempotency.IdempotencyMiddleware'']"

record rest_settings =
  rf_authentication_classes :: "string list"
  rf_permission_classes :: "string list"
  rf_filter_backends :: "string list"
  rf_renderer_classes :: "string list"
  rf_exception_handler :: string
  rf_pagination_class :: string
  rf_page_size :: int
  rf_non_field_errors_key :: string
  rf_schema_class :: string
  rf_serializer_plugins :: "string list"
  rf_viewset_plugins :: "string list"

definition rest_framework :: rest_settings where
  "rest_framework =
     \<lparr>rf_authentication_classes = [''apps.tenants.authentication.TenantJWTAuthentication''],
      rf_permission_classes = [''rest_framework.permissions.IsAuthenticated''],
      rf_filter_backends =
        [''core.filters.base.SmartFilterBackend'', ''rest_framework.filters.SearchFilter'',
         ''rest_framework.filters.OrderingFilter'', ''core.filters.base.SoftDeleteFilterBackend'',
         ''apps.tenants.filters.TenantFilterBackend''],
      rf_renderer_classes = [''core.renderers.APIRenderer''],
      rf_exception_handler = ''core.exceptions.handler.exception_handler'',
      rf_pagination_class = ''core.pagination.page.CustomPagination'',
      rf_page_size = 10,
      rf_non_field_errors_key = ''GLOBAL_ERRORS'',
      rf_schema_class = ''core.openapi.AutoSchema'',
      rf_serializer_plugins =
        [''core.serializers.plugins.NonEditableFieldsSerializerPlugin'',
         ''apps.tenants.plugins.TenantInjectionSerializerPlugin'',
         ''apps.sys_audit.plugins.AuditSerializerPlugin''],
      rf_viewset_plugins =
        [''apps.tenants.plugins.TenantContextViewSetPlugin'', ''apps.sys_audit.plugins.AuditViewSetPlugin'']\<rparr>"

definition password_validators :: "string list" where
  "password_validators = map (\<lambda>n. ''django.contrib.auth.password_validation.'' @ n)
     [''UserAttributeSimilarityValidator'', ''MinimumLengthValidator'', ''CommonPasswordValidator'',
      ''NumericPasswordValidator'']"

definition data_upload_max_memory_size :: int where
  "data_upload_max_memory_size = 20 * 1024 * 1024"

section \<open>Settings read from the environment\<close>

record database_settings =
  ds_address :: "(string \<times> string) list"
  ds_conn_max_age :: int
  ds_connect_timeout :: int

definition load_database :: "env_reader \<Rightarrow> environment \<Rightarrow> database_settings res" where
  "load_database R E =
     bind_res (env_required E ''DATABASE_URL'') (\<lambda>url.
     bind_res (case er_db R url of None \<Rightarrow> Inl (OtherErr ''ImproperlyConfigured'') | Some a \<Rightarrow> Inr a) (\<lambda>a.
     bind_res (env_int R E ''DB_CONN_MAX_AGE'' 600) (\<lambda>age.
     bind_res (env_int R E ''DB_CONNECT_TIMEOUT'' 5) (\<lambda>timeout.
       Inr \<lparr>ds_address = a, ds_conn_max_age = age, ds_connect_timeout = timeout\<rparr>))))"

record cache_settings =
  cs_location :: string
  cs_connect_timeout :: int
  cs_timeout :: int

definition load_cache :: "env_reader \<Rightarrow> environment \<Rightarrow> cache_settings res" where
  "load_cache R E =
     bind_res (env_required E ''REDIS_URL'') (\<lambda>url.
     bind_res (env_int R E ''REDIS_CONNECT_TIMEOUT'' 3) (\<lambda>c.
     bind_res (env_int R E ''REDIS_SOCKET_TIMEOUT'' 3) (\<lambda>t.
       Inr \<lparr>cs_location = url, cs_connect_timeout = c, cs_timeout = t\<rparr>)))"

record storage_settings =
  ss_backend :: string
  ss_location :: string
  ss_limits :: ingest_config
  ss_processors :: "string list"
  ss_name_generator :: string

definition load_ingestion :: "env_reader \<Rightarrow> environment \<Rightarrow> string \<Rightarrow> storage_settings res" where
  "load_ingestion R E base_dir =
     bind_res (env_int R E ''DMS_INGESTION_MAX_FILE_SIZE_BYTES'' data_upload_max_memory_size) (\<lambda>size.
       Inr \<lparr>ss_backend = env_text E ''DMS_INGESTION_STORAGE_BACKEND'' ''django.core.files.storage.FileSystemStorage'',
            ss_location = env_text E ''DMS_INGESTION_STORAGE_LOCATION'' (base_dir @ ''/media/ingestion''),
            ss_limits = \<lparr>ic_max_file_size = size, ic_allowed_mime_types = [], ic_allowed_extensions = []\<rparr>,
            ss_processors = [''apps.dms_ingestion.processors.ChecksumProcessor'',
              ''apps.dms_ingestion.processors.MetadataProcessor''],
            ss_name_generator = ''apps.dms_ingestion.storage.generate_storage_name''\<rparr>)"

definition load_idempotency :: "env_reader \<Rightarrow> environment \<Rightarrow> idem_config res" where
  "load_idempotency R E =
     bind_res (env_int R E ''IDEMPOTENCY_TTL'' 86400) (\<lambda>ttl.
       Inr \<lparr>ic_guarded_methods = [''POST'', ''PUT'', ''PATCH'', ''DELETE''],
            ic_require_header = env_bool R E ''IDEMPOTENCY_REQUIRE_HEADER'' False, ic_ttl = ttl\<rparr>)"

definition load_rate_limit :: "env_reader \<Rightarrow> environment \<Rightarrow> rate_config" where
  "load_rate_limit R E =
     \<lparr>rl_enabled = env_bool R E ''RATE_LIMIT_ENABLED'' False,
      rl_boundary_scope = env_bool R E ''RATE_LIMIT_USE_BOUNDARY_SCOPE'' False,
      rl_skip_paths = [],
      rl_default_rate = env_text E ''RATE_LIMIT_DEFAULT'' ''10/minute''\<rparr>"

record bus_settings =
  bs_stream :: string
  bs_dlq_stream :: string
  bs_group :: string
  bs_consumer :: string
  bs_poll_interval :: int
  bs_max_retries :: int
  bs_batch_size :: int

definition load_eventbus :: "env_reader \<Rightarrow> environment \<Rightarrow> bus_settings res" where
  "load_eventbus R E =
     bind_res (env_int R E ''EVENTBUS_POLL_INTERVAL_SECONDS'' 5) (\<lambda>interval.
     bind_res (env_int R E ''EVENTBUS_MAX_RETRIES'' 3) (\<lambda>retries.
     bind_res (env_int R E ''EVENTBUS_BATCH_SIZE'' 100) (\<lambda>batch.
       Inr \<lparr>bs_stream = env_text E ''EVENTBUS_STREAM_NAME'' ''sys:eventbus'',
            bs_dlq_stream = env_text E ''EVENTBUS_DLQ_STREAM_NAME'' ''sys:eventbus:dlq'',
            bs_group = env_text E ''EVENTBUS_CONSUMER_GROUP'' ''sys_eventbus_group'',
            bs_consumer = env_text E ''EVENTBUS_CONSUMER_NAME'' ''sys_eventbus_consumer'',
            bs_poll_interval = interval, bs_max_retries = retries, bs_batch_size = batch\<rparr>)))"

record celery_settings =
  ce_broker_url :: string
  ce_result_backend :: string
  ce_always_eager :: bool
  ce_task_serializer :: string
  ce_result_serializer :: string
  ce_accept_content :: "string list"
  ce_timezone :: string
  ce_beat_schedule :: "(string \<times> string \<times> int) list"

definition load_celery :: "environment \<Rightarrow> bus_settings \<Rightarrow> celery_settings res" where
  "load_celery E bus =
     bind_res (env_required E ''CELERY_BROKER_URL'') (\<lambda>broker.
     bind_res (env_required E ''CELERY_RESULT_BACKEND'') (\<lambda>backend.
       Inr \<lparr>ce_broker_url = broker, ce_result_backend = backend, ce_always_eager = False,
            ce_task_serializer = ''json'', ce_result_serializer = ''json'', ce_accept_content = [''json''],
            ce_timezone = ''UTC'',
            ce_beat_schedule = [(''poll-eventbus'', ''apps.sys_eventbus.tasks.poll_eventbus'', bs_poll_interval bus)]\<rparr>))"

definition load_login_rates :: "environment \<Rightarrow> string \<rightharpoonup> string" where
  "load_login_rates E =
     [''IP_RATE'' \<mapsto> env_text E ''AUTH_RATE_LIMIT_IP'' ''10/minute'',
      ''EMAIL_RATE'' \<mapsto> env_text E ''AUTH_RATE_LIMIT_EMAIL'' ''5/minute'']"

definition load_lockout :: "env_reader \<Rightarrow> environment \<Rightarrow> int_config res" where
  "load_lockout R E =
     bind_res (env_int R E ''AUTH_LOCKOUT_MAX_ATTEMPTS'' 5) (\<lambda>n.
     bind_res (env_int R E ''AUTH_LOCKOUT_DURATION'' 900) (\<lambda>d.
       Inr [''MAX_ATTEMPTS'' \<mapsto> n, ''LOCKOUT_DURATION'' \<mapsto> d]))"

definition load_session :: "env_reader \<Rightarrow> environment \<Rightarrow> int_config res" where
  "load_session R E =
     bind_res (env_int R E ''AUTH_MAX_CONCURRENT_SESSIONS'' 0) (\<lambda>n.
       Inr [''MAX_CONCURRENT_SESSIONS'' \<mapsto> n])"

text \<open>\<open>AUTH_MFA\<close> as a dictionary of texts, numbers and lists.\<close>

datatype setting = SText string | SNum int | STexts "string list"

definition load_mfa :: "env_reader \<Rightarrow> environment \<Rightarrow> (string \<rightharpoonup> setting) res" where
  "load_mfa R E =
     bind_res (env_int R E ''AUTH_MFA_DIGITS'' 6) (\<lambda>digits.
     bind_res (env_int R E ''AUTH_MFA_PERIOD'' 30) (\<lambda>period.
     bind_res (env_int R E ''AUTH_MFA_BACKUP_CODE_COUNT'' 10) (\<lambda>count.
     bind_res (env_int R E ''AUTH_MFA_BACKUP_CODE_LENGTH'' 10) (\<lambda>len.
       Inr [''issuer'' \<mapsto> SText (env_text E ''AUTH_MFA_ISSUER'' ''Enterprise Platform''),
            ''digits'' \<mapsto> SNum digits, ''period'' \<mapsto> SNum period,
            ''backup_code_count'' \<mapsto> SNum count, ''backup_code_length'' \<mapsto> SNum len]))))"

text \<open>\<open>settings.AUTH_MFA.get("ENCRYPTION_KEYS", [])\<close>.\<close>

definition encryption_keys :: "(string \<rightharpoonup> setting) \<Rightarrow> string list" where
  "encryption_keys mfa = (case mfa ''ENCRYPTION_KEYS'' of Some (STexts ks) \<Rightarrow> ks | _ \<Rightarrow> [])"

record jwt_settings =
  jw_access_seconds :: int
  jw_refresh_seconds :: int
  jw_rotate :: bool
  jw_blacklist :: bool
  jw_algorithm :: string
  jw_signing_key :: string
  jw_header_types :: "string list"
  jw_user_id_field :: string
  jw_user_id_claim :: string

text \<open>A Python \<open>timedelta\<close> in seconds: at most 999999999 days, either way.\<close>

definition timedelta :: "int \<Rightarrow> int res" where
  "timedelta seconds =
     (if -999999999 \<le> seconds div 86400 \<and> seconds div 86400 \<le> 999999999 then Inr seconds
      else Inl (OtherErr ''OverflowError''))"

definition load_jwt :: "env_reader \<Rightarrow> environment \<Rightarrow> string \<Rightarrow> jwt_settings res" where
  "load_jwt R E secret_key =
     bind_res (env_int R E ''ACCESS_TOKEN_LIFETIME_MINUTES'' 30) (\<lambda>minutes.
     bind_res (timedelta (60 * minutes)) (\<lambda>access.
     bind_res (env_int R E ''REFRESH_TOKEN_LIFETIME_DAYS'' 7) (\<lambda>days.
     bind_res (timedelta (86400 * days)) (\<lambda>refresh.
       Inr \<lparr>jw_access_seconds = access, jw_refresh_seconds = refresh, jw_rotate = True,
            jw_blacklist = True, jw_algorithm = ''HS256'', jw_signing_key = secret_key,
            jw_header_types = [''Bearer''], jw_user_id_field = ''id'', jw_user_id_claim = ''user_id''\<rparr>))))"

record telemetry_settings =
  te_exporter :: string
  te_endpoint :: string
  te_service_name :: string
  te_log_level :: string

definition load_telemetry :: "environment \<Rightarrow> telemetry_settings" where
  "load_telemetry E =
     \<lparr>te_exporter = env_text E ''OTEL_EXPORTER'' ''console'',
      te_endpoint = env_text E ''OTEL_EXPORTER_OTLP_ENDPOINT'' ''http://localhost:4318'',
      te_service_name = env_text E ''OTEL_SERVICE_NAME'' ''drf-enterprise-information-platform'',
      te_log_level = env_text E ''LOG_LEVEL'' ''INFO''\<rparr>"

record platform_settings =
  ps_secret_key :: string
  ps_allowed_hosts :: "string list"
  ps_database :: database_settings
  ps_cache :: cache_settings
  ps_cors_origins :: "string list"
  ps_filter_separator :: string
  ps_telemetry :: telemetry_settings
  ps_ingestion :: storage_settings
  ps_idempotency :: idem_config
  ps_rate_limit :: rate_config
  ps_eventbus :: bus_settings
  ps_celery :: celery_settings
  ps_login_rates :: "string \<rightharpoonup> string"
  ps_lockout :: int_config
  ps_session :: int_config
  ps_mfa :: "string \<rightharpoonup> setting"
  ps_jwt :: jwt_settings

text \<open>The module, read from top to bottom: the first variable that is missing or does not parse stops it.\<close>

definition load_settings :: "env_reader \<Rightarrow> environment \<Rightarrow> string \<Rightarrow> platform_settings res" where
  "load_settings R E base_dir =
     bind_res (env_required E ''SECRET_KEY'') (\<lambda>secret_key.
     bind_res (load_database R E) (\<lambda>database.
     bind_res (load_cache R E) (\<lambda>cache.
     bind_res (load_ingestion R E base_dir) (\<lambda>ingestion.
     bind_res (load_idempotency R E) (\<lambda>idempotency.
     bind_res (load_eventbus R E) (\<lambda>bus.
     bind_res (load_celery E bus) (\<lambda>celery.
     bind_res (load_lockout R E) (\<lambda>lockout.
     bind_res (load_session R E) (\<lambda>session.
     bind_res (load_mfa R E) (\<lambda>mfa.
     bind_res (load_jwt R E secret_key) (\<lambda>jwt.
       Inr \<lparr>ps_secret_key = secret_key, ps_allowed_hosts = env_list R E ''ALLOWED_HOSTS'' [],
            ps_database = database, ps_cache = cache,
            ps_cors_origins = env_list R E ''CORS_ALLOWED_ORIGINS'' [],
            ps_filter_separator = env_text E ''VIEWSET_FILTER_MULTI_VALUE_SEPARATOR'' '','',
            ps_telemetry = load_telemetry E, ps_ingestion = ingestion, ps_idempotency = idempotency,
            ps_rate_limit = load_rate_limit R E, ps_eventbus = bus, ps_celery = celery,
            ps_login_rates = load_login_rates E, ps_lockout = lockout, ps_session = session,
            ps_mfa = mfa, ps_jwt = jwt\<rparr>)))))))))))"

section \<open>When the settings load\<close>

definition required_variables :: "string list" where
  "required_variables = [''SECRET_KEY'', ''DATABASE_URL'', ''REDIS_URL'', ''CELERY_BROKER_URL'', ''CELERY_RESULT_BACKEND'']"

definition integer_variables :: "string list" where
  "integer_variables =
     [''DB_CONN_MAX_AGE'', ''DB_CONNECT_TIMEOUT'', ''REDIS_CONNECT_TIMEOUT'', ''REDIS_SOCKET_TIMEOUT'',
      ''DMS_INGESTION_MAX_FILE_SIZE_BYTES'', ''IDEMPOTENCY_TTL'', ''EVENTBUS_POLL_INTERVAL_SECONDS'',
      ''EVENTBUS_MAX_RETRIES'', ''EVENTBUS_BATCH_SIZE'', ''AUTH_LOCKOUT_MAX_ATTEMPTS'', ''AUTH_LOCKOUT_DURATION'',
      ''AUTH_MAX_CONCURRENT_SESSIONS'', ''AUTH_MFA_DIGITS'', ''AUTH_MFA_PERIOD'', ''AUTH_MFA_BACKUP_CODE_COUNT'',
      ''AUTH_MFA_BACKUP_CODE_LENGTH'', ''ACCESS_TOKEN_LIFETIME_MINUTES'', ''REFRESH_TOKEN_LIFETIME_DAYS'']"

definition int_ok :: "env_reader \<Rightarrow> environment \<Rightarrow> string \<Rightarrow> bool" where
  "int_ok R E k \<longleftrightarrow> (case E k of None \<Rightarrow> True | Some v \<Rightarrow> er_int R v \<noteq> None)"

definition address_ok :: "env_reader \<Rightarrow> environment \<Rightarrow> bool" where
  "address_ok R E \<longleftrightarrow> (case E ''DATABASE_URL'' of None \<Rightarrow> False | Some url \<Rightarrow> er_db R url \<noteq> None)"

definition lifetime_ok :: "env_reader \<Rightarrow> environment \<Rightarrow> string \<Rightarrow> int \<Rightarrow> bool" where
  "lifetime_ok R E k unit \<longleftrightarrow>
     (case E k of None \<Rightarrow> True
      | Some v \<Rightarrow> (case er_int R v of None \<Rightarrow> False
         | Some n \<Rightarrow> -999999999 \<le> unit * n div 86400 \<and> unit * n div 86400 \<le> 999999999))"

definition well_formed :: "env_reader \<Rightarrow> environment \<Rightarrow> bool" where
  "well_formed R E \<longleftrightarrow>
     list_all (\<lambda>k. E k \<noteq> None) required_variables
   \<and> address_ok R E \<and> list_all (int_ok R E) integer_variables
   \<and> lifetime_ok R E ''ACCESS_TOKEN_LIFETIME_MINUTES'' 60 \<and> lifetime_ok R E ''REFRESH_TOKEN_LIFETIME_DAYS'' 86400"

definition loads :: "'a res \<Rightarrow> bool" where
  "loads r \<longleftrightarrow> (\<exists>x. r = Inr x)"

lemma loads_simps [simp]: "loads (Inr x)" "\<not> loads (Inl e)"
  by (simp_all add: loads_def)

lemma loads_bind: "loads (bind_res r k) \<longleftrightarrow> (\<exists>x. r = Inr x \<and> loads (k x))"
  by (auto simp: loads_def bind_res_Inr_iff)

lemma loads_bind_const: "(\<And>x. loads (k x) \<longleftrightarrow> P) \<Longrightarrow> loads (bind_res r k) \<longleftrightarrow> loads r \<and> P"
  unfolding loads_bind by (auto simp: loads_def)

lemma loads_required [simp]: "loads (env_required E k) \<longleftrightarrow> E k \<noteq> None"
  by (auto simp: env_required_def split: option.splits)

lemma loads_int [simp]: "loads (env_int R E k d) \<longleftrightarrow> int_ok R E k"
  by (auto simp: env_int_def int_ok_def split: option.splits)

lemma loads_lifetime:
  assumes "-999999999 \<le> unit * d div 86400" and "unit * d div 86400 \<le> 999999999"
  shows "(\<exists>n. env_int R E k d = Inr n \<and> loads (timedelta (unit * n))) \<longleftrightarrow> lifetime_ok R E k unit"
  using assms by (auto simp: env_int_def lifetime_ok_def timedelta_def split: option.splits)

lemma lifetime_int: "lifetime_ok R E k unit \<Longrightarrow> int_ok R E k"
  by (auto simp: lifetime_ok_def int_ok_def split: option.splits)

lemma loads_jwt: "loads (load_jwt R E key) \<longleftrightarrow>
    lifetime_ok R E ''ACCESS_TOKEN_LIFETIME_MINUTES'' 60 \<and> lifetime_ok R E ''REFRESH_TOKEN_LIFETIME_DAYS'' 86400"
proof -
  have "loads (load_jwt R E key) \<longleftrightarrow>
      (\<exists>n. env_int R E ''ACCESS_TOKEN_LIFETIME_MINUTES'' 30 = Inr n \<and> loads (timedelta (60 * n)))
    \<and> (\<exists>n. env_int R E ''REFRESH_TOKEN_LIFETIME_DAYS'' 7 = Inr n \<and> loads (timedelta (86400 * n)))"
    unfolding load_jwt_def loads_bind by (auto simp: loads_def)
  then show ?thesis
    by (simp add: loads_lifetime)
qed

lemma loads_database: "loads (load_database R E) \<longleftrightarrow>
    address_ok R E \<and> int_ok R E ''DB_CONN_MAX_AGE'' \<and> int_ok R E ''DB_CONNECT_TIMEOUT''"
proof (cases "E ''DATABASE_URL''")
  case (Some url)
  then show ?thesis
    by (cases "er_db R url") (simp_all add: load_database_def env_required_def address_ok_def loads_bind_const)
qed (simp add: load_database_def env_required_def address_ok_def)

lemma loads_cache: "loads (load_cache R E) \<longleftrightarrow>
    E ''REDIS_URL'' \<noteq> None \<and> int_ok R E ''REDIS_CONNECT_TIMEOUT'' \<and> int_ok R E ''REDIS_SOCKET_TIMEOUT''"
  by (simp add: load_cache_def loads_bind_const)

lemma loads_celery: "loads (load_celery E bus) \<longleftrightarrow> E ''CELERY_BROKER_URL'' \<noteq> None \<and> E ''CELERY_RESULT_BACKEND'' \<noteq> None"
  by (simp add: load_celery_def loads_bind_const)

lemmas loads_groups = load_ingestion_def load_idempotency_def load_eventbus_def load_lockout_def load_session_def
  load_mfa_def

lemma address_given: "address_ok R E \<Longrightarrow> E ''DATABASE_URL'' \<noteq> None"
  by (auto simp: address_ok_def split: option.splits)

lemma load_settings_iff: "loads (load_settings R E base_dir) \<longleftrightarrow> well_formed R E"
proof -
  have "loads (load_settings R E base_dir) \<longleftrightarrow>
      E ''SECRET_KEY'' \<noteq> None
    \<and> (address_ok R E \<and> int_ok R E ''DB_CONN_MAX_AGE'' \<and> int_ok R E ''DB_CONNECT_TIMEOUT'')
    \<and> (E ''REDIS_URL'' \<noteq> None \<and> int_ok R E ''REDIS_CONNECT_TIMEOUT'' \<and> int_ok R E ''REDIS_SOCKET_TIMEOUT'')
    \<and> int_ok R E ''DMS_INGESTION_MAX_FILE_SIZE_BYTES'' \<and> int_ok R E ''IDEMPOTENCY_TTL''
    \<and> (int_ok R E ''EVENTBUS_POLL_INTERVAL_SECONDS'' \<and> int_ok R E ''EVENTBUS_MAX_RETRIES''
       \<and> int_ok R E ''EVENTBUS_BATCH_SIZE'')
    \<and> (E ''CELERY_BROKER_URL'' \<noteq> None \<and> E ''CELERY_RESULT_BACKEND'' \<noteq> None)
    \<and> (int_ok R E ''AUTH_LOCKOUT_MAX_ATTEMPTS'' \<and> int_ok R E ''AUTH_LOCKOUT_DURATION'')
    \<and> int_ok R E ''AUTH_MAX_CONCURRENT_SESSIONS''
    \<and> (int_ok R E ''AUTH_MFA_DIGITS'' \<and> int_ok R E ''AUTH_MFA_PERIOD'' \<and> int_ok R E ''AUTH_MFA_BACKUP_CODE_COUNT''
       \<and> int_ok R E ''AUTH_MFA_BACKUP_CODE_LENGTH'')
    \<and> (lifetime_ok R E ''ACCESS_TOKEN_LIFETIME_MINUTES'' 60 \<and> lifetime_ok R E ''REFRESH_TOKEN_LIFETIME_DAYS'' 86400)"
    unfolding load_settings_def
    by (simp add: loads_bind_const loads_database loads_cache loads_celery loads_jwt loads_groups)
  then show ?thesis
    unfolding well_formed_def required_variables_def integer_variables_def
    by (simp only: list.pred_inject simp_thms) (use address_given lifetime_int in blast)
qed

text \<open>The errors a run of the module can stop with.\<close>

definition stops_well :: "'a res \<Rightarrow> bool" where
  "stops_well r \<longleftrightarrow>
     loads r \<or> r = Inl (OtherErr ''ImproperlyConfigured'') \<or> r = Inl ValueErr \<or> r = Inl (OtherErr ''OverflowError'')"

lemma stops_well_bind [intro]: "stops_well r \<Longrightarrow> (\<And>x. stops_well (k x)) \<Longrightarrow> stops_well (bind_res r k)"
  by (cases r) (auto simp: stops_well_def)

lemma stops_well_basic [intro]:
  "stops_well (Inr x)" "stops_well (env_required E k)" "stops_well (env_int R E k d)" "stops_well (timedelta n)"
  by (auto simp: stops_well_def env_required_def env_int_def timedelta_def split: option.splits)

lemma stops_well_address [intro]:
  "stops_well (case er_db R url of None \<Rightarrow> Inl (OtherErr ''ImproperlyConfigured'') | Some a \<Rightarrow> Inr a)"
  by (simp add: stops_well_def split: option.splits)

lemma load_settings_errors: "stops_well (load_settings R E base_dir)"
  unfolding load_settings_def load_database_def load_cache_def load_celery_def load_jwt_def loads_groups
  by (intro stops_well_bind stops_well_basic stops_well_address)


section \<open>What an unconfigured platform does\<close>

lemma settings_groups:
  assumes "load_settings R E base_dir = Inr s"
  shows "load_lockout R E = Inr (ps_lockout s)" "load_session R E = Inr (ps_session s)"
    "load_mfa R E = Inr (ps_mfa s)" "load_idempotency R E = Inr (ps_idempotency s)"
    "load_ingestion R E base_dir = Inr (ps_ingestion s)" "ps_rate_limit s = load_rate_limit R E"
  using assms by (auto simp: load_settings_def bind_res_Inr_iff)

definition protection_variables :: "string list" where
  "protection_variables =
     [''RATE_LIMIT_ENABLED'', ''AUTH_MAX_CONCURRENT_SESSIONS'', ''AUTH_LOCKOUT_MAX_ATTEMPTS'', ''AUTH_LOCKOUT_DURATION'',
      ''IDEMPOTENCY_TTL'', ''IDEMPOTENCY_REQUIRE_HEADER'', ''DMS_INGESTION_MAX_FILE_SIZE_BYTES'']"

text \<open>What protects a platform whose environment sets none of the protection variables.  No
  request is ever limited, whatever counters there are; a login ends no other session; an
  account locks at the fifth failed login for fifteen minutes; write requests may repeat
  without an idempotency key and answers are kept a day; an upload is refused only when it is
  larger than 20 MB, of whatever type and extension it is.\<close>

theorem unconfigured_protections:
  assumes "load_settings R E base_dir = Inr s" and "\<forall>k \<in> set protection_variables. E k = None"
  shows "rate_limit_call C ttl (ps_rate_limit s) scope resolved rq get_response cache = get_response cache
    \<and> enforce_session_limit (ps_session s) uid tokens = tokens
    \<and> max_attempts (ps_lockout s) = 5 \<and> lockout_duration (ps_lockout s) = 900
    \<and> ps_idempotency s = idem_defaults
    \<and> (validate_file_size (ss_limits (ps_ingestion s)) bytes = Inr () \<longleftrightarrow> bytes \<le> 20971520)
    \<and> validate_mime_type (ss_limits (ps_ingestion s)) mime = Inr ()
    \<and> validate_extension (ss_limits (ps_ingestion s)) filename = Inr ()"
proof -
  have unset: "E ''RATE_LIMIT_ENABLED'' = None" "E ''AUTH_MAX_CONCURRENT_SESSIONS'' = None"
    "E ''AUTH_LOCKOUT_MAX_ATTEMPTS'' = None" "E ''AUTH_LOCKOUT_DURATION'' = None" "E ''IDEMPOTENCY_TTL'' = None"
    "E ''IDEMPOTENCY_REQUIRE_HEADER'' = None" "E ''DMS_INGESTION_MAX_FILE_SIZE_BYTES'' = None"
    using assms(2) by (simp_all add: protection_variables_def)
  note groups = settings_groups[OF assms(1)]
  have rate: "rl_enabled (ps_rate_limit s) = False"
    using groups(6) unset by (simp add: load_rate_limit_def env_bool_def)
  have session: "ps_session s = [''MAX_CONCURRENT_SESSIONS'' \<mapsto> 0]"
    using groups(2) unset by (simp add: load_session_def env_int_def)
  have lockout: "ps_lockout s = [''MAX_ATTEMPTS'' \<mapsto> 5, ''LOCKOUT_DURATION'' \<mapsto> 900]"
    using groups(1) unset by (simp add: load_lockout_def env_int_def)
  have idem: "ps_idempotency s = idem_defaults"
    using groups(4) unset by (simp add: load_idempotency_def env_int_def env_bool_def idem_defaults_def)
  have limits: "ss_limits (ps_ingestion s) =
      \<lparr>ic_max_file_size = 20971520, ic_allowed_mime_types = [], ic_allowed_extensions = []\<rparr>"
    using arg_cong[OF groups(5), of "\<lambda>r. case r of Inl _ \<Rightarrow> None | Inr x \<Rightarrow> Some (ss_limits x)"] unset
    by (simp add: load_ingestion_def env_int_def data_upload_max_memory_size_def)
  show ?thesis
    using idem by (simp add: rate session lockout limits rate_limit_call_def enforce_session_limit_def max_attempts_def
        lockout_duration_def validate_file_size_def validate_mime_type_def validate_extension_def)
qed

definition plain_reader :: env_reader where
  "plain_reader = \<lparr>er_int = py_int, er_bool = (\<lambda>v. lower v = ''true''), er_list = split_on CHR '','',
     er_db = (\<lambda>url. if url = [] then None else Some [(''NAME'', url)])\<rparr>"

definition sample_environment :: environment where
  "sample_environment = [''SECRET_KEY'' \<mapsto> ''s'', ''DATABASE_URL'' \<mapsto> ''postgresql://db'', ''REDIS_URL'' \<mapsto> ''redis://c'',
     ''CELERY_BROKER_URL'' \<mapsto> ''redis://b'', ''CELERY_RESULT_BACKEND'' \<mapsto> ''db+postgresql://db'']"

lemma sample_loads: "\<exists>s. load_settings plain_reader sample_environment base_dir = Inr s"
proof -
  have "well_formed plain_reader sample_environment"
    by (simp add: well_formed_def required_variables_def integer_variables_def int_ok_def lifetime_ok_def
        address_ok_def plain_reader_def sample_environment_def)
  then show ?thesis
    using load_settings_iff[of plain_reader sample_environment base_dir] by (simp add: loads_def)
qed

lemma unconfigured_protections_witness:
  "\<exists>s. load_settings plain_reader sample_environment ''/srv'' = Inr s
    \<and> validate_file_size (ss_limits (ps_ingestion s)) 20971520 = Inr ()
    \<and> validate_file_size (ss_limits (ps_ingestion s)) 20971521 \<noteq> Inr ()"
proof -
  obtain s where s: "load_settings plain_reader sample_environment ''/srv'' = Inr s"
    using sample_loads by blast
  have unset: "\<forall>k \<in> set protection_variables. sample_environment k = None"
    by (simp add: protection_variables_def sample_environment_def)
  have bound: "validate_file_size (ss_limits (ps_ingestion s)) bytes = Inr () \<longleftrightarrow> bytes \<le> 20971520" for bytes
    by (rule unconfigured_protections[OF s unset, THEN conjunct2, THEN conjunct2, THEN conjunct2, THEN conjunct2,
          THEN conjunct2, THEN conjunct1])
  show ?thesis
    using s by (intro exI[of _ s]) (simp add: bound)
qed

section \<open>The storage backend of the settings\<close>

text \<open>
  \<open>get_storage_backend\<close> imports the class the settings name and instantiates it without
  arguments; \<open>others\<close> says what becomes of a class of a library.
\<close>

definition rsplit_dot :: "string \<Rightarrow> (string \<times> string) option" where
  "rsplit_dot s =
     (let r = rev s; n = takeWhile (\<lambda>c. c \<noteq> CHR ''.'') r in
      if length n = length s then None else Some (rev (drop (Suc (length n)) r), rev n))"

datatype backend = LocalBackend string | InMemoryBackend | FileSystemBackend | LibraryBackend string string

definition get_storage_backend :: "(string \<Rightarrow> string \<Rightarrow> exn option) \<Rightarrow> storage_settings \<Rightarrow> backend res" where
  "get_storage_backend others s =
     (case rsplit_dot (ss_backend s) of
        None \<Rightarrow> Inl ValueErr
      | Some (module, name) \<Rightarrow>
          if module = ''apps.dms_ingestion.storage'' then
            (if name = ''LocalStorageBackend'' then Inr (LocalBackend (ss_location s))
             else if name = ''InMemoryStorageBackend'' then Inr InMemoryBackend
             else if name = ''BaseStorageBackend'' then Inl TypeErr else Inl AttributeErr)
          else if module = ''django.core.files.storage'' \<and> name = ''FileSystemStorage'' then Inr FileSystemBackend
          else (case others module name of Some e \<Rightarrow> Inl e | None \<Rightarrow> Inr (LibraryBackend module name)))"

text \<open>
  The file system storages of the framework, by their location, and its default location are
  parameters.  The storage in memory is the one of \<open>Ingestion\<close>, over a state of its own.
\<close>

fun backend_ops :: "(string \<Rightarrow> fileobj \<Rightarrow> string) \<Rightarrow> (string \<Rightarrow> 'st storage_ops) \<Rightarrow> string \<Rightarrow> backend \<Rightarrow> 'st storage_ops option" where
  "backend_ops generator fs media_root (LocalBackend location) = Some (local_storage generator (fs location))"
| "backend_ops generator fs media_root FileSystemBackend = Some (fs media_root)"
| "backend_ops generator fs media_root _ = None"

text \<open>
  The default is the framework's class, not the \<open>LocalStorageBackend\<close> the documentation names:
  an upload is saved under the bare id of its session, where the framework puts media, and
  neither the configured location nor the name generator has a say.
\<close>

lemma default_backend:
  assumes "load_settings R E base_dir = Inr s" and "E ''DMS_INGESTION_STORAGE_BACKEND'' = None"
  shows "get_storage_backend others (ps_ingestion s) = Inr FileSystemBackend"
    and "backend_ops generator fs media_root FileSystemBackend = Some P \<Longrightarrow> sg_save P sid f st = sg_save (fs media_root) sid f st"
proof -
  have backend: "ss_backend (ps_ingestion s) = ''django.core.files.storage.FileSystemStorage''"
    using settings_groups(5)[OF assms(1)] assms(2) by (auto simp: load_ingestion_def env_text_def bind_res_Inr_iff
        dest!: sym[of _ "ps_ingestion s"])
  have "rsplit_dot ''django.core.files.storage.FileSystemStorage'' = Some (''django.core.files.storage'', ''FileSystemStorage'')"
    by code_simp
  then show "get_storage_backend others (ps_ingestion s) = Inr FileSystemBackend"
    by (simp add: get_storage_backend_def backend)
qed auto

lemma local_backend_names:
  assumes "backend_ops generator fs media_root (LocalBackend location) = Some P"
  shows "sg_save P sid f st = sg_save (fs location) (generator sid f) f st"
  using assms by (auto simp: local_storage_def base_save_def)

section \<open>Multi-factor authentication without a key\<close>

text \<open>
  No variable of the environment becomes an entry \<open>ENCRYPTION_KEYS\<close>.  An enrolment is one
  request to confirm a device.
\<close>

record enrolment =
  en_now :: int
  en_id :: string
  en_tenants :: "tenant list"
  en_request :: request
  en_user :: user
  en_secret :: "string option"
  en_code :: "string option"
  en_label :: "string option"

definition enrol :: "crypto_ops \<Rightarrow> string list \<Rightarrow> enrolment \<Rightarrow> (mfa_db, unit) act" where
  "enrol X ks e =
     confirm_setup_post X ks (en_now e) (en_id e) (en_tenants e) (en_request e) (en_user e) (en_secret e)
       (en_code e) (en_label e)"

definition enrol_all :: "crypto_ops \<Rightarrow> string list \<Rightarrow> enrolment list \<Rightarrow> mfa_db \<Rightarrow> mfa_db" where
  "enrol_all X ks = fold (\<lambda>e db. snd (enrol X ks e db))"

lemma no_encryption_keys:
  assumes "load_settings R E base_dir = Inr s"
  shows "encryption_keys (ps_mfa s) = []"
  using settings_groups(3)[OF assms] by (auto simp: load_mfa_def bind_res_Inr_iff encryption_keys_def dest!: sym[of _ "ps_mfa s"])

lemma enrol_without_key: "\<exists>x. enrol X [] e db = (Inl x, db)"
  by (auto simp: enrol_def confirm_setup_post_def bind_act_def lift_res_def confirm_save_def encrypt_secret_def
      get_fernet_def split: sum.splits)

lemma enrol_all_without_key: "enrol_all X [] es db = db"
proof (induction es arbitrary: db)
  case (Cons e es)
  obtain x where "enrol X [] e db = (Inl x, db)"
    using enrol_without_key by blast
  then show ?case
    using Cons by (simp add: enrol_all_def)
qed (simp add: enrol_all_def)

lemma no_device: "mf_devices db = [] \<Longrightarrow> login_device c uid t db = None"
  by (simp add: login_device_def device_rows_def manager_queryset_def split: option.splits)

lemma login_without_device:
  assumes "login_post LE rq email password (Some t) w = (Inr ans, w')" and "mf_devices (ld_mfa w) = []"
  shows "setting_or LE w t ''mfa_enforcement'' ''optional'' \<noteq> Inr ''required''"
proof -
  obtain e p w1 where v: "login_validate LE rq e p (Some t) w = (Inr ans, w1)"
    by (rule login_post_Inr[OF assms(1)])
  obtain u w2 m where u: "obtain_pair_validate LE e p w = (Inr u, w2)" and m: "login_policies LE rq u (Some t) w2 = Inr m"
    by (rule login_validate_Inr[OF v])
  have same: "ld_settings w2 = ld_settings w" "ld_mfa w2 = ld_mfa w"
    using u by (auto simp: obtain_pair_Inr)
  have "mb_tenant m = t" and "enforce_mfa_enrollment LE u (mb_tenant m) w2 = Inr ()"
    using m by (auto simp: login_policies_Inr dest: resolved_membership)
  then show ?thesis
    using assms(2) same no_device by (auto simp: enforce_mfa_enrollment_def setting_or_def bind_res_Inr_iff guard_def
        split: if_splits)
qed



end
