(* ===== verification/Roles.thy ===== *)
theory Roles
  imports DmsApi PermissionCatalog
begin

text \<open>
  \<open>apps/iam_roles/{views,serializers,models}.py\<close>: the endpoints of the roles of a tenant as a
  resource over a store of roles whose permissions are JSON as they were sent, and the check
  of \<open>apps/sys_permissions/permissions.py\<close> on such a role.  Requests are steps; the invariant
  is that no viewer role ever grants a write permission of the catalog.
\<close>

section \<open>Stored roles\<close>

record stored_role =
  sr_id :: string
  sr_tenant :: string
  sr_name :: string
  sr_kind :: string
  sr_description :: string
  sr_permissions :: json
  sr_deleted_at :: "int option"

record role_store =
  rl_roles :: "stored_role list"

definition kind_choices :: "string list" where
  "kind_choices = [''owner'', ''admin'', ''member'', ''viewer'', ''custom'']"

text \<open>
  Comparisons of a permission's value with 1; \<open>cmp\<close> is the sign of a float minus one.
\<close>

definition at_least_one :: "(string \<Rightarrow> int) \<Rightarrow> json \<Rightarrow> bool res" where
  "at_least_one cmp v =
     (case v of JInt n \<Rightarrow> Inr (1 \<le> n) | JBool b \<Rightarrow> Inr b | JFloat t \<Rightarrow> Inr (0 \<le> cmp t) | _ \<Rightarrow> Inl TypeErr)"

definition equals_one :: "(string \<Rightarrow> int) \<Rightarrow> json option \<Rightarrow> bool" where
  "equals_one cmp v =
     (case v of Some (JInt n) \<Rightarrow> n = 1 | Some (JBool b) \<Rightarrow> b | Some (JFloat t) \<Rightarrow> cmp t = 0 | _ \<Rightarrow> False)"

section \<open>Validation\<close>

definition write_codenames :: "app_config list \<Rightarrow> string list" where
  "write_codenames apps = map fst (filter (\<lambda>(c, a). \<not> pa_readonly a) (get_merged_catalog apps))"

fun write_violations :: "(string \<Rightarrow> int) \<Rightarrow> string list \<Rightarrow> rules \<Rightarrow> string list res" where
  "write_violations cmp ws [] = Inr []"
| "write_violations cmp ws ((c, v) # ps) =
     bind_res (at_least_one cmp v) (\<lambda>b.
     bind_res (write_violations cmp ws ps) (\<lambda>cs.
       Inr (if b \<and> c \<in> set ws then c # cs else cs)))"

definition role_check :: "(string \<Rightarrow> int) \<Rightarrow> app_config list \<Rightarrow> stored_role option \<Rightarrow> attrs \<Rightarrow> unit res" where
  "role_check cmp apps i d =
     (if i \<noteq> None \<and> map_of d ''kind'' \<noteq> None
      then bad_field ''kind'' ''This field cannot be changed after creation.'' ''invalid''
      else
       (let kind = (case map_of d ''kind'' of Some (JStr (k # ks)) \<Rightarrow> Some (k # ks) | _ \<Rightarrow> map_option sr_kind i);
            permissions = (case map_of d ''permissions'' of None \<Rightarrow> JObj [] | Some p \<Rightarrow> p) in
        if kind = Some ''viewer'' \<and> json_truth permissions
        then (case permissions of
                JObj ps \<Rightarrow> bind_res (write_violations cmp (write_codenames apps) ps) (\<lambda>vs.
                  if vs \<noteq> [] then bad_field ''permissions'' ''Viewer roles cannot be assigned write permissions.'' ''invalid''
                  else Inr ())
              | _ \<Rightarrow> Inl AttributeErr)
        else Inr ()))"

section \<open>The resource\<close>

definition role_fields :: "field list" where
  "role_fields = standard_fields @
     [text_input ''name'' True (Some 50), input ''kind'' False (\<lambda>n. not_null n (choice_value kind_choices n)),
      text_input ''description'' False None, input ''permissions'' False (\<lambda>n. not_null n Inr)]"

definition stored_role_col :: "stored_role \<Rightarrow> string \<Rightarrow> json" where
  "stored_role_col r l = (if l = ''tenant_id'' then JStr (sr_tenant r) else if l = ''name'' then JStr (sr_name r) else JNull)"

definition role_json :: "stored_role \<Rightarrow> attrs" where
  "role_json r = [(''id'', JStr (sr_id r)), (''name'', JStr (sr_name r)), (''kind'', JStr (sr_kind r)),
     (''description'', JStr (sr_description r)), (''permissions'', sr_permissions r)]"

definition value_or :: "attrs \<Rightarrow> string \<Rightarrow> json \<Rightarrow> json" where
  "value_or d k old = (case map_of d k of None \<Rightarrow> old | Some v \<Rightarrow> v)"

definition build_role :: "string \<Rightarrow> attrs \<Rightarrow> stored_role" where
  "build_role k d = \<lparr>sr_id = k, sr_tenant = attr_text d ''tenant_id'', sr_name = attr_text d ''name'',
     sr_kind = text_or d ''kind'' ''custom'', sr_description = attr_text d ''description'',
     sr_permissions = value_or d ''permissions'' (JObj []), sr_deleted_at = None\<rparr>"

definition assign_role :: "attrs \<Rightarrow> stored_role \<Rightarrow> stored_role" where
  "assign_role d r = r\<lparr>sr_name := text_or d ''name'' (sr_name r), sr_kind := text_or d ''kind'' (sr_kind r),
     sr_description := text_or d ''description'' (sr_description r),
     sr_permissions := value_or d ''permissions'' (sr_permissions r)\<rparr>"

definition role_resource :: "(string \<Rightarrow> int) \<Rightarrow> app_config list \<Rightarrow> (stored_role, role_store) resource" where
  "role_resource cmp apps = \<lparr>rs_label = ''iam_roles.tenantrole'', rs_pk = sr_id, rs_tenant = sr_tenant,
     rs_deleted = (\<lambda>r. sr_deleted_at r \<noteq> None), rs_rows = rl_roles, rs_put = (\<lambda>rows w. w\<lparr>rl_roles := rows\<rparr>),
     rs_parents = [], rs_write_permissions = Some [PIsTenantAdmin], rs_model = map_of base_model,
     rs_fields = (\<lambda>c w. role_fields),
     rs_validator = (\<lambda>c context i w d. unique_together [(''name'', ''name'')] [(''tenant_id'', ''tenant_id'')]
        ''A role with this name already exists.'' sr_id stored_role_col context i (manager_queryset sr_tenant c (rl_roles w)) d),
     rs_do_validate = (\<lambda>c i w d. role_check cmp apps i d), rs_pre_create = (\<lambda>c w d. Inr d),
     rs_build = build_role, rs_assign = assign_role, rs_mark_deleted = (\<lambda>now r. r\<lparr>sr_deleted_at := Some now\<rparr>),
     rs_clash = (\<lambda>r s. sr_tenant r = sr_tenant s \<and> sr_name r = sr_name s),
     rs_attr = (\<lambda>r. map_of (role_json r)), rs_represent = (\<lambda>r. soft_deletable_representation (sr_deleted_at r) (role_json r))\<rparr>"

text \<open>What \<open>HasTenantPermission\<close> makes of the permissions of a role.\<close>

definition permission_check :: "(string \<Rightarrow> int) \<Rightarrow> json \<Rightarrow> string \<Rightarrow> bool res" where
  "permission_check cmp permissions name =
     (case (if json_truth permissions then permissions else JObj []) of
        JObj d \<Rightarrow> Inr (equals_one cmp (map_of d (access_codename name)) \<and> equals_one cmp (map_of d name))
      | _ \<Rightarrow> Inl AttributeErr)"

section \<open>Requests as steps\<close>

interpretation roles: resource_laws "role_resource cmp apps"
  by unfold_locales (auto simp: role_resource_def role_fields_def build_role_def assign_role_def column_simps)

inductive role_step :: "(string \<Rightarrow> int) \<Rightarrow> app_config list \<Rightarrow> membership list \<Rightarrow> request \<Rightarrow> role_store app \<Rightarrow> role_store app \<Rightarrow> bool"
  for cmp apps mbs rq where
  create_role: "\<lbrakk>create_endpoint (role_resource cmp apps) c mbs rq Map.empty k body w = (x, w'); in_scope c rq;
     k \<notin> sr_id ` set (rl_roles (ap_db w))\<rbrakk> \<Longrightarrow> role_step cmp apps mbs rq w w'"
| update_role: "\<lbrakk>update_endpoint (role_resource cmp apps) c mbs rq Map.empty pk partial body w = (x, w'); in_scope c rq\<rbrakk>
    \<Longrightarrow> role_step cmp apps mbs rq w w'"
| destroy_role: "\<lbrakk>destroy_endpoint (role_resource cmp apps) c mbs rq Map.empty pk now w = (y, w'); in_scope c rq\<rbrakk>
    \<Longrightarrow> role_step cmp apps mbs rq w w'"

definition role_request :: "(string \<Rightarrow> int) \<Rightarrow> app_config list \<Rightarrow> role_store app \<Rightarrow> role_store app \<Rightarrow> bool" where
  "role_request cmp apps w w' \<longleftrightarrow> (\<exists>mbs rq. role_step cmp apps mbs rq w w')"

text \<open>A viewer role grants no codename of the catalog that is not read-only.\<close>

definition viewer_safe :: "(string \<Rightarrow> int) \<Rightarrow> app_config list \<Rightarrow> stored_role \<Rightarrow> bool" where
  "viewer_safe cmp apps r \<longleftrightarrow>
     (sr_kind r = ''viewer'' \<longrightarrow> (\<forall>c \<in> set (write_codenames apps). permission_check cmp (sr_permissions r) c \<noteq> Inr True))"

definition roles_ok :: "(string \<Rightarrow> int) \<Rightarrow> app_config list \<Rightarrow> role_store app \<Rightarrow> bool" where
  "roles_ok cmp apps w \<longleftrightarrow>
     table_ok (role_resource cmp apps) w \<and> list_all (viewer_safe cmp apps) (rl_roles (ap_db w))"

lemma role_simps [simp]:
  "rs_rows (role_resource cmp apps) w = rl_roles w" "rs_pk (role_resource cmp apps) = sr_id"
  "rs_tenant (role_resource cmp apps) = sr_tenant" "rs_put (role_resource cmp apps) rows w = w\<lparr>rl_roles := rows\<rparr>"
  "rs_do_validate (role_resource cmp apps) c i w d = role_check cmp apps i d"
  "rs_pre_create (role_resource cmp apps) c w d = Inr d" "rs_build (role_resource cmp apps) = build_role"
  "rs_assign (role_resource cmp apps) = assign_role"
  "rs_mark_deleted (role_resource cmp apps) now r = r\<lparr>sr_deleted_at := Some now\<rparr>"
  "rs_fields (role_resource cmp apps) c w = role_fields" "rs_parents (role_resource cmp apps) = []"
  "rs_write_permissions (role_resource cmp apps) = Some [PIsTenantAdmin]"
  by (simp_all add: role_resource_def)

lemma step_writes:
  assumes "role_step cmp apps mbs rq w w'"
  shows "w' = w \<or> (\<exists>t. tenant_of rq = Some t \<and> writes (role_resource cmp apps) t w w')"
  using assms
proof cases
  case (create_role c k body x)
  from roles.create_writes [OF create_role(1)] create_role(3) show ?thesis by auto
next
  case (update_role c pk partial body x)
  from roles.update_writes [OF update_role(1)] show ?thesis .
next
  case (destroy_role c pk now y)
  from roles.destroy_writes [OF destroy_role(1)] show ?thesis .
qed

section \<open>Agreement with the typed validation\<close>

text \<open>
  On permissions that are an object of integers the validation of JSON is the one on integers
  of \<open>PermissionCatalog\<close>.
\<close>

definition as_tenant_role :: "(string \<times> int) list \<Rightarrow> stored_role \<Rightarrow> tenant_role" where
  "as_tenant_role ps r = \<lparr>role_id = sr_id r, role_tenant = sr_tenant r, role_name = sr_name r, role_kind = sr_kind r,
     role_description = sr_description r, role_permissions = ps\<rparr>"

definition int_permissions :: "(string \<times> int) list \<Rightarrow> json" where
  "int_permissions ps = JObj (map (\<lambda>(c, n). (c, JInt n)) ps)"

definition role_data :: "role_attrs \<Rightarrow> attrs" where
  "role_data a =
     (case ra_kind a of None \<Rightarrow> [] | Some k \<Rightarrow> [(''kind'', JStr k)])
     @ (case ra_permissions a of None \<Rightarrow> [] | Some ps \<Rightarrow> [(''permissions'', int_permissions ps)])"

lemma violations_of_ints:
  "write_violations cmp ws (map (\<lambda>(c, n). (c, JInt n)) ps) = Inr (map fst (filter (\<lambda>(c, n). 1 \<le> n \<and> c \<in> set ws) ps))"
  by (induction ps) (auto simp: at_least_one_def split: if_splits)

lemma role_data_lookup:
  "map_of (role_data a) ''kind'' = map_option JStr (ra_kind a)"
  "map_of (role_data a) ''permissions'' = map_option int_permissions (ra_permissions a)"
  by (simp_all add: role_data_def split: option.splits)

lemma typed_validation:
  "role_check cmp apps i (role_data a) = Inr () \<longleftrightarrow> role_do_validate apps (map_option (as_tenant_role ps) i) a = Inr a"
proof -
  have kind: "(case map_of (role_data a) ''kind'' of Some (JStr (k # ks)) \<Rightarrow> Some (k # ks) | _ \<Rightarrow> map_option sr_kind i)
      = (if truthy (ra_kind a) then ra_kind a else map_option role_kind (map_option (as_tenant_role ps) i))"
    by (cases i; cases "ra_kind a") (auto simp: role_data_lookup as_tenant_role_def split: list.splits)
  define ws where "ws = map fst (filter (\<lambda>(c, a). \<not> pa_readonly a) (get_merged_catalog apps))"
  have ws: "write_codenames apps = ws" by (simp add: write_codenames_def ws_def)
  show ?thesis
    unfolding role_check_def role_do_validate_def kind ws ws_def[symmetric]
    by (cases "ra_permissions a")
      (auto simp: role_data_lookup bad_field_def Let_def int_permissions_def json_truth_def violations_of_ints)
qed

section \<open>Viewers stay read-only\<close>

lemma not_one: "at_least_one cmp v = Inr False \<Longrightarrow> \<not> equals_one cmp (Some v)"
  by (auto simp: at_least_one_def equals_one_def split: json.splits)

lemma no_violations:
  "write_violations cmp ws ps = Inr [] \<Longrightarrow> c \<in> set ws \<Longrightarrow> \<not> equals_one cmp (map_of ps c)"
proof (induction cmp ws ps rule: write_violations.induct)
  case (1 cmp ws)
  then show ?case by (simp add: equals_one_def)
next
  case (2 cmp ws c' v ps)
  from "2.prems"(1) obtain b cs where b: "at_least_one cmp v = Inr b" and cs: "write_violations cmp ws ps = Inr cs"
    and empty: "(if b \<and> c' \<in> set ws then c' # cs else cs) = []"
    by (auto simp: bind_res_Inr_iff)
  from empty have rest: "cs = []" and first: "c' \<in> set ws \<Longrightarrow> \<not> b" by (auto split: if_splits)
  show ?case
  proof (cases "c' = c")
    case True
    with first "2.prems"(2) b not_one show ?thesis by simp
  next
    case False
    with "2.IH"[OF _ "2.prems"(2)] cs rest show ?thesis by simp
  qed
qed

lemma granted_read_only:
  assumes "json_truth p \<Longrightarrow> \<exists>ps. p = JObj ps \<and> write_violations cmp (write_codenames apps) ps = Inr []"
    and "c \<in> set (write_codenames apps)"
  shows "permission_check cmp p c \<noteq> Inr True"
proof (cases "json_truth p")
  case True
  then obtain ps where ps: "p = JObj ps" "write_violations cmp (write_codenames apps) ps = Inr []"
    using assms(1) by blast
  from no_violations[OF ps(2) assms(2)] True ps(1) show ?thesis by (simp add: permission_check_def)
next
  case False
  then show ?thesis by (simp add: permission_check_def equals_one_def)
qed

lemma checked_viewer:
  assumes "role_check cmp apps i d = Inr ()" and "p = value_or d ''permissions'' (JObj [])"
    and "(case map_of d ''kind'' of Some (JStr (k # ks)) \<Rightarrow> Some (k # ks) | _ \<Rightarrow> map_option sr_kind i) = Some ''viewer''"
    and "json_truth p"
  shows "\<exists>ps. p = JObj ps \<and> write_violations cmp (write_codenames apps) ps = Inr []"
  using assms by (auto simp: role_check_def bad_field_def value_or_def Let_def bind_res_Inr_iff
      split: if_splits json.splits option.splits)

lemma built_viewer_safe:
  assumes "role_check cmp apps None d = Inr ()"
  shows "viewer_safe cmp apps (build_role k (dict_set ''tenant_id'' (JStr t) d))"
  unfolding viewer_safe_def
proof (intro impI ballI)
  fix c
  let ?r = "build_role k (dict_set ''tenant_id'' (JStr t) d)"
  assume kind: "sr_kind ?r = ''viewer''" and c: "c \<in> set (write_codenames apps)"
  have p: "sr_permissions ?r = value_or d ''permissions'' (JObj [])"
    by (simp add: build_role_def value_or_def)
  have "map_of d ''kind'' = Some (JStr ''viewer'')"
    using kind by (auto simp: build_role_def text_or_def split: option.splits json.splits)
  then have "(case map_of d ''kind'' of Some (JStr (k # ks)) \<Rightarrow> Some (k # ks) | _ \<Rightarrow> map_option sr_kind None) = Some ''viewer''"
    by simp
  from granted_read_only[OF checked_viewer[OF assms p this] c]
  show "permission_check cmp (sr_permissions ?r) c \<noteq> Inr True" .
qed

lemma assigned_viewer_safe:
  assumes "role_check cmp apps (Some r) d = Inr ()" and "viewer_safe cmp apps r"
  shows "viewer_safe cmp apps (assign_role d r)"
proof -
  have kind: "map_of d ''kind'' = None"
    using assms(1) by (auto simp: role_check_def bad_field_def split: if_splits)
  then have same: "sr_kind (assign_role d r) = sr_kind r"
    by (simp add: assign_role_def text_or_def)
  show ?thesis
  proof (cases "map_of d ''permissions''")
    case None
    then show ?thesis using assms(2) same by (simp add: viewer_safe_def assign_role_def value_or_def)
  next
    case (Some p)
    then have p: "sr_permissions (assign_role d r) = p" "p = value_or d ''permissions'' (JObj [])"
      by (simp_all add: assign_role_def value_or_def)
    show ?thesis
      unfolding viewer_safe_def same p(1)
    proof (intro impI ballI)
      fix c assume v: "sr_kind r = ''viewer''" and c: "c \<in> set (write_codenames apps)"
      from v kind have "(case map_of d ''kind'' of Some (JStr (k # ks)) \<Rightarrow> Some (k # ks) | _ \<Rightarrow> map_option sr_kind (Some r)) = Some ''viewer''"
        by simp
      from granted_read_only[OF checked_viewer[OF assms(1) p(2) this] c] show "permission_check cmp p c \<noteq> Inr True" .
    qed
  qed
qed


lemma viewers_kept:
  assumes "role_step cmp apps mbs rq w w'" and "list_all (viewer_safe cmp apps) (rl_roles (ap_db w))"
  shows "list_all (viewer_safe cmp apps) (rl_roles (ap_db w'))"
  using assms(1)
proof cases
  case (create_role c k body x)
  from create_endpoint_outcome[OF create_role(1)] assms(2) show ?thesis
    by (elim disjE exE conjE) (simp, clarsimp simp: built_viewer_safe)
next
  case (update_role c pk partial body x)
  from update_endpoint_outcome[OF update_role(1) roles.no_tenant_field] show ?thesis
  proof (elim disjE exE conjE)
    fix u t d i i'
    assume obj: "get_object (role_resource cmp apps) c mbs rq Map.empty pk (ap_db w) = Inr i"
      and valid: "rs_do_validate (role_resource cmp apps) c (Some i) (ap_db w) d = Inr ()"
      and i': "i' = rs_assign (role_resource cmp apps) d i"
      and w': "w' = \<lparr>ap_db = rs_put (role_resource cmp apps) (save_row (\<lambda>r. rs_pk (role_resource cmp apps) r = pk) (\<lambda>_. i')
          (rs_rows (role_resource cmp apps) (ap_db w))) (ap_db w),
        ap_audit = ap_audit w @ [audit_row u ''update'' (rs_label (role_resource cmp apps)) (rs_pk (role_resource cmp apps) i') t
          (build_update_diff d (rs_attr (role_resource cmp apps)) i')]\<rparr>"
    from get_object_own(1)[OF obj] assms(2) have "viewer_safe cmp apps i" by (simp add: list_all_iff)
    with valid i' have "viewer_safe cmp apps i'" by (simp add: assigned_viewer_safe)
    then show ?thesis unfolding w' using assms(2) by (simp add: roles.list_all_save_row)
  qed (use assms(2) in simp)
next
  case (destroy_role c pk now y)
  from roles.destroy_rows[OF destroy_role(1), of "viewer_safe cmp apps"] assms(2) show ?thesis
    by (simp add: viewer_safe_def)
qed

interpretation role_machine: state_machine "role_request cmp apps" "roles_ok cmp apps"
proof
  fix w w'
  assume ok: "roles_ok cmp apps w" and "role_request cmp apps w w'"
  then obtain mbs rq where step: "role_step cmp apps mbs rq w w'" by (auto simp: role_request_def)
  from step_writes[OF step] ok have "table_ok (role_resource cmp apps) w'"
    by (auto simp: roles_ok_def intro: roles.writes_table_ok)
  with viewers_kept[OF step] ok show "roles_ok cmp apps w'" by (simp add: roles_ok_def)
qed

section \<open>Properties\<close>

text \<open>C16: A viewer never writes.  From a store whose viewer roles grant nothing but read-only
  permissions, whatever requests to the role endpoints arrive, from whomever and with whatever
  JSON as permissions, no viewer role ever passes the permission check for a codename that the
  catalog does not call read-only; and within a tenant no two roles have one name.\<close>

theorem viewer_roles_read_only:
  assumes "(role_request cmp apps)\<^sup>*\<^sup>* w0 w" and "roles_ok cmp apps w0"
  shows "(\<forall>r \<in> set (rl_roles (ap_db w)). \<forall>perm action. sr_kind r = ''viewer''
        \<and> (perm, action) \<in> set (get_merged_catalog apps) \<and> \<not> pa_readonly action
        \<longrightarrow> permission_check cmp (sr_permissions r) perm \<noteq> Inr True)
    \<and> distinct (map (\<lambda>r. (sr_tenant r, sr_name r)) (rl_roles (ap_db w)))"
proof -
  have ok: "roles_ok cmp apps w" by (rule role_machine.steps_good[OF assms])
  then have safe: "\<forall>r \<in> set (rl_roles (ap_db w)). viewer_safe cmp apps r" and table: "table_ok (role_resource cmp apps) w"
    by (simp_all add: roles_ok_def list_all_iff)
  have "perm \<in> set (write_codenames apps)" if "(perm, action) \<in> set (get_merged_catalog apps)" "\<not> pa_readonly action" for perm action
    using that by (force simp: write_codenames_def)
  with safe have "\<forall>r \<in> set (rl_roles (ap_db w)). \<forall>perm action. sr_kind r = ''viewer''
        \<and> (perm, action) \<in> set (get_merged_catalog apps) \<and> \<not> pa_readonly action
        \<longrightarrow> permission_check cmp (sr_permissions r) perm \<noteq> Inr True"
    unfolding viewer_safe_def by blast
  moreover have "distinct (map (\<lambda>r. (sr_tenant r, sr_name r)) (rl_roles (ap_db w)))"
    using table_distinct[OF table, of "\<lambda>r. (sr_tenant r, sr_name r)"] by (simp add: role_resource_def)
  ultimately show ?thesis by blast
qed

text \<open>C17: Only an administrator changes roles, and only those of the tenant.  A request to the role
  endpoints that changes anything comes from a user with an active administrator membership in
  the tenant of the token; it appends one entry for that tenant to the audit log, and the roles
  of every other tenant stay as they are.\<close>

theorem role_changes_by_admin:
  assumes "role_step cmp apps mbs rq w w'" and "w' \<noteq> w" and "table_ok (role_resource cmp apps) w"
  shows "\<exists>u t m e. rq_user rq = Some u \<and> tenant_of rq = Some t
    \<and> m \<in> set mbs \<and> mb_user m = usr_id u \<and> mb_tenant m = t \<and> mb_is_active m \<and> mb_is_admin m
    \<and> ap_audit w' = ap_audit w @ [e] \<and> au_tenant e = Some t
    \<and> (\<forall>t'. t' \<noteq> t \<longrightarrow> filter (\<lambda>r. sr_tenant r = t') (rl_roles (ap_db w')) = filter (\<lambda>r. sr_tenant r = t') (rl_roles (ap_db w)))"
proof -
  obtain t where t: "tenant_of rq = Some t" and wr: "writes (role_resource cmp apps) t w w'"
    using step_writes[OF assms(1)] assms(2) by blast
  have "\<exists>c. is_tenant_admin c mbs rq"
    using assms(1,2)
  proof cases
    case (create_role c k body x)
    then show ?thesis using assms(2) by (intro exI[of _ c], cases "check_permissions (view_permissions (role_resource cmp apps) ''create'') c mbs rq")
      (auto simp: create_endpoint_def check_permissions_def guard_Inr_iff view_permissions_def get_permissions_def
        get_write_actions_def permits_def raise_exn_def)
  next
    case (update_role c pk partial body x)
    then show ?thesis using assms(2) by (intro exI[of _ c], cases "check_permissions (view_permissions (role_resource cmp apps)
        (if partial then ''partial_update'' else ''update'')) c mbs rq")
      (auto simp: update_endpoint_def check_permissions_def guard_Inr_iff view_permissions_def get_permissions_def
        get_write_actions_def permits_def raise_exn_def split: if_splits)
  next
    case (destroy_role c pk now y)
    then show ?thesis using assms(2) by (intro exI[of _ c], cases "check_permissions (view_permissions (role_resource cmp apps) ''destroy'') c mbs rq")
      (auto simp: destroy_endpoint_def check_permissions_def guard_Inr_iff view_permissions_def get_permissions_def
        get_write_actions_def permits_def raise_exn_def)
  qed
  then obtain c u m where u: "rq_user rq = Some u" and mem: "m \<in> set (user_memberships c u mbs)"
    and m: "mb_tenant m = t" "mb_is_active m" "mb_is_admin m"
    using t by (auto simp: is_tenant_admin_def qs_exists_iff split: option.splits)
  moreover from user_memberships_mem[OF mem] have "m \<in> set mbs" "mb_user m = usr_id u"
    by simp_all
  moreover obtain e where "ap_audit w' = ap_audit w @ [e]" "au_tenant e = Some t"
    using writes_log[OF wr] by blast
  moreover have "filter (\<lambda>r. sr_tenant r = t') (rl_roles (ap_db w')) = filter (\<lambda>r. sr_tenant r = t') (rl_roles (ap_db w))"
    if "t' \<noteq> t" for t'
    using roles.writes_own[OF wr assms(3) that] by simp
  ultimately show ?thesis using t by blast
qed

text \<open>
  Permissions that are not an object break the check: for a role that is not a viewer the
  serializer accepts any JSON but null as permissions; with a list that is not empty, every
  permission check of a member who has the role ends in an \<open>AttributeError\<close>.
\<close>

lemma list_permissions_accepted:
  assumes "xs \<noteq> []"
  shows "role_check cmp apps None [(''name'', JStr n), (''permissions'', JList xs)] = Inr ()"
    and "permission_check cmp (JList xs) perm = Inl AttributeErr"
  using assms by (simp_all add: role_check_def permission_check_def json_truth_def)

section \<open>A first role\<close>

definition no_roles :: "role_store app" where
  "no_roles = \<lparr>ap_db = \<lparr>rl_roles = []\<rparr>, ap_audit = []\<rparr>"

lemma no_roles_ok: "roles_ok cmp apps no_roles"
  by (simp add: roles_ok_def table_ok_def no_roles_def)

definition tenant_admin :: membership where
  "tenant_admin = \<lparr>mb_id = ''m'', mb_user = ''a'', mb_tenant = ''t1'', mb_role = ''r'', mb_is_admin = True,
     mb_is_active = True, mb_joined_at = 0\<rparr>"

definition viewer_data :: attrs where
  "viewer_data = [(''name'', JStr ''V''), (''kind'', JStr ''viewer''), (''permissions'', JObj [(''docs.docs.view'', JInt 1)])]"

lemma first_role:
  obtains w where "role_step (\<lambda>_. 1) sample_apps [tenant_admin] sample_editor no_roles w"
    and "map sr_kind (rl_roles (ap_db w)) = [''viewer'']"
proof -
  let ?R = "role_resource (\<lambda>_. 1) sample_apps"
  let ?c = "Some [(''tenant_id'', ''t1'')]"
  have user: "rq_user sample_editor = Some (sample_user ''a'' False)" and tenant: "tenant_of sample_editor = Some ''t1''"
    by (simp_all add: sample_editor_def)
  have st: "strip ''V'' = ''V''" by code_simp
  have fields: "writable (get_fields (rs_model ?R) (rs_fields ?R c db)) =
      [text_input ''name'' True (Some 50), input ''kind'' False (\<lambda>n. not_null n (choice_value kind_choices n)),
       text_input ''description'' False None, input ''permissions'' False (\<lambda>n. not_null n Inr)]" for c db
    by (simp add: writable_def get_fields_def Let_def filter_fields_def role_resource_def role_fields_def base_model_def
        standard_fields_def text_input_def input_def)
  have data: "run_fields False (writable (get_fields (rs_model ?R) (rs_fields ?R c db))) viewer_data = Inr viewer_data" for c db
    unfolding fields by (simp add: text_input_def input_def not_null_def char_value_def choice_value_def kind_choices_def
        json_str_def st Let_def viewer_data_def)
  have check: "role_check (\<lambda>_. 1) sample_apps None viewer_data = Inr ()" by code_simp
  have unique: "rs_validator ?R ?c (plugin_context sample_editor) None (ap_db no_roles) viewer_data = Inr ()"
    by (simp add: role_resource_def unique_together_def field_filters_def plugin_context_def plugin_on_build_context_def
        sample_editor_def manager_queryset_def no_roles_def scope_tenant_def get_bound_scope_def viewer_data_def)
  have perms: "check_permissions (view_permissions ?R ''create'') ?c [tenant_admin] sample_editor = Inr ()"
    by (simp add: check_permissions_def view_permissions_def get_permissions_def get_write_actions_def permits_def
        is_authenticated_permission_def is_tenant_admin_def user tenant user_memberships_def manager_queryset_def
        scope_tenant_def get_bound_scope_def tenant_admin_def sample_user_def qs_exists_def)
  have valid: "validate_request ?R ?c sample_editor None False viewer_data (ap_db no_roles) = Inr viewer_data"
    using data unique check by (simp add: validate_request_def)
  obtain x w where run: "create_endpoint ?R ?c [tenant_admin] sample_editor Map.empty ''k'' viewer_data no_roles = (x, w)"
    by fastforce
  then have "map sr_kind (rl_roles (ap_db w)) = [''viewer'']"
    unfolding create_endpoint_eq[OF user tenant]
    using valid by (auto simp: perms clean_create_data_def rs_free_def no_roles_def Let_def build_role_def text_or_def viewer_data_def)
  moreover have "role_step (\<lambda>_. 1) sample_apps [tenant_admin] sample_editor no_roles w"
    by (rule role_step.create_role[OF run]) (simp_all add: in_scope_def tenant scope_tenant_def get_bound_scope_def no_roles_def)
  ultimately show ?thesis by (intro that)
qed

lemma viewer_roles_read_only_witness:
  "\<exists>w. (role_request (\<lambda>_. 1) sample_apps)\<^sup>*\<^sup>* no_roles w \<and> map sr_kind (rl_roles (ap_db w)) = [''viewer'']
    \<and> distinct (map (\<lambda>r. (sr_tenant r, sr_name r)) (rl_roles (ap_db w)))"
proof -
  obtain w where step: "role_step (\<lambda>_. 1) sample_apps [tenant_admin] sample_editor no_roles w"
    and kinds: "map sr_kind (rl_roles (ap_db w)) = [''viewer'']"
    by (rule first_role)
  from step have steps: "(role_request (\<lambda>_. 1) sample_apps)\<^sup>*\<^sup>* no_roles w"
    by (intro r_into_rtranclp) (auto simp: role_request_def)
  from conjunct2[OF viewer_roles_read_only[OF steps no_roles_ok]] steps kinds show ?thesis
    by (intro exI[of _ w] conjI)
qed

lemma role_changes_by_admin_witness:
  "\<exists>w e. role_step (\<lambda>_. 1) sample_apps [tenant_admin] sample_editor no_roles w \<and> ap_audit w = [e]"
proof -
  obtain w where step: "role_step (\<lambda>_. 1) sample_apps [tenant_admin] sample_editor no_roles w"
    and kinds: "map sr_kind (rl_roles (ap_db w)) = [''viewer'']"
    by (rule first_role)
  have changed: "w \<noteq> no_roles"
    using kinds by (auto simp: no_roles_def)
  have table: "table_ok (role_resource (\<lambda>_. 1) sample_apps) no_roles"
    using no_roles_ok by (simp add: roles_ok_def)
  obtain e where "ap_audit w = ap_audit no_roles @ [e]"
    using role_changes_by_admin[OF step changed table] by (elim exE conjE)
  then have "ap_audit w = [e]" by (simp add: no_roles_def)
  with step show ?thesis by (intro exI conjI)
qed

end
