(* ===== verification/Workers.thy ===== *)
theory Workers
  imports Documents
begin

text \<open>
  The worker processes of the platform: the schedule of \<open>config/settings/base.py\<close> queues a poll of
  the event bus, uploads queue a run of the pipeline, a poll queues the handlers of the events it
  reads.  The jobs run in a fixed number of processes, in the order of the queue.  A poll reads
  the stream with \<open>block=0\<close> (\<open>apps/sys_eventbus/consumer.py\<close>): while there is nothing to read it
  keeps its process.
\<close>

section \<open>Jobs and processes\<close>

datatype job = Poll | Pipeline string | Dispatch task

record ('st, 's, 'w) pool =
  pl_ingest :: "('st, 's) ingest"
  pl_broker :: "job list"
  pl_waiting :: nat
  pl_processed :: "(string \<times> string) list"
  pl_dlq :: "dead_letter list"
  pl_world :: 'w

text \<open>The services and settings the jobs use, and the number of processes.\<close>

record ('st, 's, 'w) pool_env =
  pe_stream :: "'s stream_ops"
  pe_storage :: "'st storage_ops"
  pe_loads :: "string \<Rightarrow> payload res"
  pe_registry :: "(payload, 'w) registry"
  pe_batch_size :: nat
  pe_max_retries :: nat
  pe_celery_limit :: nat
  pe_processes :: nat

definition bus_of :: "('st, 's, 'w) pool \<Rightarrow> ('s, 'w) bus" where
  "bus_of s = \<lparr>bu_stream = in_stream (pl_ingest s), bu_queue = [], bu_processed = pl_processed s,
     bu_dlq = pl_dlq s, bu_world = pl_world s\<rparr>"

definition with_bus :: "('s, 'w) bus \<Rightarrow> ('st, 's, 'w) pool \<Rightarrow> ('st, 's, 'w) pool" where
  "with_bus b s = s\<lparr>pl_ingest := (pl_ingest s)\<lparr>in_stream := bu_stream b\<rparr>,
     pl_broker := pl_broker s @ map Dispatch (bu_queue b), pl_processed := bu_processed b,
     pl_dlq := bu_dlq b, pl_world := bu_world b\<rparr>"

text \<open>\<open>xreadgroup(group, consumer, {stream: ">"}, count=batch_size, block=0)\<close> has nothing to return.\<close>

definition read_blocks :: "('st, 's, 'w) pool_env \<Rightarrow> ('st, 's, 'w) pool \<Rightarrow> bool" where
  "read_blocks P s = (fst (so_read (pe_stream P) (pe_batch_size P) (in_stream (pl_ingest s))) = [])"

definition run_poll :: "('st, 's, 'w) pool_env \<Rightarrow> ('st, 's, 'w) pool \<Rightarrow> ('st, 's, 'w) pool" where
  "run_poll P s = with_bus (snd (poll_stream (pe_stream P) (pe_loads P) (pe_registry P) (pe_batch_size P) (bus_of s))) s"

definition run_dispatch :: "('st, 's, 'w) pool_env \<Rightarrow> task \<Rightarrow> ('st, 's, 'w) pool \<Rightarrow> ('st, 's, 'w) pool" where
  "run_dispatch P tk s =
     with_bus (snd (run_task (pe_loads P) (pe_registry P) (pe_max_retries P) (pe_celery_limit P) tk (bus_of s))) s"

text \<open>
  The steps: the schedule fires, a client uploads, a free process takes the next job, a poll
  that waits gets something to read.  The event identifiers, clock and errors of the runs of the
  pipeline are any (\<open>envs\<close>).
\<close>

inductive pool_step :: "('st, 's, 'w) pool_env \<Rightarrow> ('st, 's, 'w) pool \<Rightarrow> ('st, 's, 'w) pool \<Rightarrow> bool"
  for P s where
  beat: "pool_step P s (s\<lparr>pl_broker := pl_broker s @ [Poll]\<rparr>)"
| upload: "upload_put (pe_storage P) now rq pk f (pl_ingest s) = (x, w)
    \<Longrightarrow> pool_step P s (s\<lparr>pl_ingest := w\<lparr>in_tasks := []\<rparr>, pl_broker := pl_broker s @ map Pipeline (in_tasks w)\<rparr>)"
| poll_waits: "\<lbrakk>pl_waiting s < pe_processes P; pl_broker s = Poll # js; read_blocks P s\<rbrakk>
    \<Longrightarrow> pool_step P s (s\<lparr>pl_broker := js, pl_waiting := Suc (pl_waiting s)\<rparr>)"
| poll_reads: "\<lbrakk>pl_waiting s < pe_processes P; pl_broker s = Poll # js; \<not> read_blocks P s\<rbrakk>
    \<Longrightarrow> pool_step P s (run_poll P (s\<lparr>pl_broker := js\<rparr>))"
| wakes: "\<lbrakk>pl_waiting s = Suc n; \<not> read_blocks P s\<rbrakk> \<Longrightarrow> pool_step P s (run_poll P (s\<lparr>pl_waiting := n\<rparr>))"
| pipeline: "\<lbrakk>pl_waiting s < pe_processes P; pl_broker s = Pipeline sid # js; \<forall>i. ie_stream (envs i) = pe_stream P;
     \<forall>i. ie_storage (envs i) = pe_storage P; run_pipeline_task envs sid (pl_ingest s) = (x, k, w)\<rbrakk>
    \<Longrightarrow> pool_step P s (s\<lparr>pl_ingest := w, pl_broker := js\<rparr>)"
| dispatch: "\<lbrakk>pl_waiting s < pe_processes P; pl_broker s = Dispatch tk # js\<rbrakk>
    \<Longrightarrow> pool_step P s (run_dispatch P tk (s\<lparr>pl_broker := js\<rparr>))"

inductive_cases pool_stepE: "pool_step P s s'"

section \<open>Exhaustion\<close>

text \<open>All processes wait for something to read, and nothing is there.\<close>

definition exhausted :: "('st, 's, 'w) pool_env \<Rightarrow> ('st, 's, 'w) pool \<Rightarrow> bool" where
  "exhausted P s \<longleftrightarrow> pl_waiting s = pe_processes P \<and> read_blocks P s"

text \<open>What a step leaves alone when no job can run: the queue only grows.\<close>

definition stalled :: "('st, 's, 'w) pool \<Rightarrow> ('st, 's, 'w) pool \<Rightarrow> bool" where
  "stalled s s' \<longleftrightarrow> in_stream (pl_ingest s') = in_stream (pl_ingest s) \<and> pl_waiting s' = pl_waiting s
     \<and> pl_processed s' = pl_processed s \<and> pl_dlq s' = pl_dlq s \<and> pl_world s' = pl_world s
     \<and> (\<exists>js. pl_broker s' = pl_broker s @ js)
     \<and> (\<forall>r' \<in> set (in_sessions (pl_ingest s')). us_state r' = DOCUMENT_CREATED \<longrightarrow> r' \<in> set (in_sessions (pl_ingest s)))"

lemma upload_put_frame:
  assumes "upload_put P now rq pk f w = (x, w')"
  shows "in_stream w' = in_stream w"
    and "r' \<in> set (in_sessions w') \<Longrightarrow> us_state r' = DOCUMENT_CREATED \<Longrightarrow> r' \<in> set (in_sessions w)"
  using assms by (auto simp: upload_put_def set_save_row split: sum.splits exn.splits option.splits if_splits prod.splits)

lemma stalled_refl: "stalled s s"
  by (simp add: stalled_def)

lemma stalled_trans: "stalled s s' \<Longrightarrow> stalled s' s'' \<Longrightarrow> stalled s s''"
  by (auto simp: stalled_def)

lemma exhausted_stalls:
  assumes "exhausted P s" and "pool_step P s s'"
  shows "stalled s s'"
  using assms(2)
proof cases
  case (upload now rq pk f x w)
  from upload_put_frame[OF upload(2)] upload(1) show ?thesis by (simp add: stalled_def)
qed (use assms(1) in \<open>auto simp: exhausted_def stalled_def\<close>)

lemma stalled_exhausted: "exhausted P s \<Longrightarrow> stalled s s' \<Longrightarrow> exhausted P s'"
  by (simp add: exhausted_def stalled_def read_blocks_def)

interpretation exhaustion: state_machine "pool_step P" "\<lambda>s'. exhausted P s' \<and> stalled s s'" for P s
  by unfold_locales (meson exhausted_stalls stalled_exhausted stalled_trans)

text \<open>Every firing of the schedule takes one more process.\<close>

lemma beats_exhaust:
  assumes "pl_broker s = []" and "read_blocks P s" and "pl_waiting s + n = pe_processes P"
  shows "(pool_step P)\<^sup>*\<^sup>* s (s\<lparr>pl_waiting := pe_processes P\<rparr>)"
  using assms
proof (induction n arbitrary: s)
  case 0
  then show ?case by (cases s) simp
next
  case (Suc n)
  let ?queued = "s\<lparr>pl_broker := [Poll]\<rparr>" and ?taken = "s\<lparr>pl_waiting := Suc (pl_waiting s)\<rparr>"
  have "pool_step P s ?queued"
    using pool_step.beat[of P s] Suc.prems(1) by simp
  moreover have "pool_step P ?queued ?taken"
    using pool_step.poll_waits[of ?queued P "[]"] Suc.prems by (cases s) (simp add: read_blocks_def)
  moreover have "(pool_step P)\<^sup>*\<^sup>* ?taken (?taken\<lparr>pl_waiting := pe_processes P\<rparr>)"
    using Suc.prems by (intro Suc.IH) (simp_all add: read_blocks_def)
  ultimately show ?case
    by (simp add: converse_rtranclp_into_rtranclp)
qed


section \<open>Two processes\<close>

definition idle_pool :: "(memory, log_stream, unit) pool" where
  "idle_pool = \<lparr>pl_ingest = sample_ingest NEW, pl_broker = [], pl_waiting = 0, pl_processed = [], pl_dlq = [], pl_world = ()\<rparr>"

definition two_processes :: "(memory, log_stream, unit) pool_env" where
  "two_processes = \<lparr>pe_stream = log_ops, pe_storage = memory_storage (generate_storage_name ''now''), pe_loads = (\<lambda>_. Inr []),
     pe_registry = [], pe_batch_size = 100, pe_max_retries = 3, pe_celery_limit = 3, pe_processes = 2\<rparr>"


end
