(* ===== verification/Onboarding.thy ===== *)
theory Onboarding
  imports DmsApi Login PermissionCatalog
begin

text \<open>
  New tenants: the endpoints of \<open>TenantViewSet\<close> (\<open>apps/tenants/{views,serializers}.py\<close>), the signal
  that seeds the default roles of a tenant, and how they meet the memberships of \<open>Directory\<close> and
  the login: whether anyone can get into a tenant the platform has just created.
\<close>

section \<open>The tenant endpoints\<close>

text \<open>
  The free-form column \<open>details\<close> is left out.  \<open>TenantSerializer\<close> is the framework's serializer,
  without the plugins of the others.
\<close>

record platform_state =
  pt_tenants :: "tenant list"
  pt_roles :: "tenant_role list"
  pt_directory :: directory

definition tenant_fields :: "(json \<Rightarrow> bool option) \<Rightarrow> field list" where
  "tenant_fields spelling =
     [text_input ''name'' True (Some 255), text_input ''code'' True (Some 100),
      input ''is_active'' False (\<lambda>n. not_null n (bool_value spelling n))]"

definition tenant_permissions :: "string \<Rightarrow> permission list" where
  "tenant_permissions action = get_permissions (Some [PIsSuperUser]) [PIsAuthenticated] action"

text \<open>The framework's validator of a unique column, over the rows but the one updated.\<close>

definition code_unused :: "attrs \<Rightarrow> tenant list \<Rightarrow> unit res" where
  "code_unused d rows =
     (case map_of d ''code'' of
        Some (JStr s) \<Rightarrow> guard (\<forall>t \<in> set rows. tn_code t \<noteq> s) (ValidationError ''code'' ''tenant with this code already exists.'' ''unique'')
      | _ \<Rightarrow> Inr ())"

definition flag_or :: "attrs \<Rightarrow> string \<Rightarrow> bool \<Rightarrow> bool" where
  "flag_or d k old = (case map_of d k of Some (JBool b) \<Rightarrow> b | _ \<Rightarrow> old)"

definition tenant_create ::
  "(json \<Rightarrow> bool option) \<Rightarrow> app_config list \<Rightarrow> ctx \<Rightarrow> request \<Rightarrow> string \<Rightarrow> (string \<Rightarrow> string) \<Rightarrow> attrs \<Rightarrow> platform_state \<Rightarrow> platform_state res" where
  "tenant_create spelling apps c rq pk fresh body w =
     bind_res (check_permissions (tenant_permissions ''create'') c (dr_members (pt_directory w)) rq) (\<lambda>_.
     bind_res (run_fields False (tenant_fields spelling) body) (\<lambda>d.
     bind_res (code_unused d (pt_tenants w)) (\<lambda>_.
       let t = \<lparr>tn_id = pk, tn_name = attr_text d ''name'', tn_code = attr_text d ''code'', tn_is_active = flag_or d ''is_active'' True\<rparr>
       in Inr (w\<lparr>pt_tenants := pt_tenants w @ [t], pt_roles := seed_default_roles apps fresh t True (pt_roles w)\<rparr>))))"

definition tenant_update ::
  "(json \<Rightarrow> bool option) \<Rightarrow> app_config list \<Rightarrow> ctx \<Rightarrow> request \<Rightarrow> string \<Rightarrow> (string \<Rightarrow> string) \<Rightarrow> bool \<Rightarrow> attrs \<Rightarrow> platform_state \<Rightarrow> platform_state res" where
  "tenant_update spelling apps c rq pk fresh partial body w =
     bind_res (check_permissions (tenant_permissions (if partial then ''partial_update'' else ''update'')) c
         (dr_members (pt_directory w)) rq) (\<lambda>_.
     bind_res (tenant_viewset_queryset rq (dr_members (pt_directory w)) (pt_tenants w)) (\<lambda>rows.
     bind_res (case qs_get (\<lambda>t. tn_id t = pk) rows of Inl _ \<Rightarrow> Inl NotFound | Inr t \<Rightarrow> Inr t) (\<lambda>t.
     bind_res (run_fields partial (tenant_fields spelling) body) (\<lambda>d.
     bind_res (code_unused d (filter (\<lambda>s. tn_id s \<noteq> tn_id t) (pt_tenants w))) (\<lambda>_.
       let t' = t\<lparr>tn_name := text_or d ''name'' (tn_name t), tn_code := text_or d ''code'' (tn_code t),
                  tn_is_active := flag_or d ''is_active'' (tn_is_active t)\<rparr>
       in Inr (w\<lparr>pt_tenants := save_row (\<lambda>s. tn_id s = tn_id t) (\<lambda>_. t') (pt_tenants w),
                pt_roles := seed_default_roles apps fresh t' False (pt_roles w)\<rparr>))))))"

text \<open>
  A removal takes along the rows that refer to the tenant; memberships refer to their role with
  \<open>PROTECT\<close>, so it is refused while a role of the tenant is in use.  What the client is told
  afterwards is in \<open>Deletion\<close>.
\<close>

definition remove_from_directory :: "string \<Rightarrow> directory \<Rightarrow> directory" where
  "remove_from_directory t dir =
     (let members = filter (\<lambda>m. mb_tenant m \<noteq> t) (dr_members dir); teams = filter (\<lambda>g. tm_tenant g \<noteq> t) (dr_teams dir)
      in \<lparr>dr_members = members, dr_teams = teams,
          dr_team_members = filter (\<lambda>x. tmm_tenant x \<noteq> t \<and> tmm_member x \<in> mb_id ` set members \<and> tmm_team x \<in> tm_id ` set teams)
            (dr_team_members dir)\<rparr>)"

definition tenant_destroy :: "ctx \<Rightarrow> request \<Rightarrow> string \<Rightarrow> platform_state \<Rightarrow> platform_state res" where
  "tenant_destroy c rq pk w =
     bind_res (check_permissions (tenant_permissions ''destroy'') c (dr_members (pt_directory w)) rq) (\<lambda>_.
     bind_res (tenant_viewset_queryset rq (dr_members (pt_directory w)) (pt_tenants w)) (\<lambda>rows.
     bind_res (case qs_get (\<lambda>t. tn_id t = pk) rows of Inl _ \<Rightarrow> Inl NotFound | Inr t \<Rightarrow> Inr t) (\<lambda>t.
     bind_res (guard (\<forall>r \<in> set (pt_roles w). role_tenant r = tn_id t \<longrightarrow>
         (\<forall>m \<in> set (dr_members (pt_directory w)). mb_role m \<noteq> role_id r)) (OtherErr ''ProtectedError'')) (\<lambda>_.
       Inr (w\<lparr>pt_tenants := filter (\<lambda>s. tn_id s \<noteq> tn_id t) (pt_tenants w),
              pt_roles := filter (\<lambda>r. role_tenant r \<noteq> tn_id t) (pt_roles w),
              pt_directory := remove_from_directory (tn_id t) (pt_directory w)\<rparr>)))))"

section \<open>The platform as a transition system\<close>

text \<open>A successful request to the tenant endpoints or one to those of \<open>Directory\<close>; new keys are fresh.\<close>

inductive platform_step :: "(json \<Rightarrow> bool option) \<Rightarrow> app_config list \<Rightarrow> platform_state \<Rightarrow> platform_state \<Rightarrow> bool"
  for spelling apps w where
  new_tenant: "\<lbrakk>tenant_create spelling apps c rq pk fresh body w = Inr w'; pk \<notin> tn_id ` set (pt_tenants w)\<rbrakk>
    \<Longrightarrow> platform_step spelling apps w w'"
| change_tenant: "tenant_update spelling apps c rq pk fresh partial body w = Inr w' \<Longrightarrow> platform_step spelling apps w w'"
| remove_tenant: "tenant_destroy c rq pk w = Inr w' \<Longrightarrow> platform_step spelling apps w w'"
| in_directory: "directory_step (pt_directory w) dir \<Longrightarrow> platform_step spelling apps w (w\<lparr>pt_directory := dir\<rparr>)"

section \<open>Memberships come from memberships\<close>

definition tenants_with_members :: "directory \<Rightarrow> string set" where
  "tenants_with_members dir = mb_tenant ` set (dr_members dir)"

lemma save_row_tenants:
  "(\<And>m. m \<in> set rows \<Longrightarrow> P m \<Longrightarrow> mb_tenant (f m) \<in> mb_tenant ` set rows)
    \<Longrightarrow> mb_tenant ` set (save_row P f rows) \<subseteq> mb_tenant ` set rows"
  by (auto simp: save_row_def)

lemma directory_step_tenants:
  assumes "directory_step dir dir'"
  shows "tenants_with_members dir' \<subseteq> tenants_with_members dir"
  using assms
proof cases
  case (invite c rq pk now users roles d)
  show ?thesis
  proof (rule membership_create_D[OF invite(1)])
    fix t u r
    assume admin: "is_tenant_admin c (dr_members dir) rq" and t: "tenant_of rq = Some t"
      and dir': "dir' = dir\<lparr>dr_members := dr_members dir @ [\<lparr>mb_id = pk, mb_user = usr_id u, mb_tenant = t, mb_role = role_id r,
          mb_is_admin = (md_is_admin d = Some True), mb_is_active = True, mb_joined_at = now\<rparr>]\<rparr>"
    from admin_gate.granted_by_membership[OF admin] t have "t \<in> mb_tenant ` set (dr_members dir)"
      by auto
    then show ?thesis by (simp add: tenants_with_members_def dir')
  qed
next
  case (change_member c rq pk adm act)
  then obtain m where m: "membership_get_object rq pk (dr_members dir) = Inr m"
    and dir': "dr_members dir' = save_row (\<lambda>x. mb_id x = mb_id m)
          (\<lambda>_. m\<lparr>mb_is_admin := (case adm of None \<Rightarrow> mb_is_admin m | Some b \<Rightarrow> b),
                  mb_is_active := (case act of None \<Rightarrow> mb_is_active m | Some b \<Rightarrow> b)\<rparr>) (dr_members dir)"
    by (auto simp: membership_update_def bind_res_Inr_iff)
  show ?thesis
    unfolding tenants_with_members_def dir' by (rule save_row_tenants) (use membership_get_object_own(1)[OF m] in simp)
next
  case (deactivate_member c rq pk mbs)
  then show ?thesis using transition_keys(1)[of c rq pk] by (force simp: tenants_with_members_def set_active_def save_row_def)
next
  case (activate_member c rq pk mbs)
  then show ?thesis using transition_keys(2)[of c rq pk] by (force simp: tenants_with_members_def set_active_def save_row_def)
next
  case (remove_member c rq pk)
  then show ?thesis by (auto simp: tenants_with_members_def membership_destroy_def bind_res_Inr_iff)
next
  case (new_team c rq pk d)
  then show ?thesis by (auto simp: tenants_with_members_def team_create_def bind_res_Inr_iff Let_def)
next
  case (change_team c rq pk d)
  then show ?thesis by (auto simp: tenants_with_members_def team_update_def bind_res_Inr_iff Let_def)
next
  case (delete_team c rq pk now)
  then show ?thesis by (auto simp: tenants_with_members_def team_destroy_def bind_res_Inr_iff Let_def)
next
  case (join_team c rq pk tk mk)
  then show ?thesis by (auto simp: tenants_with_members_def team_member_create_def bind_res_Inr_iff Let_def)
next
  case (leave_team c rq pk)
  then show ?thesis by (auto simp: tenants_with_members_def elim: team_member_destroy_D)
qed


lemma platform_step_tenants:
  assumes "platform_step spelling apps w w'"
  shows "tenants_with_members (pt_directory w') \<subseteq> tenants_with_members (pt_directory w)"
  using assms
proof cases
  case (in_directory dir)
  then show ?thesis using directory_step_tenants by simp
qed (auto simp: tenant_create_def tenant_update_def tenant_destroy_def remove_from_directory_def
    tenants_with_members_def bind_res_Inr_iff Let_def)

interpretation memberless: state_machine "platform_step spelling apps"
    "\<lambda>w. t \<notin> tenants_with_members (pt_directory w)" for spelling apps t
  by unfold_locales (use platform_step_tenants in blast)

section \<open>Nobody gets into a new tenant\<close>

lemma login_needs_member:
  assumes "login_post E rq raw password (Some t) lw = (Inr ans, lw')"
  shows "\<exists>m \<in> set (ld_memberships lw). mb_tenant m = t"
proof -
  obtain e p w1 where v: "login_validate E rq e p (Some t) lw = (Inr ans, w1)"
    by (rule login_post_Inr[OF assms])
  obtain u w2 m where u: "obtain_pair_validate E e p lw = (Inr u, w2)" and m: "login_policies E rq u (Some t) w2 = Inr m"
    by (rule login_validate_Inr[OF v])
  have "ld_memberships w2 = ld_memberships lw"
    using u by (auto simp: obtain_pair_Inr)
  moreover have "resolve_tenant_membership E u (Some t) w2 = Inr m"
    using m by (simp add: login_policies_Inr)
  ultimately show ?thesis
    using resolved_membership by metis
qed

text \<open>C11: Nobody gets into a new tenant.  When a superuser creates a tenant, its default roles are
  there and no membership is; the only endpoint that creates memberships asks for an
  administrator membership in the tenant itself.  So whatever requests follow, to the tenants and
  to the whole directory, from whomever and with whatever tokens, the tenant never gets a
  member, nobody is its administrator, and no login into it succeeds.\<close>

theorem new_tenant_unreachable:
  assumes "tenant_create spelling apps c rq t fresh body w = Inr w1"
    and "\<forall>m \<in> set (dr_members (pt_directory w)). mb_tenant m \<noteq> t"
    and "(platform_step spelling apps)\<^sup>*\<^sup>* w1 w2"
  shows "map role_kind (drop (length (pt_roles w)) (pt_roles w1)) = default_roles
    \<and> (\<forall>m \<in> set (dr_members (pt_directory w2)). mb_tenant m \<noteq> t)
    \<and> (tenant_of rq' = Some t \<longrightarrow> \<not> is_tenant_admin c' (dr_members (pt_directory w2)) rq')
    \<and> (ld_memberships lw = dr_members (pt_directory w2) \<longrightarrow>
        (\<exists>x. fst (login_post E rq'' email password (Some t) lw) = Inl x))"
proof -
  have roles: "map role_kind (drop (length (pt_roles w)) (pt_roles w1)) = default_roles"
    and dir: "pt_directory w1 = pt_directory w"
    using assms(1) by (auto simp: tenant_create_def bind_res_Inr_iff Let_def seed_default_roles_def
        get_default_role_permissions_def comp_def)
  have none: "t \<notin> tenants_with_members (pt_directory w2)"
    by (rule memberless.steps_good[OF assms(3)]) (use assms(2) dir in \<open>auto simp: tenants_with_members_def\<close>)
  then have "\<not> is_tenant_admin c' (dr_members (pt_directory w2)) rq'" if "tenant_of rq' = Some t"
    using admin_gate.granted_by_membership[of c' "dr_members (pt_directory w2)" rq'] that
    by (auto simp: tenants_with_members_def)
  moreover have "\<exists>x. fst (login_post E rq'' email password (Some t) lw) = Inl x"
    if "ld_memberships lw = dr_members (pt_directory w2)"
  proof (cases "login_post E rq'' email password (Some t) lw")
    case (Pair r lw')
    then show ?thesis
      using login_needs_member[of E rq'' email password t lw _ lw'] none that
      by (cases r) (auto simp: tenants_with_members_def)
  qed
  ultimately show ?thesis
    using roles none by (auto simp: tenants_with_members_def)
qed

section \<open>A fresh installation\<close>

text \<open>
  \<open>UserManager\<close>, behind the framework's \<open>createsuperuser\<close>: the normalized address, a hashed
  password (\<open>hash\<close> is the framework's), the unique column; the extra fields are the flags given.
\<close>

definition normalize_email :: "string \<Rightarrow> string" where
  "normalize_email email =
     (let s = rev (strip email); domain = takeWhile (\<lambda>c. c \<noteq> CHR ''@'') s in
      if length domain = length s then email
      else rev (drop (Suc (length domain)) s) @ ''@'' @ lower (rev domain))"

definition create_user ::
  "(string option \<Rightarrow> string) \<Rightarrow> string \<Rightarrow> int \<Rightarrow> string \<Rightarrow> string option \<Rightarrow> bool option \<Rightarrow> user list \<Rightarrow> (user \<times> user list) res" where
  "create_user hash pk now email password superuser users =
     (if email = [] then Inl ValueErr
      else let u = \<lparr>usr_id = pk, usr_email = normalize_email email, usr_first_name = [], usr_last_name = [],
             usr_is_active = True, usr_is_superuser = (superuser = Some True), usr_password = hash password, usr_created_at = now\<rparr>
        in if list_ex (\<lambda>x. usr_email x = usr_email u) users then Inl IntegrityErr else Inr (u, users @ [u]))"

definition create_superuser ::
  "(string option \<Rightarrow> string) \<Rightarrow> string \<Rightarrow> int \<Rightarrow> string \<Rightarrow> string option \<Rightarrow> bool option \<Rightarrow> user list \<Rightarrow> (user \<times> user list) res" where
  "create_superuser hash pk now email password superuser users =
     create_user hash pk now email password (Some (case superuser of None \<Rightarrow> True | Some b \<Rightarrow> b)) users"

lemma superuser_created:
  "create_superuser hash pk now email password None users = Inr (u, users') \<Longrightarrow> usr_is_superuser u \<and> users' = users @ [u]"
  by (auto simp: create_superuser_def create_user_def Let_def split: if_splits)

text \<open>
  As long as there is no membership no login succeeds at all, so the superuser of a fresh
  installation cannot get the token that creating a tenant asks for.
\<close>

lemma resolve_needs_membership: "resolve_tenant_membership E u tid w = Inr m \<Longrightarrow> ld_memberships w \<noteq> []"
  using resolved_membership by fastforce

theorem fresh_installation_closed:
  assumes "ld_memberships lw = []"
  shows "\<exists>x. fst (login_post E rq email password tid lw) = Inl x"
proof (cases "fst (login_post E rq email password tid lw)")
  case (Inr ans)
  then obtain lw' where "login_post E rq email password tid lw = (Inr ans, lw')"
    by (metis prod.collapse)
  then obtain e p w1 where v: "login_validate E rq e p tid lw = (Inr ans, w1)"
    by (rule login_post_Inr)
  obtain u w2 m where u: "obtain_pair_validate E e p lw = (Inr u, w2)" and m: "login_policies E rq u tid w2 = Inr m"
    by (rule login_validate_Inr[OF v])
  have "ld_memberships w2 = []"
    using u assms by (auto simp: obtain_pair_Inr)
  with m show ?thesis
    by (auto simp: login_policies_Inr dest: resolve_needs_membership)
qed simp

section \<open>A new tenant\<close>

definition platform_admin :: request where
  "platform_admin = sample_request (Some (sample_user ''s'' True)) None"

definition empty_platform :: platform_state where
  "empty_platform = \<lparr>pt_tenants = [], pt_roles = [], pt_directory = sample_directory\<rparr>"

lemma new_tenant_unreachable_witness:
  "\<exists>w1. tenant_create (\<lambda>_. None) sample_apps None platform_admin ''t2'' id [(''name'', JStr ''B''), (''code'', JStr ''b'')] empty_platform = Inr w1
    \<and> map role_kind (pt_roles w1) = default_roles
    \<and> \<not> is_tenant_admin None (dr_members (pt_directory w1)) (sample_request (Some (sample_user ''s'' True)) (Some ''t2''))"
proof -
  let ?body = "[(''name'', JStr ''B''), (''code'', JStr ''b'')]"
  let ?rq = "sample_request (Some (sample_user ''s'' True)) (Some ''t2'')"
  have st: "strip ''B'' = ''B''" "strip ''b'' = ''b''" by code_simp+
  have "run_fields False (tenant_fields (\<lambda>_. None)) ?body = Inr ?body"
    by (simp add: tenant_fields_def text_input_def input_def not_null_def char_value_def json_str_def st Let_def)
  moreover have "check_permissions (tenant_permissions ''create'') None (dr_members (pt_directory empty_platform)) platform_admin = Inr ()"
    by (simp add: check_permissions_def tenant_permissions_def get_permissions_def get_write_actions_def permits_def
        is_authenticated_permission_def is_super_user_def platform_admin_def sample_request_def sample_user_def)
  ultimately obtain w1 where run: "tenant_create (\<lambda>_. None) sample_apps None platform_admin ''t2'' id ?body empty_platform = Inr w1"
    by (simp add: tenant_create_def code_unused_def empty_platform_def Let_def)
  have fresh: "\<forall>m \<in> set (dr_members (pt_directory empty_platform)). mb_tenant m \<noteq> ''t2''"
    by (simp add: empty_platform_def sample_directory_def sample_membership_def)
  have tenant: "tenant_of ?rq = Some ''t2''" by simp
  note facts = new_tenant_unreachable[OF run fresh rtranclp.rtrancl_refl, of ?rq None]
  from conjunct1[OF facts] have "map role_kind (pt_roles w1) = default_roles"
    by (simp add: empty_platform_def)
  moreover from conjunct1[OF conjunct2[OF conjunct2[OF facts]]] tenant
  have "\<not> is_tenant_admin None (dr_members (pt_directory w1)) ?rq" by (rule mp)
  ultimately show ?thesis using run by (intro exI conjI)
qed

end
