(* ===== verification/Spec2Isabelle.thy ===== *)
theory Spec2Isabelle
  imports OAuthViews Idempotency PermissionCatalog Contracts Listings Stack TenantIsolation Deletion Startup Roles Workers Onboarding
begin

text \<open>
  A verification development for the DRF enterprise information platform, a multi-tenant
  Django REST backend with identity (users, memberships, roles, teams, OAuth2, MFA), document
  management (types, metadata, documents, versions, ingestion) and system services (event bus,
  audit, permission catalog, settings).

  \<^bold>\<open>How the parts interact.\<close>  A request passes the tenant middleware, which binds a boundary scope
  for the time of the request, the rate limiter and the idempotency middleware; the JWT
  authentication puts the tenant of the token into the scope; permission classes decide; the
  view set filters its rows by tenant; serializers run plugins around create and update (tenant
  injection, audit).  Uploads run through the ingestion pipeline, which publishes an event on a
  stream; the event bus delivers it to the document handler, which creates the document and its
  versions.  Login and the OAuth2 server issue the tokens the rest relies on.

  \<^bold>\<open>Theories, from the ground up\<close> (paths under \<open>src/\<close>).
  \<^item> \<open>Prelude\<close>: exceptions and results, rows of a table (\<open>filter\<close>, \<open>first\<close>, \<open>get\<close>, \<open>save\<close>),
    dictionaries in insertion order, the contract \<open>state_machine\<close>.
  \<^item> \<open>PyString\<close>: Python's string operations on Latin-1 text, \<open>int()\<close> and \<open>str(int)\<close>.
  \<^item> \<open>Stores\<close>: the cache service as a record of operations with its contract \<open>cache_api\<close>, and an
    instance with expiring entries; key-value stores.
  \<^item> \<open>Identity\<close>: users, tenants, roles, memberships, requests (\<open>apps/iam_users\<close>, \<open>apps/tenants\<close>,
    \<open>apps/iam_roles\<close>), user events, user attributes.
  \<^item> \<open>Tenancy\<close>: \<open>core/context.py\<close>, \<open>apps/tenants/{authentication,middleware,managers,filters,plugins}.py\<close>:
    the scope is restored and rows of other tenants stay invisible.
  \<^item> \<open>AccessControl\<close>: \<open>apps/tenants/permissions.py\<close>, \<open>core/permissions\<close>, membership actions.
  \<^item> \<open>OAuthStore\<close>, \<open>OAuth\<close>, \<open>OAuthViews\<close>: \<open>apps/iam_oauth\<close>: authorization codes, PKCE, client
    credentials, refresh rotation; a step relation \<open>oauth_step\<close> over the store with the
    invariant that a refresh lineage keeps its client, tenant and user and only loses scopes.
  \<^item> \<open>Lockout\<close>, \<open>Idempotency\<close>: \<open>apps/iam_auth/lockout.py\<close>, \<open>core/middleware\<close>: counting with
    \<open>add\<close> and \<open>incr\<close> over any cache that satisfies \<open>cache_api\<close>.
  \<^item> \<open>PermissionCatalog\<close>: \<open>apps/sys_permissions\<close>, \<open>apps/iam_roles\<close>: merging and validation of catalogs,
    seeded roles.
  \<^item> \<open>Metadata\<close>: \<open>apps/dms_metadata\<close>: JSON values, decimals, validation rules and values.
  \<^item> \<open>EventBus\<close>: \<open>apps/sys_eventbus\<close>: publisher, consumer, dispatch, retries and dead letters over
    any stream service that satisfies \<open>stream_api\<close>.
  \<^item> \<open>Ingestion\<close>: \<open>apps/dms_ingestion\<close>: validators, processors, checksums, storage backends
    (\<open>storage_provider\<close>), the pipeline and its task.
  \<^item> \<open>Lifecycle\<close>: \<open>core/base/{serializers,views,models}.py\<close>, plugins, audit, soft deletion, uniqueness.
  \<^item> \<open>Documents\<close>: \<open>apps/dms_document_types\<close>, \<open>apps/dms_documents\<close>, \<open>apps/dms_document_versions\<close>, and the
    way from an upload to a document.
  \<^item> \<open>TenantSettings\<close>: \<open>apps/tenant_settings\<close>, \<open>apps/tenants/utils.py\<close>.
  \<^item> \<open>Sessions\<close>, \<open>Mfa\<close>, \<open>Login\<close>: \<open>apps/iam_auth\<close>, \<open>apps/iam_mfa\<close>: token tables, session limit,
    logout, TOTP devices, backup codes, challenge tokens, login with all its policies,
    unlocking, password changes.
  \<^item> \<open>Utilities\<close>: \<open>core/utils/security.py\<close>, \<open>core/validators\<close>, \<open>core/pagination\<close>, \<open>core/exceptions\<close>,
    \<open>core/renderers\<close>.
  \<^item> \<open>Contracts\<close>: abstract specifications and the refinements to them: the typing of metadata, and
    sessions as lists of token ids.
  \<^item> \<open>Representation\<close>: \<open>core/fields/related.py\<close>: the rows a foreign key may name, the nested
    representation of instances over object graphs with cycles.
  \<^item> \<open>Directory\<close>: \<open>apps/tenants/{views,serializers}.py\<close>, \<open>apps/iam_teams\<close>: memberships, teams and
    their members as a transition system.
  \<^item> \<open>Listings\<close>: \<open>apps/iam_users/{views,serializers}.py\<close>, \<open>apps/sys_user_event\<close>, \<open>apps/sys_health\<close>,
    \<open>core/filters/base.py\<close>: the own profile, the listings of events and attempts, health
    probes, generated filters.
  \<^item> \<open>Stack\<close>: the middleware of \<open>config/settings/base.py\<close> in its order around an authenticating
    view: what a client without a session gets from the idempotency key and the rate limit.
  \<^item> \<open>Viewsets\<close>: \<open>core/base/{views,serializers}.py\<close>: the generic resource, its endpoints and the
    contract \<open>resource_laws\<close> of what they do to a table and to the audit log.
  \<^item> \<open>DmsApi\<close>: the endpoints of document types, metadata definitions, documents and versions as
    resources over one store, requests as steps, the invariants of every reachable store.
  \<^item> \<open>TenantIsolation\<close>: the contract \<open>resource_local\<close> (a resource reads the rows of one tenant) and
    noninterference between tenants for all sequences of requests.
  \<^item> \<open>Schema\<close>, \<open>Migrations\<close>, \<open>MigratedSchema\<close>: the model classes of all \<open>models.py\<close> files, the
    migration files, and the contract \<open>migration_plan\<close>: whatever order the dependencies allow,
    the files build the declared tables.
  \<^item> \<open>Deletion\<close>: the \<open>on_delete\<close> rules the models declare, applied to rows of all tables: what a
    removal takes along, when it is refused, that no reference is left dangling, and what
    becomes of the audit entry of a removal.
  \<^item> \<open>Configuration\<close>: \<open>config/settings/base.py\<close> as a function of the environment (the reader is a
    parameter): when it loads, what an unconfigured platform limits, and that no environment
    gives the MFA component a key.
  \<^item> \<open>Startup\<close>: \<open>config/{__init__,celery,wsgi,asgi}.py\<close>, \<open>manage.py\<close>, the settings modules \<open>dev\<close>,
    \<open>prod\<close> and \<open>test\<close>, \<open>core/telemetry/setup.py\<close>: which settings and which telemetry a process
    ends up with.
  \<^item> \<open>Roles\<close>: \<open>apps/iam_roles/{views,serializers}.py\<close>: role endpoints as a resource, permissions as
    the JSON that was sent; viewer roles stay read-only, only administrators change roles.
  \<^item> \<open>Workers\<close>: the schedule, the job queue and the worker processes around the poll, the handlers
    and the pipeline: the polls of an empty stream take all processes and nothing goes on.
  \<^item> \<open>Onboarding\<close>: \<open>TenantViewSet\<close>, the seeding signal and \<open>UserManager\<close> together with the directory and
    the login: nobody gets into a new tenant or a fresh installation.

  \<^bold>\<open>What the groups of lemmas show.\<close>  Safety of tokens (single use, rotation, lineages, revocation,
  sessions, challenges, backup codes); isolation of tenants (scope, rows, creates, settings);
  authority (permissions, roles, unlocking); counting (lockout, rate limit, session limit);
  delivery (stream, retries, pipeline, upload to document); validation (metadata, catalogs,
  settings, passwords); deployment (settings, start-up, worker processes, the first tenant); and, where the code does not do what it says, the theorem that shows it.

  \<^bold>\<open>Conventions.\<close>  A database table is the list of its rows in insertion order; an ordering that the
  code asks for is a stable sort, so rows with equal keys keep the table's order.  Requests run
  one at a time and without a transaction around them, as configured: what was written before
  an exception stays.  Races that the code allows are explicit interleavings of the steps of two
  requests.  An exception is a value of \<open>exn\<close>; a step that changes state and may raise returns
  both.  Time is an integer number of seconds and an argument; fresh ids, secrets and random
  choices are arguments.  Strings are Latin-1.  Code outside the repository is a parameter:
  cryptography, JWT, TOTP and password hashing (\<open>crypto_contract\<close>, \<open>issuer_contract\<close>), regular
  expressions, e-mail, URL, address and date parsers, JSON parsing and JSON Schema, the cache,
  stream and storage services.  What is relied on is stated by name, and an executable instance
  shows each contract can hold.

  \<^bold>\<open>Bounds and termination.\<close>  The revocation walk of a refresh chain ends because the tokens it visits
  are marked revoked; the task of the pipeline runs at most four times, a handler of an event at
  most its configured retries plus one; files are read in chunks of 8192 bytes.  IP addresses are
  words of 32 and 128 bits.  No other function needs fuel.

  \<^bold>\<open>Not modelled.\<close>  URL tables, application configuration, OpenAPI schemas and log messages have no
  behaviour of their own to verify; management commands print what the modelled validators
  answer.  Sliding-window throttling, page slicing and the query-string filters are the
  framework's.  The task result backend declares columns of a library's tables.
\<close>

end
